(* ===== verification/GoPrelude.thy ===== *)
theory GoPrelude
  imports Main "HOL-Library.Signed_Division" "HOL-Library.Sublist"
begin

text \<open>
  The parts of Go's language and standard library the components use, and the lemma collections
  of the development.

  Go strings are byte sequences: \<^typ>\<open>string\<close> (a list of 8-bit characters). \<open>strings.TrimSpace\<close>
  removes Unicode white space, so the encodings of the non-ASCII spaces are listed byte by byte.
  \<open>int\<close> and \<open>int64\<close> values are \<^typ>\<open>int\<close> with the two's complement wrap-around \<open>wrap64\<close> written
  where the code computes; division is Go's, truncating towards zero.
  Time instants are milliseconds (the precision of the DATETIME(3) columns) as \<^typ>\<open>int\<close>.
\<close>

named_theorems go_simps \<open>evaluation of Go library functions\<close>
named_theorems tbl_simps \<open>lookups and updates of table rows\<close>
named_theorems run_simps \<open>the successful runs of database programs\<close>
named_theorems calm_simps \<open>runs of database programs in which nothing fails\<close>

type_synonym int64 = int
type_synonym instant = int

section \<open>64-bit integers\<close>

definition wrap64 :: "int \<Rightarrow> int64" where
  "wrap64 x = (x + 2 ^ 63) mod 2 ^ 64 - 2 ^ 63"

definition in_int64 :: "int \<Rightarrow> bool" where
  "in_int64 x \<longleftrightarrow> - (2 ^ 63) \<le> x \<and> x < 2 ^ 63"

lemma wrap64_id [go_simps]: "in_int64 x \<Longrightarrow> wrap64 x = x"
  by (simp add: in_int64_def wrap64_def)

lemma in_int64_wrap64: "in_int64 (wrap64 x)"
proof -
  have "0 \<le> (x + 2 ^ 63) mod 2 ^ 64" and "(x + 2 ^ 63) mod 2 ^ 64 < (2 ^ 64 :: int)"
    by simp_all
  then show ?thesis by (simp add: in_int64_def wrap64_def)
qed

lemma sdiv_nonneg [go_simps]: "0 \<le> (a :: int) \<Longrightarrow> 0 < b \<Longrightarrow> a sdiv b = a div b"
  by (cases "a = 0") (simp_all add: signed_divide_int_def sgn_if)

lemma smod_nonneg [go_simps]: "0 \<le> (a :: int) \<Longrightarrow> 0 < b \<Longrightarrow> a smod b = a mod b"
  by (cases "a = 0") (simp_all add: signed_modulo_int_def sgn_if)

section \<open>strings.TrimSpace\<close>

text \<open>The UTF-8 encodings of the code points for which \<open>unicode.IsSpace\<close> holds.\<close>

definition space_encodings :: "string list" where
  "space_encodings =
     [[CHR 0x09], [CHR 0x0A], [CHR 0x0B], [CHR 0x0C], [CHR 0x0D], [CHR 0x20],
      [CHR 0xC2, CHR 0x85], [CHR 0xC2, CHR 0xA0], [CHR 0xE1, CHR 0x9A, CHR 0x80],
      [CHR 0xE2, CHR 0x80, CHR 0x80], [CHR 0xE2, CHR 0x80, CHR 0x81],
      [CHR 0xE2, CHR 0x80, CHR 0x82], [CHR 0xE2, CHR 0x80, CHR 0x83],
      [CHR 0xE2, CHR 0x80, CHR 0x84], [CHR 0xE2, CHR 0x80, CHR 0x85],
      [CHR 0xE2, CHR 0x80, CHR 0x86], [CHR 0xE2, CHR 0x80, CHR 0x87],
      [CHR 0xE2, CHR 0x80, CHR 0x88], [CHR 0xE2, CHR 0x80, CHR 0x89],
      [CHR 0xE2, CHR 0x80, CHR 0x8A], [CHR 0xE2, CHR 0x80, CHR 0xA8],
      [CHR 0xE2, CHR 0x80, CHR 0xA9], [CHR 0xE2, CHR 0x80, CHR 0xAF],
      [CHR 0xE2, CHR 0x81, CHR 0x9F], [CHR 0xE3, CHR 0x80, CHR 0x80]]"

definition leading :: "string list \<Rightarrow> string \<Rightarrow> string option" where
  "leading ps s = find (\<lambda>p. p \<noteq> [] \<and> take (length p) s = p) ps"

lemma leading_SomeD:
  "leading ps s = Some p \<Longrightarrow> p \<in> set ps \<and> p \<noteq> [] \<and> take (length p) s = p"
  by (auto simp: leading_def find_Some_iff)

lemma leading_NoneD:
  "leading ps s = None \<Longrightarrow> p \<in> set ps \<Longrightarrow> p \<noteq> [] \<Longrightarrow> take (length p) s \<noteq> p"
  by (auto simp: leading_def find_None_iff)

function strip_leading :: "string list \<Rightarrow> string \<Rightarrow> string" where
  "strip_leading ps s =
     (case leading ps s of None \<Rightarrow> s | Some p \<Rightarrow> strip_leading ps (drop (length p) s))"
  by pat_completeness auto
termination
proof (relation "measure (\<lambda>(ps, s). length s)")
  fix ps s p
  assume "leading ps s = Some p"
  then have "p \<noteq> []" and "take (length p) s = p"
    by (auto dest: leading_SomeD)
  then have "s \<noteq> []" by auto
  with \<open>p \<noteq> []\<close> show "((ps, drop (length p) s), ps, s) \<in> measure (\<lambda>(ps, s). length s)"
    by (cases p; cases s) auto
qed simp

declare strip_leading.simps [simp del]

definition TrimSpace :: "string \<Rightarrow> string" where
  "TrimSpace s =
     rev (strip_leading (map rev space_encodings) (rev (strip_leading space_encodings s)))"

lemma leading_strip_leading [go_simps]: "leading ps (strip_leading ps s) = None"
proof (induction ps s rule: strip_leading.induct)
  case (1 ps s)
  then show ?case
    by (cases "leading ps s") (simp_all add: strip_leading.simps [of ps s])
qed

lemma strip_leading_id [go_simps]: "leading ps s = None \<Longrightarrow> strip_leading ps s = s"
  by (simp add: strip_leading.simps)

lemma strip_leading_suffix: "suffix (strip_leading ps s) s"
proof (induction ps s rule: strip_leading.induct)
  case (1 ps s)
  show ?case
  proof (cases "leading ps s")
    case None
    then show ?thesis by (simp add: strip_leading_id)
  next
    case (Some p)
    with "1" have "suffix (strip_leading ps (drop (length p) s)) (drop (length p) s)"
      by simp
    moreover have "suffix (drop (length p) s) s" by (rule suffix_drop)
    ultimately have "suffix (strip_leading ps (drop (length p) s)) s"
      by (rule suffix_order.trans)
    then show ?thesis using Some by (simp add: strip_leading.simps [of ps s])
  qed
qed

lemma leading_prefix:
  assumes "leading ps s = None" and "prefix t s"
  shows "leading ps t = None"
proof (rule ccontr)
  assume "leading ps t \<noteq> None"
  then obtain p where p: "leading ps t = Some p" by auto
  from p have "p \<in> set ps" "p \<noteq> []" "take (length p) t = p" by (auto dest: leading_SomeD)
  moreover have "take (length p) s = p"
  proof -
    from \<open>take (length p) t = p\<close> have "length p \<le> length t"
      by (metis length_take min.cobounded1 min.absorb_iff2)
    with \<open>take (length p) t = p\<close> assms(2) show ?thesis
      by (auto elim!: prefixE)
  qed
  ultimately show False using assms(1) by (auto dest: leading_NoneD)
qed

text \<open>Trimming is idempotent: what is left starts and ends with no space.\<close>

lemma TrimSpace_prefix: "prefix (TrimSpace s) (strip_leading space_encodings s)"
  using strip_leading_suffix [of "map rev space_encodings" "rev (strip_leading space_encodings s)"]
  by (simp add: TrimSpace_def suffix_to_prefix)

lemma TrimSpace_no_leading [go_simps]: "leading space_encodings (TrimSpace s) = None"
  by (rule leading_prefix [OF leading_strip_leading TrimSpace_prefix])

lemma TrimSpace_no_trailing [go_simps]:
  "leading (map rev space_encodings) (rev (TrimSpace s)) = None"
  by (simp add: TrimSpace_def leading_strip_leading)

lemma TrimSpace_idem [simp]: "TrimSpace (TrimSpace s) = TrimSpace s"
  by (simp add: TrimSpace_def [of "TrimSpace s"] go_simps)

section \<open>strconv.ParseInt(s, 10, 64) and strconv.FormatInt(n, 10)\<close>

definition digit_value :: "char \<Rightarrow> nat option" where
  "digit_value c =
     (let n = of_char c in if 48 \<le> n \<and> n \<le> (57 :: nat) then Some (n - 48) else None)"

definition digit_char :: "nat \<Rightarrow> char" where
  "digit_char n = char_of (48 + n)"

fun parse_digits :: "nat \<Rightarrow> string \<Rightarrow> nat option" where
  "parse_digits acc [] = Some acc"
| "parse_digits acc (c # cs) =
     (case digit_value c of None \<Rightarrow> None | Some d \<Rightarrow> parse_digits (10 * acc + d) cs)"

lemma parse_digits_mono: "parse_digits acc s = Some u \<Longrightarrow> acc \<le> u"
proof (induction acc s rule: parse_digits.induct)
  case (2 acc c cs)
  then show ?case by (fastforce split: option.splits)
qed simp

text \<open>
  \<open>strconv.ParseUint\<close>: the loop stops at the first character that is no digit (syntax error) or at
  the first prefix whose value does not fit 64 bits (range error).
\<close>

datatype num_err = ErrSyntax | ErrRange

fun uint_loop :: "nat \<Rightarrow> string \<Rightarrow> num_err + nat" where
  "uint_loop acc [] = Inr acc"
| "uint_loop acc (c # cs) =
     (case digit_value c of
        None \<Rightarrow> Inl ErrSyntax
      | Some d \<Rightarrow> if 2 ^ 64 \<le> 10 * acc + d then Inl ErrRange else uint_loop (10 * acc + d) cs)"

definition ParseUint :: "string \<Rightarrow> num_err + nat" where
  "ParseUint s = (if s = [] then Inl ErrSyntax else uint_loop 0 s)"

lemma uint_loop_parse_digits:
  "parse_digits acc s = Some u \<Longrightarrow> u < 2 ^ 64 \<Longrightarrow> uint_loop acc s = Inr u"
proof (induction acc s rule: parse_digits.induct)
  case (2 acc c cs)
  then show ?case by (fastforce split: option.splits dest: parse_digits_mono)
qed simp

text \<open>
  \<open>strconv.ParseInt(s, 10, 64)\<close> returns a value beside its error: 0 after a syntax error, the
  nearest representable number after a range error. \<open>ParseInt\<close> is what callers that test the
  error see, \<open>ParseInt_value\<close> what callers that drop it compute with.
\<close>

definition ParseInt_full :: "string \<Rightarrow> int64 \<times> num_err option" where
  "ParseInt_full s =
     (let neg = (s \<noteq> [] \<and> hd s = CHR ''-'');
          body = (if s \<noteq> [] \<and> (hd s = CHR ''-'' \<or> hd s = CHR ''+'') then tl s else s)
      in case ParseUint body of
           Inl ErrSyntax \<Rightarrow> (0, Some ErrSyntax)
         | Inl ErrRange \<Rightarrow> (if neg then - (2 ^ 63) else 2 ^ 63 - 1, Some ErrRange)
         | Inr u \<Rightarrow>
             (if neg then (if 2 ^ 63 < u then (- (2 ^ 63), Some ErrRange) else (- int u, None))
              else if 2 ^ 63 \<le> u then (2 ^ 63 - 1, Some ErrRange) else (int u, None)))"

definition ParseInt :: "string \<Rightarrow> int64 option" where
  "ParseInt s = (case ParseInt_full s of (v, None) \<Rightarrow> Some v | (_, Some _) \<Rightarrow> None)"

definition ParseInt_value :: "string \<Rightarrow> int64" where
  "ParseInt_value s = fst (ParseInt_full s)"

fun nat_digits :: "nat \<Rightarrow> string" where
  "nat_digits n =
     (if n < 10 then [digit_char n] else nat_digits (n div 10) @ [digit_char (n mod 10)])"

declare nat_digits.simps [simp del]

definition FormatInt :: "int64 \<Rightarrow> string" where
  "FormatInt n = (if n < 0 then CHR ''-'' # nat_digits (nat (- n)) else nat_digits (nat n))"

lemma digit_value_char [go_simps]: "n < 10 \<Longrightarrow> digit_value (digit_char n) = Some n"
  by (simp add: digit_value_def digit_char_def Let_def)

lemma digit_char_not_sign: "n < 10 \<Longrightarrow> digit_char n \<noteq> CHR ''-'' \<and> digit_char n \<noteq> CHR ''+''"
proof -
  assume n: "n < 10"
  have "digit_value (CHR ''-'') = None" and "digit_value (CHR ''+'') = None"
    by (simp_all add: digit_value_def)
  with digit_value_char [OF n] show ?thesis by auto
qed

lemma parse_digits_append:
  "parse_digits acc (xs @ ys) =
     (case parse_digits acc xs of None \<Rightarrow> None | Some a \<Rightarrow> parse_digits a ys)"
  by (induction acc xs rule: parse_digits.induct) (auto split: option.split)

lemma nat_digits_nonempty [simp]: "nat_digits n \<noteq> []"
  by (subst nat_digits.simps) simp

lemma parse_nat_digits: "parse_digits 0 (nat_digits n) = Some n"
proof (induction n rule: nat_digits.induct)
  case (1 n)
  show ?case
  proof (cases "n < 10")
    case True
    then show ?thesis by (simp add: nat_digits.simps [of n] go_simps)
  next
    case False
    with "1" have "parse_digits 0 (nat_digits (n div 10)) = Some (n div 10)" by simp
    with False show ?thesis
      by (simp add: nat_digits.simps [of n] parse_digits_append digit_value_char)
  qed
qed

lemma hd_nat_digits: "\<exists>d < 10. hd (nat_digits n) = digit_char d"
proof (induction n rule: nat_digits.induct)
  case (1 n)
  show ?case
  proof (cases "n < 10")
    case True
    then show ?thesis by (auto simp: nat_digits.simps [of n])
  next
    case False
    with "1" show ?thesis by (simp add: nat_digits.simps [of n])
  qed
qed

lemma hd_nat_digits_sign: "hd (nat_digits n) \<noteq> CHR ''-'' \<and> hd (nat_digits n) \<noteq> CHR ''+''"
  using hd_nat_digits [of n] digit_char_not_sign by metis

lemma ParseUint_nat_digits: "n < 2 ^ 64 \<Longrightarrow> ParseUint (nat_digits n) = Inr n"
  by (simp add: ParseUint_def uint_loop_parse_digits [OF parse_nat_digits])

lemma ParseInt_nat_digits: "n < 2 ^ 63 \<Longrightarrow> ParseInt (nat_digits n) = Some (int n)"
  using hd_nat_digits_sign [of n] ParseUint_nat_digits [of n]
  by (simp add: ParseInt_def ParseInt_full_def Let_def)

lemma ParseInt_FormatInt [go_simps]:
  assumes "in_int64 n"
  shows "ParseInt (FormatInt n) = Some n"
proof (cases "n < 0")
  case True
  with assms have "nat (- n) \<le> 2 ^ 63" by (simp add: in_int64_def)
  with True show ?thesis
    using ParseUint_nat_digits [of "nat (- n)"]
    by (simp add: FormatInt_def ParseInt_def ParseInt_full_def)
next
  case False
  with assms have "nat n < 2 ^ 63" by (simp add: in_int64_def nat_less_iff)
  with False show ?thesis by (simp add: FormatInt_def ParseInt_nat_digits)
qed

lemma ParseInt_range: "ParseInt s = Some n \<Longrightarrow> in_int64 n"
  by (auto simp: ParseInt_def ParseInt_full_def in_int64_def Let_def
      split: sum.splits num_err.splits if_splits)

text \<open>A printed number has no space at either end, so trimming leaves it alone.\<close>

lemma nat_digits_inject: "nat_digits m = nat_digits n \<longleftrightarrow> m = n"
  using parse_nat_digits option.inject by metis

lemma FormatInt_inject: "FormatInt m = FormatInt n \<longleftrightarrow> m = n"
proof
  have sign: "nat_digits k \<noteq> CHR ''-'' # xs" for k xs using hd_nat_digits_sign [of k] by force
  assume "FormatInt m = FormatInt n"
  with sign sign [symmetric] show "m = n"
    by (auto simp: FormatInt_def nat_digits_inject nat_eq_iff split: if_splits)
qed simp

lemma nat_digits_range: "c \<in> set (nat_digits n) \<Longrightarrow> \<exists>d < 10. c = digit_char d"
proof (induction n rule: nat_digits.induct)
  case (1 n)
  then show ?case
    by (cases "n < 10")
      (simp_all add: nat_digits.simps [of n], (metis mod_less_divisor zero_less_numeral)+)
qed

definition number_char :: "char \<Rightarrow> bool" where
  "number_char c \<longleftrightarrow> c = CHR ''-'' \<or> digit_value c \<noteq> None"

lemma FormatInt_number_chars: "c \<in> set (FormatInt n) \<Longrightarrow> number_char c"
  by (auto simp: FormatInt_def number_char_def digit_value_char
      dest!: nat_digits_range split: if_splits)

lemma space_encodings_not_number:
  "list_all (\<lambda>p. p \<noteq> [] \<and> \<not> number_char (hd p) \<and> \<not> number_char (last p)) space_encodings"
  by (simp add: space_encodings_def number_char_def digit_value_def)

lemma leading_not_number:
  assumes ps: "\<And>p. p \<in> set ps \<Longrightarrow> p \<noteq> [] \<and> \<not> number_char (hd p)"
    and s: "\<And>c. c \<in> set s \<Longrightarrow> number_char c"
  shows "leading ps s = None"
proof (rule ccontr)
  assume "leading ps s \<noteq> None"
  then obtain p where "leading ps s = Some p" by auto
  then have p: "p \<in> set ps" "p \<noteq> []" "take (length p) s = p" by (auto dest: leading_SomeD)
  then have "hd p \<in> set s" by (metis hd_in_set in_set_takeD)
  with s ps [OF p(1)] show False by blast
qed

lemma TrimSpace_number:
  assumes "\<And>c. c \<in> set s \<Longrightarrow> number_char c"
  shows "TrimSpace s = s"
proof -
  have "leading space_encodings s = None"
    by (rule leading_not_number) (use assms space_encodings_not_number in \<open>auto simp: list_all_iff\<close>)
  moreover have "leading (map rev space_encodings) (rev s) = None"
    by (rule leading_not_number)
      (use assms space_encodings_not_number in \<open>auto simp: list_all_iff hd_rev\<close>)
  ultimately show ?thesis by (simp add: TrimSpace_def strip_leading_id)
qed

lemma TrimSpace_FormatInt [simp]: "TrimSpace (FormatInt n) = FormatInt n"
  by (rule TrimSpace_number) (rule FormatInt_number_chars)

section \<open>Times\<close>

text \<open>The zero \<open>time.Time\<close>, the first instant of the year 1.\<close>

definition zero_time :: instant where
  "zero_time = - 62135596800000"

section \<open>Other functions on strings\<close>

text \<open>\<open>strings.ToLower\<close> on the bytes below 128.\<close>

definition lower_char :: "char \<Rightarrow> char" where
  "lower_char c =
     (let n = of_char c :: nat in if 65 \<le> n \<and> n \<le> 90 then char_of (n + 32) else c)"

text \<open>\<open>strings.Split\<close> and \<open>strings.Join\<close> with a separator of one byte.\<close>

fun split_at :: "char \<Rightarrow> string \<Rightarrow> string list" where
  "split_at c [] = [[]]"
| "split_at c (x # s) =
     (if x = c then [] # split_at c s
      else case split_at c s of [] \<Rightarrow> [[x]] | p # ps \<Rightarrow> (x # p) # ps)"

fun join_with :: "char \<Rightarrow> string list \<Rightarrow> string" where
  "join_with c [] = []"
| "join_with c [p] = p"
| "join_with c (p # q # ps) = p @ c # join_with c (q # ps)"

lemma split_at_nonempty [simp]: "split_at c s \<noteq> []"
  by (induction s) (auto split: list.split)

lemma split_at_no_sep: "c \<notin> set s \<Longrightarrow> split_at c s = [s]"
  by (induction s) auto

lemma split_at_append: "c \<notin> set p \<Longrightarrow> split_at c (p @ c # s) = p # split_at c s"
  by (induction p) auto

lemma split_join: "ps \<noteq> [] \<Longrightarrow> \<forall>p \<in> set ps. c \<notin> set p \<Longrightarrow> split_at c (join_with c ps) = ps"
  by (induction c ps rule: join_with.induct) (auto simp: split_at_no_sep split_at_append)

lemma split_at_parts: "p \<in> set (split_at c s) \<Longrightarrow> c \<notin> set p"
proof (induction s arbitrary: p)
  case (Cons x s)
  then show ?case by (cases "split_at c s") (auto split: if_splits)
qed simp

text \<open>
  \<open>strings.Fields\<close>: the maximal parts without white space. White space is recognised at the beginning of a rune,
  which is where the bytes listed above can stand in valid UTF-8.
\<close>

function fields_loop :: "string \<Rightarrow> string \<Rightarrow> string list" where
  "fields_loop cur s =
     (let done = (if cur = [] then [] else [rev cur])
      in case leading space_encodings s of
           Some p \<Rightarrow> done @ fields_loop [] (drop (length p) s)
         | None \<Rightarrow> (case s of [] \<Rightarrow> done | c # rest \<Rightarrow> fields_loop (c # cur) rest))"
  by pat_completeness auto
termination
proof (relation "measure (\<lambda>(cur, s). length s)")
  fix cur s p and out :: "string list"
  assume "leading space_encodings s = Some p"
  then have "p \<noteq> []" and "take (length p) s = p" by (auto dest: leading_SomeD)
  then show "(([], drop (length p) s), cur, s) \<in> measure (\<lambda>(cur, s). length s)"
    by (cases p; cases s) auto
qed auto

declare fields_loop.simps [simp del]

definition strings_Fields :: "string \<Rightarrow> string list" where
  "strings_Fields s = fields_loop [] s"

text \<open>\<open>encoding/hex\<close>.\<close>

definition hex_digit :: "char \<Rightarrow> bool" where
  "hex_digit c \<longleftrightarrow> c \<in> set ''0123456789abcdefABCDEF''"

end
