(* ===== verification/Rel_Store.thy ===== *)
theory Rel_Store
  imports GoPrelude
begin

text \<open>
  The relational store the repositories talk to, and the programs that run on it.

  A table is the list of its rows. A statement of a repository method (\<open>Take\<close>, \<open>Count\<close>, \<open>Create\<close>,
  \<open>Updates\<close> of the query builder) is translated into the list operation its SQL text denotes.
  Every statement, and every commit, may fail: the world carries the outcomes the environment has
  chosen (\<open>faults\<close>, one entry consumed per statement or commit, \<open>True\<close> for a failure), and all
  theorems quantify over them. A transaction that ends in an error leaves the tables as they were.
  Calls that leave the process (payment gateway, notifications) are recorded in \<open>outbox\<close>.

  \<open>outcome m t r t'\<close> says that program \<open>m\<close>, started on tables \<open>t\<close>, can end with result \<open>r\<close> and
  tables \<open>t'\<close> under some choice of faults. The proofs about repositories work with this relation.
\<close>

section \<open>Programs\<close>

datatype db_err = RecordNotFound | UniqueViolation | DbFailure | NotInitialized

text \<open>An \<open>error\<close> value of a repository: one of the package's sentinel errors or a database error.\<close>

datatype 'e goerror = Sentinel 'e | Db db_err

record ('t, 'o) world =
  tables :: 't
  connected :: bool
  faults :: "bool list"
  outbox :: "'o list"

type_synonym ('t, 'o, 'e, 'a) prog = "('t, 'o) world \<Rightarrow> ('e + 'a) \<times> ('t, 'o) world"

definition ret :: "'a \<Rightarrow> ('t, 'o, 'e, 'a) prog" where
  "ret x w = (Inr x, w)"

definition throw :: "'e \<Rightarrow> ('t, 'o, 'e, 'a) prog" where
  "throw e w = (Inl e, w)"

definition bind ::
  "('t, 'o, 'e, 'a) prog \<Rightarrow> ('a \<Rightarrow> ('t, 'o, 'e, 'b) prog) \<Rightarrow> ('t, 'o, 'e, 'b) prog" where
  "bind m f w = (case m w of (Inl e, w') \<Rightarrow> (Inl e, w') | (Inr x, w') \<Rightarrow> f x w')"

text \<open>\<open>x, err := m\<close>: the caller inspects the error itself.\<close>

definition attempt :: "('t, 'o, 'e, 'a) prog \<Rightarrow> ('t, 'o, 'f, 'e + 'a) prog" where
  "attempt m w = (case m w of (r, w') \<Rightarrow> (Inr r, w'))"

text \<open>\<open>if err != nil { return f(err) }\<close>.\<close>

definition map_error :: "('e \<Rightarrow> 'f) \<Rightarrow> ('t, 'o, 'e, 'a) prog \<Rightarrow> ('t, 'o, 'f, 'a) prog" where
  "map_error f m w = (case m w of (Inl e, w') \<Rightarrow> (Inl (f e), w') | (Inr x, w') \<Rightarrow> (Inr x, w'))"

definition emit :: "'o \<Rightarrow> ('t, 'o, 'e, unit) prog" where
  "emit ev w = (Inr (), w\<lparr>outbox := outbox w @ [ev]\<rparr>)"

definition faulty :: "('t, 'o) world \<Rightarrow> bool" where
  "faulty w \<longleftrightarrow> faults w \<noteq> [] \<and> hd (faults w)"

text \<open>\<open>gormDB(ctx)\<close>: the handle may be missing.\<close>

definition gormDB :: "('t, 'o, 'e goerror, unit) prog" where
  "gormDB w = (if connected w then (Inr (), w) else (Inl (Db NotInitialized), w))"

definition stmt :: "('t \<Rightarrow> db_err + ('a \<times> 't)) \<Rightarrow> ('t, 'o, 'e goerror, 'a) prog" where
  "stmt f w =
     (let w1 = w\<lparr>faults := tl (faults w)\<rparr>
      in if faulty w then (Inl (Db DbFailure), w1)
         else (case f (tables w) of
                 Inl e \<Rightarrow> (Inl (Db e), w1)
               | Inr (x, t) \<Rightarrow> (Inr x, w1\<lparr>tables := t\<rparr>)))"

definition transaction ::
  "('t, 'o, 'e goerror, 'a) prog \<Rightarrow> ('t, 'o, 'e goerror, 'a) prog" where
  "transaction m w =
     (case m w of
        (Inl e, w') \<Rightarrow> (Inl e, w'\<lparr>tables := tables w\<rparr>)
      | (Inr x, w') \<Rightarrow>
          (let w1 = w'\<lparr>faults := tl (faults w')\<rparr>
           in if faulty w' then (Inl (Db DbFailure), w1\<lparr>tables := tables w\<rparr>) else (Inr x, w1)))"

section \<open>Statements\<close>

definition lookup :: "('r \<Rightarrow> 'k) \<Rightarrow> 'r list \<Rightarrow> 'k \<Rightarrow> 'r option" where
  "lookup key rows k = find (\<lambda>r. key r = k) rows"

definition update_rows :: "('r \<Rightarrow> bool) \<Rightarrow> ('r \<Rightarrow> 'r) \<Rightarrow> 'r list \<Rightarrow> 'r list" where
  "update_rows P f rows = map (\<lambda>r. if P r then f r else r) rows"

text \<open>\<open>UpdateOne\<close> of MongoDB changes the first document that matches.\<close>

fun update_first :: "('a \<Rightarrow> bool) \<Rightarrow> ('a \<Rightarrow> 'a) \<Rightarrow> 'a list \<Rightarrow> 'a list" where
  "update_first P f [] = []"
| "update_first P f (x # xs) = (if P x then f x # xs else x # update_first P f xs)"

text \<open>
  \<open>RowsAffected\<close> of the MySQL driver, as the service's DSN configures it (no \<open>clientFoundRows\<close>):
  the number of rows an UPDATE really changed.
\<close>

definition rows_changed :: "('r \<Rightarrow> bool) \<Rightarrow> ('r \<Rightarrow> 'r) \<Rightarrow> 'r list \<Rightarrow> nat" where
  "rows_changed P f rows = length (filter (\<lambda>r. P r \<and> f r \<noteq> r) rows)"

definition take_row :: "('t \<Rightarrow> 'r list) \<Rightarrow> ('r \<Rightarrow> bool) \<Rightarrow> ('t, 'o, 'e goerror, 'r) prog" where
  "take_row tab P =
     stmt (\<lambda>t. case find P (tab t) of None \<Rightarrow> Inl RecordNotFound | Some r \<Rightarrow> Inr (r, t))"

definition read_rows :: "('t \<Rightarrow> 'a) \<Rightarrow> ('t, 'o, 'e goerror, 'a) prog" where
  "read_rows q = stmt (\<lambda>t. Inr (q t, t))"

text \<open>\<open>ok\<close> is the table's primary key and unique indexes as a check on its rows.\<close>

definition create_row ::
  "('t \<Rightarrow> 'r list) \<Rightarrow> (('r list \<Rightarrow> 'r list) \<Rightarrow> 't \<Rightarrow> 't) \<Rightarrow> ('r list \<Rightarrow> bool) \<Rightarrow> 'r
    \<Rightarrow> ('t, 'o, 'e goerror, unit) prog" where
  "create_row tab upd ok r =
     stmt (\<lambda>t. if ok (tab t @ [r]) then Inr ((), upd (\<lambda>rows. rows @ [r]) t) else Inl UniqueViolation)"

text \<open>INSERT into a table with a foreign key: \<open>fk\<close> says that the referenced row exists.\<close>

definition create_child ::
  "('t \<Rightarrow> bool) \<Rightarrow> ('t \<Rightarrow> 'r list) \<Rightarrow> (('r list \<Rightarrow> 'r list) \<Rightarrow> 't \<Rightarrow> 't) \<Rightarrow> ('r list \<Rightarrow> bool) \<Rightarrow> 'r
    \<Rightarrow> ('t, 'o, 'e goerror, unit) prog" where
  "create_child fk tab upd ok r =
     stmt (\<lambda>t. if \<not> fk t then Inl DbFailure
               else if ok (tab t @ [r]) then Inr ((), upd (\<lambda>rows. rows @ [r]) t) else Inl UniqueViolation)"

text \<open>INSERT with \<open>OnConflict{DoNothing: true}\<close>: a row that collides on a unique key is dropped.\<close>

definition create_or_ignore ::
  "('t \<Rightarrow> 'r list) \<Rightarrow> (('r list \<Rightarrow> 'r list) \<Rightarrow> 't \<Rightarrow> 't) \<Rightarrow> ('r list \<Rightarrow> bool) \<Rightarrow> 'r
    \<Rightarrow> ('t, 'o, 'e goerror, unit) prog" where
  "create_or_ignore tab upd ok r =
     stmt (\<lambda>t. Inr ((), if ok (tab t @ [r]) then upd (\<lambda>rows. rows @ [r]) t else t))"

definition update_where ::
  "('t \<Rightarrow> 'r list) \<Rightarrow> (('r list \<Rightarrow> 'r list) \<Rightarrow> 't \<Rightarrow> 't) \<Rightarrow> ('r list \<Rightarrow> bool)
    \<Rightarrow> ('r \<Rightarrow> bool) \<Rightarrow> ('r \<Rightarrow> 'r) \<Rightarrow> ('t, 'o, 'e goerror, nat) prog" where
  "update_where tab upd ok P f =
     stmt (\<lambda>t. if ok (update_rows P f (tab t))
               then Inr (rows_changed P f (tab t), upd (update_rows P f) t)
               else Inl UniqueViolation)"

text \<open>DELETE: the number of rows removed.\<close>

definition delete_where ::
  "('t \<Rightarrow> 'r list) \<Rightarrow> (('r list \<Rightarrow> 'r list) \<Rightarrow> 't \<Rightarrow> 't) \<Rightarrow> ('r \<Rightarrow> bool) \<Rightarrow> ('t, 'o, 'e goerror, nat) prog" where
  "delete_where tab upd P =
     stmt (\<lambda>t. Inr (length (filter P (tab t)), upd (filter (\<lambda>r. \<not> P r)) t))"

text \<open>
  The \<open>FindX\<close> methods: \<open>Take\<close>, with \<open>gorm.ErrRecordNotFound\<close> turned into a nil result.
\<close>

definition find_row ::
  "('t \<Rightarrow> 'r list) \<Rightarrow> ('r \<Rightarrow> bool) \<Rightarrow> ('t, 'o, 'e goerror, 'r option) prog" where
  "find_row tab P =
     bind (attempt (take_row tab P)) (\<lambda>r. case r of
       Inl (Db RecordNotFound) \<Rightarrow> ret None
     | Inl e \<Rightarrow> throw e
     | Inr x \<Rightarrow> ret (Some x))"

text \<open>\<open>if cond { return sentinel }\<close>.\<close>

definition fail_if :: "bool \<Rightarrow> 'e \<Rightarrow> ('t, 'o, 'e goerror, unit) prog" where
  "fail_if b e = (if b then throw (Sentinel e) else ret ())"

text \<open>\<open>if err != nil { return sentinel }\<close>, whatever the error was.\<close>

definition or_sentinel ::
  "('t, 'o, 'e goerror, 'a) prog \<Rightarrow> 'e \<Rightarrow> ('t, 'o, 'e goerror, 'a) prog" where
  "or_sentinel m e = map_error (\<lambda>_. Sentinel e) m"

section \<open>Outcomes\<close>

definition outcome :: "('t, 'o, 'e, 'a) prog \<Rightarrow> 't \<Rightarrow> 'e + 'a \<Rightarrow> 't \<Rightarrow> bool" where
  "outcome m t r t' \<longleftrightarrow> (\<exists>w w'. tables w = t \<and> m w = (r, w') \<and> tables w' = t')"

lemma outcomeI [intro?]: "m w = (r, w') \<Longrightarrow> outcome m (tables w) r (tables w')"
  by (auto simp: outcome_def)

lemma outcome_ret [run_simps]: "outcome (ret x) t r t' \<longleftrightarrow> r = Inr x \<and> t' = t"
  by (auto simp: outcome_def ret_def intro: exI [of _ "world.make t True [] []"] simp: world.defs)

lemma outcome_throw [run_simps]: "outcome (throw e) t r t' \<longleftrightarrow> r = Inl e \<and> t' = t"
  by (auto simp: outcome_def throw_def intro: exI [of _ "world.make t True [] []"] simp: world.defs)

lemma outcome_emit [run_simps]: "outcome (emit ev) t r t' \<longleftrightarrow> r = Inr () \<and> t' = t"
  by (auto simp: outcome_def emit_def intro: exI [of _ "world.make t True [] []"] simp: world.defs)

lemma outcome_gormDB [run_simps]:
  "outcome gormDB t r t' \<longleftrightarrow> (r = Inr () \<or> r = Inl (Db NotInitialized)) \<and> t' = t"
  (is "?lhs \<longleftrightarrow> ?rhs")
proof
  show "?lhs \<Longrightarrow> ?rhs" by (auto simp: outcome_def gormDB_def split: if_splits)
  have "outcome gormDB t (Inr ()) t"
    using outcomeI [of gormDB "world.make t True [] []"] by (simp add: gormDB_def world.defs)
  moreover have "outcome gormDB t (Inl (Db NotInitialized)) t"
    using outcomeI [of gormDB "world.make t False [] []"] by (simp add: gormDB_def world.defs)
  ultimately show "?rhs \<Longrightarrow> ?lhs" by auto
qed

lemma outcome_bindE:
  assumes "outcome (bind m f) t r t'"
  obtains e where "outcome m t (Inl e) t'" and "r = Inl e"
    | x t1 where "outcome m t (Inr x) t1" and "outcome (f x) t1 r t'"
proof -
  from assms obtain w w' where w: "tables w = t" "bind m f w = (r, w')" "tables w' = t'"
    by (auto simp: outcome_def)
  obtain r1 w1 where m: "m w = (r1, w1)" by (cases "m w")
  then have out: "outcome m t r1 (tables w1)" using w(1) by (auto simp: outcome_def)
  show thesis
  proof (cases r1)
    case (Inl e)
    with m w out that(1) show ?thesis by (auto simp: bind_def)
  next
    case (Inr x)
    with m w have "f x w1 = (r, w')" by (simp add: bind_def)
    then have "outcome (f x) (tables w1) r t'" using w(3) by (auto simp: outcome_def)
    with Inr out that(2) show ?thesis by auto
  qed
qed

lemma outcome_bind_Inr:
  "outcome (bind m f) t (Inr y) t' \<Longrightarrow> \<exists>x t1. outcome m t (Inr x) t1 \<and> outcome (f x) t1 (Inr y) t'"
  by (erule outcome_bindE) auto

lemma outcome_transactionE:
  assumes "outcome (transaction m) t r t'"
  obtains e where "r = Inl e" and "t' = t"
    | x where "r = Inr x" and "outcome m t (Inr x) t'"
proof -
  from assms obtain w w' where w: "tables w = t" "transaction m w = (r, w')" "tables w' = t'"
    by (auto simp: outcome_def)
  obtain r1 w1 where m: "m w = (r1, w1)" by (cases "m w")
  show thesis
  proof (cases r1)
    case (Inl e)
    with m w that(1) show ?thesis by (auto simp: transaction_def)
  next
    case (Inr x)
    with m w have "outcome m t (Inr x) (tables w1)" by (auto simp: outcome_def)
    with m w Inr that show ?thesis
      by (auto simp: transaction_def Let_def split: if_splits)
  qed
qed

text \<open>A transaction is all or nothing.\<close>

lemma transaction_atomic: "outcome (transaction m) t (Inl e) t' \<Longrightarrow> t' = t"
  by (erule outcome_transactionE) auto

lemma transaction_success:
  "outcome (transaction m) t (Inr x) t' \<Longrightarrow> outcome m t (Inr x) t'"
  by (erule outcome_transactionE) auto

text \<open>Either nothing was changed and an error is returned, or the body ran to its end.\<close>

lemma connected_transactionE:
  assumes "outcome (bind gormDB (\<lambda>_. transaction m)) t r t'"
  obtains e where "r = Inl e" and "t' = t" | x where "r = Inr x" and "outcome m t (Inr x) t'"
  using assms by (elim outcome_bindE outcome_transactionE) (auto simp: run_simps)

lemma outcome_map_errorE:
  assumes "outcome (map_error f m) t r t'"
  obtains e where "r = Inl (f e)" and "outcome m t (Inl e) t'"
    | x where "r = Inr x" and "outcome m t (Inr x) t'"
proof -
  from assms obtain w w' where w: "tables w = t" "map_error f m w = (r, w')" "tables w' = t'"
    by (auto simp: outcome_def)
  obtain r1 w1 where m: "m w = (r1, w1)" by (cases "m w")
  then have out: "outcome m t r1 (tables w1)" using w(1) by (auto simp: outcome_def)
  show thesis
    by (cases r1) (use m w out that in \<open>auto simp: map_error_def\<close>)
qed

lemma outcome_map_error_Inr [run_simps]:
  "outcome (map_error f m) t (Inr x) t' \<longleftrightarrow> outcome m t (Inr x) t'"
proof
  show "outcome (map_error f m) t (Inr x) t' \<Longrightarrow> outcome m t (Inr x) t'"
    by (erule outcome_map_errorE) auto
next
  assume "outcome m t (Inr x) t'"
  then obtain w w' where "tables w = t" "m w = (Inr x, w')" "tables w' = t'"
    by (auto simp: outcome_def)
  then show "outcome (map_error f m) t (Inr x) t'"
    using outcomeI [of "map_error f m" w] by (simp add: map_error_def)
qed

lemma outcome_attempt [run_simps]:
  "outcome (attempt m) t r t' \<longleftrightarrow> (\<exists>s. r = Inr s \<and> outcome m t s t')"
proof
  assume "outcome (attempt m) t r t'"
  then obtain w w' where w: "tables w = t" "attempt m w = (r, w')" "tables w' = t'"
    by (auto simp: outcome_def)
  obtain s w1 where "m w = (s, w1)" by (cases "m w")
  with w show "\<exists>s. r = Inr s \<and> outcome m t s t'"
    by (auto simp: attempt_def outcome_def)
next
  assume "\<exists>s. r = Inr s \<and> outcome m t s t'"
  then obtain s w w' where "r = Inr s" "tables w = t" "m w = (s, w')" "tables w' = t'"
    by (auto simp: outcome_def)
  then show "outcome (attempt m) t r t'"
    using outcomeI [of "attempt m" w] by (simp add: attempt_def)
qed

lemma outcome_stmt [run_simps]:
  "outcome (stmt f) t r t' \<longleftrightarrow>
     (r = Inl (Db DbFailure) \<and> t' = t) \<or> (\<exists>e. f t = Inl e \<and> r = Inl (Db e) \<and> t' = t)
     \<or> (\<exists>x. f t = Inr (x, t') \<and> r = Inr x)"
  (is "?lhs \<longleftrightarrow> ?rhs")
proof
  show "?lhs \<Longrightarrow> ?rhs"
    by (auto simp: outcome_def stmt_def Let_def split: if_splits sum.splits prod.splits)
next
  have *: "outcome (stmt f) t (Inl (Db DbFailure)) t"
    using outcomeI [of "stmt f" "world.make t True [True] []"]
    by (simp add: stmt_def faulty_def world.defs Let_def)
  have "outcome (stmt f) t (Inl (Db e)) t" if "f t = Inl e" for e
    using that outcomeI [of "stmt f" "world.make t True [] []" "Inl (Db e)" "world.make t True [] []"]
    by (simp add: world.defs stmt_def faulty_def Let_def)
  moreover have "outcome (stmt f) t (Inr x) t1" if "f t = Inr (x, t1)" for x t1
    using that outcomeI [of "stmt f" "world.make t True [] []" "Inr x" "world.make t1 True [] []"]
    by (simp add: world.defs stmt_def faulty_def Let_def)
  ultimately show "?rhs \<Longrightarrow> ?lhs" using * by auto
qed

lemma outcome_take_row [run_simps]:
  "outcome (take_row tab P) t (Inr x) t' \<longleftrightarrow> find P (tab t) = Some x \<and> t' = t"
  by (auto simp: take_row_def outcome_stmt split: option.splits)

lemma outcome_take_row_Inl [run_simps]:
  "outcome (take_row tab P) t (Inl e) t' \<longleftrightarrow>
     (e = Db DbFailure \<or> (e = Db RecordNotFound \<and> find P (tab t) = None)) \<and> t' = t"
  by (auto simp: take_row_def outcome_stmt split: option.splits)

lemma outcome_read_rows [run_simps]:
  "outcome (read_rows q) t (Inr x) t' \<longleftrightarrow> x = q t \<and> t' = t"
  "outcome (read_rows q) t (Inl e) t' \<longleftrightarrow> e = Db DbFailure \<and> t' = t"
  by (auto simp: read_rows_def outcome_stmt)

lemma outcome_create_row [run_simps]:
  "outcome (create_row tab upd ok r) t (Inr x) t' \<longleftrightarrow>
     ok (tab t @ [r]) \<and> t' = upd (\<lambda>rows. rows @ [r]) t"
  "outcome (create_row tab upd ok r) t (Inl e) t' \<longleftrightarrow>
     (e = Db DbFailure \<or> e = Db UniqueViolation \<and> \<not> ok (tab t @ [r])) \<and> t' = t"
  by (auto simp: create_row_def outcome_stmt split: if_splits)

lemma outcome_create_child [run_simps]:
  "outcome (create_child fk tab upd ok r) t (Inr x) t' \<longleftrightarrow>
     fk t \<and> ok (tab t @ [r]) \<and> t' = upd (\<lambda>rows. rows @ [r]) t"
  "outcome (create_child fk tab upd ok r) t (Inl e) t' \<longleftrightarrow>
     (e = Db DbFailure \<or> e = Db UniqueViolation \<and> fk t \<and> \<not> ok (tab t @ [r])) \<and> t' = t"
  by (auto simp: create_child_def outcome_stmt split: if_splits)

lemma outcome_create_or_ignore [run_simps]:
  "outcome (create_or_ignore tab upd ok r) t (Inr x) t' \<longleftrightarrow>
     t' = (if ok (tab t @ [r]) then upd (\<lambda>rows. rows @ [r]) t else t)"
  "outcome (create_or_ignore tab upd ok r) t (Inl e) t' \<longleftrightarrow> e = Db DbFailure \<and> t' = t"
  by (auto simp: create_or_ignore_def outcome_stmt)

lemma outcome_update_where [run_simps]:
  "outcome (update_where tab upd ok P f) t (Inr n) t' \<longleftrightarrow>
     ok (update_rows P f (tab t)) \<and> n = rows_changed P f (tab t) \<and> t' = upd (update_rows P f) t"
  "outcome (update_where tab upd ok P f) t (Inl e) t' \<longleftrightarrow>
     (e = Db DbFailure \<or> e = Db UniqueViolation \<and> \<not> ok (update_rows P f (tab t))) \<and> t' = t"
  by (auto simp: update_where_def outcome_stmt split: if_splits)

lemma outcome_delete_where [run_simps]:
  "outcome (delete_where tab upd P) t (Inr n) t' \<longleftrightarrow>
     n = length (filter P (tab t)) \<and> t' = upd (filter (\<lambda>r. \<not> P r)) t"
  "outcome (delete_where tab upd P) t (Inl e) t' \<longleftrightarrow> e = Db DbFailure \<and> t' = t"
  by (auto simp: delete_where_def outcome_stmt)

lemma outcome_find_row [run_simps]:
  "outcome (find_row tab P) t (Inr x) t' \<Longrightarrow> x = find P (tab t) \<and> t' = t"
  "outcome (find_row tab P) t (Inl e) t' \<Longrightarrow> e = Db DbFailure \<and> t' = t"
  unfolding find_row_def
  by (auto elim!: outcome_bindE simp: outcome_attempt outcome_ret outcome_throw outcome_take_row
      outcome_take_row_Inl split: sum.splits goerror.splits db_err.splits)

lemma outcome_fail_if [run_simps]:
  "outcome (fail_if b e) t (Inr x) t' \<longleftrightarrow> \<not> b \<and> t' = t"
  "outcome (fail_if b e) t (Inl d) t' \<longleftrightarrow> b \<and> d = Sentinel e \<and> t' = t"
  by (auto simp: fail_if_def outcome_ret outcome_throw)

lemma outcome_or_sentinel [run_simps]:
  "outcome (or_sentinel m e) t (Inr x) t' \<longleftrightarrow> outcome m t (Inr x) t'"
  by (simp add: or_sentinel_def outcome_map_error_Inr)

text \<open>Invariants of the tables: \<open>keeps I m\<close> when no run of \<open>m\<close>, failed or not, breaks \<open>I\<close>.\<close>

definition keeps :: "('t \<Rightarrow> bool) \<Rightarrow> ('t, 'o, 'e, 'a) prog \<Rightarrow> bool" where
  "keeps I m \<longleftrightarrow> (\<forall>t r t'. outcome m t r t' \<longrightarrow> I t \<longrightarrow> I t')"

lemma keepsD: "keeps I m \<Longrightarrow> outcome m t r t' \<Longrightarrow> I t \<Longrightarrow> I t'"
  by (auto simp: keeps_def)

lemma keeps_transaction:
  assumes "\<And>t x t'. outcome m t (Inr x) t' \<Longrightarrow> I t \<Longrightarrow> I t'"
  shows "keeps I (transaction m)"
  using assms by (auto simp: keeps_def elim!: outcome_transactionE)

lemma keeps_basic [intro]:
  "keeps I (ret x)" "keeps I (throw e)" "keeps I (emit ev)" "keeps I gormDB"
  "keeps I (take_row tab P)" "keeps I (read_rows q)"
  by (auto simp: keeps_def outcome_ret outcome_throw outcome_emit outcome_gormDB take_row_def
      read_rows_def outcome_stmt split: option.splits)

lemma keeps_bind [intro]: "keeps I m \<Longrightarrow> (\<And>x. keeps I (f x)) \<Longrightarrow> keeps I (bind m f)"
  unfolding keeps_def by (blast elim: outcome_bindE)

lemma keeps_map_error [intro]: "keeps I m \<Longrightarrow> keeps I (map_error f m)"
  unfolding keeps_def by (blast elim: outcome_map_errorE)

lemma keeps_attempt [intro]: "keeps I m \<Longrightarrow> keeps I (attempt m)"
  unfolding keeps_def by (auto simp: outcome_attempt)

lemma keeps_find_row [intro]: "keeps I (find_row tab P)"
  unfolding find_row_def
  by (intro keeps_bind keeps_attempt keeps_basic)
    (auto split: sum.splits goerror.splits db_err.splits)

lemma keeps_or_sentinel [intro]: "keeps I m \<Longrightarrow> keeps I (or_sentinel m e)"
  by (auto simp: or_sentinel_def)

text \<open>Writing statements keep what their effect keeps.\<close>

lemma keeps_stmt: "(\<And>t x t'. I t \<Longrightarrow> f t = Inr (x, t') \<Longrightarrow> I t') \<Longrightarrow> keeps I (stmt f)"
  by (auto simp: keeps_def outcome_stmt)

lemma keeps_update_where:
  "(\<And>t. I t \<Longrightarrow> I (upd (update_rows P f) t)) \<Longrightarrow> keeps I (update_where tab upd ok P f)"
  by (auto simp: keeps_def update_where_def outcome_stmt split: if_splits)

lemma keeps_create_row:
  "(\<And>t. I t \<Longrightarrow> ok (tab t @ [r]) \<Longrightarrow> I (upd (\<lambda>rows. rows @ [r]) t)) \<Longrightarrow> keeps I (create_row tab upd ok r)"
  by (auto simp: keeps_def create_row_def outcome_stmt split: if_splits)

lemma keeps_create_child:
  "(\<And>t. I t \<Longrightarrow> ok (tab t @ [r]) \<Longrightarrow> I (upd (\<lambda>rows. rows @ [r]) t)) \<Longrightarrow> keeps I (create_child fk tab upd ok r)"
  by (auto simp: keeps_def create_child_def outcome_stmt split: if_splits)

lemma keeps_create_or_ignore:
  "(\<And>t. I t \<Longrightarrow> ok (tab t @ [r]) \<Longrightarrow> I (upd (\<lambda>rows. rows @ [r]) t)) \<Longrightarrow>
     keeps I (create_or_ignore tab upd ok r)"
  by (auto simp: keeps_def create_or_ignore_def outcome_stmt split: if_splits)

lemma keeps_delete_where:
  "(\<And>t. I t \<Longrightarrow> I (upd (filter (\<lambda>r. \<not> P r)) t)) \<Longrightarrow> keeps I (delete_where tab upd P)"
  by (auto simp: keeps_def delete_where_def outcome_stmt)

lemma keeps_whole_transaction: "keeps I m \<Longrightarrow> keeps I (transaction m)"
  unfolding keeps_def by (blast elim: outcome_transactionE)

lemma keeps_fail_if [intro]: "keeps I (fail_if b e)"
  by (auto simp: fail_if_def)

lemma keeps_if [intro]: "(b \<Longrightarrow> keeps I m) \<Longrightarrow> (\<not> b \<Longrightarrow> keeps I n) \<Longrightarrow> keeps I (if b then m else n)"
  by simp

section \<open>Runs without failures\<close>

text \<open>
  A calm world: the database is there and nothing fails. What a program does there is computed, not
  just bounded, so these equations carry the claims that a call succeeds.
\<close>

definition calm :: "('t, 'o) world \<Rightarrow> bool" where
  "calm w \<longleftrightarrow> connected w \<and> faults w = []"

lemma calm_update [simp]:
  "calm (w\<lparr>tables := t\<rparr>) = calm w" "calm (w\<lparr>outbox := ev\<rparr>) = calm w"
  by (simp_all add: calm_def)

lemma calm_gormDB [calm_simps]: "calm w \<Longrightarrow> gormDB w = (Inr (), w)"
  by (simp add: calm_def gormDB_def)

lemma calm_stmt [calm_simps]:
  "calm w \<Longrightarrow> stmt f w =
     (case f (tables w) of Inl e \<Rightarrow> (Inl (Db e), w) | Inr (x, t) \<Rightarrow> (Inr x, w\<lparr>tables := t\<rparr>))"
  by (cases w) (auto simp: calm_def stmt_def faulty_def Let_def split: sum.split)

lemma calm_take_row [calm_simps]:
  "calm w \<Longrightarrow> take_row tab P w =
     (case find P (tab (tables w)) of None \<Rightarrow> (Inl (Db RecordNotFound), w) | Some r \<Rightarrow> (Inr r, w))"
  by (cases w) (auto simp: take_row_def calm_stmt split: option.split)

lemma calm_read_rows [calm_simps]: "calm w \<Longrightarrow> read_rows q w = (Inr (q (tables w)), w)"
  by (cases w) (simp add: read_rows_def calm_stmt)

lemma calm_find_row [calm_simps]: "calm w \<Longrightarrow> find_row tab P w = (Inr (find P (tab (tables w))), w)"
  by (auto simp: find_row_def bind_def attempt_def calm_take_row ret_def split: option.split)

lemma calm_create_row [calm_simps]:
  "calm w \<Longrightarrow> create_row tab upd ok r w =
     (if ok (tab (tables w) @ [r]) then (Inr (), w\<lparr>tables := upd (\<lambda>rows. rows @ [r]) (tables w)\<rparr>)
      else (Inl (Db UniqueViolation), w))"
  by (simp add: create_row_def calm_stmt)

lemma calm_create_child [calm_simps]:
  "calm w \<Longrightarrow> create_child fk tab upd ok r w =
     (if \<not> fk (tables w) then (Inl (Db DbFailure), w)
      else if ok (tab (tables w) @ [r]) then (Inr (), w\<lparr>tables := upd (\<lambda>rows. rows @ [r]) (tables w)\<rparr>)
      else (Inl (Db UniqueViolation), w))"
  by (simp add: create_child_def calm_stmt)

lemma calm_create_or_ignore [calm_simps]:
  "calm w \<Longrightarrow> create_or_ignore tab upd ok r w =
     (Inr (), if ok (tab (tables w) @ [r]) then w\<lparr>tables := upd (\<lambda>rows. rows @ [r]) (tables w)\<rparr> else w)"
  by (cases w) (simp add: create_or_ignore_def calm_stmt)

lemma calm_update_where [calm_simps]:
  "calm w \<Longrightarrow> update_where tab upd ok P f w =
     (if ok (update_rows P f (tab (tables w)))
      then (Inr (rows_changed P f (tab (tables w))), w\<lparr>tables := upd (update_rows P f) (tables w)\<rparr>)
      else (Inl (Db UniqueViolation), w))"
  by (simp add: update_where_def calm_stmt)

lemma calm_delete_where [calm_simps]:
  "calm w \<Longrightarrow> delete_where tab upd P w =
     (Inr (length (filter P (tab (tables w)))), w\<lparr>tables := upd (filter (\<lambda>r. \<not> P r)) (tables w)\<rparr>)"
  by (simp add: delete_where_def calm_stmt)

lemma bind_step [calm_simps]:
  "m w = (Inr x, w') \<Longrightarrow> bind m f w = f x w'" "m w = (Inl e, w') \<Longrightarrow> bind m f w = (Inl e, w')"
  by (simp_all add: bind_def)

lemma calm_transaction [calm_simps]:
  "m w = (Inr x, w') \<Longrightarrow> calm w' \<Longrightarrow> transaction m w = (Inr x, w')"
  "m w = (Inl e, w') \<Longrightarrow> transaction m w = (Inl e, w'\<lparr>tables := tables w\<rparr>)"
  by (cases w', simp_all add: transaction_def calm_def faulty_def Let_def)

lemma pure_steps [calm_simps]:
  "ret x w = (Inr x, w)" "throw e w = (Inl e, w)" "emit ev w = (Inr (), w\<lparr>outbox := outbox w @ [ev]\<rparr>)"
  "fail_if b s w = (if b then (Inl (Sentinel s), w) else (Inr (), w))"
  by (simp_all add: ret_def throw_def emit_def fail_if_def)

lemma wrapped_step [calm_simps]:
  "m w = (Inr x, w') \<Longrightarrow> map_error g m w = (Inr x, w')"
  "m w = (Inl e, w') \<Longrightarrow> map_error g m w = (Inl (g e), w')"
  "m w = (Inr x, w') \<Longrightarrow> or_sentinel m s w = (Inr x, w')"
  "m w = (Inl e, w') \<Longrightarrow> or_sentinel m s w = (Inl (Sentinel s), w')"
  "m w = (r, w') \<Longrightarrow> attempt m w = (Inr r, w')"
  by (simp_all add: map_error_def or_sentinel_def attempt_def)

section \<open>Rows\<close>

lemma lookup_SomeD: "lookup key rows k = Some r \<Longrightarrow> r \<in> set rows \<and> key r = k"
  by (auto simp: lookup_def find_Some_iff)

lemma lookup_append [tbl_simps]:
  "lookup key (rows @ [r]) k =
     (case lookup key rows k of Some r' \<Rightarrow> Some r' | None \<Rightarrow> if key r = k then Some r else None)"
  by (induction rows) (auto simp: lookup_def)

lemma lookup_update_rows [tbl_simps]:
  assumes "\<And>r. key (f r) = key r"
  shows "lookup key (update_rows P f rows) k =
     map_option (\<lambda>r. if P r then f r else r) (lookup key rows k)"
  by (induction rows) (auto simp: lookup_def update_rows_def assms)

lemma lookup_member:
  "distinct (map key rows) \<Longrightarrow> r \<in> set rows \<Longrightarrow> lookup key rows (key r) = Some r"
  by (induction rows) (auto simp: lookup_def rev_image_eqI)

lemma find_member: "find P rows = Some r \<Longrightarrow> r \<in> set rows \<and> P r"
  by (auto simp: find_Some_iff)

lemma find_key [tbl_simps]: "find (\<lambda>r. key r = k) rows = lookup key rows k"
  by (simp add: lookup_def)

lemma find_lookup:
  "distinct (map key rows) \<Longrightarrow> find P rows = Some r \<Longrightarrow> lookup key rows (key r) = Some r \<and> P r"
  by (auto dest: find_member intro: lookup_member)

lemma map_key_update_rows [tbl_simps]:
  "(\<And>r. key (f r) = key r) \<Longrightarrow> map key (update_rows P f rows) = map key rows"
  by (induction rows) (auto simp: update_rows_def)

lemma rows_changed_pos: "rows_changed P f rows \<noteq> 0 \<Longrightarrow> \<exists>r \<in> set rows. P r \<and> f r \<noteq> r"
  by (auto simp: rows_changed_def filter_empty_conv)

lemma no_rows: "length (filter P rows) = 0 \<Longrightarrow> lookup key rows k = Some r \<Longrightarrow> \<not> P r"
  by (auto simp: filter_empty_conv dest: lookup_SomeD)

text \<open>The statements seen from outside, where a table is a map from keys to rows.\<close>

lemma lookup_update_at:
  assumes "\<And>r. key (f r) = key r" and "\<And>r. P r \<Longrightarrow> key r = k"
    and "lookup key rows k = Some r" and "P r"
  shows "lookup key (update_rows P f rows) = (lookup key rows)(k \<mapsto> f r)"
proof
  fix j
  show "lookup key (update_rows P f rows) j = ((lookup key rows)(k \<mapsto> f r)) j"
    using assms by (cases "lookup key rows j") (auto simp: lookup_update_rows dest: lookup_SomeD)
qed

lemma lookup_update_skip:
  assumes "\<And>r. key (f r) = key r" and "\<And>r. P r \<Longrightarrow> key r = k"
    and "\<And>r. lookup key rows k = Some r \<Longrightarrow> \<not> P r"
  shows "lookup key (update_rows P f rows) = lookup key rows"
proof
  fix j
  have "\<not> P r" if "lookup key rows j = Some r" for r
    using assms(2) [of r] assms(3) [of r] lookup_SomeD [OF that] that by auto
  then show "lookup key (update_rows P f rows) j = lookup key rows j"
    by (cases "lookup key rows j") (auto simp: lookup_update_rows [of key f, OF assms(1)])
qed

lemma lookup_fresh: "distinct (map key (rows @ [r])) \<Longrightarrow> lookup key rows (key r) = None"
  by (cases "lookup key rows (key r)") (auto dest!: lookup_SomeD simp: image_iff)

lemma lookup_append_new:
  assumes "distinct (map key (rows @ [r]))"
  shows "lookup key (rows @ [r]) = (lookup key rows)(key r \<mapsto> r)"
proof
  fix j
  show "lookup key (rows @ [r]) j = ((lookup key rows)(key r \<mapsto> r)) j"
    using lookup_fresh [OF assms] by (simp add: lookup_append split: option.split)
qed

lemma update_no_change: "rows_changed P f rows = 0 \<Longrightarrow> update_rows P f rows = rows"
  by (induction rows) (auto simp: rows_changed_def update_rows_def split: if_splits)

lemma rows_changed_lookup:
  assumes "rows_changed P f rows \<noteq> 0" and "distinct (map key rows)" and "\<And>r. P r \<Longrightarrow> key r = k"
  shows "\<exists>r. lookup key rows k = Some r \<and> P r"
proof -
  obtain r where "r \<in> set rows" "P r" using rows_changed_pos [OF assms(1)] by blast
  with lookup_member [OF assms(2), of r] assms(3) [of r] show ?thesis by auto
qed

lemma rows_changed_one:
  assumes "distinct (map key rows)" and "lookup key rows k = Some r" and "P r" and "f r \<noteq> r"
    and "\<And>x. P x \<Longrightarrow> key x = k"
  shows "rows_changed P f rows = 1"
  using assms
proof (induction rows)
  case (Cons x rows)
  show ?case
  proof (cases "key x = k")
    case True
    with Cons.prems(1) have "key y \<noteq> k" if "y \<in> set rows" for y
      using that by (auto simp: image_iff)
    with Cons.prems(5) have "filter (\<lambda>y. P y \<and> f y \<noteq> y) rows = []" by (auto simp: filter_empty_conv)
    with True Cons.prems(2-4) show ?thesis by (auto simp: rows_changed_def lookup_def)
  next
    case False
    with Cons have "rows_changed P f rows = 1" by (simp add: lookup_def)
    moreover from False Cons.prems(5) [of x] have "\<not> P x" by blast
    ultimately show ?thesis by (simp add: rows_changed_def)
  qed
qed (simp add: lookup_def)

lemma lookup_unique:
  assumes "distinct (map other rows)" and "lookup key rows i = Some r" and "lookup key rows j = Some s"
    and "other r = other s"
  shows "i = j"
proof -
  have "r \<in> set rows" "key r = i" "s \<in> set rows" "key s = j"
    using assms(2,3) by (auto dest: lookup_SomeD)
  moreover from this assms(1,4) have "r = s" by (auto simp: distinct_map inj_on_def)
  ultimately show ?thesis by simp
qed

section \<open>Transition systems\<close>

inductive reachable :: "('s \<Rightarrow> bool) \<Rightarrow> ('s \<Rightarrow> 's \<Rightarrow> bool) \<Rightarrow> 's \<Rightarrow> bool"
  for start :: "'s \<Rightarrow> bool" and step :: "'s \<Rightarrow> 's \<Rightarrow> bool" where
  reachable_start: "start s \<Longrightarrow> reachable start step s"
| reachable_step: "reachable start step s \<Longrightarrow> step s s' \<Longrightarrow> reachable start step s'"

locale invariant_system =
  fixes start :: "'s \<Rightarrow> bool" and step :: "'s \<Rightarrow> 's \<Rightarrow> bool" and inv :: "'s \<Rightarrow> bool"
  assumes start_inv: "start s \<Longrightarrow> inv s"
    and step_inv: "step s s' \<Longrightarrow> inv s \<Longrightarrow> inv s'"
begin

lemma reachable_inv: "reachable start step s \<Longrightarrow> inv s"
  by (induction rule: reachable.induct) (auto intro: start_inv step_inv)

lemma steps_inv: "step\<^sup>*\<^sup>* s s' \<Longrightarrow> inv s \<Longrightarrow> inv s'"
  by (induction rule: rtranclp_induct) (auto intro: step_inv)

end

end
