(* ===== verification/Bizerr.thy ===== *)
theory Bizerr
  imports Rel_Store
begin

text \<open>
  Business errors (\<open>internal/platform/bizerr\<close>): an HTTP status code, a message and an optional
  cause. Messages are the constants of a component, so they are values of a message type of that
  component; a cause is a repository error.
\<close>

record ('m, 'c) bizerror =
  BE_Code :: int
  BE_Message :: 'm
  BE_Cause :: "'c option"

definition New :: "int \<Rightarrow> 'm \<Rightarrow> ('m, 'c) bizerror" where
  "New code msg = \<lparr>BE_Code = code, BE_Message = msg, BE_Cause = None\<rparr>"

definition Wrap :: "int \<Rightarrow> 'm \<Rightarrow> 'c option \<Rightarrow> ('m, 'c) bizerror" where
  "Wrap code msg cause = \<lparr>BE_Code = code, BE_Message = msg, BE_Cause = cause\<rparr>"

definition CodeParamErr :: int where "CodeParamErr = 400"
definition CodeBizErr :: int where "CodeBizErr = 400"
definition CodeUnauthorized :: int where "CodeUnauthorized = 401"
definition CodeForbidden :: int where "CodeForbidden = 403"
definition CodeNotFound :: int where "CodeNotFound = 404"
definition CodeInternalErr :: int where "CodeInternalErr = 500"

text \<open>
  \<open>Error\<close> prints the message and the cause after it; \<open>Unwrap\<close> gives the cause, which is what
  \<open>errors.Is\<close> follows. \<open>None\<close> is the nil pointer.
\<close>

definition Error :: "('m \<Rightarrow> string) \<Rightarrow> ('c \<Rightarrow> string) \<Rightarrow> ('m, 'c) bizerror option \<Rightarrow> string" where
  "Error text cause_text e =
     (case e of
        None \<Rightarrow> []
      | Some b \<Rightarrow>
          (case BE_Cause b of
             Some c \<Rightarrow> text (BE_Message b) @ '': '' @ cause_text c
           | None \<Rightarrow> text (BE_Message b)))"

definition Unwrap :: "('m, 'c) bizerror option \<Rightarrow> 'c option" where
  "Unwrap e = (case e of None \<Rightarrow> None | Some b \<Rightarrow> BE_Cause b)"

text \<open>
  What a service method returns as \<open>error\<close>: a business error, an error of the repository passed on
  as it is, or an error that a collaborator produced.
\<close>

datatype ('m, 'c) svc_error =
    Business "('m, 'c) bizerror"
  | Passed 'c
  | Foreign string

definition Param :: "'m \<Rightarrow> ('m, 'c) svc_error" where
  "Param msg = Business (New CodeParamErr msg)"

definition Biz :: "'m \<Rightarrow> ('m, 'c) svc_error" where
  "Biz msg = Business (New CodeBizErr msg)"

definition ParamWrap :: "'m \<Rightarrow> 'c option \<Rightarrow> ('m, 'c) svc_error" where
  "ParamWrap msg cause = Business (Wrap CodeParamErr msg cause)"

definition BizWrap :: "'m \<Rightarrow> 'c option \<Rightarrow> ('m, 'c) svc_error" where
  "BizWrap msg cause = Business (Wrap CodeBizErr msg cause)"

definition Unauthorized :: "'m \<Rightarrow> ('m, 'c) svc_error" where
  "Unauthorized msg = Business (New CodeUnauthorized msg)"

definition UnauthorizedWrap :: "'m \<Rightarrow> 'c option \<Rightarrow> ('m, 'c) svc_error" where
  "UnauthorizedWrap msg cause = Business (Wrap CodeUnauthorized msg cause)"

definition Forbidden :: "'m \<Rightarrow> ('m, 'c) svc_error" where
  "Forbidden msg = Business (New CodeForbidden msg)"

definition ForbiddenWrap :: "'m \<Rightarrow> 'c option \<Rightarrow> ('m, 'c) svc_error" where
  "ForbiddenWrap msg cause = Business (Wrap CodeForbidden msg cause)"

definition NotFound :: "'m \<Rightarrow> ('m, 'c) svc_error" where
  "NotFound msg = Business (New CodeNotFound msg)"

definition NotFoundWrap :: "'m \<Rightarrow> 'c option \<Rightarrow> ('m, 'c) svc_error" where
  "NotFoundWrap msg cause = Business (Wrap CodeNotFound msg cause)"

definition Internal :: "'m \<Rightarrow> ('m, 'c) svc_error" where
  "Internal msg = Business (New CodeInternalErr msg)"

definition InternalWrap :: "'m \<Rightarrow> 'c option \<Rightarrow> ('m, 'c) svc_error" where
  "InternalWrap msg cause = Business (Wrap CodeInternalErr msg cause)"

lemmas bizerr_defs = Param_def Biz_def NotFound_def Internal_def InternalWrap_def New_def Wrap_def
  ParamWrap_def BizWrap_def Unauthorized_def UnauthorizedWrap_def Forbidden_def ForbiddenWrap_def
  NotFoundWrap_def CodeParamErr_def CodeBizErr_def CodeUnauthorized_def CodeForbidden_def CodeNotFound_def CodeInternalErr_def

lemma bizerr_eq_iff [simp]:
  "Param m = Param n \<longleftrightarrow> m = n" "Biz m = Biz n \<longleftrightarrow> m = n" "NotFound m = NotFound n \<longleftrightarrow> m = n"
  by (auto simp: bizerr_defs)

text \<open>
  The cause of an error is found again by \<open>Unwrap\<close>; the kind of an error that is answered to the
  client is its status code, whether or not it wraps a cause.
\<close>

definition status_code :: "('m, 'c) svc_error \<Rightarrow> int option" where
  "status_code e = (case e of Business b \<Rightarrow> Some (BE_Code b) | _ \<Rightarrow> None)"

lemma Unwrap_Wrap [simp]: "Unwrap (Some (Wrap code msg cause)) = cause" "Unwrap (Some (New code msg)) = None"
  by (simp_all add: Unwrap_def Wrap_def New_def)

lemma status_codes [simp]:
  "status_code (Param m) = Some 400" "status_code (ParamWrap m c) = Some 400"
  "status_code (Biz m) = Some 400" "status_code (BizWrap m c) = Some 400"
  "status_code (Unauthorized m) = Some 401" "status_code (UnauthorizedWrap m c) = Some 401"
  "status_code (Forbidden m) = Some 403" "status_code (ForbiddenWrap m c) = Some 403"
  "status_code (NotFound m) = Some 404" "status_code (NotFoundWrap m c) = Some 404"
  "status_code (Internal m) = Some 500" "status_code (InternalWrap m c) = Some 500"
  by (simp_all add: status_code_def bizerr_defs)

section \<open>Errors in service methods\<close>

text \<open>\<open>if err != nil { return err }\<close> for an error, a result or a lookup that was computed.\<close>

definition check :: "'e option \<Rightarrow> ('t, 'o, 'e, unit) prog" where
  "check e = (case e of None \<Rightarrow> ret () | Some e \<Rightarrow> throw e)"

definition result :: "'e + 'a \<Rightarrow> ('t, 'o, 'e, 'a) prog" where
  "result r = (case r of Inl e \<Rightarrow> throw e | Inr x \<Rightarrow> ret x)"

definition present :: "'e \<Rightarrow> 'a option \<Rightarrow> ('t, 'o, 'e, 'a) prog" where
  "present err x = (case x of None \<Rightarrow> throw err | Some x \<Rightarrow> ret x)"

text \<open>Repository calls whose every error becomes an internal error, or one fixed error, or is passed on.\<close>

definition internal_error :: "'m \<Rightarrow> ('t, 'o, 'c, 'a) prog \<Rightarrow> ('t, 'o, ('m, 'c) svc_error, 'a) prog" where
  "internal_error msg m = map_error (\<lambda>e. InternalWrap msg (Some e)) m"

definition fixed_error :: "'e \<Rightarrow> ('t, 'o, 'c, 'a) prog \<Rightarrow> ('t, 'o, 'e, 'a) prog" where
  "fixed_error err m = map_error (\<lambda>_. err) m"

definition passed :: "('t, 'o, 'c, 'a) prog \<Rightarrow> ('t, 'o, ('m, 'c) svc_error, 'a) prog" where
  "passed m = map_error Passed m"

text \<open>They keep what the wrapped program keeps.\<close>

lemma keeps_result: "keeps I (result r)"
  by (auto simp: result_def split: sum.split)

lemma keeps_present: "keeps I (present e x)"
  by (auto simp: present_def split: option.split)

lemma keeps_wrapped:
  "keeps I m \<Longrightarrow> keeps I (internal_error msg m)" "keeps I m \<Longrightarrow> keeps I (fixed_error e m)"
  by (simp_all add: internal_error_def fixed_error_def keeps_map_error)

end
