(* ===== verification/Pagination.thy ===== *)
theory Pagination
  imports Rel_Store
begin

text \<open>
  Pages of results: \<open>internal/platform/pagination\<close> and the page normalisation of the modules.

  Every list endpoint first normalises the requested page and size and then reads the window
  \<open>Offset((page - 1) * size).Limit(size)\<close>. What the endpoints rely on is stated once, in the locale
  \<open>page_normaliser\<close>, and each module's own function is an interpretation of it.
\<close>

record 'a page_result =
  PR_Data :: "'a list"
  PR_Current :: int
  PR_Total :: int64
  PR_Size :: int

definition NewPageResult :: "'a list \<Rightarrow> int64 \<Rightarrow> int \<Rightarrow> int \<Rightarrow> 'a page_result" where
  "NewPageResult data tot page sz =
     (let page = (if page \<le> 0 then 1 else page);
          sz = (if sz \<le> 0 then 15 else sz)
      in \<lparr>PR_Data = data, PR_Current = page, PR_Total = tot, PR_Size = sz\<rparr>)"

text \<open>
  \<open>PageSize\<close>: the query parameters \<open>page\<close> and \<open>size\<close>, absent (\<open>None\<close>) or given; the error of
  \<open>strconv.Atoi\<close> is dropped, its value is used.
\<close>

definition PageSize :: "string option \<Rightarrow> string option \<Rightarrow> int \<times> int" where
  "PageSize pageParam sizeParam =
     (let page = ParseInt_value (case pageParam of None \<Rightarrow> ''1'' | Some s \<Rightarrow> s);
          sz = ParseInt_value (case sizeParam of None \<Rightarrow> ''15'' | Some s \<Rightarrow> s)
      in (if page \<le> 0 then 1 else page, if sz \<le> 0 then 15 else sz))"

text \<open>
  \<open>Offset(o).Limit(n)\<close> on an ordered result: \<open>(page - 1) * size\<close> is an \<open>int\<close> product, computed
  modulo 2^64; the query builder leaves a non-positive offset out.
\<close>

definition window :: "int \<Rightarrow> int \<Rightarrow> 'a list \<Rightarrow> 'a list" where
  "window page sz rows = take (nat sz) (drop (nat (wrap64 ((page - 1) * sz))) rows)"

locale page_normaliser =
  fixes norm :: "int \<Rightarrow> int \<Rightarrow> int \<times> int" and limit :: int
  assumes norm_page: "norm p z = (p', z') \<Longrightarrow> 1 \<le> p' \<and> (1 \<le> p \<longrightarrow> p' = p)"
    and norm_size: "norm p z = (p', z') \<Longrightarrow> 1 \<le> z' \<and> z' \<le> limit \<and> (1 \<le> z \<and> z \<le> limit \<longrightarrow> z' = z)"
begin

lemma norm_idem: "norm p z = (p', z') \<Longrightarrow> norm p' z' = (p', z')"
  using norm_page [of p z p' z'] norm_size [of p z p' z']
    norm_page [of p' z' "fst (norm p' z')" "snd (norm p' z')"]
    norm_size [of p' z' "fst (norm p' z')" "snd (norm p' z')"]
  by (cases "norm p' z'") auto

lemma norm_window_bounded:
  "norm p z = (p', z') \<Longrightarrow> length (window p' z' rows) \<le> nat limit"
  using norm_size [of p z p' z'] by (auto simp: window_def)

lemma norm_page_result:
  "norm p z = (p', z') \<Longrightarrow>
     NewPageResult data tot p' z' = \<lparr>PR_Data = data, PR_Current = p', PR_Total = tot, PR_Size = z'\<rparr>"
  using norm_page [of p z p' z'] norm_size [of p z p' z'] by (simp add: NewPageResult_def Let_def)

end

text \<open>Consecutive pages put the rows back together, as long as the offsets fit 64 bits.\<close>

lemma window_exact:
  assumes "1 \<le> page" and "1 \<le> sz" and "page * sz < 2 ^ 63"
  shows "window page sz rows = take (nat sz) (drop (nat ((page - 1) * sz)) rows)"
proof -
  have "0 \<le> (page - 1) * sz" using assms by simp
  moreover have "(page - 1) * sz < 2 ^ 63" using assms by (simp add: algebra_simps)
  ultimately show ?thesis by (simp add: window_def wrap64_id in_int64_def)
qed

fun pages :: "nat \<Rightarrow> int \<Rightarrow> 'a list \<Rightarrow> 'a list" where
  "pages 0 sz rows = []"
| "pages (Suc n) sz rows = pages n sz rows @ window (int (Suc n)) sz rows"

lemma take_append_window:
  "take (n * k) xs @ take k (drop (n * k) xs) = take (Suc n * k) xs"
  by (metis add.commute mult_Suc take_add)

lemma pages_take:
  assumes "1 \<le> sz" and "int n * sz < 2 ^ 63"
  shows "pages n sz rows = take (n * nat sz) rows"
  using assms
proof (induction n)
  case (Suc n)
  have le: "int n * sz \<le> int (Suc n) * sz" using Suc.prems(1) by simp
  have IH: "pages n sz rows = take (n * nat sz) rows"
    using Suc.IH Suc.prems le_less_trans [OF le Suc.prems(2)] by blast
  have "window (int (Suc n)) sz rows = take (nat sz) (drop (nat (int n * sz)) rows)"
    using window_exact [of "int (Suc n)" sz rows] Suc.prems by simp
  also have "nat (int n * sz) = n * nat sz" using Suc.prems(1) by (simp add: nat_mult_distrib)
  finally show ?case using IH take_append_window [of n "nat sz" rows] by simp
qed simp

end
