(* ===== verification/Marketplace_Model.thy ===== *)
theory Marketplace_Model
  imports Bizerr Pagination
begin

text \<open>
  The second-hand marketplace (\<open>internal/marketplace\<close>): its tables, request and response types, and
  the pure helpers (money, identifiers, paging).

  Status columns hold the string constants of \<open>model.go\<close>; they are datatypes here, and
  \<open>item_status_string\<close> and its siblings give the strings back. A row of \<open>Item\<close> or \<open>Order\<close> is the
  database row; the association that \<open>Preload\<close> fills (\<open>Item.Category\<close>, \<open>Order.Item\<close>) is a second
  component (\<open>item_view\<close>, \<open>order_view\<close>).
\<close>

section \<open>Tables\<close>

datatype active_status = StatusActive | StatusDisabled

datatype item_status =
  ItemDraft | ItemPublished | ItemReserved | ItemSold | ItemWithdrawn | ItemHidden

datatype order_status =
    OrderPendingPayment | OrderPaid | OrderDelivered | OrderCompleted | OrderCancelled
  | OrderRefunded | OrderDisputed

datatype record_status = RecordPending | RecordSucceeded | RecordRejected | RecordFailed

datatype dispute_status = DisputePending | DisputeResolved | DisputeRejected

definition DefaultCommissionRateBps :: int where
  "DefaultCommissionRateBps = 500"

record category =
  Category_ID :: int64
  Category_Name :: string
  Category_CommissionRateBps :: int
  Category_Status :: active_status
  Category_CreatedAt :: instant
  Category_UpdatedAt :: instant

record item =
  Item_ID :: int64
  Item_SellerRootUserID :: int64
  Item_SellerUserID :: int64
  Item_CategoryID :: int64
  Item_Title :: string
  Item_Description :: string
  Item_Condition :: string
  Item_PriceCents :: int64
  Item_Images :: "string list"
  Item_DeliveryLocation :: string
  Item_Status :: item_status
  Item_ReservedOrderID :: "int64 option"
  Item_CreatedAt :: instant
  Item_UpdatedAt :: instant

record order =
  Order_ID :: int64
  Order_ItemID :: int64
  Order_BuyerRootUserID :: int64
  Order_BuyerUserID :: int64
  Order_SellerRootUserID :: int64
  Order_Status :: order_status
  Order_PriceCents :: int64
  Order_CommissionRateBps :: int
  Order_PlatformFeeCents :: int64
  Order_SellerNetCents :: int64
  Order_ExpiresAt :: instant
  Order_PaidAt :: "instant option"
  Order_DeliveredAt :: "instant option"
  Order_CompletedAt :: "instant option"
  Order_CancelledAt :: "instant option"
  Order_RefundedAt :: "instant option"
  Order_DisputedAt :: "instant option"
  Order_CreatedAt :: instant
  Order_UpdatedAt :: instant

record payment =
  Payment_ID :: int64
  Payment_OrderID :: int64
  Payment_Gateway :: string
  Payment_RequestID :: string
  Payment_GatewayTransactionID :: "string option"
  Payment_AmountCents :: int64
  Payment_Status :: record_status
  Payment_CreatedAt :: instant
  Payment_UpdatedAt :: instant

record refund =
  Refund_ID :: int64
  Refund_OrderID :: int64
  Refund_RequestedByRootUserID :: int64
  Refund_RequestID :: string
  Refund_GatewayRefundID :: "string option"
  Refund_AmountCents :: int64
  Refund_Reason :: string
  Refund_Status :: record_status
  Refund_ReviewedBy :: "int64 option"
  Refund_ReviewedAt :: "instant option"
  Refund_CreatedAt :: instant
  Refund_UpdatedAt :: instant

record dispute =
  Dispute_ID :: int64
  Dispute_OrderID :: int64
  Dispute_RaisedByRootUserID :: int64
  Dispute_PreviousOrderStatus :: order_status
  Dispute_Reason :: string
  Dispute_Status :: dispute_status
  Dispute_Resolution :: string
  Dispute_ResolvedBy :: "int64 option"
  Dispute_ResolvedAt :: "instant option"
  Dispute_CreatedAt :: instant
  Dispute_UpdatedAt :: instant

record settlement =
  Settlement_ID :: int64
  Settlement_OrderID :: int64
  Settlement_RequestID :: string
  Settlement_GatewaySettlementID :: "string option"
  Settlement_AmountCents :: int64
  Settlement_Status :: record_status
  Settlement_CreatedAt :: instant
  Settlement_UpdatedAt :: instant

record market_db =
  categories :: "category list"
  items :: "item list"
  orders :: "order list"
  payments :: "payment list"
  refunds :: "refund list"
  disputes :: "dispute list"
  settlements :: "settlement list"

type_synonym item_view = "item \<times> category"
type_synonym order_view = "order \<times> item_view"

text \<open>
  Primary keys and unique indexes, from the gorm tags (and the migration that creates the tables).
  A nullable unique column constrains only its non-null values.
\<close>

definition items_ok :: "item list \<Rightarrow> bool" where
  "items_ok rows \<longleftrightarrow> distinct (map Item_ID rows)"

definition orders_ok :: "order list \<Rightarrow> bool" where
  "orders_ok rows \<longleftrightarrow> distinct (map Order_ID rows)"

definition payments_ok :: "payment list \<Rightarrow> bool" where
  "payments_ok rows \<longleftrightarrow>
     distinct (map Payment_ID rows) \<and> distinct (map Payment_RequestID rows) \<and>
     distinct (List.map_filter Payment_GatewayTransactionID rows)"

definition refunds_ok :: "refund list \<Rightarrow> bool" where
  "refunds_ok rows \<longleftrightarrow>
     distinct (map Refund_ID rows) \<and> distinct (map Refund_OrderID rows) \<and>
     distinct (map Refund_RequestID rows) \<and>
     distinct (List.map_filter Refund_GatewayRefundID rows)"

definition disputes_ok :: "dispute list \<Rightarrow> bool" where
  "disputes_ok rows \<longleftrightarrow>
     distinct (map Dispute_ID rows) \<and> distinct (map Dispute_OrderID rows)"

definition settlements_ok :: "settlement list \<Rightarrow> bool" where
  "settlements_ok rows \<longleftrightarrow>
     distinct (map Settlement_ID rows) \<and> distinct (map Settlement_OrderID rows) \<and>
     distinct (map Settlement_RequestID rows) \<and>
     distinct (List.map_filter Settlement_GatewaySettlementID rows)"

section \<open>Errors\<close>

text \<open>The sentinel errors of the repository, and the messages of the service's errors.\<close>

datatype market_sentinel =
  errItemUnavailable | errOwnItem | errOrderState | errRefundExists | errDisputeExists

datatype market_msg =
    MCategoryNotFound | MItemNotFound | MItemUnavailable | MOwnItem | MOrderNotFound | MOrderState
  | MPaymentDisabled | MPaymentInvalid | MRefundExists | MDisputeExists | MSettlementState
  | MBadID | MCategoryNameEmpty | MPricePositive | MImageCount | MImageReference | MItemParams
  | MVerifierMissing | MPaymentRequestEmpty | MRefundParams | MDisputeReasonEmpty
  | MQueryCategories | MSaveCategory | MCreateItem | MUpdateItem | MWithdrawItem | MQueryItem
  | MSearchItems | MCreateOrder | MQueryOrder | MCreatePayment | MSaveTransaction
  | MPaymentCallback | MCancelOrder | MConfirmDelivery | MConfirmReceipt | MSubmitRefund
  | MSubmitDispute | MQueryRefunds | MDecideRefund | MQueryDisputes | MResolveDispute
  | MQuerySettlements | MHideItem | MQueryExpired | MReleaseExpired | MQueryDue | MAutoComplete
  | MUpdateSettlement

type_synonym repo_error = "market_sentinel goerror"
type_synonym market_error = "(market_msg, market_sentinel goerror) svc_error"

definition ErrCategoryNotFound :: market_error where "ErrCategoryNotFound = NotFound MCategoryNotFound"
definition ErrItemNotFound :: market_error where "ErrItemNotFound = NotFound MItemNotFound"
definition ErrItemUnavailable :: market_error where "ErrItemUnavailable = Biz MItemUnavailable"
definition ErrOwnItem :: market_error where "ErrOwnItem = Biz MOwnItem"
definition ErrOrderNotFound :: market_error where "ErrOrderNotFound = NotFound MOrderNotFound"
definition ErrOrderState :: market_error where "ErrOrderState = Biz MOrderState"
definition ErrPaymentDisabled :: market_error where "ErrPaymentDisabled = Biz MPaymentDisabled"
definition ErrPaymentInvalid :: market_error where "ErrPaymentInvalid = Biz MPaymentInvalid"
definition ErrRefundExists :: market_error where "ErrRefundExists = Biz MRefundExists"
definition ErrDisputeExists :: market_error where "ErrDisputeExists = Biz MDisputeExists"
definition ErrSettlementState :: market_error where "ErrSettlementState = Biz MSettlementState"

lemmas market_errors = ErrCategoryNotFound_def ErrItemNotFound_def ErrItemUnavailable_def
  ErrOwnItem_def ErrOrderNotFound_def ErrOrderState_def ErrPaymentDisabled_def
  ErrPaymentInvalid_def ErrRefundExists_def ErrDisputeExists_def ErrSettlementState_def

section \<open>Money\<close>

text \<open>
  The platform's share of a price, in basis points. The code splits the price so that the product
  never overflows 64 bits; division and remainder are Go's, every product and sum wraps.
\<close>

definition commissionFee :: "int64 \<Rightarrow> int \<Rightarrow> int64" where
  "commissionFee priceCents rateBps =
     wrap64 (wrap64 ((priceCents sdiv 10000) * rateBps)
             + wrap64 ((priceCents smod 10000) * rateBps) sdiv 10000)"

definition valid_rate :: "int \<Rightarrow> bool" where
  "valid_rate r \<longleftrightarrow> 0 \<le> r \<and> r \<le> 10000"

lemma split_mult_div:
  fixes p r :: int
  shows "(p div 10000) * r + (p mod 10000) * r div 10000 = p * r div 10000"
proof -
  define q m where "q = p div 10000" and "m = p mod 10000"
  have "p = 10000 * q + m" by (simp add: q_def m_def)
  then have "p * r = m * r + (q * r) * 10000" by (simp add: algebra_simps)
  then have "p * r div 10000 = m * r div 10000 + q * r" by simp
  then show ?thesis by (simp add: q_def m_def)
qed

lemma commissionFee_exact:
  assumes "0 \<le> p" and "p < 2 ^ 63" and "valid_rate r"
  shows "commissionFee p r = p * r div 10000"
proof -
  from assms have r: "0 \<le> r" "r \<le> 10000" by (simp_all add: valid_rate_def)
  have q: "(p div 10000) * r \<le> (p div 10000) * 10000" "(p div 10000) * r \<ge> 0"
    using r assms(1) by (simp_all add: mult_left_mono pos_imp_zdiv_nonneg_iff)
  have m: "(p mod 10000) * r \<le> 10000 * 10000" "(p mod 10000) * r \<ge> 0"
    using r mult_mono [of "p mod 10000" 10000 r 10000] by simp_all
  have "p * r div 10000 \<le> p * 10000 div 10000"
    using r assms(1) by (intro zdiv_mono1 mult_left_mono) simp_all
  then have fee: "0 \<le> p * r div 10000" "p * r div 10000 \<le> p"
    using r assms(1) by (simp_all add: pos_imp_zdiv_nonneg_iff)
  have "(p div 10000) * 10000 \<le> p" using assms(1) by simp
  with q assms(2) have "wrap64 ((p div 10000) * r) = (p div 10000) * r"
    by (intro wrap64_id) (simp add: in_int64_def)
  moreover have "wrap64 ((p mod 10000) * r) = (p mod 10000) * r"
    using m by (intro wrap64_id) (simp add: in_int64_def)
  moreover have "wrap64 (p * r div 10000) = p * r div 10000"
    using fee assms(2) by (intro wrap64_id) (simp add: in_int64_def)
  ultimately show ?thesis
    using assms(1) m split_mult_div [of p r]
    by (simp add: commissionFee_def sdiv_nonneg smod_nonneg)
qed

lemma commissionFee_bounds:
  assumes "0 \<le> p" and "p < 2 ^ 63" and "valid_rate r"
  shows "0 \<le> commissionFee p r \<and> commissionFee p r \<le> p"
proof -
  from assms have "p * r \<le> p * 10000" "0 \<le> p * r"
    by (simp_all add: valid_rate_def mult_left_mono)
  then have "p * r div 10000 \<le> p * 10000 div 10000" "0 \<le> p * r div 10000"
    by (simp_all add: zdiv_mono1 pos_imp_zdiv_nonneg_iff)
  then show ?thesis using assms by (simp add: commissionFee_exact)
qed

section \<open>Identifiers and pages\<close>

definition marketplaceID :: "int64 \<Rightarrow> string" where
  "marketplaceID v = FormatInt v"

definition parseMarketplaceID :: "string \<Rightarrow> market_error + int64" where
  "parseMarketplaceID raw =
     (case ParseInt (TrimSpace raw) of
        None \<Rightarrow> Inl (Param MBadID)
      | Some v \<Rightarrow> if v \<le> 0 then Inl (Param MBadID) else Inr v)"

lemma parseMarketplaceID_range: "parseMarketplaceID s = Inr v \<Longrightarrow> 0 < v \<and> v < 2 ^ 63"
  by (auto simp: parseMarketplaceID_def in_int64_def split: option.splits if_splits
      dest!: ParseInt_range)

lemma parseMarketplaceID_print:
  "0 < v \<Longrightarrow> v < 2 ^ 63 \<Longrightarrow> parseMarketplaceID (marketplaceID v) = Inr v"
  by (simp add: parseMarketplaceID_def marketplaceID_def ParseInt_FormatInt in_int64_def)

definition normalizeMarketplacePage :: "int \<Rightarrow> int \<Rightarrow> int \<times> int" where
  "normalizeMarketplacePage page sz =
     (let page = (if page \<le> 0 then 1 else page);
          sz = (if sz \<le> 0 then 15 else sz);
          sz = (if sz > 100 then 100 else sz)
      in (page, sz))"

interpretation market_page: page_normaliser normalizeMarketplacePage 100
  by unfold_locales (auto simp: normalizeMarketplacePage_def Let_def split: if_splits)

end
