(* ===== verification/Marketplace_Repo.thy ===== *)
theory Marketplace_Repo
  imports Marketplace_Model
begin

text \<open>
  The marketplace repository (\<open>repository.go\<close>, \<open>repository_order.go\<close>, \<open>repository_resolution.go\<close>,
  \<open>repository_jobs.go\<close>), one program per method, statement by statement.

  A lock clause (\<open>FOR UPDATE\<close>) makes the transaction the unit of interleaving, so a transaction is
  one step on the tables. Three facts of the database are arguments: the order of \<open>ORDER BY name\<close>
  (\<open>by_name\<close>, the collation), the \<open>LIKE\<close> match (\<open>like\<close>), and gorm's \<open>Save\<close> (\<open>save\<close>).
  \<open>created_at DESC\<close> leaves the order of equal instants open; the model keeps insertion order there.
\<close>

section \<open>Column updates\<close>

text \<open>The \<open>Updates(map[string]any{...})\<close> literals of the methods below, by the event they stand for.\<close>

definition edit_item_row :: "item \<Rightarrow> item \<Rightarrow> item" where
  "edit_item_row it i =
     i\<lparr>Item_CategoryID := Item_CategoryID it, Item_Title := Item_Title it,
       Item_Description := Item_Description it, Item_Condition := Item_Condition it,
       Item_PriceCents := Item_PriceCents it, Item_Images := Item_Images it,
       Item_DeliveryLocation := Item_DeliveryLocation it,
       Item_Status := Item_Status it, Item_UpdatedAt := Item_UpdatedAt it\<rparr>"

definition withdraw_item_row :: "instant \<Rightarrow> item \<Rightarrow> item" where
  "withdraw_item_row now i = i\<lparr>Item_Status := ItemWithdrawn, Item_UpdatedAt := now\<rparr>"

definition hide_item_row :: "instant \<Rightarrow> item \<Rightarrow> item" where
  "hide_item_row now i =
     i\<lparr>Item_Status := ItemHidden, Item_ReservedOrderID := None, Item_UpdatedAt := now\<rparr>"

definition reserve_item_row :: "order \<Rightarrow> item \<Rightarrow> item" where
  "reserve_item_row ord i =
     i\<lparr>Item_Status := ItemReserved, Item_ReservedOrderID := Some (Order_ID ord),
       Item_UpdatedAt := Order_UpdatedAt ord\<rparr>"

definition release_item_row :: "instant \<Rightarrow> item \<Rightarrow> item" where
  "release_item_row now i =
     i\<lparr>Item_Status := ItemPublished, Item_ReservedOrderID := None, Item_UpdatedAt := now\<rparr>"

definition sell_item_row :: "instant \<Rightarrow> item \<Rightarrow> item" where
  "sell_item_row now i = i\<lparr>Item_Status := ItemSold, Item_UpdatedAt := now\<rparr>"

definition take_item_row :: "instant \<Rightarrow> item \<Rightarrow> item" where
  "take_item_row now i =
     i\<lparr>Item_Status := ItemWithdrawn, Item_ReservedOrderID := None, Item_UpdatedAt := now\<rparr>"

definition cancel_order_row :: "instant \<Rightarrow> order \<Rightarrow> order" where
  "cancel_order_row now d =
     d\<lparr>Order_Status := OrderCancelled, Order_CancelledAt := Some now, Order_UpdatedAt := now\<rparr>"

definition pay_order_row :: "instant \<Rightarrow> order \<Rightarrow> order" where
  "pay_order_row now d =
     d\<lparr>Order_Status := OrderPaid, Order_PaidAt := Some now, Order_UpdatedAt := now\<rparr>"

definition deliver_order_row :: "instant \<Rightarrow> order \<Rightarrow> order" where
  "deliver_order_row now d =
     d\<lparr>Order_Status := OrderDelivered, Order_DeliveredAt := Some now, Order_UpdatedAt := now\<rparr>"

definition complete_order_row :: "instant \<Rightarrow> order \<Rightarrow> order" where
  "complete_order_row now d =
     d\<lparr>Order_Status := OrderCompleted, Order_CompletedAt := Some now, Order_UpdatedAt := now\<rparr>"

definition refund_order_row :: "instant \<Rightarrow> order \<Rightarrow> order" where
  "refund_order_row now d =
     d\<lparr>Order_Status := OrderRefunded, Order_RefundedAt := Some now, Order_UpdatedAt := now\<rparr>"

definition dispute_order_row :: "instant \<Rightarrow> order \<Rightarrow> order" where
  "dispute_order_row now d =
     d\<lparr>Order_Status := OrderDisputed, Order_DisputedAt := Some now, Order_UpdatedAt := now\<rparr>"

definition resolve_order_row :: "order_status \<Rightarrow> instant \<Rightarrow> order \<Rightarrow> order" where
  "resolve_order_row nextStatus now d =
     d\<lparr>Order_Status := nextStatus, Order_UpdatedAt := now,
       Order_RefundedAt := (if nextStatus = OrderRefunded then Some now else Order_RefundedAt d)\<rparr>"

definition attach_payment_row :: "string \<Rightarrow> instant \<Rightarrow> payment \<Rightarrow> payment" where
  "attach_payment_row transactionID now p =
     p\<lparr>Payment_GatewayTransactionID := Some transactionID, Payment_UpdatedAt := now\<rparr>"

definition succeed_payment_row :: "string \<Rightarrow> instant \<Rightarrow> payment \<Rightarrow> payment" where
  "succeed_payment_row transactionID now p =
     p\<lparr>Payment_GatewayTransactionID := Some transactionID, Payment_Status := RecordSucceeded,
       Payment_UpdatedAt := now\<rparr>"

definition decide_refund_row :: "int64 \<Rightarrow> bool \<Rightarrow> string \<Rightarrow> instant \<Rightarrow> refund \<Rightarrow> refund" where
  "decide_refund_row adminID approved gatewayRefundID now r =
     r\<lparr>Refund_Status := (if approved then RecordSucceeded else RecordRejected),
       Refund_GatewayRefundID :=
         (if approved then Some gatewayRefundID else Refund_GatewayRefundID r),
       Refund_ReviewedBy := Some adminID, Refund_ReviewedAt := Some now, Refund_UpdatedAt := now\<rparr>"

definition dispute_refund ::
  "order \<Rightarrow> dispute \<Rightarrow> refund \<Rightarrow> string \<Rightarrow> int64 \<Rightarrow> instant \<Rightarrow> refund" where
  "dispute_refund ord dsp rf gatewayRefundID adminID now =
     rf\<lparr>Refund_OrderID := Order_ID ord,
        Refund_RequestedByRootUserID := Dispute_RaisedByRootUserID dsp,
        Refund_AmountCents := Order_PriceCents ord,
        Refund_GatewayRefundID := Some gatewayRefundID,
        Refund_Status := RecordSucceeded, Refund_ReviewedBy := Some adminID,
        Refund_ReviewedAt := Some now\<rparr>"

definition close_dispute_row ::
  "string \<Rightarrow> string \<Rightarrow> int64 \<Rightarrow> instant \<Rightarrow> dispute \<Rightarrow> dispute" where
  "close_dispute_row action resolution adminID now d =
     d\<lparr>Dispute_Status := (if action = ''refund'' then DisputeResolved else DisputeRejected),
       Dispute_Resolution := resolution, Dispute_ResolvedBy := Some adminID,
       Dispute_ResolvedAt := Some now, Dispute_UpdatedAt := now\<rparr>"

definition settlement_row :: "record_status \<Rightarrow> string \<Rightarrow> instant \<Rightarrow> settlement \<Rightarrow> settlement" where
  "settlement_row status gatewayID now s =
     s\<lparr>Settlement_Status := status, Settlement_UpdatedAt := now,
       Settlement_GatewaySettlementID :=
         (if gatewayID \<noteq> [] then Some gatewayID else Settlement_GatewaySettlementID s)\<rparr>"

section \<open>Categories and items\<close>

definition ListCategories ::
  "(category list \<Rightarrow> category list) \<Rightarrow> bool \<Rightarrow> (market_db, 'o, repo_error, category list) prog" where
  "ListCategories by_name includeDisabled =
     bind gormDB (\<lambda>_.
       read_rows (\<lambda>t. by_name
         (if includeDisabled then categories t
          else filter (\<lambda>c. Category_Status c = StatusActive) (categories t))))"

definition FindCategory :: "int64 \<Rightarrow> (market_db, 'o, repo_error, category option) prog" where
  "FindCategory cid = bind gormDB (\<lambda>_. find_row categories (\<lambda>c. Category_ID c = cid))"

definition repo_SaveCategory ::
  "(category \<Rightarrow> category list \<Rightarrow> db_err + category list) \<Rightarrow> category
    \<Rightarrow> (market_db, 'o, repo_error, unit) prog" where
  "repo_SaveCategory save c =
     bind gormDB (\<lambda>_.
       stmt (\<lambda>t. case save c (categories t) of
                  Inl e \<Rightarrow> Inl e
                | Inr rows \<Rightarrow> Inr ((), t\<lparr>categories := rows\<rparr>)))"

definition repo_CreateItem :: "item \<Rightarrow> (market_db, 'o, repo_error, unit) prog" where
  "repo_CreateItem it = bind gormDB (\<lambda>_. create_row items items_update items_ok it)"

text \<open>\<open>Preload("Category")\<close>: a second query; a missing category leaves the zero value.\<close>

definition zero_category :: category where
  "zero_category = \<lparr>Category_ID = 0, Category_Name = [], Category_CommissionRateBps = 0,
     Category_Status = StatusDisabled, Category_CreatedAt = 0, Category_UpdatedAt = 0\<rparr>"

definition zero_item :: item where
  "zero_item = \<lparr>Item_ID = 0, Item_SellerRootUserID = 0, Item_SellerUserID = 0, Item_CategoryID = 0,
     Item_Title = [], Item_Description = [], Item_Condition = [], Item_PriceCents = 0,
     Item_Images = [], Item_DeliveryLocation = [], Item_Status = ItemDraft,
     Item_ReservedOrderID = None, Item_CreatedAt = 0, Item_UpdatedAt = 0\<rparr>"

definition load_item :: "item \<Rightarrow> (market_db, 'o, repo_error, item_view) prog" where
  "load_item it =
     bind (read_rows (\<lambda>t. lookup Category_ID (categories t) (Item_CategoryID it))) (\<lambda>c.
       ret (it, case c of None \<Rightarrow> zero_category | Some c \<Rightarrow> c))"

definition load_order :: "order \<Rightarrow> (market_db, 'o, repo_error, order_view) prog" where
  "load_order ord =
     bind (read_rows (\<lambda>t. lookup Item_ID (items t) (Order_ItemID ord))) (\<lambda>i.
       case i of
         None \<Rightarrow> ret (ord, zero_item, zero_category)
       | Some it \<Rightarrow> bind (load_item it) (\<lambda>v. ret (ord, v)))"

definition FindItem :: "int64 \<Rightarrow> (market_db, 'o, repo_error, item_view option) prog" where
  "FindItem iid =
     bind gormDB (\<lambda>_.
     bind (find_row items (\<lambda>i. Item_ID i = iid)) (\<lambda>r.
       case r of
         None \<Rightarrow> ret None
       | Some it \<Rightarrow> bind (load_item it) (\<lambda>v. ret (Some v))))"

fun map_prog :: "('r \<Rightarrow> ('t, 'o, 'e, 'a) prog) \<Rightarrow> 'r list \<Rightarrow> ('t, 'o, 'e, 'a list) prog" where
  "map_prog f [] = ret []"
| "map_prog f (x # xs) = bind (f x) (\<lambda>y. bind (map_prog f xs) (\<lambda>ys. ret (y # ys)))"

definition repo_SearchItems ::
  "(string \<Rightarrow> string \<Rightarrow> bool) \<Rightarrow> int64 \<Rightarrow> bool \<Rightarrow> string \<Rightarrow> int64 \<Rightarrow> int \<Rightarrow> int
    \<Rightarrow> (market_db, 'o, repo_error, item_view list \<times> int64) prog" where
  "repo_SearchItems like rootUserID mine keyword categoryID page sz =
     (let keyword = TrimSpace keyword;
          pat = ''%'' @ keyword @ ''%'';
          base = (\<lambda>i. (if mine then Item_SellerRootUserID i = rootUserID
                       else Item_Status i = ItemPublished)
                     \<and> (categoryID > 0 \<longrightarrow> Item_CategoryID i = categoryID)
                     \<and> (keyword \<noteq> [] \<longrightarrow>
                          like (Item_Title i) pat \<or> like (Item_Description i) pat))
      in bind gormDB (\<lambda>_.
         bind (read_rows (\<lambda>t. int (length (filter base (items t))))) (\<lambda>tot.
         bind (read_rows (\<lambda>t. window page sz
                 (sort_key (\<lambda>i. - Item_CreatedAt i) (filter base (items t))))) (\<lambda>rows.
         bind (map_prog load_item rows) (\<lambda>views. ret (views, tot))))))"

definition repo_UpdateItem :: "item \<Rightarrow> int64 \<Rightarrow> (market_db, 'o, repo_error, bool) prog" where
  "repo_UpdateItem it ownerRootUserID =
     bind gormDB (\<lambda>_.
     bind (update_where items items_update items_ok
             (\<lambda>i. Item_ID i = Item_ID it \<and> Item_SellerRootUserID i = ownerRootUserID
                  \<and> Item_Status i \<in> {ItemDraft, ItemPublished})
             (edit_item_row it)) (\<lambda>n.
       ret (n = 1)))"

definition repo_WithdrawItem ::
  "int64 \<Rightarrow> int64 \<Rightarrow> instant \<Rightarrow> (market_db, 'o, repo_error, bool) prog" where
  "repo_WithdrawItem iid ownerRootUserID now =
     bind gormDB (\<lambda>_.
     bind (update_where items items_update items_ok
             (\<lambda>i. Item_ID i = iid \<and> Item_SellerRootUserID i = ownerRootUserID
                  \<and> Item_Status i \<in> {ItemDraft, ItemPublished, ItemHidden})
             (withdraw_item_row now)) (\<lambda>n.
       ret (n = 1)))"

text \<open>The taking of the reserved order may fail for any reason; then nothing is cancelled.\<close>

definition repo_HideItem ::
  "int64 \<Rightarrow> instant \<Rightarrow> (market_db, 'o, repo_error, order option) prog" where
  "repo_HideItem iid now =
     bind gormDB (\<lambda>_. transaction (
       bind (take_row items (\<lambda>i. Item_ID i = iid)) (\<lambda>it.
       bind (case (Item_Status it, Item_ReservedOrderID it) of
               (ItemReserved, Some oid) \<Rightarrow>
                 bind (attempt (take_row orders
                        (\<lambda>d. Order_ID d = oid \<and> Order_Status d = OrderPendingPayment)))
                   (\<lambda>r :: repo_error + order. case r of
                     Inl _ \<Rightarrow> ret None
                   | Inr ord \<Rightarrow>
                       bind (update_where orders orders_update orders_ok
                              (\<lambda>d. Order_ID d = Order_ID ord \<and> Order_Status d = OrderPendingPayment)
                              (cancel_order_row now)) (\<lambda>_. ret (Some ord)))
             | _ \<Rightarrow> ret None) (\<lambda>cancelled.
       bind (update_where items items_update items_ok (\<lambda>i. Item_ID i = iid)
              (hide_item_row now)) (\<lambda>_.
       ret cancelled)))))"

section \<open>Orders and payments\<close>

definition repo_CreateOrder :: "order \<Rightarrow> (market_db, 'o, repo_error, order) prog" where
  "repo_CreateOrder ord =
     bind gormDB (\<lambda>_. transaction (
       bind (or_sentinel (take_row items (\<lambda>i. Item_ID i = Order_ItemID ord))
               errItemUnavailable) (\<lambda>it.
       bind (fail_if (Item_Status it \<noteq> ItemPublished \<or> Item_ReservedOrderID it \<noteq> None)
               errItemUnavailable) (\<lambda>_.
       bind (fail_if (Item_SellerRootUserID it = Order_BuyerRootUserID ord) errOwnItem) (\<lambda>_.
       bind (or_sentinel (take_row categories
               (\<lambda>c. Category_ID c = Item_CategoryID it \<and> Category_Status c = StatusActive))
               errItemUnavailable) (\<lambda>cat.
       let fee = commissionFee (Item_PriceCents it) (Category_CommissionRateBps cat);
           ord = ord\<lparr>Order_SellerRootUserID := Item_SellerRootUserID it,
                     Order_PriceCents := Item_PriceCents it,
                     Order_CommissionRateBps := Category_CommissionRateBps cat,
                     Order_PlatformFeeCents := fee,
                     Order_SellerNetCents := wrap64 (Item_PriceCents it - fee)\<rparr>
       in bind (update_where items items_update items_ok
                 (\<lambda>i. Item_ID i = Item_ID it \<and> Item_Status i = ItemPublished
                      \<and> Item_ReservedOrderID i = None)
                 (reserve_item_row ord)) (\<lambda>n.
          bind (fail_if (n \<noteq> 1) errItemUnavailable) (\<lambda>_.
          bind (create_row orders orders_update orders_ok ord) (\<lambda>_.
          ret ord)))))))))"

definition FindOrder :: "int64 \<Rightarrow> (market_db, 'o, repo_error, order_view option) prog" where
  "FindOrder oid =
     bind gormDB (\<lambda>_.
     bind (find_row orders (\<lambda>d. Order_ID d = oid)) (\<lambda>r.
       case r of
         None \<Rightarrow> ret None
       | Some ord \<Rightarrow> bind (load_order ord) (\<lambda>v. ret (Some v))))"

definition repo_ListOrders ::
  "int64 \<Rightarrow> bool \<Rightarrow> int \<Rightarrow> int \<Rightarrow> (market_db, 'o, repo_error, order_view list \<times> int64) prog" where
  "repo_ListOrders rootUserID admin page sz =
     (let base = (\<lambda>d. admin \<or> Order_BuyerRootUserID d = rootUserID
                            \<or> Order_SellerRootUserID d = rootUserID)
      in bind gormDB (\<lambda>_.
         bind (read_rows (\<lambda>t. int (length (filter base (orders t))))) (\<lambda>tot.
         bind (read_rows (\<lambda>t. window page sz
                 (sort_key (\<lambda>d. - Order_CreatedAt d) (filter base (orders t))))) (\<lambda>rows.
         bind (map_prog load_order rows) (\<lambda>views. ret (views, tot))))))"

definition CreateOrFindPayment ::
  "payment \<Rightarrow> (market_db, 'o, repo_error, payment \<times> bool) prog" where
  "CreateOrFindPayment pay =
     bind gormDB (\<lambda>_. transaction (
       bind (or_sentinel (take_row orders (\<lambda>d. Order_ID d = Payment_OrderID pay))
               errOrderState) (\<lambda>ord.
       bind (fail_if (Order_Status ord \<noteq> OrderPendingPayment
                      \<or> \<not> Payment_CreatedAt pay < Order_ExpiresAt ord) errOrderState) (\<lambda>_.
       bind (find_row payments (\<lambda>p. Payment_RequestID p = Payment_RequestID pay)) (\<lambda>r.
         case r of
           Some existing \<Rightarrow>
             bind (fail_if (Payment_OrderID existing \<noteq> Payment_OrderID pay
                            \<or> Payment_AmountCents existing \<noteq> Payment_AmountCents pay)
                     errOrderState) (\<lambda>_.
             ret (existing, False))
         | None \<Rightarrow>
             bind (create_row payments payments_update payments_ok pay) (\<lambda>_.
             ret (pay, True)))))))"

definition AttachPaymentTransaction ::
  "int64 \<Rightarrow> string \<Rightarrow> instant \<Rightarrow> (market_db, 'o, repo_error, unit) prog" where
  "AttachPaymentTransaction paymentID transactionID now =
     bind gormDB (\<lambda>_.
     bind (update_where payments payments_update payments_ok
             (\<lambda>p. Payment_ID p = paymentID
                  \<and> (Payment_GatewayTransactionID p = None
                     \<or> Payment_GatewayTransactionID p = Some transactionID))
             (attach_payment_row transactionID now)) (\<lambda>n.
     fail_if (n \<noteq> 1) errOrderState))"

definition isUniqueError :: "repo_error \<Rightarrow> bool" where
  "isUniqueError e \<longleftrightarrow> e = Db UniqueViolation"

definition ApplyPaymentCallback ::
  "string \<Rightarrow> string \<Rightarrow> int64 \<Rightarrow> instant
    \<Rightarrow> (market_db, 'o, repo_error, order_view \<times> bool) prog" where
  "ApplyPaymentCallback requestID transactionID amountCents now =
     bind gormDB (\<lambda>_. transaction (
       bind (or_sentinel (take_row payments (\<lambda>p. Payment_RequestID p = requestID))
               errOrderState) (\<lambda>pay.
       bind (fail_if (Payment_AmountCents pay \<noteq> amountCents
                      \<or> (Payment_GatewayTransactionID pay \<noteq> None
                         \<and> Payment_GatewayTransactionID pay \<noteq> Some transactionID))
               errOrderState) (\<lambda>_.
       if Payment_Status pay = RecordSucceeded then
         bind (take_row orders (\<lambda>d. Order_ID d = Payment_OrderID pay)) (\<lambda>ord.
         bind (load_order ord) (\<lambda>v. ret (v, False)))
       else
         bind (or_sentinel (take_row orders (\<lambda>d. Order_ID d = Payment_OrderID pay))
                 errOrderState) (\<lambda>ord.
         bind (fail_if (Order_Status ord \<noteq> OrderPendingPayment \<or> \<not> now < Order_ExpiresAt ord)
                 errOrderState) (\<lambda>_.
         bind (map_error (\<lambda>e. if isUniqueError e then Sentinel errOrderState else e)
                (update_where payments payments_update payments_ok
                  (\<lambda>p. Payment_ID p = Payment_ID pay \<and> Payment_Status p = RecordPending)
                  (succeed_payment_row transactionID now))) (\<lambda>_.
         bind (update_where orders orders_update orders_ok
                (\<lambda>d. Order_ID d = Order_ID ord \<and> Order_Status d = OrderPendingPayment)
                (pay_order_row now)) (\<lambda>n.
         bind (fail_if (n \<noteq> 1) errOrderState) (\<lambda>_.
         bind (take_row orders (\<lambda>d. Order_ID d = Order_ID ord)) (\<lambda>ord.
         bind (load_order ord) (\<lambda>v. ret (v, True))))))))))))"

definition transitionOrder ::
  "int64 \<Rightarrow> (order \<Rightarrow> (market_db, 'o, repo_error, unit) prog)
    \<Rightarrow> (market_db, 'o, repo_error, order_view) prog" where
  "transitionOrder oid transition =
     bind gormDB (\<lambda>_. transaction (
       bind (or_sentinel (take_row orders (\<lambda>d. Order_ID d = oid)) errOrderState) (\<lambda>ord.
       bind (transition ord) (\<lambda>_.
       bind (take_row orders (\<lambda>d. Order_ID d = oid)) (\<lambda>ord. load_order ord)))))"

text \<open>Giving a reserved item back to the market, as cancellation and expiry do.\<close>

definition release_item :: "order \<Rightarrow> instant \<Rightarrow> (market_db, 'o, repo_error, nat) prog" where
  "release_item ord now =
     update_where items items_update items_ok
       (\<lambda>i. Item_ID i = Order_ItemID ord \<and> Item_ReservedOrderID i = Some (Order_ID ord))
       (release_item_row now)"

definition repo_CancelOrder ::
  "int64 \<Rightarrow> int64 \<Rightarrow> instant \<Rightarrow> (market_db, 'o, repo_error, order_view) prog" where
  "repo_CancelOrder oid buyerRootUserID now =
     transitionOrder oid (\<lambda>ord.
       bind (fail_if (Order_BuyerRootUserID ord \<noteq> buyerRootUserID
                      \<or> Order_Status ord \<noteq> OrderPendingPayment) errOrderState) (\<lambda>_.
       bind (update_where orders orders_update orders_ok
              (\<lambda>d. Order_ID d = oid \<and> Order_Status d = OrderPendingPayment)
              (cancel_order_row now)) (\<lambda>_.
       bind (release_item ord now) (\<lambda>_. ret ()))))"

definition repo_MarkDelivered ::
  "int64 \<Rightarrow> int64 \<Rightarrow> instant \<Rightarrow> (market_db, 'o, repo_error, order_view) prog" where
  "repo_MarkDelivered oid sellerRootUserID now =
     transitionOrder oid (\<lambda>ord.
       bind (fail_if (Order_SellerRootUserID ord \<noteq> sellerRootUserID
                      \<or> Order_Status ord \<noteq> OrderPaid) errOrderState) (\<lambda>_.
       bind (update_where orders orders_update orders_ok
              (\<lambda>d. Order_ID d = oid \<and> Order_Status d = OrderPaid)
              (deliver_order_row now)) (\<lambda>_. ret ())))"

definition pending_refund_of :: "int64 \<Rightarrow> refund \<Rightarrow> bool" where
  "pending_refund_of oid r \<longleftrightarrow> Refund_OrderID r = oid \<and> Refund_Status r = RecordPending"

definition completeOrderTx ::
  "order \<Rightarrow> settlement \<Rightarrow> instant \<Rightarrow> (market_db, 'o, repo_error, unit) prog" where
  "completeOrderTx ord stl now =
     bind (read_rows (\<lambda>t. length (filter (pending_refund_of (Order_ID ord)) (refunds t))))
       (\<lambda>pendingRefunds.
     bind (fail_if (pendingRefunds > 0) errOrderState) (\<lambda>_.
     bind (update_where orders orders_update orders_ok
            (\<lambda>d. Order_ID d = Order_ID ord \<and> Order_Status d = OrderDelivered)
            (complete_order_row now)) (\<lambda>n.
     bind (fail_if (n \<noteq> 1) errOrderState) (\<lambda>_.
     bind (update_where items items_update items_ok
            (\<lambda>i. Item_ID i = Order_ItemID ord \<and> Item_ReservedOrderID i = Some (Order_ID ord))
            (sell_item_row now)) (\<lambda>_.
     create_or_ignore settlements settlements_update settlements_ok stl)))))"

definition repo_ConfirmReceived ::
  "int64 \<Rightarrow> int64 \<Rightarrow> settlement \<Rightarrow> instant \<Rightarrow> (market_db, 'o, repo_error, order_view) prog" where
  "repo_ConfirmReceived oid buyerRootUserID stl now =
     transitionOrder oid (\<lambda>ord.
       bind (fail_if (Order_BuyerRootUserID ord \<noteq> buyerRootUserID
                      \<or> Order_Status ord \<noteq> OrderDelivered) errOrderState) (\<lambda>_.
       completeOrderTx ord
         (stl\<lparr>Settlement_OrderID := Order_ID ord,
              Settlement_AmountCents := Order_SellerNetCents ord\<rparr>) now))"

section \<open>Refunds and disputes\<close>

definition repo_CreateRefund :: "refund \<Rightarrow> (market_db, 'o, repo_error, refund) prog" where
  "repo_CreateRefund rf =
     bind gormDB (\<lambda>_. transaction (
       bind (or_sentinel (take_row orders (\<lambda>d. Order_ID d = Refund_OrderID rf))
               errOrderState) (\<lambda>ord.
       bind (fail_if (Order_BuyerRootUserID ord \<noteq> Refund_RequestedByRootUserID rf
                      \<or> (Order_Status ord \<noteq> OrderPaid \<and> Order_Status ord \<noteq> OrderDelivered))
               errOrderState) (\<lambda>_.
       let rf = rf\<lparr>Refund_AmountCents := Order_PriceCents ord\<rparr>
       in bind (map_error (\<lambda>e. if isUniqueError e then Sentinel errRefundExists else e)
                 (create_row refunds refunds_update refunds_ok rf)) (\<lambda>_. ret rf)))))"

definition FindRefund :: "int64 \<Rightarrow> (market_db, 'o, repo_error, refund option) prog" where
  "FindRefund rid = bind gormDB (\<lambda>_. find_row refunds (\<lambda>r. Refund_ID r = rid))"

text \<open>Taking an item off the market for good, as every refund does.\<close>

definition withdraw_refunded :: "order \<Rightarrow> instant \<Rightarrow> (market_db, 'o, repo_error, nat) prog" where
  "withdraw_refunded ord now =
     update_where items items_update items_ok
       (\<lambda>i. Item_ID i = Order_ItemID ord)
       (take_item_row now)"

definition repo_DecideRefund ::
  "int64 \<Rightarrow> int64 \<Rightarrow> bool \<Rightarrow> string \<Rightarrow> instant \<Rightarrow> (market_db, 'o, repo_error, order_view) prog" where
  "repo_DecideRefund rid adminID approved gatewayRefundID now =
     bind gormDB (\<lambda>_. transaction (
       bind (or_sentinel (take_row refunds (\<lambda>r. Refund_ID r = rid)) errOrderState) (\<lambda>rf.
       bind (fail_if (Refund_Status rf \<noteq> RecordPending) errOrderState) (\<lambda>_.
       bind (or_sentinel (take_row orders (\<lambda>d. Order_ID d = Refund_OrderID rf))
               errOrderState) (\<lambda>ord.
       bind (if approved then
               bind (update_where orders orders_update orders_ok
                      (\<lambda>d. Order_ID d = Order_ID ord
                           \<and> Order_Status d \<in> {OrderPaid, OrderDelivered, OrderDisputed})
                      (refund_order_row now)) (\<lambda>_.
               bind (withdraw_refunded ord now) (\<lambda>_. ret ()))
             else ret ()) (\<lambda>_.
       bind (update_where refunds refunds_update refunds_ok
              (\<lambda>r. Refund_ID r = Refund_ID rf \<and> Refund_Status r = RecordPending)
              (decide_refund_row adminID approved gatewayRefundID now)) (\<lambda>_.
       bind (take_row orders (\<lambda>d. Order_ID d = Order_ID ord)) (\<lambda>ord. load_order ord))))))))"

definition repo_CreateDispute ::
  "dispute \<Rightarrow> instant \<Rightarrow> (market_db, 'o, repo_error, dispute) prog" where
  "repo_CreateDispute dsp now =
     bind gormDB (\<lambda>_. transaction (
       bind (or_sentinel (take_row orders (\<lambda>d. Order_ID d = Dispute_OrderID dsp))
               errOrderState) (\<lambda>ord.
       bind (fail_if ((Order_BuyerRootUserID ord \<noteq> Dispute_RaisedByRootUserID dsp
                       \<and> Order_SellerRootUserID ord \<noteq> Dispute_RaisedByRootUserID dsp)
                      \<or> (Order_Status ord \<noteq> OrderPaid \<and> Order_Status ord \<noteq> OrderDelivered))
               errOrderState) (\<lambda>_.
       bind (read_rows (\<lambda>t. length (filter (pending_refund_of (Order_ID ord)) (refunds t))))
         (\<lambda>pendingRefunds.
       bind (fail_if (pendingRefunds > 0) errOrderState) (\<lambda>_.
       let dsp = dsp\<lparr>Dispute_PreviousOrderStatus := Order_Status ord\<rparr>
       in bind (map_error (\<lambda>e. if isUniqueError e then Sentinel errDisputeExists else e)
                 (create_row disputes disputes_update disputes_ok dsp)) (\<lambda>_.
          bind (update_where orders orders_update orders_ok
                 (\<lambda>d. Order_ID d = Order_ID ord \<and> Order_Status d = Order_Status ord)
                 (dispute_order_row now)) (\<lambda>_. ret dsp))))))))"

definition FindDispute :: "int64 \<Rightarrow> (market_db, 'o, repo_error, dispute option) prog" where
  "FindDispute did = bind gormDB (\<lambda>_. find_row disputes (\<lambda>d. Dispute_ID d = did))"

definition repo_ResolveDispute ::
  "int64 \<Rightarrow> int64 \<Rightarrow> string \<Rightarrow> string \<Rightarrow> string \<Rightarrow> refund \<Rightarrow> instant
    \<Rightarrow> (market_db, 'o, repo_error, order_view) prog" where
  "repo_ResolveDispute did adminID action resolution gatewayRefundID rf now =
     bind gormDB (\<lambda>_. transaction (
       bind (or_sentinel (take_row disputes
               (\<lambda>d. Dispute_ID d = did \<and> Dispute_Status d = DisputePending)) errOrderState) (\<lambda>dsp.
       bind (or_sentinel (take_row orders
               (\<lambda>d. Order_ID d = Dispute_OrderID dsp \<and> Order_Status d = OrderDisputed))
               errOrderState) (\<lambda>ord.
       let nextStatus = (if action = ''refund'' then OrderRefunded
                         else Dispute_PreviousOrderStatus dsp)
       in bind (if action = ''refund'' then
                  bind (create_or_ignore refunds refunds_update refunds_ok
                         (dispute_refund ord dsp rf gatewayRefundID adminID now)) (\<lambda>_.
                  bind (withdraw_refunded ord now) (\<lambda>_. ret ()))
                else ret ()) (\<lambda>_.
          bind (update_where orders orders_update orders_ok
                 (\<lambda>d. Order_ID d = Order_ID ord \<and> Order_Status d = OrderDisputed)
                 (resolve_order_row nextStatus now)) (\<lambda>_.
          bind (update_where disputes disputes_update disputes_ok
                 (\<lambda>d. Dispute_ID d = Dispute_ID dsp \<and> Dispute_Status d = DisputePending)
                 (close_dispute_row action resolution adminID now)) (\<lambda>_.
          bind (take_row orders (\<lambda>d. Order_ID d = Order_ID ord)) (\<lambda>ord. load_order ord))))))))"

definition listRecords ::
  "(market_db \<Rightarrow> 'r list) \<Rightarrow> ('r \<Rightarrow> instant) \<Rightarrow> int \<Rightarrow> int
    \<Rightarrow> (market_db, 'o, repo_error, 'r list \<times> int64) prog" where
  "listRecords tab createdAt page sz =
     bind gormDB (\<lambda>_.
     bind (read_rows (\<lambda>t. int (length (tab t)))) (\<lambda>tot.
     bind (read_rows (\<lambda>t. window page sz (sort_key (\<lambda>r. - createdAt r) (tab t)))) (\<lambda>rows.
     ret (rows, tot))))"

section \<open>Scheduled jobs\<close>

definition ListExpiredOrderIDs ::
  "instant \<Rightarrow> nat \<Rightarrow> (market_db, 'o, repo_error, int64 list) prog" where
  "ListExpiredOrderIDs now limit =
     bind gormDB (\<lambda>_.
     read_rows (\<lambda>t. take limit (sort (map Order_ID
       (filter (\<lambda>d. Order_Status d = OrderPendingPayment \<and> Order_ExpiresAt d \<le> now)
         (orders t))))))"

text \<open>\<open>None\<close>: nothing changed (the returned order is not used then).\<close>

definition repo_ExpireOrder ::
  "int64 \<Rightarrow> instant \<Rightarrow> (market_db, 'o, repo_error, order_view option) prog" where
  "repo_ExpireOrder oid now =
     bind gormDB (\<lambda>_. transaction (
       bind (find_row orders (\<lambda>d. Order_ID d = oid)) (\<lambda>r.
         case r of
           None \<Rightarrow> ret None
         | Some ord \<Rightarrow>
             if Order_Status ord \<noteq> OrderPendingPayment \<or> Order_ExpiresAt ord > now then ret None
             else
               bind (update_where orders orders_update orders_ok
                      (\<lambda>d. Order_ID d = oid \<and> Order_Status d = OrderPendingPayment)
                      (cancel_order_row now)) (\<lambda>n.
               if n \<noteq> 1 then ret None
               else
                 bind (release_item ord now) (\<lambda>_.
                 bind (take_row orders (\<lambda>d. Order_ID d = oid)) (\<lambda>ord.
                 bind (load_order ord) (\<lambda>v. ret (Some v))))))))"

definition ListAutoCompleteOrderIDs ::
  "instant \<Rightarrow> nat \<Rightarrow> (market_db, 'o, repo_error, int64 list) prog" where
  "ListAutoCompleteOrderIDs cutoff limit =
     bind gormDB (\<lambda>_.
     read_rows (\<lambda>t. take limit (sort (map Order_ID
       (filter (\<lambda>d. Order_Status d = OrderDelivered
                   \<and> (case Order_DeliveredAt d of None \<Rightarrow> False | Some a \<Rightarrow> a \<le> cutoff)
                   \<and> filter (pending_refund_of (Order_ID d)) (refunds t) = [])
         (orders t))))))"

definition AutoCompleteOrder ::
  "int64 \<Rightarrow> instant \<Rightarrow> settlement \<Rightarrow> instant
    \<Rightarrow> (market_db, 'o, repo_error, order_view option) prog" where
  "AutoCompleteOrder oid cutoff stl now =
     bind gormDB (\<lambda>_. transaction (
       bind (find_row orders (\<lambda>d. Order_ID d = oid)) (\<lambda>r.
         case r of
           None \<Rightarrow> ret None
         | Some ord \<Rightarrow>
             if Order_Status ord \<noteq> OrderDelivered
                \<or> (case Order_DeliveredAt ord of None \<Rightarrow> True | Some a \<Rightarrow> a > cutoff)
             then ret None
             else
               bind (completeOrderTx ord
                      (stl\<lparr>Settlement_OrderID := Order_ID ord,
                           Settlement_AmountCents := Order_SellerNetCents ord\<rparr>) now) (\<lambda>_.
               bind (take_row orders (\<lambda>d. Order_ID d = oid)) (\<lambda>ord.
               bind (load_order ord) (\<lambda>v. ret (Some v)))))))"

definition FindSettlement :: "int64 \<Rightarrow> (market_db, 'o, repo_error, settlement option) prog" where
  "FindSettlement sid = bind gormDB (\<lambda>_. find_row settlements (\<lambda>s. Settlement_ID s = sid))"

definition UpdateSettlement ::
  "int64 \<Rightarrow> record_status \<Rightarrow> string \<Rightarrow> instant \<Rightarrow> (market_db, 'o, repo_error, bool) prog" where
  "UpdateSettlement sid status gatewayID now =
     bind gormDB (\<lambda>_.
     bind (update_where settlements settlements_update settlements_ok
             (\<lambda>s. Settlement_ID s = sid \<and> Settlement_Status s \<in> {RecordPending, RecordFailed})
             (settlement_row status gatewayID now)) (\<lambda>n.
       ret (n = 1)))"

definition ListRetrySettlementIDs :: "nat \<Rightarrow> (market_db, 'o, repo_error, int64 list) prog" where
  "ListRetrySettlementIDs limit =
     bind gormDB (\<lambda>_.
     read_rows (\<lambda>t. take limit (map Settlement_ID (sort_key Settlement_CreatedAt
       (filter (\<lambda>s. Settlement_Status s \<in> {RecordPending, RecordFailed}) (settlements t))))))"

end
