(* ===== verification/Marketplace_Spec.thy ===== *)
theory Marketplace_Spec
  imports Marketplace_Model
begin

text \<open>
  What the marketplace promises, as an abstract machine: the tables seen as maps from primary keys
  to rows (\<open>market_view\<close>), one rule of \<open>spec_step\<close> per business event, without timestamps, request
  parsing or statements. \<open>view_inv\<close> collects what holds between items, orders, payments, refunds,
  disputes and settlements; every rule keeps it.
\<close>

record market_view =
  vitem :: "int64 \<rightharpoonup> item"
  vorder :: "int64 \<rightharpoonup> order"
  vpay :: "int64 \<rightharpoonup> payment"
  vrefund :: "int64 \<rightharpoonup> refund"
  vdispute :: "int64 \<rightharpoonup> dispute"
  vsettle :: "int64 \<rightharpoonup> settlement"

definition same_terms :: "order \<Rightarrow> order \<Rightarrow> bool" where
  "same_terms d d' \<longleftrightarrow>
     Order_ID d' = Order_ID d \<and> Order_ItemID d' = Order_ItemID d \<and>
     Order_BuyerRootUserID d' = Order_BuyerRootUserID d \<and>
     Order_SellerRootUserID d' = Order_SellerRootUserID d \<and>
     Order_PriceCents d' = Order_PriceCents d \<and>
     Order_CommissionRateBps d' = Order_CommissionRateBps d \<and>
     Order_PlatformFeeCents d' = Order_PlatformFeeCents d \<and>
     Order_SellerNetCents d' = Order_SellerNetCents d"

definition order_to :: "order_status \<Rightarrow> order \<Rightarrow> order \<Rightarrow> bool" where
  "order_to s d d' \<longleftrightarrow> same_terms d d' \<and> Order_Status d' = s"

definition item_to :: "item_status \<Rightarrow> int64 option \<Rightarrow> item \<Rightarrow> item \<Rightarrow> bool" where
  "item_to s res i i' \<longleftrightarrow>
     Item_ID i' = Item_ID i \<and> Item_PriceCents i' = Item_PriceCents i \<and> Item_Status i' = s \<and>
     Item_ReservedOrderID i' = res"

definition active :: "order \<Rightarrow> bool" where
  "active d \<longleftrightarrow> Order_Status d \<in> {OrderPendingPayment, OrderPaid, OrderDelivered, OrderDisputed}"

definition paid_for :: "order \<Rightarrow> bool" where
  "paid_for d \<longleftrightarrow>
     Order_Status d \<in> {OrderPaid, OrderDelivered, OrderCompleted, OrderRefunded, OrderDisputed}"

definition price_ok :: "int64 \<Rightarrow> bool" where
  "price_ok p \<longleftrightarrow> 0 < p \<and> p < 2 ^ 63"

definition terms_ok :: "order \<Rightarrow> bool" where
  "terms_ok d \<longleftrightarrow>
     price_ok (Order_PriceCents d) \<and> valid_rate (Order_CommissionRateBps d) \<and>
     Order_PlatformFeeCents d = commissionFee (Order_PriceCents d) (Order_CommissionRateBps d) \<and>
     Order_PlatformFeeCents d + Order_SellerNetCents d = Order_PriceCents d"

text \<open>Releasing the item of an order: only if it is still reserved for that order.\<close>

definition released :: "order \<Rightarrow> (int64 \<rightharpoonup> item) \<Rightarrow> (int64 \<rightharpoonup> item) \<Rightarrow> bool" where
  "released d m m' \<longleftrightarrow>
     (\<exists>i i'. m (Order_ItemID d) = Some i \<and> Item_ReservedOrderID i = Some (Order_ID d) \<and>
        item_to ItemPublished None i i' \<and> m' = m(Order_ItemID d \<mapsto> i'))
     \<or> (\<exists>i. m (Order_ItemID d) = Some i \<and> Item_ReservedOrderID i \<noteq> Some (Order_ID d) \<and> m' = m)"

definition sold :: "order \<Rightarrow> (int64 \<rightharpoonup> item) \<Rightarrow> (int64 \<rightharpoonup> item) \<Rightarrow> bool" where
  "sold d m m' \<longleftrightarrow>
     (\<exists>i i'. m (Order_ItemID d) = Some i \<and> Item_ReservedOrderID i = Some (Order_ID d) \<and>
        item_to ItemSold (Some (Order_ID d)) i i' \<and> m' = m(Order_ItemID d \<mapsto> i'))
     \<or> (\<exists>i. m (Order_ItemID d) = Some i \<and> Item_ReservedOrderID i \<noteq> Some (Order_ID d) \<and> m' = m)"

inductive spec_step :: "market_view \<Rightarrow> market_view \<Rightarrow> bool" where
  idle: "spec_step v v"
| list_item:
    "vitem v (Item_ID i) = None \<Longrightarrow> Item_ReservedOrderID i = None \<Longrightarrow>
     Item_Status i \<in> {ItemDraft, ItemPublished} \<Longrightarrow> price_ok (Item_PriceCents i) \<Longrightarrow>
     spec_step v (v\<lparr>vitem := (vitem v)(Item_ID i \<mapsto> i)\<rparr>)"
| edit_item:
    "vitem v k = Some i \<Longrightarrow> Item_Status i \<in> {ItemDraft, ItemPublished} \<Longrightarrow>
     Item_ID i' = Item_ID i \<Longrightarrow> Item_ReservedOrderID i' = Item_ReservedOrderID i \<Longrightarrow>
     Item_Status i' \<in> {ItemDraft, ItemPublished} \<Longrightarrow> price_ok (Item_PriceCents i') \<Longrightarrow>
     spec_step v (v\<lparr>vitem := (vitem v)(k \<mapsto> i')\<rparr>)"
| withdraw_item:
    "vitem v k = Some i \<Longrightarrow> Item_Status i \<in> {ItemDraft, ItemPublished, ItemHidden} \<Longrightarrow>
     item_to ItemWithdrawn (Item_ReservedOrderID i) i i' \<Longrightarrow>
     spec_step v (v\<lparr>vitem := (vitem v)(k \<mapsto> i')\<rparr>)"
| hide_item:
    "vitem v k = Some i \<Longrightarrow> item_to ItemHidden None i i' \<Longrightarrow>
     spec_step v (v\<lparr>vitem := (vitem v)(k \<mapsto> i')\<rparr>)"
| hide_reserved:
    "vitem v k = Some i \<Longrightarrow> Item_Status i = ItemReserved \<Longrightarrow> Item_ReservedOrderID i = Some o' \<Longrightarrow>
     vorder v o' = Some d \<Longrightarrow> Order_Status d = OrderPendingPayment \<Longrightarrow>
     item_to ItemHidden None i i' \<Longrightarrow> order_to OrderCancelled d d' \<Longrightarrow>
     spec_step v (v\<lparr>vitem := (vitem v)(k \<mapsto> i'), vorder := (vorder v)(o' \<mapsto> d')\<rparr>)"
| place_order:
    "vitem v (Order_ItemID d) = Some i \<Longrightarrow> Item_Status i = ItemPublished \<Longrightarrow>
     Item_ReservedOrderID i = None \<Longrightarrow> vorder v (Order_ID d) = None \<Longrightarrow>
     Order_Status d = OrderPendingPayment \<Longrightarrow> Order_PriceCents d = Item_PriceCents i \<Longrightarrow>
     terms_ok d \<Longrightarrow> item_to ItemReserved (Some (Order_ID d)) i i' \<Longrightarrow>
     spec_step v (v\<lparr>vitem := (vitem v)(Order_ItemID d \<mapsto> i'),
                    vorder := (vorder v)(Order_ID d \<mapsto> d)\<rparr>)"
| open_payment:
    "vorder v (Payment_OrderID p) = Some d \<Longrightarrow> Order_Status d = OrderPendingPayment \<Longrightarrow>
     Payment_AmountCents p = Order_PriceCents d \<Longrightarrow> Payment_Status p = RecordPending \<Longrightarrow>
     vpay v (Payment_ID p) = None \<Longrightarrow>
     spec_step v (v\<lparr>vpay := (vpay v)(Payment_ID p \<mapsto> p)\<rparr>)"
| attach_transaction:
    "vpay v k = Some p \<Longrightarrow> Payment_ID p' = Payment_ID p \<Longrightarrow>
     Payment_OrderID p' = Payment_OrderID p \<Longrightarrow> Payment_AmountCents p' = Payment_AmountCents p \<Longrightarrow>
     Payment_Status p' = Payment_Status p \<Longrightarrow>
     spec_step v (v\<lparr>vpay := (vpay v)(k \<mapsto> p')\<rparr>)"
| pay:
    "vpay v k = Some p \<Longrightarrow> Payment_Status p = RecordPending \<Longrightarrow>
     vorder v (Payment_OrderID p) = Some d \<Longrightarrow> Order_Status d = OrderPendingPayment \<Longrightarrow>
     Payment_ID p' = Payment_ID p \<Longrightarrow> Payment_OrderID p' = Payment_OrderID p \<Longrightarrow>
     Payment_AmountCents p' = Payment_AmountCents p \<Longrightarrow> Payment_Status p' = RecordSucceeded \<Longrightarrow>
     order_to OrderPaid d d' \<Longrightarrow>
     spec_step v (v\<lparr>vpay := (vpay v)(k \<mapsto> p'), vorder := (vorder v)(Payment_OrderID p \<mapsto> d')\<rparr>)"
| cancel:
    "vorder v k = Some d \<Longrightarrow> Order_Status d = OrderPendingPayment \<Longrightarrow> order_to OrderCancelled d d' \<Longrightarrow>
     released d (vitem v) m' \<Longrightarrow>
     spec_step v (v\<lparr>vorder := (vorder v)(k \<mapsto> d'), vitem := m'\<rparr>)"
| deliver:
    "vorder v k = Some d \<Longrightarrow> Order_Status d = OrderPaid \<Longrightarrow> order_to OrderDelivered d d' \<Longrightarrow>
     spec_step v (v\<lparr>vorder := (vorder v)(k \<mapsto> d')\<rparr>)"
| complete:
    "vorder v k = Some d \<Longrightarrow> Order_Status d = OrderDelivered \<Longrightarrow> order_to OrderCompleted d d' \<Longrightarrow>
     \<forall>j r. vrefund v j = Some r \<longrightarrow> Refund_OrderID r = k \<longrightarrow> Refund_Status r \<noteq> RecordPending \<Longrightarrow>
     sold d (vitem v) m' \<Longrightarrow> vsettle v (Settlement_ID s) = None \<Longrightarrow> Settlement_OrderID s = k \<Longrightarrow>
     Settlement_RequestID s = ''settlement:'' @ marketplaceID k \<Longrightarrow>
     Settlement_AmountCents s = Order_SellerNetCents d \<Longrightarrow>
     spec_step v (v\<lparr>vorder := (vorder v)(k \<mapsto> d'), vitem := m',
                    vsettle := (vsettle v)(Settlement_ID s \<mapsto> s)\<rparr>)"
| request_refund:
    "vorder v (Refund_OrderID r) = Some d \<Longrightarrow> Order_Status d \<in> {OrderPaid, OrderDelivered} \<Longrightarrow>
     Refund_Status r = RecordPending \<Longrightarrow> Refund_AmountCents r = Order_PriceCents d \<Longrightarrow>
     vrefund v (Refund_ID r) = None \<Longrightarrow>
     \<forall>j s. vrefund v j = Some s \<longrightarrow> Refund_OrderID s \<noteq> Refund_OrderID r \<Longrightarrow>
     spec_step v (v\<lparr>vrefund := (vrefund v)(Refund_ID r \<mapsto> r)\<rparr>)"
| reject_refund:
    "vrefund v k = Some r \<Longrightarrow> Refund_Status r = RecordPending \<Longrightarrow> Refund_ID r' = Refund_ID r \<Longrightarrow>
     Refund_OrderID r' = Refund_OrderID r \<Longrightarrow> Refund_AmountCents r' = Refund_AmountCents r \<Longrightarrow>
     Refund_Status r' = RecordRejected \<Longrightarrow>
     spec_step v (v\<lparr>vrefund := (vrefund v)(k \<mapsto> r')\<rparr>)"
| approve_refund:
    "vrefund v k = Some r \<Longrightarrow> Refund_Status r = RecordPending \<Longrightarrow> Refund_ID r' = Refund_ID r \<Longrightarrow>
     Refund_OrderID r' = Refund_OrderID r \<Longrightarrow> Refund_AmountCents r' = Refund_AmountCents r \<Longrightarrow>
     Refund_Status r' = RecordSucceeded \<Longrightarrow> vorder v (Refund_OrderID r) = Some d \<Longrightarrow>
     Order_Status d \<in> {OrderPaid, OrderDelivered} \<Longrightarrow> order_to OrderRefunded d d' \<Longrightarrow>
     vitem v (Order_ItemID d) = Some i \<Longrightarrow> item_to ItemWithdrawn None i i' \<Longrightarrow>
     spec_step v (v\<lparr>vrefund := (vrefund v)(k \<mapsto> r'), vorder := (vorder v)(Refund_OrderID r \<mapsto> d'),
                    vitem := (vitem v)(Order_ItemID d \<mapsto> i')\<rparr>)"
| open_dispute:
    "vorder v (Dispute_OrderID x) = Some d \<Longrightarrow> Order_Status d \<in> {OrderPaid, OrderDelivered} \<Longrightarrow>
     \<forall>j r. vrefund v j = Some r \<longrightarrow> Refund_OrderID r = Dispute_OrderID x \<longrightarrow>
       Refund_Status r \<noteq> RecordPending \<Longrightarrow>
     Dispute_Status x = DisputePending \<Longrightarrow> Dispute_PreviousOrderStatus x = Order_Status d \<Longrightarrow>
     vdispute v (Dispute_ID x) = None \<Longrightarrow> order_to OrderDisputed d d' \<Longrightarrow>
     \<forall>j y. vdispute v j = Some y \<longrightarrow> Dispute_OrderID y \<noteq> Dispute_OrderID x \<Longrightarrow>
     spec_step v (v\<lparr>vdispute := (vdispute v)(Dispute_ID x \<mapsto> x),
                    vorder := (vorder v)(Dispute_OrderID x \<mapsto> d')\<rparr>)"
| resume_disputed:
    "vdispute v k = Some x \<Longrightarrow> Dispute_Status x = DisputePending \<Longrightarrow>
     vorder v (Dispute_OrderID x) = Some d \<Longrightarrow> Order_Status d = OrderDisputed \<Longrightarrow>
     order_to (Dispute_PreviousOrderStatus x) d d' \<Longrightarrow> Dispute_ID x' = Dispute_ID x \<Longrightarrow>
     Dispute_OrderID x' = Dispute_OrderID x \<Longrightarrow>
     Dispute_PreviousOrderStatus x' = Dispute_PreviousOrderStatus x \<Longrightarrow>
     Dispute_Status x' = DisputeRejected \<Longrightarrow>
     spec_step v (v\<lparr>vdispute := (vdispute v)(k \<mapsto> x'),
                    vorder := (vorder v)(Dispute_OrderID x \<mapsto> d')\<rparr>)"
| refund_disputed:
    "vdispute v k = Some x \<Longrightarrow> Dispute_Status x = DisputePending \<Longrightarrow>
     vorder v (Dispute_OrderID x) = Some d \<Longrightarrow> Order_Status d = OrderDisputed \<Longrightarrow>
     order_to OrderRefunded d d' \<Longrightarrow> Dispute_ID x' = Dispute_ID x \<Longrightarrow>
     Dispute_OrderID x' = Dispute_OrderID x \<Longrightarrow>
     Dispute_PreviousOrderStatus x' = Dispute_PreviousOrderStatus x \<Longrightarrow>
     Dispute_Status x' = DisputeResolved \<Longrightarrow>
     vitem v (Order_ItemID d) = Some i \<Longrightarrow> item_to ItemWithdrawn None i i' \<Longrightarrow>
     m' = vrefund v \<or>
       (\<exists>r. vrefund v (Refund_ID r) = None \<and> m' = (vrefund v)(Refund_ID r \<mapsto> r) \<and>
            Refund_OrderID r = Dispute_OrderID x \<and> Refund_Status r = RecordSucceeded \<and>
            Refund_AmountCents r = Order_PriceCents d \<and>
            (\<forall>j s. vrefund v j = Some s \<longrightarrow> Refund_OrderID s \<noteq> Refund_OrderID r)) \<Longrightarrow>
     spec_step v (v\<lparr>vdispute := (vdispute v)(k \<mapsto> x'),
                    vorder := (vorder v)(Dispute_OrderID x \<mapsto> d'),
                    vitem := (vitem v)(Order_ItemID d \<mapsto> i'), vrefund := m'\<rparr>)"
| update_settlement:
    "vsettle v k = Some s \<Longrightarrow> Settlement_ID s' = Settlement_ID s \<Longrightarrow>
     Settlement_OrderID s' = Settlement_OrderID s \<Longrightarrow>
     Settlement_RequestID s' = Settlement_RequestID s \<Longrightarrow>
     Settlement_AmountCents s' = Settlement_AmountCents s \<Longrightarrow>
     Settlement_Status s \<noteq> RecordSucceeded \<Longrightarrow>
     spec_step v (v\<lparr>vsettle := (vsettle v)(k \<mapsto> s')\<rparr>)"

section \<open>The invariant\<close>

text \<open>
  The invariant has one part per table beside the orders. Each part mentions the orders' map and
  one other map, so a rule has to be looked at only for the parts whose maps it changes.
\<close>

text \<open>A reserved or sold item names the one order it is held for.\<close>

definition item_inv :: "(int64 \<rightharpoonup> order) \<Rightarrow> int64 \<Rightarrow> item \<Rightarrow> bool" where
  "item_inv mo k i \<longleftrightarrow> Item_ID i = k \<and> price_ok (Item_PriceCents i) \<and>
     (case Item_ReservedOrderID i of
        None \<Rightarrow> Item_Status i \<noteq> ItemReserved \<and> Item_Status i \<noteq> ItemSold
      | Some o' \<Rightarrow> (\<exists>d. mo o' = Some d \<and> Order_ItemID d = k \<and>
          (Item_Status i = ItemReserved \<and> active d
           \<or> Item_Status i = ItemSold \<and> Order_Status d = OrderCompleted)))"

text \<open>An order in progress holds its item, unless moderation or its seller took the item away.\<close>

definition order_inv :: "(int64 \<rightharpoonup> item) \<Rightarrow> int64 \<Rightarrow> order \<Rightarrow> bool" where
  "order_inv mi k d \<longleftrightarrow> Order_ID d = k \<and> terms_ok d \<and>
     (\<exists>i. mi (Order_ItemID d) = Some i \<and>
        (active d \<longrightarrow> Item_ReservedOrderID i = Some k
           \<or> Item_ReservedOrderID i = None \<and> Item_Status i \<in> {ItemHidden, ItemWithdrawn}))"

definition items_part :: "(int64 \<rightharpoonup> item) \<Rightarrow> (int64 \<rightharpoonup> order) \<Rightarrow> bool" where
  "items_part mi mo \<longleftrightarrow>
     (\<forall>k i. mi k = Some i \<longrightarrow> item_inv mo k i) \<and> (\<forall>k d. mo k = Some d \<longrightarrow> order_inv mi k d) \<and>
     (\<forall>j k d e. mo j = Some d \<longrightarrow> mo k = Some e \<longrightarrow> active d \<longrightarrow> active e \<longrightarrow>
        Order_ItemID d = Order_ItemID e \<longrightarrow> j = k)"

definition pay_fits :: "(int64 \<rightharpoonup> order) \<Rightarrow> payment \<Rightarrow> bool" where
  "pay_fits mo p \<longleftrightarrow> (\<exists>d. mo (Payment_OrderID p) = Some d \<and>
     Payment_AmountCents p = Order_PriceCents d \<and>
     (Payment_Status p = RecordPending \<or> Payment_Status p = RecordSucceeded \<and> paid_for d))"

definition paid_by :: "int64 \<Rightarrow> payment \<Rightarrow> bool" where
  "paid_by k p \<longleftrightarrow> Payment_OrderID p = k \<and> Payment_Status p = RecordSucceeded"

definition pays_part :: "(int64 \<rightharpoonup> order) \<Rightarrow> (int64 \<rightharpoonup> payment) \<Rightarrow> bool" where
  "pays_part mo mp \<longleftrightarrow>
     (\<forall>j p. mp j = Some p \<longrightarrow> pay_fits mo p) \<and>
     (\<forall>k d. mo k = Some d \<longrightarrow> paid_for d \<longrightarrow> (\<exists>j p. mp j = Some p \<and> paid_by k p)) \<and>
     (\<forall>i j k p q. mp i = Some p \<longrightarrow> mp j = Some q \<longrightarrow> paid_by k p \<longrightarrow> paid_by k q \<longrightarrow> i = j)"

definition refund_fits :: "record_status \<Rightarrow> order_status \<Rightarrow> bool" where
  "refund_fits r s \<longleftrightarrow>
     (r = RecordPending \<longrightarrow> s \<in> {OrderPaid, OrderDelivered}) \<and> (r = RecordSucceeded \<longrightarrow> s = OrderRefunded)"

definition one_refund :: "(int64 \<rightharpoonup> refund) \<Rightarrow> bool" where
  "one_refund mr \<longleftrightarrow>
     (\<forall>i j r s. mr i = Some r \<longrightarrow> mr j = Some s \<longrightarrow> Refund_OrderID r = Refund_OrderID s \<longrightarrow> i = j)"

definition refunds_part :: "(int64 \<rightharpoonup> order) \<Rightarrow> (int64 \<rightharpoonup> refund) \<Rightarrow> bool" where
  "refunds_part mo mr \<longleftrightarrow> one_refund mr \<and>
     (\<forall>j r. mr j = Some r \<longrightarrow> (\<exists>d. mo (Refund_OrderID r) = Some d \<and>
        Refund_AmountCents r = Order_PriceCents d \<and> refund_fits (Refund_Status r) (Order_Status d)))"

definition disputes_part :: "(int64 \<rightharpoonup> order) \<Rightarrow> (int64 \<rightharpoonup> dispute) \<Rightarrow> bool" where
  "disputes_part mo md \<longleftrightarrow>
     (\<forall>j x. md j = Some x \<longrightarrow> Dispute_PreviousOrderStatus x \<in> {OrderPaid, OrderDelivered} \<and>
        (\<exists>d. mo (Dispute_OrderID x) = Some d \<and>
           (Dispute_Status x = DisputePending \<longrightarrow> Order_Status d = OrderDisputed))) \<and>
     (\<forall>k d. mo k = Some d \<longrightarrow> Order_Status d = OrderDisputed \<longrightarrow>
        (\<exists>j x. md j = Some x \<and> Dispute_OrderID x = k \<and> Dispute_Status x = DisputePending)) \<and>
     (\<forall>j k x y. md j = Some x \<longrightarrow> md k = Some y \<longrightarrow> Dispute_OrderID x = Dispute_OrderID y \<longrightarrow> j = k)"

definition settles_part :: "(int64 \<rightharpoonup> order) \<Rightarrow> (int64 \<rightharpoonup> settlement) \<Rightarrow> bool" where
  "settles_part mo ms \<longleftrightarrow>
     (\<forall>j s. ms j = Some s \<longrightarrow>
        Settlement_RequestID s = ''settlement:'' @ marketplaceID (Settlement_OrderID s) \<and>
        (\<exists>d. mo (Settlement_OrderID s) = Some d \<and> Order_Status d = OrderCompleted \<and>
           Settlement_AmountCents s = Order_SellerNetCents d)) \<and>
     (\<forall>k d. mo k = Some d \<longrightarrow> Order_Status d = OrderCompleted \<longrightarrow>
        (\<exists>j s. ms j = Some s \<and> Settlement_OrderID s = k)) \<and>
     (\<forall>j k s s'. ms j = Some s \<longrightarrow> ms k = Some s' \<longrightarrow>
        Settlement_OrderID s = Settlement_OrderID s' \<longrightarrow> j = k)"

definition view_inv :: "market_view \<Rightarrow> bool" where
  "view_inv v \<longleftrightarrow>
     items_part (vitem v) (vorder v) \<and> pays_part (vorder v) (vpay v) \<and>
     refunds_part (vorder v) (vrefund v) \<and> disputes_part (vorder v) (vdispute v) \<and>
     settles_part (vorder v) (vsettle v)"

lemmas to_defs = order_to_def item_to_def same_terms_def released_def sold_def

lemma terms_ok_same: "same_terms d d' \<Longrightarrow> terms_ok d \<Longrightarrow> terms_ok d'"
  by (simp add: same_terms_def terms_ok_def)

subsection \<open>Items and orders\<close>

lemma items_partD:
  assumes "items_part mi mo"
  shows "mi k = Some i \<Longrightarrow> item_inv mo k i" "mo k = Some d \<Longrightarrow> order_inv mi k d"
    "mo j = Some d \<Longrightarrow> mo k = Some e \<Longrightarrow> active d \<Longrightarrow> active e \<Longrightarrow> Order_ItemID d = Order_ItemID e \<Longrightarrow>
       j = k"
  using assms unfolding items_part_def by blast+

lemma item_inv_order:
  assumes "item_inv mo k i" and "mo o' = Some d" and "same_terms d d'" and "active d \<longleftrightarrow> active d'"
    and "Order_Status d = OrderCompleted \<longleftrightarrow> Order_Status d' = OrderCompleted"
  shows "item_inv (mo(o' \<mapsto> d')) k i"
  using assms by (auto simp: item_inv_def same_terms_def split: option.splits)

text \<open>An order that stays in progress changes nothing for the items.\<close>

lemma items_part_progress:
  assumes inv: "items_part mi mo" and o': "mo o' = Some d" and same: "same_terms d d'"
    and act: "active d" "active d'"
  shows "items_part mi (mo(o' \<mapsto> d'))"
  unfolding items_part_def
proof (intro conjI allI impI)
  show "item_inv (mo(o' \<mapsto> d')) k i" if "mi k = Some i" for k i
    using item_inv_order [OF items_partD(1) [OF inv that] o' same] act by (auto simp: active_def)
  show "order_inv mi k e" if "(mo(o' \<mapsto> d')) k = Some e" for k e
    using that items_partD(2) [OF inv, of k] o' same act
    by (auto simp: order_inv_def same_terms_def terms_ok_def split: if_splits)
  show "j = k" if "(mo(o' \<mapsto> d')) j = Some a" "(mo(o' \<mapsto> d')) k = Some b" "active a" "active b"
    "Order_ItemID a = Order_ItemID b" for j k a b
    using that o' same act
    by (auto simp: same_terms_def split: if_splits dest: items_partD(3) [OF inv])
qed

text \<open>An order that ends may change its own item, as long as the item no longer waits for it.\<close>

lemma items_part_end:
  assumes inv: "items_part mi mo" and o': "mo o' = Some d" and same: "same_terms d d'"
    and act: "active d" "\<not> active d'"
    and it: "mi (Order_ItemID d) = Some i" "Item_ID i' = Item_ID i"
      "Item_PriceCents i' = Item_PriceCents i"
    and free: "item_inv (mo(o' \<mapsto> d')) (Order_ItemID d) i'"
  shows "items_part (mi(Order_ItemID d \<mapsto> i')) (mo(o' \<mapsto> d'))"
  unfolding items_part_def
proof (intro conjI allI impI)
  have d: "order_inv mi o' d" using items_partD(2) [OF inv o'] .
  show "item_inv (mo(o' \<mapsto> d')) k x" if x: "(mi(Order_ItemID d \<mapsto> i')) k = Some x" for k x
  proof (cases "k = Order_ItemID d")
    case True
    with x free show ?thesis by simp
  next
    case False
    with x have "item_inv mo k x" using items_partD(1) [OF inv] by simp
    moreover have "Item_ReservedOrderID x \<noteq> Some o'"
      using False \<open>item_inv mo k x\<close> o' by (auto simp: item_inv_def)
    ultimately show ?thesis by (auto simp: item_inv_def split: option.splits)
  qed
  show "order_inv (mi(Order_ItemID d \<mapsto> i')) k e" if e: "(mo(o' \<mapsto> d')) k = Some e" for k e
  proof (cases "k = o'")
    case True
    with e d same act it show ?thesis
      by (auto simp: order_inv_def same_terms_def terms_ok_def)
  next
    case False
    with e have e: "mo k = Some e" by simp
    then have inv_e: "order_inv mi k e" by (rule items_partD(2) [OF inv])
    show ?thesis
    proof (cases "Order_ItemID e = Order_ItemID d")
      case True
      then have "\<not> active e" using items_partD(3) [OF inv e o'] act False by auto
      with inv_e True it show ?thesis by (auto simp: order_inv_def)
    next
      case False
      with inv_e show ?thesis by (auto simp: order_inv_def)
    qed
  qed
  show "j = k" if "(mo(o' \<mapsto> d')) j = Some a" "(mo(o' \<mapsto> d')) k = Some b" "active a" "active b"
    "Order_ItemID a = Order_ItemID b" for j k a b
    using that items_partD(3) [OF inv, of j _ k] act by (auto split: if_splits)
qed

text \<open>Changing an item alone: it must keep what the orders on it need.\<close>

lemma items_part_item:
  assumes inv: "items_part mi mo" and new: "item_inv mo k i'"
    and old: "\<And>i d o'. mi k = Some i \<Longrightarrow> mo o' = Some d \<Longrightarrow> Order_ItemID d = k \<Longrightarrow> active d \<Longrightarrow>
      Item_ReservedOrderID i' = Some o'
      \<or> Item_ReservedOrderID i' = None \<and> Item_Status i' \<in> {ItemHidden, ItemWithdrawn}"
  shows "items_part (mi(k \<mapsto> i')) mo"
  unfolding items_part_def
proof (intro conjI allI impI)
  show "item_inv mo j x" if "(mi(k \<mapsto> i')) j = Some x" for j x
    using that new items_partD(1) [OF inv, of j x] by (auto split: if_splits)
  show "order_inv (mi(k \<mapsto> i')) j d" if d: "mo j = Some d" for j d
  proof -
    have "order_inv mi j d" using d by (rule items_partD(2) [OF inv])
    then show ?thesis using old [OF _ d] by (auto simp: order_inv_def)
  qed
  show "j = l" if "mo j = Some a" "mo l = Some b" "active a" "active b"
    "Order_ItemID a = Order_ItemID b" for j l a b
    using items_partD(3) [OF inv] that by blast
qed

lemma published_no_active:
  assumes "items_part mi mo" and "mi (Order_ItemID d) = Some i" and "mo o' = Some d"
    and "Item_Status i \<in> {ItemDraft, ItemPublished}"
  shows "\<not> active d"
  using items_partD(1) [OF assms(1,2)] items_partD(2) [OF assms(1,3)] assms(2,4)
  by (auto simp: item_inv_def order_inv_def)

subsection \<open>The other tables when one order moves\<close>

lemma pays_partI:
  assumes "\<And>j p. mp j = Some p \<Longrightarrow> pay_fits mo p"
    and "\<And>k d. mo k = Some d \<Longrightarrow> paid_for d \<Longrightarrow> \<exists>j p. mp j = Some p \<and> paid_by k p"
    and "\<And>i j k p q. mp i = Some p \<Longrightarrow> mp j = Some q \<Longrightarrow> paid_by k p \<Longrightarrow> paid_by k q \<Longrightarrow> i = j"
  shows "pays_part mo mp"
  using assms unfolding pays_part_def by blast

lemma pays_partD:
  assumes "pays_part mo mp"
  shows "mp j = Some p \<Longrightarrow> pay_fits mo p"
    and "mo k = Some d \<Longrightarrow> paid_for d \<Longrightarrow> \<exists>j p. mp j = Some p \<and> paid_by k p"
    and "mp i = Some p \<Longrightarrow> mp j = Some q \<Longrightarrow> paid_by k p \<Longrightarrow> paid_by k q \<Longrightarrow> i = j"
  using assms unfolding pays_part_def by blast+

lemma pays_part_order:
  assumes inv: "pays_part mo mp" and k: "mo k = Some d" and same: "same_terms d d'"
    and paid: "paid_for d' \<longleftrightarrow> paid_for d"
  shows "pays_part (mo(k \<mapsto> d')) mp"
proof (rule pays_partI)
  show "pay_fits (mo(k \<mapsto> d')) p" if "mp j = Some p" for j p
    using pays_partD(1) [OF inv that] k same paid by (auto simp: pay_fits_def same_terms_def)
  show "\<exists>j p. mp j = Some p \<and> paid_by l p" if "(mo(k \<mapsto> d')) l = Some e" "paid_for e" for l e
    using pays_partD(2) [OF inv, of l] that k paid by (auto split: if_splits)
qed (rule pays_partD(3) [OF inv])

lemma refunds_partD:
  assumes "refunds_part mo mr"
  shows "one_refund mr"
    and "mr j = Some r \<Longrightarrow> \<exists>d. mo (Refund_OrderID r) = Some d \<and>
      Refund_AmountCents r = Order_PriceCents d \<and> refund_fits (Refund_Status r) (Order_Status d)"
  using assms unfolding refunds_part_def by blast+

lemma refunds_partI:
  assumes "one_refund mr"
    and "\<And>j r. mr j = Some r \<Longrightarrow> \<exists>d. mo (Refund_OrderID r) = Some d \<and>
      Refund_AmountCents r = Order_PriceCents d \<and> refund_fits (Refund_Status r) (Order_Status d)"
  shows "refunds_part mo mr"
  using assms unfolding refunds_part_def by blast

lemma refunds_part_order:
  assumes inv: "refunds_part mo mr" and k: "mo k = Some d" and same: "same_terms d d'"
    and fits: "\<And>j r. mr j = Some r \<Longrightarrow> Refund_OrderID r = k \<Longrightarrow>
      refund_fits (Refund_Status r) (Order_Status d) \<Longrightarrow> refund_fits (Refund_Status r) (Order_Status d')"
  shows "refunds_part (mo(k \<mapsto> d')) mr"
proof (rule refunds_partI [OF refunds_partD(1) [OF inv]])
  fix j r assume r: "mr j = Some r"
  then show "\<exists>d. (mo(k \<mapsto> d')) (Refund_OrderID r) = Some d \<and> Refund_AmountCents r = Order_PriceCents d \<and>
      refund_fits (Refund_Status r) (Order_Status d)"
    using refunds_partD(2) [OF inv r] fits [OF r] k same
    by (cases "Refund_OrderID r = k") (auto simp: same_terms_def)
qed

lemma disputes_part_order:
  assumes "disputes_part mo md" and "mo k = Some d"
    and "Order_Status d' \<noteq> OrderDisputed" and "Order_Status d \<noteq> OrderDisputed"
  shows "disputes_part (mo(k \<mapsto> d')) md"
  using assms unfolding disputes_part_def by (auto; metis option.inject)

lemma settles_part_order:
  assumes "settles_part mo ms" and "mo k = Some d"
    and "Order_Status d' \<noteq> OrderCompleted" and "Order_Status d \<noteq> OrderCompleted"
  shows "settles_part (mo(k \<mapsto> d')) ms"
  using assms unfolding settles_part_def by (auto; metis option.inject)

text \<open>A new pending order has no money, no refund, no dispute and no settlement yet.\<close>

lemma map_fresh: "mo k = None \<Longrightarrow> mo l = Some e \<Longrightarrow> (mo(k \<mapsto> d)) l = Some e"
  by auto

lemma parts_new_order:
  assumes "mo k = None" and "Order_Status d = OrderPendingPayment"
  shows "pays_part mo mp \<Longrightarrow> pays_part (mo(k \<mapsto> d)) mp"
    and "refunds_part mo mr \<Longrightarrow> refunds_part (mo(k \<mapsto> d)) mr"
    and "disputes_part mo md \<Longrightarrow> disputes_part (mo(k \<mapsto> d)) md"
    and "settles_part mo ms \<Longrightarrow> settles_part (mo(k \<mapsto> d)) ms"
proof -
  note fresh = map_fresh [of mo, OF assms(1)]
  have new: "e = d" if "(mo(k \<mapsto> d)) l = Some e" "mo l \<noteq> Some e" for l e
    using that by (auto split: if_splits)
  show "pays_part mo mp \<Longrightarrow> pays_part (mo(k \<mapsto> d)) mp"
  proof -
    assume inv: "pays_part mo mp"
    show ?thesis
    proof (rule pays_partI)
      show "pay_fits (mo(k \<mapsto> d)) p" if "mp j = Some p" for j p
        using pays_partD(1) [OF inv that] assms(1) by (auto simp: pay_fits_def)
      show "\<exists>j p. mp j = Some p \<and> paid_by l p" if "(mo(k \<mapsto> d)) l = Some e" "paid_for e" for l e
        using pays_partD(2) [OF inv, of l e] that assms(2) by (auto simp: paid_for_def split: if_splits)
    qed (rule pays_partD(3) [OF inv])
  qed
  show "refunds_part mo mr \<Longrightarrow> refunds_part (mo(k \<mapsto> d)) mr"
  proof -
    assume inv: "refunds_part mo mr"
    show ?thesis
    proof (rule refunds_partI [OF refunds_partD(1) [OF inv]])
      fix j r assume "mr j = Some r"
      from refunds_partD(2) [OF inv this] show "\<exists>e. (mo(k \<mapsto> d)) (Refund_OrderID r) = Some e \<and>
          Refund_AmountCents r = Order_PriceCents e \<and> refund_fits (Refund_Status r) (Order_Status e)"
        using assms(1) by auto
    qed
  qed
  show "disputes_part mo md \<Longrightarrow> disputes_part (mo(k \<mapsto> d)) md"
  proof -
    assume inv: "disputes_part mo md"
    from assms(2) have "Order_Status e = OrderDisputed \<Longrightarrow> (mo(k \<mapsto> d)) l = Some e \<Longrightarrow> mo l = Some e"
      for l e by (auto split: if_splits)
    with inv fresh show ?thesis unfolding disputes_part_def by meson
  qed
  show "settles_part mo ms \<Longrightarrow> settles_part (mo(k \<mapsto> d)) ms"
  proof -
    assume inv: "settles_part mo ms"
    from assms(2) have "Order_Status e = OrderCompleted \<Longrightarrow> (mo(k \<mapsto> d)) l = Some e \<Longrightarrow> mo l = Some e"
      for l e by (auto split: if_splits)
    with inv fresh show ?thesis unfolding settles_part_def by meson
  qed
qed

subsection \<open>Every rule keeps the invariant\<close>

lemma view_invI:
  assumes "items_part (vitem v) (vorder v)" "pays_part (vorder v) (vpay v)"
    "refunds_part (vorder v) (vrefund v)" "disputes_part (vorder v) (vdispute v)"
    "settles_part (vorder v) (vsettle v)"
  shows "view_inv v"
  using assms by (simp add: view_inv_def)

lemma view_invE:
  assumes "view_inv v"
  obtains "items_part (vitem v) (vorder v)" "pays_part (vorder v) (vpay v)"
    "refunds_part (vorder v) (vrefund v)" "disputes_part (vorder v) (vdispute v)"
    "settles_part (vorder v) (vsettle v)"
  using assms by (simp add: view_inv_def)

lemma keep_list_item:
  assumes "view_inv v" and "vitem v (Item_ID i) = None" and "Item_ReservedOrderID i = None"
    and "Item_Status i \<in> {ItemDraft, ItemPublished}" and "price_ok (Item_PriceCents i)"
  shows "view_inv (v\<lparr>vitem := (vitem v)(Item_ID i \<mapsto> i)\<rparr>)"
proof -
  from assms(1) have "items_part (vitem v) (vorder v)" by (rule view_invE)
  then have "items_part ((vitem v)(Item_ID i \<mapsto> i)) (vorder v)"
    by (rule items_part_item) (use assms in \<open>auto simp: item_inv_def\<close>)
  with assms(1) show ?thesis by (auto simp: view_inv_def)
qed

lemma keep_item_change:
  assumes inv: "view_inv v" and i: "vitem v k = Some i" and new: "item_inv (vorder v) k i'"
    and ok: "Item_Status i' \<in> {ItemHidden, ItemWithdrawn} \<and> Item_ReservedOrderID i' = None
      \<or> Item_Status i \<in> {ItemDraft, ItemPublished}"
  shows "view_inv (v\<lparr>vitem := (vitem v)(k \<mapsto> i')\<rparr>)"
proof -
  from inv have part: "items_part (vitem v) (vorder v)" by (rule view_invE)
  then have "items_part ((vitem v)(k \<mapsto> i')) (vorder v)"
  proof (rule items_part_item [OF _ new])
    fix x d o' assume "vitem v k = Some x" and d: "vorder v o' = Some d" "Order_ItemID d = k" "active d"
    then have "Item_Status i \<notin> {ItemDraft, ItemPublished}"
      using published_no_active [OF part _ d(1), of i] i by auto
    with ok show "Item_ReservedOrderID i' = Some o'
        \<or> Item_ReservedOrderID i' = None \<and> Item_Status i' \<in> {ItemHidden, ItemWithdrawn}" by auto
  qed
  with inv show ?thesis by (auto simp: view_inv_def)
qed

lemma item_inv_None:
  "item_inv mo k i \<Longrightarrow> Item_Status i \<in> {ItemDraft, ItemPublished, ItemHidden, ItemWithdrawn} \<Longrightarrow>
     Item_ReservedOrderID i = None"
  by (auto simp: item_inv_def split: option.splits)

lemma keep_place_order:
  assumes inv: "view_inv v" and i: "vitem v (Order_ItemID d) = Some i"
    and st: "Item_Status i = ItemPublished" and fresh: "vorder v (Order_ID d) = None"
    and d: "Order_Status d = OrderPendingPayment" "terms_ok d"
    and i': "item_to ItemReserved (Some (Order_ID d)) i i'"
  shows "view_inv (v\<lparr>vitem := (vitem v)(Order_ItemID d \<mapsto> i'),
                     vorder := (vorder v)(Order_ID d \<mapsto> d)\<rparr>)"
proof (rule view_invI, simp_all)
  note new = parts_new_order [of "vorder v" "Order_ID d" d, OF fresh d(1)]
  from inv show "pays_part ((vorder v)(Order_ID d \<mapsto> d)) (vpay v)"
    "refunds_part ((vorder v)(Order_ID d \<mapsto> d)) (vrefund v)"
    "disputes_part ((vorder v)(Order_ID d \<mapsto> d)) (vdispute v)"
    "settles_part ((vorder v)(Order_ID d \<mapsto> d)) (vsettle v)"
    by (auto intro: new elim: view_invE)
  from inv have part: "items_part (vitem v) (vorder v)" by (rule view_invE)
  have none: "\<not> active e" if "vorder v o' = Some e" "Order_ItemID e = Order_ItemID d" for o' e
    using published_no_active [OF part _ that(1), of i] that(2) i st by simp
  have ii: "item_inv (vorder v) (Order_ItemID d) i" using items_partD(1) [OF part i] .
  show "items_part ((vitem v)(Order_ItemID d \<mapsto> i')) ((vorder v)(Order_ID d \<mapsto> d))"
    unfolding items_part_def
  proof (intro conjI allI impI)
    show "item_inv ((vorder v)(Order_ID d \<mapsto> d)) k x"
      if x: "((vitem v)(Order_ItemID d \<mapsto> i')) k = Some x" for k x
    proof (cases "k = Order_ItemID d")
      case True
      with x ii i' d show ?thesis by (auto simp: item_inv_def item_to_def active_def)
    next
      case False
      with x have "item_inv (vorder v) k x" using items_partD(1) [OF part] by simp
      then show ?thesis using fresh by (auto simp: item_inv_def split: option.splits)
    qed
    show "order_inv ((vitem v)(Order_ItemID d \<mapsto> i')) k e"
      if e: "((vorder v)(Order_ID d \<mapsto> d)) k = Some e" for k e
    proof (cases "k = Order_ID d")
      case True
      with e i' d show ?thesis by (auto simp: order_inv_def item_to_def)
    next
      case False
      with e have e: "vorder v k = Some e" by simp
      then have "order_inv (vitem v) k e" by (rule items_partD(2) [OF part])
      then show ?thesis using none [OF e] by (auto simp: order_inv_def)
    qed
    show "j = k" if "((vorder v)(Order_ID d \<mapsto> d)) j = Some a" "((vorder v)(Order_ID d \<mapsto> d)) k = Some b"
      "active a" "active b" "Order_ItemID a = Order_ItemID b" for j k a b
      using that by (cases "j = Order_ID d"; cases "k = Order_ID d")
        (auto dest: items_partD(3) [OF part] none)
  qed
qed

lemma pays_part_open:
  assumes inv: "pays_part mo mp" and o': "mo (Payment_OrderID p) = Some d" and k: "mp k = None"
    and p: "Payment_AmountCents p = Order_PriceCents d" "Payment_Status p = RecordPending"
  shows "pays_part mo (mp(k \<mapsto> p))"
proof (rule pays_partI)
  show "pay_fits mo q" if "(mp(k \<mapsto> p)) j = Some q" for j q
    using pays_partD(1) [OF inv, of j q] that o' p by (auto simp: pay_fits_def split: if_splits)
  show "\<exists>j q. (mp(k \<mapsto> p)) j = Some q \<and> paid_by l q" if "mo l = Some e" "paid_for e" for l e
    using pays_partD(2) [OF inv that] k by (metis map_fresh)
  show "i = j" if "(mp(k \<mapsto> p)) i = Some q" "(mp(k \<mapsto> p)) j = Some r" "paid_by l q" "paid_by l r" for i j l q r
    using pays_partD(3) [OF inv, of i q j r l] that p by (auto simp: paid_by_def split: if_splits)
qed

lemma pays_part_attach:
  assumes inv: "pays_part mo mp" and k: "mp k = Some p"
    and p': "Payment_OrderID p' = Payment_OrderID p" "Payment_AmountCents p' = Payment_AmountCents p"
      "Payment_Status p' = Payment_Status p"
  shows "pays_part mo (mp(k \<mapsto> p'))"
proof (rule pays_partI)
  have pby: "paid_by l p' \<longleftrightarrow> paid_by l p" for l using p' by (simp add: paid_by_def)
  show "pay_fits mo q" if "(mp(k \<mapsto> p')) j = Some q" for j q
    using pays_partD(1) [OF inv, of j] that k p' by (auto simp: pay_fits_def split: if_splits)
  show "\<exists>j q. (mp(k \<mapsto> p')) j = Some q \<and> paid_by l q" if "mo l = Some e" "paid_for e" for l e
    using pays_partD(2) [OF inv that] k by (metis fun_upd_apply option.inject pby)
  show "i = j" if "(mp(k \<mapsto> p')) i = Some q" "(mp(k \<mapsto> p')) j = Some r" "paid_by l q" "paid_by l r" for i j l q r
    using that k pby by (cases "i = k"; cases "j = k") (auto dest: pays_partD(3) [OF inv])
qed

lemma pays_part_pay:
  assumes inv: "pays_part mo mp" and k: "mp k = Some p" and o': "mo (Payment_OrderID p) = Some d"
    and d: "Order_Status d = OrderPendingPayment" "order_to OrderPaid d d'"
    and p': "Payment_OrderID p' = Payment_OrderID p" "Payment_AmountCents p' = Payment_AmountCents p"
      "Payment_Status p' = RecordSucceeded"
  shows "pays_part (mo(Payment_OrderID p \<mapsto> d')) (mp(k \<mapsto> p'))"
proof (rule pays_partI)
  have paid: "paid_for d'" "\<not> paid_for d" "Order_PriceCents d' = Order_PriceCents d"
    using d by (simp_all add: paid_for_def order_to_def same_terms_def)
  have other: "\<not> paid_by (Payment_OrderID p) r" if "mp j = Some r" for j r
    using pays_partD(1) [OF inv that] o' paid(2) by (auto simp: pay_fits_def paid_by_def)
  have pby: "paid_by l p' \<longleftrightarrow> l = Payment_OrderID p" for l using p' by (auto simp: paid_by_def)
  show "pay_fits (mo(Payment_OrderID p \<mapsto> d')) q" if "(mp(k \<mapsto> p')) j = Some q" for j q
    using that pays_partD(1) [OF inv, of j q] pays_partD(1) [OF inv k] o' p' paid
    by (auto simp: pay_fits_def split: if_splits)
  show "\<exists>j q. (mp(k \<mapsto> p')) j = Some q \<and> paid_by l q"
    if "(mo(Payment_OrderID p \<mapsto> d')) l = Some e" "paid_for e" for l e
  proof (cases "l = Payment_OrderID p")
    case True
    then show ?thesis by (auto simp: pby intro!: exI [of _ k])
  next
    case False
    with that obtain j q where q: "mp j = Some q" "paid_by l q" using pays_partD(2) [OF inv] by fastforce
    with False k have "j \<noteq> k" by (auto simp: paid_by_def)
    with q show ?thesis by auto
  qed
  show "i = j" if "(mp(k \<mapsto> p')) i = Some q" "(mp(k \<mapsto> p')) j = Some r" "paid_by l q" "paid_by l r" for i j l q r
    using that other pby by (cases "i = k"; cases "j = k") (auto dest: pays_partD(3) [OF inv])
qed

text \<open>
  The change of one order, with what each table asks of it: the rules below only say which item
  goes with it.
\<close>

lemma keep_progress:
  assumes inv: "view_inv v" and k: "vorder v k = Some d" and d': "order_to s d d'"
    and act: "active d" "s \<in> {OrderPaid, OrderDelivered}" "Order_Status d \<in> {OrderPaid, OrderDelivered}"
  shows "view_inv (v\<lparr>vorder := (vorder v)(k \<mapsto> d')\<rparr>)"
proof (rule view_invI, simp_all)
  from d' have same: "same_terms d d'" and st: "Order_Status d' = s" by (simp_all add: order_to_def)
  from inv show "items_part (vitem v) ((vorder v)(k \<mapsto> d'))"
    by (elim view_invE) (rule items_part_progress [where d = d], use k same act st in \<open>auto simp: active_def\<close>)
  from inv show "pays_part ((vorder v)(k \<mapsto> d')) (vpay v)"
    by (elim view_invE) (rule pays_part_order [where d = d], use k same act st in \<open>auto simp: paid_for_def\<close>)
  from inv show "refunds_part ((vorder v)(k \<mapsto> d')) (vrefund v)"
    by (elim view_invE)
      (rule refunds_part_order [where d = d], use k same act st in \<open>auto simp: refund_fits_def\<close>)
  from inv show "disputes_part ((vorder v)(k \<mapsto> d')) (vdispute v)"
    by (elim view_invE) (rule disputes_part_order [where d = d], use k act st in auto)
  from inv show "settles_part ((vorder v)(k \<mapsto> d')) (vsettle v)"
    by (elim view_invE) (rule settles_part_order [where d = d], use k act st in auto)
qed

lemma keep_cancelled:
  assumes inv: "view_inv v" and k: "vorder v k = Some d" and d: "Order_Status d = OrderPendingPayment"
    and d': "order_to OrderCancelled d d'"
    and items: "items_part m' ((vorder v)(k \<mapsto> d'))"
  shows "view_inv (v\<lparr>vitem := m', vorder := (vorder v)(k \<mapsto> d')\<rparr>)"
proof (rule view_invI, simp_all add: items)
  from d' have same: "same_terms d d'" and st: "Order_Status d' = OrderCancelled"
    by (simp_all add: order_to_def)
  from inv show "pays_part ((vorder v)(k \<mapsto> d')) (vpay v)"
    by (elim view_invE) (rule pays_part_order [where d = d], use k same d st in \<open>auto simp: paid_for_def\<close>)
  from inv show "refunds_part ((vorder v)(k \<mapsto> d')) (vrefund v)"
    by (elim view_invE)
      (rule refunds_part_order [where d = d], use k same d st in \<open>auto simp: refund_fits_def\<close>)
  from inv show "disputes_part ((vorder v)(k \<mapsto> d')) (vdispute v)"
    by (elim view_invE) (rule disputes_part_order [where d = d], use k d st in auto)
  from inv show "settles_part ((vorder v)(k \<mapsto> d')) (vsettle v)"
    by (elim view_invE) (rule settles_part_order [where d = d], use k d st in auto)
qed

lemma released_items:
  assumes part: "items_part mi mo" and k: "mo k = Some d" and act: "active d" "\<not> active d'"
    and same: "same_terms d d'" and rel: "released d mi m'"
  shows "items_part m' (mo(k \<mapsto> d'))"
proof -
  from rel obtain i i' where i: "mi (Order_ItemID d) = Some i"
    and eq: "m' = mi(Order_ItemID d \<mapsto> i')" "Item_ID i' = Item_ID i" "Item_PriceCents i' = Item_PriceCents i"
    and or: "item_to ItemPublished None i i' \<or> i' = i \<and> Item_ReservedOrderID i \<noteq> Some (Order_ID d)"
    unfolding released_def item_to_def by (metis fun_upd_triv)
  have "Order_ID d = k" using items_partD(2) [OF part k] by (simp add: order_inv_def)
  with or have "item_inv (mo(k \<mapsto> d')) (Order_ItemID d) i'"
    using items_partD(1) [OF part i] by (auto simp: item_inv_def item_to_def split: option.splits)
  from items_part_end [OF part k same act i eq(2,3) this] eq(1) show ?thesis by simp
qed

lemma sold_items:
  assumes part: "items_part mi mo" and k: "mo k = Some d" and act: "active d"
    and d': "order_to OrderCompleted d d'" and sold: "sold d mi m'"
  shows "items_part m' (mo(k \<mapsto> d'))"
proof -
  from sold obtain i i' where i: "mi (Order_ItemID d) = Some i"
    and eq: "m' = mi(Order_ItemID d \<mapsto> i')" "Item_ID i' = Item_ID i" "Item_PriceCents i' = Item_PriceCents i"
    and or: "item_to ItemSold (Some (Order_ID d)) i i' \<or> i' = i \<and> Item_ReservedOrderID i \<noteq> Some (Order_ID d)"
    unfolding sold_def item_to_def by (metis fun_upd_triv)
  have same: "same_terms d d'" and st: "Order_Status d' = OrderCompleted"
    using d' by (simp_all add: order_to_def)
  have "Order_ID d = k" using items_partD(2) [OF part k] by (simp add: order_inv_def)
  with or same st have "item_inv (mo(k \<mapsto> d')) (Order_ItemID d) i'"
    using items_partD(1) [OF part i]
    by (auto simp: item_inv_def item_to_def same_terms_def split: option.splits)
  moreover have "\<not> active d'" using st by (simp add: active_def)
  ultimately show ?thesis using items_part_end [OF part k same act _ i eq(2,3)] eq(1) by simp
qed

text \<open>Items leave the market with a refund, and with moderation.\<close>

lemma taken_items:
  assumes part: "items_part mi mo" and k: "mo k = Some d" and act: "active d" "\<not> active d'"
    and same: "same_terms d d'" and i: "mi (Order_ItemID d) = Some i"
    and i': "item_to s None i i'" "s \<in> {ItemHidden, ItemWithdrawn}"
  shows "items_part (mi(Order_ItemID d \<mapsto> i')) (mo(k \<mapsto> d'))"
proof (rule items_part_end [OF part k same act i])
  show "Item_ID i' = Item_ID i" "Item_PriceCents i' = Item_PriceCents i"
    using i' by (simp_all add: item_to_def)
  show "item_inv (mo(k \<mapsto> d')) (Order_ItemID d) i'"
    using items_partD(1) [OF part i] i' by (auto simp: item_inv_def item_to_def)
qed

lemma keep_complete:
  assumes inv: "view_inv v" and k: "vorder v k = Some d" and d: "Order_Status d = OrderDelivered"
    and d': "order_to OrderCompleted d d'"
    and quiet: "\<And>j r. vrefund v j = Some r \<Longrightarrow> Refund_OrderID r = k \<Longrightarrow> Refund_Status r \<noteq> RecordPending"
    and sold: "sold d (vitem v) m'" and fresh: "vsettle v j = None"
    and s: "Settlement_OrderID s = k" "Settlement_RequestID s = ''settlement:'' @ marketplaceID k"
      "Settlement_AmountCents s = Order_SellerNetCents d"
  shows "view_inv (v\<lparr>vorder := (vorder v)(k \<mapsto> d'), vitem := m', vsettle := (vsettle v)(j \<mapsto> s)\<rparr>)"
proof (rule view_invI, simp_all)
  from d' have same: "same_terms d d'" and st: "Order_Status d' = OrderCompleted"
    by (simp_all add: order_to_def)
  from inv show "items_part m' ((vorder v)(k \<mapsto> d'))"
    by (elim view_invE) (rule sold_items [where d = d], use k d d' sold in \<open>auto simp: active_def\<close>)
  from inv show "pays_part ((vorder v)(k \<mapsto> d')) (vpay v)"
    by (elim view_invE) (rule pays_part_order [where d = d], use k same d st in \<open>auto simp: paid_for_def\<close>)
  from inv show "refunds_part ((vorder v)(k \<mapsto> d')) (vrefund v)"
    by (elim view_invE)
      (rule refunds_part_order [where d = d], use k same d quiet st in \<open>auto simp: refund_fits_def\<close>)
  from inv show "disputes_part ((vorder v)(k \<mapsto> d')) (vdispute v)"
    by (elim view_invE) (rule disputes_part_order [where d = d], use k d st in auto)
  from inv have part: "settles_part (vorder v) (vsettle v)" by (rule view_invE)
  have other: "Settlement_OrderID x \<noteq> k" if "vsettle v i = Some x" for i x
    using part that k d unfolding settles_part_def by fastforce
  show "settles_part ((vorder v)(k \<mapsto> d')) ((vsettle v)(j \<mapsto> s))"
    unfolding settles_part_def
  proof (intro conjI allI impI)
    fix i x assume x: "((vsettle v)(j \<mapsto> s)) i = Some x"
    show "Settlement_RequestID x = ''settlement:'' @ marketplaceID (Settlement_OrderID x)"
      using x s part unfolding settles_part_def by (auto split: if_splits)
    show "\<exists>e. ((vorder v)(k \<mapsto> d')) (Settlement_OrderID x) = Some e \<and> Order_Status e = OrderCompleted \<and>
        Settlement_AmountCents x = Order_SellerNetCents e"
      using x s st same other [of i x] part unfolding settles_part_def same_terms_def
      by (auto split: if_splits)
  next
    fix l e assume e: "((vorder v)(k \<mapsto> d')) l = Some e" "Order_Status e = OrderCompleted"
    show "\<exists>i x. ((vsettle v)(j \<mapsto> s)) i = Some x \<and> Settlement_OrderID x = l"
    proof (cases "l = k")
      case True
      with s(1) show ?thesis by (auto intro!: exI [of _ j])
    next
      case False
      with e obtain i x where "vsettle v i = Some x" "Settlement_OrderID x = l"
        using part unfolding settles_part_def by fastforce
      moreover from this fresh have "i \<noteq> j" by auto
      ultimately show ?thesis by auto
    qed
  next
    fix a b x y assume "((vsettle v)(j \<mapsto> s)) a = Some x" "((vsettle v)(j \<mapsto> s)) b = Some y"
      "Settlement_OrderID x = Settlement_OrderID y"
    then show "a = b"
      using s other part unfolding settles_part_def
      by (cases "a = j"; cases "b = j") auto
  qed
qed

lemma one_refund_insert:
  assumes "one_refund mr" and "\<And>j s. mr j = Some s \<Longrightarrow> Refund_OrderID s = Refund_OrderID r \<Longrightarrow> j = k"
  shows "one_refund (mr(k \<mapsto> r))"
  using assms unfolding one_refund_def by (auto; metis)

lemma refunds_part_row:
  assumes inv: "refunds_part mo mr" and o': "mo (Refund_OrderID r) = Some d"
    and r: "Refund_AmountCents r = Order_PriceCents d" "refund_fits (Refund_Status r) (Order_Status d)"
    and one: "\<And>j s. mr j = Some s \<Longrightarrow> Refund_OrderID s = Refund_OrderID r \<Longrightarrow> j = k"
  shows "refunds_part mo (mr(k \<mapsto> r))"
proof (rule refunds_partI)
  show "one_refund (mr(k \<mapsto> r))" using refunds_partD(1) [OF inv] one by (rule one_refund_insert)
  show "\<exists>d. mo (Refund_OrderID s) = Some d \<and> Refund_AmountCents s = Order_PriceCents d \<and>
      refund_fits (Refund_Status s) (Order_Status d)" if "(mr(k \<mapsto> r)) j = Some s" for j s
    using that o' r refunds_partD(2) [OF inv, of j s] by (auto split: if_splits)
qed

text \<open>An order that ends in a refund, whether an approved request or a decided dispute.\<close>

lemma keep_refunded:
  assumes inv: "view_inv v" and k: "vorder v k = Some d"
    and d: "Order_Status d \<in> {OrderPaid, OrderDelivered, OrderDisputed}" and d': "order_to OrderRefunded d d'"
    and i: "vitem v (Order_ItemID d) = Some i" "item_to ItemWithdrawn None i i'"
    and refunds: "refunds_part ((vorder v)(k \<mapsto> d')) mr"
    and disputes: "disputes_part ((vorder v)(k \<mapsto> d')) md"
  shows "view_inv (v\<lparr>vrefund := mr, vdispute := md, vorder := (vorder v)(k \<mapsto> d'),
                     vitem := (vitem v)(Order_ItemID d \<mapsto> i')\<rparr>)"
proof (rule view_invI, simp_all add: refunds disputes)
  from d' have same: "same_terms d d'" and st: "Order_Status d' = OrderRefunded"
    by (simp_all add: order_to_def)
  from inv show "items_part ((vitem v)(Order_ItemID d \<mapsto> i')) ((vorder v)(k \<mapsto> d'))"
    by (elim view_invE) (rule taken_items [where i = i and s = ItemWithdrawn],
      use k d i st same in \<open>auto simp: active_def\<close>)
  from inv show "pays_part ((vorder v)(k \<mapsto> d')) (vpay v)"
    by (elim view_invE) (rule pays_part_order [where d = d], use k same d st in \<open>auto simp: paid_for_def\<close>)
  from inv show "settles_part ((vorder v)(k \<mapsto> d')) (vsettle v)"
    by (elim view_invE) (rule settles_part_order [where d = d], use k d st in auto)
qed

lemma refunds_part_approve:
  assumes inv: "refunds_part mo mr" and k: "mr k = Some r"
    and o': "mo (Refund_OrderID r) = Some d" and d': "order_to OrderRefunded d d'"
    and r': "Refund_OrderID r' = Refund_OrderID r" "Refund_AmountCents r' = Refund_AmountCents r"
      "Refund_Status r' = RecordSucceeded"
  shows "refunds_part (mo(Refund_OrderID r \<mapsto> d')) (mr(k \<mapsto> r'))"
proof (rule refunds_partI)
  have one: "j = k" if "mr j = Some s" "Refund_OrderID s = Refund_OrderID r" for j s
    using refunds_partD(1) [OF inv] that k unfolding one_refund_def by blast
  show "one_refund (mr(k \<mapsto> r'))"
    using refunds_partD(1) [OF inv] one r'(1) by (auto intro: one_refund_insert)
  fix j x assume x: "(mr(k \<mapsto> r')) j = Some x"
  show "\<exists>e. (mo(Refund_OrderID r \<mapsto> d')) (Refund_OrderID x) = Some e \<and>
      Refund_AmountCents x = Order_PriceCents e \<and> refund_fits (Refund_Status x) (Order_Status e)"
  proof (cases "j = k")
    case True
    with x refunds_partD(2) [OF inv k] o' d' r' show ?thesis
      by (auto simp: order_to_def same_terms_def refund_fits_def)
  next
    case False
    with x have x: "mr j = Some x" by simp
    then show ?thesis using refunds_partD(2) [OF inv x] one [OF x] False by auto
  qed
qed

lemma disputes_partI:
  assumes "\<And>j x. md j = Some x \<Longrightarrow> Dispute_PreviousOrderStatus x \<in> {OrderPaid, OrderDelivered}"
    and "\<And>j x. md j = Some x \<Longrightarrow> \<exists>d. mo (Dispute_OrderID x) = Some d \<and>
      (Dispute_Status x = DisputePending \<longrightarrow> Order_Status d = OrderDisputed)"
    and "\<And>k d. mo k = Some d \<Longrightarrow> Order_Status d = OrderDisputed \<Longrightarrow>
      \<exists>j x. md j = Some x \<and> Dispute_OrderID x = k \<and> Dispute_Status x = DisputePending"
    and "\<And>j k x y. md j = Some x \<Longrightarrow> md k = Some y \<Longrightarrow> Dispute_OrderID x = Dispute_OrderID y \<Longrightarrow> j = k"
  shows "disputes_part mo md"
  using assms unfolding disputes_part_def by blast

lemma disputes_partD:
  assumes "disputes_part mo md"
  shows "md j = Some x \<Longrightarrow> Dispute_PreviousOrderStatus x \<in> {OrderPaid, OrderDelivered}"
    and "md j = Some x \<Longrightarrow> \<exists>d. mo (Dispute_OrderID x) = Some d \<and>
      (Dispute_Status x = DisputePending \<longrightarrow> Order_Status d = OrderDisputed)"
    and "mo k = Some d \<Longrightarrow> Order_Status d = OrderDisputed \<Longrightarrow>
      \<exists>j x. md j = Some x \<and> Dispute_OrderID x = k \<and> Dispute_Status x = DisputePending"
    and "md j = Some x \<Longrightarrow> md k = Some y \<Longrightarrow> Dispute_OrderID x = Dispute_OrderID y \<Longrightarrow> j = k"
  using assms unfolding disputes_part_def by blast+

lemma disputes_part_open:
  assumes inv: "disputes_part mo md" and o': "mo (Dispute_OrderID x) = Some d" and k: "md k = None"
    and d': "Order_Status d' = OrderDisputed"
    and x: "Dispute_Status x = DisputePending" "Dispute_PreviousOrderStatus x \<in> {OrderPaid, OrderDelivered}"
    and one: "\<And>j y. md j = Some y \<Longrightarrow> Dispute_OrderID y \<noteq> Dispute_OrderID x"
  shows "disputes_part (mo(Dispute_OrderID x \<mapsto> d')) (md(k \<mapsto> x))"
proof (rule disputes_partI)
  fix j y assume y: "(md(k \<mapsto> x)) j = Some y"
  show "Dispute_PreviousOrderStatus y \<in> {OrderPaid, OrderDelivered}"
    using y x disputes_partD(1) [OF inv, of j y] by (auto split: if_splits)
  show "\<exists>e. (mo(Dispute_OrderID x \<mapsto> d')) (Dispute_OrderID y) = Some e \<and>
      (Dispute_Status y = DisputePending \<longrightarrow> Order_Status e = OrderDisputed)"
    using y x d' one [of j y] disputes_partD(2) [OF inv, of j y] by (auto split: if_splits)
next
  fix l e assume e: "(mo(Dispute_OrderID x \<mapsto> d')) l = Some e" "Order_Status e = OrderDisputed"
  show "\<exists>j y. (md(k \<mapsto> x)) j = Some y \<and> Dispute_OrderID y = l \<and> Dispute_Status y = DisputePending"
  proof (cases "l = Dispute_OrderID x")
    case True
    with x show ?thesis by (auto intro!: exI [of _ k])
  next
    case False
    with e have "mo l = Some e" by simp
    then obtain j y where "md j = Some y" "Dispute_OrderID y = l" "Dispute_Status y = DisputePending"
      using disputes_partD(3) [OF inv] e(2) by blast
    moreover from this k have "j \<noteq> k" by auto
    ultimately show ?thesis by auto
  qed
next
  fix i j y z assume "(md(k \<mapsto> x)) i = Some y" "(md(k \<mapsto> x)) j = Some z"
    "Dispute_OrderID y = Dispute_OrderID z"
  then show "i = j" using one
    by (cases "i = k"; cases "j = k") (auto dest: disputes_partD(4) [OF inv])
qed

lemma disputes_part_close:
  assumes inv: "disputes_part mo md" and k: "md k = Some x" and o': "mo (Dispute_OrderID x) = Some d"
    and d': "Order_Status d' \<noteq> OrderDisputed"
    and x': "Dispute_OrderID x' = Dispute_OrderID x" "Dispute_Status x' \<noteq> DisputePending"
      "Dispute_PreviousOrderStatus x' = Dispute_PreviousOrderStatus x"
  shows "disputes_part (mo(Dispute_OrderID x \<mapsto> d')) (md(k \<mapsto> x'))"
proof (rule disputes_partI)
  fix j y assume y: "(md(k \<mapsto> x')) j = Some y"
  show "Dispute_PreviousOrderStatus y \<in> {OrderPaid, OrderDelivered}"
    using y x' disputes_partD(1) [OF inv, of j] k by (auto split: if_splits)
  show "\<exists>e. (mo(Dispute_OrderID x \<mapsto> d')) (Dispute_OrderID y) = Some e \<and>
      (Dispute_Status y = DisputePending \<longrightarrow> Order_Status e = OrderDisputed)"
  proof (cases "j = k")
    case False
    with y have y: "md j = Some y" by simp
    then have "Dispute_OrderID y \<noteq> Dispute_OrderID x" using disputes_partD(4) [OF inv y k] False by blast
    then show ?thesis using disputes_partD(2) [OF inv y] by auto
  qed (use y x' in auto)
next
  fix l e assume "(mo(Dispute_OrderID x \<mapsto> d')) l = Some e" "Order_Status e = OrderDisputed"
  with d' have "l \<noteq> Dispute_OrderID x" "mo l = Some e" "Order_Status e = OrderDisputed"
    by (auto split: if_splits)
  moreover from this obtain j y
    where "md j = Some y" "Dispute_OrderID y = l" "Dispute_Status y = DisputePending"
    using disputes_partD(3) [OF inv] by blast
  moreover from calculation k have "j \<noteq> k" by auto
  ultimately show "\<exists>j y. (md(k \<mapsto> x')) j = Some y \<and> Dispute_OrderID y = l \<and>
      Dispute_Status y = DisputePending" by auto
next
  fix i j y z assume "(md(k \<mapsto> x')) i = Some y" "(md(k \<mapsto> x')) j = Some z"
    "Dispute_OrderID y = Dispute_OrderID z"
  then show "i = j" using k x'
    by (cases "i = k"; cases "j = k") (auto dest: disputes_partD(4) [OF inv])
qed


text \<open>An order enters or leaves a dispute, or receives its money: the items do not notice.\<close>

lemma keep_moved:
  assumes inv: "view_inv v" and k: "vorder v k = Some d" and same: "same_terms d d'"
    and act: "active d" "active d'"
    and pays: "pays_part ((vorder v)(k \<mapsto> d')) mp"
    and refunds: "\<And>j r. vrefund v j = Some r \<Longrightarrow> Refund_OrderID r = k \<Longrightarrow>
      refund_fits (Refund_Status r) (Order_Status d) \<Longrightarrow> refund_fits (Refund_Status r) (Order_Status d')"
    and disputes: "disputes_part ((vorder v)(k \<mapsto> d')) md"
  shows "view_inv (v\<lparr>vpay := mp, vdispute := md, vorder := (vorder v)(k \<mapsto> d')\<rparr>)"
proof (rule view_invI, simp_all add: pays disputes)
  from inv show "items_part (vitem v) ((vorder v)(k \<mapsto> d'))"
    by (elim view_invE) (rule items_part_progress [where d = d], use k same act in auto)
  from inv show "refunds_part ((vorder v)(k \<mapsto> d')) (vrefund v)"
    by (elim view_invE) (rule refunds_part_order [where d = d], use k same refunds in auto)
  from inv show "settles_part ((vorder v)(k \<mapsto> d')) (vsettle v)"
    by (elim view_invE) (rule settles_part_order [where d = d], use k act in \<open>auto simp: active_def\<close>)
qed

lemma keep_pay:
  assumes inv: "view_inv v" and k: "vpay v k = Some p" and o': "vorder v (Payment_OrderID p) = Some d"
    and d: "Order_Status d = OrderPendingPayment" "order_to OrderPaid d d'"
    and p': "Payment_OrderID p' = Payment_OrderID p" "Payment_AmountCents p' = Payment_AmountCents p"
      "Payment_Status p' = RecordSucceeded"
  shows "view_inv (v\<lparr>vpay := (vpay v)(k \<mapsto> p'), vorder := (vorder v)(Payment_OrderID p \<mapsto> d')\<rparr>)"
proof -
  from d have same: "same_terms d d'" and st: "Order_Status d' = OrderPaid" by (simp_all add: order_to_def)
  from inv have "pays_part ((vorder v)(Payment_OrderID p \<mapsto> d')) ((vpay v)(k \<mapsto> p'))"
    by (elim view_invE) (rule pays_part_pay [where d = d], use assms in auto)
  moreover from inv have "disputes_part ((vorder v)(Payment_OrderID p \<mapsto> d')) (vdispute v)"
    by (elim view_invE) (rule disputes_part_order [where d = d], use o' d st in auto)
  ultimately have "view_inv (v\<lparr>vpay := (vpay v)(k \<mapsto> p'), vdispute := vdispute v,
      vorder := (vorder v)(Payment_OrderID p \<mapsto> d')\<rparr>)"
    by (intro keep_moved [where d = d]) (use inv o' same d st in \<open>auto simp: active_def refund_fits_def\<close>)
  then show ?thesis by simp
qed

lemma keep_dispute_move:
  assumes inv: "view_inv v" and k: "vorder v k = Some d" and d': "order_to s d d'"
    and moves: "Order_Status d = OrderDisputed \<and> s \<in> {OrderPaid, OrderDelivered}
      \<or> Order_Status d \<in> {OrderPaid, OrderDelivered} \<and> s = OrderDisputed \<and>
        (\<forall>j r. vrefund v j = Some r \<longrightarrow> Refund_OrderID r = k \<longrightarrow> Refund_Status r \<noteq> RecordPending)"
    and disputes: "disputes_part ((vorder v)(k \<mapsto> d')) md"
  shows "view_inv (v\<lparr>vdispute := md, vorder := (vorder v)(k \<mapsto> d')\<rparr>)"
proof -
  from d' have same: "same_terms d d'" and st: "Order_Status d' = s" by (simp_all add: order_to_def)
  from inv have "pays_part ((vorder v)(k \<mapsto> d')) (vpay v)"
    by (elim view_invE) (rule pays_part_order [where d = d], use k same moves st in \<open>auto simp: paid_for_def\<close>)
  then have "view_inv (v\<lparr>vpay := vpay v, vdispute := md, vorder := (vorder v)(k \<mapsto> d')\<rparr>)"
    by (intro keep_moved [where d = d])
      (use inv k same moves st disputes in \<open>auto simp: active_def refund_fits_def\<close>)
  then show ?thesis by simp
qed

lemma keep_settlement:
  assumes "view_inv v" and "vsettle v k = Some s" and "Settlement_OrderID s' = Settlement_OrderID s"
    and "Settlement_RequestID s' = Settlement_RequestID s"
    and "Settlement_AmountCents s' = Settlement_AmountCents s"
  shows "view_inv (v\<lparr>vsettle := (vsettle v)(k \<mapsto> s')\<rparr>)"
proof (rule view_invI, simp_all)
  from assms(1) have part: "settles_part (vorder v) (vsettle v)" by (rule view_invE)
  have old: "\<exists>y. vsettle v j = Some y \<and> Settlement_OrderID y = Settlement_OrderID x \<and>
      Settlement_RequestID y = Settlement_RequestID x \<and> Settlement_AmountCents y = Settlement_AmountCents x"
    if "((vsettle v)(k \<mapsto> s')) j = Some x" for j x
    using that assms by (cases "j = k") auto
  have new: "\<exists>y. ((vsettle v)(k \<mapsto> s')) j = Some y \<and> Settlement_OrderID y = Settlement_OrderID x"
    if "vsettle v j = Some x" for j x
    using that assms by (cases "j = k") auto
  show "settles_part (vorder v) ((vsettle v)(k \<mapsto> s'))"
    unfolding settles_part_def
  proof (intro conjI allI impI)
    fix j x assume "((vsettle v)(k \<mapsto> s')) j = Some x"
    from old [OF this] obtain y where y: "vsettle v j = Some y" "Settlement_OrderID y = Settlement_OrderID x"
      "Settlement_RequestID y = Settlement_RequestID x" "Settlement_AmountCents y = Settlement_AmountCents x"
      by blast
    from part y(1) have "Settlement_RequestID y = ''settlement:'' @ marketplaceID (Settlement_OrderID y)"
      "\<exists>d. vorder v (Settlement_OrderID y) = Some d \<and> Order_Status d = OrderCompleted \<and>
          Settlement_AmountCents y = Order_SellerNetCents d"
      unfolding settles_part_def by blast+
    with y(2-4) show "Settlement_RequestID x = ''settlement:'' @ marketplaceID (Settlement_OrderID x)"
      "\<exists>d. vorder v (Settlement_OrderID x) = Some d \<and> Order_Status d = OrderCompleted \<and>
          Settlement_AmountCents x = Order_SellerNetCents d" by simp_all
  next
    fix l d assume "vorder v l = Some d" "Order_Status d = OrderCompleted"
    with part obtain j x where "vsettle v j = Some x" "Settlement_OrderID x = l"
      unfolding settles_part_def by blast
    with new [of j x] show "\<exists>j x. ((vsettle v)(k \<mapsto> s')) j = Some x \<and> Settlement_OrderID x = l"
      by (metis (no_types, lifting))
  next
    fix a b x y assume "((vsettle v)(k \<mapsto> s')) a = Some x" "((vsettle v)(k \<mapsto> s')) b = Some y"
      "Settlement_OrderID x = Settlement_OrderID y"
    with old [of a x] old [of b y] part show "a = b" unfolding settles_part_def by metis
  qed
qed (use assms(1) in \<open>auto elim: view_invE\<close>)


lemma keep_refund_row:
  assumes inv: "view_inv v" and o': "vorder v (Refund_OrderID r) = Some d"
    and r: "Refund_AmountCents r = Order_PriceCents d" "refund_fits (Refund_Status r) (Order_Status d)"
    and one: "\<And>j s. vrefund v j = Some s \<Longrightarrow> Refund_OrderID s = Refund_OrderID r \<Longrightarrow> j = k"
  shows "view_inv (v\<lparr>vrefund := (vrefund v)(k \<mapsto> r)\<rparr>)"
proof -
  from inv have "refunds_part (vorder v) (vrefund v)" by (rule view_invE)
  then have "refunds_part (vorder v) ((vrefund v)(k \<mapsto> r))"
    by (rule refunds_part_row [where d = d]) (use assms in auto)
  with inv show ?thesis by (auto simp: view_inv_def)
qed

lemma keep_payment_row:
  assumes inv: "view_inv v" and pays: "pays_part (vorder v) mp"
  shows "view_inv (v\<lparr>vpay := mp\<rparr>)"
  using assms by (auto simp: view_inv_def)

text \<open>A disputed order is refunded: the refund row is new, unless the order already had one.\<close>

lemma refunds_part_disputed:
  assumes inv: "refunds_part mo mr" and k: "mo k = Some d" and d: "Order_Status d = OrderDisputed"
    and d': "order_to OrderRefunded d d'"
    and m': "m' = mr \<or> (\<exists>r. mr (Refund_ID r) = None \<and> m' = mr(Refund_ID r \<mapsto> r) \<and> Refund_OrderID r = k \<and>
        Refund_Status r = RecordSucceeded \<and> Refund_AmountCents r = Order_PriceCents d \<and>
        (\<forall>j s. mr j = Some s \<longrightarrow> Refund_OrderID s \<noteq> Refund_OrderID r))"
  shows "refunds_part (mo(k \<mapsto> d')) m'"
proof -
  from d' have same: "same_terms d d'" and st: "Order_Status d' = OrderRefunded"
    by (simp_all add: order_to_def)
  have base: "refunds_part (mo(k \<mapsto> d')) mr"
    by (rule refunds_part_order [OF inv k same]) (use d st in \<open>auto simp: refund_fits_def\<close>)
  from m' show ?thesis
  proof (elim disjE exE conjE)
    fix r assume r: "m' = mr(Refund_ID r \<mapsto> r)" "Refund_OrderID r = k" "Refund_Status r = RecordSucceeded"
      "Refund_AmountCents r = Order_PriceCents d" "\<forall>j s. mr j = Some s \<longrightarrow> Refund_OrderID s \<noteq> Refund_OrderID r"
    show ?thesis unfolding r(1)
      by (rule refunds_part_row [OF base, of r d'])
        (use r same st in \<open>auto simp: same_terms_def refund_fits_def\<close>)
  qed (simp add: base)
qed

lemma order_item:
  assumes "view_inv v" and "vitem v k = Some i" and "Item_ReservedOrderID i = Some o'" and "vorder v o' = Some d"
  shows "Order_ItemID d = k"
proof -
  from assms(1) have "items_part (vitem v) (vorder v)" by (rule view_invE)
  from items_partD(1) [OF this assms(2)] assms(3,4) show ?thesis by (auto simp: item_inv_def)
qed

theorem spec_step_inv: "spec_step v v' \<Longrightarrow> view_inv v \<Longrightarrow> view_inv v'"
proof (induction rule: spec_step.induct)
  case (edit_item v k i i')
  from edit_item.prems have part: "items_part (vitem v) (vorder v)" by (rule view_invE)
  from items_partD(1) [OF part edit_item.hyps(1)] edit_item.hyps have "item_inv (vorder v) k i'"
    by (auto simp: item_inv_def split: option.splits)
  then show ?case by (rule keep_item_change [OF edit_item.prems edit_item.hyps(1)]) (use edit_item.hyps in auto)
next
  case (withdraw_item v k i i')
  from withdraw_item.prems have part: "items_part (vitem v) (vorder v)" by (rule view_invE)
  have ii: "item_inv (vorder v) k i" using items_partD(1) [OF part withdraw_item.hyps(1)] .
  with withdraw_item.hyps(2) have none: "Item_ReservedOrderID i = None" by (auto intro: item_inv_None)
  with ii withdraw_item.hyps have "item_inv (vorder v) k i'" by (auto simp: item_inv_def item_to_def)
  then show ?case
    by (rule keep_item_change [OF withdraw_item.prems withdraw_item.hyps(1)])
      (use withdraw_item.hyps none in \<open>auto simp: item_to_def\<close>)
next
  case (hide_item v k i i')
  from hide_item.prems have part: "items_part (vitem v) (vorder v)" by (rule view_invE)
  from items_partD(1) [OF part hide_item.hyps(1)] hide_item.hyps have "item_inv (vorder v) k i'"
    by (auto simp: item_inv_def item_to_def)
  then show ?case
    by (rule keep_item_change [OF hide_item.prems hide_item.hyps(1)])
      (use hide_item.hyps in \<open>auto simp: item_to_def\<close>)
next
  case (hide_reserved v k i o' d i' d')
  from hide_reserved.prems have part: "items_part (vitem v) (vorder v)" by (rule view_invE)
  have k: "Order_ItemID d = k"
    using order_item [OF hide_reserved.prems hide_reserved.hyps(1,3,4)] .
  have "items_part ((vitem v)(Order_ItemID d \<mapsto> i')) ((vorder v)(o' \<mapsto> d'))"
    by (rule taken_items [OF part hide_reserved.hyps(4), where i = i and s = ItemHidden])
      (use hide_reserved.hyps k in \<open>auto simp: active_def order_to_def\<close>)
  then show ?case unfolding k by (rule keep_cancelled [OF hide_reserved.prems hide_reserved.hyps(4-5,7)])
next
  case (cancel v k d d' m')
  from cancel.prems have part: "items_part (vitem v) (vorder v)" by (rule view_invE)
  have "items_part m' ((vorder v)(k \<mapsto> d'))"
    by (rule released_items [OF part cancel.hyps(1)]) (use cancel.hyps in \<open>auto simp: active_def order_to_def\<close>)
  from keep_cancelled [OF cancel.prems cancel.hyps(1-3) this] show ?case
    by (simp add: view_inv_def)
next
  case (deliver v k d d')
  then show ?case by (intro keep_progress [where s = OrderDelivered]) (auto simp: active_def)
next
  case (complete v k d d' m' s)
  then show ?case by (intro keep_complete [where d = d]) auto
next
  case (place_order v d i i')
  then show ?case by (intro keep_place_order) auto
next
  case (open_payment v p d)
  from open_payment.prems have "pays_part (vorder v) (vpay v)" by (rule view_invE)
  then have "pays_part (vorder v) ((vpay v)(Payment_ID p \<mapsto> p))"
    by (rule pays_part_open [where d = d]) (use open_payment.hyps in auto)
  with open_payment.prems show ?case by (rule keep_payment_row)
next
  case (attach_transaction v k p p')
  from attach_transaction.prems have "pays_part (vorder v) (vpay v)" by (rule view_invE)
  then have "pays_part (vorder v) ((vpay v)(k \<mapsto> p'))"
    by (rule pays_part_attach [where p = p]) (use attach_transaction.hyps in auto)
  with attach_transaction.prems show ?case by (rule keep_payment_row)
next
  case (pay v k p d p' d')
  then show ?case by (intro keep_pay [where d = d]) auto
next
  case (request_refund v r d)
  then show ?case by (intro keep_refund_row [where d = d]) (auto simp: refund_fits_def)
next
  case (reject_refund v k r r')
  from reject_refund.prems have part: "refunds_part (vorder v) (vrefund v)" by (rule view_invE)
  obtain d where d: "vorder v (Refund_OrderID r) = Some d" "Refund_AmountCents r = Order_PriceCents d"
    using refunds_partD(2) [OF part reject_refund.hyps(1)] by blast
  have one: "j = k" if "vrefund v j = Some s" "Refund_OrderID s = Refund_OrderID r" for j s
    using refunds_partD(1) [OF part] that reject_refund.hyps(1) unfolding one_refund_def by blast
  show ?case
    by (rule keep_refund_row [where d = d])
      (use reject_refund d one in \<open>auto simp: refund_fits_def\<close>)
next
  case (approve_refund v k r r' d d' i i')
  from approve_refund.prems have "refunds_part (vorder v) (vrefund v)" by (rule view_invE)
  then have refunds: "refunds_part ((vorder v)(Refund_OrderID r \<mapsto> d')) ((vrefund v)(k \<mapsto> r'))"
    by (rule refunds_part_approve [where d = d]) (use approve_refund.hyps in auto)
  from approve_refund.prems have "disputes_part (vorder v) (vdispute v)" by (rule view_invE)
  then have "disputes_part ((vorder v)(Refund_OrderID r \<mapsto> d')) (vdispute v)"
    by (rule disputes_part_order [where d = d]) (use approve_refund.hyps in \<open>auto simp: order_to_def\<close>)
  from keep_refunded [OF approve_refund.prems approve_refund.hyps(7) _ approve_refund.hyps(9-11) refunds this]
  show ?case using approve_refund.hyps(8) by (simp add: view_inv_def) blast
next
  case (open_dispute v x d d')
  from open_dispute.prems have "disputes_part (vorder v) (vdispute v)" by (rule view_invE)
  then have "disputes_part ((vorder v)(Dispute_OrderID x \<mapsto> d')) ((vdispute v)(Dispute_ID x \<mapsto> x))"
    by (rule disputes_part_open [where d = d]) (use open_dispute.hyps in \<open>auto simp: order_to_def\<close>)
  then show ?case
    by (rule keep_dispute_move [OF open_dispute.prems open_dispute.hyps(1,7), rotated])
      (use open_dispute.hyps in auto)
next
  case (resume_disputed v k x d d' x')
  from resume_disputed.prems have part: "disputes_part (vorder v) (vdispute v)" by (rule view_invE)
  have prev: "Dispute_PreviousOrderStatus x \<in> {OrderPaid, OrderDelivered}"
    using disputes_partD(1) [OF part resume_disputed.hyps(1)] .
  have "disputes_part ((vorder v)(Dispute_OrderID x \<mapsto> d')) ((vdispute v)(k \<mapsto> x'))"
    by (rule disputes_part_close [OF part resume_disputed.hyps(1,3)])
      (use resume_disputed.hyps prev in \<open>auto simp: order_to_def\<close>)
  then show ?case
    by (rule keep_dispute_move [OF resume_disputed.prems resume_disputed.hyps(3,5), rotated])
      (use resume_disputed.hyps prev in auto)
next
  case (refund_disputed v k x d d' x' i i' m')
  from refund_disputed.prems have part: "disputes_part (vorder v) (vdispute v)" by (rule view_invE)
  have disputes: "disputes_part ((vorder v)(Dispute_OrderID x \<mapsto> d')) ((vdispute v)(k \<mapsto> x'))"
    by (rule disputes_part_close [OF part refund_disputed.hyps(1,3)])
      (use refund_disputed.hyps in \<open>auto simp: order_to_def\<close>)
  from refund_disputed.prems have "refunds_part (vorder v) (vrefund v)" by (rule view_invE)
  then have refunds: "refunds_part ((vorder v)(Dispute_OrderID x \<mapsto> d')) m'"
    by (rule refunds_part_disputed [where d = d]) (use refund_disputed.hyps in auto)
  from keep_refunded [OF refund_disputed.prems refund_disputed.hyps(3) _ refund_disputed.hyps(5,10,11)
      refunds disputes]
  show ?case using refund_disputed.hyps(4) by (simp add: view_inv_def)
next
  case (update_settlement v k s s')
  then show ?case by (intro keep_settlement [where s = s]) auto
next
  case (list_item v i)
  then show ?case by (intro keep_list_item) auto
qed simp

end
