(* ===== verification/Marketplace_Refine.thy ===== *)
theory Marketplace_Refine
  imports Marketplace_Repo Marketplace_Spec
begin

text \<open>
  The repository implements the abstract machine: under the tables' unique keys and the invariant,
  every run of a repository method, whether it succeeds or is stopped by a fault, is one step of
  \<open>spec_step\<close> on the tables seen as maps.
\<close>

section \<open>The tables as maps\<close>

definition view :: "market_db \<Rightarrow> market_view" where
  "view t = \<lparr>vitem = lookup Item_ID (items t), vorder = lookup Order_ID (orders t),
     vpay = lookup Payment_ID (payments t), vrefund = lookup Refund_ID (refunds t),
     vdispute = lookup Dispute_ID (disputes t), vsettle = lookup Settlement_ID (settlements t)\<rparr>"

definition keys_ok :: "market_db \<Rightarrow> bool" where
  "keys_ok t \<longleftrightarrow> items_ok (items t) \<and> orders_ok (orders t) \<and> payments_ok (payments t) \<and>
     refunds_ok (refunds t) \<and> disputes_ok (disputes t) \<and> settlements_ok (settlements t)"

definition rates_ok :: "market_db \<Rightarrow> bool" where
  "rates_ok t \<longleftrightarrow> list_all (\<lambda>c. valid_rate (Category_CommissionRateBps c)) (categories t)"

definition market_inv :: "market_db \<Rightarrow> bool" where
  "market_inv t \<longleftrightarrow> keys_ok t \<and> rates_ok t \<and> view_inv (view t)"

text \<open>
  A method \<open>implements\<close> the machine when each of its runs, whatever its result, makes at most one
  step and keeps the keys and the commission rates in order.
\<close>

definition moves :: "market_db \<Rightarrow> market_db \<Rightarrow> bool" where
  "moves t t' \<longleftrightarrow> spec_step (view t) (view t') \<and> keys_ok t' \<and> rates_ok t'"

definition implements :: "(market_db \<Rightarrow> bool) \<Rightarrow> (market_db, 'o, 'e, 'a) prog \<Rightarrow> bool" where
  "implements pre m \<longleftrightarrow>
     (\<forall>t r t'. outcome m t r t' \<longrightarrow> market_inv t \<longrightarrow> pre t \<longrightarrow> moves t t')"

lemma view_sel [simp]:
  "vitem (view t) = lookup Item_ID (items t)" "vorder (view t) = lookup Order_ID (orders t)"
  "vpay (view t) = lookup Payment_ID (payments t)" "vrefund (view t) = lookup Refund_ID (refunds t)"
  "vdispute (view t) = lookup Dispute_ID (disputes t)"
  "vsettle (view t) = lookup Settlement_ID (settlements t)"
  by (simp_all add: view_def)

lemma view_upd [simp]:
  "view (items_update f t) = (view t)\<lparr>vitem := lookup Item_ID (f (items t))\<rparr>"
  "view (orders_update g t) = (view t)\<lparr>vorder := lookup Order_ID (g (orders t))\<rparr>"
  "view (payments_update h t) = (view t)\<lparr>vpay := lookup Payment_ID (h (payments t))\<rparr>"
  "view (refunds_update i t) = (view t)\<lparr>vrefund := lookup Refund_ID (i (refunds t))\<rparr>"
  "view (disputes_update j t) = (view t)\<lparr>vdispute := lookup Dispute_ID (j (disputes t))\<rparr>"
  "view (settlements_update k t) = (view t)\<lparr>vsettle := lookup Settlement_ID (k (settlements t))\<rparr>"
  by (simp_all add: view_def)

lemma keys_okD:
  assumes "keys_ok t"
  shows "distinct (map Item_ID (items t))" "distinct (map Order_ID (orders t))"
    "distinct (map Payment_ID (payments t))" "distinct (map Refund_ID (refunds t))"
    "distinct (map Dispute_ID (disputes t))" "distinct (map Settlement_ID (settlements t))"
  using assms by (auto simp: keys_ok_def items_ok_def orders_ok_def payments_ok_def refunds_ok_def
      disputes_ok_def settlements_ok_def)

lemma key_of:
  "lookup Item_ID rows_i k = Some i \<Longrightarrow> Item_ID i = k"
  "lookup Order_ID rows_o k = Some d \<Longrightarrow> Order_ID d = k"
  "lookup Payment_ID rows_p k = Some p \<Longrightarrow> Payment_ID p = k"
  "lookup Refund_ID rows_r k = Some r \<Longrightarrow> Refund_ID r = k"
  "lookup Dispute_ID rows_d k = Some x \<Longrightarrow> Dispute_ID x = k"
  "lookup Settlement_ID rows_s k = Some s \<Longrightarrow> Settlement_ID s = k"
  by (auto dest: lookup_SomeD)

text \<open>An order's item exists; an order has the id it is stored under.\<close>

lemma order_has_item:
  assumes "market_inv t" and "lookup Order_ID (orders t) k = Some d"
  shows "\<exists>i. lookup Item_ID (items t) (Order_ItemID d) = Some i"
proof -
  from assms(1) have "items_part (vitem (view t)) (vorder (view t))"
    by (auto simp: market_inv_def elim: view_invE)
  from items_partD(2) [OF this, of k d] assms(2) show ?thesis by (auto simp: order_inv_def)
qed

section \<open>Runs of a method\<close>

lemma moves_idle: "market_inv t \<Longrightarrow> moves t t"
  by (simp add: market_inv_def moves_def idle)

lemma movesI:
  assumes "spec_step (view t) v" and "market_inv t" and "view t' = v" and "keys_ok t'"
    and "categories t' = categories t"
  shows "moves t t'"
  using assms by (simp add: market_inv_def moves_def rates_ok_def)

lemma implementsI:
  assumes "\<And>t x t'. outcome m t (Inr x) t' \<Longrightarrow> market_inv t \<Longrightarrow> pre t \<Longrightarrow> moves t t'"
  shows "implements pre (bind gormDB (\<lambda>_. transaction m))"
  using assms unfolding implements_def by (blast elim: connected_transactionE intro: moves_idle)

lemma load_item_keeps: "keeps I (load_item i)"
  unfolding load_item_def by (intro keeps_bind keeps_basic)

lemma load_order_keeps: "keeps I (load_order d)"
  unfolding load_order_def by (auto intro!: keeps_bind keeps_basic load_item_keeps split: option.split)

lemma load_order_same: "outcome (load_order d) t r t' \<Longrightarrow> t' = t"
  using keepsD [OF load_order_keeps, of d t r t' "\<lambda>s. s = t"] by simp

lemma transitionOrder_implements:
  assumes "\<And>t d t'. outcome (tr d) t (Inr ()) t' \<Longrightarrow> market_inv t \<Longrightarrow> pre t \<Longrightarrow>
    lookup Order_ID (orders t) oid = Some d \<Longrightarrow> moves t t'"
  shows "implements pre (transitionOrder oid tr)"
  unfolding transitionOrder_def
  by (rule implementsI)
    (auto dest!: outcome_bind_Inr load_order_same simp: run_simps find_key intro: assms)


text \<open>What the column updates do, in the terms of the abstract machine.\<close>

lemma order_rows [simp]:
  "order_to OrderCancelled d (cancel_order_row now d)" "order_to OrderPaid d (pay_order_row now d)"
  "order_to OrderDelivered d (deliver_order_row now d)"
  "order_to OrderCompleted d (complete_order_row now d)"
  "order_to OrderRefunded d (refund_order_row now d)"
  "order_to OrderDisputed d (dispute_order_row now d)" "order_to s d (resolve_order_row s now d)"
  by (simp_all add: order_to_def same_terms_def cancel_order_row_def pay_order_row_def
      deliver_order_row_def complete_order_row_def refund_order_row_def dispute_order_row_def
      resolve_order_row_def)

lemma item_rows [simp]:
  "item_to ItemWithdrawn (Item_ReservedOrderID i) i (withdraw_item_row now i)"
  "item_to ItemHidden None i (hide_item_row now i)"
  "item_to ItemReserved (Some (Order_ID d)) i (reserve_item_row d i)"
  "item_to ItemPublished None i (release_item_row now i)"
  "item_to ItemSold (Item_ReservedOrderID i) i (sell_item_row now i)"
  "item_to ItemWithdrawn None i (take_item_row now i)"
  by (simp_all add: item_to_def withdraw_item_row_def hide_item_row_def reserve_item_row_def
      release_item_row_def sell_item_row_def take_item_row_def)

lemma order_to_key: "order_to s d d' \<Longrightarrow> Order_ID d' = Order_ID d"
  by (simp add: order_to_def same_terms_def)

lemma item_to_key: "item_to s r i i' \<Longrightarrow> Item_ID i' = Item_ID i"
  by (simp add: item_to_def)

lemma row_keys [simp]:
  "Order_ID (cancel_order_row now d) = Order_ID d" "Order_ID (pay_order_row now d) = Order_ID d"
  "Order_ID (deliver_order_row now d) = Order_ID d" "Order_ID (complete_order_row now d) = Order_ID d"
  "Order_ID (refund_order_row now d) = Order_ID d" "Order_ID (dispute_order_row now d) = Order_ID d"
  "Order_ID (resolve_order_row s now d) = Order_ID d"
  "Item_ID (withdraw_item_row now i) = Item_ID i" "Item_ID (hide_item_row now i) = Item_ID i"
  "Item_ID (reserve_item_row d i) = Item_ID i" "Item_ID (release_item_row now i) = Item_ID i"
  "Item_ID (sell_item_row now i) = Item_ID i" "Item_ID (take_item_row now i) = Item_ID i"
  "Item_ID (edit_item_row it i) = Item_ID i"
  by (rule order_to_key item_to_key, rule order_rows item_rows)+ (simp add: edit_item_row_def)

lemma pay_rows [simp]:
  "Payment_ID (attach_payment_row tx now p) = Payment_ID p"
  "Payment_ID (succeed_payment_row tx now p) = Payment_ID p"
  "Payment_OrderID (attach_payment_row tx now p) = Payment_OrderID p"
  "Payment_OrderID (succeed_payment_row tx now p) = Payment_OrderID p"
  "Payment_AmountCents (attach_payment_row tx now p) = Payment_AmountCents p"
  "Payment_AmountCents (succeed_payment_row tx now p) = Payment_AmountCents p"
  "Payment_Status (attach_payment_row tx now p) = Payment_Status p"
  "Payment_Status (succeed_payment_row tx now p) = RecordSucceeded"
  by (simp_all add: attach_payment_row_def succeed_payment_row_def)

lemma record_rows [simp]:
  "Refund_ID (decide_refund_row a b g now r) = Refund_ID r"
  "Refund_OrderID (decide_refund_row a b g now r) = Refund_OrderID r"
  "Refund_AmountCents (decide_refund_row a b g now r) = Refund_AmountCents r"
  "Refund_Status (decide_refund_row a b g now r) = (if b then RecordSucceeded else RecordRejected)"
  "Dispute_ID (close_dispute_row c e a now x) = Dispute_ID x"
  "Dispute_OrderID (close_dispute_row c e a now x) = Dispute_OrderID x"
  "Dispute_PreviousOrderStatus (close_dispute_row c e a now x) = Dispute_PreviousOrderStatus x"
  "Dispute_Status (close_dispute_row c e a now x) =
     (if c = ''refund'' then DisputeResolved else DisputeRejected)"
  "Settlement_ID (settlement_row st g now s) = Settlement_ID s"
  "Settlement_OrderID (settlement_row st g now s) = Settlement_OrderID s"
  "Settlement_RequestID (settlement_row st g now s) = Settlement_RequestID s"
  "Settlement_AmountCents (settlement_row st g now s) = Settlement_AmountCents s"
  by (simp_all add: decide_refund_row_def close_dispute_row_def settlement_row_def)

text \<open>One row found in its table, then updated under a condition it satisfies.\<close>

lemma order_moved:
  assumes "\<And>d. Order_ID (f d) = Order_ID d" and "lookup Order_ID rows k = Some d" and "Q d"
  shows "lookup Order_ID (update_rows (\<lambda>d. Order_ID d = k \<and> Q d) f rows) = (lookup Order_ID rows)(k \<mapsto> f d)"
  by (rule lookup_update_at) (use assms in \<open>auto dest: key_of\<close>)

lemma item_moved:
  assumes "\<And>i. Item_ID (f i) = Item_ID i" and "lookup Item_ID rows k = Some i" and "Q i"
  shows "lookup Item_ID (update_rows (\<lambda>i. Item_ID i = k \<and> Q i) f rows) = (lookup Item_ID rows)(k \<mapsto> f i)"
  by (rule lookup_update_at) (use assms in \<open>auto dest: key_of\<close>)

section \<open>Orders\<close>

lemma MarkDelivered_implements: "implements pre (repo_MarkDelivered oid seller now)"
  unfolding repo_MarkDelivered_def
  apply (rule transitionOrder_implements)
  subgoal premises p for t d t'
  proof -
    from p(1) have st: "Order_Status d = OrderPaid"
      and t': "t' = orders_update (update_rows (\<lambda>d. Order_ID d = oid \<and> Order_Status d = OrderPaid)
        (deliver_order_row now)) t" and ok: "orders_ok (orders t')"
      by (auto dest!: outcome_bind_Inr simp: run_simps)
    show ?thesis
      by (rule movesI [OF deliver [of "view t" oid d "deliver_order_row now d"]])
        (use p(2,4) st ok in \<open>simp_all add: t' order_moved market_inv_def keys_ok_def\<close>)
  qed
  done

lemma released_rows:
  assumes inv: "market_inv t" and d: "lookup Order_ID (orders t) (Order_ID d) = Some d"
  shows "released d (lookup Item_ID (items t))
    (lookup Item_ID (update_rows (\<lambda>i. Item_ID i = Order_ItemID d \<and> Item_ReservedOrderID i = Some (Order_ID d))
      (release_item_row now) (items t)))"
proof -
  obtain i where i: "lookup Item_ID (items t) (Order_ItemID d) = Some i"
    using order_has_item [OF inv d] by blast
  show ?thesis
  proof (cases "Item_ReservedOrderID i = Some (Order_ID d)")
    case True
    then show ?thesis unfolding released_def
      using i by (intro disjI1 exI [of _ i] exI [of _ "release_item_row now i"]) (simp add: item_moved)
  next
    case False
    then show ?thesis unfolding released_def
      using i by (intro disjI2 exI [of _ i]) (auto intro: lookup_update_skip)
  qed
qed

lemma sold_rows:
  assumes inv: "market_inv t" and d: "lookup Order_ID (orders t) (Order_ID d) = Some d"
  shows "sold d (lookup Item_ID (items t))
    (lookup Item_ID (update_rows (\<lambda>i. Item_ID i = Order_ItemID d \<and> Item_ReservedOrderID i = Some (Order_ID d))
      (sell_item_row now) (items t)))"
proof -
  obtain i where i: "lookup Item_ID (items t) (Order_ItemID d) = Some i"
    using order_has_item [OF inv d] by blast
  show ?thesis
  proof (cases "Item_ReservedOrderID i = Some (Order_ID d)")
    case True
    then have "item_to ItemSold (Some (Order_ID d)) i (sell_item_row now i)"
      using item_rows(5) [of i now] by simp
    with True show ?thesis unfolding sold_def
      using i by (intro disjI1 exI [of _ i] exI [of _ "sell_item_row now i"]) (simp add: item_moved)
  next
    case False
    then show ?thesis unfolding sold_def
      using i by (intro disjI2 exI [of _ i]) (auto intro: lookup_update_skip)
  qed
qed

lemma cancel_moves:
  assumes inv: "market_inv t" and d: "lookup Order_ID (orders t) oid = Some d"
    and st: "Order_Status d = OrderPendingPayment"
    and ok: "orders_ok (update_rows (\<lambda>d. Order_ID d = oid \<and> Order_Status d = OrderPendingPayment)
        (cancel_order_row now) (orders t))"
    and run: "outcome (release_item d now)
      (orders_update (update_rows (\<lambda>d. Order_ID d = oid \<and> Order_Status d = OrderPendingPayment)
        (cancel_order_row now)) t) (Inr n) t'"
  shows "moves t t'"
proof -
  from d have oid: "oid = Order_ID d" by (auto dest: key_of)
  from run have t': "t' = items_update (update_rows (\<lambda>i. Item_ID i = Order_ItemID d \<and>
      Item_ReservedOrderID i = Some (Order_ID d)) (release_item_row now))
    (orders_update (update_rows (\<lambda>d. Order_ID d = oid \<and> Order_Status d = OrderPendingPayment)
        (cancel_order_row now)) t)" and ok_items: "items_ok (items t')"
    by (auto simp: release_item_def run_simps)
  show ?thesis
    by (rule movesI [OF cancel [of "view t" oid d "cancel_order_row now d" "vitem (view t')"]])
      (use inv d st ok ok_items released_rows [OF inv, of d now] in
        \<open>simp_all add: t' order_moved market_inv_def keys_ok_def oid\<close>)
qed

lemma CancelOrder_implements: "implements pre (repo_CancelOrder oid buyer now)"
  unfolding repo_CancelOrder_def
  by (rule transitionOrder_implements)
    (auto dest!: outcome_bind_Inr simp: run_simps intro: cancel_moves)


lemma cancel_row_counts:
  assumes "market_inv t" and "lookup Order_ID (orders t) oid = Some d" and "Order_Status d = OrderPendingPayment"
  shows "rows_changed (\<lambda>d. Order_ID d = oid \<and> Order_Status d = OrderPendingPayment)
    (cancel_order_row now) (orders t) = Suc 0"
proof -
  have "Order_Status (cancel_order_row now d) \<noteq> Order_Status d"
    using assms(3) by (simp add: cancel_order_row_def)
  then have "cancel_order_row now d \<noteq> d" by auto
  moreover from assms(2) have "Order_ID d = oid" by (rule key_of)
  moreover have "distinct (map Order_ID (orders t))"
    using assms(1) by (simp add: market_inv_def keys_okD)
  ultimately show ?thesis
    using rows_changed_one [of Order_ID "orders t" oid d
        "\<lambda>d. Order_ID d = oid \<and> Order_Status d = OrderPendingPayment" "cancel_order_row now"] assms(2,3)
    by simp
qed

lemma ExpireOrder_implements: "implements pre (repo_ExpireOrder oid now)"
  unfolding repo_ExpireOrder_def
  apply (rule implementsI)
  subgoal premises p for t x t'
  proof (cases "lookup Order_ID (orders t) oid")
    case None
    with p(1,2) show ?thesis
      by (auto dest!: outcome_bind_Inr outcome_find_row simp: run_simps find_key intro!: moves_idle)
  next
    case (Some d)
    note found = this
    show ?thesis
    proof (cases "Order_Status d \<noteq> OrderPendingPayment \<or> Order_ExpiresAt d > now")
      case True
      with p(1,2) found show ?thesis
        by (auto dest!: outcome_bind_Inr outcome_find_row simp: run_simps find_key intro!: moves_idle)
    next
      case False
      with p(1) found cancel_row_counts [OF p(2) found] show ?thesis
        by (auto dest!: outcome_bind_Inr outcome_find_row load_order_same simp: run_simps find_key)
          (rule cancel_moves [OF p(2) found], assumption+)
    qed
  qed
  done

text \<open>
  A settlement as \<open>newSettlement\<close> builds it: its identifier is fresh (the identifier generator never
  repeats one), its request id is made from the order.
\<close>

definition settlement_for :: "int64 \<Rightarrow> settlement \<Rightarrow> market_db \<Rightarrow> bool" where
  "settlement_for oid s t \<longleftrightarrow>
     lookup Settlement_ID (settlements t) (Settlement_ID s) = None \<and>
     Settlement_GatewaySettlementID s = None \<and>
     Settlement_RequestID s = ''settlement:'' @ marketplaceID oid"

lemma lookup_NoneD: "lookup key rows k = None \<Longrightarrow> k \<notin> key ` set rows"
  by (auto simp: lookup_def find_None_iff)

text \<open>So the insertion of the settlement never hits a unique key: no order completes without one.\<close>

lemma settlement_fits:
  assumes inv: "market_inv t" and d: "lookup Order_ID (orders t) oid = Some d"
    and st: "Order_Status d \<noteq> OrderCompleted" and s: "settlement_for oid s t" "Settlement_OrderID s = oid"
  shows "settlements_ok (settlements t @ [s])"
proof -
  from inv have ok: "settlements_ok (settlements t)" and dist: "distinct (map Settlement_ID (settlements t))"
    by (auto simp: market_inv_def keys_ok_def settlements_ok_def)
  from inv have part: "settles_part (vorder (view t)) (vsettle (view t))"
    by (auto simp: market_inv_def elim: view_invE)
  have other: "Settlement_OrderID x \<noteq> oid \<and>
      Settlement_RequestID x = ''settlement:'' @ marketplaceID (Settlement_OrderID x)"
    if "x \<in> set (settlements t)" for x
    using part lookup_member [OF dist that] d st unfolding settles_part_def by fastforce
  have "Settlement_RequestID s \<notin> Settlement_RequestID ` set (settlements t)"
  proof
    assume "Settlement_RequestID s \<in> Settlement_RequestID ` set (settlements t)"
    then obtain x where x: "x \<in> set (settlements t)" "Settlement_RequestID x = Settlement_RequestID s" by auto
    with other [OF x(1)] s show False
      by (simp add: settlement_for_def marketplaceID_def FormatInt_inject)
  qed
  moreover have "Settlement_ID s \<notin> Settlement_ID ` set (settlements t)"
    using s(1) by (intro lookup_NoneD) (simp add: settlement_for_def)
  moreover have "oid \<notin> Settlement_OrderID ` set (settlements t)" using other by auto
  ultimately show ?thesis
    using ok s by (simp add: settlements_ok_def settlement_for_def List.map_filter_def)
qed

lemma complete_moves:
  assumes inv: "market_inv t" and d: "lookup Order_ID (orders t) oid = Some d"
    and st: "Order_Status d = OrderDelivered"
    and s: "settlement_for oid s t"
    and run: "outcome (completeOrderTx d (s\<lparr>Settlement_OrderID := Order_ID d,
      Settlement_AmountCents := Order_SellerNetCents d\<rparr>) now) t (Inr ()) t'"
  shows "moves t t'"
proof -
  define s' where "s' = s\<lparr>Settlement_OrderID := Order_ID d, Settlement_AmountCents := Order_SellerNetCents d\<rparr>"
  from d have oid: "Order_ID d = oid" by (auto dest: key_of)
  have fits: "settlements_ok (settlements t @ [s'])"
    by (rule settlement_fits [OF inv d]) (use st s oid in \<open>simp_all add: s'_def settlement_for_def\<close>)
  from run fits have quiet: "length (filter (pending_refund_of oid) (refunds t)) = 0"
    and t': "t' = settlements_update (\<lambda>rows. rows @ [s'])
       (items_update (update_rows (\<lambda>i. Item_ID i = Order_ItemID d \<and> Item_ReservedOrderID i = Some oid)
         (sell_item_row now))
       (orders_update (update_rows (\<lambda>d. Order_ID d = oid \<and> Order_Status d = OrderDelivered)
         (complete_order_row now)) t))"
    and ok: "orders_ok (orders t')" "items_ok (items t')"
    by (auto dest!: outcome_bind_Inr simp: run_simps completeOrderTx_def oid s'_def)
  have "\<forall>j r. vrefund (view t) j = Some r \<longrightarrow> Refund_OrderID r = oid \<longrightarrow> Refund_Status r \<noteq> RecordPending"
    using quiet by (auto simp: pending_refund_of_def filter_empty_conv dest: lookup_SomeD)
  moreover have "lookup Settlement_ID (settlements t @ [s']) = (lookup Settlement_ID (settlements t))(Settlement_ID s' \<mapsto> s')"
    using fits by (intro lookup_append_new) (simp add: settlements_ok_def)
  ultimately show ?thesis
    by (intro movesI [OF complete [of "view t" oid d "complete_order_row now d" "vitem (view t')" s']])
      (use inv d st s ok fits sold_rows [OF inv, of d now] oid in
        \<open>simp_all add: t' order_moved market_inv_def keys_ok_def s'_def settlement_for_def\<close>)
qed

lemma ConfirmReceived_implements: "implements (settlement_for oid s) (repo_ConfirmReceived oid buyer s now)"
  unfolding repo_ConfirmReceived_def
  by (rule transitionOrder_implements)
    (auto dest!: outcome_bind_Inr simp: run_simps intro: complete_moves)

lemma AutoCompleteOrder_implements:
  "implements (settlement_for oid s) (AutoCompleteOrder oid cutoff s now)"
  unfolding AutoCompleteOrder_def
  apply (rule implementsI)
  subgoal premises p for t x t'
  proof (cases "lookup Order_ID (orders t) oid")
    case None
    with p(1,2) show ?thesis
      by (auto dest!: outcome_bind_Inr outcome_find_row simp: run_simps find_key intro!: moves_idle)
  next
    case (Some d)
    show ?thesis
    proof (cases "Order_Status d \<noteq> OrderDelivered \<or>
        (case Order_DeliveredAt d of None \<Rightarrow> True | Some a \<Rightarrow> a > cutoff)")
      case True
      with p(1,2) Some show ?thesis
        by (auto dest!: outcome_bind_Inr outcome_find_row simp: run_simps find_key intro!: moves_idle)
    next
      case False
      with p(1) Some show ?thesis
        by (auto dest!: outcome_bind_Inr outcome_find_row load_order_same simp: run_simps find_key)
          (rule complete_moves [OF p(2) Some _ p(3)], assumption+)
    qed
  qed
  done


lemma item_price:
  assumes "market_inv t" and "lookup Item_ID (items t) k = Some i"
  shows "price_ok (Item_PriceCents i)"
proof -
  from assms(1) have "items_part (vitem (view t)) (vorder (view t))"
    by (auto simp: market_inv_def elim: view_invE)
  from items_partD(1) [OF this, of k i] assms(2) show ?thesis by (simp add: item_inv_def)
qed

text \<open>The terms an order is created with: the fee never exceeds the price and nothing wraps.\<close>

lemma new_terms:
  assumes "price_ok p" and "valid_rate r"
    and "Order_PriceCents d = p" "Order_CommissionRateBps d = r" "Order_PlatformFeeCents d = commissionFee p r"
      "Order_SellerNetCents d = wrap64 (p - commissionFee p r)"
  shows "terms_ok d"
proof -
  from assms(1) have p: "0 \<le> p" "p < 2 ^ 63" by (simp_all add: price_ok_def)
  have "wrap64 (p - commissionFee p r) = p - commissionFee p r"
    by (rule wrap64_id) (use commissionFee_bounds [OF p assms(2)] p in \<open>simp add: in_int64_def\<close>)
  with assms show ?thesis by (simp add: terms_ok_def)
qed

lemma CreateOrder_implements:
  assumes "Order_Status ord = OrderPendingPayment"
  shows "implements pre (repo_CreateOrder ord)"
  unfolding repo_CreateOrder_def
  apply (rule implementsI)
  subgoal premises p for t x t'
  proof -
    from p(1) obtain it c where it: "lookup Item_ID (items t) (Order_ItemID ord) = Some it"
      and st: "Item_Status it = ItemPublished" "Item_ReservedOrderID it = None"
      and c: "find (\<lambda>c. Category_ID c = Item_CategoryID it \<and> Category_Status c = StatusActive) (categories t) = Some c"
      and x: "x = ord\<lparr>Order_SellerRootUserID := Item_SellerRootUserID it, Order_PriceCents := Item_PriceCents it,
          Order_CommissionRateBps := Category_CommissionRateBps c,
          Order_PlatformFeeCents := commissionFee (Item_PriceCents it) (Category_CommissionRateBps c),
          Order_SellerNetCents := wrap64 (Item_PriceCents it - commissionFee (Item_PriceCents it) (Category_CommissionRateBps c))\<rparr>"
      and t': "t' = orders_update (\<lambda>rows. rows @ [x])
        (items_update (update_rows (\<lambda>i. Item_ID i = Item_ID it \<and> Item_Status i = ItemPublished \<and>
          Item_ReservedOrderID i = None) (reserve_item_row x)) t)"
      and ok: "orders_ok (orders t @ [x])" "items_ok (items t')"
      by (auto dest!: outcome_bind_Inr simp: run_simps find_key Let_def reserve_item_row_def)
    from it have key: "Item_ID it = Order_ItemID ord" by (rule key_of)
    have "valid_rate (Category_CommissionRateBps c)"
      using p(2) find_member [OF c] by (auto simp: market_inv_def rates_ok_def list_all_iff)
    then have terms: "terms_ok x"
      by (rule new_terms [OF item_price [OF p(2) it]]) (simp_all add: x)
    have xs: "Order_ItemID x = Order_ItemID ord" "Order_Status x = OrderPendingPayment"
      "Order_PriceCents x = Item_PriceCents it" using assms by (simp_all add: x)
    have fresh: "lookup Order_ID (orders t) (Order_ID x) = None"
      "lookup Order_ID (orders t @ [x]) = (lookup Order_ID (orders t))(Order_ID x \<mapsto> x)"
      using ok(1) by (auto simp: orders_ok_def intro!: lookup_fresh lookup_append_new)
    have "lookup Item_ID (update_rows (\<lambda>i. Item_ID i = Order_ItemID ord \<and> Item_Status i = ItemPublished \<and>
        Item_ReservedOrderID i = None) (reserve_item_row x) (items t))
      = (lookup Item_ID (items t))(Order_ItemID ord \<mapsto> reserve_item_row x it)"
      by (rule item_moved) (use it st in simp_all)
    then show ?thesis
      by (intro movesI [OF place_order [of "view t" x it "reserve_item_row x it"]])
        (use p(2) it st terms xs fresh ok key in
          \<open>simp_all add: t' market_inv_def keys_ok_def\<close>)
  qed
  done

section \<open>Payments\<close>

definition payment_for :: "payment \<Rightarrow> market_db \<Rightarrow> bool" where
  "payment_for p t \<longleftrightarrow> Payment_Status p = RecordPending \<and>
     (case lookup Order_ID (orders t) (Payment_OrderID p) of
        None \<Rightarrow> True | Some d \<Rightarrow> Payment_AmountCents p = Order_PriceCents d)"

lemma CreateOrFindPayment_implements: "implements (payment_for pay) (CreateOrFindPayment pay)"
  unfolding CreateOrFindPayment_def
  apply (rule implementsI)
  subgoal premises p for t x t'
  proof -
    from p(1) obtain d where d: "lookup Order_ID (orders t) (Payment_OrderID pay) = Some d"
      and st: "Order_Status d = OrderPendingPayment"
      and t': "t' = t \<or> payments_ok (payments t @ [pay]) \<and> t' = payments_update (\<lambda>rows. rows @ [pay]) t"
      by (auto dest!: outcome_bind_Inr outcome_find_row simp: run_simps find_key split: option.splits)
    from t' show ?thesis
    proof
      assume new: "payments_ok (payments t @ [pay]) \<and> t' = payments_update (\<lambda>rows. rows @ [pay]) t"
      then have fresh: "lookup Payment_ID (payments t) (Payment_ID pay) = None"
        "lookup Payment_ID (payments t @ [pay]) = (lookup Payment_ID (payments t))(Payment_ID pay \<mapsto> pay)"
        by (auto simp: payments_ok_def intro!: lookup_fresh lookup_append_new)
      show ?thesis
        by (rule movesI [OF open_payment [of "view t" pay d]])
          (use p(2,3) d st new fresh in \<open>simp_all add: payment_for_def market_inv_def keys_ok_def\<close>)
    qed (simp add: moves_idle p(2))
  qed
  done

text \<open>A method of one UPDATE statement.\<close>

lemma single_update_implements:
  assumes k: "\<And>n I. keeps I (k n)"
    and step: "\<And>t. market_inv t \<Longrightarrow> pre t \<Longrightarrow> ok (update_rows P f (tab t)) \<Longrightarrow> moves t (upd (update_rows P f) t)"
  shows "implements pre (bind gormDB (\<lambda>_. bind (update_where tab upd ok P f) k))"
  unfolding implements_def
proof (intro allI impI)
  fix t r t' assume run: "outcome (bind gormDB (\<lambda>_. bind (update_where tab upd ok P f) k)) t r t'"
    and inv: "market_inv t" "pre t"
  then have "t' = t \<or> ok (update_rows P f (tab t)) \<and> t' = upd (update_rows P f) t"
    by (elim outcome_bindE) (auto simp: run_simps dest!: keepsD [OF k [of "\<lambda>s. s = upd (update_rows P f) t"]])
  with inv step show "moves t t'" by (auto intro: moves_idle)
qed

lemma row_update_cases:
  assumes "\<And>r. key (f r) = key r"
  obtains r where "lookup key rows k = Some r" "Q r"
      "lookup key (update_rows (\<lambda>r. key r = k \<and> Q r) f rows) = (lookup key rows)(k \<mapsto> f r)"
    | "lookup key (update_rows (\<lambda>r. key r = k \<and> Q r) f rows) = lookup key rows"
proof (cases "\<exists>r. lookup key rows k = Some r \<and> Q r")
  case True
  then obtain r where r: "lookup key rows k = Some r" "Q r" by blast
  then have "key r = k" by (auto dest: lookup_SomeD)
  with assms r show ?thesis by (intro that(1) lookup_update_at) auto
next
  case False
  with assms show ?thesis by (intro that(2) lookup_update_skip) auto
qed

lemma AttachPaymentTransaction_implements: "implements pre (AttachPaymentTransaction pid tx now)"
  unfolding AttachPaymentTransaction_def
proof (rule single_update_implements)
  let ?Q = "\<lambda>p. Payment_GatewayTransactionID p = None \<or> Payment_GatewayTransactionID p = Some tx"
  let ?rows = "update_rows (\<lambda>p. Payment_ID p = pid \<and> ?Q p) (attach_payment_row tx now)"
  fix t assume inv: "market_inv t" and ok: "payments_ok (?rows (payments t))"
  show "moves t (payments_update ?rows t)"
  proof (rule row_update_cases [of Payment_ID "attach_payment_row tx now" "payments t" pid ?Q])
    fix p assume p: "lookup Payment_ID (payments t) pid = Some p"
      and "lookup Payment_ID (?rows (payments t)) = (lookup Payment_ID (payments t))(pid \<mapsto> attach_payment_row tx now p)"
    then show ?thesis
      by (intro movesI [OF attach_transaction [of "view t" pid p "attach_payment_row tx now p"]])
        (use inv ok in \<open>simp_all add: market_inv_def keys_ok_def\<close>)
  next
    assume "lookup Payment_ID (?rows (payments t)) = lookup Payment_ID (payments t)"
    then show ?thesis
      by (intro movesI [OF idle]) (use inv ok in \<open>simp_all add: market_inv_def keys_ok_def\<close>)
  qed simp
qed blast

lemma payment_status:
  assumes "market_inv t" and "p \<in> set (payments t)" and "Payment_Status p \<noteq> RecordSucceeded"
  shows "Payment_Status p = RecordPending \<and> lookup Payment_ID (payments t) (Payment_ID p) = Some p"
proof -
  have look: "lookup Payment_ID (payments t) (Payment_ID p) = Some p"
    using assms(1,2) by (intro lookup_member) (auto simp: market_inv_def keys_okD)
  from assms(1) have "pays_part (vorder (view t)) (vpay (view t))"
    by (auto simp: market_inv_def elim: view_invE)
  from pays_partD(1) [OF this, of "Payment_ID p" p] look assms(3) show ?thesis by (auto simp: pay_fits_def)
qed

lemma pay_moves:
  assumes inv: "market_inv t" and pay: "pay \<in> set (payments t)" "Payment_Status pay \<noteq> RecordSucceeded"
    and d: "lookup Order_ID (orders t) (Payment_OrderID pay) = Some d" "Order_Status d = OrderPendingPayment"
    and t': "t' = orders_update (update_rows (\<lambda>d. Order_ID d = Payment_OrderID pay \<and>
          Order_Status d = OrderPendingPayment) (pay_order_row now))
        (payments_update (update_rows (\<lambda>p. Payment_ID p = Payment_ID pay \<and> Payment_Status p = RecordPending)
          (succeed_payment_row tx now)) t)"
    and ok: "payments_ok (payments t')" "orders_ok (orders t')"
  shows "moves t t'"
proof -
  have pending: "Payment_Status pay = RecordPending" "lookup Payment_ID (payments t) (Payment_ID pay) = Some pay"
    using payment_status [OF inv pay] by simp_all
  have "lookup Payment_ID (update_rows (\<lambda>p. Payment_ID p = Payment_ID pay \<and> Payment_Status p = RecordPending)
      (succeed_payment_row tx now) (payments t))
    = (lookup Payment_ID (payments t))(Payment_ID pay \<mapsto> succeed_payment_row tx now pay)"
    by (rule lookup_update_at) (use pending in simp_all)
  then show ?thesis
    by (intro movesI [OF Marketplace_Spec.pay [of "view t" "Payment_ID pay" pay d
          "succeed_payment_row tx now pay" "pay_order_row now d"]])
      (use inv d pending ok in \<open>simp_all add: t' order_moved market_inv_def keys_ok_def\<close>)
qed

lemma ApplyPaymentCallback_implements: "implements pre (ApplyPaymentCallback req tx amount now)"
  unfolding ApplyPaymentCallback_def
  apply (rule implementsI)
  subgoal premises p for t x t'
  proof -
    from p(1) obtain pay where pay: "find (\<lambda>p. Payment_RequestID p = req) (payments t) = Some pay"
      by (auto dest!: outcome_bind_Inr simp: run_simps)
    then have mem: "pay \<in> set (payments t)" by (auto dest: find_member)
    show ?thesis
    proof (cases "Payment_Status pay = RecordSucceeded")
      case True
      with p(1,2) pay show ?thesis
        by (auto dest!: outcome_bind_Inr load_order_same simp: run_simps intro!: moves_idle)
    next
      case False
      with p(1) pay obtain d where d: "lookup Order_ID (orders t) (Payment_OrderID pay) = Some d"
        and rest: "Order_Status d = OrderPendingPayment"
          "t' = orders_update (update_rows (\<lambda>e. Order_ID e = Order_ID d \<and>
              Order_Status e = OrderPendingPayment) (pay_order_row now))
            (payments_update (update_rows (\<lambda>p. Payment_ID p = Payment_ID pay \<and> Payment_Status p = RecordPending)
              (succeed_payment_row tx now)) t)"
          "payments_ok (payments t')" "orders_ok (orders t')"
        by (auto dest!: outcome_bind_Inr load_order_same simp: run_simps find_key)
      from key_of(2) [OF d] rest show ?thesis
        by (intro pay_moves [OF p(2) mem False d rest(1)]) simp_all
    qed
  qed
  done


section \<open>Refunds and disputes\<close>

lemma CreateRefund_implements:
  assumes "Refund_Status rf = RecordPending"
  shows "implements pre (repo_CreateRefund rf)"
  unfolding repo_CreateRefund_def
  apply (rule implementsI)
  subgoal premises p for t x t'
  proof -
    from p(1) obtain d where d: "lookup Order_ID (orders t) (Refund_OrderID rf) = Some d"
      and st: "Order_Status d \<in> {OrderPaid, OrderDelivered}"
      and x: "x = rf\<lparr>Refund_AmountCents := Order_PriceCents d\<rparr>"
      and t': "t' = refunds_update (\<lambda>rows. rows @ [x]) t" and ok: "refunds_ok (refunds t @ [x])"
      by (auto dest!: outcome_bind_Inr simp: run_simps find_key Let_def)
    have fresh: "lookup Refund_ID (refunds t) (Refund_ID x) = None"
      "lookup Refund_ID (refunds t @ [x]) = (lookup Refund_ID (refunds t))(Refund_ID x \<mapsto> x)"
      using ok by (auto simp: refunds_ok_def intro!: lookup_fresh lookup_append_new)
    have "Refund_OrderID s \<noteq> Refund_OrderID x" if "lookup Refund_ID (refunds t) j = Some s" for j s
      using ok lookup_SomeD [OF that] by (auto simp: refunds_ok_def image_iff)
    then show ?thesis
      by (intro movesI [OF request_refund [of "view t" x d]])
        (use p(2) assms d st ok fresh in \<open>auto simp: t' x market_inv_def keys_ok_def\<close>)
  qed
  done

lemma pending_refund_order:
  assumes "market_inv t" and "lookup Refund_ID (refunds t) k = Some r" and "Refund_Status r = RecordPending"
  shows "\<exists>d. lookup Order_ID (orders t) (Refund_OrderID r) = Some d \<and> Order_Status d \<in> {OrderPaid, OrderDelivered}"
proof -
  from assms(1) have "refunds_part (vorder (view t)) (vrefund (view t))"
    by (auto simp: market_inv_def elim: view_invE)
  from refunds_partD(2) [OF this, of k r] assms(2,3) show ?thesis by (auto simp: refund_fits_def)
qed

text \<open>An order is refunded: its row, and the item that leaves the market.\<close>

lemma taken_rows:
  assumes "market_inv t" and "lookup Order_ID (orders t) k = Some d"
  obtains i where "lookup Item_ID (items t) (Order_ItemID d) = Some i"
    "lookup Item_ID (update_rows (\<lambda>i. Item_ID i = Order_ItemID d) (take_item_row now) (items t)) =
       (lookup Item_ID (items t))(Order_ItemID d \<mapsto> take_item_row now i)"
proof -
  obtain i where i: "lookup Item_ID (items t) (Order_ItemID d) = Some i"
    using order_has_item [OF assms] by blast
  moreover from this have "Item_ID i = Order_ItemID d" by (rule key_of)
  ultimately show ?thesis by (intro that [of i] lookup_update_at) simp_all
qed

lemma decided_rows:
  assumes "lookup Refund_ID rows k = Some r" and "Refund_Status r = RecordPending"
  shows "lookup Refund_ID (update_rows (\<lambda>r. Refund_ID r = k \<and> Refund_Status r = RecordPending)
      (decide_refund_row a b g now) rows) = (lookup Refund_ID rows)(k \<mapsto> decide_refund_row a b g now r)"
  by (rule lookup_update_at) (use assms in \<open>auto dest: key_of\<close>)

lemma approve_moves:
  assumes inv: "market_inv t" and r: "lookup Refund_ID (refunds t) k = Some r" "Refund_Status r = RecordPending"
    and d: "lookup Order_ID (orders t) (Refund_OrderID r) = Some d"
    and t': "t' = refunds_update (update_rows (\<lambda>r. Refund_ID r = k \<and> Refund_Status r = RecordPending)
          (decide_refund_row a True g now))
        (items_update (update_rows (\<lambda>i. Item_ID i = Order_ItemID d) (take_item_row now))
        (orders_update (update_rows (\<lambda>e. Order_ID e = Refund_OrderID r \<and>
            Order_Status e \<in> {OrderPaid, OrderDelivered, OrderDisputed}) (refund_order_row now)) t))"
    and ok: "keys_ok t'"
  shows "moves t t'"
proof -
  have st: "Order_Status d \<in> {OrderPaid, OrderDelivered}" using pending_refund_order [OF inv r] d by auto
  then have "lookup Order_ID (update_rows (\<lambda>e. Order_ID e = Refund_OrderID r \<and>
      Order_Status e \<in> {OrderPaid, OrderDelivered, OrderDisputed}) (refund_order_row now) (orders t)) =
    (lookup Order_ID (orders t))(Refund_OrderID r \<mapsto> refund_order_row now d)"
    by (intro order_moved) (use d in auto)
  moreover obtain i where "lookup Item_ID (items t) (Order_ItemID d) = Some i"
    "lookup Item_ID (update_rows (\<lambda>i. Item_ID i = Order_ItemID d) (take_item_row now) (items t)) =
       (lookup Item_ID (items t))(Order_ItemID d \<mapsto> take_item_row now i)"
    using taken_rows [OF inv d] by blast
  ultimately show ?thesis
    using inv r d st ok
    by (intro movesI [OF approve_refund [of "view t" k r "decide_refund_row a True g now r" d
          "refund_order_row now d" i "take_item_row now i"]])
      (simp_all add: t' decided_rows)
qed

lemma DecideRefund_implements: "implements pre (repo_DecideRefund rid admin approved g now)"
  unfolding repo_DecideRefund_def
  apply (rule implementsI)
  subgoal premises p for t x t'
  proof -
    from p(1) obtain r d where r: "lookup Refund_ID (refunds t) rid = Some r" "Refund_Status r = RecordPending"
      and d: "lookup Order_ID (orders t) (Refund_OrderID r) = Some d"
      by (auto dest!: outcome_bind_Inr simp: run_simps find_key)
    have key: "Refund_ID r = rid" "Order_ID d = Refund_OrderID r" using r(1) d by (auto dest: key_of)
    show ?thesis
    proof (cases approved)
      case True
      with p(1) r d key have "t' = refunds_update (update_rows (\<lambda>r. Refund_ID r = rid \<and> Refund_Status r = RecordPending)
          (decide_refund_row admin True g now))
        (items_update (update_rows (\<lambda>i. Item_ID i = Order_ItemID d) (take_item_row now))
        (orders_update (update_rows (\<lambda>e. Order_ID e = Refund_OrderID r \<and>
            Order_Status e \<in> {OrderPaid, OrderDelivered, OrderDisputed}) (refund_order_row now)) t))"
        "refunds_ok (refunds t')" "items_ok (items t')" "orders_ok (orders t')"
        by (auto dest!: outcome_bind_Inr load_order_same simp: run_simps find_key withdraw_refunded_def)
      then show ?thesis
        using p(2) by (intro approve_moves [OF p(2) r d]) (auto simp: market_inv_def keys_ok_def)
    next
      case False
      with p(1) r d key have t': "t' = refunds_update (update_rows (\<lambda>r. Refund_ID r = rid \<and>
          Refund_Status r = RecordPending) (decide_refund_row admin False g now)) t"
        and ok: "refunds_ok (refunds t')"
        by (auto dest!: outcome_bind_Inr load_order_same simp: run_simps find_key)
      show ?thesis
        by (rule movesI [OF reject_refund [of "view t" rid r "decide_refund_row admin False g now r"]])
          (use p(2) r ok in \<open>simp_all add: t' decided_rows market_inv_def keys_ok_def\<close>)
    qed
  qed
  done

lemma CreateDispute_implements:
  assumes "Dispute_Status dsp = DisputePending"
  shows "implements pre (repo_CreateDispute dsp now)"
  unfolding repo_CreateDispute_def
  apply (rule implementsI)
  subgoal premises p for t x t'
  proof -
    from p(1) obtain d where d: "lookup Order_ID (orders t) (Dispute_OrderID dsp) = Some d"
      and st: "Order_Status d \<in> {OrderPaid, OrderDelivered}"
      and quiet: "length (filter (pending_refund_of (Order_ID d)) (refunds t)) = 0"
      and x: "x = dsp\<lparr>Dispute_PreviousOrderStatus := Order_Status d\<rparr>"
      and t': "t' = orders_update (update_rows (\<lambda>e. Order_ID e = Order_ID d \<and> Order_Status e = Order_Status d)
          (dispute_order_row now)) (disputes_update (\<lambda>rows. rows @ [x]) t)"
      and ok: "disputes_ok (disputes t @ [x])" "orders_ok (orders t')"
      by (auto dest!: outcome_bind_Inr simp: run_simps find_key Let_def)
    have key: "Order_ID d = Dispute_OrderID dsp" using d by (rule key_of)
    have fresh: "lookup Dispute_ID (disputes t) (Dispute_ID x) = None"
      "lookup Dispute_ID (disputes t @ [x]) = (lookup Dispute_ID (disputes t))(Dispute_ID x \<mapsto> x)"
      using ok(1) by (auto simp: disputes_ok_def intro!: lookup_fresh lookup_append_new)
    have "Dispute_OrderID y \<noteq> Dispute_OrderID x" if "lookup Dispute_ID (disputes t) j = Some y" for j y
      using ok(1) lookup_SomeD [OF that] by (auto simp: disputes_ok_def image_iff)
    moreover have "\<forall>j r. vrefund (view t) j = Some r \<longrightarrow> Refund_OrderID r = Dispute_OrderID x \<longrightarrow>
        Refund_Status r \<noteq> RecordPending"
      using quiet by (auto simp: pending_refund_of_def filter_empty_conv key x dest: lookup_SomeD)
    ultimately show ?thesis
      by (intro movesI [OF open_dispute [of "view t" x d "dispute_order_row now d"]])
        (use p(2) assms d st ok fresh key in \<open>auto simp: t' x order_moved market_inv_def keys_ok_def\<close>)
  qed
  done


lemma dispute_refund_sel [simp]:
  "Refund_ID (dispute_refund ord dsp rf g a now) = Refund_ID rf"
  "Refund_OrderID (dispute_refund ord dsp rf g a now) = Order_ID ord"
  "Refund_AmountCents (dispute_refund ord dsp rf g a now) = Order_PriceCents ord"
  "Refund_Status (dispute_refund ord dsp rf g a now) = RecordSucceeded"
  by (simp_all add: dispute_refund_def)

lemma closed_rows:
  assumes "lookup Dispute_ID rows k = Some x" and "Dispute_Status x = DisputePending"
  shows "lookup Dispute_ID (update_rows (\<lambda>x. Dispute_ID x = k \<and> Dispute_Status x = DisputePending)
      (close_dispute_row c e a now) rows) = (lookup Dispute_ID rows)(k \<mapsto> close_dispute_row c e a now x)"
  by (rule lookup_update_at) (use assms in \<open>auto dest: key_of\<close>)

text \<open>The refund row of a decided dispute is stored, or the order already has a row.\<close>

lemma ignored_refund:
  assumes "t1 = (if refunds_ok (refunds t @ [r]) then refunds_update (\<lambda>rows. rows @ [r]) t else t)"
  shows "lookup Refund_ID (refunds t1) = lookup Refund_ID (refunds t)
    \<or> lookup Refund_ID (refunds t) (Refund_ID r) = None \<and>
      lookup Refund_ID (refunds t1) = (lookup Refund_ID (refunds t))(Refund_ID r \<mapsto> r) \<and>
      (\<forall>j s. lookup Refund_ID (refunds t) j = Some s \<longrightarrow> Refund_OrderID s \<noteq> Refund_OrderID r)"
proof (cases "refunds_ok (refunds t @ [r])")
  case True
  then have "Refund_OrderID s \<noteq> Refund_OrderID r" if "lookup Refund_ID (refunds t) j = Some s" for j s
    using lookup_SomeD [OF that] by (auto simp: refunds_ok_def image_iff)
  moreover have "lookup Refund_ID (refunds t) (Refund_ID r) = None"
    "lookup Refund_ID (refunds t @ [r]) = (lookup Refund_ID (refunds t))(Refund_ID r \<mapsto> r)"
    using True by (auto simp: refunds_ok_def intro!: lookup_fresh lookup_append_new)
  ultimately show ?thesis using True assms by simp
qed (simp add: assms)

lemma refund_disputed_moves:
  assumes inv: "market_inv t" and x: "lookup Dispute_ID (disputes t) k = Some x" "Dispute_Status x = DisputePending"
    and d: "lookup Order_ID (orders t) (Dispute_OrderID x) = Some d" "Order_Status d = OrderDisputed"
    and t1: "t1 = (if refunds_ok (refunds t @ [dispute_refund d x rf g a now])
        then refunds_update (\<lambda>rows. rows @ [dispute_refund d x rf g a now]) t else t)"
    and t': "t' = disputes_update (update_rows (\<lambda>x. Dispute_ID x = k \<and> Dispute_Status x = DisputePending)
          (close_dispute_row ''refund'' e a now))
        (orders_update (update_rows (\<lambda>e. Order_ID e = Dispute_OrderID x \<and> Order_Status e = OrderDisputed)
          (resolve_order_row OrderRefunded now))
        (items_update (update_rows (\<lambda>i. Item_ID i = Order_ItemID d) (take_item_row now)) t1))"
    and ok: "keys_ok t'"
  shows "moves t t'"
proof -
  have same: "items t1 = items t" "orders t1 = orders t" "disputes t1 = disputes t" "payments t1 = payments t"
    "settlements t1 = settlements t" "categories t1 = categories t" by (simp_all add: t1)
  have key: "Order_ID d = Dispute_OrderID x" using d(1) by (rule key_of)
  obtain i where i: "lookup Item_ID (items t) (Order_ItemID d) = Some i"
    "lookup Item_ID (update_rows (\<lambda>i. Item_ID i = Order_ItemID d) (take_item_row now) (items t)) =
       (lookup Item_ID (items t))(Order_ItemID d \<mapsto> take_item_row now i)"
    using taken_rows [OF inv d(1)] by blast
  have v1: "view t1 = (view t)\<lparr>vrefund := lookup Refund_ID (refunds t1)\<rparr>"
    using same by (simp add: view_def)
  have row: "lookup Refund_ID (refunds t1) = vrefund (view t) \<or>
      (\<exists>r. vrefund (view t) (Refund_ID r) = None \<and> lookup Refund_ID (refunds t1) = (vrefund (view t))(Refund_ID r \<mapsto> r) \<and>
        Refund_OrderID r = Dispute_OrderID x \<and> Refund_Status r = RecordSucceeded \<and>
        Refund_AmountCents r = Order_PriceCents d \<and>
        (\<forall>j s. vrefund (view t) j = Some s \<longrightarrow> Refund_OrderID s \<noteq> Refund_OrderID r))"
    using ignored_refund [OF t1]
  proof
    assume "lookup Refund_ID (refunds t) (Refund_ID (dispute_refund d x rf g a now)) = None \<and>
      lookup Refund_ID (refunds t1) = (lookup Refund_ID (refunds t))
        (Refund_ID (dispute_refund d x rf g a now) \<mapsto> dispute_refund d x rf g a now) \<and>
      (\<forall>j s. lookup Refund_ID (refunds t) j = Some s \<longrightarrow>
        Refund_OrderID s \<noteq> Refund_OrderID (dispute_refund d x rf g a now))"
    then show ?thesis using key by (intro disjI2 exI [of _ "dispute_refund d x rf g a now"]) simp
  qed simp
  have "spec_step (view t) ((view t)\<lparr>vdispute := (vdispute (view t))(k \<mapsto> close_dispute_row ''refund'' e a now x),
      vorder := (vorder (view t))(Dispute_OrderID x \<mapsto> resolve_order_row OrderRefunded now d),
      vitem := (vitem (view t))(Order_ItemID d \<mapsto> take_item_row now i), vrefund := lookup Refund_ID (refunds t1)\<rparr>)"
    by (rule refund_disputed [where d = d and i = i])
      (use x d i(1) row in simp_all)
  then show ?thesis
    by (rule movesI) (use inv ok i x d same in \<open>simp_all add: t' v1 order_moved closed_rows\<close>)
qed

lemma ResolveDispute_implements: "implements pre (repo_ResolveDispute did admin action res g rf now)"
  unfolding repo_ResolveDispute_def
  apply (rule implementsI)
  subgoal premises p for t y t'
  proof -
    from p(1) obtain x d
      where "find (\<lambda>d. Dispute_ID d = did \<and> Dispute_Status d = DisputePending) (disputes t) = Some x"
      and "find (\<lambda>d. Order_ID d = Dispute_OrderID x \<and> Order_Status d = OrderDisputed) (orders t) = Some d"
      by (auto dest!: outcome_bind_Inr simp: run_simps)
    note found = this
    have key: "Dispute_ID x = did" "Order_ID d = Dispute_OrderID x"
      and x: "lookup Dispute_ID (disputes t) did = Some x" "Dispute_Status x = DisputePending"
      and d: "lookup Order_ID (orders t) (Dispute_OrderID x) = Some d" "Order_Status d = OrderDisputed"
      using find_lookup [OF _ found(1), of Dispute_ID] find_lookup [OF _ found(2), of Order_ID] p(2)
      by (auto simp: market_inv_def keys_okD)
    show ?thesis
    proof (cases "action = ''refund''")
      case True
      with p(1) found key obtain t1 where
        t1: "t1 = (if refunds_ok (refunds t @ [dispute_refund d x rf g admin now])
          then refunds_update (\<lambda>rows. rows @ [dispute_refund d x rf g admin now]) t else t)" and
        t': "t' = disputes_update (update_rows (\<lambda>x. Dispute_ID x = did \<and> Dispute_Status x = DisputePending)
          (close_dispute_row ''refund'' res admin now))
        (orders_update (update_rows (\<lambda>e. Order_ID e = Dispute_OrderID x \<and> Order_Status e = OrderDisputed)
          (resolve_order_row OrderRefunded now))
        (items_update (update_rows (\<lambda>i. Item_ID i = Order_ItemID d) (take_item_row now)) t1))"
        and ok: "disputes_ok (disputes t')" "orders_ok (orders t')" "items_ok (items t')"
        by (auto dest!: outcome_bind_Inr load_order_same simp: run_simps withdraw_refunded_def)
      have "keys_ok t'" using p(2) ok by (auto simp: t' t1 market_inv_def keys_ok_def split: if_splits)
      with t1 t' show ?thesis by (intro refund_disputed_moves [OF p(2) x d t1])
    next
      case False
      with p(1) found key have
        t': "t' = disputes_update (update_rows (\<lambda>x. Dispute_ID x = did \<and> Dispute_Status x = DisputePending)
          (close_dispute_row action res admin now))
        (orders_update (update_rows (\<lambda>e. Order_ID e = Dispute_OrderID x \<and> Order_Status e = OrderDisputed)
          (resolve_order_row (Dispute_PreviousOrderStatus x) now)) t)"
        and ok: "disputes_ok (disputes t')" "orders_ok (orders t')"
        by (auto dest!: outcome_bind_Inr load_order_same simp: run_simps)
      show ?thesis
        by (rule movesI [OF resume_disputed [of "view t" did x d
              "resolve_order_row (Dispute_PreviousOrderStatus x) now d" "close_dispute_row action res admin now x"]])
          (use p(2) x d ok False in \<open>simp_all add: t' order_moved closed_rows market_inv_def keys_ok_def\<close>)
    qed
  qed
  done

section \<open>Items, settlements, categories\<close>

lemma CreateItem_implements:
  assumes "Item_Status it \<in> {ItemDraft, ItemPublished}" and "Item_ReservedOrderID it = None"
    and "price_ok (Item_PriceCents it)"
  shows "implements pre (repo_CreateItem it)"
  unfolding implements_def
proof (intro allI impI)
  fix t r t' assume run: "outcome (repo_CreateItem it) t r t'" and inv: "market_inv t"
  from run have "t' = t \<or> items_ok (items t @ [it]) \<and> t' = items_update (\<lambda>rows. rows @ [it]) t"
    unfolding repo_CreateItem_def by (elim outcome_bindE; cases r) (auto simp: run_simps)
  then show "moves t t'"
  proof
    assume new: "items_ok (items t @ [it]) \<and> t' = items_update (\<lambda>rows. rows @ [it]) t"
    then have "lookup Item_ID (items t) (Item_ID it) = None"
      "lookup Item_ID (items t @ [it]) = (lookup Item_ID (items t))(Item_ID it \<mapsto> it)"
      by (auto simp: items_ok_def intro!: lookup_fresh lookup_append_new)
    then show ?thesis
      by (intro movesI [OF list_item [of "view t" it]])
        (use inv assms new in \<open>simp_all add: market_inv_def keys_ok_def\<close>)
  qed (simp add: moves_idle inv)
qed

text \<open>
  An edit carries a status the seller chose, or the status the item had when it was read: then the
  guard of the statement lets it through only if that status is draft or published.
\<close>

definition item_edit_ok :: "item \<Rightarrow> market_db \<Rightarrow> bool" where
  "item_edit_ok it t \<longleftrightarrow> price_ok (Item_PriceCents it) \<and>
     (Item_Status it \<in> {ItemDraft, ItemPublished}
      \<or> (case lookup Item_ID (items t) (Item_ID it) of None \<Rightarrow> True | Some i \<Rightarrow> Item_Status i = Item_Status it))"

lemma UpdateItem_implements: "implements (item_edit_ok it) (repo_UpdateItem it owner)"
  unfolding repo_UpdateItem_def
proof (rule single_update_implements)
  let ?Q = "\<lambda>i. Item_SellerRootUserID i = owner \<and> Item_Status i \<in> {ItemDraft, ItemPublished}"
  let ?rows = "update_rows (\<lambda>i. Item_ID i = Item_ID it \<and> ?Q i) (edit_item_row it)"
  fix t assume inv: "market_inv t" and pre: "item_edit_ok it t" and ok: "items_ok (?rows (items t))"
  show "moves t (items_update ?rows t)"
  proof (rule row_update_cases [of Item_ID "edit_item_row it" "items t" "Item_ID it" ?Q])
    fix i assume i: "lookup Item_ID (items t) (Item_ID it) = Some i" "?Q i"
      and eq: "lookup Item_ID (?rows (items t)) = (lookup Item_ID (items t))(Item_ID it \<mapsto> edit_item_row it i)"
    from i pre have st: "Item_Status it \<in> {ItemDraft, ItemPublished}" "price_ok (Item_PriceCents it)"
      by (auto simp: item_edit_ok_def)
    with i eq show ?thesis
      by (intro movesI [OF edit_item [of "view t" "Item_ID it" i "edit_item_row it i"]])
        (use inv ok in \<open>simp_all add: market_inv_def keys_ok_def edit_item_row_def\<close>)
  next
    assume "lookup Item_ID (?rows (items t)) = lookup Item_ID (items t)"
    then show ?thesis
      by (intro movesI [OF idle]) (use inv ok in \<open>simp_all add: market_inv_def keys_ok_def\<close>)
  qed simp
qed blast

lemma WithdrawItem_implements: "implements pre (repo_WithdrawItem iid owner now)"
  unfolding repo_WithdrawItem_def
proof (rule single_update_implements)
  let ?Q = "\<lambda>i. Item_SellerRootUserID i = owner \<and> Item_Status i \<in> {ItemDraft, ItemPublished, ItemHidden}"
  let ?rows = "update_rows (\<lambda>i. Item_ID i = iid \<and> ?Q i) (withdraw_item_row now)"
  fix t assume inv: "market_inv t" and ok: "items_ok (?rows (items t))"
  show "moves t (items_update ?rows t)"
  proof (rule row_update_cases [of Item_ID "withdraw_item_row now" "items t" iid ?Q])
    fix i assume i: "lookup Item_ID (items t) iid = Some i" "?Q i"
      and "lookup Item_ID (?rows (items t)) = (lookup Item_ID (items t))(iid \<mapsto> withdraw_item_row now i)"
    then show ?thesis
      by (intro movesI [OF withdraw_item [of "view t" iid i "withdraw_item_row now i"]])
        (use inv ok in \<open>simp_all add: market_inv_def keys_ok_def\<close>)
  next
    assume "lookup Item_ID (?rows (items t)) = lookup Item_ID (items t)"
    then show ?thesis
      by (intro movesI [OF idle]) (use inv ok in \<open>simp_all add: market_inv_def keys_ok_def\<close>)
  qed simp
qed blast

lemma UpdateSettlement_implements: "implements pre (UpdateSettlement sid status g now)"
  unfolding UpdateSettlement_def
proof (rule single_update_implements)
  let ?Q = "\<lambda>s. Settlement_Status s \<in> {RecordPending, RecordFailed}"
  let ?rows = "update_rows (\<lambda>s. Settlement_ID s = sid \<and> ?Q s) (settlement_row status g now)"
  fix t assume inv: "market_inv t" and ok: "settlements_ok (?rows (settlements t))"
  show "moves t (settlements_update ?rows t)"
  proof (rule row_update_cases [of Settlement_ID "settlement_row status g now" "settlements t" sid ?Q])
    fix s assume s: "lookup Settlement_ID (settlements t) sid = Some s" "?Q s"
      and "lookup Settlement_ID (?rows (settlements t)) =
        (lookup Settlement_ID (settlements t))(sid \<mapsto> settlement_row status g now s)"
    then show ?thesis
      by (intro movesI [OF update_settlement [of "view t" sid s "settlement_row status g now s"]])
        (use inv ok in \<open>auto simp: market_inv_def keys_ok_def\<close>)
  next
    assume "lookup Settlement_ID (?rows (settlements t)) = lookup Settlement_ID (settlements t)"
    then show ?thesis
      by (intro movesI [OF idle]) (use inv ok in \<open>simp_all add: market_inv_def keys_ok_def\<close>)
  qed simp
qed blast


lemma hidden_rows:
  assumes "lookup Item_ID (items t) k = Some i"
  shows "lookup Item_ID (update_rows (\<lambda>i. Item_ID i = k) (hide_item_row now) (items t)) =
    (lookup Item_ID (items t))(k \<mapsto> hide_item_row now i)"
  by (rule lookup_update_at) (use assms in \<open>auto dest: key_of\<close>)

lemma hide_moves:
  assumes "market_inv t" and "lookup Item_ID (items t) k = Some i"
    and "t' = items_update (update_rows (\<lambda>i. Item_ID i = k) (hide_item_row now)) t" and "items_ok (items t')"
  shows "moves t t'"
  by (rule movesI [OF hide_item [of "view t" k i "hide_item_row now i"]])
    (use assms in \<open>simp_all add: hidden_rows market_inv_def keys_ok_def\<close>)

lemma hide_reserved_moves:
  assumes inv: "market_inv t" and i: "lookup Item_ID (items t) k = Some i"
    and st: "Item_Status i = ItemReserved" "Item_ReservedOrderID i = Some oid"
    and found: "find (\<lambda>d. Order_ID d = oid \<and> Order_Status d = OrderPendingPayment) (orders t) = Some d"
    and t': "t' = items_update (update_rows (\<lambda>i. Item_ID i = k) (hide_item_row now))
      (orders_update (update_rows (\<lambda>e. Order_ID e = Order_ID d \<and> Order_Status e = OrderPendingPayment)
        (cancel_order_row now)) t)"
    and ok: "items_ok (items t')" "orders_ok (orders t')"
  shows "moves t t'"
proof -
  have d: "lookup Order_ID (orders t) oid = Some d" "Order_ID d = oid" "Order_Status d = OrderPendingPayment"
    using find_lookup [OF _ found, of Order_ID] inv by (auto simp: market_inv_def keys_okD)
  show ?thesis
    by (rule movesI [OF hide_reserved [of "view t" k i oid d "hide_item_row now i" "cancel_order_row now d"]])
      (use inv i st d ok in \<open>simp_all add: t' hidden_rows order_moved market_inv_def keys_ok_def\<close>)
qed

lemma HideItem_implements: "implements pre (repo_HideItem iid now)"
  unfolding repo_HideItem_def
  apply (rule implementsI)
  subgoal premises p for t y t'
  proof -
    from p(1) obtain i where i: "lookup Item_ID (items t) iid = Some i"
      by (auto dest!: outcome_bind_Inr simp: run_simps find_key)
    show ?thesis
    proof (cases "Item_Status i = ItemReserved \<and> Item_ReservedOrderID i \<noteq> None")
      case False
      with p(1) i have "t' = items_update (update_rows (\<lambda>i. Item_ID i = iid) (hide_item_row now)) t"
        "items_ok (items t')"
        by (auto dest!: outcome_bind_Inr simp: run_simps find_key split: item_status.splits option.splits)
      then show ?thesis by (rule hide_moves [OF p(2) i])
    next
      case True
      then obtain oid where oid: "Item_Status i = ItemReserved" "Item_ReservedOrderID i = Some oid" by auto
      with p(1) i consider
          "t' = items_update (update_rows (\<lambda>i. Item_ID i = iid) (hide_item_row now)) t" "items_ok (items t')"
        | d where "find (\<lambda>d. Order_ID d = oid \<and> Order_Status d = OrderPendingPayment) (orders t) = Some d"
          "t' = items_update (update_rows (\<lambda>i. Item_ID i = iid) (hide_item_row now))
            (orders_update (update_rows (\<lambda>e. Order_ID e = Order_ID d \<and> Order_Status e = OrderPendingPayment)
              (cancel_order_row now)) t)"
          "items_ok (items t')" "orders_ok (orders t')"
        by (auto dest!: outcome_bind_Inr simp: run_simps find_key split: sum.splits)
      then show ?thesis
      proof cases
        case 1
        then show ?thesis by (rule hide_moves [OF p(2) i])
      next
        case 2
        then show ?thesis by (rule hide_reserved_moves [OF p(2) i oid])
      qed
    qed
  qed
  done

text \<open>
  gorm's \<open>Save\<close> stores the given row in place of the one with its key, or adds it: no other row
  appears.
\<close>

definition saves :: "(category \<Rightarrow> category list \<Rightarrow> db_err + category list) \<Rightarrow> bool" where
  "saves save \<longleftrightarrow> (\<forall>c rows rows'. save c rows = Inr rows' \<longrightarrow> set rows' \<subseteq> insert c (set rows))"

lemma SaveCategory_implements:
  assumes "saves save" and "valid_rate (Category_CommissionRateBps c)"
  shows "implements pre (repo_SaveCategory save c)"
  unfolding implements_def
proof (intro allI impI)
  fix t r t' assume run: "outcome (repo_SaveCategory save c) t r t'" and inv: "market_inv t"
  from run have "t' = t \<or> (\<exists>rows. save c (categories t) = Inr rows \<and> t' = t\<lparr>categories := rows\<rparr>)"
    unfolding repo_SaveCategory_def
    by (elim outcome_bindE; cases r) (auto simp: run_simps split: sum.splits)
  then show "moves t t'"
  proof
    assume "\<exists>rows. save c (categories t) = Inr rows \<and> t' = t\<lparr>categories := rows\<rparr>"
    then obtain rows where rows: "save c (categories t) = Inr rows" "t' = t\<lparr>categories := rows\<rparr>" by blast
    with assms(1) have "set rows \<subseteq> insert c (set (categories t))" by (auto simp: saves_def)
    with assms(2) inv have "rates_ok t'" by (auto simp: rows rates_ok_def market_inv_def list_all_iff)
    moreover have "view t' = view t" "keys_ok t'" using inv by (simp_all add: rows view_def market_inv_def keys_ok_def)
    ultimately show ?thesis by (simp add: moves_def idle)
  qed (simp add: moves_idle inv)
qed

end
