(* ===== verification/Marketplace_Resp.thy ===== *)
theory Marketplace_Resp
  imports Marketplace_Model
begin

text \<open>
  Requests and responses of the marketplace (\<open>model_req.go\<close>, \<open>model_resp.go\<close>), the payment gateway
  (\<open>gateway.go\<close>) and the checks on requests that need no database.
\<close>

section \<open>Status strings\<close>

definition item_status_string :: "item_status \<Rightarrow> string" where
  "item_status_string s = (case s of
     ItemDraft \<Rightarrow> ''draft'' | ItemPublished \<Rightarrow> ''published'' | ItemReserved \<Rightarrow> ''reserved''
   | ItemSold \<Rightarrow> ''sold'' | ItemWithdrawn \<Rightarrow> ''withdrawn'' | ItemHidden \<Rightarrow> ''hidden'')"

definition order_status_string :: "order_status \<Rightarrow> string" where
  "order_status_string s = (case s of
     OrderPendingPayment \<Rightarrow> ''pendingPayment'' | OrderPaid \<Rightarrow> ''paid'' | OrderDelivered \<Rightarrow> ''delivered''
   | OrderCompleted \<Rightarrow> ''completed'' | OrderCancelled \<Rightarrow> ''cancelled'' | OrderRefunded \<Rightarrow> ''refunded''
   | OrderDisputed \<Rightarrow> ''disputed'')"

definition record_status_string :: "record_status \<Rightarrow> string" where
  "record_status_string s = (case s of
     RecordPending \<Rightarrow> ''pending'' | RecordSucceeded \<Rightarrow> ''succeeded'' | RecordRejected \<Rightarrow> ''rejected''
   | RecordFailed \<Rightarrow> ''failed'')"

definition dispute_status_string :: "dispute_status \<Rightarrow> string" where
  "dispute_status_string s = (case s of
     DisputePending \<Rightarrow> ''pending'' | DisputeResolved \<Rightarrow> ''resolved'' | DisputeRejected \<Rightarrow> ''rejected'')"

lemma status_strings_inject:
  "item_status_string a = item_status_string b \<longleftrightarrow> a = b"
  "order_status_string c = order_status_string d \<longleftrightarrow> c = d"
  by (cases a; cases b; simp add: item_status_string_def)
    (cases c; cases d; simp add: order_status_string_def)

section \<open>Requests\<close>

record category_req =
  CategoryReq_Name :: string
  CategoryReq_CommissionRateBps :: "int option"

record item_req =
  ItemReq_CategoryID :: string
  ItemReq_Title :: string
  ItemReq_Description :: string
  ItemReq_Condition :: string
  ItemReq_PriceCents :: int64
  ItemReq_Images :: "string list"
  ItemReq_DeliveryLocation :: string
  ItemReq_Status :: string

record callback_req =
  CallbackReq_RequestID :: string
  CallbackReq_GatewayTransactionID :: string
  CallbackReq_AmountCents :: int64

record refund_req =
  RefundReq_RequestID :: string
  RefundReq_Reason :: string

record decision_req =
  DecisionReq_Action :: string
  DecisionReq_Resolution :: string

text \<open>
  The \<open>binding\<close> tags the handlers enforce before the service runs: a given commission rate lies
  between 0 and 10000 basis points.
\<close>

definition category_req_bound :: "category_req \<Rightarrow> bool" where
  "category_req_bound req \<longleftrightarrow>
     (case CategoryReq_CommissionRateBps req of None \<Rightarrow> True | Some r \<Rightarrow> 0 \<le> r \<and> r \<le> 10000)"

text \<open>The status a seller may ask for: empty means draft.\<close>

definition listing_status :: "string \<Rightarrow> item_status option" where
  "listing_status raw =
     (let status = TrimSpace raw
      in if status = [] \<or> status = ''draft'' then Some ItemDraft
         else if status = ''published'' then Some ItemPublished else None)"

text \<open>\<open>encoding/hex.DecodeString\<close>.\<close>

definition hex_value :: "char \<Rightarrow> nat option" where
  "hex_value c =
     (let n = of_char c :: nat
      in if 48 \<le> n \<and> n \<le> 57 then Some (n - 48)
         else if 97 \<le> n \<and> n \<le> 102 then Some (n - 87)
         else if 65 \<le> n \<and> n \<le> 70 then Some (n - 55) else None)"

fun hex_DecodeString :: "string \<Rightarrow> nat list option" where
  "hex_DecodeString [] = Some []"
| "hex_DecodeString [c] = None"
| "hex_DecodeString (c # d # cs) =
     (case (hex_value c, hex_value d, hex_DecodeString cs) of
        (Some h, Some l, Some bs) \<Rightarrow> Some ((16 * h + l) # bs)
      | _ \<Rightarrow> None)"

fun validateImages_loop :: "string list \<Rightarrow> market_error option" where
  "validateImages_loop [] = None"
| "validateImages_loop (img # rest) =
     (case hex_DecodeString (TrimSpace img) of
        None \<Rightarrow> Some (Param MImageReference)
      | Some decoded \<Rightarrow>
          if length decoded \<noteq> 16 then Some (Param MImageReference) else validateImages_loop rest)"

definition validateImages :: "string list \<Rightarrow> market_error option" where
  "validateImages images =
     (if length images = 0 \<or> length images > 9 then Some (Param MImageCount)
      else validateImages_loop images)"

lemma hex_DecodeString_length: "hex_DecodeString s = Some bs \<Longrightarrow> length s = 2 * length bs"
  by (induction s arbitrary: bs rule: hex_DecodeString.induct) (auto split: option.splits)

lemma hex_value_bound: "hex_value c = Some n \<Longrightarrow> n < 16"
  by (auto simp: hex_value_def Let_def split: if_splits)

lemma hex_DecodeString_bytes: "hex_DecodeString s = Some bs \<Longrightarrow> list_all (\<lambda>b. b < 256) bs"
  by (induction s arbitrary: bs rule: hex_DecodeString.induct)
    (auto split: option.splits dest!: hex_value_bound)

lemma hex_DecodeString_defined:
  "(\<exists>bs. hex_DecodeString s = Some bs) \<longleftrightarrow> even (length s) \<and> list_all (\<lambda>c. hex_value c \<noteq> None) s"
  by (induction s rule: hex_DecodeString.induct) (auto split: option.splits)

lemma validateImages_ok:
  "validateImages images = None \<longleftrightarrow>
     1 \<le> length images \<and> length images \<le> 9 \<and>
     list_all (\<lambda>i. length (TrimSpace i) = 32 \<and> list_all (\<lambda>c. hex_value c \<noteq> None) (TrimSpace i)) images"
proof -
  have one: "(\<exists>bs. hex_DecodeString s = Some bs \<and> length bs = 16) \<longleftrightarrow>
      length s = 32 \<and> list_all (\<lambda>c. hex_value c \<noteq> None) s" for s
    using hex_DecodeString_defined [of s] hex_DecodeString_length [of s] by auto
  have "validateImages_loop images = None \<longleftrightarrow>
      list_all (\<lambda>i. \<exists>bs. hex_DecodeString (TrimSpace i) = Some bs \<and> length bs = 16) images"
    by (induction images) (auto split: option.splits)
  then show ?thesis by (auto simp: validateImages_def one Suc_le_eq)
qed

section \<open>Responses\<close>

record category_response =
  CategoryResponse_ID :: string
  CategoryResponse_Name :: string
  CategoryResponse_CommissionRateBps :: int

record item_response =
  ItemResponse_ID :: string
  ItemResponse_SellerRootUserID :: string
  ItemResponse_CategoryID :: string
  ItemResponse_CategoryName :: string
  ItemResponse_Title :: string
  ItemResponse_Description :: string
  ItemResponse_Condition :: string
  ItemResponse_PriceCents :: int64
  ItemResponse_Images :: "string list"
  ItemResponse_DeliveryLocation :: string
  ItemResponse_Status :: string
  ItemResponse_CreatedAt :: string
  ItemResponse_UpdatedAt :: string

record order_response =
  OrderResponse_ID :: string
  OrderResponse_ItemID :: string
  OrderResponse_BuyerRootUserID :: string
  OrderResponse_SellerRootUserID :: string
  OrderResponse_Status :: string
  OrderResponse_PriceCents :: int64
  OrderResponse_CommissionRateBps :: int
  OrderResponse_PlatformFeeCents :: int64
  OrderResponse_SellerNetCents :: int64
  OrderResponse_ExpiresAt :: string
  OrderResponse_PaidAt :: string
  OrderResponse_DeliveredAt :: string
  OrderResponse_CompletedAt :: string
  OrderResponse_CreatedAt :: string
  OrderResponse_Item :: item_response

record payment_response =
  PaymentResponse_OrderID :: string
  PaymentResponse_RequestID :: string
  PaymentResponse_Gateway :: string
  PaymentResponse_GatewayTransactionID :: string
  PaymentResponse_AmountCents :: int64
  PaymentResponse_Status :: string

record refund_response =
  RefundResponse_ID :: string
  RefundResponse_OrderID :: string
  RefundResponse_RequestID :: string
  RefundResponse_AmountCents :: int64
  RefundResponse_Reason :: string
  RefundResponse_Status :: string
  RefundResponse_GatewayRefundID :: string
  RefundResponse_CreatedAt :: string

record dispute_response =
  DisputeResponse_ID :: string
  DisputeResponse_OrderID :: string
  DisputeResponse_Reason :: string
  DisputeResponse_Status :: string
  DisputeResponse_Resolution :: string
  DisputeResponse_CreatedAt :: string

record settlement_response =
  SettlementResponse_ID :: string
  SettlementResponse_OrderID :: string
  SettlementResponse_RequestID :: string
  SettlementResponse_AmountCents :: int64
  SettlementResponse_Status :: string
  SettlementResponse_GatewaySettlementID :: string
  SettlementResponse_CreatedAt :: string

text \<open>
  The text of an instant in the zone Asia/Shanghai comes from the zone database of the host, which
  is not part of the repository: \<open>rfc3339\<close> is a parameter. The zero time prints as nothing.
\<close>

definition zero_time :: instant where
  "zero_time = - 62135596800000"

definition marketplaceTime :: "(instant \<Rightarrow> string) \<Rightarrow> instant \<Rightarrow> string" where
  "marketplaceTime rfc3339 v = (if v = zero_time then [] else rfc3339 v)"

definition optionalMarketplaceTime :: "(instant \<Rightarrow> string) \<Rightarrow> instant option \<Rightarrow> string" where
  "optionalMarketplaceTime rfc3339 v =
     (case v of None \<Rightarrow> [] | Some v \<Rightarrow> marketplaceTime rfc3339 v)"

definition stringValue :: "string option \<Rightarrow> string" where
  "stringValue v = (case v of None \<Rightarrow> [] | Some s \<Rightarrow> s)"

definition categoryResponse :: "category \<Rightarrow> category_response" where
  "categoryResponse v =
     \<lparr>CategoryResponse_ID = marketplaceID (Category_ID v), CategoryResponse_Name = Category_Name v,
      CategoryResponse_CommissionRateBps = Category_CommissionRateBps v\<rparr>"

definition itemResponse :: "(instant \<Rightarrow> string) \<Rightarrow> item_view \<Rightarrow> item_response" where
  "itemResponse rfc3339 view =
     (case view of (v, c) \<Rightarrow>
       \<lparr>ItemResponse_ID = marketplaceID (Item_ID v),
        ItemResponse_SellerRootUserID = marketplaceID (Item_SellerRootUserID v),
        ItemResponse_CategoryID = marketplaceID (Item_CategoryID v),
        ItemResponse_CategoryName = Category_Name c, ItemResponse_Title = Item_Title v,
        ItemResponse_Description = Item_Description v, ItemResponse_Condition = Item_Condition v,
        ItemResponse_PriceCents = Item_PriceCents v, ItemResponse_Images = Item_Images v,
        ItemResponse_DeliveryLocation = Item_DeliveryLocation v,
        ItemResponse_Status = item_status_string (Item_Status v),
        ItemResponse_CreatedAt = marketplaceTime rfc3339 (Item_CreatedAt v),
        ItemResponse_UpdatedAt = marketplaceTime rfc3339 (Item_UpdatedAt v)\<rparr>)"

definition orderResponse :: "(instant \<Rightarrow> string) \<Rightarrow> order_view \<Rightarrow> order_response" where
  "orderResponse rfc3339 view =
     (case view of (v, item) \<Rightarrow>
       \<lparr>OrderResponse_ID = marketplaceID (Order_ID v),
        OrderResponse_ItemID = marketplaceID (Order_ItemID v),
        OrderResponse_BuyerRootUserID = marketplaceID (Order_BuyerRootUserID v),
        OrderResponse_SellerRootUserID = marketplaceID (Order_SellerRootUserID v),
        OrderResponse_Status = order_status_string (Order_Status v),
        OrderResponse_PriceCents = Order_PriceCents v,
        OrderResponse_CommissionRateBps = Order_CommissionRateBps v,
        OrderResponse_PlatformFeeCents = Order_PlatformFeeCents v,
        OrderResponse_SellerNetCents = Order_SellerNetCents v,
        OrderResponse_ExpiresAt = marketplaceTime rfc3339 (Order_ExpiresAt v),
        OrderResponse_PaidAt = optionalMarketplaceTime rfc3339 (Order_PaidAt v),
        OrderResponse_DeliveredAt = optionalMarketplaceTime rfc3339 (Order_DeliveredAt v),
        OrderResponse_CompletedAt = optionalMarketplaceTime rfc3339 (Order_CompletedAt v),
        OrderResponse_CreatedAt = marketplaceTime rfc3339 (Order_CreatedAt v),
        OrderResponse_Item = itemResponse rfc3339 item\<rparr>)"

definition paymentResponse :: "payment \<Rightarrow> payment_response" where
  "paymentResponse v =
     \<lparr>PaymentResponse_OrderID = marketplaceID (Payment_OrderID v),
      PaymentResponse_RequestID = Payment_RequestID v, PaymentResponse_Gateway = Payment_Gateway v,
      PaymentResponse_GatewayTransactionID = stringValue (Payment_GatewayTransactionID v),
      PaymentResponse_AmountCents = Payment_AmountCents v,
      PaymentResponse_Status = record_status_string (Payment_Status v)\<rparr>"

definition refundResponse :: "(instant \<Rightarrow> string) \<Rightarrow> refund \<Rightarrow> refund_response" where
  "refundResponse rfc3339 v =
     \<lparr>RefundResponse_ID = marketplaceID (Refund_ID v),
      RefundResponse_OrderID = marketplaceID (Refund_OrderID v),
      RefundResponse_RequestID = Refund_RequestID v,
      RefundResponse_AmountCents = Refund_AmountCents v, RefundResponse_Reason = Refund_Reason v,
      RefundResponse_Status = record_status_string (Refund_Status v),
      RefundResponse_GatewayRefundID = stringValue (Refund_GatewayRefundID v),
      RefundResponse_CreatedAt = marketplaceTime rfc3339 (Refund_CreatedAt v)\<rparr>"

definition disputeResponse :: "(instant \<Rightarrow> string) \<Rightarrow> dispute \<Rightarrow> dispute_response" where
  "disputeResponse rfc3339 v =
     \<lparr>DisputeResponse_ID = marketplaceID (Dispute_ID v),
      DisputeResponse_OrderID = marketplaceID (Dispute_OrderID v),
      DisputeResponse_Reason = Dispute_Reason v,
      DisputeResponse_Status = dispute_status_string (Dispute_Status v),
      DisputeResponse_Resolution = Dispute_Resolution v,
      DisputeResponse_CreatedAt = marketplaceTime rfc3339 (Dispute_CreatedAt v)\<rparr>"

definition settlementResponse :: "(instant \<Rightarrow> string) \<Rightarrow> settlement \<Rightarrow> settlement_response" where
  "settlementResponse rfc3339 v =
     \<lparr>SettlementResponse_ID = marketplaceID (Settlement_ID v),
      SettlementResponse_OrderID = marketplaceID (Settlement_OrderID v),
      SettlementResponse_RequestID = Settlement_RequestID v,
      SettlementResponse_AmountCents = Settlement_AmountCents v,
      SettlementResponse_Status = record_status_string (Settlement_Status v),
      SettlementResponse_GatewaySettlementID = stringValue (Settlement_GatewaySettlementID v),
      SettlementResponse_CreatedAt = marketplaceTime rfc3339 (Settlement_CreatedAt v)\<rparr>"

section \<open>The payment gateway\<close>

record gateway =
  Name :: string
  CreatePayment :: "string \<Rightarrow> int64 \<Rightarrow> market_error + string"
  Refund :: "string \<Rightarrow> int64 \<Rightarrow> market_error + string"
  Settle :: "string \<Rightarrow> int64 \<Rightarrow> market_error + string"

definition testGateway :: gateway where
  "testGateway =
     \<lparr>Name = ''test'', CreatePayment = (\<lambda>requestID _. Inr (''test-pay-'' @ requestID)),
      Refund = (\<lambda>requestID _. Inr (''test-refund-'' @ requestID)),
      Settle = (\<lambda>requestID _. Inr (''test-settlement-'' @ requestID))\<rparr>"

definition disabledGateway :: gateway where
  "disabledGateway =
     \<lparr>Name = ''disabled'', CreatePayment = (\<lambda>_ _. Inl ErrPaymentDisabled),
      Refund = (\<lambda>_ _. Inl ErrPaymentDisabled), Settle = (\<lambda>_ _. Inl ErrPaymentDisabled)\<rparr>"

text \<open>\<open>strings.ToLower\<close> on the bytes below 128 is all the comparison below can see.\<close>

definition NewGateway :: "string \<Rightarrow> gateway" where
  "NewGateway profile =
     (let profile = map lower_char (TrimSpace profile);
          profile = (if profile = [] then ''dev'' else profile)
      in if profile = ''dev'' \<or> profile = ''test'' then testGateway else disabledGateway)"

text \<open>
  What the service relies on: a gateway is asked again with the same request id, and then gives the
  same answer; different requests get different transactions.
\<close>

locale payment_gateway =
  fixes g :: gateway
  assumes pay_inject: "CreatePayment g r a = Inr x \<Longrightarrow> CreatePayment g s b = Inr x \<Longrightarrow> r = s"
    and refund_inject: "Refund g r a = Inr x \<Longrightarrow> Refund g s b = Inr x \<Longrightarrow> r = s"
    and settle_inject: "Settle g r a = Inr x \<Longrightarrow> Settle g s b = Inr x \<Longrightarrow> r = s"
    and settle_id: "Settle g r a = Inr x \<Longrightarrow> x \<noteq> []"

interpretation test_gateway: payment_gateway testGateway
  by unfold_locales (auto simp: testGateway_def)

interpretation disabled_gateway: payment_gateway disabledGateway
  by unfold_locales (auto simp: disabledGateway_def)

lemma NewGateway_cases: "NewGateway p = testGateway \<or> NewGateway p = disabledGateway"
  by (simp add: NewGateway_def Let_def)

lemma NewGateway_payment_gateway: "payment_gateway (NewGateway p)"
  using NewGateway_cases [of p] test_gateway.payment_gateway_axioms
    disabled_gateway.payment_gateway_axioms by auto

end
