(* ===== verification/Marketplace_Service.thy ===== *)
theory Marketplace_Service
  imports Marketplace_Repo Marketplace_Resp
begin

text \<open>
  The marketplace service (\<open>service.go\<close>, \<open>service_order.go\<close>, \<open>service_admin.go\<close>,
  \<open>service_jobs.go\<close>), one program per method.

  The collaborators the service is wired with are a record of functions (\<open>market_env\<close>): the seller
  verifier, the capability checker and the sensitive-word filter belong to other packages, an absent
  one is \<open>None\<close>. Readings of the clock (\<open>s.now()\<close>) and identifiers from the generator
  (\<open>snowflake.Generate()\<close>) are arguments; a loop takes them from a sequence. Calls of the payment
  gateway and notifications are recorded in the outbox, in the order the code makes them.
\<close>

datatype market_title =
    TItemReserved | TPaymentSucceeded | TBuyerPaid | TOrderCancelled | TSellerDelivered
  | TOrderCompleted | TRefundRejected | TRefundSucceeded | TDisputeResolved | TCancelledByHiding
  | TOrderExpired | TReservationReleased | TAutoCompleted

datatype market_event =
    Notified int64 string market_title string string
  | PayCall string int64
  | RefundCall string int64
  | SettleCall string int64

record market_env =
  verifier :: "(int64 \<Rightarrow> market_error option) option"
  capabilities :: "(int64 \<Rightarrow> int64 \<Rightarrow> string \<Rightarrow> market_error option) option"
  has_notifier :: bool
  text_filter :: "(string \<Rightarrow> market_error + string) option"
  env_gateway :: gateway
  rfc3339 :: "instant \<Rightarrow> string"

type_synonym 'a service = "(market_db, market_event, market_error, 'a) prog"

definition orderPaymentWindow :: instant where "orderPaymentWindow = 15 * 60 * 1000"
definition autoCompleteDelay :: instant where "autoCompleteDelay = 48 * 60 * 60 * 1000"

section \<open>Helpers\<close>

abbreviation internal ::
  "market_msg \<Rightarrow> (market_db, market_event, repo_error, 'a) prog \<Rightarrow> 'a service" where
  "internal \<equiv> internal_error"

abbreviation or_error :: "market_error \<Rightarrow> (market_db, market_event, repo_error, 'a) prog \<Rightarrow> 'a service" where
  "or_error \<equiv> fixed_error"

text \<open>\<open>errors.Is(err, errOrderState)\<close> gives a business error, everything else an internal one.\<close>

definition on_state ::
  "market_error \<Rightarrow> market_msg \<Rightarrow> (market_db, market_event, repo_error, 'a) prog \<Rightarrow> 'a service" where
  "on_state err msg m =
     map_error (\<lambda>e. if e = Sentinel errOrderState then err else InternalWrap msg (Some e)) m"

definition notify ::
  "market_env \<Rightarrow> int64 \<Rightarrow> string \<Rightarrow> market_title \<Rightarrow> string \<Rightarrow> string \<Rightarrow> unit service" where
  "notify s rootUserID eventType title content resourceID =
     (if has_notifier s then emit (Notified rootUserID eventType title content resourceID) else ret ())"

definition item_title :: "order_view \<Rightarrow> string" where
  "item_title v = (case v of (_, it, _) \<Rightarrow> Item_Title it)"

section \<open>Categories and items\<close>

definition svc_ListCategories ::
  "(category list \<Rightarrow> category list) \<Rightarrow> bool \<Rightarrow> category_response list service" where
  "svc_ListCategories by_name includeDisabled =
     bind (internal MQueryCategories (ListCategories by_name includeDisabled)) (\<lambda>rows.
     ret (map categoryResponse rows))"

definition SaveCategory ::
  "(category \<Rightarrow> category list \<Rightarrow> db_err + category list) \<Rightarrow> string \<Rightarrow> category_req \<Rightarrow> int64 \<Rightarrow> instant
    \<Rightarrow> category_response service" where
  "SaveCategory save categoryID req newID now =
     (let name = TrimSpace (CategoryReq_Name req)
      in if name = [] then throw (Param MCategoryNameEmpty)
         else
           (let rate = (case CategoryReq_CommissionRateBps req of
                          None \<Rightarrow> DefaultCommissionRateBps | Some r \<Rightarrow> r);
                c = \<lparr>Category_ID = newID, Category_Name = name, Category_CommissionRateBps = rate,
                     Category_Status = StatusActive, Category_CreatedAt = now,
                     Category_UpdatedAt = now\<rparr>
            in bind (if TrimSpace categoryID \<noteq> [] then
                       bind (result (parseMarketplaceID categoryID)) (\<lambda>cid.
                       bind (internal MQueryCategories (FindCategory cid)) (\<lambda>found.
                       bind (present ErrCategoryNotFound found) (\<lambda>old.
                       ret (c\<lparr>Category_ID := Category_ID old,
                              Category_Status := Category_Status old,
                              Category_CreatedAt := Category_CreatedAt old,
                              Category_CommissionRateBps :=
                                (if CategoryReq_CommissionRateBps req = None
                                 then Category_CommissionRateBps old else rate)\<rparr>))))
                     else ret c) (\<lambda>c.
               bind (internal MSaveCategory (repo_SaveCategory save c)) (\<lambda>_.
               ret (categoryResponse c)))))"

definition checkNewListing :: "market_env \<Rightarrow> int64 \<Rightarrow> int64 \<Rightarrow> unit service" where
  "checkNewListing s userID rootUserID =
     (case verifier s of
        None \<Rightarrow> throw (Internal MVerifierMissing)
      | Some verify \<Rightarrow>
          bind (check (verify rootUserID)) (\<lambda>_.
          case capabilities s of
            None \<Rightarrow> ret ()
          | Some can \<Rightarrow>
              bind (check (can userID rootUserID ''content'')) (\<lambda>_.
              check (can userID rootUserID ''trade''))))"

definition checkTrade :: "market_env \<Rightarrow> int64 \<Rightarrow> int64 \<Rightarrow> unit service" where
  "checkTrade s userID rootUserID =
     (case capabilities s of
        None \<Rightarrow> ret ()
      | Some can \<Rightarrow> check (can userID rootUserID ''trade''))"

definition filterText :: "market_env \<Rightarrow> string \<Rightarrow> string service" where
  "filterText s value =
     (case text_filter s of None \<Rightarrow> ret value | Some f \<Rightarrow> result (f value))"

text \<open>The item a request describes; \<open>item.ID\<close>, the seller and the times are filled in by the caller.\<close>

definition itemFromRequest :: "market_env \<Rightarrow> item_req \<Rightarrow> item service" where
  "itemFromRequest s req =
     bind (result (parseMarketplaceID (ItemReq_CategoryID req))) (\<lambda>cid.
     bind (or_error ErrCategoryNotFound (FindCategory cid)) (\<lambda>found.
     bind (present ErrCategoryNotFound found) (\<lambda>c.
     bind (check (if Category_Status c \<noteq> StatusActive then Some ErrCategoryNotFound else None)) (\<lambda>_.
     bind (check (if ItemReq_PriceCents req \<le> 0 then Some (Param MPricePositive) else None)) (\<lambda>_.
     bind (check (validateImages (ItemReq_Images req))) (\<lambda>_.
     bind (filterText s (ItemReq_Title req)) (\<lambda>title.
     bind (filterText s (ItemReq_Description req)) (\<lambda>description.
     bind (filterText s (ItemReq_DeliveryLocation req)) (\<lambda>location.
     let condition = TrimSpace (ItemReq_Condition req)
     in case listing_status (ItemReq_Status req) of
          None \<Rightarrow> throw (Param MItemParams)
        | Some status \<Rightarrow>
            if TrimSpace title = [] \<or> TrimSpace description = [] \<or> condition = []
               \<or> TrimSpace location = []
            then throw (Param MItemParams)
            else ret (zero_item\<lparr>Item_CategoryID := cid, Item_Title := TrimSpace title,
                   Item_Description := TrimSpace description, Item_Condition := condition,
                   Item_PriceCents := ItemReq_PriceCents req, Item_Images := ItemReq_Images req,
                   Item_DeliveryLocation := TrimSpace location, Item_Status := status\<rparr>))))))))))"

definition CreateItem ::
  "market_env \<Rightarrow> int64 \<Rightarrow> int64 \<Rightarrow> item_req \<Rightarrow> int64 \<Rightarrow> instant \<Rightarrow> item_response service" where
  "CreateItem s userID rootUserID req newID now =
     bind (checkNewListing s userID rootUserID) (\<lambda>_.
     bind (itemFromRequest s req) (\<lambda>it.
     let it = it\<lparr>Item_ID := newID, Item_SellerRootUserID := rootUserID, Item_SellerUserID := userID,
                 Item_CreatedAt := now, Item_UpdatedAt := now\<rparr>
     in bind (internal MCreateItem (repo_CreateItem it)) (\<lambda>_.
        bind (attempt (FindCategory (Item_CategoryID it))) (\<lambda>r.
        let c = (case r of Inr (Some c) \<Rightarrow> c | _ \<Rightarrow> zero_category)
        in ret (itemResponse (rfc3339 s) (it, c))))))"

definition UpdateItem ::
  "market_env \<Rightarrow> int64 \<Rightarrow> int64 \<Rightarrow> string \<Rightarrow> item_req \<Rightarrow> instant \<Rightarrow> item_response service" where
  "UpdateItem s userID rootUserID itemID req now =
     bind (checkNewListing s userID rootUserID) (\<lambda>_.
     bind (result (parseMarketplaceID itemID)) (\<lambda>iid.
     bind (or_error ErrItemNotFound (FindItem iid)) (\<lambda>found.
     bind (present ErrItemNotFound found) (\<lambda>(current, _).
     bind (check (if Item_SellerRootUserID current \<noteq> rootUserID then Some ErrItemNotFound else None)) (\<lambda>_.
     bind (itemFromRequest s req) (\<lambda>it.
     let it = it\<lparr>Item_ID := iid, Item_UpdatedAt := now,
                 Item_Status := (if TrimSpace (ItemReq_Status req) = [] then Item_Status current
                                 else Item_Status it)\<rparr>
     in bind (internal MUpdateItem (repo_UpdateItem it rootUserID)) (\<lambda>ok.
        bind (check (if \<not> ok then Some ErrItemNotFound else None)) (\<lambda>_.
        bind (or_error ErrItemNotFound (FindItem iid)) (\<lambda>found.
        bind (present ErrItemNotFound found) (\<lambda>updated.
        ret (itemResponse (rfc3339 s) updated)))))))))))"

definition WithdrawItem :: "int64 \<Rightarrow> string \<Rightarrow> instant \<Rightarrow> unit service" where
  "WithdrawItem rootUserID itemID now =
     bind (result (parseMarketplaceID itemID)) (\<lambda>iid.
     bind (internal MWithdrawItem (repo_WithdrawItem iid rootUserID now)) (\<lambda>ok.
     check (if \<not> ok then Some ErrItemNotFound else None)))"

definition visible_to :: "int64 \<Rightarrow> item \<Rightarrow> bool" where
  "visible_to rootUserID it \<longleftrightarrow>
     \<not> (Item_SellerRootUserID it \<noteq> rootUserID \<and> Item_Status it \<noteq> ItemPublished
        \<and> Item_Status it \<noteq> ItemReserved \<and> Item_Status it \<noteq> ItemSold)"

definition ItemDetail :: "market_env \<Rightarrow> int64 \<Rightarrow> string \<Rightarrow> item_response service" where
  "ItemDetail s rootUserID itemID =
     bind (result (parseMarketplaceID itemID)) (\<lambda>iid.
     bind (internal MQueryItem (FindItem iid)) (\<lambda>found.
     bind (present ErrItemNotFound found) (\<lambda>(it, c).
     if \<not> visible_to rootUserID it then throw ErrItemNotFound
     else ret (itemResponse (rfc3339 s) (it, c)))))"

definition SearchItems ::
  "market_env \<Rightarrow> (string \<Rightarrow> string \<Rightarrow> bool) \<Rightarrow> int64 \<Rightarrow> bool \<Rightarrow> string \<Rightarrow> string \<Rightarrow> int \<Rightarrow> int
    \<Rightarrow> item_response page_result service" where
  "SearchItems s like rootUserID mine keyword categoryID page sz =
     bind (if TrimSpace categoryID \<noteq> [] then result (parseMarketplaceID categoryID) else ret 0) (\<lambda>category.
     let (page, sz) = normalizeMarketplacePage page sz
     in bind (internal MSearchItems
               (repo_SearchItems like rootUserID mine keyword category page sz)) (\<lambda>(rows, tot).
        ret (NewPageResult (map (itemResponse (rfc3339 s)) rows) tot page sz)))"

section \<open>Orders\<close>

definition new_order :: "int64 \<Rightarrow> int64 \<Rightarrow> int64 \<Rightarrow> int64 \<Rightarrow> instant \<Rightarrow> order" where
  "new_order oid iid userID rootUserID now =
     \<lparr>Order_ID = oid, Order_ItemID = iid, Order_BuyerRootUserID = rootUserID,
      Order_BuyerUserID = userID, Order_SellerRootUserID = 0, Order_Status = OrderPendingPayment,
      Order_PriceCents = 0, Order_CommissionRateBps = 0, Order_PlatformFeeCents = 0,
      Order_SellerNetCents = 0, Order_ExpiresAt = now + orderPaymentWindow, Order_PaidAt = None,
      Order_DeliveredAt = None, Order_CompletedAt = None, Order_CancelledAt = None,
      Order_RefundedAt = None, Order_DisputedAt = None, Order_CreatedAt = now,
      Order_UpdatedAt = now\<rparr>"

definition CreateOrder ::
  "market_env \<Rightarrow> int64 \<Rightarrow> int64 \<Rightarrow> string \<Rightarrow> int64 \<Rightarrow> instant \<Rightarrow> order_response service" where
  "CreateOrder s userID rootUserID itemID newID now =
     bind (checkTrade s userID rootUserID) (\<lambda>_.
     bind (result (parseMarketplaceID itemID)) (\<lambda>iid.
     bind (map_error (\<lambda>e. if e = Sentinel errOwnItem then ErrOwnItem
                          else if e = Sentinel errItemUnavailable then ErrItemUnavailable
                          else InternalWrap MCreateOrder (Some e))
            (repo_CreateOrder (new_order newID iid userID rootUserID now))) (\<lambda>_.
     bind (internal MQueryOrder (FindOrder newID)) (\<lambda>found.
     bind (present (InternalWrap MQueryOrder None) found) (\<lambda>stored.
     bind (notify s (Order_SellerRootUserID (fst stored)) ''marketplace.order.created'' TItemReserved
            (item_title stored) (marketplaceID (Order_ID (fst stored)))) (\<lambda>_.
     ret (orderResponse (rfc3339 s) stored)))))))"

definition ListOrders ::
  "market_env \<Rightarrow> int64 \<Rightarrow> bool \<Rightarrow> int \<Rightarrow> int \<Rightarrow> order_response page_result service" where
  "ListOrders s rootUserID admin page sz =
     (let (page, sz) = normalizeMarketplacePage page sz
      in bind (internal MQueryOrder (repo_ListOrders rootUserID admin page sz)) (\<lambda>(rows, tot).
         ret (NewPageResult (map (orderResponse (rfc3339 s)) rows) tot page sz)))"

definition new_payment ::
  "int64 \<Rightarrow> int64 \<Rightarrow> int64 \<Rightarrow> string \<Rightarrow> string \<Rightarrow> instant \<Rightarrow> payment" where
  "new_payment pid oid amountCents gatewayName requestID now =
     \<lparr>Payment_ID = pid, Payment_OrderID = oid, Payment_Gateway = gatewayName,
      Payment_RequestID = requestID, Payment_GatewayTransactionID = None,
      Payment_AmountCents = amountCents, Payment_Status = RecordPending,
      Payment_CreatedAt = now, Payment_UpdatedAt = now\<rparr>"

definition StartPayment ::
  "market_env \<Rightarrow> int64 \<Rightarrow> string \<Rightarrow> string \<Rightarrow> int64 \<Rightarrow> instant \<Rightarrow> instant \<Rightarrow> payment_response service" where
  "StartPayment s rootUserID orderID rawRequestID newID now now' =
     (if Name (env_gateway s) = ''disabled'' then throw ErrPaymentDisabled
      else
        bind (result (parseMarketplaceID orderID)) (\<lambda>oid.
        bind (or_error ErrOrderNotFound (FindOrder oid)) (\<lambda>found.
        bind (present ErrOrderNotFound found) (\<lambda>(ord, _).
        bind (check (if Order_BuyerRootUserID ord \<noteq> rootUserID then Some ErrOrderNotFound else None)) (\<lambda>_.
        let requestID = TrimSpace rawRequestID
        in if requestID = [] then throw (Param MPaymentRequestEmpty)
           else
             bind (on_state ErrOrderState MCreatePayment
                    (CreateOrFindPayment
                      (new_payment newID oid (Order_PriceCents ord) (Name (env_gateway s)) requestID
                        now))) (\<lambda>(pay, _).
             case Payment_GatewayTransactionID pay of
               Some _ \<Rightarrow> ret (paymentResponse pay)
             | None \<Rightarrow>
                 bind (emit (PayCall (Payment_RequestID pay) (Payment_AmountCents pay))) (\<lambda>_.
                 bind (result (CreatePayment (env_gateway s) (Payment_RequestID pay)
                        (Payment_AmountCents pay))) (\<lambda>transactionID.
                 bind (internal MSaveTransaction
                        (AttachPaymentTransaction (Payment_ID pay) transactionID now')) (\<lambda>_.
                 ret (paymentResponse
                   (pay\<lparr>Payment_GatewayTransactionID := Some transactionID\<rparr>)))))))))))"

definition TestPaymentCallback :: "market_env \<Rightarrow> callback_req \<Rightarrow> instant \<Rightarrow> unit service" where
  "TestPaymentCallback s req now =
     (if Name (env_gateway s) \<noteq> ''test'' then throw ErrPaymentDisabled
      else
        bind (on_state ErrPaymentInvalid MPaymentCallback
               (ApplyPaymentCallback (TrimSpace (CallbackReq_RequestID req))
                 (TrimSpace (CallbackReq_GatewayTransactionID req))
                 (CallbackReq_AmountCents req) now)) (\<lambda>(ord, changed).
        if changed then
          bind (notify s (Order_BuyerRootUserID (fst ord)) ''marketplace.payment.succeeded''
                 TPaymentSucceeded (item_title ord) (marketplaceID (Order_ID (fst ord)))) (\<lambda>_.
          notify s (Order_SellerRootUserID (fst ord)) ''marketplace.payment.succeeded''
            TBuyerPaid (item_title ord) (marketplaceID (Order_ID (fst ord))))
        else ret ()))"

definition CancelOrder :: "market_env \<Rightarrow> int64 \<Rightarrow> string \<Rightarrow> instant \<Rightarrow> unit service" where
  "CancelOrder s rootUserID orderID now =
     bind (result (parseMarketplaceID orderID)) (\<lambda>oid.
     bind (on_state ErrOrderState MCancelOrder (repo_CancelOrder oid rootUserID now)) (\<lambda>ord.
     notify s (Order_SellerRootUserID (fst ord)) ''marketplace.order.cancelled'' TOrderCancelled
       (item_title ord) (marketplaceID (Order_ID (fst ord)))))"

definition MarkDelivered :: "market_env \<Rightarrow> int64 \<Rightarrow> string \<Rightarrow> instant \<Rightarrow> unit service" where
  "MarkDelivered s rootUserID orderID now =
     bind (result (parseMarketplaceID orderID)) (\<lambda>oid.
     bind (on_state ErrOrderState MConfirmDelivery (repo_MarkDelivered oid rootUserID now)) (\<lambda>ord.
     notify s (Order_BuyerRootUserID (fst ord)) ''marketplace.order.delivered'' TSellerDelivered
       (item_title ord) (marketplaceID (Order_ID (fst ord)))))"

definition newSettlement :: "int64 \<Rightarrow> int64 \<Rightarrow> int64 \<Rightarrow> instant \<Rightarrow> settlement" where
  "newSettlement newID orderID amountCents now =
     \<lparr>Settlement_ID = newID, Settlement_OrderID = orderID,
      Settlement_RequestID = ''settlement:'' @ marketplaceID orderID,
      Settlement_GatewaySettlementID = None, Settlement_AmountCents = amountCents,
      Settlement_Status = RecordPending, Settlement_CreatedAt = now, Settlement_UpdatedAt = now\<rparr>"

text \<open>
  Settling one order with the gateway. Both error returns of the sentinel are passed on as they are.
\<close>

definition processSettlement :: "market_env \<Rightarrow> int64 \<Rightarrow> instant \<Rightarrow> unit service" where
  "processSettlement s sid now =
     bind (or_error (Passed (Sentinel errOrderState)) (FindSettlement sid)) (\<lambda>found.
     bind (present (Passed (Sentinel errOrderState)) found) (\<lambda>stl.
     if Settlement_Status stl = RecordSucceeded then ret ()
     else
       bind (emit (SettleCall (Settlement_RequestID stl) (Settlement_AmountCents stl))) (\<lambda>_.
       case Settle (env_gateway s) (Settlement_RequestID stl) (Settlement_AmountCents stl) of
         Inl e \<Rightarrow>
           bind (attempt (UpdateSettlement sid RecordFailed [] now))
             (\<lambda>_ :: repo_error + bool. throw e)
       | Inr gatewayID \<Rightarrow>
           bind (internal MUpdateSettlement (UpdateSettlement sid RecordSucceeded gatewayID now)) (\<lambda>ok.
           if ok then ret ()
           else
             bind (attempt (FindSettlement sid)) (\<lambda>r :: repo_error + settlement option.
             case r of
               Inr (Some current) \<Rightarrow>
                 if Settlement_Status current = RecordSucceeded then ret ()
                 else throw (Passed (Sentinel errOrderState))
             | _ \<Rightarrow> throw (Passed (Sentinel errOrderState)))))))"

definition ConfirmReceived ::
  "market_env \<Rightarrow> int64 \<Rightarrow> string \<Rightarrow> int64 \<Rightarrow> instant \<Rightarrow> instant \<Rightarrow> unit service" where
  "ConfirmReceived s rootUserID orderID newID now now' =
     bind (result (parseMarketplaceID orderID)) (\<lambda>oid.
     let stl = newSettlement newID oid 0 now
     in bind (on_state ErrOrderState MConfirmReceipt
               (repo_ConfirmReceived oid rootUserID stl now)) (\<lambda>ord.
        bind (attempt (processSettlement s newID now')) (\<lambda>_ :: market_error + unit.
        notify s (Order_SellerRootUserID (fst ord)) ''marketplace.order.completed'' TOrderCompleted
          (item_title ord) (marketplaceID (Order_ID (fst ord))))))"

definition new_refund :: "int64 \<Rightarrow> int64 \<Rightarrow> int64 \<Rightarrow> string \<Rightarrow> string \<Rightarrow> instant \<Rightarrow> refund" where
  "new_refund rid oid rootUserID requestID reason now =
     \<lparr>Refund_ID = rid, Refund_OrderID = oid, Refund_RequestedByRootUserID = rootUserID,
      Refund_RequestID = requestID, Refund_GatewayRefundID = None, Refund_AmountCents = 0,
      Refund_Reason = reason, Refund_Status = RecordPending, Refund_ReviewedBy = None,
      Refund_ReviewedAt = None, Refund_CreatedAt = now, Refund_UpdatedAt = now\<rparr>"

definition RequestRefund ::
  "market_env \<Rightarrow> int64 \<Rightarrow> string \<Rightarrow> refund_req \<Rightarrow> int64 \<Rightarrow> instant \<Rightarrow> refund_response service" where
  "RequestRefund s rootUserID orderID req newID now =
     bind (result (parseMarketplaceID orderID)) (\<lambda>oid.
     let rf = new_refund newID oid rootUserID (TrimSpace (RefundReq_RequestID req))
                (TrimSpace (RefundReq_Reason req)) now
     in if Refund_RequestID rf = [] \<or> Refund_Reason rf = [] then throw (Param MRefundParams)
        else
          bind (map_error (\<lambda>e. if e = Sentinel errRefundExists then ErrRefundExists
                               else if e = Sentinel errOrderState then ErrOrderState
                               else InternalWrap MSubmitRefund (Some e))
                 (repo_CreateRefund rf)) (\<lambda>rf.
          ret (refundResponse (rfc3339 s) rf)))"

definition new_dispute :: "int64 \<Rightarrow> int64 \<Rightarrow> int64 \<Rightarrow> string \<Rightarrow> instant \<Rightarrow> dispute" where
  "new_dispute did oid rootUserID reason now =
     \<lparr>Dispute_ID = did, Dispute_OrderID = oid, Dispute_RaisedByRootUserID = rootUserID,
      Dispute_PreviousOrderStatus = OrderPendingPayment, Dispute_Reason = reason,
      Dispute_Status = DisputePending, Dispute_Resolution = [], Dispute_ResolvedBy = None,
      Dispute_ResolvedAt = None, Dispute_CreatedAt = now, Dispute_UpdatedAt = now\<rparr>"

definition CreateDispute ::
  "market_env \<Rightarrow> int64 \<Rightarrow> string \<Rightarrow> string \<Rightarrow> int64 \<Rightarrow> instant \<Rightarrow> dispute_response service" where
  "CreateDispute s rootUserID orderID reason newID now =
     bind (result (parseMarketplaceID orderID)) (\<lambda>oid.
     let dsp = new_dispute newID oid rootUserID (TrimSpace reason) now
     in if Dispute_Reason dsp = [] then throw (Param MDisputeReasonEmpty)
        else
          bind (map_error (\<lambda>e. if e = Sentinel errDisputeExists then ErrDisputeExists
                               else if e = Sentinel errOrderState then ErrOrderState
                               else InternalWrap MSubmitDispute (Some e))
                 (repo_CreateDispute dsp now)) (\<lambda>dsp.
          ret (disputeResponse (rfc3339 s) dsp)))"

section \<open>Decisions of an administrator\<close>

definition ListRefunds :: "market_env \<Rightarrow> int \<Rightarrow> int \<Rightarrow> refund_response page_result service" where
  "ListRefunds s page sz =
     (let (page, sz) = normalizeMarketplacePage page sz
      in bind (internal MQueryRefunds (listRecords refunds Refund_CreatedAt page sz)) (\<lambda>(rows, tot).
         ret (NewPageResult (map (refundResponse (rfc3339 s)) rows) tot page sz)))"

definition DecideRefund ::
  "market_env \<Rightarrow> string \<Rightarrow> int64 \<Rightarrow> bool \<Rightarrow> instant \<Rightarrow> unit service" where
  "DecideRefund s refundID adminID approved now =
     bind (result (parseMarketplaceID refundID)) (\<lambda>rid.
     bind (or_error ErrOrderState (FindRefund rid)) (\<lambda>found.
     bind (present ErrOrderState found) (\<lambda>rf.
     if Refund_Status rf = RecordSucceeded \<and> approved then ret ()
     else
       bind (if approved then
               bind (emit (RefundCall (Refund_RequestID rf) (Refund_AmountCents rf))) (\<lambda>_.
               result (Refund (env_gateway s) (Refund_RequestID rf) (Refund_AmountCents rf)))
             else ret []) (\<lambda>gatewayID.
       bind (on_state ErrOrderState MDecideRefund
              (repo_DecideRefund rid adminID approved gatewayID now)) (\<lambda>ord.
       notify s (Order_BuyerRootUserID (fst ord))
         (if approved then ''marketplace.refund.succeeded'' else ''marketplace.refund.rejected'')
         (if approved then TRefundSucceeded else TRefundRejected)
         (item_title ord) (marketplaceID (Order_ID (fst ord))))))))"

definition ListDisputes :: "market_env \<Rightarrow> int \<Rightarrow> int \<Rightarrow> dispute_response page_result service" where
  "ListDisputes s page sz =
     (let (page, sz) = normalizeMarketplacePage page sz
      in bind (internal MQueryDisputes (listRecords disputes Dispute_CreatedAt page sz)) (\<lambda>(rows, tot).
         ret (NewPageResult (map (disputeResponse (rfc3339 s)) rows) tot page sz)))"

text \<open>The refund row a decision prepares; order, requester, amount and status follow in the transaction.\<close>

definition ResolveDispute ::
  "market_env \<Rightarrow> string \<Rightarrow> int64 \<Rightarrow> decision_req \<Rightarrow> int64 \<Rightarrow> instant \<Rightarrow> unit service" where
  "ResolveDispute s disputeID adminID req newID now =
     bind (result (parseMarketplaceID disputeID)) (\<lambda>did.
     bind (or_error ErrOrderState (FindDispute did)) (\<lambda>found.
     bind (present ErrOrderState found) (\<lambda>dsp.
     bind (check (if Dispute_Status dsp \<noteq> DisputePending then Some ErrOrderState else None)) (\<lambda>_.
     bind (or_error ErrOrderNotFound (FindOrder (Dispute_OrderID dsp))) (\<lambda>found.
     bind (present ErrOrderNotFound found) (\<lambda>(ord, _).
     let rf = new_refund newID 0 0 (''dispute-refund:'' @ marketplaceID did)
                (TrimSpace (DecisionReq_Resolution req)) now
     in bind (if DecisionReq_Action req = ''refund'' then
                bind (emit (RefundCall (Refund_RequestID rf) (Order_PriceCents ord))) (\<lambda>_.
                result (Refund (env_gateway s) (Refund_RequestID rf) (Order_PriceCents ord)))
              else ret []) (\<lambda>gatewayID.
        bind (on_state ErrOrderState MResolveDispute
               (repo_ResolveDispute did adminID (DecisionReq_Action req)
                 (TrimSpace (DecisionReq_Resolution req)) gatewayID rf now)) (\<lambda>ord.
        bind (notify s (Order_BuyerRootUserID (fst ord)) ''marketplace.dispute.resolved''
               TDisputeResolved (DecisionReq_Resolution req) (marketplaceID (Order_ID (fst ord)))) (\<lambda>_.
        notify s (Order_SellerRootUserID (fst ord)) ''marketplace.dispute.resolved''
          TDisputeResolved (DecisionReq_Resolution req) (marketplaceID (Order_ID (fst ord))))))))))))"

definition ListSettlements ::
  "market_env \<Rightarrow> int \<Rightarrow> int \<Rightarrow> settlement_response page_result service" where
  "ListSettlements s page sz =
     (let (page, sz) = normalizeMarketplacePage page sz
      in bind (internal MQuerySettlements
               (listRecords settlements Settlement_CreatedAt page sz)) (\<lambda>(rows, tot).
         ret (NewPageResult (map (settlementResponse (rfc3339 s)) rows) tot page sz)))"

definition RetrySettlement :: "market_env \<Rightarrow> string \<Rightarrow> instant \<Rightarrow> unit service" where
  "RetrySettlement s settlementID now =
     bind (result (parseMarketplaceID settlementID)) (\<lambda>sid.
     map_error (\<lambda>e. if e = Passed (Sentinel errOrderState) then ErrSettlementState else e)
       (processSettlement s sid now))"

definition ReportTarget :: "market_env \<Rightarrow> string \<Rightarrow> (int64 \<times> item_response) service" where
  "ReportTarget s targetID =
     bind (result (parseMarketplaceID targetID)) (\<lambda>iid.
     bind (or_error ErrItemNotFound (FindItem iid)) (\<lambda>found.
     bind (present ErrItemNotFound found) (\<lambda>v.
     ret (Item_SellerRootUserID (fst v), itemResponse (rfc3339 s) v))))"

definition HideForModeration :: "market_env \<Rightarrow> string \<Rightarrow> instant \<Rightarrow> string \<Rightarrow> unit service" where
  "HideForModeration s targetID now notice =
     bind (result (parseMarketplaceID targetID)) (\<lambda>iid.
     bind (internal MHideItem (repo_HideItem iid now)) (\<lambda>cancelled.
     case cancelled of
       None \<Rightarrow> ret ()
     | Some ord \<Rightarrow>
         notify s (Order_BuyerRootUserID ord) ''marketplace.order.cancelled'' TCancelledByHiding
           notice (marketplaceID (Order_ID ord))))"

section \<open>Scheduled jobs\<close>

fun expire_loop :: "market_env \<Rightarrow> instant \<Rightarrow> int64 list \<Rightarrow> unit service" where
  "expire_loop s now [] = ret ()"
| "expire_loop s now (oid # rest) =
     bind (internal MReleaseExpired (repo_ExpireOrder oid now)) (\<lambda>r.
     bind (case r of
             None \<Rightarrow> ret ()
           | Some ord \<Rightarrow>
               bind (notify s (Order_BuyerRootUserID (fst ord)) ''marketplace.order.expired''
                      TOrderExpired (item_title ord) (marketplaceID (Order_ID (fst ord)))) (\<lambda>_.
               notify s (Order_SellerRootUserID (fst ord)) ''marketplace.order.expired''
                 TReservationReleased (item_title ord) (marketplaceID (Order_ID (fst ord))))) (\<lambda>_.
     expire_loop s now rest))"

text \<open>After one automatic completion: settle at once (a failure is only logged) and tell both sides.\<close>

definition after_completion :: "market_env \<Rightarrow> int64 \<Rightarrow> instant \<Rightarrow> order_view option \<Rightarrow> unit service" where
  "after_completion s sid now r =
     (case r of
        None \<Rightarrow> ret ()
      | Some ord \<Rightarrow>
          bind (attempt (processSettlement s sid now)) (\<lambda>_ :: market_error + unit.
          bind (notify s (Order_BuyerRootUserID (fst ord)) ''marketplace.order.completed''
                 TAutoCompleted (item_title ord) (marketplaceID (Order_ID (fst ord)))) (\<lambda>_.
          notify s (Order_SellerRootUserID (fst ord)) ''marketplace.order.completed''
            TAutoCompleted (item_title ord) (marketplaceID (Order_ID (fst ord))))))"

text \<open>\<open>newID k\<close> and \<open>clock k\<close>: the identifier and the second clock reading of the \<open>k\<close>-th iteration.\<close>

fun complete_loop ::
  "market_env \<Rightarrow> instant \<Rightarrow> (nat \<Rightarrow> int64) \<Rightarrow> (nat \<Rightarrow> instant) \<Rightarrow> nat \<Rightarrow> int64 list \<Rightarrow> unit service" where
  "complete_loop s now newID clock k [] = ret ()"
| "complete_loop s now newID clock k (oid # rest) =
     bind (internal MAutoComplete
            (AutoCompleteOrder oid (now - autoCompleteDelay) (newSettlement (newID k) oid 0 now) now)) (\<lambda>r.
     bind (after_completion s (newID k) (clock k) r) (\<lambda>_.
     complete_loop s now newID clock (Suc k) rest))"

definition RunDueJobs ::
  "market_env \<Rightarrow> instant \<Rightarrow> (nat \<Rightarrow> int64) \<Rightarrow> (nat \<Rightarrow> instant) \<Rightarrow> unit service" where
  "RunDueJobs s now newID clock =
     bind (internal MQueryExpired (ListExpiredOrderIDs now 100)) (\<lambda>expiredIDs.
     bind (expire_loop s now expiredIDs) (\<lambda>_.
     bind (internal MQueryDue (ListAutoCompleteOrderIDs (now - autoCompleteDelay) 100)) (\<lambda>completeIDs.
     complete_loop s now newID clock 0 completeIDs)))"

fun retry_loop :: "market_env \<Rightarrow> (nat \<Rightarrow> instant) \<Rightarrow> nat \<Rightarrow> int64 list \<Rightarrow> unit service" where
  "retry_loop s clock k [] = ret ()"
| "retry_loop s clock k (sid # rest) =
     bind (attempt (processSettlement s sid (clock k))) (\<lambda>_ :: market_error + unit.
     retry_loop s clock (Suc k) rest)"

definition RetryPendingSettlements :: "market_env \<Rightarrow> (nat \<Rightarrow> instant) \<Rightarrow> unit service" where
  "RetryPendingSettlements s clock =
     bind (attempt (ListRetrySettlementIDs 100)) (\<lambda>r :: repo_error + int64 list.
     case r of Inl _ \<Rightarrow> ret () | Inr ids \<Rightarrow> retry_loop s clock 0 ids)"

end
