(* ===== verification/Marketplace_System.thy ===== *)
theory Marketplace_System
  imports Marketplace_Refine Marketplace_Service
begin

text \<open>
  The marketplace as a transition system. One step is one run of a repository method on the shared
  tables, by whichever request, with whatever result and whatever statements failing: requests
  interleave between these runs, and only there, because each method is one transaction or one
  statement.

  The conditions of the rules are what the service establishes before it calls the method; the
  theorem \<open>service_steps\<close> shows that it does.
\<close>

inductive market_step :: "market_db \<Rightarrow> market_db \<Rightarrow> bool" where
  save_category: "outcome (repo_SaveCategory save c :: (_, market_event, _, _) prog) t r t' \<Longrightarrow> saves save \<Longrightarrow>
    valid_rate (Category_CommissionRateBps c) \<Longrightarrow> market_step t t'"
| create_item: "outcome (repo_CreateItem it :: (_, market_event, _, _) prog) t r t' \<Longrightarrow>
    Item_Status it \<in> {ItemDraft, ItemPublished} \<Longrightarrow> Item_ReservedOrderID it = None \<Longrightarrow>
    price_ok (Item_PriceCents it) \<Longrightarrow> market_step t t'"
| update_item: "outcome (repo_UpdateItem it owner :: (_, market_event, _, _) prog) t r t' \<Longrightarrow>
    item_edit_ok it t \<Longrightarrow> market_step t t'"
| withdraw: "outcome (repo_WithdrawItem iid owner now :: (_, market_event, _, _) prog) t r t' \<Longrightarrow> market_step t t'"
| hide: "outcome (repo_HideItem iid now :: (_, market_event, _, _) prog) t r t' \<Longrightarrow> market_step t t'"
| create_order: "outcome (repo_CreateOrder ord :: (_, market_event, _, _) prog) t r t' \<Longrightarrow>
    Order_Status ord = OrderPendingPayment \<Longrightarrow> market_step t t'"
| create_payment: "outcome (CreateOrFindPayment p :: (_, market_event, _, _) prog) t r t' \<Longrightarrow>
    payment_for p t \<Longrightarrow> market_step t t'"
| attach: "outcome (AttachPaymentTransaction pid tx now :: (_, market_event, _, _) prog) t r t' \<Longrightarrow> market_step t t'"
| callback: "outcome (ApplyPaymentCallback req tx amount now :: (_, market_event, _, _) prog) t r t' \<Longrightarrow>
    market_step t t'"
| cancel_order: "outcome (repo_CancelOrder oid buyer now :: (_, market_event, _, _) prog) t r t' \<Longrightarrow> market_step t t'"
| mark_delivered: "outcome (repo_MarkDelivered oid seller now :: (_, market_event, _, _) prog) t r t' \<Longrightarrow>
    market_step t t'"
| confirm: "outcome (repo_ConfirmReceived oid buyer s now :: (_, market_event, _, _) prog) t r t' \<Longrightarrow>
    settlement_for oid s t \<Longrightarrow> market_step t t'"
| create_refund: "outcome (repo_CreateRefund rf :: (_, market_event, _, _) prog) t r t' \<Longrightarrow>
    Refund_Status rf = RecordPending \<Longrightarrow> market_step t t'"
| decide_refund: "outcome (repo_DecideRefund rid admin approved g now :: (_, market_event, _, _) prog) t r t' \<Longrightarrow>
    market_step t t'"
| create_dispute: "outcome (repo_CreateDispute dsp now :: (_, market_event, _, _) prog) t r t' \<Longrightarrow>
    Dispute_Status dsp = DisputePending \<Longrightarrow> market_step t t'"
| resolve_dispute: "outcome (repo_ResolveDispute did admin action res g rf now :: (_, market_event, _, _) prog) t r t' \<Longrightarrow>
    market_step t t'"
| expire: "outcome (repo_ExpireOrder oid now :: (_, market_event, _, _) prog) t r t' \<Longrightarrow> market_step t t'"
| auto_complete: "outcome (AutoCompleteOrder oid cutoff s now :: (_, market_event, _, _) prog) t r t' \<Longrightarrow>
    settlement_for oid s t \<Longrightarrow> market_step t t'"
| update_settle: "outcome (UpdateSettlement sid status g now :: (_, market_event, _, _) prog) t r t' \<Longrightarrow>
    market_step t t'"

lemma implementsD: "implements pre m \<Longrightarrow> outcome m t r t' \<Longrightarrow> market_inv t \<Longrightarrow> pre t \<Longrightarrow> moves t t'"
  unfolding implements_def by blast

lemma implementsT: "implements (\<lambda>_. True) m \<Longrightarrow> outcome m t r t' \<Longrightarrow> market_inv t \<Longrightarrow> moves t t'"
  unfolding implements_def by blast

lemmas method_implements = CreateItem_implements SaveCategory_implements CreateOrder_implements
  CreateRefund_implements CreateDispute_implements WithdrawItem_implements HideItem_implements
  AttachPaymentTransaction_implements ApplyPaymentCallback_implements CancelOrder_implements
  MarkDelivered_implements DecideRefund_implements ResolveDispute_implements ExpireOrder_implements
  UpdateSettlement_implements

lemmas method_moves = method_implements [THEN implementsT]

lemma market_step_moves: "market_step t t' \<Longrightarrow> market_inv t \<Longrightarrow> moves t t'"
proof (induction rule: market_step.induct)
  case update_item
  then show ?case using implementsD [OF UpdateItem_implements] by blast
next
  case create_payment
  then show ?case using implementsD [OF CreateOrFindPayment_implements] by blast
next
  case confirm
  then show ?case using implementsD [OF ConfirmReceived_implements] by blast
next
  case auto_complete
  then show ?case using implementsD [OF AutoCompleteOrder_implements] by blast
qed (blast intro: method_moves)+

text \<open>The repository refines the abstract machine, and keeps the invariant.\<close>

lemma market_step_refines: "market_step t t' \<Longrightarrow> market_inv t \<Longrightarrow> spec_step (view t) (view t')"
  using market_step_moves by (auto simp: moves_def)

lemma market_step_inv: "market_step t t' \<Longrightarrow> market_inv t \<Longrightarrow> market_inv t'"
  using market_step_moves [of t t'] spec_step_inv [of "view t" "view t'"]
  by (auto simp: moves_def market_inv_def)

definition market_start :: "market_db \<Rightarrow> bool" where
  "market_start t \<longleftrightarrow> rates_ok t \<and> items t = [] \<and> orders t = [] \<and> payments t = [] \<and> refunds t = [] \<and>
     disputes t = [] \<and> settlements t = []"

lemma market_start_inv: "market_start t \<Longrightarrow> market_inv t"
  by (auto simp: market_start_def market_inv_def keys_ok_def items_ok_def orders_ok_def payments_ok_def
      refunds_ok_def disputes_ok_def settlements_ok_def view_inv_def items_part_def pays_part_def
      refunds_part_def disputes_part_def settles_part_def one_refund_def lookup_def List.map_filter_def)

interpretation market: invariant_system market_start market_step market_inv
  by unfold_locales (auto intro: market_start_inv market_step_inv)


section \<open>What the invariant says of the rows\<close>

lemma order_row:
  assumes "market_inv t" and "d \<in> set (orders t)"
  shows "lookup Order_ID (orders t) (Order_ID d) = Some d"
  using assms by (intro lookup_member) (auto simp: market_inv_def keys_okD)

lemma payment_row:
  assumes "market_inv t" and "p \<in> set (payments t)"
  shows "lookup Payment_ID (payments t) (Payment_ID p) = Some p"
  using assms by (intro lookup_member) (auto simp: market_inv_def keys_okD)

lemma settlement_row':
  assumes "market_inv t" and "s \<in> set (settlements t)"
  shows "lookup Settlement_ID (settlements t) (Settlement_ID s) = Some s"
  using assms by (intro lookup_member) (auto simp: market_inv_def keys_okD)

lemma refund_row:
  assumes "market_inv t" and "r \<in> set (refunds t)"
  shows "lookup Refund_ID (refunds t) (Refund_ID r) = Some r"
  using assms by (intro lookup_member) (auto simp: market_inv_def keys_okD)

lemma market_inv_parts:
  assumes "market_inv t"
  shows "items_part (lookup Item_ID (items t)) (lookup Order_ID (orders t))"
    "pays_part (lookup Order_ID (orders t)) (lookup Payment_ID (payments t))"
    "refunds_part (lookup Order_ID (orders t)) (lookup Refund_ID (refunds t))"
    "disputes_part (lookup Order_ID (orders t)) (lookup Dispute_ID (disputes t))"
    "settles_part (lookup Order_ID (orders t)) (lookup Settlement_ID (settlements t))"
  using assms by (simp_all add: market_inv_def view_inv_def)

text \<open>No item is being sold to two buyers.\<close>

lemma one_active_order:
  assumes inv: "market_inv t" and "d \<in> set (orders t)" "e \<in> set (orders t)" "active d" "active e"
    and "Order_ItemID d = Order_ItemID e"
  shows "d = e"
proof -
  note d = order_row [OF inv assms(2)] and e = order_row [OF inv assms(3)]
  have "Order_ID d = Order_ID e"
    by (rule items_partD(3) [OF market_inv_parts(1) [OF inv], where d = d and e = e
          and j = "Order_ID d" and k = "Order_ID e"]) (fact d e assms(4-6))+
  with d e have "Some d = Some e" by (metis (no_types))
  then show ?thesis by blast
qed

lemma order_terms:
  assumes "market_inv t" and "d \<in> set (orders t)"
  shows "terms_ok d"
  using items_partD(2) [OF market_inv_parts(1) [OF assms(1)] order_row [OF assms]] by (simp add: order_inv_def)

text \<open>An order beyond payment has been paid once, in full.\<close>

lemma paid_once:
  assumes inv: "market_inv t" and d: "d \<in> set (orders t)" and paid: "paid_for d"
  shows "\<exists>!p. p \<in> set (payments t) \<and> paid_by (Order_ID d) p"
    and "p \<in> set (payments t) \<Longrightarrow> paid_by (Order_ID d) p \<Longrightarrow> Payment_AmountCents p = Order_PriceCents d"
proof -
  note part = market_inv_parts(2) [OF inv]
  note row = order_row [OF inv d]
  obtain j p where p: "lookup Payment_ID (payments t) j = Some p" "paid_by (Order_ID d) p"
    using pays_partD(2) [OF part row paid] by blast
  show "\<exists>!p. p \<in> set (payments t) \<and> paid_by (Order_ID d) p"
  proof
    show "p \<in> set (payments t) \<and> paid_by (Order_ID d) p" using p by (auto dest: lookup_SomeD)
    fix q assume q: "q \<in> set (payments t) \<and> paid_by (Order_ID d) q"
    with pays_partD(3) [OF part p(1) payment_row [OF inv, of q] p(2)] payment_row [OF inv, of q] p(1)
    show "q = p" by simp
  qed
  show "Payment_AmountCents p = Order_PriceCents d"
    if "p \<in> set (payments t)" "paid_by (Order_ID d) p" for p
    using pays_partD(1) [OF part payment_row [OF inv that(1)]] that(2) row
    by (auto simp: pay_fits_def paid_by_def)
qed

lemma not_paid:
  assumes inv: "market_inv t" and d: "d \<in> set (orders t)" and "\<not> paid_for d"
    and p: "p \<in> set (payments t)"
  shows "\<not> paid_by (Order_ID d) p"
  using pays_partD(1) [OF market_inv_parts(2) [OF inv] payment_row [OF inv p]] order_row [OF inv d] assms(3)
  by (auto simp: pay_fits_def paid_by_def)

lemma settled_once:
  assumes inv: "market_inv t" and d: "d \<in> set (orders t)" and st: "Order_Status d = OrderCompleted"
  shows "\<exists>!s. s \<in> set (settlements t) \<and> Settlement_OrderID s = Order_ID d"
proof -
  note part = market_inv_parts(5) [OF inv]
  obtain j s where s: "lookup Settlement_ID (settlements t) j = Some s" "Settlement_OrderID s = Order_ID d"
    using part order_row [OF inv d] st unfolding settles_part_def by blast
  show ?thesis
  proof
    show "s \<in> set (settlements t) \<and> Settlement_OrderID s = Order_ID d" using s by (auto dest: lookup_SomeD)
    fix x assume x: "x \<in> set (settlements t) \<and> Settlement_OrderID x = Order_ID d"
    with settlement_row' [OF inv, of x] s part have "Settlement_ID x = j" unfolding settles_part_def by metis
    with settlement_row' [OF inv, of x] x s(1) show "x = s" by simp
  qed
qed

lemma settlement_amount:
  assumes inv: "market_inv t" and s: "s \<in> set (settlements t)"
    and d: "d \<in> set (orders t)" "Settlement_OrderID s = Order_ID d"
  shows "Order_Status d = OrderCompleted \<and> Settlement_AmountCents s = Order_SellerNetCents d"
  using market_inv_parts(5) [OF inv] settlement_row' [OF inv s] order_row [OF inv d(1)] d(2)
  unfolding settles_part_def by fastforce

lemma refund_amount:
  assumes inv: "market_inv t" and r: "r \<in> set (refunds t)"
    and d: "d \<in> set (orders t)" "Refund_OrderID r = Order_ID d"
  shows "Refund_AmountCents r = Order_PriceCents d \<and> refund_fits (Refund_Status r) (Order_Status d)"
  using refunds_partD(2) [OF market_inv_parts(3) [OF inv] refund_row [OF inv r]] order_row [OF inv d(1)] d(2)
  by auto

section \<open>The life of an order\<close>

text \<open>The moves the code allows between the statuses of an order.\<close>

fun order_edge :: "order_status \<Rightarrow> order_status \<Rightarrow> bool" where
  "order_edge OrderPendingPayment s \<longleftrightarrow> s \<in> {OrderPaid, OrderCancelled}"
| "order_edge OrderPaid s \<longleftrightarrow> s \<in> {OrderDelivered, OrderDisputed, OrderRefunded}"
| "order_edge OrderDelivered s \<longleftrightarrow> s \<in> {OrderCompleted, OrderDisputed, OrderRefunded}"
| "order_edge OrderDisputed s \<longleftrightarrow> s \<in> {OrderPaid, OrderDelivered, OrderRefunded}"
| "order_edge OrderCompleted s \<longleftrightarrow> False"
| "order_edge OrderCancelled s \<longleftrightarrow> False"
| "order_edge OrderRefunded s \<longleftrightarrow> False"

lemma same_terms_refl [simp]: "same_terms d d"
  by (simp add: same_terms_def)

lemma same_terms_trans: "same_terms a b \<Longrightarrow> same_terms b c \<Longrightarrow> same_terms a c"
  by (simp add: same_terms_def)

definition order_moves :: "(int64 \<rightharpoonup> order) \<Rightarrow> (int64 \<rightharpoonup> order) \<Rightarrow> bool" where
  "order_moves m m' \<longleftrightarrow> (\<forall>k d. m k = Some d \<longrightarrow> (\<exists>d'. m' k = Some d' \<and> same_terms d d' \<and>
     (Order_Status d' = Order_Status d \<or> order_edge (Order_Status d) (Order_Status d'))))"

lemma order_moves_refl [simp]: "order_moves m m"
  by (auto simp: order_moves_def)

lemma order_moves_update:
  assumes "m k = Some d" and "order_to s d d'" and "order_edge (Order_Status d) s"
  shows "order_moves m (m(k \<mapsto> d'))"
  using assms by (auto simp: order_moves_def order_to_def)

lemma spec_step_orders: "spec_step v v' \<Longrightarrow> view_inv v \<Longrightarrow> order_moves (vorder v) (vorder v')"
proof (induction rule: spec_step.induct)
  case (resume_disputed v k x d d' x')
  from resume_disputed.prems have part: "disputes_part (vorder v) (vdispute v)" by (rule view_invE)
  from disputes_partD(1) [OF part resume_disputed.hyps(1)] resume_disputed.hyps(4)
  have "order_edge (Order_Status d) (Dispute_PreviousOrderStatus x)" by auto
  from order_moves_update [of "vorder v", OF resume_disputed.hyps(3,5) this] show ?case
    by (simp add: fun_upd_def)
qed (auto simp: order_moves_def order_to_def)


text \<open>Along any run of the marketplace an order keeps its terms and moves along the edges.\<close>

lemma market_step_orders:
  assumes "market_step t t'" and "market_inv t"
  shows "order_moves (lookup Order_ID (orders t)) (lookup Order_ID (orders t'))"
proof -
  from assms(2) have "view_inv (view t)" by (simp add: market_inv_def)
  from spec_step_orders [OF market_step_refines [OF assms] this] show ?thesis by simp
qed

lemma market_run_orders:
  assumes "market_step\<^sup>*\<^sup>* t t'" and "market_inv t" and d: "lookup Order_ID (orders t) k = Some d"
  shows "\<exists>d'. lookup Order_ID (orders t') k = Some d' \<and> same_terms d d' \<and>
    order_edge\<^sup>*\<^sup>* (Order_Status d) (Order_Status d')"
  using assms(1)
proof (induction rule: rtranclp_induct)
  case base
  with d show ?case by auto
next
  case (step u w)
  from step.IH obtain e where e: "lookup Order_ID (orders u) k = Some e" "same_terms d e"
    "order_edge\<^sup>*\<^sup>* (Order_Status d) (Order_Status e)" by blast
  have "market_inv u" using market.steps_inv [OF step.hyps(1) assms(2)] .
  from market_step_orders [OF step.hyps(2) this] e(1) obtain f where
    "lookup Order_ID (orders w) k = Some f" "same_terms e f"
    "Order_Status f = Order_Status e \<or> order_edge (Order_Status e) (Order_Status f)"
    unfolding order_moves_def by blast
  with e show ?case by (auto intro: same_terms_trans rtranclp.rtrancl_into_rtrancl)
qed

lemma final_status:
  assumes "order_edge\<^sup>*\<^sup>* s s'" and "s \<in> {OrderCompleted, OrderCancelled, OrderRefunded}"
  shows "s' = s"
  using assms by (induction rule: rtranclp_induct) auto

text \<open>A settlement that succeeded is never touched again.\<close>

lemma spec_step_settled:
  "spec_step v v' \<Longrightarrow> vsettle v k = Some s \<Longrightarrow> Settlement_Status s = RecordSucceeded \<Longrightarrow> vsettle v' k = Some s"
  by (induction rule: spec_step.induct) auto

lemma market_run_settled:
  assumes "market_step\<^sup>*\<^sup>* t t'" and "market_inv t"
    and "lookup Settlement_ID (settlements t) k = Some s" and "Settlement_Status s = RecordSucceeded"
  shows "lookup Settlement_ID (settlements t') k = Some s"
  using assms(1)
proof (induction rule: rtranclp_induct)
  case (step u w)
  have "market_inv u" using market.steps_inv [OF step.hyps(1) assms(2)] .
  from spec_step_settled [OF market_step_refines [OF step.hyps(2) this], of k s] step.IH assms(4)
  show ?case by simp
qed (rule assms(3))

text \<open>A succeeded payment stays succeeded, with its amount and order.\<close>

lemma spec_step_paid:
  "spec_step v v' \<Longrightarrow> vpay v k = Some p \<Longrightarrow> Payment_Status p = RecordSucceeded \<Longrightarrow>
     \<exists>q. vpay v' k = Some q \<and> Payment_Status q = RecordSucceeded \<and> Payment_OrderID q = Payment_OrderID p \<and>
       Payment_AmountCents q = Payment_AmountCents p"
  by (induction rule: spec_step.induct) auto

end
