(* ===== verification/Marketplace_Calls.thy ===== *)
theory Marketplace_Calls
  imports Marketplace_System
begin

text \<open>
  Every call of the marketplace service is a sequence of steps of the transition system: the service
  builds the rows it hands to the repository the way the repository needs them. Failed calls are
  calls too.
\<close>

abbreviation steps :: "market_db \<Rightarrow> market_db \<Rightarrow> bool" where
  "steps \<equiv> market_step\<^sup>*\<^sup>*"

abbreviation runs :: "market_db \<Rightarrow> (market_db, market_event, 'e, 'a) prog \<Rightarrow> bool" where
  "runs t0 m \<equiv> keeps (steps t0) m"

lemma step_keeps:
  assumes "\<And>t r t'. outcome m t r t' \<Longrightarrow> market_step t t'"
  shows "runs t0 m"
  unfolding keeps_def using assms by (blast intro: rtranclp.rtrancl_into_rtrancl)

section \<open>Pieces that only read\<close>

lemma helper_keeps [intro]:
  "keeps I (check e)" "keeps I (result x)" "keeps I (present err y)" "keeps I (notify s u ev ti co re)"
  by (auto simp: check_def result_def present_def notify_def split: option.split sum.split)

lemma wrap_keeps [intro]:
  "keeps I m \<Longrightarrow> keeps I (internal msg m)" "keeps I m \<Longrightarrow> keeps I (or_error err m)"
  "keeps I m \<Longrightarrow> keeps I (on_state err msg m)"
  by (auto simp: internal_error_def fixed_error_def on_state_def)

lemma map_prog_keeps: "(\<And>x. keeps I (f x)) \<Longrightarrow> keeps I (map_prog f xs)"
  by (induction xs) (auto intro!: keeps_bind)

lemma read_keeps [intro]:
  "keeps I (ListCategories by_name b)" "keeps I (FindCategory k)" "keeps I (FindItem k)"
  "keeps I (repo_SearchItems like u mine kw c p z)" "keeps I (FindOrder k)"
  "keeps I (repo_ListOrders u adm p z)" "keeps I (FindRefund k)" "keeps I (FindDispute k)"
  "keeps I (listRecords tab cr p z)" "keeps I (ListExpiredOrderIDs now n)"
  "keeps I (ListAutoCompleteOrderIDs co n)" "keeps I (FindSettlement k)" "keeps I (ListRetrySettlementIDs n)"
  unfolding ListCategories_def FindCategory_def FindItem_def repo_SearchItems_def FindOrder_def
    repo_ListOrders_def FindRefund_def FindDispute_def listRecords_def ListExpiredOrderIDs_def
    ListAutoCompleteOrderIDs_def FindSettlement_def ListRetrySettlementIDs_def Let_def
  by (auto intro!: keeps_bind keeps_basic keeps_find_row load_item_keeps load_order_keeps map_prog_keeps
      split: option.split)

lemma guard_keeps [intro]:
  "keeps I (checkNewListing s u v)" "keeps I (checkTrade s u v)" "keeps I (filterText s txt)"
  unfolding checkNewListing_def checkTrade_def filterText_def
  by (auto intro!: keeps_bind keeps_basic helper_keeps split: option.split)

lemmas keeps_intros = keeps_bind keeps_basic keeps_find_row keeps_attempt keeps_map_error helper_keeps
  wrap_keeps read_keeps guard_keeps

lemma itemFromRequest_keeps [intro]: "keeps I (itemFromRequest s req)"
  unfolding itemFromRequest_def Let_def
  by (auto intro!: keeps_intros split: option.split)

lemma same_state: "(\<And>I. keeps I m) \<Longrightarrow> outcome m t r t' \<Longrightarrow> t' = t"
  using keepsD [of "\<lambda>s. s = t" m t r t'] by simp

section \<open>Repository methods as steps\<close>

lemma method_steps [intro]:
  "runs t0 (repo_WithdrawItem iid owner now)" "runs t0 (repo_HideItem iid now)"
  "runs t0 (AttachPaymentTransaction pid tx now)"
  "runs t0 (ApplyPaymentCallback req tx amount now)"
  "runs t0 (repo_CancelOrder oid buyer now)" "runs t0 (repo_MarkDelivered oid seller now)"
  "runs t0 (repo_DecideRefund rid admin approved g now)"
  "runs t0 (repo_ResolveDispute did admin action res g rf now)"
  "runs t0 (repo_ExpireOrder oid now)" "runs t0 (UpdateSettlement sid status g now)"
  by (rule step_keeps, erule market_step.intros)+

lemma processSettlement_steps [intro]: "runs t0 (processSettlement s sid now)"
  unfolding processSettlement_def
  by (auto intro!: keeps_intros method_steps split: sum.split option.split)

lemma retry_loop_steps: "runs t0 (retry_loop s clock k ids)"
  by (induction ids arbitrary: k) (auto intro!: keeps_intros processSettlement_steps)

lemma expire_loop_steps: "runs t0 (expire_loop s now ids)"
  by (induction ids) (auto intro!: keeps_intros method_steps split: option.split)


section \<open>Calls that hand no new row over\<close>

lemma simple_calls [intro]:
  "runs t0 (WithdrawItem u iid now)" "runs t0 (TestPaymentCallback s cb now)"
  "runs t0 (CancelOrder s u oid now)" "runs t0 (MarkDelivered s u oid now)"
  "runs t0 (RetrySettlement s sid now)" "runs t0 (HideForModeration s iid now notice)"
  "runs t0 (RetryPendingSettlements s clock)"
  unfolding WithdrawItem_def TestPaymentCallback_def CancelOrder_def MarkDelivered_def RetrySettlement_def
    HideForModeration_def RetryPendingSettlements_def
  by (auto intro!: keeps_intros method_steps processSettlement_steps retry_loop_steps split: option.split sum.split)

lemma DecideRefund_steps [intro]: "runs t0 (DecideRefund s rid admin approved now)"
  unfolding DecideRefund_def by (auto intro!: keeps_intros method_steps)

lemma ResolveDispute_steps [intro]: "runs t0 (ResolveDispute s did admin req newID now)"
  unfolding ResolveDispute_def Let_def by (auto intro!: keeps_intros method_steps)

lemma CreateOrder_steps [intro]: "runs t0 (CreateOrder s u r iid newID now)"
proof -
  have "runs t0 (repo_CreateOrder (new_order newID i u r now))" for i
    by (rule step_keeps) (erule create_order, simp add: new_order_def)
  then show ?thesis unfolding CreateOrder_def by (auto intro!: keeps_intros)
qed

lemma RequestRefund_steps [intro]: "runs t0 (RequestRefund s u oid req newID now)"
proof -
  have "runs t0 (repo_CreateRefund (new_refund newID k u a b now))" for k a b
    by (rule step_keeps) (erule create_refund, simp add: new_refund_def)
  then show ?thesis unfolding RequestRefund_def Let_def by (auto intro!: keeps_intros)
qed

lemma CreateDispute_steps [intro]: "runs t0 (CreateDispute s u oid reason newID now)"
proof -
  have "runs t0 (repo_CreateDispute (new_dispute newID k u a now) now)" for k a
    by (rule step_keeps) (erule create_dispute, simp add: new_dispute_def)
  then show ?thesis unfolding CreateDispute_def Let_def by (auto intro!: keeps_intros)
qed

section \<open>Calls that depend on what they read\<close>

text \<open>Running a pure or read-only piece first leaves the tables as they are.\<close>

lemma read_first:
  assumes "outcome (bind m f) t r t'" and "\<And>I. keeps I m"
    and "\<And>x. outcome m t (Inr x) t \<Longrightarrow> outcome (f x) t r t' \<Longrightarrow> Q"
    and "t' = t \<Longrightarrow> Q"
  shows Q
  using assms(1)
proof (rule outcome_bindE)
  fix e assume "outcome m t (Inl e) t'"
  then show Q using same_state [OF assms(2)] assms(4) by blast
next
  fix x t1 assume "outcome m t (Inr x) t1" "outcome (f x) t1 r t'"
  moreover from this have "t1 = t" using same_state [OF assms(2)] by blast
  ultimately show Q using assms(3) by blast
qed

text \<open>A step first, then a tail that makes steps.\<close>

lemma step_first:
  assumes "outcome (bind m f) t r t'" and "\<And>r1 t1. outcome m t r1 t1 \<Longrightarrow> steps t t1"
    and "\<And>x. runs t (f x)"
  shows "steps t t'"
  using assms(1) by (rule outcome_bindE) (use assms(2) keepsD [OF assms(3)] in blast)+

lemma outcome_wrapE:
  assumes "outcome (internal msg m) t r t' \<or> outcome (on_state err msg m) t r t'"
  shows "\<exists>q. outcome m t q t'"
  using assms unfolding internal_error_def on_state_def by (auto elim: outcome_map_errorE)

lemma itemFromRequest_yields:
  assumes "outcome (itemFromRequest s req) t (Inr it) t'"
  shows "Item_Status it \<in> {ItemDraft, ItemPublished} \<and> Item_ReservedOrderID it = None \<and>
    Item_PriceCents it = ItemReq_PriceCents req \<and> 0 < ItemReq_PriceCents req \<and>
    Item_Images it = ItemReq_Images req \<and> validateImages (ItemReq_Images req) = None"
proof -
  have listing: "listing_status raw = Some st \<Longrightarrow> st \<in> {ItemDraft, ItemPublished}" for raw st
    by (auto simp: listing_status_def Let_def split: if_splits)
  from assms show ?thesis
    unfolding itemFromRequest_def Let_def
    by (auto dest!: outcome_bind_Inr dest: listing simp: check_def zero_item_def run_simps split: option.splits if_splits)
qed

lemma CreateItem_steps:
  assumes "outcome (CreateItem s u r req newID now) t res t'" and "ItemReq_PriceCents req < 2 ^ 63"
  shows "steps t t'"
proof -
  from assms(1) show ?thesis
    unfolding CreateItem_def
  proof (rule read_first)
    assume "outcome (bind (itemFromRequest s req) (\<lambda>it. let it = it\<lparr>Item_ID := newID,
        Item_SellerRootUserID := r, Item_SellerUserID := u, Item_CreatedAt := now, Item_UpdatedAt := now\<rparr>
      in bind (internal MCreateItem (repo_CreateItem it)) (\<lambda>_.
        bind (attempt (FindCategory (Item_CategoryID it))) (\<lambda>r.
        let c = (case r of Inr (Some c) \<Rightarrow> c | _ \<Rightarrow> zero_category)
        in ret (itemResponse (rfc3339 s) (it, c)))))) t res t'"
    then show ?thesis
    proof (rule read_first)
      fix it assume it: "outcome (itemFromRequest s req) t (Inr it) t"
      let ?it = "it\<lparr>Item_ID := newID, Item_SellerRootUserID := r, Item_SellerUserID := u,
        Item_CreatedAt := now, Item_UpdatedAt := now\<rparr>"
      have ok: "Item_Status ?it \<in> {ItemDraft, ItemPublished}" "Item_ReservedOrderID ?it = None"
        "price_ok (Item_PriceCents ?it)"
        using itemFromRequest_yields [OF it] assms(2) by (auto simp: price_ok_def)
      have first: "steps t t1" if "outcome (internal MCreateItem (repo_CreateItem ?it)) t r1 t1" for r1 t1
        using outcome_wrapE [OF disjI1 [OF that]] ok by (blast intro: create_item)
      assume "outcome (let it = ?it in bind (internal MCreateItem (repo_CreateItem it)) (\<lambda>_.
        bind (attempt (FindCategory (Item_CategoryID it))) (\<lambda>r.
        let c = (case r of Inr (Some c) \<Rightarrow> c | _ \<Rightarrow> zero_category)
        in ret (itemResponse (rfc3339 s) (it, c))))) t res t'"
      then show ?thesis unfolding Let_def
        by (rule step_first) (use first in \<open>auto intro!: keeps_intros\<close>)
    qed (auto intro!: keeps_intros itemFromRequest_keeps)
  qed (auto intro!: keeps_intros)
qed


lemma FindItem_row:
  assumes "outcome (or_error err (FindItem iid)) t (Inr (Some v)) t'"
  shows "lookup Item_ID (items t) iid = Some (fst v)"
  using assms unfolding fixed_error_def FindItem_def load_item_def
  by (auto dest!: outcome_bind_Inr outcome_find_row simp: run_simps find_key split: option.splits)

lemma FindOrder_row:
  assumes "outcome (or_error err (FindOrder oid)) t (Inr (Some v)) t'"
  shows "lookup Order_ID (orders t) oid = Some (fst v)"
  using assms unfolding fixed_error_def FindOrder_def load_order_def load_item_def
  by (auto dest!: outcome_bind_Inr outcome_find_row simp: run_simps find_key split: option.splits)

lemma present_value: "outcome (present err x) t (Inr y) t' \<Longrightarrow> x = Some y"
  by (auto simp: present_def run_simps split: option.splits)

lemma first_steps:
  assumes "outcome (internal msg m) t r t' \<or> outcome (on_state err msg m) t r t'"
    and "\<And>q. outcome m t q t' \<Longrightarrow> market_step t t'"
  shows "steps t t'"
  using outcome_wrapE [OF assms(1)] assms(2) by blast

lemma UpdateItem_steps:
  assumes "outcome (UpdateItem s u r iid req now) t res t'" and "ItemReq_PriceCents req < 2 ^ 63"
  shows "steps t t'"
  using assms(1) unfolding UpdateItem_def
  apply (elim read_first [where m = "checkNewListing s u r"], blast intro: keeps_intros)
   apply (erule read_first, blast intro: keeps_intros)
    apply (erule read_first, blast intro: keeps_intros)
     apply (erule read_first, blast intro: keeps_intros)
      apply (clarsimp simp del: Let_def split del: if_split)
      apply (erule read_first, blast intro: keeps_intros)
       apply (erule read_first, rule itemFromRequest_keeps)
  subgoal premises p for k found current c y it
  proof -
    let ?it = "it\<lparr>Item_ID := k, Item_UpdatedAt := now, Item_Status := (if TrimSpace (ItemReq_Status req) = []
        then Item_Status current else Item_Status it)\<rparr>"
    have "lookup Item_ID (items t) k = Some current"
      using FindItem_row p present_value by fastforce
    then have ok: "item_edit_ok ?it t"
      using itemFromRequest_yields [of s req t it t] p assms(2) by (auto simp: item_edit_ok_def price_ok_def)
    have first: "steps t t1" if "outcome (internal MUpdateItem (repo_UpdateItem ?it r)) t r1 t1" for r1 t1
      by (rule first_steps [OF disjI1 [OF that]]) (rule update_item [OF _ ok])
    show ?thesis using p(7) unfolding Let_def
      by (rule step_first) (use first in \<open>auto intro!: keeps_intros\<close>)
  qed
  by auto

lemma StartPayment_steps:
  assumes "outcome (StartPayment s u oid req newID now now') t res t'"
  shows "steps t t'"
proof (cases "Name (env_gateway s) = ''disabled''")
  case True
  with assms show ?thesis by (simp add: StartPayment_def run_simps)
next
  case False
  from assms False show ?thesis
    unfolding StartPayment_def
    apply simp
    apply (erule read_first, blast intro: keeps_intros)
     apply (erule read_first, blast intro: keeps_intros)
      apply (erule read_first, blast intro: keeps_intros)
       apply (clarsimp simp del: Let_def split del: if_split)
       apply (erule read_first, blast intro: keeps_intros)
    subgoal premises p for k found ord it c y
    proof (cases "TrimSpace req = []")
      case True
      with p(6) show ?thesis by (simp add: run_simps)
    next
      case False
      let ?p = "new_payment newID k (Order_PriceCents ord) (Name (env_gateway s)) (TrimSpace req) now"
      have "lookup Order_ID (orders t) k = Some ord"
        using FindOrder_row p present_value by fastforce
      then have ok: "payment_for ?p t" by (simp add: payment_for_def new_payment_def)
      have first: "steps t t1" if "outcome (on_state ErrOrderState MCreatePayment (CreateOrFindPayment ?p)) t r1 t1"
        for r1 t1 by (rule first_steps [OF disjI2 [OF that]]) (rule create_payment [OF _ ok])
      show ?thesis using p(6) False unfolding Let_def
        by simp (rule step_first, assumption, use first in \<open>auto intro!: keeps_intros method_steps split: option.split\<close>)
    qed
    by auto
qed


lemma FindCategory_row:
  assumes "outcome (internal msg (FindCategory k)) t (Inr (Some c)) t'"
  shows "c \<in> set (categories t)"
  using assms unfolding internal_error_def FindCategory_def
  by (auto dest!: outcome_bind_Inr outcome_find_row simp: run_simps dest: find_member [OF sym])

lemma save_steps:
  assumes "outcome (bind (internal MSaveCategory (repo_SaveCategory save c)) (\<lambda>_. ret (categoryResponse c))) t res t'"
    and "saves save" and "valid_rate (Category_CommissionRateBps c)"
  shows "steps t t'"
proof -
  have "steps t t1" if "outcome (internal MSaveCategory (repo_SaveCategory save c)) t r1 t1" for r1 t1
    by (rule first_steps [OF disjI1 [OF that]]) (rule save_category [OF _ assms(2,3)])
  with assms(1) show ?thesis by (rule step_first) (auto intro!: keeps_intros)
qed

lemma SaveCategory_steps:
  assumes run: "outcome (SaveCategory save cid req newID now) t res t'" and inv: "market_inv t"
    and save: "saves save" and req: "category_req_bound req"
  shows "steps t t'"
proof (cases "TrimSpace (CategoryReq_Name req) = []")
  case True
  with run show ?thesis by (simp add: SaveCategory_def run_simps)
next
  case name: False
  have rate: "valid_rate (case CategoryReq_CommissionRateBps req of None \<Rightarrow> DefaultCommissionRateBps | Some r \<Rightarrow> r)"
    using req by (auto simp: category_req_bound_def valid_rate_def DefaultCommissionRateBps_def split: option.splits)
  have old: "valid_rate (Category_CommissionRateBps c)" if "c \<in> set (categories t)" for c
    using that inv by (auto simp: market_inv_def rates_ok_def list_all_iff)
  show ?thesis
  proof (cases "TrimSpace cid = []")
    case True
    from run name True show ?thesis unfolding SaveCategory_def Let_def
      apply simp
      apply (erule read_first, rule keeps_basic)
       apply (erule save_steps [OF _ save])
      using rate by (auto simp: run_simps)
  next
    case False
    from run name False show ?thesis unfolding SaveCategory_def Let_def
      apply simp
      apply (erule read_first)
        apply (auto intro!: keeps_intros)[1]
       apply (erule save_steps [OF _ save])
      using rate by (auto dest!: outcome_bind_Inr simp: run_simps
          dest!: present_value FindCategory_row same_state [OF helper_keeps(2)] intro: old)
  qed
qed

lemma ConfirmReceived_steps:
  assumes run: "outcome (ConfirmReceived s u oid newID now now') t res t'"
    and fresh: "lookup Settlement_ID (settlements t) newID = None"
  shows "steps t t'"
  using run unfolding ConfirmReceived_def
proof (rule read_first)
  fix k
  let ?s = "newSettlement newID k 0 now"
  have ok: "settlement_for k ?s t" using fresh by (simp add: settlement_for_def newSettlement_def)
  have first: "steps t t1" if "outcome (on_state ErrOrderState MConfirmReceipt (repo_ConfirmReceived k u ?s now)) t r1 t1"
    for r1 t1 by (rule first_steps [OF disjI2 [OF that]]) (rule confirm [OF _ ok])
  assume "outcome (let stl = ?s in bind (on_state ErrOrderState MConfirmReceipt (repo_ConfirmReceived k u stl now)) (\<lambda>ord.
        bind (attempt (processSettlement s newID now')) (\<lambda>_ :: market_error + unit.
        notify s (Order_SellerRootUserID (fst ord)) ''marketplace.order.completed'' TOrderCompleted
          (item_title ord) (marketplaceID (Order_ID (fst ord)))))) t res t'"
  then show ?thesis unfolding Let_def
    by (rule step_first) (use first in \<open>auto intro!: keeps_intros processSettlement_steps\<close>)
qed (auto intro!: keeps_intros)

section \<open>The scheduled jobs\<close>

text \<open>Identifiers of settlements: only \<open>AutoCompleteOrder\<close> adds one, the one it was given.\<close>

definition unused :: "int64 \<Rightarrow> market_db \<Rightarrow> bool" where
  "unused x t \<longleftrightarrow> x \<notin> set (map Settlement_ID (settlements t))"

lemma unused_lookup: "unused x t \<Longrightarrow> lookup Settlement_ID (settlements t) x = None"
  by (auto simp: unused_def lookup_def find_None_iff)

lemma AutoCompleteOrder_unused:
  "Settlement_ID s \<noteq> x \<Longrightarrow> keeps (unused x) (AutoCompleteOrder oid co s now)"
  unfolding AutoCompleteOrder_def completeOrderTx_def
  by (auto intro!: keeps_intros keeps_whole_transaction keeps_update_where keeps_create_or_ignore
      load_order_keeps keeps_fail_if simp: unused_def split: option.split)

lemma processSettlement_unused: "keeps (unused x) (processSettlement s sid now)"
proof -
  have "keeps (unused x) (UpdateSettlement sid st g now)" for st g
    unfolding UpdateSettlement_def
    by (auto intro!: keeps_intros keeps_update_where simp: unused_def map_key_update_rows)
  then show ?thesis unfolding processSettlement_def
    by (auto intro!: keeps_intros split: sum.split option.split)
qed

lemma expire_loop_unused: "keeps (unused x) (expire_loop s now ids)"
proof -
  have "keeps (unused x) (repo_ExpireOrder oid now)" for oid
    unfolding repo_ExpireOrder_def release_item_def
    by (auto intro!: keeps_intros keeps_whole_transaction keeps_update_where load_order_keeps
        simp: unused_def split: option.split)
  then show ?thesis by (induction ids) (auto intro!: keeps_intros split: option.split)
qed

lemma after_completion_steps: "runs t0 (after_completion s sid now r)"
  unfolding after_completion_def
  by (auto intro!: keeps_intros processSettlement_steps split: option.split)

lemma after_completion_unused: "keeps (unused x) (after_completion s sid now r)"
  unfolding after_completion_def
  by (auto intro!: keeps_intros processSettlement_unused split: option.split)

lemma complete_loop_steps:
  assumes "outcome (complete_loop s now newID clock k ids) t r t'" and "inj newID"
    and "\<And>j. k \<le> j \<Longrightarrow> unused (newID j) t"
  shows "steps t t'"
  using assms
proof (induction ids arbitrary: k t)
  case Nil
  then show ?case by (simp add: run_simps)
next
  case (Cons oid rest)
  let ?s = "newSettlement (newID k) oid 0 now"
  let ?m = "internal MAutoComplete (AutoCompleteOrder oid (now - autoCompleteDelay) ?s now)"
  have ok: "settlement_for oid ?s t"
    using Cons.prems(3) [of k] by (auto simp: settlement_for_def newSettlement_def intro: unused_lookup)
  have first: "steps t t1" if "outcome ?m t r1 t1" for r1 t1
    by (rule first_steps [OF disjI1 [OF that]]) (rule auto_complete [OF _ ok])
  have later: "keeps (unused (newID j)) ?m" if "Suc k \<le> j" for j
    using that injD [OF Cons.prems(2), of j k]
    by (intro wrap_keeps AutoCompleteOrder_unused) (auto simp: newSettlement_def)
  from Cons.prems(1) show ?case unfolding complete_loop.simps
  proof (elim outcome_bindE)
    fix e assume "outcome ?m t (Inl e) t'"
    then show ?thesis by (rule first)
  next
    fix x t1 e assume "outcome ?m t (Inr x) t1" "outcome (after_completion s (newID k) (clock k) x) t1 (Inl e) t'"
    then show ?thesis using first keepsD [OF after_completion_steps] by blast
  next
    fix x t1 y t2
    assume m: "outcome ?m t (Inr x) t1"
      and mid: "outcome (after_completion s (newID k) (clock k) x) t1 (Inr y) t2"
      and rest: "outcome (complete_loop s now newID clock (Suc k) rest) t2 r t'"
    have "steps t t2" using first [OF m] keepsD [OF after_completion_steps mid] by blast
    moreover have "unused (newID j) t2" if "Suc k \<le> j" for j
      using keepsD [OF after_completion_unused mid] keepsD [OF later [OF that] m] Cons.prems(3) [of j] that by simp
    then have "steps t2 t'" using Cons.IH [OF rest Cons.prems(2)] by blast
    ultimately show ?thesis by (rule rtranclp_trans)
  qed
qed

lemma RunDueJobs_steps:
  assumes run: "outcome (RunDueJobs s now newID clock) t r t'" and inj: "inj newID"
    and fresh: "\<And>j. unused (newID j) t"
  shows "steps t t'"
  using run unfolding RunDueJobs_def
proof (elim outcome_bindE)
  fix ids t1 x t2 ids' t3
  assume a: "outcome (internal MQueryExpired (ListExpiredOrderIDs now 100)) t (Inr ids) t1"
    and b: "outcome (expire_loop s now ids) t1 (Inr x) t2"
    and c: "outcome (internal MQueryDue (ListAutoCompleteOrderIDs (now - autoCompleteDelay) 100)) t2 (Inr ids') t3"
    and d: "outcome (complete_loop s now newID clock 0 ids') t3 r t'"
  have "t1 = t" "t3 = t2" using same_state [OF _ a] same_state [OF _ c] by (auto intro!: keeps_intros)
  moreover have "steps t t2" using keepsD [OF expire_loop_steps b, of t] \<open>t1 = t\<close> by simp
  moreover have "unused (newID j) t2" for j
    using keepsD [OF expire_loop_unused b] fresh \<open>t1 = t\<close> by simp
  then have "steps t2 t'" using complete_loop_steps [OF d inj] \<open>t3 = t2\<close> by simp
  ultimately show ?thesis by auto
next
  fix e assume "outcome (internal MQueryExpired (ListExpiredOrderIDs now 100)) t (Inl e) t'"
  from same_state [OF _ this] show ?thesis by (auto intro!: keeps_intros)
next
  fix ids t1 e
  assume "outcome (internal MQueryExpired (ListExpiredOrderIDs now 100)) t (Inr ids) t1"
    "outcome (expire_loop s now ids) t1 (Inl e) t'"
  moreover from same_state [OF _ this(1)] have "t1 = t" by (auto intro!: keeps_intros)
  ultimately show ?thesis using keepsD [OF expire_loop_steps, of s now ids t "Inl e" t' t] by simp
next
  fix ids t1 x t2 e
  assume a: "outcome (internal MQueryExpired (ListExpiredOrderIDs now 100)) t (Inr ids) t1"
    and b: "outcome (expire_loop s now ids) t1 (Inr x) t2"
    and c: "outcome (internal MQueryDue (ListAutoCompleteOrderIDs (now - autoCompleteDelay) 100)) t2 (Inl e) t'"
  have "t1 = t" "t' = t2" using same_state [OF _ a] same_state [OF _ c] by (auto intro!: keeps_intros)
  then show ?thesis using keepsD [OF expire_loop_steps b, of t] by simp
qed

section \<open>All calls\<close>

text \<open>
  A call of the service: any method, any arguments the handlers let through, any outcome. The
  identifiers come from the generator, which does not hand out one that is already stored.
\<close>

inductive service_step :: "market_env \<Rightarrow> market_db \<Rightarrow> market_db \<Rightarrow> bool" for s :: market_env where
  call_save: "outcome (SaveCategory save cid req newID now) t r t' \<Longrightarrow> saves save \<Longrightarrow> category_req_bound req \<Longrightarrow>
     service_step s t t'"
| call_create_item: "outcome (CreateItem s u root item newID now) t r1 t' \<Longrightarrow> in_int64 (ItemReq_PriceCents item) \<Longrightarrow>
     service_step s t t'"
| call_update_item: "outcome (UpdateItem s u root iid item now) t r1 t' \<Longrightarrow> in_int64 (ItemReq_PriceCents item) \<Longrightarrow>
     service_step s t t'"
| call_withdraw: "outcome (WithdrawItem u iid now) t r2 t' \<Longrightarrow> service_step s t t'"
| call_order: "outcome (CreateOrder s u root iid newID now) t r3 t' \<Longrightarrow> service_step s t t'"
| call_pay: "outcome (StartPayment s root oid requestID newID now now') t r4 t' \<Longrightarrow> service_step s t t'"
| call_callback: "outcome (TestPaymentCallback s cb now) t r2 t' \<Longrightarrow> service_step s t t'"
| call_cancel: "outcome (CancelOrder s root oid now) t r2 t' \<Longrightarrow> service_step s t t'"
| call_deliver: "outcome (MarkDelivered s root oid now) t r2 t' \<Longrightarrow> service_step s t t'"
| call_confirm: "outcome (ConfirmReceived s root oid newID now now') t r2 t' \<Longrightarrow> unused newID t \<Longrightarrow> service_step s t t'"
| call_refund: "outcome (RequestRefund s root oid rreq newID now) t r5 t' \<Longrightarrow> service_step s t t'"
| call_dispute: "outcome (CreateDispute s root oid reason newID now) t r6 t' \<Longrightarrow> service_step s t t'"
| call_decide: "outcome (DecideRefund s rid admin approved now) t r2 t' \<Longrightarrow> service_step s t t'"
| call_resolve: "outcome (ResolveDispute s did admin dreq newID now) t r2 t' \<Longrightarrow> service_step s t t'"
| call_retry: "outcome (RetrySettlement s sid now) t r2 t' \<Longrightarrow> service_step s t t'"
| call_hide: "outcome (HideForModeration s iid now notice) t r2 t' \<Longrightarrow> service_step s t t'"
| call_jobs: "outcome (RunDueJobs s now ids clock) t r2 t' \<Longrightarrow> inj ids \<Longrightarrow> (\<And>j. unused (ids j) t) \<Longrightarrow> service_step s t t'"
| call_settle: "outcome (RetryPendingSettlements s clock) t r2 t' \<Longrightarrow> service_step s t t'"

lemma runsD: "(\<And>t0. runs t0 m) \<Longrightarrow> outcome m t r t' \<Longrightarrow> steps t t'"
  using keepsD [of "steps t" m t r t'] by simp

lemmas plain_calls = simple_calls DecideRefund_steps ResolveDispute_steps CreateOrder_steps
  RequestRefund_steps CreateDispute_steps

lemma service_steps: "service_step s t t' \<Longrightarrow> market_inv t \<Longrightarrow> steps t t'"
proof (induction rule: service_step.induct)
  case call_save
  then show ?case by (intro SaveCategory_steps)
next
  case call_create_item
  then show ?case by (intro CreateItem_steps) (auto simp: in_int64_def)
next
  case call_update_item
  then show ?case by (intro UpdateItem_steps) (auto simp: in_int64_def)
next
  case call_pay
  then show ?case by (intro StartPayment_steps)
next
  case call_confirm
  then show ?case by (intro ConfirmReceived_steps) (auto intro: unused_lookup)
next
  case call_jobs
  then show ?case by (intro RunDueJobs_steps)
qed (rule runsD, rule plain_calls, assumption)+

interpretation service: invariant_system market_start "service_step s" market_inv for s
  by unfold_locales (auto intro: market_start_inv market.steps_inv service_steps)

end
