(* ===== verification/Marketplace_Example.thy ===== *)
theory Marketplace_Example
  imports Marketplace_Calls
begin

text \<open>
  One sale, as concrete states of the tables: listed, ordered, payment requested, paid, delivered,
  completed. The witnesses use them.
\<close>

definition ex_category :: category where
  "ex_category = \<lparr>Category_ID = 1, Category_Name = ''books'', Category_CommissionRateBps = 500,
     Category_Status = StatusActive, Category_CreatedAt = 0, Category_UpdatedAt = 0\<rparr>"

definition ex_tables ::
  "item list \<Rightarrow> order list \<Rightarrow> payment list \<Rightarrow> refund list \<Rightarrow> dispute list \<Rightarrow> settlement list \<Rightarrow> market_db" where
  "ex_tables is ds ps rs xs ss =
     \<lparr>categories = [ex_category], items = is, orders = ds, payments = ps, refunds = rs, disputes = xs,
      settlements = ss\<rparr>"

definition ex_world :: "market_db \<Rightarrow> (market_db, market_event) world" where
  "ex_world t = \<lparr>tables = t, connected = True, faults = [], outbox = []\<rparr>"

definition ex_item :: "item_status \<Rightarrow> int64 option \<Rightarrow> instant \<Rightarrow> item" where
  "ex_item st res now =
     \<lparr>Item_ID = 10, Item_SellerRootUserID = 7, Item_SellerUserID = 7, Item_CategoryID = 1,
      Item_Title = ''lamp'', Item_Description = ''lamp'', Item_Condition = ''used'',
      Item_PriceCents = 1999, Item_Images = [], Item_DeliveryLocation = ''gate'', Item_Status = st,
      Item_ReservedOrderID = res, Item_CreatedAt = 1, Item_UpdatedAt = now\<rparr>"

definition ex_order ::
  "order_status \<Rightarrow> instant option \<Rightarrow> instant option \<Rightarrow> instant option \<Rightarrow> instant \<Rightarrow> order" where
  "ex_order st paid delivered completed now =
     \<lparr>Order_ID = 20, Order_ItemID = 10, Order_BuyerRootUserID = 8, Order_BuyerUserID = 8,
      Order_SellerRootUserID = 7, Order_Status = st, Order_PriceCents = 1999,
      Order_CommissionRateBps = 500, Order_PlatformFeeCents = 99, Order_SellerNetCents = 1900,
      Order_ExpiresAt = 900002, Order_PaidAt = paid, Order_DeliveredAt = delivered,
      Order_CompletedAt = completed, Order_CancelledAt = None, Order_RefundedAt = None,
      Order_DisputedAt = None, Order_CreatedAt = 2, Order_UpdatedAt = now\<rparr>"

definition ex_payment :: "record_status \<Rightarrow> string option \<Rightarrow> instant \<Rightarrow> payment" where
  "ex_payment st tx now =
     \<lparr>Payment_ID = 30, Payment_OrderID = 20, Payment_Gateway = ''test'', Payment_RequestID = ''req'',
      Payment_GatewayTransactionID = tx, Payment_AmountCents = 1999, Payment_Status = st,
      Payment_CreatedAt = 3, Payment_UpdatedAt = now\<rparr>"

definition ex_settlement :: "record_status \<Rightarrow> string option \<Rightarrow> instant \<Rightarrow> settlement" where
  "ex_settlement st g now =
     \<lparr>Settlement_ID = 40, Settlement_OrderID = 20, Settlement_RequestID = ''settlement:20'',
      Settlement_GatewaySettlementID = g, Settlement_AmountCents = 1900, Settlement_Status = st,
      Settlement_CreatedAt = 6, Settlement_UpdatedAt = now\<rparr>"

definition ex_empty :: market_db where "ex_empty = ex_tables [] [] [] [] [] []"

definition ex_listed :: market_db where
  "ex_listed = ex_tables [ex_item ItemPublished None 1] [] [] [] [] []"

definition ex_ordered :: market_db where
  "ex_ordered = ex_tables [ex_item ItemReserved (Some 20) 2]
     [ex_order OrderPendingPayment None None None 2] [] [] [] []"

definition ex_requested :: market_db where
  "ex_requested = ex_tables [ex_item ItemReserved (Some 20) 2]
     [ex_order OrderPendingPayment None None None 2] [ex_payment RecordPending None 3] [] [] []"

definition ex_paid :: market_db where
  "ex_paid = ex_tables [ex_item ItemReserved (Some 20) 2]
     [ex_order OrderPaid (Some 4) None None 4] [ex_payment RecordSucceeded (Some ''tx'') 4] [] [] []"

definition ex_delivered :: market_db where
  "ex_delivered = ex_tables [ex_item ItemReserved (Some 20) 2]
     [ex_order OrderDelivered (Some 4) (Some 5) None 5] [ex_payment RecordSucceeded (Some ''tx'') 4] [] [] []"

definition ex_completed :: market_db where
  "ex_completed = ex_tables [ex_item ItemSold (Some 20) 6]
     [ex_order OrderCompleted (Some 4) (Some 5) (Some 6) 6] [ex_payment RecordSucceeded (Some ''tx'') 4] [] []
     [ex_settlement RecordPending None 6]"

lemma ex_runs:
  "snd (repo_CreateItem (ex_item ItemPublished None 1) (ex_world ex_empty)) = ex_world ex_listed"
  "snd (repo_CreateOrder (new_order 20 10 8 8 2) (ex_world ex_listed)) = ex_world ex_ordered"
  "snd (CreateOrFindPayment (ex_payment RecordPending None 3) (ex_world ex_ordered)) = ex_world ex_requested"
  "snd (ApplyPaymentCallback ''req'' ''tx'' 1999 4 (ex_world ex_requested)) = ex_world ex_paid"
  "snd (repo_MarkDelivered 20 7 5 (ex_world ex_paid)) = ex_world ex_delivered"
  "snd (repo_ConfirmReceived 20 8 (newSettlement 40 20 0 6) 6 (ex_world ex_delivered)) = ex_world ex_completed"
  by code_simp+

lemma tables_world [simp]: "tables (ex_world t) = t"
  by (simp add: ex_world_def)

lemma outcome_run: "outcome m t (fst (m (ex_world t))) (tables (snd (m (ex_world t))))"
  using outcomeI [of m "ex_world t" "fst (m (ex_world t))" "snd (m (ex_world t))"] by simp

lemma outcome_world: "snd (m (ex_world t)) = ex_world t' \<Longrightarrow> outcome m t (fst (m (ex_world t))) t'"
  using outcome_run [of m t] by simp

lemma ex_steps:
  "market_step ex_empty ex_listed" "market_step ex_listed ex_ordered" "market_step ex_ordered ex_requested"
  "market_step ex_requested ex_paid" "market_step ex_paid ex_delivered" "market_step ex_delivered ex_completed"
proof -
  show "market_step ex_empty ex_listed"
    by (rule create_item, rule outcome_world, rule ex_runs(1),
      simp_all add: ex_item_def price_ok_def)
  show "market_step ex_listed ex_ordered"
    by (rule create_order, rule outcome_world, rule ex_runs(2),
      simp add: new_order_def)
  show "market_step ex_ordered ex_requested"
    by (rule create_payment, rule outcome_world, rule ex_runs(3),
      simp add: payment_for_def ex_payment_def ex_ordered_def ex_tables_def lookup_def ex_order_def)
  show "market_step ex_requested ex_paid" by (rule callback, rule outcome_world, rule ex_runs(4))
  show "market_step ex_paid ex_delivered" by (rule mark_delivered, rule outcome_world, rule ex_runs(5))
  show "market_step ex_delivered ex_completed"
    by (rule confirm, rule outcome_world, rule ex_runs(6),
      simp add: settlement_for_def newSettlement_def ex_delivered_def ex_tables_def lookup_def)
qed

lemma ex_start: "market_start ex_empty"
  by (simp add: market_start_def rates_ok_def ex_empty_def ex_tables_def ex_category_def valid_rate_def)

lemma ex_reachable:
  "reachable market_start market_step ex_empty" "reachable market_start market_step ex_listed"
  "reachable market_start market_step ex_ordered" "reachable market_start market_step ex_requested"
  "reachable market_start market_step ex_paid" "reachable market_start market_step ex_delivered"
  "reachable market_start market_step ex_completed"
proof -
  note step = reachable_step [where start = market_start and step = market_step]
  show e: "reachable market_start market_step ex_empty" by (rule reachable_start [where start = market_start, OF ex_start])
  show l: "reachable market_start market_step ex_listed" by (rule step [OF e ex_steps(1)])
  show d: "reachable market_start market_step ex_ordered" by (rule step [OF l ex_steps(2)])
  show r: "reachable market_start market_step ex_requested" by (rule step [OF d ex_steps(3)])
  show p: "reachable market_start market_step ex_paid" by (rule step [OF r ex_steps(4)])
  show v: "reachable market_start market_step ex_delivered" by (rule step [OF p ex_steps(5)])
  show "reachable market_start market_step ex_completed" by (rule step [OF v ex_steps(6)])
qed

lemmas ex_invs = ex_reachable [THEN market.reachable_inv]

lemmas ex_defs = ex_empty_def ex_listed_def ex_ordered_def ex_requested_def ex_paid_def ex_delivered_def
  ex_completed_def ex_tables_def

definition ex_env :: market_env where
  "ex_env = \<lparr>verifier = Some (\<lambda>_. None), capabilities = None, has_notifier = True, text_filter = None,
     env_gateway = testGateway, rfc3339 = FormatInt\<rparr>"

end
