(* ===== verification/Marketplace_Props.thy ===== *)
theory Marketplace_Props
  imports Marketplace_Example
begin

text \<open>
  The properties of the marketplace. Those about rows hold in every state the transition system
  reaches from empty tables: any interleaving of requests, any statement failing.
\<close>

section \<open>Refinement\<close>

lemma steps_spec: "steps t t' \<Longrightarrow> market_inv t \<Longrightarrow> spec_step\<^sup>*\<^sup>* (view t) (view t')"
proof (induction rule: rtranclp_induct)
  case (step u w)
  have "market_inv u" using market.steps_inv [OF step.hyps(1) step.prems] .
  with step market_step_refines [of u w] show ?case by (auto intro: rtranclp.rtrancl_into_rtrancl)
qed simp



text \<open>
  C2: Every call of the marketplace service (any method, any arguments the handlers let through, any
  result, any failing statement) is a sequence of steps of the abstract marketplace and keeps the
  invariant: the service builds the rows it hands to the repository correctly.
\<close>

theorem service_refines_spec:
  assumes "service_step s t t'" and "market_inv t"
  shows "spec_step\<^sup>*\<^sup>* (view t) (view t') \<and> market_inv t'"
  using service_steps [OF assms] steps_spec market.steps_inv assms(2) by blast

theorem service_refines_spec_witness:
  "\<exists>t'. service_step ex_env ex_listed t' \<and> spec_step\<^sup>*\<^sup>* (view ex_listed) (view t') \<and> market_inv t'"
proof -
  let ?m = "CreateOrder ex_env 8 8 ''10'' 20 2"
  have "service_step ex_env ex_listed (tables (snd (?m (ex_world ex_listed))))"
    by (rule call_order, rule outcome_run)
  with service_refines_spec [OF this ex_invs(2)] show ?thesis by blast
qed

section \<open>Money\<close>

text \<open>
  C3: A completed order has been paid exactly once, in full, and is settled exactly once; what the
  platform keeps and what the seller gets add up to what the buyer paid, the platform's share is the
  exact commission, and no refund of the order has succeeded.
\<close>

theorem completed_order_money:
  assumes "reachable market_start market_step t" and "d \<in> set (orders t)" and "Order_Status d = OrderCompleted"
  shows "\<exists>p s. p \<in> set (payments t) \<and> paid_by (Order_ID d) p \<and>
    (\<forall>q \<in> set (payments t). paid_by (Order_ID d) q \<longrightarrow> q = p) \<and>
    s \<in> set (settlements t) \<and> Settlement_OrderID s = Order_ID d \<and>
    (\<forall>x \<in> set (settlements t). Settlement_OrderID x = Order_ID d \<longrightarrow> x = s) \<and>
    Payment_AmountCents p = Order_PriceCents d \<and>
    Order_PlatformFeeCents d + Settlement_AmountCents s = Payment_AmountCents p \<and>
    Order_PlatformFeeCents d = Order_PriceCents d * Order_CommissionRateBps d div 10000 \<and>
    (\<forall>r \<in> set (refunds t). Refund_OrderID r = Order_ID d \<longrightarrow> Refund_Status r \<noteq> RecordSucceeded)"
proof -
  have inv: "market_inv t" using assms(1) by (rule market.reachable_inv)
  have paid: "paid_for d" using assms(3) by (simp add: paid_for_def)
  have "terms_ok d" using order_terms [OF inv assms(2)] .
  then have terms: "Order_PlatformFeeCents d + Order_SellerNetCents d = Order_PriceCents d"
    "Order_PlatformFeeCents d = Order_PriceCents d * Order_CommissionRateBps d div 10000"
    by (auto simp: terms_ok_def price_ok_def commissionFee_exact)
  obtain p where p: "p \<in> set (payments t)" "paid_by (Order_ID d) p"
    "\<And>q. q \<in> set (payments t) \<Longrightarrow> paid_by (Order_ID d) q \<Longrightarrow> q = p"
    using paid_once(1) [OF inv assms(2) paid] by blast
  obtain s where s: "s \<in> set (settlements t)" "Settlement_OrderID s = Order_ID d"
    "\<And>x. x \<in> set (settlements t) \<Longrightarrow> Settlement_OrderID x = Order_ID d \<Longrightarrow> x = s"
    using settled_once [OF inv assms(2,3)] by blast
  have amount: "Payment_AmountCents p = Order_PriceCents d" using paid_once(2) [OF inv assms(2) paid p(1,2)] .
  have "Settlement_AmountCents s = Order_SellerNetCents d"
    using settlement_amount [OF inv s(1) assms(2) s(2)] by simp
  then have sum: "Order_PlatformFeeCents d + Settlement_AmountCents s = Payment_AmountCents p"
    using amount terms(1) by simp
  have "Refund_Status r \<noteq> RecordSucceeded" if "r \<in> set (refunds t)" "Refund_OrderID r = Order_ID d" for r
    using refund_amount [OF inv that(1) assms(2) that(2)] assms(3) by (auto simp: refund_fits_def)
  with p s amount sum terms(2) show ?thesis by blast
qed

theorem completed_order_money_witness:
  "\<exists>p s. p \<in> set (payments ex_completed) \<and> s \<in> set (settlements ex_completed) \<and>
     Payment_AmountCents p = 1999 \<and> 99 + Settlement_AmountCents s = 1999"
  using completed_order_money [OF ex_reachable(7), of "ex_order OrderCompleted (Some 4) (Some 5) (Some 6) 6"]
  by (auto simp: ex_defs ex_order_def)

text \<open>
  C4: A refunded order was paid in full and is never settled; every succeeded refund returns exactly
  the price and belongs to a refunded order; an order that is cancelled or still awaits payment has no
  succeeded payment and no settlement.
\<close>

theorem refunded_or_unpaid_money:
  assumes "reachable market_start market_step t" and "d \<in> set (orders t)"
  shows "(Order_Status d = OrderRefunded \<longrightarrow>
      (\<exists>p \<in> set (payments t). paid_by (Order_ID d) p \<and> Payment_AmountCents p = Order_PriceCents d)) \<and>
    (Order_Status d \<noteq> OrderCompleted \<longrightarrow> (\<forall>s \<in> set (settlements t). Settlement_OrderID s \<noteq> Order_ID d)) \<and>
    (\<forall>r \<in> set (refunds t). Refund_OrderID r = Order_ID d \<and> Refund_Status r = RecordSucceeded \<longrightarrow>
      Order_Status d = OrderRefunded \<and> Refund_AmountCents r = Order_PriceCents d) \<and>
    (Order_Status d \<in> {OrderPendingPayment, OrderCancelled} \<longrightarrow>
      (\<forall>p \<in> set (payments t). \<not> paid_by (Order_ID d) p))"
proof (intro conjI impI ballI)
  have inv: "market_inv t" using assms(1) by (rule market.reachable_inv)
  show "\<exists>p \<in> set (payments t). paid_by (Order_ID d) p \<and> Payment_AmountCents p = Order_PriceCents d"
    if "Order_Status d = OrderRefunded"
    using paid_once [OF inv assms(2)] that by (fastforce simp: paid_for_def)
  show "Settlement_OrderID s \<noteq> Order_ID d" if "Order_Status d \<noteq> OrderCompleted" "s \<in> set (settlements t)" for s
    using settlement_amount [OF inv that(2) assms(2)] that(1) by blast
  show "\<not> paid_by (Order_ID d) p"
    if "Order_Status d \<in> {OrderPendingPayment, OrderCancelled}" "p \<in> set (payments t)" for p
    using not_paid [OF inv assms(2) _ that(2)] that(1) by (auto simp: paid_for_def)
  fix r assume r: "r \<in> set (refunds t)" "Refund_OrderID r = Order_ID d \<and> Refund_Status r = RecordSucceeded"
  show "Order_Status d = OrderRefunded" "Refund_AmountCents r = Order_PriceCents d"
    using refund_amount [OF inv r(1) assms(2)] r(2) by (auto simp: refund_fits_def)
qed

theorem refunded_or_unpaid_money_witness:
  "filter (paid_by 20) (payments ex_requested) = []"
  using refunded_or_unpaid_money [OF ex_reachable(4), of "ex_order OrderPendingPayment None None None 2"]
  by (auto simp: ex_defs ex_order_def filter_empty_conv)

text \<open>
  C5: The platform fee of a price is the exact floor of price times rate over 10000, lies between 0 and
  the price, and none of the 64-bit products on the way wraps, for every non-negative price and every
  admissible rate.
\<close>

theorem commission_exact:
  assumes "0 \<le> p" and "p < 2 ^ 63" and "valid_rate r"
  shows "commissionFee p r = p * r div 10000 \<and> 0 \<le> commissionFee p r \<and> commissionFee p r \<le> p"
  using commissionFee_exact [OF assms] commissionFee_bounds [OF assms] by simp

theorem commission_exact_witness: "commissionFee 9223372036854775807 500 = 461168601842738790"
  using commission_exact [of 9223372036854775807 500] by (simp add: valid_rate_def)

section \<open>Orders and items\<close>

text \<open>
  C6: No item is sold twice at once: two orders on the same item that are both in progress are the same
  order, and the item of an order in progress is reserved for that order or was taken off the market.
\<close>

theorem single_active_order:
  assumes "reachable market_start market_step t" and "d \<in> set (orders t)" and "active d"
  shows "(\<forall>e \<in> set (orders t). active e \<and> Order_ItemID e = Order_ItemID d \<longrightarrow> e = d) \<and>
    (\<exists>i. lookup Item_ID (items t) (Order_ItemID d) = Some i \<and>
       (Item_Status i = ItemReserved \<and> Item_ReservedOrderID i = Some (Order_ID d)
        \<or> Item_Status i \<in> {ItemHidden, ItemWithdrawn} \<and> Item_ReservedOrderID i = None))"
proof -
  have inv: "market_inv t" using assms(1) by (rule market.reachable_inv)
  note part = market_inv_parts(1) [OF inv]
  have one: "e = d" if "e \<in> set (orders t)" "active e" "Order_ItemID e = Order_ItemID d" for e
    using one_active_order [OF inv that(1) assms(2) that(2) assms(3) that(3)] .
  from items_partD(2) [OF part order_row [OF inv assms(2)]] assms(3) obtain i where
    i: "lookup Item_ID (items t) (Order_ItemID d) = Some i"
    and res: "Item_ReservedOrderID i = Some (Order_ID d)
      \<or> Item_ReservedOrderID i = None \<and> Item_Status i \<in> {ItemHidden, ItemWithdrawn}"
    by (auto simp: order_inv_def)
  from items_partD(1) [OF part i] res order_row [OF inv assms(2)] assms(3) have
    "Item_Status i = ItemReserved \<and> Item_ReservedOrderID i = Some (Order_ID d)
      \<or> Item_Status i \<in> {ItemHidden, ItemWithdrawn} \<and> Item_ReservedOrderID i = None"
    by (auto simp: item_inv_def active_def)
  with one i show ?thesis by blast
qed

theorem single_active_order_witness:
  "\<exists>i. lookup Item_ID (items ex_paid) 10 = Some i \<and> Item_ReservedOrderID i = Some 20"
  using single_active_order [OF ex_reachable(5), of "ex_order OrderPaid (Some 4) None None 4"]
  by (simp add: ex_defs ex_order_def active_def ex_item_def lookup_def)

text \<open>
  C7: Along any run of the marketplace an order keeps its parties, item, price, rate, fee and net amount,
  and its status only moves along the edges of the order life cycle; completed, cancelled and refunded
  are final.
\<close>

theorem order_life_cycle:
  assumes "market_inv t" and "steps t t'" and "lookup Order_ID (orders t) k = Some d"
  shows "\<exists>d'. lookup Order_ID (orders t') k = Some d' \<and> same_terms d d' \<and>
    order_edge\<^sup>*\<^sup>* (Order_Status d) (Order_Status d') \<and>
    (Order_Status d \<in> {OrderCompleted, OrderCancelled, OrderRefunded} \<longrightarrow> Order_Status d' = Order_Status d)"
  using market_run_orders [OF assms(2,1,3)] final_status by blast

theorem order_life_cycle_witness:
  "\<exists>d'. lookup Order_ID (orders ex_completed) 20 = Some d' \<and>
     order_edge\<^sup>*\<^sup>* OrderPaid (Order_Status d') \<and> Order_PriceCents d' = 1999"
proof -
  have "steps ex_paid ex_completed" using ex_steps(5,6) by (blast intro: converse_rtranclp_into_rtranclp)
  from order_life_cycle [OF ex_invs(5) this, of 20 "ex_order OrderPaid (Some 4) None None 4"]
  show ?thesis by (auto simp: ex_paid_def ex_tables_def ex_order_def lookup_def same_terms_def)
qed

section \<open>Payment callbacks\<close>

lemma callback_found:
  assumes "outcome (ApplyPaymentCallback req tx amount now) t (Inr (v, changed)) t'"
  obtains pay where "find (\<lambda>p. Payment_RequestID p = req) (payments t) = Some pay" "Payment_AmountCents pay = amount"
    "Payment_GatewayTransactionID pay = None \<or> Payment_GatewayTransactionID pay = Some tx"
    "changed \<longleftrightarrow> Payment_Status pay \<noteq> RecordSucceeded" "changed \<or> t' = t"
  using assms unfolding ApplyPaymentCallback_def
  by (auto dest!: outcome_bind_Inr transaction_success load_order_same simp: run_simps split: if_splits)

lemma callback_changes:
  assumes "outcome (ApplyPaymentCallback req tx amount now) t (Inr (v, True)) t'"
    and "find (\<lambda>p. Payment_RequestID p = req) (payments t) = Some pay"
  obtains d where "lookup Order_ID (orders t) (Payment_OrderID pay) = Some d" "Order_Status d = OrderPendingPayment"
    "now < Order_ExpiresAt d"
    "t' = orders_update (update_rows (\<lambda>e. Order_ID e = Order_ID d \<and> Order_Status e = OrderPendingPayment) (pay_order_row now))
       (payments_update (update_rows (\<lambda>p. Payment_ID p = Payment_ID pay \<and> Payment_Status p = RecordPending)
         (succeed_payment_row tx now)) t)"
proof (cases "Payment_Status pay = RecordSucceeded")
  case True
  with assms show thesis
    unfolding ApplyPaymentCallback_def by (auto dest!: outcome_bind_Inr transaction_success simp: run_simps)
next
  case False
  with assms show thesis
    unfolding ApplyPaymentCallback_def
    by (auto dest!: outcome_bind_Inr transaction_success load_order_same simp: run_simps find_key) (rule that, assumption+)+
qed

lemma find_request:
  assumes "market_inv t" and "p \<in> set (payments t)" and "Payment_RequestID p = req"
  shows "find (\<lambda>p. Payment_RequestID p = req) (payments t) = Some p"
  using assms lookup_member [of Payment_RequestID "payments t" p] by (auto simp: find_key market_inv_def keys_ok_def payments_ok_def)

text \<open>
  C8: A payment callback is believed only for the payment it belongs to, and works once. It succeeds only for a payment with
  its request identifier, exactly its amount and no other transaction. When it changes something, the payment was pending, its
  order was pending and not expired, and afterwards payment and order are paid; any later callback for the request on that
  state is answered without a change, and only if it brings the same amount and transaction.
\<close>

theorem payment_callback_checked:
  assumes inv: "market_inv t" and run: "outcome (ApplyPaymentCallback req tx amount now :: (_, market_event, _, _) prog) t (Inr (v, changed)) t'"
  shows "\<exists>pay \<in> set (payments t). Payment_RequestID pay = req \<and> Payment_AmountCents pay = amount \<and>
     Payment_GatewayTransactionID pay \<in> {None, Some tx} \<and>
     (if changed
      then Payment_Status pay = RecordPending \<and>
        (\<exists>d. lookup Order_ID (orders t) (Payment_OrderID pay) = Some d \<and> Order_Status d = OrderPendingPayment \<and>
             now < Order_ExpiresAt d \<and> lookup Order_ID (orders t') (Payment_OrderID pay) = Some (pay_order_row now d)) \<and>
        lookup Payment_ID (payments t') (Payment_ID pay) = Some (succeed_payment_row tx now pay) \<and>
        (\<forall>tx2 amount2 now2 v2 changed2 t2. outcome (ApplyPaymentCallback req tx2 amount2 now2 :: (_, market_event, _, _) prog) t' (Inr (v2, changed2)) t2 \<longrightarrow>
           \<not> changed2 \<and> t2 = t' \<and> amount2 = amount \<and> tx2 = tx)
      else t' = t \<and> Payment_Status pay = RecordSucceeded)"
  (is "\<exists>pay \<in> _. ?P pay")
proof -
  obtain pay where pay: "find (\<lambda>p. Payment_RequestID p = req) (payments t) = Some pay" "Payment_AmountCents pay = amount"
    "Payment_GatewayTransactionID pay = None \<or> Payment_GatewayTransactionID pay = Some tx"
    "changed \<longleftrightarrow> Payment_Status pay \<noteq> RecordSucceeded" "changed \<or> t' = t"
    using run by (rule callback_found)
  have mem: "pay \<in> set (payments t)" "Payment_RequestID pay = req" using find_member [OF pay(1)] by simp_all
  have "?P pay"
  proof (cases changed)
    case False
    with pay mem show ?thesis by auto
  next
    case True
    let ?pay = "succeed_payment_row tx now pay"
    have pending: "Payment_Status pay = RecordPending" "lookup Payment_ID (payments t) (Payment_ID pay) = Some pay"
      using payment_status [OF inv mem(1)] pay(4) True by simp_all
    obtain d where d: "lookup Order_ID (orders t) (Payment_OrderID pay) = Some d" "Order_Status d = OrderPendingPayment"
      "now < Order_ExpiresAt d"
      and t': "t' = orders_update (update_rows (\<lambda>e. Order_ID e = Order_ID d \<and> Order_Status e = OrderPendingPayment) (pay_order_row now))
        (payments_update (update_rows (\<lambda>p. Payment_ID p = Payment_ID pay \<and> Payment_Status p = RecordPending)
          (succeed_payment_row tx now)) t)"
      by (rule callback_changes [of req tx amount now t v t' pay]) (use run True pay(1) in simp_all)
    have oid: "Order_ID d = Payment_OrderID pay" by (rule key_of(2) [OF d(1)])
    have inv': "market_inv t'" by (rule market_step_inv [OF callback [OF run] inv])
    have "lookup Payment_ID (payments t') = (lookup Payment_ID (payments t))(Payment_ID pay \<mapsto> ?pay)"
      unfolding t' by (simp, rule lookup_update_at) (use pending in \<open>simp_all add: succeed_payment_row_def\<close>)
    moreover have "lookup Order_ID (orders t') = (lookup Order_ID (orders t))(Payment_OrderID pay \<mapsto> pay_order_row now d)"
      unfolding t' oid by (simp, rule lookup_update_at) (use d oid in \<open>simp_all add: pay_order_row_def\<close>)
    ultimately have after: "lookup Payment_ID (payments t') (Payment_ID pay) = Some ?pay"
      "lookup Order_ID (orders t') (Payment_OrderID pay) = Some (pay_order_row now d)" by simp_all
    have found: "find (\<lambda>p. Payment_RequestID p = req) (payments t') = Some ?pay"
      by (rule find_request [OF inv']) (use lookup_SomeD [OF after(1)] mem in \<open>simp_all add: succeed_payment_row_def\<close>)
    have "\<not> changed2 \<and> t2 = t' \<and> amount2 = amount \<and> tx2 = tx"
      if "outcome (ApplyPaymentCallback req tx2 amount2 now2 :: (_, market_event, _, _) prog) t' (Inr (v2, changed2)) t2" for tx2 amount2 now2 v2 changed2 t2
      using that by (rule callback_found) (use found pay(2) in \<open>auto simp: succeed_payment_row_def\<close>)
    then show ?thesis unfolding if_P [OF True] using pay(2,3) mem pending d after by blast
  qed
  with mem(1) show ?thesis by blast
qed

theorem payment_callback_checked_witness:
  "\<exists>v c t'. outcome (ApplyPaymentCallback ''req'' ''tx'' 1999 4 :: (_, market_event, _, _) prog) ex_requested (Inr (v, c)) t' \<and> c \<and>
     (\<exists>pay \<in> set (payments ex_requested). Payment_AmountCents pay = 1999)"
proof -
  have "map_sum (\<lambda>_. ()) snd (fst (ApplyPaymentCallback ''req'' ''tx'' 1999 4 (ex_world ex_requested))) = Inr True" by code_simp
  then obtain v where "fst (ApplyPaymentCallback ''req'' ''tx'' 1999 4 (ex_world ex_requested)) = Inr (v, True)"
    by (cases "fst (ApplyPaymentCallback ''req'' ''tx'' 1999 4 (ex_world ex_requested))") auto
  then have run: "outcome (ApplyPaymentCallback ''req'' ''tx'' 1999 4 :: (_, market_event, _, _) prog) ex_requested (Inr (v, True)) ex_paid"
    using outcome_world [of "ApplyPaymentCallback ''req'' ''tx'' 1999 4" ex_requested ex_paid] ex_runs(4) by simp
  from payment_callback_checked [OF ex_invs(4) run] run show ?thesis by blast
qed

end
