(* ===== verification/Reservation_Model.thy ===== *)
theory Reservation_Model
  imports Bizerr Pagination
begin

text \<open>
  Venue reservations (\<open>internal/reservation\<close>): the tables, the requests and responses, and the
  calendar arithmetic.

  Instants are milliseconds since 1970-01-01 UTC. The database connection and the service use the
  zone Asia/Shanghai, which has been UTC+8 without daylight saving since 1991: a day is 24 hours and
  begins at 16:00 UTC. The venue and rule columns are 32-bit, so sums of minutes and days do not
  wrap; the one product that can wrap (a duration in nanoseconds) is written with \<open>wrap64\<close>.
\<close>

section \<open>Tables\<close>

datatype venue_status = StatusActive | StatusDisabled

datatype slot_status = SlotOpen | SlotClosed

datatype booking_status =
  BookingReserved | BookingCancelled | BookingClosureCancelled | BookingCheckedIn | BookingNoShow

record venue =
  Venue_ID :: int64
  Venue_Name :: string
  Venue_Description :: string
  Venue_Status :: venue_status
  Venue_AdvanceDays :: int
  Venue_SlotMinutes :: int
  Venue_DailyLimit :: int
  Venue_CancelBeforeMinutes :: int
  Venue_CreatedAt :: instant
  Venue_UpdatedAt :: instant

record resource =
  Resource_ID :: int64
  Resource_VenueID :: int64
  Resource_Name :: string
  Resource_Capacity :: int
  Resource_Status :: venue_status
  Resource_CreatedAt :: instant
  Resource_UpdatedAt :: instant

record weekly_rule =
  Rule_ID :: int64
  Rule_ResourceID :: int64
  Rule_Weekday :: int
  Rule_StartMinute :: int
  Rule_EndMinute :: int
  Rule_Status :: venue_status
  Rule_CreatedAt :: instant
  Rule_UpdatedAt :: instant

record closure =
  Closure_ID :: int64
  Closure_VenueID :: "int64 option"
  Closure_ResourceID :: "int64 option"
  Closure_StartAt :: instant
  Closure_EndAt :: instant
  Closure_Reason :: string
  Closure_CreatedBy :: int64
  Closure_CreatedAt :: instant

record slot =
  Slot_ID :: int64
  Slot_ResourceID :: int64
  Slot_StartAt :: instant
  Slot_EndAt :: instant
  Slot_Capacity :: int
  Slot_ReservedCount :: int
  Slot_Status :: slot_status
  Slot_CreatedAt :: instant
  Slot_UpdatedAt :: instant

record day_lock =
  Lock_ID :: int64
  Lock_RootUserID :: int64
  Lock_ReservationDate :: instant

record booking =
  Booking_ID :: int64
  Booking_RootUserID :: int64
  Booking_UserID :: int64
  Booking_SlotID :: int64
  Booking_Status :: booking_status
  Booking_CheckinCode :: string
  Booking_CheckedAt :: "instant option"
  Booking_CancelledAt :: "instant option"
  Booking_CreatedAt :: instant
  Booking_UpdatedAt :: instant

record reservation_db =
  venues :: "venue list"
  resources :: "resource list"
  rules :: "weekly_rule list"
  closures :: "closure list"
  slots :: "slot list"
  day_locks :: "day_lock list"
  bookings :: "booking list"

text \<open>Primary keys and unique indexes, from the migration.\<close>

definition venues_ok :: "venue list \<Rightarrow> bool" where
  "venues_ok rows \<longleftrightarrow> distinct (map Venue_ID rows)"

definition resources_ok :: "resource list \<Rightarrow> bool" where
  "resources_ok rows \<longleftrightarrow> distinct (map Resource_ID rows)"

definition rules_ok :: "weekly_rule list \<Rightarrow> bool" where
  "rules_ok rows \<longleftrightarrow> distinct (map Rule_ID rows)"

definition closures_ok :: "closure list \<Rightarrow> bool" where
  "closures_ok rows \<longleftrightarrow> distinct (map Closure_ID rows)"

definition slot_key :: "slot \<Rightarrow> int64 \<times> instant \<times> instant" where
  "slot_key s = (Slot_ResourceID s, Slot_StartAt s, Slot_EndAt s)"

definition slots_ok :: "slot list \<Rightarrow> bool" where
  "slots_ok rows \<longleftrightarrow> distinct (map Slot_ID rows) \<and> distinct (map slot_key rows)"

definition day_locks_ok :: "day_lock list \<Rightarrow> bool" where
  "day_locks_ok rows \<longleftrightarrow>
     distinct (map Lock_ID rows) \<and>
     distinct (map (\<lambda>l. (Lock_RootUserID l, Lock_ReservationDate l)) rows)"

definition bookings_ok :: "booking list \<Rightarrow> bool" where
  "bookings_ok rows \<longleftrightarrow>
     distinct (map Booking_ID rows) \<and> distinct (map Booking_CheckinCode rows)"

section \<open>Errors\<close>

datatype booking_sentinel =
  errSlotUnavailable | errBookingConflict | errDailyLimit | errCancelDeadline | errNoShowCount

datatype reservation_msg =
    MVenueNotFound | MResourceNotFound | MSlotUnavailable | MBookingConflict | MDailyLimit
  | MBookingNotFound | MCancelDeadline | MCheckinInvalid | MBadID | MBadDate | MBadRule
  | MTargetEmpty | MBadStart | MBadEnd | MQueryVenues | MQueryResources | MEnsureSlots
  | MCreateBooking | MCancelBooking | MCreateVenue | MCreateResource | MCreateClosure

type_synonym brepo_error = "booking_sentinel goerror"
type_synonym reservation_error = "(reservation_msg, booking_sentinel goerror) svc_error"

definition ErrVenueNotFound :: reservation_error where "ErrVenueNotFound = NotFound MVenueNotFound"
definition ErrResourceNotFound :: reservation_error where
  "ErrResourceNotFound = NotFound MResourceNotFound"
definition ErrSlotUnavailable :: reservation_error where "ErrSlotUnavailable = Biz MSlotUnavailable"
definition ErrBookingConflict :: reservation_error where "ErrBookingConflict = Biz MBookingConflict"
definition ErrDailyLimit :: reservation_error where "ErrDailyLimit = Biz MDailyLimit"
definition ErrBookingNotFound :: reservation_error where "ErrBookingNotFound = NotFound MBookingNotFound"
definition ErrCancelDeadline :: reservation_error where "ErrCancelDeadline = Biz MCancelDeadline"
definition ErrCheckinInvalid :: reservation_error where "ErrCheckinInvalid = Biz MCheckinInvalid"

text \<open>Notifications the module sends, with their fixed titles.\<close>

datatype reservation_title = TClosure | TNoShow

datatype reservation_event = BookingNotice int64 string reservation_title string string

section \<open>Calendar\<close>

definition minute_ms :: int where "minute_ms = 60000"
definition day_ms :: int where "day_ms = 86400000"
definition zone_ms :: int where "zone_ms = 28800000"

definition dayStart :: "instant \<Rightarrow> instant" where
  "dayStart t = t - (t + zone_ms) mod day_ms"

lemma dayStart_bounds: "dayStart t \<le> t \<and> t < dayStart t + day_ms"
  by (auto simp: dayStart_def day_ms_def)

lemma dayStart_idem [simp]: "dayStart (dayStart t) = dayStart t"
proof -
  have "(t + zone_ms) - (t + zone_ms) mod day_ms = (t + zone_ms) div day_ms * day_ms"
    by (simp add: minus_mod_eq_div_mult)
  then have "dayStart t + zone_ms = (t + zone_ms) div day_ms * day_ms" by (simp add: dayStart_def)
  then have "(dayStart t + zone_ms) mod day_ms = 0" by simp
  then show ?thesis by (simp add: dayStart_def [of "dayStart t"])
qed

lemma dayStart_unique: "dayStart d = d \<Longrightarrow> d \<le> t \<Longrightarrow> t < d + day_ms \<Longrightarrow> dayStart t = d"
proof -
  assume d: "dayStart d = d" "d \<le> t" "t < d + day_ms"
  then have "(d + zone_ms) mod day_ms = 0" by (simp add: dayStart_def)
  then obtain k where "d + zone_ms = day_ms * k" by (auto simp: mod_eq_0_iff_dvd)
  then have "t + zone_ms = (t - d) + day_ms * k" by simp
  then have "(t + zone_ms) mod day_ms = (t - d) mod day_ms" by (simp only: mod_mult_self2)
  also have "\<dots> = t - d" using d by (intro mod_pos_pos_trivial) auto
  finally show "dayStart t = d" by (simp add: dayStart_def)
qed

text \<open>\<open>t.AddDate(0, 0, n)\<close> for a fixed offset from UTC.\<close>

definition AddDays :: "instant \<Rightarrow> int \<Rightarrow> instant" where
  "AddDays t n = t + n * day_ms"

text \<open>
  \<open>time.ParseInLocation("2006-01-02", s, loc)\<close>: four digits of year, two of month, two of day, the
  day within its month; the result is that day's midnight. \<open>days_from_civil\<close> counts the days since
  1970-01-01 of a date of the Gregorian calendar.
\<close>

definition leap_year :: "int \<Rightarrow> bool" where
  "leap_year y \<longleftrightarrow> y mod 4 = 0 \<and> (y mod 100 \<noteq> 0 \<or> y mod 400 = 0)"

definition days_in :: "int \<Rightarrow> int \<Rightarrow> int" where
  "days_in y m = (if m = 2 then (if leap_year y then 29 else 28)
                  else if m = 4 \<or> m = 6 \<or> m = 9 \<or> m = 11 then 30 else 31)"

definition days_from_civil :: "int \<Rightarrow> int \<Rightarrow> int \<Rightarrow> int" where
  "days_from_civil y m d =
     (let y = (if m \<le> 2 then y - 1 else y);
          era = y div 400;
          yoe = y - era * 400;
          mp = (m + 9) mod 12;
          doy = (153 * mp + 2) div 5 + d - 1;
          doe = yoe * 365 + yoe div 4 - yoe div 100 + doy
      in era * 146097 + doe - 719468)"

definition digits_value :: "string \<Rightarrow> int option" where
  "digits_value s = map_option int (parse_digits 0 s)"

definition parse_date :: "string \<Rightarrow> instant option" where
  "parse_date s =
     (if length s \<noteq> 10 \<or> s ! 4 \<noteq> CHR ''-'' \<or> s ! 7 \<noteq> CHR ''-'' then None
      else case (digits_value (take 4 s), digits_value (take 2 (drop 5 s)), digits_value (drop 8 s)) of
             (Some y, Some m, Some d) \<Rightarrow>
               if m < 1 \<or> 12 < m \<or> d < 1 \<or> days_in y m < d then None
               else Some (days_from_civil y m d * day_ms - zone_ms)
           | _ \<Rightarrow> None)"

lemma parse_date_midnight: "parse_date s = Some t \<Longrightarrow> dayStart t = t"
proof -
  assume "parse_date s = Some t"
  then obtain k where "t = k * day_ms - zone_ms"
    by (auto simp: parse_date_def split: if_splits option.splits)
  then show ?thesis by (simp add: dayStart_def)
qed

text \<open>Monday is 1, Sunday is 7 in the rules; \<open>date.Weekday()\<close> has Sunday as 0.\<close>

definition rule_weekday :: "instant \<Rightarrow> int" where
  "rule_weekday date =
     (let w = ((date + zone_ms) div day_ms + 4) mod 7 in if w = 0 then 7 else w)"

lemma rule_weekday_range: "1 \<le> rule_weekday date \<and> rule_weekday date \<le> 7"
proof -
  define w where "w = ((date + zone_ms) div day_ms + 4) mod 7"
  have "0 \<le> w" "w < 7" by (simp_all add: w_def)
  then show ?thesis by (auto simp: rule_weekday_def Let_def w_def [symmetric])
qed

section \<open>Identifiers and pages\<close>

definition booking_id :: "int64 \<Rightarrow> string" where
  "booking_id v = FormatInt v"

definition parseID :: "string \<Rightarrow> reservation_error + int64" where
  "parseID raw =
     (case ParseInt (TrimSpace raw) of
        None \<Rightarrow> Inl (Param MBadID)
      | Some v \<Rightarrow> if v \<le> 0 then Inl (Param MBadID) else Inr v)"

lemma parseID_print: "0 < v \<Longrightarrow> v < 2 ^ 63 \<Longrightarrow> parseID (booking_id v) = Inr v"
  by (simp add: parseID_def booking_id_def ParseInt_FormatInt in_int64_def)

definition normalize :: "int \<Rightarrow> int \<Rightarrow> int \<times> int" where
  "normalize p z =
     (let p = (if p \<le> 0 then 1 else p);
          z = (if z \<le> 0 then 15 else z);
          z = (if z > 100 then 100 else z)
      in (p, z))"

interpretation booking_page: page_normaliser normalize 100
  by unfold_locales (auto simp: normalize_def Let_def split: if_splits)

section \<open>Requests and responses\<close>

record venue_req =
  VenueReq_Name :: string
  VenueReq_Description :: string
  VenueReq_AdvanceDays :: int
  VenueReq_SlotMinutes :: int
  VenueReq_DailyLimit :: int
  VenueReq_CancelBeforeMinutes :: int

record rule_req =
  RuleReq_Weekday :: int
  RuleReq_StartMinute :: int
  RuleReq_EndMinute :: int

record closure_req =
  ClosureReq_VenueID :: string
  ClosureReq_ResourceID :: string
  ClosureReq_StartAt :: string
  ClosureReq_EndAt :: string
  ClosureReq_Reason :: string

record venue_response =
  VenueResponse_ID :: string
  VenueResponse_Name :: string
  VenueResponse_Description :: string
  VenueResponse_AdvanceDays :: int
  VenueResponse_SlotMinutes :: int
  VenueResponse_DailyLimit :: int
  VenueResponse_CancelBeforeMinutes :: int

record resource_response =
  ResourceResponse_ID :: string
  ResourceResponse_VenueID :: string
  ResourceResponse_Name :: string
  ResourceResponse_Capacity :: int

record slot_response =
  SlotResponse_ID :: string
  SlotResponse_StartAt :: string
  SlotResponse_EndAt :: string
  SlotResponse_Capacity :: int
  SlotResponse_Available :: int
  SlotResponse_Status :: slot_status

record booking_response =
  BookingResponse_ID :: string
  BookingResponse_Status :: booking_status
  BookingResponse_CheckinCode :: string
  BookingResponse_Slot :: slot_response
  BookingResponse_CreatedAt :: string

definition no_time :: instant where
  "no_time = - 62135596800000"

text \<open>\<open>show_time\<close> is the host's rendering of an instant in Asia/Shanghai.\<close>

definition format :: "(instant \<Rightarrow> string) \<Rightarrow> instant \<Rightarrow> string" where
  "format show_time v = (if v = no_time then [] else show_time v)"

definition venueResponse :: "venue \<Rightarrow> venue_response" where
  "venueResponse v =
     \<lparr>VenueResponse_ID = booking_id (Venue_ID v), VenueResponse_Name = Venue_Name v,
      VenueResponse_Description = Venue_Description v,
      VenueResponse_AdvanceDays = Venue_AdvanceDays v,
      VenueResponse_SlotMinutes = Venue_SlotMinutes v,
      VenueResponse_DailyLimit = Venue_DailyLimit v,
      VenueResponse_CancelBeforeMinutes = Venue_CancelBeforeMinutes v\<rparr>"

definition resourceResponse :: "resource \<Rightarrow> resource_response" where
  "resourceResponse v =
     \<lparr>ResourceResponse_ID = booking_id (Resource_ID v),
      ResourceResponse_VenueID = booking_id (Resource_VenueID v),
      ResourceResponse_Name = Resource_Name v, ResourceResponse_Capacity = Resource_Capacity v\<rparr>"

definition slotResponse :: "(instant \<Rightarrow> string) \<Rightarrow> slot \<Rightarrow> slot_response" where
  "slotResponse show_time v =
     (let available = Slot_Capacity v - Slot_ReservedCount v;
          available = (if available < 0 then 0 else available)
      in \<lparr>SlotResponse_ID = booking_id (Slot_ID v),
          SlotResponse_StartAt = format show_time (Slot_StartAt v),
          SlotResponse_EndAt = format show_time (Slot_EndAt v),
          SlotResponse_Capacity = Slot_Capacity v, SlotResponse_Available = available,
          SlotResponse_Status = Slot_Status v\<rparr>)"

definition bookingResponse :: "(instant \<Rightarrow> string) \<Rightarrow> booking \<times> slot \<Rightarrow> booking_response" where
  "bookingResponse show_time v =
     (case v of (b, s) \<Rightarrow>
       \<lparr>BookingResponse_ID = booking_id (Booking_ID b), BookingResponse_Status = Booking_Status b,
        BookingResponse_CheckinCode = Booking_CheckinCode b,
        BookingResponse_Slot = slotResponse show_time s,
        BookingResponse_CreatedAt = format show_time (Booking_CreatedAt b)\<rparr>)"

end
