(* ===== verification/Reservation_Repo.thy ===== *)
theory Reservation_Repo
  imports Reservation_Model
begin

text \<open>
  The reservation repository (\<open>internal/reservation/repository.go\<close>), one program per method.

  Parameters stand for what the database and gorm decide: \<open>by_name\<close> is the order of \<open>ORDER BY name\<close>,
  \<open>clock\<close> is the instant gorm writes into \<open>updated_at\<close> when an update does not name it, \<open>busy\<close> the
  rows another transaction holds locked when \<open>SKIP LOCKED\<close> reads them. Equal keys of \<open>ORDER BY\<close> keep
  insertion order. \<open>fmt.Errorf\<close> in \<open>MarkNoShows\<close> is the value \<open>errNoShowCount\<close>.
\<close>

type_synonym ('o, 'a) brepo = "(reservation_db, 'o, brepo_error, 'a) prog"

section \<open>Venues, resources and rules\<close>

definition ListVenues :: "(venue list \<Rightarrow> venue list) \<Rightarrow> ('o, venue list) brepo" where
  "ListVenues by_name =
     bind gormDB (\<lambda>_. read_rows (\<lambda>t. by_name (filter (\<lambda>v. Venue_Status v = StatusActive) (venues t))))"

definition FindVenue :: "int64 \<Rightarrow> ('o, venue option) brepo" where
  "FindVenue vid = bind gormDB (\<lambda>_. find_row venues (\<lambda>v. Venue_ID v = vid))"

definition FindResource :: "int64 \<Rightarrow> ('o, resource option) brepo" where
  "FindResource rid = bind gormDB (\<lambda>_. find_row resources (\<lambda>r. Resource_ID r = rid))"

definition ListResources :: "(resource list \<Rightarrow> resource list) \<Rightarrow> int64 \<Rightarrow> ('o, resource list) brepo" where
  "ListResources by_name venueID =
     bind gormDB (\<lambda>_.
       read_rows (\<lambda>t. by_name
         (filter (\<lambda>r. Resource_VenueID r = venueID \<and> Resource_Status r = StatusActive) (resources t))))"

definition ListRules :: "int64 \<Rightarrow> int \<Rightarrow> ('o, weekly_rule list) brepo" where
  "ListRules resourceID weekday =
     bind gormDB (\<lambda>_.
       read_rows (\<lambda>t. sort_key Rule_StartMinute
         (filter (\<lambda>r. Rule_ResourceID r = resourceID \<and> Rule_Weekday r = weekday
                      \<and> Rule_Status r = StatusActive) (rules t))))"

definition repo_CreateVenue :: "venue \<Rightarrow> ('o, unit) brepo" where
  "repo_CreateVenue v = bind gormDB (\<lambda>_. create_row venues venues_update venues_ok v)"

definition repo_CreateResource :: "resource \<Rightarrow> ('o, unit) brepo" where
  "repo_CreateResource r =
     bind gormDB (\<lambda>_.
       create_child (\<lambda>t. Resource_VenueID r \<in> set (map Venue_ID (venues t)))
         resources resources_update resources_ok r)"

definition repo_CreateRule :: "weekly_rule \<Rightarrow> ('o, unit) brepo" where
  "repo_CreateRule r =
     bind gormDB (\<lambda>_.
       create_child (\<lambda>t. Rule_ResourceID r \<in> set (map Resource_ID (resources t)))
         rules rules_update rules_ok r)"

section \<open>Slots\<close>

text \<open>
  One INSERT of all the rows with \<open>DoNothing\<close> on a conflict: each row is added unless it collides
  with one that is there, the rows before it included.
\<close>

definition insert_slot :: "slot \<Rightarrow> slot list \<Rightarrow> slot list" where
  "insert_slot s rows = (if slots_ok (rows @ [s]) then rows @ [s] else rows)"

definition EnsureSlots :: "slot list \<Rightarrow> ('o, unit) brepo" where
  "EnsureSlots ss =
     bind gormDB (\<lambda>_.
       if ss = [] then ret ()
       else stmt (\<lambda>t.
         if list_all (\<lambda>s. Slot_ResourceID s \<in> set (map Resource_ID (resources t))) ss
         then Inr ((), t\<lparr>slots := fold insert_slot ss (slots t)\<rparr>)
         else Inl DbFailure))"

definition ListSlots :: "int64 \<Rightarrow> instant \<Rightarrow> instant \<Rightarrow> ('o, slot list) brepo" where
  "ListSlots resourceID from til =
     bind gormDB (\<lambda>_.
       read_rows (\<lambda>t. sort_key Slot_StartAt
         (filter (\<lambda>s. Slot_ResourceID s = resourceID \<and> from \<le> Slot_StartAt s \<and> Slot_StartAt s < til)
           (slots t))))"

definition closes :: "int64 \<Rightarrow> int64 \<Rightarrow> instant \<Rightarrow> instant \<Rightarrow> closure \<Rightarrow> bool" where
  "closes venueID resourceID from til c \<longleftrightarrow>
     (Closure_ResourceID c = Some resourceID
      \<or> Closure_ResourceID c = None \<and> Closure_VenueID c = Some venueID)
     \<and> Closure_StartAt c < til \<and> Closure_EndAt c > from"

definition HasClosure :: "int64 \<Rightarrow> int64 \<Rightarrow> instant \<Rightarrow> instant \<Rightarrow> ('o, bool) brepo" where
  "HasClosure venueID resourceID from til =
     bind gormDB (\<lambda>_.
       read_rows (\<lambda>t. length (filter (closes venueID resourceID from til) (closures t)) > 0))"

section \<open>Bookings\<close>

text \<open>
  The join of bookings and slots behind the daily limit and the overlap check: the bookings of a
  user that are reserved or checked in and whose slot satisfies a condition.
\<close>

definition valid_booking :: "booking \<Rightarrow> bool" where
  "valid_booking b \<longleftrightarrow> Booking_Status b = BookingReserved \<or> Booking_Status b = BookingCheckedIn"

definition slot_of :: "reservation_db \<Rightarrow> booking \<Rightarrow> slot option" where
  "slot_of t b = lookup Slot_ID (slots t) (Booking_SlotID b)"

definition joined :: "(slot \<Rightarrow> bool) \<Rightarrow> reservation_db \<Rightarrow> booking \<Rightarrow> bool" where
  "joined P t b = (case slot_of t b of None \<Rightarrow> False | Some s \<Rightarrow> P s)"

definition user_bookings :: "int64 \<Rightarrow> (slot \<Rightarrow> bool) \<Rightarrow> reservation_db \<Rightarrow> booking list" where
  "user_bookings root P t =
     filter (\<lambda>b. Booking_RootUserID b = root \<and> valid_booking b \<and> joined P t b) (bookings t)"

definition on_day :: "instant \<Rightarrow> slot \<Rightarrow> bool" where
  "on_day date s \<longleftrightarrow> date \<le> Slot_StartAt s \<and> Slot_StartAt s < AddDays date 1"

definition overlaps :: "slot \<Rightarrow> slot \<Rightarrow> bool" where
  "overlaps a s \<longleftrightarrow> Slot_StartAt s < Slot_EndAt a \<and> Slot_EndAt s > Slot_StartAt a"

definition take_place_row :: "instant \<Rightarrow> slot \<Rightarrow> slot" where
  "take_place_row clock s =
     s\<lparr>Slot_ReservedCount := Slot_ReservedCount s + 1, Slot_UpdatedAt := clock\<rparr>"

definition free_place_row :: "instant \<Rightarrow> slot \<Rightarrow> slot" where
  "free_place_row clock s =
     s\<lparr>Slot_ReservedCount := Slot_ReservedCount s - 1, Slot_UpdatedAt := clock\<rparr>"

definition repo_CreateBooking :: "booking \<Rightarrow> instant \<Rightarrow> instant \<Rightarrow> ('o, slot \<times> venue) brepo" where
  "repo_CreateBooking bk now clock =
     bind gormDB (\<lambda>_.
     transaction (
       bind (or_sentinel (take_row slots (\<lambda>s. Slot_ID s = Booking_SlotID bk)) errSlotUnavailable)
         (\<lambda>candidate.
       let date = dayStart (Slot_StartAt candidate);
           dayLock = \<lparr>Lock_ID = Booking_ID bk, Lock_RootUserID = Booking_RootUserID bk,
                      Lock_ReservationDate = date\<rparr>
       in
       bind (create_or_ignore day_locks day_locks_update day_locks_ok dayLock) (\<lambda>_.
       bind (take_row day_locks (\<lambda>l. Lock_RootUserID l = Booking_RootUserID bk
                                     \<and> Lock_ReservationDate l = date)) (\<lambda>lockedDay.
       bind (or_sentinel (take_row slots (\<lambda>s. Slot_ID s = Booking_SlotID bk)) errSlotUnavailable)
         (\<lambda>locked.
       bind (fail_if (Slot_Status locked \<noteq> SlotOpen \<or> Slot_ReservedCount locked \<ge> Slot_Capacity locked
                      \<or> \<not> Slot_StartAt locked > now) errSlotUnavailable) (\<lambda>_.
       bind (or_sentinel (take_row resources (\<lambda>r. Resource_ID r = Slot_ResourceID locked
                                                  \<and> Resource_Status r = StatusActive))
              errSlotUnavailable) (\<lambda>res.
       bind (or_sentinel (take_row venues (\<lambda>v. Venue_ID v = Resource_VenueID res
                                               \<and> Venue_Status v = StatusActive))
              errSlotUnavailable) (\<lambda>ven.
       let latest = AddDays (dayStart now) (Venue_AdvanceDays ven + 1)
       in
       bind (fail_if (\<not> Slot_StartAt locked < latest) errSlotUnavailable) (\<lambda>_.
       bind (read_rows (\<lambda>t. int (length (user_bookings (Booking_RootUserID bk) (on_day date) t)))) (\<lambda>daily.
       bind (fail_if (daily \<ge> Venue_DailyLimit ven) errDailyLimit) (\<lambda>_.
       bind (read_rows (\<lambda>t. length (user_bookings (Booking_RootUserID bk) (overlaps locked) t))) (\<lambda>overlap.
       bind (fail_if (overlap > 0) errBookingConflict) (\<lambda>_.
       bind (update_where slots slots_update slots_ok
              (\<lambda>s. Slot_ID s = Slot_ID locked \<and> Slot_ReservedCount s < Slot_Capacity s)
              (take_place_row clock)) (\<lambda>n.
       bind (fail_if (n \<noteq> 1) errSlotUnavailable) (\<lambda>_.
       bind (create_row bookings bookings_update bookings_ok bk) (\<lambda>_.
       ret (locked, ven))))))))))))))))))"

text \<open>\<open>Preload("Slot")\<close>: a second query over the page; a slot that is missing leaves the zero value.\<close>

definition zero_slot :: slot where
  "zero_slot = \<lparr>Slot_ID = 0, Slot_ResourceID = 0, Slot_StartAt = no_time, Slot_EndAt = no_time,
     Slot_Capacity = 0, Slot_ReservedCount = 0, Slot_Status = SlotClosed, Slot_CreatedAt = no_time,
     Slot_UpdatedAt = no_time\<rparr>"

definition repo_ListBookings ::
  "int64 \<Rightarrow> int \<Rightarrow> int \<Rightarrow> ('o, (booking \<times> slot) list \<times> int64) brepo" where
  "repo_ListBookings rootUserID page sz =
     bind gormDB (\<lambda>_.
     bind (read_rows (\<lambda>t. filter (\<lambda>b. Booking_RootUserID b = rootUserID) (bookings t))) (\<lambda>base.
     let tot = int (length base) in
     bind (read_rows (\<lambda>t. window page sz (sort_key (\<lambda>b. - Booking_CreatedAt b)
             (filter (\<lambda>b. Booking_RootUserID b = rootUserID) (bookings t))))) (\<lambda>rows.
     if rows = [] then ret ([], tot)
     else bind (read_rows slots) (\<lambda>ss.
       ret (map (\<lambda>b. (b, case lookup Slot_ID ss (Booking_SlotID b) of None \<Rightarrow> zero_slot | Some s \<Rightarrow> s)) rows,
            tot)))))"

definition cancel_booking_row :: "instant \<Rightarrow> booking \<Rightarrow> booking" where
  "cancel_booking_row now b =
     b\<lparr>Booking_Status := BookingCancelled, Booking_CancelledAt := Some now, Booking_UpdatedAt := now\<rparr>"

text \<open>
  The deadline \<open>StartAt.Add(-time.Duration(minutes) * time.Minute)\<close>: the product is in nanoseconds and
  wraps at 64 bits, so both sides are compared in nanoseconds.
\<close>

definition before_deadline :: "instant \<Rightarrow> slot \<Rightarrow> venue \<Rightarrow> bool" where
  "before_deadline now s v \<longleftrightarrow>
     now * 1000000 < Slot_StartAt s * 1000000 + wrap64 (- Venue_CancelBeforeMinutes v * 60000000000)"

definition repo_CancelBooking :: "int64 \<Rightarrow> int64 \<Rightarrow> instant \<Rightarrow> instant \<Rightarrow> ('o, bool) brepo" where
  "repo_CancelBooking bid rootUserID now clock =
     bind gormDB (\<lambda>_.
     transaction (
       bind (attempt (take_row bookings (\<lambda>b. Booking_ID b = bid \<and> Booking_RootUserID b = rootUserID))) (\<lambda>r.
       case r of
         Inl (_ :: brepo_error) \<Rightarrow> ret False
       | Inr bk \<Rightarrow>
           if Booking_Status bk \<noteq> BookingReserved then ret False
           else
             bind (take_row slots (\<lambda>s. Slot_ID s = Booking_SlotID bk)) (\<lambda>sl.
             bind (take_row resources (\<lambda>r. Resource_ID r = Slot_ResourceID sl)) (\<lambda>res.
             bind (take_row venues (\<lambda>v. Venue_ID v = Resource_VenueID res)) (\<lambda>ven.
             bind (fail_if (\<not> before_deadline now sl ven) errCancelDeadline) (\<lambda>_.
             bind (update_where bookings bookings_update bookings_ok
                    (\<lambda>b. Booking_ID b = bid \<and> Booking_Status b = BookingReserved)
                    (cancel_booking_row now)) (\<lambda>n.
             if n \<noteq> 1 then ret False
             else
               bind (update_where slots slots_update slots_ok
                      (\<lambda>s. Slot_ID s = Slot_ID sl \<and> Slot_ReservedCount s > 0)
                      (free_place_row clock)) (\<lambda>n.
               bind (fail_if (n \<noteq> 1) errSlotUnavailable) (\<lambda>_. ret True))))))))))"

definition checkin_row :: "instant \<Rightarrow> booking \<Rightarrow> booking" where
  "checkin_row now b =
     b\<lparr>Booking_Status := BookingCheckedIn, Booking_CheckedAt := Some now, Booking_UpdatedAt := now\<rparr>"

definition repo_Checkin :: "string \<Rightarrow> instant \<Rightarrow> ('o, bool) brepo" where
  "repo_Checkin code now =
     bind gormDB (\<lambda>_.
     bind (update_where bookings bookings_update bookings_ok
            (\<lambda>b. Booking_CheckinCode b = code \<and> Booking_Status b = BookingReserved) (checkin_row now)) (\<lambda>n.
     ret (n > 0)))"

definition no_show_row :: "instant \<Rightarrow> booking \<Rightarrow> booking" where
  "no_show_row now b = b\<lparr>Booking_Status := BookingNoShow, Booking_UpdatedAt := now\<rparr>"

definition missed :: "instant \<Rightarrow> reservation_db \<Rightarrow> booking \<Rightarrow> bool" where
  "missed now t b \<longleftrightarrow> Booking_Status b = BookingReserved \<and> joined (\<lambda>s. Slot_EndAt s \<le> now) t b"

definition MarkNoShows :: "(booking \<Rightarrow> bool) \<Rightarrow> instant \<Rightarrow> ('o, booking list) brepo" where
  "MarkNoShows busy now =
     bind gormDB (\<lambda>_.
     transaction (
       bind (read_rows (\<lambda>t. filter (\<lambda>b. missed now t b \<and> \<not> busy b) (bookings t))) (\<lambda>found.
       if found = [] then ret []
       else
         bind (update_where bookings bookings_update bookings_ok
                (\<lambda>b. Booking_ID b \<in> set (map Booking_ID found) \<and> Booking_Status b = BookingReserved)
                (no_show_row now)) (\<lambda>n.
         bind (fail_if (n \<noteq> length found) errNoShowCount) (\<lambda>_. ret found)))))"

section \<open>Closures\<close>

definition closure_booking_row :: "instant \<Rightarrow> booking \<Rightarrow> booking" where
  "closure_booking_row now b =
     b\<lparr>Booking_Status := BookingClosureCancelled, Booking_CancelledAt := Some now, Booking_UpdatedAt := now\<rparr>"

definition close_slot_row :: "instant \<Rightarrow> slot \<Rightarrow> slot" where
  "close_slot_row now s =
     s\<lparr>Slot_Status := SlotClosed, Slot_ReservedCount := 0, Slot_UpdatedAt := now\<rparr>"

definition closed_by :: "reservation_db \<Rightarrow> closure \<Rightarrow> slot \<Rightarrow> bool" where
  "closed_by t c s \<longleftrightarrow>
     Slot_StartAt s < Closure_EndAt c \<and> Slot_EndAt s > Closure_StartAt c \<and>
     (case Closure_ResourceID c of
        Some rid \<Rightarrow> Slot_ResourceID s = rid
      | None \<Rightarrow>
          (case Closure_VenueID c of
             Some vid \<Rightarrow>
               Slot_ResourceID s \<in> set (map Resource_ID (filter (\<lambda>r. Resource_VenueID r = vid) (resources t)))
           | None \<Rightarrow> True))"

definition repo_CreateClosure :: "closure \<Rightarrow> instant \<Rightarrow> ('o, int64 list) brepo" where
  "repo_CreateClosure c now =
     bind gormDB (\<lambda>_.
     transaction (
       bind (create_row closures closures_update closures_ok c) (\<lambda>_.
       bind (read_rows (\<lambda>t. filter (closed_by t c) (slots t))) (\<lambda>found.
       if found = [] then ret []
       else
         let slotIDs = set (map Slot_ID found) in
         bind (read_rows (\<lambda>t. remdups (map Booking_RootUserID
                (filter (\<lambda>b. Booking_SlotID b \<in> slotIDs \<and> Booking_Status b = BookingReserved)
                  (bookings t))))) (\<lambda>roots.
         bind (update_where bookings bookings_update bookings_ok
                (\<lambda>b. Booking_SlotID b \<in> slotIDs \<and> Booking_Status b = BookingReserved)
                (closure_booking_row now)) (\<lambda>_.
         bind (update_where slots slots_update slots_ok (\<lambda>s. Slot_ID s \<in> slotIDs) (close_slot_row now)) (\<lambda>_.
         ret roots)))))))"

end
