(* ===== verification/Reservation_Inv.thy ===== *)
theory Reservation_Inv
  imports Reservation_Repo
begin

text \<open>
  What the reservation tables promise.

  Abstractly there is a board: for every slot its number of places, whether it is open, and the set of
  bookings that hold a place. Places are taken one at a time while some are left, given back, or the
  slot is closed. The tables implement the board with a counter, \<open>reserved_count\<close>; the invariant says
  that the counter of an open slot is the number of holders, never above the capacity, that a pending
  reservation sits in an open slot, and that no user holds two overlapping slots.
\<close>

section \<open>The board\<close>

record place =
  Places :: int
  Opened :: bool
  Holders :: "int64 set"

type_synonym board = "int64 \<rightharpoonup> place"

definition close_place :: "int64 set \<Rightarrow> place \<Rightarrow> place" where
  "close_place gone p = p\<lparr>Opened := False, Holders := Holders p - gone\<rparr>"

inductive board_step :: "board \<Rightarrow> board \<Rightarrow> bool" where
  board_skip: "board_step B B"
| board_offer: "B k = None \<Longrightarrow> 0 \<le> n \<Longrightarrow>
    board_step B (B(k \<mapsto> \<lparr>Places = n, Opened = opn, Holders = {}\<rparr>))"
| board_take: "B k = Some p \<Longrightarrow> Opened p \<Longrightarrow> int (card (Holders p)) < Places p \<Longrightarrow>
    (\<And>j q. B j = Some q \<Longrightarrow> b \<notin> Holders q) \<Longrightarrow>
    board_step B (B(k \<mapsto> p\<lparr>Holders := insert b (Holders p)\<rparr>))"
| board_leave: "B k = Some p \<Longrightarrow> Opened p \<Longrightarrow> b \<in> Holders p \<Longrightarrow>
    board_step B (B(k \<mapsto> p\<lparr>Holders := Holders p - {b}\<rparr>))"
| board_close: "board_step B (\<lambda>k. if k \<in> K then map_option (close_place gone) (B k) else B k)"

definition board_inv :: "board \<Rightarrow> bool" where
  "board_inv B \<longleftrightarrow>
     (\<forall>k p. B k = Some p \<longrightarrow> finite (Holders p) \<and> int (card (Holders p)) \<le> Places p) \<and>
     (\<forall>j k p q. B j = Some p \<longrightarrow> B k = Some q \<longrightarrow> j \<noteq> k \<longrightarrow> Holders p \<inter> Holders q = {})"

lemma board_invD:
  "board_inv B \<Longrightarrow> B k = Some p \<Longrightarrow> finite (Holders p)"
  "board_inv B \<Longrightarrow> B k = Some p \<Longrightarrow> int (card (Holders p)) \<le> Places p"
  "board_inv B \<Longrightarrow> B j = Some p \<Longrightarrow> B k = Some q \<Longrightarrow> j \<noteq> k \<Longrightarrow> Holders p \<inter> Holders q = {}"
  by (auto simp: board_inv_def)

lemma board_update:
  assumes "board_inv B" and "finite H" and "int (card H) \<le> Places p"
    and "\<And>j q. B j = Some q \<Longrightarrow> j \<noteq> k \<Longrightarrow> H \<inter> Holders q = {}"
  shows "board_inv (B(k \<mapsto> p\<lparr>Holders := H\<rparr>))"
  using assms unfolding board_inv_def by (auto simp: Int_commute)

lemma board_shrink:
  assumes inv: "board_inv B" and f: "\<And>k p. Places (f k p) = Places p" "\<And>k p. Holders (f k p) \<subseteq> Holders p"
  shows "board_inv (\<lambda>k. map_option (f k) (B k))"
  unfolding board_inv_def
proof (intro conjI allI impI)
  fix k p assume "map_option (f k) (B k) = Some p"
  then obtain q where q: "B k = Some q" "p = f k q" by auto
  show "finite (Holders p)" using finite_subset [OF f(2)] board_invD(1) [OF inv q(1)] q(2) by blast
  show "int (card (Holders p)) \<le> Places p"
    using card_mono [OF board_invD(1) [OF inv q(1)] f(2) [of k q]] board_invD(2) [OF inv q(1)] q(2) f(1) by simp
next
  fix j k p q assume a: "map_option (f j) (B j) = Some p" "map_option (f k) (B k) = Some q" "j \<noteq> k"
  then obtain x y where "B j = Some x" "p = f j x" "B k = Some y" "q = f k y" by auto
  with board_invD(3) [OF inv _ _ a(3)] f(2) show "Holders p \<inter> Holders q = {}" by blast
qed

theorem board_step_inv: "board_step B B' \<Longrightarrow> board_inv B \<Longrightarrow> board_inv B'"
proof (induction rule: board_step.induct)
  case (board_offer B k n opn)
  show ?case
    using board_update [of B "{}" "\<lparr>Places = n, Opened = opn, Holders = {}\<rparr>" k] board_offer
    by (simp add: fun_upd_def)
next
  case (board_take B k p b)
  show ?case
  proof (rule board_update [OF board_take.prems])
    show "finite (insert b (Holders p))" using board_invD(1) [OF board_take.prems board_take.hyps(1)] by simp
    show "int (card (insert b (Holders p))) \<le> Places p"
      using board_invD(1) [OF board_take.prems board_take.hyps(1)] board_take.hyps(3) by (simp add: card_insert_if)
    show "insert b (Holders p) \<inter> Holders q = {}" if "B j = Some q" "j \<noteq> k" for j q
      using board_invD(3) [OF board_take.prems board_take.hyps(1) that(1)] that board_take.hyps(4) by blast
  qed
next
  case (board_leave B k p b)
  have "board_inv (\<lambda>j. map_option (\<lambda>q. if j = k then q\<lparr>Holders := Holders q - {b}\<rparr> else q) (B j))"
    by (rule board_shrink [OF board_leave.prems]) auto
  moreover have "(\<lambda>j. map_option (\<lambda>q. if j = k then q\<lparr>Holders := Holders q - {b}\<rparr> else q) (B j))
      = B(k \<mapsto> p\<lparr>Holders := Holders p - {b}\<rparr>)"
    using board_leave.hyps(1) by (auto simp: map_option_case split: option.split)
  ultimately show ?case by (simp add: fun_upd_def)
next
  case (board_close B K gone)
  have "board_inv (\<lambda>k. map_option (\<lambda>p. if k \<in> K then close_place gone p else p) (B k))"
    by (rule board_shrink [OF board_close.prems]) (auto simp: close_place_def)
  moreover have "(\<lambda>k. map_option (\<lambda>p. if k \<in> K then close_place gone p else p) (B k))
      = (\<lambda>k. if k \<in> K then map_option (close_place gone) (B k) else B k)"
    by (auto simp: map_option_case split: option.split)
  ultimately show ?case by simp
qed

section \<open>The invariant of the tables\<close>

definition occupies :: "booking \<Rightarrow> bool" where
  "occupies b \<longleftrightarrow> Booking_Status b = BookingReserved \<or> Booking_Status b = BookingCheckedIn
     \<or> Booking_Status b = BookingNoShow"

definition held :: "reservation_db \<Rightarrow> int64 \<Rightarrow> nat" where
  "held t k = length (filter (\<lambda>b. Booking_SlotID b = k \<and> occupies b) (bookings t))"

definition board_of :: "reservation_db \<Rightarrow> board" where
  "board_of t k = map_option (\<lambda>s. \<lparr>Places = Slot_Capacity s, Opened = (Slot_Status s = SlotOpen),
       Holders = Booking_ID ` {b \<in> set (bookings t). Booking_SlotID b = k \<and> occupies b}\<rparr>)
     (lookup Slot_ID (slots t) k)"

definition tables_ok :: "reservation_db \<Rightarrow> bool" where
  "tables_ok t \<longleftrightarrow> venues_ok (venues t) \<and> resources_ok (resources t) \<and> slots_ok (slots t)
     \<and> day_locks_ok (day_locks t) \<and> bookings_ok (bookings t)"

text \<open>A slot lies within one day of the zone, so two slots that overlap are on the same day.\<close>

definition slot_shape :: "slot \<Rightarrow> bool" where
  "slot_shape s \<longleftrightarrow> Slot_StartAt s < Slot_EndAt s \<and> Slot_EndAt s \<le> AddDays (dayStart (Slot_StartAt s)) 1"

definition catalogue_ok :: "reservation_db \<Rightarrow> bool" where
  "catalogue_ok t \<longleftrightarrow>
     (\<forall>v \<in> set (venues t). 1 \<le> Venue_SlotMinutes v) \<and>
     (\<forall>r \<in> set (resources t). 1 \<le> Resource_Capacity r) \<and>
     (\<forall>u \<in> set (rules t). 0 \<le> Rule_StartMinute u \<and> Rule_EndMinute u \<le> 1440) \<and>
     (\<forall>s \<in> set (slots t). slot_shape s)"

definition count_ok :: "reservation_db \<Rightarrow> bool" where
  "count_ok t \<longleftrightarrow> (\<forall>s \<in> set (slots t).
     Slot_ReservedCount s = (if Slot_Status s = SlotOpen then int (held t (Slot_ID s)) else 0) \<and>
     int (held t (Slot_ID s)) \<le> Slot_Capacity s)"

definition placed_ok :: "reservation_db \<Rightarrow> bool" where
  "placed_ok t \<longleftrightarrow> (\<forall>b \<in> set (bookings t). \<exists>s \<in> set (slots t). Slot_ID s = Booking_SlotID b \<and>
     (Booking_Status b = BookingReserved \<longrightarrow> Slot_Status s = SlotOpen))"

definition apart_ok :: "reservation_db \<Rightarrow> bool" where
  "apart_ok t \<longleftrightarrow> (\<forall>b \<in> set (bookings t). \<forall>c \<in> set (bookings t). \<forall>s \<in> set (slots t). \<forall>u \<in> set (slots t).
     b \<noteq> c \<and> Booking_RootUserID b = Booking_RootUserID c \<and> valid_booking b \<and> valid_booking c \<and>
     Slot_ID s = Booking_SlotID b \<and> Slot_ID u = Booking_SlotID c \<longrightarrow> \<not> overlaps s u)"

definition booking_inv :: "reservation_db \<Rightarrow> bool" where
  "booking_inv t \<longleftrightarrow> tables_ok t \<and> catalogue_ok t \<and> count_ok t \<and> placed_ok t \<and> apart_ok t"

lemma booking_invD:
  "booking_inv t \<Longrightarrow> tables_ok t" "booking_inv t \<Longrightarrow> catalogue_ok t" "booking_inv t \<Longrightarrow> count_ok t"
  "booking_inv t \<Longrightarrow> placed_ok t" "booking_inv t \<Longrightarrow> apart_ok t"
  by (simp_all add: booking_inv_def)

lemma overlaps_sym: "overlaps a s \<longleftrightarrow> overlaps s a"
  by (auto simp: overlaps_def)

lemma slot_ids: "tables_ok t \<Longrightarrow> distinct (map Slot_ID (slots t))"
  and booking_ids: "tables_ok t \<Longrightarrow> distinct (map Booking_ID (bookings t))"
  by (simp_all add: tables_ok_def slots_ok_def bookings_ok_def)

lemma slot_row: "tables_ok t \<Longrightarrow> s \<in> set (slots t) \<Longrightarrow> lookup Slot_ID (slots t) (Slot_ID s) = Some s"
  using lookup_member [OF slot_ids] .

lemma slot_unique:
  "tables_ok t \<Longrightarrow> s \<in> set (slots t) \<Longrightarrow> u \<in> set (slots t) \<Longrightarrow> Slot_ID s = Slot_ID u \<Longrightarrow> s = u"
  by (rule inj_onD [OF distinct_map [THEN iffD1, THEN conjunct2, OF slot_ids]])

lemma booking_unique:
  "tables_ok t \<Longrightarrow> b \<in> set (bookings t) \<Longrightarrow> c \<in> set (bookings t) \<Longrightarrow> Booking_ID b = Booking_ID c \<Longrightarrow> b = c"
  by (rule inj_onD [OF distinct_map [THEN iffD1, THEN conjunct2, OF booking_ids]])

lemma holders_card:
  assumes "tables_ok t"
  shows "card (Booking_ID ` {b \<in> set (bookings t). Booking_SlotID b = k \<and> occupies b}) = held t k"
proof -
  let ?l = "filter (\<lambda>b. Booking_SlotID b = k \<and> occupies b) (bookings t)"
  have "distinct (map Booking_ID ?l)"
    using booking_ids [OF assms] by (simp add: distinct_map inj_on_def)
  then have "card (set (map Booking_ID ?l)) = length ?l" using distinct_card by fastforce
  then show ?thesis by (simp add: held_def)
qed

text \<open>The counter implements the board, so the board's own invariant holds of the tables.\<close>

lemma board_of_inv:
  assumes "booking_inv t"
  shows "board_inv (board_of t)"
proof -
  note ok = booking_invD(1) [OF assms]
  have cap: "int (held t k) \<le> Slot_Capacity s" if "lookup Slot_ID (slots t) k = Some s" for k s
    using booking_invD(3) [OF assms] lookup_SomeD [OF that] by (auto simp: count_ok_def)
  show ?thesis unfolding board_inv_def
  proof (intro conjI allI impI)
    fix k p assume "board_of t k = Some p"
    then show "finite (Holders p)" "int (card (Holders p)) \<le> Places p"
      using cap [of k] by (auto simp: board_of_def holders_card [OF ok])
  next
    fix j k p q assume "board_of t j = Some p" "board_of t k = Some q" "j \<noteq> k"
    then show "Holders p \<inter> Holders q = {}"
      by (auto simp: board_of_def dest: booking_unique [OF ok])
  qed
qed

end
