(* ===== verification/Reservation_Refine.thy ===== *)
theory Reservation_Refine
  imports Reservation_Inv
begin

text \<open>
  Every write of the reservation repository, whatever statement fails, moves the board by steps of the
  abstract board and keeps the invariant of the tables.
\<close>

section \<open>Counting holders\<close>

lemma held_update_same:
  assumes "\<And>b. P b \<Longrightarrow> Booking_SlotID (f b) = Booking_SlotID b"
    and "\<And>b. b \<in> set (bookings t) \<Longrightarrow> P b \<Longrightarrow> occupies (f b) \<longleftrightarrow> occupies b"
  shows "held (t\<lparr>bookings := update_rows P f (bookings t)\<rparr>) k = held t k"
proof -
  have "length (filter (\<lambda>b. Booking_SlotID b = k \<and> occupies b) (update_rows P f rows)) =
      length (filter (\<lambda>b. Booking_SlotID b = k \<and> occupies b) rows)"
    if "\<And>b. b \<in> set rows \<Longrightarrow> P b \<Longrightarrow> occupies (f b) \<longleftrightarrow> occupies b" for rows
    using that assms(1) by (induction rows) (auto simp: update_rows_def)
  then show ?thesis using assms(2) by (simp add: held_def)
qed

lemma held_update_drop:
  assumes "\<And>b. P b \<Longrightarrow> Booking_SlotID (f b) = Booking_SlotID b \<and> occupies b \<and> \<not> occupies (f b)"
  shows "held (t\<lparr>bookings := update_rows P f (bookings t)\<rparr>) k + length (filter (\<lambda>b. P b \<and> Booking_SlotID b = k) (bookings t))
    = held t k"
proof -
  have "length (filter (\<lambda>b. Booking_SlotID b = k \<and> occupies b) (update_rows P f rows)) +
      length (filter (\<lambda>b. P b \<and> Booking_SlotID b = k) rows) =
      length (filter (\<lambda>b. Booking_SlotID b = k \<and> occupies b) rows)" for rows
    using assms by (induction rows) (auto simp: update_rows_def)
  then show ?thesis by (simp add: held_def)
qed

lemma length_filter_unique:
  assumes "distinct (map key rows)" and "r \<in> set rows" and "\<And>x. x \<in> set rows \<Longrightarrow> P x \<longleftrightarrow> x = r"
  shows "length (filter P rows) = 1"
proof -
  have "filter P rows = filter (\<lambda>x. x = r) rows" using assms(3) by (auto intro: filter_cong)
  moreover have "distinct rows" using assms(1) by (simp add: distinct_map)
  ultimately show ?thesis using assms(2) distinct_length_filter [of rows "\<lambda>x. x = r"]
    by (simp add: Int_def Collect_conv_if)
qed

lemma held_slots [simp]:
  "held (t\<lparr>slots := ss\<rparr>) k = held t k" "held (t\<lparr>day_locks := ls\<rparr>) k = held t k"
  "held (t\<lparr>closures := cs\<rparr>) k = held t k" "held (t\<lparr>venues := vs\<rparr>) k = held t k"
  "held (t\<lparr>resources := rs\<rparr>) k = held t k" "held (t\<lparr>rules := us\<rparr>) k = held t k"
  by (simp_all add: held_def)

section \<open>Tables that do not matter to the board\<close>

definition same_board :: "reservation_db \<Rightarrow> reservation_db \<Rightarrow> bool" where
  "same_board t t' \<longleftrightarrow> slots t' = slots t \<and> bookings t' = bookings t"

lemma same_board_keeps:
  assumes "same_board t t'" and "tables_ok t'" and "catalogue_ok t'" and "booking_inv t"
  shows "booking_inv t'" and "board_of t' = board_of t"
proof -
  have eq: "slots t' = slots t" "bookings t' = bookings t" using assms(1) by (auto simp: same_board_def)
  have "held t' = held t" by (rule ext) (simp add: held_def eq)
  with assms(2-4) show "booking_inv t'"
    by (simp add: booking_inv_def count_ok_def placed_ok_def apart_ok_def eq)
  show "board_of t' = board_of t" by (rule ext) (simp add: board_of_def eq)
qed

section \<open>Offering slots\<close>

lemma insert_slot_inv:
  assumes inv: "booking_inv t" and ok: "slots_ok (slots t @ [s])"
    and s: "Slot_ReservedCount s = 0" "0 \<le> Slot_Capacity s" "slot_shape s"
  shows "booking_inv (t\<lparr>slots := slots t @ [s]\<rparr>)"
    and "board_step (board_of t) (board_of (t\<lparr>slots := slots t @ [s]\<rparr>))"
proof -
  let ?t = "t\<lparr>slots := slots t @ [s]\<rparr>"
  have fresh: "Slot_ID s \<notin> Slot_ID ` set (slots t)" using ok by (auto simp: slots_ok_def)
  have placed: "Booking_SlotID b \<noteq> Slot_ID s" if b: "b \<in> set (bookings t)" for b
  proof -
    obtain u where "u \<in> set (slots t)" "Slot_ID u = Booking_SlotID b"
      using booking_invD(4) [OF inv] b by (auto simp: placed_ok_def)
    then have "Booking_SlotID b \<in> Slot_ID ` set (slots t)" by (metis imageI)
    with fresh show ?thesis by metis
  qed
  then have none: "held t (Slot_ID s) = 0" by (auto simp: held_def filter_empty_conv)
  have "tables_ok ?t" using booking_invD(1) [OF inv] ok by (simp add: tables_ok_def)
  moreover have "catalogue_ok ?t" using booking_invD(2) [OF inv] s(3) by (auto simp: catalogue_ok_def)
  moreover have "count_ok ?t" using booking_invD(3) [OF inv] s none by (auto simp: count_ok_def)
  moreover have "placed_ok ?t" using booking_invD(4) [OF inv] by (fastforce simp: placed_ok_def)
  moreover have "apart_ok ?t"
    using booking_invD(5) [OF inv] placed unfolding apart_ok_def by auto metis+
  ultimately show "booking_inv ?t" by (simp add: booking_inv_def)
  have "board_of ?t = (board_of t)(Slot_ID s \<mapsto> \<lparr>Places = Slot_Capacity s,
      Opened = (Slot_Status s = SlotOpen), Holders = {}\<rparr>)"
  proof
    fix k
    have "lookup Slot_ID (slots t @ [s]) = (lookup Slot_ID (slots t))(Slot_ID s \<mapsto> s)"
      using ok by (intro lookup_append_new) (simp add: slots_ok_def)
    then show "board_of ?t k = ((board_of t)(Slot_ID s \<mapsto> \<lparr>Places = Slot_Capacity s,
        Opened = (Slot_Status s = SlotOpen), Holders = {}\<rparr>)) k"
      using placed by (auto simp: board_of_def)
  qed
  moreover have "board_of t (Slot_ID s) = None"
    using lookup_fresh [of Slot_ID "slots t" s] ok by (simp add: board_of_def slots_ok_def)
  ultimately show "board_step (board_of t) (board_of ?t)" using s(2) by (simp only:) (rule board_offer)
qed

definition fresh_slot :: "slot \<Rightarrow> bool" where
  "fresh_slot s \<longleftrightarrow> Slot_ReservedCount s = 0 \<and> 0 \<le> Slot_Capacity s \<and> slot_shape s"

lemma insert_slots_inv:
  assumes "booking_inv t" and "\<forall>s \<in> set ss. fresh_slot s"
  shows "booking_inv (t\<lparr>slots := fold insert_slot ss (slots t)\<rparr>)
    \<and> board_step\<^sup>*\<^sup>* (board_of t) (board_of (t\<lparr>slots := fold insert_slot ss (slots t)\<rparr>))"
  using assms
proof (induction ss arbitrary: t)
  case (Cons s ss)
  let ?t = "t\<lparr>slots := insert_slot s (slots t)\<rparr>"
  have one: "booking_inv ?t \<and> board_step (board_of t) (board_of ?t)"
    using insert_slot_inv [OF Cons.prems(1)] Cons.prems board_skip
    by (simp add: insert_slot_def fresh_slot_def)
  with Cons.IH [of ?t] Cons.prems(2) show ?case
    by (auto intro: converse_rtranclp_into_rtranclp)
qed simp

section \<open>Updates that keep slots where they are\<close>

definition moves_none :: "(slot \<Rightarrow> slot) \<Rightarrow> bool" where
  "moves_none g \<longleftrightarrow> (\<forall>s. Slot_ID (g s) = Slot_ID s \<and> Slot_ResourceID (g s) = Slot_ResourceID s \<and>
     Slot_StartAt (g s) = Slot_StartAt s \<and> Slot_EndAt (g s) = Slot_EndAt s \<and> Slot_Capacity (g s) = Slot_Capacity s)"

definition moves_back :: "(booking \<Rightarrow> booking) \<Rightarrow> bool" where
  "moves_back h \<longleftrightarrow> (\<forall>b. Booking_ID (h b) = Booking_ID b \<and> Booking_SlotID (h b) = Booking_SlotID b \<and>
     Booking_RootUserID (h b) = Booking_RootUserID b \<and> Booking_CheckinCode (h b) = Booking_CheckinCode b \<and>
     (valid_booking (h b) \<longrightarrow> valid_booking b))"

lemma moves_none_update:
  "moves_none f \<Longrightarrow> moves_none (\<lambda>s. if P s then f s else s)" "moves_none (\<lambda>s. s)"
  by (auto simp: moves_none_def)

lemma moves_back_update:
  "(\<And>b. P b \<Longrightarrow> Booking_Status b = BookingReserved) \<Longrightarrow>
   (\<And>b. Booking_ID (f b) = Booking_ID b \<and> Booking_SlotID (f b) = Booking_SlotID b \<and>
     Booking_RootUserID (f b) = Booking_RootUserID b \<and> Booking_CheckinCode (f b) = Booking_CheckinCode b) \<Longrightarrow>
   moves_back (\<lambda>b. if P b then f b else b)" "moves_back (\<lambda>b. b)"
  by (auto simp: moves_back_def valid_booking_def)

lemma slot_rows [simp]:
  "moves_none (take_place_row clock)" "moves_none (free_place_row clock)" "moves_none (close_slot_row now)"
  by (auto simp: moves_none_def take_place_row_def free_place_row_def close_slot_row_def)

lemma update_rows_map: "update_rows P f rows = map (\<lambda>r. if P r then f r else r) rows"
  by (simp add: update_rows_def)

lemma moved_tables:
  assumes "tables_ok t" and g: "moves_none g" and h: "moves_back h"
  shows "tables_ok (t\<lparr>slots := map g (slots t), bookings := map h (bookings t)\<rparr>)"
proof -
  have "map Slot_ID (map g (slots t)) = map Slot_ID (slots t)" "map slot_key (map g (slots t)) = map slot_key (slots t)"
    "map Booking_ID (map h (bookings t)) = map Booking_ID (bookings t)"
    "map Booking_CheckinCode (map h (bookings t)) = map Booking_CheckinCode (bookings t)"
    using g h by (auto simp: moves_none_def moves_back_def slot_key_def)
  with assms(1) show ?thesis by (simp add: tables_ok_def slots_ok_def bookings_ok_def del: map_map)
qed

lemma moved_catalogue:
  assumes "catalogue_ok t" and g: "moves_none g"
  shows "catalogue_ok (t\<lparr>slots := map g (slots t), bookings := bs\<rparr>)"
  using assms by (auto simp: catalogue_ok_def moves_none_def slot_shape_def)

lemma moved_apart:
  assumes "apart_ok t" and g: "moves_none g" and h: "moves_back h"
  shows "apart_ok (t\<lparr>slots := map g (slots t), bookings := map h (bookings t)\<rparr>)"
  unfolding apart_ok_def
proof (intro ballI impI)
  fix b c s u
  assume "b \<in> set (bookings (t\<lparr>slots := map g (slots t), bookings := map h (bookings t)\<rparr>))"
    "c \<in> set (bookings (t\<lparr>slots := map g (slots t), bookings := map h (bookings t)\<rparr>))"
    "s \<in> set (slots (t\<lparr>slots := map g (slots t), bookings := map h (bookings t)\<rparr>))"
    "u \<in> set (slots (t\<lparr>slots := map g (slots t), bookings := map h (bookings t)\<rparr>))"
  then obtain b' c' s' u' where rows: "b' \<in> set (bookings t)" "c' \<in> set (bookings t)"
    "s' \<in> set (slots t)" "u' \<in> set (slots t)" and eq: "b = h b'" "c = h c'" "s = g s'" "u = g u'"
    by auto
  assume a: "b \<noteq> c \<and> Booking_RootUserID b = Booking_RootUserID c \<and> valid_booking b \<and> valid_booking c \<and>
    Slot_ID s = Booking_SlotID b \<and> Slot_ID u = Booking_SlotID c"
  then have "\<not> overlaps s' u'"
    using assms(1) rows g h unfolding apart_ok_def eq moves_none_def moves_back_def by metis
  then show "\<not> overlaps s u" using g by (simp add: overlaps_def eq moves_none_def)
qed

section \<open>Taking and giving back a place\<close>

lemma board_of_moved:
  assumes g: "moves_none g" and h: "moves_back h"
  shows "board_of (t\<lparr>slots := map g (slots t), bookings := map h (bookings t)\<rparr>) k =
    map_option (\<lambda>s. \<lparr>Places = Slot_Capacity s, Opened = (Slot_Status (g s) = SlotOpen),
       Holders = Booking_ID ` {b \<in> set (bookings t). Booking_SlotID b = k \<and> occupies (h b)}\<rparr>)
     (lookup Slot_ID (slots t) k)"
proof -
  have "lookup Slot_ID (map g (slots t)) k = map_option g (lookup Slot_ID (slots t) k)"
    using lookup_update_rows [of Slot_ID g "\<lambda>_. True" "slots t" k] g
    by (simp add: update_rows_def moves_none_def)
  moreover have "Booking_ID ` {b \<in> h ` set (bookings t). Booking_SlotID b = k \<and> occupies b}
      = Booking_ID ` {b \<in> set (bookings t). Booking_SlotID b = k \<and> occupies (h b)}"
    using h by (force simp: moves_back_def image_iff)
  ultimately show ?thesis
    using g by (simp add: board_of_def moves_none_def option.map_comp comp_def)
qed

text \<open>Status changes of pending reservations that keep their place: check-in and no-show.\<close>

lemma keep_place_inv:
  assumes inv: "booking_inv t" and P: "\<And>b. P b \<Longrightarrow> Booking_Status b = BookingReserved"
    and f: "\<And>b. Booking_ID (f b) = Booking_ID b \<and> Booking_SlotID (f b) = Booking_SlotID b \<and>
      Booking_RootUserID (f b) = Booking_RootUserID b \<and> Booking_CheckinCode (f b) = Booking_CheckinCode b"
    and st: "\<And>b. Booking_Status (f b) \<in> {BookingCheckedIn, BookingNoShow}"
  shows "booking_inv (t\<lparr>bookings := update_rows P f (bookings t)\<rparr>)"
    and "board_of (t\<lparr>bookings := update_rows P f (bookings t)\<rparr>) = board_of t"
proof -
  let ?h = "\<lambda>b. if P b then f b else b"
  let ?t = "t\<lparr>bookings := update_rows P f (bookings t)\<rparr>"
  have h: "moves_back ?h" by (rule moves_back_update(1) [OF P f])
  have t: "?t = t\<lparr>slots := map (\<lambda>s. s) (slots t), bookings := map ?h (bookings t)\<rparr>"
    by (simp add: update_rows_def)
  have occ: "occupies (?h b) \<longleftrightarrow> occupies b" for b
    using P [of b] st [of b] by (auto simp: occupies_def)
  have "held ?t k = held t k" for k
  proof (rule held_update_same)
    show "occupies (f b) \<longleftrightarrow> occupies b" if "P b" for b using occ [of b] that by simp
  qed (use f in simp)
  then have "count_ok ?t" using booking_invD(3) [OF inv] by (simp add: count_ok_def)
  moreover have "placed_ok ?t" unfolding placed_ok_def
  proof
    fix b assume "b \<in> set (bookings ?t)"
    then obtain c where c: "c \<in> set (bookings t)" "b = ?h c" by (auto simp: update_rows_def)
    have "Booking_SlotID b = Booking_SlotID c" "Booking_Status b = BookingReserved \<Longrightarrow> b = c"
      using f [of c] st [of c] c(2) by (auto split: if_splits)
    with booking_invD(4) [OF inv] c(1) show "\<exists>s \<in> set (slots ?t). Slot_ID s = Booking_SlotID b \<and>
        (Booking_Status b = BookingReserved \<longrightarrow> Slot_Status s = SlotOpen)"
      unfolding placed_ok_def by auto
  qed
  ultimately show "booking_inv ?t"
    using moved_tables [OF booking_invD(1) [OF inv] moves_none_update(2) h] moved_catalogue [OF booking_invD(2) [OF inv] moves_none_update(2)]
      moved_apart [OF booking_invD(5) [OF inv] moves_none_update(2) h]
    unfolding booking_inv_def t by blast
  show "board_of ?t = board_of t"
    by (rule ext, unfold t, subst board_of_moved [OF moves_none_update(2) h]) (simp only: occ board_of_def)
qed

text \<open>A booking that takes one of the places left.\<close>

lemma apart_new_booking:
  assumes inv: "booking_inv t" and s: "s \<in> set (slots t)" and bk: "Booking_SlotID bk = Slot_ID s"
    and free: "\<And>c u. c \<in> set (bookings t) \<Longrightarrow> u \<in> set (slots t) \<Longrightarrow> Slot_ID u = Booking_SlotID c \<Longrightarrow>
      valid_booking c \<Longrightarrow> Booking_RootUserID c = Booking_RootUserID bk \<Longrightarrow> \<not> overlaps s u"
  shows "apart_ok (t\<lparr>bookings := bookings t @ [bk]\<rparr>)"
proof -
  note same = slot_unique [OF booking_invD(1) [OF inv] _ s]
  have old: "\<not> overlaps x y" if "b \<in> set (bookings t)" "c \<in> set (bookings t)" "x \<in> set (slots t)"
    "y \<in> set (slots t)" "b \<noteq> c \<and> Booking_RootUserID b = Booking_RootUserID c \<and> valid_booking b \<and>
      valid_booking c \<and> Slot_ID x = Booking_SlotID b \<and> Slot_ID y = Booking_SlotID c" for b c x y
    using booking_invD(5) [OF inv] that unfolding apart_ok_def by blast
  have new: "\<not> overlaps x y" if "c \<in> set (bookings t)" "x \<in> set (slots t)" "y \<in> set (slots t)"
    "Slot_ID x = Booking_SlotID bk" "Slot_ID y = Booking_SlotID c" "valid_booking c"
    "Booking_RootUserID c = Booking_RootUserID bk" for c x y
    using free [OF that(1,3,5,6,7)] same [OF that(2)] that(4) bk by simp
  show ?thesis unfolding apart_ok_def
  proof (intro ballI impI)
    fix b c x y
    assume "b \<in> set (bookings (t\<lparr>bookings := bookings t @ [bk]\<rparr>))" "c \<in> set (bookings (t\<lparr>bookings := bookings t @ [bk]\<rparr>))"
      "x \<in> set (slots (t\<lparr>bookings := bookings t @ [bk]\<rparr>))" "y \<in> set (slots (t\<lparr>bookings := bookings t @ [bk]\<rparr>))"
    then have bc: "b = bk \<or> b \<in> set (bookings t)" "c = bk \<or> c \<in> set (bookings t)"
      and xy: "x \<in> set (slots t)" "y \<in> set (slots t)" by auto
    assume a: "b \<noteq> c \<and> Booking_RootUserID b = Booking_RootUserID c \<and> valid_booking b \<and> valid_booking c \<and>
      Slot_ID x = Booking_SlotID b \<and> Slot_ID y = Booking_SlotID c"
    consider "b \<in> set (bookings t)" "c \<in> set (bookings t)" | "b = bk" "c \<in> set (bookings t)"
      | "c = bk" "b \<in> set (bookings t)" using bc a by blast
    then show "\<not> overlaps x y"
    proof cases
      case 1 then show ?thesis using old xy a by blast
    next
      case 2 then show ?thesis using new [of c x y] xy a by simp
    next
      case 3 then show ?thesis using new [of b y x] xy a overlaps_sym by simp
    qed
  qed
qed

lemma take_place_inv:
  assumes inv: "booking_inv t" and s: "s \<in> set (slots t)" "Slot_Status s = SlotOpen"
      "Slot_ReservedCount s < Slot_Capacity s"
    and bk: "Booking_SlotID bk = Slot_ID s" "Booking_Status bk = BookingReserved" "bookings_ok (bookings t @ [bk])"
    and free: "\<And>c u. c \<in> set (bookings t) \<Longrightarrow> u \<in> set (slots t) \<Longrightarrow> Slot_ID u = Booking_SlotID c \<Longrightarrow>
      valid_booking c \<Longrightarrow> Booking_RootUserID c = Booking_RootUserID bk \<Longrightarrow> \<not> overlaps s u"
    and t': "t' = t\<lparr>slots := update_rows (\<lambda>x. Slot_ID x = Slot_ID s \<and> Slot_ReservedCount x < Slot_Capacity x)
      (take_place_row clock) (slots t), bookings := bookings t @ [bk]\<rparr>"
  shows "booking_inv t'" and "board_step (board_of t) (board_of t')"
proof -
  let ?g = "\<lambda>x. if Slot_ID x = Slot_ID s \<and> Slot_ReservedCount x < Slot_Capacity x then take_place_row clock x else x"
  have g: "moves_none ?g" by (intro moves_none_update slot_rows)
  note ok = booking_invD(1) [OF inv]
  let ?u = "t\<lparr>slots := map ?g (slots t), bookings := map (\<lambda>b. b) (bookings t)\<rparr>"
  have eq: "t' = ?u\<lparr>bookings := bookings t @ [bk]\<rparr>" by (simp add: t' update_rows_def)
  have gs: "?g s = take_place_row clock s" using s(3) by simp
  have g_other: "?g x = x" if "x \<in> set (slots t)" "x \<noteq> s" for x using slot_unique [OF ok that(1) s(1)] that(2) by auto
  have id_back: "moves_back (\<lambda>b. b)" by (rule moves_back_update)
  have occ: "occupies bk" "valid_booking bk" using bk(2) by (simp_all add: occupies_def valid_booking_def)
  have held: "held t' k = held t k + (if k = Slot_ID s then 1 else 0)" for k
    using occ(1) bk(1) by (simp add: held_def t')
  have count: "count_ok t'" unfolding count_ok_def
  proof
    fix x assume "x \<in> set (slots t')"
    then obtain y where y: "y \<in> set (slots t)" "x = ?g y" by (auto simp: eq)
    have "Slot_ReservedCount y = (if Slot_Status y = SlotOpen then int (held t (Slot_ID y)) else 0)"
      "int (held t (Slot_ID y)) \<le> Slot_Capacity y"
      using booking_invD(3) [OF inv] y(1) by (auto simp: count_ok_def)
    then show "Slot_ReservedCount x = (if Slot_Status x = SlotOpen then int (held t' (Slot_ID x)) else 0) \<and>
        int (held t' (Slot_ID x)) \<le> Slot_Capacity x"
      using s slot_unique [OF ok y(1) s(1)] by (cases "y = s") (auto simp: y(2) held take_place_row_def)
  qed
  have placed: "placed_ok t'" unfolding placed_ok_def
  proof
    fix b assume b: "b \<in> set (bookings t')"
    then obtain y where y: "y \<in> set (slots t)" "Slot_ID y = Booking_SlotID b"
        "Booking_Status b = BookingReserved \<longrightarrow> Slot_Status y = SlotOpen"
      using booking_invD(4) [OF inv] s bk by (auto simp: t' placed_ok_def)
    then show "\<exists>x \<in> set (slots t'). Slot_ID x = Booking_SlotID b \<and>
        (Booking_Status b = BookingReserved \<longrightarrow> Slot_Status x = SlotOpen)"
      by (intro bexI [of _ "?g y"]) (auto simp: eq take_place_row_def)
  qed
  let ?w = "t\<lparr>bookings := bookings t @ [bk]\<rparr>"
  have t'': "t' = ?w\<lparr>slots := map ?g (slots ?w), bookings := map (\<lambda>b. b) (bookings ?w)\<rparr>"
    by (simp add: t' update_rows_def)
  have tw: "tables_ok ?w" using ok bk(3) by (simp add: tables_ok_def)
  have aw: "apart_ok ?w" by (rule apart_new_booking [OF inv s(1) bk(1) free])
  have cw: "catalogue_ok ?w" using booking_invD(2) [OF inv] by (simp add: catalogue_ok_def)
  from count placed show "booking_inv t'"
    using moved_tables [OF tw g id_back, folded t''] moved_apart [OF aw g id_back, folded t'']
      moved_catalogue [OF cw g, of "map (\<lambda>b. b) (bookings ?w)", folded t''] unfolding booking_inv_def by blast
  let ?p = "\<lparr>Places = Slot_Capacity s, Opened = True,
    Holders = Booking_ID ` {b \<in> set (bookings t). Booking_SlotID b = Slot_ID s \<and> occupies b}\<rparr>"
  have at: "board_of t (Slot_ID s) = Some ?p" using slot_row [OF ok s(1)] s(2) by (simp add: board_of_def)
  have "board_of t' = (board_of t)(Slot_ID s \<mapsto> ?p\<lparr>Holders := insert (Booking_ID bk) (Holders ?p)\<rparr>)"
  proof
    fix k
    have "lookup Slot_ID (slots t') k = map_option ?g (lookup Slot_ID (slots t) k)"
      using lookup_update_rows [of Slot_ID ?g "\<lambda>_. True" "slots t" k] g by (simp add: eq update_rows_def moves_none_def)
    moreover have "Slot_Capacity (?g x) = Slot_Capacity x" "Slot_Status (?g x) = Slot_Status x" for x
      by (simp_all add: take_place_row_def)
    moreover have "{b \<in> set (bookings t'). Booking_SlotID b = k \<and> occupies b} =
        (if k = Slot_ID s then insert bk else id) {b \<in> set (bookings t). Booking_SlotID b = k \<and> occupies b}"
      using occ(1) bk(1) by (auto simp: t')
    ultimately show "board_of t' k = ((board_of t)(Slot_ID s \<mapsto> ?p\<lparr>Holders := insert (Booking_ID bk) (Holders ?p)\<rparr>)) k"
      using slot_row [OF ok s(1)] s(2) by (simp add: board_of_def option.map_comp comp_def)
  qed
  moreover have "board_step (board_of t) ((board_of t)(Slot_ID s \<mapsto> ?p\<lparr>Holders := insert (Booking_ID bk) (Holders ?p)\<rparr>))"
  proof (rule board_take)
    show "board_of t (Slot_ID s) = Some ?p" by (rule at)
    show "int (card (Holders ?p)) < Places ?p"
      using booking_invD(3) [OF inv] s by (simp add: holders_card [OF ok] count_ok_def)
    show "Booking_ID bk \<notin> Holders q" if "board_of t j = Some q" for j q
      using that bk(3) by (auto simp: board_of_def bookings_ok_def)
  qed simp
  ultimately show "board_step (board_of t) (board_of t')" by simp
qed

lemma booking_rows [simp]:
  "Booking_ID (cancel_booking_row now b) = Booking_ID b" "Booking_SlotID (cancel_booking_row now b) = Booking_SlotID b"
  "Booking_Status (cancel_booking_row now b) = BookingCancelled"
  "Booking_ID (closure_booking_row now b) = Booking_ID b" "Booking_SlotID (closure_booking_row now b) = Booking_SlotID b"
  "Booking_Status (closure_booking_row now b) = BookingClosureCancelled"
  "Booking_RootUserID (cancel_booking_row now b) = Booking_RootUserID b"
  "Booking_RootUserID (closure_booking_row now b) = Booking_RootUserID b"
  "Booking_CheckinCode (cancel_booking_row now b) = Booking_CheckinCode b"
  "Booking_CheckinCode (closure_booking_row now b) = Booking_CheckinCode b"
  by (simp_all add: cancel_booking_row_def closure_booking_row_def)

text \<open>Slots and bookings are updated together; what remains is the counter and the pending bookings.\<close>

lemma moved_inv:
  assumes inv: "booking_inv t" and g: "moves_none g" and h: "moves_back h"
    and t': "t' = t\<lparr>slots := map g (slots t), bookings := map h (bookings t)\<rparr>"
    and count: "\<And>s. s \<in> set (slots t) \<Longrightarrow>
      Slot_ReservedCount (g s) = (if Slot_Status (g s) = SlotOpen then int (held t' (Slot_ID s)) else 0) \<and>
      held t' (Slot_ID s) \<le> held t (Slot_ID s)"
    and placed: "\<And>b s. b \<in> set (bookings t) \<Longrightarrow> s \<in> set (slots t) \<Longrightarrow> Slot_ID s = Booking_SlotID b \<Longrightarrow>
      Booking_Status (h b) = BookingReserved \<Longrightarrow> Booking_Status b = BookingReserved \<and> Slot_Status (g s) = Slot_Status s"
  shows "booking_inv t'"
proof -
  have "count_ok t'" unfolding count_ok_def
  proof
    fix x assume "x \<in> set (slots t')"
    then obtain s where s: "s \<in> set (slots t)" "x = g s" by (auto simp: t')
    have "int (held t (Slot_ID s)) \<le> Slot_Capacity s" using booking_invD(3) [OF inv] s(1) by (auto simp: count_ok_def)
    with count [OF s(1)] g show "Slot_ReservedCount x = (if Slot_Status x = SlotOpen then int (held t' (Slot_ID x)) else 0) \<and>
        int (held t' (Slot_ID x)) \<le> Slot_Capacity x"
      by (simp add: s(2) moves_none_def)
  qed
  moreover have "placed_ok t'" unfolding placed_ok_def
  proof
    fix x assume "x \<in> set (bookings t')"
    then obtain b where b: "b \<in> set (bookings t)" "x = h b" by (auto simp: t')
    obtain s where s: "s \<in> set (slots t)" "Slot_ID s = Booking_SlotID b"
      "Booking_Status b = BookingReserved \<longrightarrow> Slot_Status s = SlotOpen"
      using booking_invD(4) [OF inv] b(1) by (auto simp: placed_ok_def)
    have "g s \<in> set (slots t')" using s(1) by (simp add: t')
    then show "\<exists>s \<in> set (slots t'). Slot_ID s = Booking_SlotID x \<and>
        (Booking_Status x = BookingReserved \<longrightarrow> Slot_Status s = SlotOpen)"
      using placed [OF b(1) s(1,2)] s(2,3) g h b(2) by (intro bexI [of _ "g s"]) (auto simp: moves_none_def moves_back_def)
  qed
  ultimately show ?thesis
    using moved_tables [OF booking_invD(1) [OF inv] g h, folded t']
      moved_catalogue [OF booking_invD(2) [OF inv] g, of "map h (bookings t)", folded t']
      moved_apart [OF booking_invD(5) [OF inv] g h, folded t']
    unfolding booking_inv_def by blast
qed

lemma leave_place_inv:
  assumes inv: "booking_inv t" and bk: "bk \<in> set (bookings t)" "Booking_Status bk = BookingReserved"
    and s: "s \<in> set (slots t)" "Slot_ID s = Booking_SlotID bk"
    and t': "t' = t\<lparr>slots := update_rows (\<lambda>x. Slot_ID x = Slot_ID s \<and> 0 < Slot_ReservedCount x) (free_place_row clock) (slots t),
      bookings := update_rows (\<lambda>b. Booking_ID b = Booking_ID bk \<and> Booking_Status b = BookingReserved)
        (cancel_booking_row now) (bookings t)\<rparr>"
  shows "booking_inv t'" and "board_step (board_of t) (board_of t')"
proof -
  let ?g = "\<lambda>x. if Slot_ID x = Slot_ID s \<and> 0 < Slot_ReservedCount x then free_place_row clock x else x"
  let ?P = "\<lambda>b. Booking_ID b = Booking_ID bk \<and> Booking_Status b = BookingReserved"
  let ?h = "\<lambda>b. if ?P b then cancel_booking_row now b else b"
  note ok = booking_invD(1) [OF inv]
  have g: "moves_none ?g" by (intro moves_none_update slot_rows)
  have h: "moves_back ?h" by (rule moves_back_update(1)) auto
  have t'': "t' = t\<lparr>slots := map ?g (slots t), bookings := map ?h (bookings t)\<rparr>" by (simp add: t' update_rows_def)
  have P: "?P b \<longleftrightarrow> b = bk" if "b \<in> set (bookings t)" for b
    using booking_unique [OF ok that bk(1)] bk(2) by auto
  obtain u where u: "u \<in> set (slots t)" "Slot_ID u = Booking_SlotID bk" "Slot_Status u = SlotOpen"
    using booking_invD(4) [OF inv] bk by (auto simp: placed_ok_def)
  have "open": "Slot_Status s = SlotOpen" using slot_unique [OF ok u(1) s(1)] u(2,3) s(2) by simp
  have occ: "occupies bk" "\<not> occupies (cancel_booking_row now bk)" using bk(2) by (simp_all add: occupies_def)
  have drop: "held t' k + (if k = Slot_ID s then 1 else 0) = held t k" for k
  proof -
    have "held (t\<lparr>bookings := update_rows ?P (cancel_booking_row now) (bookings t)\<rparr>) k
        + length (filter (\<lambda>b. ?P b \<and> Booking_SlotID b = k) (bookings t)) = held t k"
      by (rule held_update_drop) (auto simp: occupies_def)
    moreover have "length (filter (\<lambda>b. ?P b \<and> Booking_SlotID b = k) (bookings t)) = (if k = Slot_ID s then 1 else 0)"
      using length_filter_unique [OF booking_ids [OF ok] bk(1), of "\<lambda>b. ?P b \<and> Booking_SlotID b = k"] P s(2)
      by (auto simp: filter_empty_conv)
    ultimately show ?thesis by (simp add: t' held_def)
  qed
  have cnt: "Slot_ReservedCount x = (if Slot_Status x = SlotOpen then int (held t (Slot_ID x)) else 0)"
    if "x \<in> set (slots t)" for x using booking_invD(3) [OF inv] that by (auto simp: count_ok_def)
  have pos: "0 < Slot_ReservedCount s" using cnt [OF s(1)] "open" drop [of "Slot_ID s"] by simp
  show "booking_inv t'"
  proof (rule moved_inv [OF inv g h t''])
    fix x assume x: "x \<in> set (slots t)"
    show "Slot_ReservedCount (?g x) = (if Slot_Status (?g x) = SlotOpen then int (held t' (Slot_ID x)) else 0) \<and>
        held t' (Slot_ID x) \<le> held t (Slot_ID x)"
      using cnt [OF x] drop [of "Slot_ID x"] slot_unique [OF ok x s(1)] pos "open"
      by (cases "Slot_ID x = Slot_ID s") (auto simp: free_place_row_def)
  qed (auto simp: free_place_row_def split: if_splits)
  let ?p = "\<lparr>Places = Slot_Capacity s, Opened = True,
    Holders = Booking_ID ` {b \<in> set (bookings t). Booking_SlotID b = Slot_ID s \<and> occupies b}\<rparr>"
  have "board_of t' = (board_of t)(Slot_ID s \<mapsto> ?p\<lparr>Holders := Holders ?p - {Booking_ID bk}\<rparr>)"
  proof
    fix k
    have "Booking_ID ` {b \<in> set (bookings t). Booking_SlotID b = k \<and> occupies (?h b)} =
        Booking_ID ` {b \<in> set (bookings t). Booking_SlotID b = k \<and> occupies b} - {Booking_ID bk}"
      using booking_unique [OF ok _ bk(1)] bk(2) by (auto simp: occupies_def split: if_splits)
    moreover have "Booking_ID ` {b \<in> set (bookings t). Booking_SlotID b = k \<and> occupies b} - {Booking_ID bk} =
        Booking_ID ` {b \<in> set (bookings t). Booking_SlotID b = k \<and> occupies b}" if "k \<noteq> Slot_ID s"
      using that booking_unique [OF ok _ bk(1)] s(2) by auto
    moreover have "Slot_Status (?g x) = Slot_Status x" for x by (simp add: free_place_row_def)
    ultimately show "board_of t' k = ((board_of t)(Slot_ID s \<mapsto> ?p\<lparr>Holders := Holders ?p - {Booking_ID bk}\<rparr>)) k"
      using slot_row [OF ok s(1)] "open" unfolding board_of_moved [OF g h, of t, folded t''] fun_upd_apply unfolding board_of_def
      by (cases "k = Slot_ID s") simp_all
  qed
  moreover have "board_step (board_of t) ((board_of t)(Slot_ID s \<mapsto> ?p\<lparr>Holders := Holders ?p - {Booking_ID bk}\<rparr>))"
  proof (rule board_leave)
    show "board_of t (Slot_ID s) = Some ?p" using slot_row [OF ok s(1)] "open" by (simp add: board_of_def)
    show "Booking_ID bk \<in> Holders ?p" using bk(1) occ(1) s(2) by auto
  qed simp
  ultimately show "board_step (board_of t) (board_of t')" by simp
qed

section \<open>Closing slots\<close>

lemma close_slots_inv:
  assumes inv: "booking_inv t"
    and t': "t' = t\<lparr>slots := update_rows (\<lambda>x. Slot_ID x \<in> K) (close_slot_row now) (slots t),
      bookings := update_rows (\<lambda>b. Booking_SlotID b \<in> K \<and> Booking_Status b = BookingReserved)
        (closure_booking_row now) (bookings t)\<rparr>"
  shows "booking_inv t'" and "board_step (board_of t) (board_of t')"
proof -
  let ?g = "\<lambda>x. if Slot_ID x \<in> K then close_slot_row now x else x"
  let ?P = "\<lambda>b. Booking_SlotID b \<in> K \<and> Booking_Status b = BookingReserved"
  let ?h = "\<lambda>b. if ?P b then closure_booking_row now b else b"
  note ok = booking_invD(1) [OF inv]
  have g: "moves_none ?g" by (intro moves_none_update slot_rows)
  have h: "moves_back ?h" by (rule moves_back_update(1)) auto
  have t'': "t' = t\<lparr>slots := map ?g (slots t), bookings := map ?h (bookings t)\<rparr>" by (simp add: t' update_rows_def)
  have drop: "held t' k + length (filter (\<lambda>b. ?P b \<and> Booking_SlotID b = k) (bookings t)) = held t k" for k
    using held_update_drop [of ?P "closure_booking_row now" t k] by (simp add: t' held_def occupies_def)
  have same: "held t' k = held t k" if "k \<notin> K" for k
  proof -
    have "filter (\<lambda>b. ?P b \<and> Booking_SlotID b = k) (bookings t) = []" using that by (auto simp: filter_empty_conv)
    with drop [of k] show ?thesis by simp
  qed
  show "booking_inv t'"
  proof (rule moved_inv [OF inv g h t''])
    fix x assume x: "x \<in> set (slots t)"
    have "Slot_ReservedCount x = (if Slot_Status x = SlotOpen then int (held t (Slot_ID x)) else 0)"
      using booking_invD(3) [OF inv] x by (auto simp: count_ok_def)
    then show "Slot_ReservedCount (?g x) = (if Slot_Status (?g x) = SlotOpen then int (held t' (Slot_ID x)) else 0) \<and>
        held t' (Slot_ID x) \<le> held t (Slot_ID x)"
      using drop [of "Slot_ID x"] same [of "Slot_ID x"] by (simp add: close_slot_row_def)
  qed (auto split: if_splits)
  let ?gone = "Booking_ID ` {b \<in> set (bookings t). ?P b}"
  have "board_of t' = (\<lambda>k. if k \<in> K then map_option (close_place ?gone) (board_of t k) else board_of t k)"
  proof
    fix k
    have "Booking_ID ` {b \<in> set (bookings t). Booking_SlotID b = k \<and> occupies (?h b)} =
        Booking_ID ` {b \<in> set (bookings t). Booking_SlotID b = k \<and> occupies b} - ?gone" if "k \<in> K"
      using that by (auto simp: occupies_def dest: booking_unique [OF ok] split: if_splits)
    moreover have "{b \<in> set (bookings t). Booking_SlotID b = k \<and> occupies (?h b)} =
        {b \<in> set (bookings t). Booking_SlotID b = k \<and> occupies b}" if "k \<notin> K"
      using that by auto
    ultimately show "board_of t' k = (if k \<in> K then map_option (close_place ?gone) (board_of t k) else board_of t k)"
      unfolding board_of_moved [OF g h, of t, folded t''] unfolding board_of_def
      by (cases "lookup Slot_ID (slots t) k")
        (auto simp: close_place_def close_slot_row_def dest: lookup_SomeD)
  qed
  then show "board_step (board_of t) (board_of t')" by (simp only:) (rule board_close)
qed

end
