(* ===== verification/Reservation_System.thy ===== *)
theory Reservation_System
  imports Reservation_Refine
begin

text \<open>
  The reservation tables as a transition system: each step is a run of a repository method with any
  choice of failing statements. The board is refined and the invariant kept by every step.
\<close>

section \<open>What each method does to the board\<close>

definition board_moves :: "reservation_db \<Rightarrow> reservation_db \<Rightarrow> bool" where
  "board_moves t t' \<longleftrightarrow> booking_inv t' \<and> board_step\<^sup>*\<^sup>* (board_of t) (board_of t')"

lemma board_moves_refl: "booking_inv t \<Longrightarrow> board_moves t t"
  by (simp add: board_moves_def)

lemma board_moves_one: "booking_inv t' \<Longrightarrow> board_step (board_of t) (board_of t') \<Longrightarrow> board_moves t t'"
  by (simp add: board_moves_def)

lemma board_moves_same:
  "same_board t t' \<Longrightarrow> tables_ok t' \<Longrightarrow> catalogue_ok t' \<Longrightarrow> booking_inv t \<Longrightarrow> board_moves t t'"
  using same_board_keeps [of t t'] by (simp add: board_moves_def)

lemma EnsureSlots_moves:
  assumes "outcome (EnsureSlots ss) t r t'" and "booking_inv t" and "\<forall>s \<in> set ss. fresh_slot s"
  shows "board_moves t t'"
proof -
  from assms(1) have "t' = t \<or> t' = t\<lparr>slots := fold insert_slot ss (slots t)\<rparr>"
    unfolding EnsureSlots_def by (auto elim!: outcome_bindE simp: run_simps split: if_splits)
  with insert_slots_inv [OF assms(2,3)] board_moves_refl [OF assms(2)] show ?thesis
    by (auto simp: board_moves_def)
qed

lemma CreateVenue_moves:
  assumes "outcome (repo_CreateVenue v) t r t'" and "booking_inv t" and "1 \<le> Venue_SlotMinutes v"
  shows "board_moves t t'"
proof -
  from assms(1) have "t' = t \<or> venues_ok (venues t @ [v]) \<and> t' = t\<lparr>venues := venues t @ [v]\<rparr>"
    unfolding repo_CreateVenue_def by (cases r) (auto elim!: outcome_bindE simp: run_simps)
  then show ?thesis
  proof
    assume new: "venues_ok (venues t @ [v]) \<and> t' = t\<lparr>venues := venues t @ [v]\<rparr>"
    show ?thesis
      by (rule board_moves_same) (use new booking_invD(1,2) [OF assms(2)] assms(2,3) in
        \<open>simp_all add: same_board_def tables_ok_def catalogue_ok_def\<close>)
  qed (use board_moves_refl assms(2) in simp)
qed

lemma CreateResource_moves:
  assumes "outcome (repo_CreateResource v) t r t'" and "booking_inv t" and "1 \<le> Resource_Capacity v"
  shows "board_moves t t'"
proof -
  from assms(1) have "t' = t \<or> resources_ok (resources t @ [v]) \<and> t' = t\<lparr>resources := resources t @ [v]\<rparr>"
    unfolding repo_CreateResource_def by (cases r) (auto elim!: outcome_bindE simp: run_simps)
  then show ?thesis
  proof
    assume new: "resources_ok (resources t @ [v]) \<and> t' = t\<lparr>resources := resources t @ [v]\<rparr>"
    show ?thesis
      by (rule board_moves_same) (use new booking_invD(1,2) [OF assms(2)] assms(2,3) in
        \<open>simp_all add: same_board_def tables_ok_def catalogue_ok_def\<close>)
  qed (use board_moves_refl assms(2) in simp)
qed

lemma CreateRule_moves:
  assumes "outcome (repo_CreateRule v) t r t'" and "booking_inv t"
    and "0 \<le> Rule_StartMinute v" and "Rule_EndMinute v \<le> 1440"
  shows "board_moves t t'"
proof -
  from assms(1) have "t' = t \<or> t' = t\<lparr>rules := rules t @ [v]\<rparr>"
    unfolding repo_CreateRule_def by (cases r) (auto elim!: outcome_bindE simp: run_simps)
  then show ?thesis
  proof
    assume new: "t' = t\<lparr>rules := rules t @ [v]\<rparr>"
    show ?thesis
      by (rule board_moves_same) (use new booking_invD(1,2) [OF assms(2)] assms(2-4) in
        \<open>simp_all add: same_board_def tables_ok_def catalogue_ok_def\<close>)
  qed (use board_moves_refl assms(2) in simp)
qed

text \<open>
  A successful booking: the slot was open with a place left and in the future, the resource and venue
  active, the day within the venue's horizon, the user below the daily limit and free at that time.
\<close>

lemma user_bookings_tables [simp]:
  "user_bookings root P (t\<lparr>day_locks := ls\<rparr>) = user_bookings root P t"
  by (simp add: user_bookings_def joined_def slot_of_def)

lemma lock_day:
  assumes "outcome (create_or_ignore day_locks day_locks_update day_locks_ok l) t (Inr x) t1"
  shows "\<exists>ls. t1 = t\<lparr>day_locks := ls\<rparr> \<and> (day_locks_ok (day_locks t) \<longrightarrow> day_locks_ok ls)"
proof -
  have "t1 = t\<lparr>day_locks := day_locks t1\<rparr>" "day_locks_ok (day_locks t) \<Longrightarrow> day_locks_ok (day_locks t1)"
    using assms by (auto simp: outcome_create_or_ignore split: if_splits)
  then show ?thesis by blast
qed

lemma book_update:
  "bookings_update (\<lambda>rows. rows @ [bk]) (slots_update (update_rows P f) (t\<lparr>day_locks := ls\<rparr>)) =
     t\<lparr>day_locks := ls, slots := update_rows P f (slots t), bookings := bookings t @ [bk]\<rparr>"
  by (cases t) simp

definition bookable :: "booking \<Rightarrow> instant \<Rightarrow> reservation_db \<Rightarrow> slot \<Rightarrow> venue \<Rightarrow> bool" where
  "bookable bk now t s v \<longleftrightarrow>
     find (\<lambda>s. Slot_ID s = Booking_SlotID bk) (slots t) = Some s \<and>
     Slot_Status s = SlotOpen \<and> Slot_ReservedCount s < Slot_Capacity s \<and> now < Slot_StartAt s \<and>
     (case find (\<lambda>r. Resource_ID r = Slot_ResourceID s \<and> Resource_Status r = StatusActive) (resources t) of
        None \<Rightarrow> False
      | Some r \<Rightarrow> find (\<lambda>v. Venue_ID v = Resource_VenueID r \<and> Venue_Status v = StatusActive) (venues t) = Some v) \<and>
     Slot_StartAt s < AddDays (dayStart now) (Venue_AdvanceDays v + 1) \<and>
     int (length (user_bookings (Booking_RootUserID bk) (on_day (dayStart (Slot_StartAt s))) t)) < Venue_DailyLimit v \<and>
     user_bookings (Booking_RootUserID bk) (overlaps s) t = []"

definition booked :: "booking \<Rightarrow> instant \<Rightarrow> slot \<Rightarrow> reservation_db \<Rightarrow> reservation_db \<Rightarrow> bool" where
  "booked bk clock s t t' \<longleftrightarrow> bookings_ok (bookings t @ [bk]) \<and>
     (\<exists>ls. (day_locks_ok (day_locks t) \<longrightarrow> day_locks_ok ls) \<and>
       t' = t\<lparr>day_locks := ls, slots := update_rows (\<lambda>x. Slot_ID x = Slot_ID s \<and> Slot_ReservedCount x < Slot_Capacity x)
         (take_place_row clock) (slots t), bookings := bookings t @ [bk]\<rparr>)"

lemma CreateBooking_success:
  assumes "outcome (repo_CreateBooking bk now clock) t (Inr (s, v)) t'"
  shows "bookable bk now t s v \<and> booked bk clock s t t'"
  using assms unfolding repo_CreateBooking_def Let_def
  by (clarsimp dest!: outcome_bind_Inr transaction_success lock_day simp: run_simps simp del: outcome_create_or_ignore)
    (auto simp: bookable_def booked_def book_update)

lemma user_bookings_none:
  assumes "user_bookings root P t = []" and "tables_ok t" and "c \<in> set (bookings t)" and "u \<in> set (slots t)"
    and "Slot_ID u = Booking_SlotID c" and "valid_booking c" and "Booking_RootUserID c = root"
  shows "\<not> P u"
proof -
  have "slot_of t c = Some u" using slot_row [OF assms(2,4)] assms(5) by (simp add: slot_of_def)
  with assms show ?thesis by (auto simp: user_bookings_def joined_def filter_empty_conv)
qed

lemma booked_inv:
  assumes inv: "booking_inv t" and can: "bookable bk now t s v" and did: "booked bk clock s t t'"
    and bk: "Booking_Status bk = BookingReserved"
  shows "booking_inv t'" and "board_step (board_of t) (board_of t')"
proof -
  from did obtain ls where ls: "day_locks_ok (day_locks t) \<longrightarrow> day_locks_ok ls" and fresh: "bookings_ok (bookings t @ [bk])"
    and t': "t' = (t\<lparr>day_locks := ls\<rparr>)\<lparr>slots := update_rows (\<lambda>x. Slot_ID x = Slot_ID s \<and> Slot_ReservedCount x < Slot_Capacity x)
         (take_place_row clock) (slots (t\<lparr>day_locks := ls\<rparr>)), bookings := bookings (t\<lparr>day_locks := ls\<rparr>) @ [bk]\<rparr>"
    by (auto simp: booked_def)
  have s: "s \<in> set (slots t)" "Slot_ID s = Booking_SlotID bk" "Slot_Status s = SlotOpen" "Slot_ReservedCount s < Slot_Capacity s"
    and free: "user_bookings (Booking_RootUserID bk) (overlaps s) t = []"
    using can by (auto simp: bookable_def dest: find_member)
  let ?u = "t\<lparr>day_locks := ls\<rparr>"
  have u: "booking_inv ?u" "board_of ?u = board_of t"
    using same_board_keeps [of t ?u] inv ls booking_invD(1,2) [OF inv]
    by (auto simp: same_board_def tables_ok_def catalogue_ok_def)
  have "booking_inv t' \<and> board_step (board_of ?u) (board_of t')"
    by (rule conjI; rule take_place_inv [OF u(1) _ s(3,4) _ bk _ _ t'])
      (use s fresh user_bookings_none [OF free booking_invD(1) [OF inv]] in auto)
  with u(2) show "booking_inv t'" "board_step (board_of t) (board_of t')" by simp_all
qed

lemma CreateBooking_moves:
  assumes "outcome (repo_CreateBooking bk now clock) t r t'" and "booking_inv t"
    and "Booking_Status bk = BookingReserved"
  shows "board_moves t t'"
proof (cases r)
  case (Inl e)
  with assms(1) have "t' = t" unfolding repo_CreateBooking_def by (auto elim: connected_transactionE)
  with board_moves_refl [OF assms(2)] show ?thesis by simp
next
  case (Inr x)
  then obtain s v where r: "r = Inr (s, v)" by (cases x) auto
  from CreateBooking_success [OF assms(1) [unfolded r]] booked_inv [OF assms(2) _ _ assms(3)]
  show ?thesis by (blast intro: board_moves_one)
qed

text \<open>A cancellation frees exactly the place of a pending booking of the caller, before the deadline.\<close>

definition cancelled :: "int64 \<Rightarrow> int64 \<Rightarrow> instant \<Rightarrow> instant \<Rightarrow> reservation_db \<Rightarrow> reservation_db \<Rightarrow> bool" where
  "cancelled bid root now clock t t' \<longleftrightarrow>
     (\<exists>bk s v. find (\<lambda>b. Booking_ID b = bid \<and> Booking_RootUserID b = root) (bookings t) = Some bk \<and>
        Booking_Status bk = BookingReserved \<and>
        find (\<lambda>s. Slot_ID s = Booking_SlotID bk) (slots t) = Some s \<and> v \<in> set (venues t) \<and>
        before_deadline now s v \<and>
        t' = t\<lparr>slots := update_rows (\<lambda>x. Slot_ID x = Slot_ID s \<and> 0 < Slot_ReservedCount x) (free_place_row clock) (slots t),
          bookings := update_rows (\<lambda>b. Booking_ID b = bid \<and> Booking_Status b = BookingReserved)
            (cancel_booking_row now) (bookings t)\<rparr>)"

lemma cancel_update:
  "slots_update (update_rows P f) (bookings_update (update_rows Q g) t) =
     t\<lparr>slots := update_rows P f (slots t), bookings := update_rows Q g (bookings t)\<rparr>"
  by (cases t) simp

lemma cancel_changes_one:
  assumes "tables_ok t" and "find (\<lambda>b. Booking_ID b = bid \<and> Q b) (bookings t) = Some bk" and "Booking_Status bk = BookingReserved"
  shows "rows_changed (\<lambda>b. Booking_ID b = bid \<and> Booking_Status b = BookingReserved) (cancel_booking_row now) (bookings t) = 1"
proof (rule rows_changed_one [OF booking_ids [OF assms(1)]])
  have bk: "bk \<in> set (bookings t)" "Booking_ID bk = bid" using find_member [OF assms(2)] by auto
  show "lookup Booking_ID (bookings t) bid = Some bk"
    using lookup_member [OF booking_ids [OF assms(1)] bk(1)] bk(2) by simp
  show "Booking_ID bk = bid \<and> Booking_Status bk = BookingReserved" using bk(2) assms(3) by simp
  show "cancel_booking_row now bk \<noteq> bk" using assms(3) by (metis booking_rows(3) booking_status.distinct(1))
qed simp

lemma CancelBooking_success:
  assumes "outcome (repo_CancelBooking bid root now clock) t (Inr ok) t'" and "tables_ok t"
  shows "if ok then cancelled bid root now clock t t' else t' = t"
  using assms(1) unfolding repo_CancelBooking_def
  by (clarsimp dest!: outcome_bind_Inr transaction_success simp: run_simps split: sum.splits if_splits)
    (auto dest!: outcome_bind_Inr dest: cancel_changes_one [OF assms(2)] find_member
      simp: run_simps cancel_update cancelled_def split: if_splits)

lemma CancelBooking_moves:
  assumes "outcome (repo_CancelBooking bid root now clock) t r t'" and inv: "booking_inv t"
  shows "board_moves t t'"
proof (cases r)
  case (Inl e)
  with assms(1) have "t' = t" unfolding repo_CancelBooking_def by (auto elim: connected_transactionE)
  with board_moves_refl [OF inv] show ?thesis by simp
next
  case (Inr ok)
  from CancelBooking_success [OF assms(1) [unfolded Inr] booking_invD(1) [OF inv]]
  consider "t' = t" | "cancelled bid root now clock t t'" by (auto split: if_splits)
  then show ?thesis
  proof cases
    case 2
    then obtain bk s where f: "find (\<lambda>b. Booking_ID b = bid \<and> Booking_RootUserID b = root) (bookings t) = Some bk"
        "find (\<lambda>s. Slot_ID s = Booking_SlotID bk) (slots t) = Some s" and st: "Booking_Status bk = BookingReserved"
      and t': "t' = t\<lparr>slots := update_rows (\<lambda>x. Slot_ID x = Slot_ID s \<and> 0 < Slot_ReservedCount x) (free_place_row clock) (slots t),
          bookings := update_rows (\<lambda>b. Booking_ID b = bid \<and> Booking_Status b = BookingReserved)
            (cancel_booking_row now) (bookings t)\<rparr>"
      by (auto simp: cancelled_def)
    have rows: "bk \<in> set (bookings t)" "Booking_ID bk = bid" "s \<in> set (slots t)" "Slot_ID s = Booking_SlotID bk"
      using f [THEN find_member] by auto
    from leave_place_inv [OF inv rows(1) st rows(3,4) t' [folded rows(2)]] show ?thesis by (rule board_moves_one)
  qed (use board_moves_refl [OF inv] in simp)
qed

lemma keep_place_moves:
  assumes "booking_inv t" and "\<And>b. P b \<Longrightarrow> Booking_Status b = BookingReserved"
    and "f = checkin_row now \<or> f = no_show_row now"
    and "t' = t\<lparr>bookings := update_rows P f (bookings t)\<rparr>"
  shows "board_moves t t'"
proof -
  have f: "Booking_ID (f b) = Booking_ID b \<and> Booking_SlotID (f b) = Booking_SlotID b \<and>
      Booking_RootUserID (f b) = Booking_RootUserID b \<and> Booking_CheckinCode (f b) = Booking_CheckinCode b"
    "Booking_Status (f b) \<in> {BookingCheckedIn, BookingNoShow}" for b
    using assms(3) by (auto simp: checkin_row_def no_show_row_def)
  from keep_place_inv [where P = P, OF assms(1,2) f] show ?thesis by (simp add: board_moves_def assms(4))
qed

lemma Checkin_moves:
  assumes "outcome (repo_Checkin code now) t r t'" and "booking_inv t"
  shows "board_moves t t'"
proof -
  from assms(1) have "t' = t \<or> t' = t\<lparr>bookings := update_rows (\<lambda>b. Booking_CheckinCode b = code \<and>
      Booking_Status b = BookingReserved) (checkin_row now) (bookings t)\<rparr>"
    unfolding repo_Checkin_def by (auto elim!: outcome_bindE simp: run_simps)
  then show ?thesis
  proof
    assume "t' = t\<lparr>bookings := update_rows (\<lambda>b. Booking_CheckinCode b = code \<and>
      Booking_Status b = BookingReserved) (checkin_row now) (bookings t)\<rparr>"
    then show ?thesis by (rule keep_place_moves [OF assms(2) _ disjI1 [OF refl], rotated]) simp
  qed (use board_moves_refl assms(2) in simp)
qed

lemma MarkNoShows_success:
  assumes "outcome (MarkNoShows busy now) t (Inr found) t'"
  shows "found = filter (\<lambda>b. missed now t b \<and> \<not> busy b) (bookings t) \<and>
    t' = t\<lparr>bookings := update_rows (\<lambda>b. Booking_ID b \<in> set (map Booking_ID found) \<and> Booking_Status b = BookingReserved)
      (no_show_row now) (bookings t)\<rparr>"
  using assms unfolding MarkNoShows_def
  by (auto dest!: outcome_bind_Inr transaction_success simp: run_simps update_rows_def split: if_splits)

lemma MarkNoShows_moves:
  assumes "outcome (MarkNoShows busy now) t r t'" and "booking_inv t"
  shows "board_moves t t'"
proof (cases r)
  case (Inl e)
  with assms(1) have "t' = t" unfolding MarkNoShows_def by (auto elim: connected_transactionE)
  with board_moves_refl [OF assms(2)] show ?thesis by simp
next
  case (Inr found)
  from MarkNoShows_success [OF assms(1) [unfolded Inr], THEN conjunct2] show ?thesis
    by (rule keep_place_moves [OF assms(2) _ disjI2 [OF refl], rotated]) simp
qed

definition closing :: "reservation_db \<Rightarrow> closure \<Rightarrow> int64 set" where
  "closing t c = set (map Slot_ID (filter (closed_by t c) (slots t)))"

definition pending_in :: "int64 set \<Rightarrow> booking \<Rightarrow> bool" where
  "pending_in K b \<longleftrightarrow> Booking_SlotID b \<in> K \<and> Booking_Status b = BookingReserved"

definition after_closure :: "closure \<Rightarrow> instant \<Rightarrow> reservation_db \<Rightarrow> reservation_db" where
  "after_closure c now t = t\<lparr>closures := closures t @ [c],
      slots := update_rows (\<lambda>x. Slot_ID x \<in> closing t c) (close_slot_row now) (slots t),
      bookings := update_rows (pending_in (closing t c)) (closure_booking_row now) (bookings t)\<rparr>"

lemma closed_by_closures: "closed_by (closures_update f t) c = closed_by t c"
  by (rule ext) (simp add: closed_by_def split: option.split)

lemma close_found:
  assumes "outcome (bind (read_rows (\<lambda>t. remdups (map Booking_RootUserID (filter (\<lambda>b. Booking_SlotID b \<in> K \<and>
        Booking_Status b = BookingReserved) (bookings t))))) (\<lambda>roots.
      bind (update_where bookings bookings_update bookings_ok (\<lambda>b. Booking_SlotID b \<in> K \<and> Booking_Status b = BookingReserved)
        (closure_booking_row now)) (\<lambda>_.
      bind (update_where slots slots_update slots_ok (\<lambda>s. Slot_ID s \<in> K) (close_slot_row now)) (\<lambda>_. ret roots)))) u (Inr roots) t'"
  shows "set roots = Booking_RootUserID ` {b \<in> set (bookings u). pending_in K b} \<and>
    t' = u\<lparr>slots := update_rows (\<lambda>x. Slot_ID x \<in> K) (close_slot_row now) (slots u),
      bookings := update_rows (pending_in K) (closure_booking_row now) (bookings u)\<rparr>"
proof -
  have "pending_in K = (\<lambda>b. Booking_SlotID b \<in> K \<and> Booking_Status b = BookingReserved)"
    by (rule ext) (simp add: pending_in_def)
  with assms show ?thesis
    by (clarsimp dest!: outcome_bind_Inr simp: run_simps cancel_update)
qed

lemma CreateClosure_success:
  assumes "outcome (repo_CreateClosure c now :: ('o, int64 list) brepo) t (Inr roots) t'"
  shows "closures_ok (closures t @ [c]) \<and> t' = after_closure c now t \<and>
    set roots = Booking_RootUserID ` {b \<in> set (bookings t). pending_in (closing t c) b}"
proof -
  let ?u = "t\<lparr>closures := closures t @ [c]\<rparr>"
  have u: "?u = closures_update (\<lambda>rows. rows @ [c]) t" by simp
  from assms have ok: "closures_ok (closures t @ [c])" and run: "outcome ((if filter (closed_by t c) (slots t) = [] then ret []
       else let slotIDs = closing t c in
         bind (read_rows (\<lambda>t. remdups (map Booking_RootUserID (filter (\<lambda>b. Booking_SlotID b \<in> slotIDs \<and>
            Booking_Status b = BookingReserved) (bookings t))))) (\<lambda>roots.
         bind (update_where bookings bookings_update bookings_ok (\<lambda>b. Booking_SlotID b \<in> slotIDs \<and> Booking_Status b = BookingReserved)
            (closure_booking_row now)) (\<lambda>_.
         bind (update_where slots slots_update slots_ok (\<lambda>s. Slot_ID s \<in> slotIDs) (close_slot_row now)) (\<lambda>_. ret roots)))) :: ('o, int64 list) brepo)
       ?u (Inr roots) t'"
    unfolding repo_CreateClosure_def closing_def u
    by (auto dest!: outcome_bind_Inr transaction_success simp: outcome_create_row outcome_read_rows outcome_gormDB closed_by_closures
        simp del: set_map set_filter)
  show ?thesis
  proof (cases "filter (closed_by t c) (slots t) = []")
    case True
    then have none: "closing t c = {}" by (simp add: closing_def)
    with run True ok show ?thesis by (simp add: outcome_ret after_closure_def pending_in_def update_rows_def)
  next
    case False
    from close_found [OF run [unfolded if_not_P [OF False] Let_def]] ok show ?thesis
      by (simp add: after_closure_def)
  qed
qed

lemma CreateClosure_moves:
  assumes "outcome (repo_CreateClosure c now) t r t'" and inv: "booking_inv t"
  shows "board_moves t t'"
proof (cases r)
  case (Inl e)
  with assms(1) have "t' = t" unfolding repo_CreateClosure_def by (auto elim: connected_transactionE)
  with board_moves_refl [OF inv] show ?thesis by simp
next
  case (Inr roots)
  let ?u = "t\<lparr>closures := closures t @ [c]\<rparr>"
  have u: "booking_inv ?u" "board_of ?u = board_of t"
    using same_board_keeps [of t ?u] inv booking_invD(1,2) [OF inv]
    by (auto simp: same_board_def tables_ok_def catalogue_ok_def)
  have "pending_in (closing t c) = (\<lambda>b. Booking_SlotID b \<in> closing t c \<and> Booking_Status b = BookingReserved)"
    by (rule ext) (simp add: pending_in_def)
  then have "t' = ?u\<lparr>slots := update_rows (\<lambda>x. Slot_ID x \<in> closing t c) (close_slot_row now) (slots ?u),
      bookings := update_rows (\<lambda>b. Booking_SlotID b \<in> closing t c \<and> Booking_Status b = BookingReserved)
        (closure_booking_row now) (bookings ?u)\<rparr>"
    using CreateClosure_success [OF assms(1) [unfolded Inr]] by (simp add: after_closure_def)
  from close_slots_inv [OF u(1) this] u(2) show ?thesis by (auto intro: board_moves_one)
qed

section \<open>The transition system\<close>

text \<open>Rows that the service hands to the repository satisfy the side conditions of the rules.\<close>

abbreviation brun :: "(reservation_event, 'a) brepo \<Rightarrow> reservation_db \<Rightarrow> brepo_error + 'a \<Rightarrow> reservation_db \<Rightarrow> bool" where
  "brun \<equiv> outcome"

inductive booking_step :: "reservation_db \<Rightarrow> reservation_db \<Rightarrow> bool" where
  new_venue: "brun (repo_CreateVenue v) t r1 t' \<Longrightarrow> 1 \<le> Venue_SlotMinutes v \<Longrightarrow> booking_step t t'"
| new_resource: "brun (repo_CreateResource w) t r1 t' \<Longrightarrow> 1 \<le> Resource_Capacity w \<Longrightarrow> booking_step t t'"
| new_rule: "brun (repo_CreateRule u) t r1 t' \<Longrightarrow> 0 \<le> Rule_StartMinute u \<Longrightarrow> Rule_EndMinute u \<le> 1440 \<Longrightarrow>
    booking_step t t'"
| offer: "brun (EnsureSlots ss) t r1 t' \<Longrightarrow> \<forall>s \<in> set ss. fresh_slot s \<Longrightarrow> booking_step t t'"
| book: "brun (repo_CreateBooking bk now clock) t r2 t' \<Longrightarrow> Booking_Status bk = BookingReserved \<Longrightarrow> booking_step t t'"
| cancel: "brun (repo_CancelBooking bid root now clock) t r3 t' \<Longrightarrow> booking_step t t'"
| checkin: "brun (repo_Checkin code now) t r3 t' \<Longrightarrow> booking_step t t'"
| no_shows: "brun (MarkNoShows busy now) t r4 t' \<Longrightarrow> booking_step t t'"
| close: "brun (repo_CreateClosure c now) t r5 t' \<Longrightarrow> booking_step t t'"

lemma booking_step_moves: "booking_step t t' \<Longrightarrow> booking_inv t \<Longrightarrow> board_moves t t'"
  by (induction rule: booking_step.induct)
    (blast intro: CreateVenue_moves CreateResource_moves CreateRule_moves EnsureSlots_moves CreateBooking_moves
      CancelBooking_moves Checkin_moves MarkNoShows_moves CreateClosure_moves)+

definition booking_start :: "reservation_db \<Rightarrow> bool" where
  "booking_start t \<longleftrightarrow> t = \<lparr>venues = [], resources = [], rules = [], closures = [], slots = [], day_locks = [], bookings = []\<rparr>"

interpretation bookings_sys: invariant_system booking_start booking_step booking_inv
proof
  show "booking_inv t" if "booking_start t" for t
    using that by (simp add: booking_start_def booking_inv_def tables_ok_def catalogue_ok_def count_ok_def placed_ok_def
        apart_ok_def venues_ok_def resources_ok_def slots_ok_def day_locks_ok_def bookings_ok_def)
  show "booking_inv t'" if "booking_step t t'" "booking_inv t" for t t'
    using booking_step_moves [OF that] by (simp add: board_moves_def)
qed

end
