(* ===== verification/Reservation_Service.thy ===== *)
theory Reservation_Service
  imports Reservation_Repo
begin

text \<open>
  The reservation service (\<open>internal/reservation/service.go\<close>).

  Parameters: the capability checker and the notifier of the service (absent or present), the RFC 3339
  printer and parser of the standard library, the instants \<open>s.now()\<close> returns and the identifiers
  \<open>snowflake.Generate()\<close> returns. \<open>AvailableSlots\<close> contains a loop that ends only for a positive slot
  length, so it is a partial program: \<open>None\<close> says that the call does not return.
\<close>

record booking_env =
  booking_capabilities :: "(int64 \<Rightarrow> int64 \<Rightarrow> string \<Rightarrow> reservation_error option) option"
  booking_notifier :: bool
  show_time :: "instant \<Rightarrow> string"
  parse_time :: "string \<Rightarrow> instant option"

type_synonym 'a bservice = "(reservation_db, reservation_event, reservation_error, 'a) prog"

type_synonym 'a bpartial =
  "(reservation_db, reservation_event) world
    \<Rightarrow> ((reservation_error + 'a) \<times> (reservation_db, reservation_event) world) option"

definition total_prog :: "'a bservice \<Rightarrow> 'a bpartial" where
  "total_prog m w = Some (m w)"

definition then_partial :: "'a bservice \<Rightarrow> ('a \<Rightarrow> 'b bpartial) \<Rightarrow> 'b bpartial" where
  "then_partial m f w = (case m w of (Inl e, w') \<Rightarrow> Some (Inl e, w') | (Inr x, w') \<Rightarrow> f x w')"

definition after_partial :: "'a bpartial \<Rightarrow> ('a \<Rightarrow> 'b bservice) \<Rightarrow> 'b bpartial" where
  "after_partial m f w =
     (case m w of
        None \<Rightarrow> None
      | Some (Inl e, w') \<Rightarrow> Some (Inl e, w')
      | Some (Inr x, w') \<Rightarrow> Some (f x w'))"

definition notifyReservation ::
  "booking_env \<Rightarrow> int64 \<Rightarrow> string \<Rightarrow> reservation_title \<Rightarrow> string \<Rightarrow> string \<Rightarrow> unit bservice" where
  "notifyReservation s root event title content rsrc =
     (if booking_notifier s then emit (BookingNotice root event title content rsrc) else ret ())"

section \<open>Venues, resources and slots\<close>

definition svc_ListVenues :: "(venue list \<Rightarrow> venue list) \<Rightarrow> venue_response list bservice" where
  "svc_ListVenues by_name =
     bind (internal_error MQueryVenues (ListVenues by_name)) (\<lambda>rows. ret (map venueResponse rows))"

definition svc_ListResources ::
  "(resource list \<Rightarrow> resource list) \<Rightarrow> string \<Rightarrow> resource_response list bservice" where
  "svc_ListResources by_name venueID =
     bind (result (parseID venueID)) (\<lambda>vid.
     bind (internal_error MQueryResources (ListResources by_name vid)) (\<lambda>rows.
     ret (map resourceResponse rows)))"

text \<open>
  The inner loop of \<open>AvailableSlots\<close> over the minutes of one rule. \<open>body\<close> is one round: it asks for
  closures and builds a slot. \<open>acc\<close> is the slice \<open>slots\<close>, which the outer loop shares.
\<close>

partial_function (option) slot_loop ::
  "(int \<Rightarrow> slot list \<Rightarrow> slot bservice) \<Rightarrow> int \<Rightarrow> int \<Rightarrow> int \<Rightarrow> slot list \<Rightarrow> slot list bpartial" where
  "slot_loop body slotMinutes endMinute minute acc w =
     (if minute + slotMinutes \<le> endMinute then
        (case body minute acc w of
           (Inl e, w') \<Rightarrow> Some (Inl e, w')
         | (Inr sl, w') \<Rightarrow> slot_loop body slotMinutes endMinute (minute + slotMinutes) (acc @ [sl]) w')
      else Some (Inr acc, w))"

fun rule_loop ::
  "(int \<Rightarrow> slot list \<Rightarrow> slot bservice) \<Rightarrow> int \<Rightarrow> weekly_rule list \<Rightarrow> slot list \<Rightarrow> slot list bpartial" where
  "rule_loop body slotMinutes [] acc w = Some (Inr acc, w)"
| "rule_loop body slotMinutes (rule # rest) acc w =
     (case slot_loop body slotMinutes (Rule_EndMinute rule) (Rule_StartMinute rule) acc w of
        None \<Rightarrow> None
      | Some (Inl e, w') \<Rightarrow> Some (Inl e, w')
      | Some (Inr acc', w') \<Rightarrow> rule_loop body slotMinutes rest acc' w')"

definition make_slot ::
  "venue \<Rightarrow> resource \<Rightarrow> instant \<Rightarrow> instant \<Rightarrow> (nat \<Rightarrow> int64) \<Rightarrow> int \<Rightarrow> slot list \<Rightarrow> slot bservice" where
  "make_slot ven res date now newID minute acc =
     (let from = date + minute * minute_ms;
          til = from + Venue_SlotMinutes ven * minute_ms
      in bind (passed (HasClosure (Venue_ID ven) (Resource_ID res) from til)) (\<lambda>closed.
         ret \<lparr>Slot_ID = newID (length acc), Slot_ResourceID = Resource_ID res, Slot_StartAt = from,
              Slot_EndAt = til, Slot_Capacity = Resource_Capacity res, Slot_ReservedCount = 0,
              Slot_Status = (if closed then SlotClosed else SlotOpen), Slot_CreatedAt = now,
              Slot_UpdatedAt = now\<rparr>))"

definition active_resource :: "resource option \<Rightarrow> resource option" where
  "active_resource r = (case r of None \<Rightarrow> None
     | Some x \<Rightarrow> if Resource_Status x \<noteq> StatusActive then None else Some x)"

definition active_venue :: "venue option \<Rightarrow> venue option" where
  "active_venue v = (case v of None \<Rightarrow> None
     | Some x \<Rightarrow> if Venue_Status x \<noteq> StatusActive then None else Some x)"

definition AvailableSlots ::
  "booking_env \<Rightarrow> string \<Rightarrow> string \<Rightarrow> instant \<Rightarrow> instant \<Rightarrow> (nat \<Rightarrow> int64) \<Rightarrow> slot_response list bpartial" where
  "AvailableSlots s resourceID dateRaw now1 now newID =
     then_partial (result (parseID resourceID)) (\<lambda>rid.
     then_partial (present (Param MBadDate) (parse_date (TrimSpace dateRaw))) (\<lambda>date.
     then_partial (fixed_error ErrResourceNotFound (FindResource rid)) (\<lambda>found.
     then_partial (present ErrResourceNotFound (active_resource found)) (\<lambda>res.
     then_partial (fixed_error ErrVenueNotFound (FindVenue (Resource_VenueID res))) (\<lambda>found.
     then_partial (present ErrVenueNotFound (active_venue found)) (\<lambda>ven.
     let today = dayStart now1
     in if date < today \<or> date > AddDays today (Venue_AdvanceDays ven) then total_prog (ret [])
        else
          then_partial (passed (ListRules rid (rule_weekday date))) (\<lambda>rs.
          after_partial (rule_loop (make_slot ven res date now newID) (Venue_SlotMinutes ven) rs []) (\<lambda>ss.
          bind (internal_error MEnsureSlots (EnsureSlots ss)) (\<lambda>_.
          bind (passed (ListSlots rid date (AddDays date 1))) (\<lambda>rows.
          ret (map (slotResponse (show_time s)) rows)))))))))))"

section \<open>Bookings\<close>

definition new_booking :: "int64 \<Rightarrow> int64 \<Rightarrow> int64 \<Rightarrow> int64 \<Rightarrow> string \<Rightarrow> instant \<Rightarrow> booking" where
  "new_booking bid userID rootUserID slotID code now =
     \<lparr>Booking_ID = bid, Booking_RootUserID = rootUserID, Booking_UserID = userID,
      Booking_SlotID = slotID, Booking_Status = BookingReserved, Booking_CheckinCode = code,
      Booking_CheckedAt = None, Booking_CancelledAt = None, Booking_CreatedAt = now,
      Booking_UpdatedAt = now\<rparr>"

definition CreateBooking ::
  "booking_env \<Rightarrow> int64 \<Rightarrow> int64 \<Rightarrow> string \<Rightarrow> int64 \<Rightarrow> int64 \<Rightarrow> instant \<Rightarrow> instant \<Rightarrow> booking_response bservice" where
  "CreateBooking s userID rootUserID rawSlotID newID newCode now clock =
     bind (case booking_capabilities s of
             None \<Rightarrow> ret ()
           | Some checkCapability \<Rightarrow> check (checkCapability userID rootUserID ''reservation'')) (\<lambda>_.
     bind (result (parseID rawSlotID)) (\<lambda>slotID.
     let bk = new_booking newID userID rootUserID slotID (booking_id newCode) now
     in bind (map_error (\<lambda>e. if e = Sentinel errSlotUnavailable then ErrSlotUnavailable
                             else if e = Sentinel errBookingConflict then ErrBookingConflict
                             else if e = Sentinel errDailyLimit then ErrDailyLimit
                             else InternalWrap MCreateBooking (Some e))
               (repo_CreateBooking bk now clock)) (\<lambda>(sl, _).
        ret (bookingResponse (show_time s) (bk, sl)))))"

definition ListBookings ::
  "booking_env \<Rightarrow> int64 \<Rightarrow> int \<Rightarrow> int \<Rightarrow> booking_response page_result bservice" where
  "ListBookings s rootUserID page sz =
     (let (page, sz) = normalize page sz
      in bind (passed (repo_ListBookings rootUserID page sz)) (\<lambda>(rows, tot).
         ret (NewPageResult (map (bookingResponse (show_time s)) rows) tot page sz)))"

definition CancelBooking :: "int64 \<Rightarrow> string \<Rightarrow> instant \<Rightarrow> instant \<Rightarrow> unit bservice" where
  "CancelBooking rootUserID bookingID now clock =
     bind (result (parseID bookingID)) (\<lambda>bid.
     bind (map_error (\<lambda>e. if e = Sentinel errCancelDeadline then ErrCancelDeadline
                          else InternalWrap MCancelBooking (Some e))
            (repo_CancelBooking bid rootUserID now clock)) (\<lambda>ok.
     if \<not> ok then throw ErrBookingNotFound else ret ()))"

definition Checkin :: "string \<Rightarrow> instant \<Rightarrow> unit bservice" where
  "Checkin code now =
     bind (passed (repo_Checkin (TrimSpace code) now)) (\<lambda>ok.
     if \<not> ok then throw ErrCheckinInvalid else ret ())"

section \<open>Administration and jobs\<close>

definition venue_defaults :: "venue_req \<Rightarrow> venue_req" where
  "venue_defaults req =
     req\<lparr>VenueReq_AdvanceDays := (if VenueReq_AdvanceDays req \<le> 0 then 7 else VenueReq_AdvanceDays req),
         VenueReq_SlotMinutes := (if VenueReq_SlotMinutes req \<le> 0 then 60 else VenueReq_SlotMinutes req),
         VenueReq_DailyLimit := (if VenueReq_DailyLimit req \<le> 0 then 2 else VenueReq_DailyLimit req),
         VenueReq_CancelBeforeMinutes :=
           (if VenueReq_CancelBeforeMinutes req \<le> 0 then 120 else VenueReq_CancelBeforeMinutes req)\<rparr>"

definition CreateVenue :: "venue_req \<Rightarrow> int64 \<Rightarrow> instant \<Rightarrow> venue_response bservice" where
  "CreateVenue req newID now =
     (let req = venue_defaults req;
          v = \<lparr>Venue_ID = newID, Venue_Name = TrimSpace (VenueReq_Name req),
               Venue_Description = TrimSpace (VenueReq_Description req), Venue_Status = StatusActive,
               Venue_AdvanceDays = VenueReq_AdvanceDays req, Venue_SlotMinutes = VenueReq_SlotMinutes req,
               Venue_DailyLimit = VenueReq_DailyLimit req,
               Venue_CancelBeforeMinutes = VenueReq_CancelBeforeMinutes req,
               Venue_CreatedAt = now, Venue_UpdatedAt = now\<rparr>
      in bind (internal_error MCreateVenue (repo_CreateVenue v)) (\<lambda>_. ret (venueResponse v)))"

definition CreateResource :: "string \<Rightarrow> string \<Rightarrow> int \<Rightarrow> int64 \<Rightarrow> instant \<Rightarrow> resource_response bservice" where
  "CreateResource venueID name capacity newID now =
     bind (result (parseID venueID)) (\<lambda>vid.
     let capacity = (if capacity \<le> 0 then 1 else capacity);
         r = \<lparr>Resource_ID = newID, Resource_VenueID = vid, Resource_Name = TrimSpace name,
              Resource_Capacity = capacity, Resource_Status = StatusActive, Resource_CreatedAt = now,
              Resource_UpdatedAt = now\<rparr>
     in bind (internal_error MCreateResource (repo_CreateResource r)) (\<lambda>_. ret (resourceResponse r)))"

definition CreateRule :: "string \<Rightarrow> rule_req \<Rightarrow> int64 \<Rightarrow> instant \<Rightarrow> unit bservice" where
  "CreateRule resourceID req newID now =
     bind (result (parseID resourceID)) (\<lambda>rid.
     if RuleReq_StartMinute req < 0 \<or> RuleReq_EndMinute req > 1440
        \<or> RuleReq_EndMinute req \<le> RuleReq_StartMinute req then throw (Param MBadRule)
     else passed (repo_CreateRule
       \<lparr>Rule_ID = newID, Rule_ResourceID = rid, Rule_Weekday = RuleReq_Weekday req,
        Rule_StartMinute = RuleReq_StartMinute req, Rule_EndMinute = RuleReq_EndMinute req,
        Rule_Status = StatusActive, Rule_CreatedAt = now, Rule_UpdatedAt = now\<rparr>))"

definition optional_id :: "string \<Rightarrow> (int64 option) bservice" where
  "optional_id raw =
     (if TrimSpace raw \<noteq> [] then bind (result (parseID raw)) (\<lambda>v. ret (Some v)) else ret None)"

fun notify_all :: "booking_env \<Rightarrow> string \<Rightarrow> int64 list \<Rightarrow> unit bservice" where
  "notify_all s reason [] = ret ()"
| "notify_all s reason (r # rest) =
     bind (notifyReservation s r ''reservation.closure'' TClosure reason []) (\<lambda>_. notify_all s reason rest)"

definition CreateClosure :: "booking_env \<Rightarrow> int64 \<Rightarrow> closure_req \<Rightarrow> int64 \<Rightarrow> instant \<Rightarrow> unit bservice" where
  "CreateClosure s adminID req newID now =
     bind (optional_id (ClosureReq_VenueID req)) (\<lambda>venueID.
     bind (optional_id (ClosureReq_ResourceID req)) (\<lambda>resourceID.
     if venueID = None \<and> resourceID = None then throw (Param MTargetEmpty)
     else
       bind (present (Param MBadStart) (parse_time s (ClosureReq_StartAt req))) (\<lambda>from.
       bind (present (Param MBadEnd) (parse_time s (ClosureReq_EndAt req))) (\<lambda>til.
       if \<not> til > from then throw (Param MBadEnd)
       else
         bind (internal_error MCreateClosure
                (repo_CreateClosure
                  \<lparr>Closure_ID = newID, Closure_VenueID = venueID, Closure_ResourceID = resourceID,
                   Closure_StartAt = from, Closure_EndAt = til, Closure_Reason = ClosureReq_Reason req,
                   Closure_CreatedBy = adminID, Closure_CreatedAt = now\<rparr> now)) (\<lambda>roots.
         notify_all s (ClosureReq_Reason req) roots)))))"

text \<open>\<open>no_show_content\<close> is the fixed text of the notification.\<close>

fun notify_no_shows :: "booking_env \<Rightarrow> string \<Rightarrow> booking list \<Rightarrow> unit bservice" where
  "notify_no_shows s no_show_content [] = ret ()"
| "notify_no_shows s no_show_content (b # rest) =
     bind (notifyReservation s (Booking_RootUserID b) ''reservation.noShow'' TNoShow no_show_content
            (booking_id (Booking_ID b))) (\<lambda>_.
     notify_no_shows s no_show_content rest)"

definition reservation_RunDueJobs :: "booking_env \<Rightarrow> string \<Rightarrow> (booking \<Rightarrow> bool) \<Rightarrow> instant \<Rightarrow> unit bservice" where
  "reservation_RunDueJobs s no_show_content busy now =
     bind (passed (MarkNoShows busy now)) (\<lambda>found. notify_no_shows s no_show_content found)"

end
