(* ===== verification/Reservation_Calls.thy ===== *)
theory Reservation_Calls
  imports Reservation_System Reservation_Service
begin

text \<open>
  The calls of the reservation service on the tables: \<open>AvailableSlots\<close> returns for every venue the
  service can create, the slots it generates are fresh and lie within one day, and every call is a
  sequence of repository steps, so it refines the board and keeps the invariant.
\<close>

section \<open>The slot loop\<close>

lemma slot_loop_returns:
  assumes "1 \<le> sz"
  shows "\<exists>r. slot_loop body sz til m acc w = Some r"
proof (induction "nat (til - m)" arbitrary: m acc w rule: less_induct)
  case less
  show ?case
  proof (cases "m + sz \<le> til")
    case True
    obtain r w' where body: "body m acc w = (r, w')" by (cases "body m acc w")
    show ?thesis
    proof (cases r)
      case (Inl e)
      then show ?thesis using True body by (simp add: slot_loop.simps)
    next
      case (Inr sl)
      have "nat (til - (m + sz)) < nat (til - m)" using True assms by simp
      from less [OF this, of "acc @ [sl]" w'] show ?thesis using True body Inr by (simp add: slot_loop.simps)
    qed
  qed (simp add: slot_loop.simps)
qed

lemma rule_loop_returns: "1 \<le> sz \<Longrightarrow> \<exists>r. rule_loop body sz rs acc w = Some r"
proof (induction rs arbitrary: acc w)
  case (Cons u rs)
  obtain r w' where "slot_loop body sz (Rule_EndMinute u) (Rule_StartMinute u) acc w = Some (r, w')"
    using slot_loop_returns [OF Cons.prems, of body "Rule_EndMinute u" "Rule_StartMinute u" acc w] by auto
  with Cons.IH [OF Cons.prems] show ?case by (cases r) simp_all
qed simp

text \<open>
  The minutes of a rule, as a closed form: every multiple of the slot length from the opening minute
  that still ends by the closing minute.
\<close>

definition slot_minutes :: "int \<Rightarrow> int \<Rightarrow> int \<Rightarrow> int list" where
  "slot_minutes sz from til = map (\<lambda>i. from + int i * sz) [0..<nat ((til - from) div sz)]"

lemma slot_minutes_step:
  assumes "1 \<le> sz" and "from + sz \<le> til"
  shows "slot_minutes sz from til = from # slot_minutes sz (from + sz) til"
proof -
  have "(til - from) div sz = (til - (from + sz) + 1 * sz) div sz" by simp
  also have "\<dots> = (til - (from + sz)) div sz + 1" using assms(1) by (subst div_mult_self1) auto
  finally have "(til - from) div sz = (til - (from + sz)) div sz + 1" .
  moreover have "0 \<le> (til - (from + sz)) div sz" using assms by (simp add: pos_imp_zdiv_nonneg_iff)
  ultimately have "nat ((til - from) div sz) = Suc (nat ((til - (from + sz)) div sz))" by simp
  then show ?thesis
    by (simp add: slot_minutes_def map_upt_Suc algebra_simps del: upt_Suc)
qed

lemma slot_minutes_end: "1 \<le> sz \<Longrightarrow> til < from + sz \<Longrightarrow> slot_minutes sz from til = []"
  using pos_imp_zdiv_pos_iff [of sz "til - from"] by (simp add: slot_minutes_def)

lemma slot_minutes_range:
  assumes "1 \<le> sz" and "m \<in> set (slot_minutes sz from til)"
  shows "from \<le> m \<and> m + sz \<le> til"
proof -
  from assms(2) obtain i where i: "int i < (til - from) div sz" and m: "m = from + int i * sz"
    by (auto simp: slot_minutes_def zless_nat_eq_int_zless)
  have "(int i + 1) * sz \<le> (til - from) div sz * sz" using i assms(1) by (intro mult_right_mono) auto
  also have "\<dots> \<le> til - from" 
    using div_mult_mod_eq [of "til - from" sz] pos_mod_sign [of sz "til - from"] assms(1) by linarith
  finally show ?thesis using assms(1) m by (simp add: algebra_simps)
qed

text \<open>What the loops append, when each round only reads and builds a slot for its minute.\<close>

lemma slot_loop_result:
  assumes sz: "1 \<le> sz" and body: "\<And>m acc w sl w'. body m acc w = (Inr sl, w') \<Longrightarrow> Q m sl"
    and run: "slot_loop body sz til m acc w = Some (Inr acc', w')"
  shows "\<exists>new. acc' = acc @ new \<and> list_all2 Q (slot_minutes sz m til) new"
  using run
proof (induction "nat (til - m)" arbitrary: m acc w rule: less_induct)
  case less
  show ?case
  proof (cases "m + sz \<le> til")
    case True
    obtain r w1 where b: "body m acc w = (r, w1)" by (cases "body m acc w")
    with less.prems True obtain sl where r: "r = Inr sl"
      by (subst (asm) slot_loop.simps) (auto split: sum.splits)
    then have "slot_loop body sz til (m + sz) (acc @ [sl]) w1 = Some (Inr acc', w')"
      using less.prems True b by (subst (asm) slot_loop.simps) simp
    moreover have "nat (til - (m + sz)) < nat (til - m)" using True sz by simp
    ultimately obtain new where "acc' = (acc @ [sl]) @ new" "list_all2 Q (slot_minutes sz (m + sz) til) new"
      using less.hyps by blast
    with body [OF b [unfolded r]] slot_minutes_step [OF sz True] show ?thesis by auto
  next
    case False
    then show ?thesis using less.prems slot_minutes_end [OF sz, of til m] by (subst (asm) slot_loop.simps) auto
  qed
qed

lemma slot_loop_tables:
  assumes "\<And>m acc w r w'. body m acc w = (r, w') \<Longrightarrow> tables w' = tables w" and "1 \<le> sz"
    and "slot_loop body sz til m acc w = Some (r, w')"
  shows "tables w' = tables w"
  using assms(3)
proof (induction "nat (til - m)" arbitrary: m acc w rule: less_induct)
  case less
  show ?case
  proof (cases "m + sz \<le> til")
    case True
    obtain q w1 where b: "body m acc w = (q, w1)" by (cases "body m acc w")
    note same = assms(1) [OF b]
    show ?thesis
    proof (cases q)
      case (Inl e)
      then show ?thesis using less.prems True b same by (subst (asm) slot_loop.simps) simp
    next
      case (Inr sl)
      then have "slot_loop body sz til (m + sz) (acc @ [sl]) w1 = Some (r, w')"
        using less.prems True b by (subst (asm) slot_loop.simps) simp
      moreover have "nat (til - (m + sz)) < nat (til - m)" using True assms(2) by simp
      ultimately have "tables w' = tables w1" using less.hyps by blast
      with same show ?thesis by simp
    qed
  next
    case False
    then show ?thesis using less.prems by (subst (asm) slot_loop.simps) auto
  qed
qed

lemma rule_loop_tables:
  assumes "\<And>m acc w r w'. body m acc w = (r, w') \<Longrightarrow> tables w' = tables w" and "1 \<le> sz"
  shows "rule_loop body sz rs acc w = Some (r, w') \<Longrightarrow> tables w' = tables w"
proof (induction rs arbitrary: acc w)
  case (Cons u rs)
  obtain q w1 where l: "slot_loop body sz (Rule_EndMinute u) (Rule_StartMinute u) acc w = Some (q, w1)"
    using slot_loop_returns [OF assms(2)] by (metis surj_pair)
  note same = slot_loop_tables [where body = body, OF assms(1,2) l]
  show ?case using Cons.prems Cons.IH l same by (cases q) auto
qed simp

lemma rule_loop_result:
  assumes sz: "1 \<le> sz" and body: "\<And>m acc w sl w'. body m acc w = (Inr sl, w') \<Longrightarrow> Q m sl"
  shows "rule_loop body sz rs acc w = Some (Inr acc', w') \<Longrightarrow>
    \<exists>new. acc' = acc @ new \<and>
      list_all2 Q (concat (map (\<lambda>u. slot_minutes sz (Rule_StartMinute u) (Rule_EndMinute u)) rs)) new"
proof (induction rs arbitrary: acc w)
  case (Cons u rs)
  from Cons.prems obtain acc1 w1 where l: "slot_loop body sz (Rule_EndMinute u) (Rule_StartMinute u) acc w = Some (Inr acc1, w1)"
    and rest: "rule_loop body sz rs acc1 w1 = Some (Inr acc', w')"
    by (auto split: option.splits sum.splits)
  have "\<exists>new. acc1 = acc @ new \<and> list_all2 Q (slot_minutes sz (Rule_StartMinute u) (Rule_EndMinute u)) new"
    by (rule slot_loop_result [where body = body, OF sz _ l]) (rule body)
  then obtain n1 where n1: "acc1 = acc @ n1"
    "list_all2 Q (slot_minutes sz (Rule_StartMinute u) (Rule_EndMinute u)) n1" by blast
  from Cons.IH [OF rest] obtain n2 where "acc' = acc1 @ n2"
    "list_all2 Q (concat (map (\<lambda>u. slot_minutes sz (Rule_StartMinute u) (Rule_EndMinute u)) rs)) n2" by blast
  with n1 show ?case by (auto intro: list_all2_appendI)
qed simp

section \<open>Reading pieces\<close>

lemma booking_helpers_keep [intro]:
  "keeps I (check e)" "keeps I (result x)" "keeps I (present err y)" "keeps I (notifyReservation s u ev ti co re)"
  "keeps I m \<Longrightarrow> keeps I (internal_error msg m)" "keeps I m \<Longrightarrow> keeps I (fixed_error err m)"
  "keeps I m \<Longrightarrow> keeps I (passed m)"
  by (auto simp: check_def result_def present_def notifyReservation_def internal_error_def fixed_error_def passed_def
      split: option.split sum.split)

lemma booking_reads_keep [intro]:
  "keeps I (ListVenues by_name)" "keeps I (FindVenue k)" "keeps I (FindResource k)" "keeps I (ListResources by_name' k)"
  "keeps I (ListRules k d)" "keeps I (ListSlots k from til)" "keeps I (HasClosure v k from til)"
  "keeps I (repo_ListBookings u p z)"
  unfolding ListVenues_def FindVenue_def FindResource_def ListResources_def ListRules_def ListSlots_def HasClosure_def
    repo_ListBookings_def Let_def
  by (auto intro!: keeps_bind keeps_basic keeps_find_row)

lemma make_slot_keeps: "keeps I (make_slot ven res date now ids m acc)"
  unfolding make_slot_def Let_def by (auto intro!: keeps_bind keeps_basic)

lemma notify_keeps: "keeps I (notify_all s reason roots)" "keeps I (notify_no_shows s text bs)"
  by (induction roots) (auto intro!: keeps_bind, induction bs, auto intro!: keeps_bind)

lemma prog_tables: "(\<And>I. keeps I m) \<Longrightarrow> m w = (r, w') \<Longrightarrow> tables w' = tables w"
  using keepsD [OF _ outcomeI, of "\<lambda>t. t = tables w" m w r w'] by simp

text \<open>\<open>reaches t Q p\<close>: from tables \<open>t\<close>, if the partial program returns, the tables satisfy \<open>Q\<close>.\<close>

definition reaches :: "reservation_db \<Rightarrow> (reservation_db \<Rightarrow> bool) \<Rightarrow> 'a bpartial \<Rightarrow> bool" where
  "reaches t Q p \<longleftrightarrow> (\<forall>w r w'. tables w = t \<longrightarrow> p w = Some (r, w') \<longrightarrow> Q (tables w'))"

lemma reaches_then:
  assumes keep: "\<And>I. keeps I m" and "Q t" and f: "\<And>x. outcome m t (Inr x) t \<Longrightarrow> reaches t Q (f x)"
  shows "reaches t Q (then_partial m f)"
  unfolding reaches_def
proof (intro allI impI)
  fix w r w' assume w: "tables w = t" and run: "then_partial m f w = Some (r, w')"
  obtain q w1 where m: "m w = (q, w1)" by (cases "m w")
  have same: "tables w1 = t" using prog_tables [OF keep m] w by simp
  show "Q (tables w')"
  proof (cases q)
    case (Inl e)
    with run m same assms(2) show ?thesis by (auto simp: then_partial_def)
  next
    case (Inr x)
    have "outcome m t (Inr x) t" using outcomeI [of m w q w1] m Inr same w by simp
    from f [OF this] run m Inr same show ?thesis by (auto simp: then_partial_def reaches_def)
  qed
qed

lemma reaches_total: "Q t \<Longrightarrow> (\<And>I. keeps I m) \<Longrightarrow> reaches t Q (total_prog m)"
  unfolding reaches_def total_prog_def by (metis option.inject prog_tables)

lemma reaches_after:
  assumes "\<And>w r w'. tables w = t \<Longrightarrow> p w = Some (r, w') \<Longrightarrow> tables w' = t" and "Q t"
    and "\<And>x w w' r t'. tables w = t \<Longrightarrow> p w = Some (Inr x, w') \<Longrightarrow> outcome (f x) t r t' \<Longrightarrow> Q t'"
  shows "reaches t Q (after_partial p f)"
  unfolding reaches_def
proof (intro allI impI)
  fix w r w' assume w: "tables w = t" and run: "after_partial p f w = Some (r, w')"
  then obtain q w1 where p: "p w = Some (q, w1)" by (auto simp: after_partial_def split: option.splits)
  have same: "tables w1 = t" by (rule assms(1) [OF w p])
  show "Q (tables w')"
  proof (cases q)
    case (Inl e)
    with run p same assms(2) show ?thesis by (auto simp: after_partial_def)
  next
    case (Inr x)
    then have "f x w1 = (r, w')" using run p by (auto simp: after_partial_def)
    with assms(3) [OF w p [unfolded Inr]] outcomeI [of "f x" w1 r w'] same show ?thesis by simp
  qed
qed

text \<open>What \<open>make_slot\<close> builds: the interval of its minute, empty, as large as the resource.\<close>

definition slot_for :: "venue \<Rightarrow> resource \<Rightarrow> instant \<Rightarrow> int \<Rightarrow> slot \<Rightarrow> bool" where
  "slot_for ven res date m s \<longleftrightarrow> Slot_ResourceID s = Resource_ID res \<and> Slot_StartAt s = date + m * minute_ms \<and>
     Slot_EndAt s = date + (m + Venue_SlotMinutes ven) * minute_ms \<and> Slot_Capacity s = Resource_Capacity res \<and>
     Slot_ReservedCount s = 0"

lemma make_slot_slot:
  assumes "make_slot ven res date now ids m acc w = (Inr s, w')"
  shows "slot_for ven res date m s"
  using outcomeI [of "make_slot ven res date now ids m acc" w "Inr s" w', OF assms] unfolding make_slot_def Let_def
  by (auto dest!: outcome_bind_Inr simp: run_simps slot_for_def algebra_simps)

lemma slot_for_fresh:
  assumes "slot_for ven res date m s" and "dayStart date = date" and "1 \<le> Venue_SlotMinutes ven"
    and "1 \<le> Resource_Capacity res" and "0 \<le> m" and "m + Venue_SlotMinutes ven \<le> 1440"
  shows "fresh_slot s" and "dayStart (Slot_StartAt s) = date"
proof -
  have "m * minute_ms < day_ms" "0 \<le> m * minute_ms" "(m + Venue_SlotMinutes ven) * minute_ms \<le> day_ms"
    "m * minute_ms < (m + Venue_SlotMinutes ven) * minute_ms"
    using assms(3,5,6) by (auto simp: minute_ms_def day_ms_def)
  with assms(1,2,4) show "dayStart (Slot_StartAt s) = date" "fresh_slot s"
    using dayStart_unique [OF assms(2), of "Slot_StartAt s"]
    by (auto simp: slot_for_def fresh_slot_def slot_shape_def AddDays_def)
qed

section \<open>AvailableSlots\<close>

lemma found_row:
  assumes "outcome (fixed_error e (bind gormDB (\<lambda>_. find_row tab P))) t (Inr (Some x)) t'"
  shows "x \<in> set (tab t) \<and> P x"
  using assms unfolding fixed_error_def
  by (auto simp: outcome_map_error_Inr run_simps dest!: outcome_bind_Inr outcome_find_row(1) dest: find_member [OF sym])

lemma given: "outcome (present e y) t (Inr x) t' \<Longrightarrow> y = Some x"
  by (auto simp: present_def run_simps split: option.splits)

lemma active_found:
  "active_resource fr = Some res \<Longrightarrow> fr = Some res" "active_venue fv = Some ven \<Longrightarrow> fv = Some ven"
  by (auto simp: active_resource_def active_venue_def split: option.splits if_splits)

lemma listed_rules:
  assumes "outcome (passed (ListRules k d)) t (Inr rs) t'"
  shows "set rs \<subseteq> set (rules t)"
  using assms unfolding passed_def ListRules_def
  by (auto simp: outcome_map_error_Inr run_simps dest!: outcome_bind_Inr)

lemma list_all2_right: "list_all2 P xs ys \<Longrightarrow> y \<in> set ys \<Longrightarrow> \<exists>x \<in> set xs. P x y"
  by (induction rule: list_all2_induct) auto

lemma generated_fresh:
  assumes "list_all2 (slot_for ven res date)
      (concat (map (\<lambda>u. slot_minutes (Venue_SlotMinutes ven) (Rule_StartMinute u) (Rule_EndMinute u)) rs)) ss"
    and "dayStart date = date" and "1 \<le> Venue_SlotMinutes ven" and "1 \<le> Resource_Capacity res"
    and rs: "\<forall>u \<in> set rs. 0 \<le> Rule_StartMinute u \<and> Rule_EndMinute u \<le> 1440"
  shows "\<forall>s \<in> set ss. fresh_slot s \<and> dayStart (Slot_StartAt s) = date"
proof
  fix s assume "s \<in> set ss"
  from list_all2_right [OF assms(1) this] obtain m u where m: "slot_for ven res date m s" "u \<in> set rs"
    "m \<in> set (slot_minutes (Venue_SlotMinutes ven) (Rule_StartMinute u) (Rule_EndMinute u))"
    by auto
  from slot_minutes_range [OF assms(3) m(3)] rs m(2) have "0 \<le> m" "m + Venue_SlotMinutes ven \<le> 1440" by fastforce+
  from slot_for_fresh [OF m(1) assms(2-4) this] show "fresh_slot s \<and> dayStart (Slot_StartAt s) = date" by simp
qed

lemma AvailableSlots_steps:
  assumes inv: "booking_inv t"
  shows "reaches t (booking_step\<^sup>*\<^sup>* t) (AvailableSlots s rid raw now1 now ids)"
proof -
  note cat = booking_invD(2) [OF inv]
  have offer: "booking_step t t'" if ss: "list_all2 (slot_for ven res date)
      (concat (map (\<lambda>u. slot_minutes (Venue_SlotMinutes ven) (Rule_StartMinute u) (Rule_EndMinute u)) rs)) ss"
    and "dayStart date = date" "ven \<in> set (venues t)" "res \<in> set (resources t)" "set rs \<subseteq> set (rules t)"
    and "outcome (internal_error MEnsureSlots (EnsureSlots ss) :: unit bservice) t q t'" for ven res date rs ss q t'
  proof -
    from that(6) obtain q' where "brun (EnsureSlots ss) t q' t'"
      unfolding internal_error_def by (auto elim: outcome_map_errorE)
    moreover have "\<forall>s \<in> set ss. fresh_slot s"
      using generated_fresh [OF ss that(2)] that(3-5) cat by (auto simp: catalogue_ok_def)
    ultimately show ?thesis by (rule booking_step.offer)
  qed
  have tail: "booking_step\<^sup>*\<^sup>* t t'" if "list_all2 (slot_for ven res date)
      (concat (map (\<lambda>u. slot_minutes (Venue_SlotMinutes ven) (Rule_StartMinute u) (Rule_EndMinute u)) rs)) ss"
    and "dayStart date = date" "ven \<in> set (venues t)" "res \<in> set (resources t)" "set rs \<subseteq> set (rules t)"
    and run: "outcome (bind (internal_error MEnsureSlots (EnsureSlots ss)) (\<lambda>_.
      bind (passed (ListSlots k date (AddDays date 1))) (\<lambda>rows.
      ret (map (slotResponse (show_time s)) rows))) :: slot_response list bservice) t q t'" for ven res date rs ss q t' k
  proof -
    have same: "t2 = t1" if "outcome (bind (passed (ListSlots k date (AddDays date 1))) (\<lambda>rows.
        ret (map (slotResponse (show_time s)) rows)) :: slot_response list bservice) t1 q1 t2" for t1 q1 t2
      using keepsD [OF _ that, of "\<lambda>t. t = t1"] by (auto intro!: keeps_bind keeps_basic)
    from run show ?thesis by (rule outcome_bindE) (auto dest: offer [OF that(1-5)] same)
  qed
  have rest: "reaches t (booking_step\<^sup>*\<^sup>* t) (then_partial (passed (ListRules k (rule_weekday date))) (\<lambda>rs.
      after_partial (rule_loop (make_slot ven res date now ids) (Venue_SlotMinutes ven) rs []) (\<lambda>ss.
        bind (internal_error MEnsureSlots (EnsureSlots ss)) (\<lambda>_.
        bind (passed (ListSlots k date (AddDays date 1))) (\<lambda>rows.
        ret (map (slotResponse (show_time s)) rows))))))"
    if date: "dayStart date = date" and ven: "ven \<in> set (venues t)" and res: "res \<in> set (resources t)" for date ven res k
  proof (intro reaches_then reaches_after)
    have sz: "1 \<le> Venue_SlotMinutes ven" using cat ven by (auto simp: catalogue_ok_def)
    fix rs assume "outcome (passed (ListRules k (rule_weekday date)) :: weekly_rule list bservice) t (Inr rs) t"
    note rs = listed_rules [OF this]
    show "tables w' = t" if "tables w = t"
      "rule_loop (make_slot ven res date now ids) (Venue_SlotMinutes ven) rs [] w = Some (r, w')" for w r w'
      using rule_loop_tables [OF prog_tables [OF make_slot_keeps] sz that(2)] that(1) by simp
    fix ss w w' q t' assume w: "tables w = t"
      and loop: "rule_loop (make_slot ven res date now ids) (Venue_SlotMinutes ven) rs [] w = Some (Inr ss, w')"
      and run: "outcome (bind (internal_error MEnsureSlots (EnsureSlots ss)) (\<lambda>_.
        bind (passed (ListSlots k date (AddDays date 1))) (\<lambda>rows.
        ret (map (slotResponse (show_time s)) rows))) :: slot_response list bservice) t q t'"
    from rule_loop_result [OF sz make_slot_slot loop] have "list_all2 (slot_for ven res date)
      (concat (map (\<lambda>u. slot_minutes (Venue_SlotMinutes ven) (Rule_StartMinute u) (Rule_EndMinute u)) rs)) ss" by simp
    from tail [OF this date ven res rs run] show "booking_step\<^sup>*\<^sup>* t t'" .
  qed auto
  show ?thesis
    unfolding AvailableSlots_def Let_def FindResource_def FindVenue_def
    by (intro reaches_then keeps_if booking_helpers_keep)
      (auto intro!: reaches_total rest keeps_bind keeps_basic keeps_find_row parse_date_midnight
        dest!: given active_found dest: found_row)
qed

text \<open>The call always returns: the loops end because every venue has a positive slot length.\<close>

definition returns :: "reservation_db \<Rightarrow> 'a bpartial \<Rightarrow> bool" where
  "returns t p \<longleftrightarrow> (\<forall>w. tables w = t \<longrightarrow> p w \<noteq> None)"

lemma returns_then:
  assumes keep: "\<And>I. keeps I m" and f: "\<And>x. outcome m t (Inr x) t \<Longrightarrow> returns t (f x)"
  shows "returns t (then_partial m f)"
  unfolding returns_def
proof (intro allI impI)
  fix w :: "(reservation_db, reservation_event) world" assume w: "tables w = t"
  obtain q w1 where m: "m w = (q, w1)" by (cases "m w")
  have same: "tables w1 = t" using prog_tables [OF keep m] w by simp
  show "then_partial m f w \<noteq> None"
  proof (cases q)
    case (Inr x)
    have "outcome m t (Inr x) t" using outcomeI [of m w q w1] m Inr same w by simp
    from f [OF this] m Inr same show ?thesis by (auto simp: then_partial_def returns_def)
  qed (use m in \<open>simp add: then_partial_def\<close>)
qed

lemma returns_simps:
  "returns t (total_prog m)" "(\<And>w. \<exists>r. p w = Some r) \<Longrightarrow> returns t (after_partial p f)"
proof -
  show "returns t (total_prog m)" by (simp add: returns_def total_prog_def)
  assume p: "\<And>w. \<exists>r. p w = Some r"
  have "after_partial p f w \<noteq> None" for w
    using p [of w] by (auto simp: after_partial_def split: sum.splits)
  then show "returns t (after_partial p f)" by (simp add: returns_def)
qed

lemma AvailableSlots_returns:
  assumes inv: "booking_inv t"
  shows "returns t (AvailableSlots s rid raw now1 now ids)"
proof -
  have sz: "1 \<le> Venue_SlotMinutes ven" if "ven \<in> set (venues t)" for ven
    using booking_invD(2) [OF inv] that by (auto simp: catalogue_ok_def)
  show ?thesis
    unfolding AvailableSlots_def Let_def FindResource_def FindVenue_def
    by (intro returns_then keeps_if booking_helpers_keep)
      (auto intro!: returns_then returns_simps rule_loop_returns sz keeps_bind keeps_basic keeps_find_row
        dest!: given active_found dest: found_row)
qed

section \<open>Calls of the service\<close>

lemma booking_step_keeps:
  fixes m :: "(reservation_event, 'a) brepo"
  assumes "\<And>t r t'. outcome m t r t' \<Longrightarrow> booking_step t t'"
  shows "keeps (booking_step\<^sup>*\<^sup>* t0) m"
  unfolding keeps_def using assms by (blast intro: rtranclp.rtrancl_into_rtrancl)

lemma repo_keeps:
  "1 \<le> Venue_SlotMinutes v \<Longrightarrow> keeps (booking_step\<^sup>*\<^sup>* t0) (repo_CreateVenue v :: (reservation_event, unit) brepo)"
  "1 \<le> Resource_Capacity x \<Longrightarrow> keeps (booking_step\<^sup>*\<^sup>* t0) (repo_CreateResource x :: (reservation_event, unit) brepo)"
  "0 \<le> Rule_StartMinute u \<Longrightarrow> Rule_EndMinute u \<le> 1440 \<Longrightarrow>
     keeps (booking_step\<^sup>*\<^sup>* t0) (repo_CreateRule u :: (reservation_event, unit) brepo)"
  "Booking_Status bk = BookingReserved \<Longrightarrow>
     keeps (booking_step\<^sup>*\<^sup>* t0) (repo_CreateBooking bk now clock :: (reservation_event, slot \<times> venue) brepo)"
  "keeps (booking_step\<^sup>*\<^sup>* t0) (repo_CancelBooking bid root now clock :: (reservation_event, bool) brepo)"
  "keeps (booking_step\<^sup>*\<^sup>* t0) (repo_Checkin code now :: (reservation_event, bool) brepo)"
  "keeps (booking_step\<^sup>*\<^sup>* t0) (MarkNoShows busy now :: (reservation_event, booking list) brepo)"
  "keeps (booking_step\<^sup>*\<^sup>* t0) (repo_CreateClosure c now :: (reservation_event, int64 list) brepo)"
  by (rule booking_step_keeps; blast intro: booking_step.intros)+

inductive booking_call :: "booking_env \<Rightarrow> reservation_db \<Rightarrow> reservation_db \<Rightarrow> bool" for s :: booking_env where
  call_slots: "AvailableSlots s rid raw now1 now ids w = Some (r, w') \<Longrightarrow> booking_call s (tables w) (tables w')"
| call_venue: "outcome (CreateVenue req newID now) t r1 t' \<Longrightarrow> booking_call s t t'"
| call_resource: "outcome (CreateResource vid name cap newID now) t r2 t' \<Longrightarrow> booking_call s t t'"
| call_rule: "outcome (CreateRule rid rreq newID now) t r3 t' \<Longrightarrow> booking_call s t t'"
| call_booking: "outcome (CreateBooking s u root sid newID newCode now clock) t r4 t' \<Longrightarrow> booking_call s t t'"
| call_cancel: "outcome (CancelBooking root bid now clock) t r3 t' \<Longrightarrow> booking_call s t t'"
| call_checkin: "outcome (Checkin code now) t r3 t' \<Longrightarrow> booking_call s t t'"
| call_closure: "outcome (CreateClosure s adminID creq newID now) t r3 t' \<Longrightarrow> booking_call s t t'"
| call_jobs: "outcome (reservation_RunDueJobs s txt busy now) t r3 t' \<Longrightarrow> booking_call s t t'"
| call_list: "outcome (ListBookings s root page sz) t r5 t' \<Longrightarrow> booking_call s t t'"

lemma service_keeps:
  "keeps (booking_step\<^sup>*\<^sup>* t0) (CreateVenue req newID now)"
  "keeps (booking_step\<^sup>*\<^sup>* t0) (CreateResource vid name cap newID now)"
  "keeps (booking_step\<^sup>*\<^sup>* t0) (CreateRule rid rreq newID now)"
  "keeps (booking_step\<^sup>*\<^sup>* t0) (CreateBooking s u root sid newID newCode now clock)"
  "keeps (booking_step\<^sup>*\<^sup>* t0) (CancelBooking root bid now clock)"
  "keeps (booking_step\<^sup>*\<^sup>* t0) (Checkin code now)"
  "keeps (booking_step\<^sup>*\<^sup>* t0) (CreateClosure s adminID creq newID now)"
  "keeps (booking_step\<^sup>*\<^sup>* t0) (reservation_RunDueJobs s txt busy now)"
  "keeps (booking_step\<^sup>*\<^sup>* t0) (ListBookings s root page sz)"
  unfolding CreateVenue_def CreateResource_def CreateRule_def CreateBooking_def CancelBooking_def Checkin_def
    CreateClosure_def reservation_RunDueJobs_def ListBookings_def Let_def optional_id_def
  by (auto intro!: keeps_bind keeps_basic keeps_map_error booking_helpers_keep booking_reads_keep repo_keeps notify_keeps
      simp: venue_defaults_def new_booking_def split: option.split prod.split)

lemma booking_calls:
  assumes "booking_call s t t'" and "booking_inv t"
  shows "booking_step\<^sup>*\<^sup>* t t'"
  using assms
proof (induction rule: booking_call.induct)
  case (call_slots rid raw now1 now ids w r w')
  then show ?case using AvailableSlots_steps [of "tables w" s rid raw now1 now ids] by (auto simp: reaches_def)
qed (blast intro: keepsD [OF service_keeps(1)] keepsD [OF service_keeps(2)] keepsD [OF service_keeps(3)]
    keepsD [OF service_keeps(4)] keepsD [OF service_keeps(5)] keepsD [OF service_keeps(6)]
    keepsD [OF service_keeps(7)] keepsD [OF service_keeps(8)] keepsD [OF service_keeps(9)])+

interpretation booking_service: invariant_system booking_start "booking_call s" booking_inv for s
proof
  show "booking_inv t" if "booking_start t" for t using that by (rule bookings_sys.start_inv)
  show "booking_inv t'" if "booking_call s t t'" "booking_inv t" for t t'
    using bookings_sys.steps_inv [OF booking_calls [OF that] that(2)] .
qed

end
