(* ===== verification/Reservation_Example.thy ===== *)
theory Reservation_Example
  imports Reservation_Calls
begin

text \<open>
  One slot of one venue, as concrete states of the tables: empty, offered, booked, checked in,
  cancelled, closed. The witnesses use them.
\<close>

definition bx_venue :: venue where
  "bx_venue = \<lparr>Venue_ID = 1, Venue_Name = ''gym'', Venue_Description = [], Venue_Status = StatusActive,
     Venue_AdvanceDays = 7, Venue_SlotMinutes = 60, Venue_DailyLimit = 2, Venue_CancelBeforeMinutes = 120,
     Venue_CreatedAt = 0, Venue_UpdatedAt = 0\<rparr>"

definition bx_resource :: resource where
  "bx_resource = \<lparr>Resource_ID = 2, Resource_VenueID = 1, Resource_Name = ''court'', Resource_Capacity = 2,
     Resource_Status = StatusActive, Resource_CreatedAt = 0, Resource_UpdatedAt = 0\<rparr>"

definition bx_slot :: "int \<Rightarrow> slot_status \<Rightarrow> instant \<Rightarrow> slot" where
  "bx_slot n st now = \<lparr>Slot_ID = 3, Slot_ResourceID = 2, Slot_StartAt = 93600000, Slot_EndAt = 97200000,
     Slot_Capacity = 2, Slot_ReservedCount = n, Slot_Status = st, Slot_CreatedAt = 0, Slot_UpdatedAt = now\<rparr>"

definition bx_booking :: "booking_status \<Rightarrow> instant option \<Rightarrow> instant option \<Rightarrow> instant \<Rightarrow> booking" where
  "bx_booking st ck cn now = \<lparr>Booking_ID = 4, Booking_RootUserID = 9, Booking_UserID = 9,
     Booking_SlotID = 3, Booking_Status = st, Booking_CheckinCode = ''77'', Booking_CheckedAt = ck,
     Booking_CancelledAt = cn, Booking_CreatedAt = 60000000, Booking_UpdatedAt = now\<rparr>"

definition bx_lock :: day_lock where
  "bx_lock = \<lparr>Lock_ID = 4, Lock_RootUserID = 9, Lock_ReservationDate = 57600000\<rparr>"

definition bx_closure :: closure where
  "bx_closure = \<lparr>Closure_ID = 6, Closure_VenueID = Some 1, Closure_ResourceID = None,
     Closure_StartAt = 90000000, Closure_EndAt = 95000000, Closure_Reason = ''repair'',
     Closure_CreatedBy = 5, Closure_CreatedAt = 61000000\<rparr>"

definition bx_tables :: "venue list \<Rightarrow> resource list \<Rightarrow> closure list \<Rightarrow> slot list \<Rightarrow> day_lock list \<Rightarrow> booking list \<Rightarrow> reservation_db" where
  "bx_tables vs rs cs ss ls bs =
     \<lparr>venues = vs, resources = rs, rules = [], closures = cs, slots = ss, day_locks = ls, bookings = bs\<rparr>"

definition bx_world :: "reservation_db \<Rightarrow> (reservation_db, reservation_event) world" where
  "bx_world t = \<lparr>tables = t, connected = True, faults = [], outbox = []\<rparr>"

definition bx_empty :: reservation_db where "bx_empty = bx_tables [] [] [] [] [] []"
definition bx_venued :: reservation_db where "bx_venued = bx_tables [bx_venue] [] [] [] [] []"
definition bx_resourced :: reservation_db where "bx_resourced = bx_tables [bx_venue] [bx_resource] [] [] [] []"
definition bx_offered :: reservation_db where
  "bx_offered = bx_tables [bx_venue] [bx_resource] [] [bx_slot 0 SlotOpen 0] [] []"
definition bx_booked :: reservation_db where
  "bx_booked = bx_tables [bx_venue] [bx_resource] [] [bx_slot 1 SlotOpen 60000001] [bx_lock]
     [bx_booking BookingReserved None None 60000000]"
definition bx_checked :: reservation_db where
  "bx_checked = bx_tables [bx_venue] [bx_resource] [] [bx_slot 1 SlotOpen 60000001] [bx_lock]
     [bx_booking BookingCheckedIn (Some 93600001) None 93600001]"
definition bx_cancelled :: reservation_db where
  "bx_cancelled = bx_tables [bx_venue] [bx_resource] [] [bx_slot 0 SlotOpen 61000001] [bx_lock]
     [bx_booking BookingCancelled None (Some 61000000) 61000000]"
definition bx_missed :: reservation_db where
  "bx_missed = bx_tables [bx_venue] [bx_resource] [] [bx_slot 1 SlotOpen 60000001] [bx_lock]
     [bx_booking BookingNoShow None None 97200000]"
definition bx_closed :: reservation_db where
  "bx_closed = bx_tables [bx_venue] [bx_resource] [bx_closure] [bx_slot 0 SlotClosed 61000000] [bx_lock]
     [bx_booking BookingClosureCancelled None (Some 61000000) 61000000]"

definition bx_env :: booking_env where
  "bx_env = \<lparr>booking_capabilities = None, booking_notifier = True, show_time = FormatInt, parse_time = ParseInt\<rparr>"

lemmas bx_states = bx_empty_def bx_venued_def bx_resourced_def bx_offered_def bx_booked_def bx_checked_def
  bx_cancelled_def bx_missed_def bx_closed_def bx_tables_def

lemma bx_runs:
  "repo_CreateVenue bx_venue (bx_world bx_empty) = (Inr (), bx_world bx_venued)"
  "repo_CreateResource bx_resource (bx_world bx_venued) = (Inr (), bx_world bx_resourced)"
  "EnsureSlots [bx_slot 0 SlotOpen 0] (bx_world bx_resourced) = (Inr (), bx_world bx_offered)"
  "repo_CreateBooking (bx_booking BookingReserved None None 60000000) 60000000 60000001 (bx_world bx_offered)
     = (Inr (bx_slot 0 SlotOpen 0, bx_venue), bx_world bx_booked)"
  "repo_Checkin ''77'' 93600001 (bx_world bx_booked) = (Inr True, bx_world bx_checked)"
  "repo_CancelBooking 4 9 61000000 61000001 (bx_world bx_booked) = (Inr True, bx_world bx_cancelled)"
  "MarkNoShows (\<lambda>_. False) 97200000 (bx_world bx_booked)
     = (Inr [bx_booking BookingReserved None None 60000000], bx_world bx_missed)"
  "repo_CreateClosure bx_closure 61000000 (bx_world bx_booked) = (Inr [9], bx_world bx_closed)"
  by code_simp+

lemma bx_tables_world [simp]: "tables (bx_world t) = t" and bx_calm [simp]: "calm (bx_world t)"
  by (simp_all add: bx_world_def calm_def)

lemma bx_outcome: "m (bx_world t) = (r, bx_world t') \<Longrightarrow> outcome m t r t'"
  using outcomeI [of m "bx_world t" r "bx_world t'"] by simp

lemma bx_run: "outcome m t (fst (m (bx_world t))) (tables (snd (m (bx_world t))))"
  using outcomeI [of m "bx_world t" "fst (m (bx_world t))" "snd (m (bx_world t))"] by simp

lemma bx_outcomes:
  "brun (repo_CreateVenue bx_venue) bx_empty (Inr ()) bx_venued"
  "brun (repo_CreateResource bx_resource) bx_venued (Inr ()) bx_resourced"
  "brun (EnsureSlots [bx_slot 0 SlotOpen 0]) bx_resourced (Inr ()) bx_offered"
  "brun (repo_CreateBooking (bx_booking BookingReserved None None 60000000) 60000000 60000001) bx_offered
     (Inr (bx_slot 0 SlotOpen 0, bx_venue)) bx_booked"
  "brun (repo_Checkin ''77'' 93600001) bx_booked (Inr True) bx_checked"
  "brun (repo_CancelBooking 4 9 61000000 61000001) bx_booked (Inr True) bx_cancelled"
  "brun (MarkNoShows (\<lambda>_. False) 97200000) bx_booked (Inr [bx_booking BookingReserved None None 60000000]) bx_missed"
  "brun (repo_CreateClosure bx_closure 61000000) bx_booked (Inr [9]) bx_closed"
  by (rule bx_outcome, rule bx_runs)+

lemma bx_fresh: "\<forall>s \<in> set [bx_slot 0 SlotOpen 0]. fresh_slot s"
  by (simp add: fresh_slot_def slot_shape_def bx_slot_def AddDays_def dayStart_def zone_ms_def day_ms_def)

lemma bx_steps:
  "booking_step bx_empty bx_venued" "booking_step bx_venued bx_resourced" "booking_step bx_resourced bx_offered"
  "booking_step bx_offered bx_booked" "booking_step bx_booked bx_checked" "booking_step bx_booked bx_cancelled"
  "booking_step bx_booked bx_missed" "booking_step bx_booked bx_closed"
proof -
  show "booking_step bx_empty bx_venued" by (rule new_venue [OF bx_outcomes(1)]) (simp add: bx_venue_def)
  show "booking_step bx_venued bx_resourced" by (rule new_resource [OF bx_outcomes(2)]) (simp add: bx_resource_def)
  show "booking_step bx_resourced bx_offered" by (rule offer [OF bx_outcomes(3) bx_fresh])
  show "booking_step bx_offered bx_booked" by (rule book [OF bx_outcomes(4)]) (simp add: bx_booking_def)
  show "booking_step bx_booked bx_checked" by (rule checkin [OF bx_outcomes(5)])
  show "booking_step bx_booked bx_cancelled" by (rule cancel [OF bx_outcomes(6)])
  show "booking_step bx_booked bx_missed" by (rule no_shows [OF bx_outcomes(7)])
  show "booking_step bx_booked bx_closed" by (rule close [OF bx_outcomes(8)])
qed

lemma bx_reachable:
  "reachable booking_start booking_step bx_empty" "reachable booking_start booking_step bx_resourced"
  "reachable booking_start booking_step bx_offered" "reachable booking_start booking_step bx_booked"
  "reachable booking_start booking_step bx_checked" "reachable booking_start booking_step bx_closed"
proof -
  note step = reachable_step [where start = booking_start and step = booking_step]
  show e: "reachable booking_start booking_step bx_empty"
    by (rule reachable_start) (simp add: booking_start_def bx_states)
  show r: "reachable booking_start booking_step bx_resourced" by (rule step [OF step [OF e bx_steps(1)] bx_steps(2)])
  show o: "reachable booking_start booking_step bx_offered" by (rule step [OF r bx_steps(3)])
  show b: "reachable booking_start booking_step bx_booked" by (rule step [OF o bx_steps(4)])
  show "reachable booking_start booking_step bx_checked" by (rule step [OF b bx_steps(5)])
  show "reachable booking_start booking_step bx_closed" by (rule step [OF b bx_steps(8)])
qed

lemmas bx_invs = bx_reachable [THEN bookings_sys.reachable_inv]

end
