(* ===== verification/Reservation_Live.thy ===== *)
theory Reservation_Live
  imports Reservation_Calls
begin

text \<open>
  What the calls achieve: a booking whose conditions hold goes through when nothing fails, a check-in
  code works once, generating slots twice changes nothing, missed bookings are all found.
\<close>

section \<open>A booking goes through\<close>

definition insert_lock :: "day_lock \<Rightarrow> day_lock list \<Rightarrow> day_lock list" where
  "insert_lock l ls = (if day_locks_ok (ls @ [l]) then ls @ [l] else ls)"

lemma lock_taken:
  assumes "day_locks_ok ls" and "\<forall>l \<in> set ls. Lock_ID l \<noteq> Lock_ID new"
  shows "\<exists>l. find (\<lambda>l. Lock_RootUserID l = Lock_RootUserID new \<and> Lock_ReservationDate l = Lock_ReservationDate new)
    (insert_lock new ls) = Some l"
proof -
  let ?P = "\<lambda>l. Lock_RootUserID l = Lock_RootUserID new \<and> Lock_ReservationDate l = Lock_ReservationDate new"
  have "\<exists>l \<in> set (insert_lock new ls). ?P l"
  proof (cases "day_locks_ok (ls @ [new])")
    case False
    then obtain l where "l \<in> set ls" "?P l" using assms by (fastforce simp: day_locks_ok_def)
    then show ?thesis using False by (auto simp: insert_lock_def)
  qed (simp add: insert_lock_def)
  then have "find ?P (insert_lock new ls) \<noteq> None" by (simp only: find_None_iff) blast
  then show ?thesis by simp
qed

lemma calm_lock_day:
  "calm w \<Longrightarrow> create_or_ignore day_locks day_locks_update day_locks_ok l w =
     (Inr (), w\<lparr>tables := (tables w)\<lparr>day_locks := insert_lock l (day_locks (tables w))\<rparr>\<rparr>)"
  by (cases w) (simp add: calm_create_or_ignore insert_lock_def)

lemma CreateBooking_succeeds:
  assumes calm: "calm w" and t: "tables w = t" and inv: "booking_inv t" and can: "bookable bk now t s v"
    and fresh: "bookings_ok (bookings t @ [bk])" "\<forall>l \<in> set (day_locks t). Lock_ID l \<noteq> Booking_ID bk"
  shows "\<exists>w'. repo_CreateBooking bk now clock w = (Inr (s, v), w')"
proof -
  have f: "find (\<lambda>s. Slot_ID s = Booking_SlotID bk) (slots t) = Some s"
    and ok: "\<not> (Slot_Status s \<noteq> SlotOpen \<or> Slot_Capacity s \<le> Slot_ReservedCount s \<or> \<not> now < Slot_StartAt s)"
    "\<not> \<not> Slot_StartAt s < AddDays (dayStart now) (Venue_AdvanceDays v + 1)"
    "\<not> Venue_DailyLimit v \<le> int (length (user_bookings (Booking_RootUserID bk) (on_day (dayStart (Slot_StartAt s))) t))"
    "user_bookings (Booking_RootUserID bk) (overlaps s) t = []"
    using can by (auto simp: bookable_def)
  from can obtain r where r: "find (\<lambda>r. Resource_ID r = Slot_ResourceID s \<and> Resource_Status r = StatusActive) (resources t) = Some r"
    "find (\<lambda>v. Venue_ID v = Resource_VenueID r \<and> Venue_Status v = StatusActive) (venues t) = Some v"
    by (auto simp: bookable_def split: option.splits)
  let ?new = "\<lparr>Lock_ID = Booking_ID bk, Lock_RootUserID = Booking_RootUserID bk, Lock_ReservationDate = dayStart (Slot_StartAt s)\<rparr>"
  obtain l where l: "find (\<lambda>l. Lock_RootUserID l = Booking_RootUserID bk \<and> Lock_ReservationDate l = dayStart (Slot_StartAt s))
      (insert_lock ?new (day_locks t)) = Some l"
    using lock_taken [of "day_locks t" ?new] booking_invD(1) [OF inv] fresh(2) by (auto simp: tables_ok_def)
  have s: "s \<in> set (slots t)" using f by (auto dest: find_member)
  have n: "rows_changed (\<lambda>x. Slot_ID x = Slot_ID s \<and> Slot_ReservedCount x < Slot_Capacity x) (take_place_row clock) (slots t) = 1"
    by (rule rows_changed_one [OF slot_ids [OF booking_invD(1) [OF inv]] slot_row [OF booking_invD(1) [OF inv] s]])
      (use ok(1) in \<open>auto simp: take_place_row_def dest: arg_cong [of _ _ Slot_ReservedCount]\<close>)
  have slots: "slots_ok (update_rows (\<lambda>x. Slot_ID x = Slot_ID s \<and> Slot_ReservedCount x < Slot_Capacity x) (take_place_row clock) (slots t))"
    using moved_tables [OF booking_invD(1) [OF inv] moves_none_update(1) [OF slot_rows(1)] moves_back_update(2)]
    by (simp add: tables_ok_def update_rows_def)
  show ?thesis
    unfolding repo_CreateBooking_def Let_def
    using calm calm [unfolded calm_def] f ok r l n fresh(1)
    by (simp add: bind_def or_sentinel_def map_error_def transaction_def fail_if_def ret_def calm_gormDB
        calm_take_row calm_read_rows calm_create_row calm_update_where calm_lock_day t faulty_def slots Let_def)
qed
section \<open>Daily limit\<close>

lemma joined_moved:
  assumes "moves_none g" and "\<And>s. P (g s) \<longleftrightarrow> P s" and "slots t' = map g (slots t)"
  shows "joined P t' b = joined P t b"
proof -
  have "lookup Slot_ID (slots t') k = map_option g (lookup Slot_ID (slots t) k)" for k
    using lookup_update_rows [of Slot_ID g "\<lambda>_. True" "slots t" k] assms(1,3) by (simp add: update_rows_def moves_none_def)
  with assms(2) show ?thesis by (simp add: joined_def slot_of_def split: option.split)
qed

lemma booked_daily:
  assumes can: "bookable bk now t s v" and did: "booked bk clock s t t'"
  shows "int (length (user_bookings (Booking_RootUserID bk) (on_day (dayStart (Slot_StartAt s))) t')) \<le> Venue_DailyLimit v"
proof -
  let ?P = "on_day (dayStart (Slot_StartAt s))"
  let ?g = "\<lambda>x. if Slot_ID x = Slot_ID s \<and> Slot_ReservedCount x < Slot_Capacity x then take_place_row clock x else x"
  have g: "moves_none ?g" by (intro moves_none_update slot_rows)
  from did have t': "slots t' = map ?g (slots t)" "bookings t' = bookings t @ [bk]"
    by (auto simp: booked_def update_rows_def)
  have "joined ?P t' b = joined ?P t b" for b
    by (rule joined_moved [OF g _ t'(1)]) (simp add: on_day_def take_place_row_def)
  then have "length (user_bookings (Booking_RootUserID bk) ?P t') \<le> length (user_bookings (Booking_RootUserID bk) ?P t) + 1"
    by (simp add: user_bookings_def t'(2))
  with can show ?thesis by (simp add: bookable_def)
qed

section \<open>Check-in codes\<close>

definition spent :: "string \<Rightarrow> reservation_db \<Rightarrow> bool" where
  "spent code t \<longleftrightarrow> (\<exists>b \<in> set (bookings t). Booking_CheckinCode b = code \<and> Booking_Status b \<noteq> BookingReserved)"

lemma spent_update:
  assumes "spent code t" and "\<And>b. P b \<Longrightarrow> Booking_Status b = BookingReserved"
  shows "spent code (bookings_update (update_rows P f) t)"
proof -
  obtain b where "b \<in> set (bookings t)" "Booking_CheckinCode b = code" "Booking_Status b \<noteq> BookingReserved"
    using assms(1) by (auto simp: spent_def)
  moreover from this have "b \<in> set (update_rows P f (bookings t))" using assms(2) [of b] by (force simp: update_rows_def)
  ultimately show ?thesis by (auto simp: spent_def)
qed

lemma spent_other:
  "spent code (venues_update f t) = spent code t" "spent code (resources_update g t) = spent code t"
  "spent code (rules_update h t) = spent code t" "spent code (slots_update i t) = spent code t"
  "spent code (closures_update j t) = spent code t" "spent code (day_locks_update k t) = spent code t"
  "spent code t \<Longrightarrow> spent code (bookings_update (\<lambda>rows. rows @ bs) t)"
  by (auto simp: spent_def)

lemma EnsureSlots_spent: "keeps (spent code) (EnsureSlots ss)"
  unfolding keeps_def EnsureSlots_def
  by (auto elim!: outcome_bindE simp: run_simps spent_other split: if_splits)

lemma steps_keep_spent: "booking_step t t' \<Longrightarrow> spent code t \<Longrightarrow> spent code t'"
proof (induction rule: booking_step.induct)
  case (offer ss t r1 t')
  then show ?case using keepsD [OF EnsureSlots_spent] by blast
next
  case (new_venue v t r1 t')
  have "keeps (spent code) (repo_CreateVenue v :: (reservation_event, unit) brepo)" unfolding repo_CreateVenue_def
    by (intro keeps_bind keeps_basic keeps_create_row) (simp add: spent_other)
  with new_venue show ?case by (blast dest: keepsD)
next
  case (new_resource w t r1 t')
  have "keeps (spent code) (repo_CreateResource w :: (reservation_event, unit) brepo)" unfolding repo_CreateResource_def
    by (intro keeps_bind keeps_basic keeps_create_child) (simp add: spent_other)
  with new_resource show ?case by (blast dest: keepsD)
next
  case (new_rule u t r1 t')
  have "keeps (spent code) (repo_CreateRule u :: (reservation_event, unit) brepo)" unfolding repo_CreateRule_def
    by (intro keeps_bind keeps_basic keeps_create_child) (simp add: spent_other)
  with new_rule show ?case by (blast dest: keepsD)
next
  case (book bk now clock t r2 t')
  have "keeps (spent code) (repo_CreateBooking bk now clock :: (reservation_event, slot \<times> venue) brepo)"
    unfolding repo_CreateBooking_def Let_def
    by (intro keeps_bind keeps_basic keeps_whole_transaction keeps_create_or_ignore keeps_create_row keeps_update_where
        keeps_or_sentinel keeps_fail_if) (simp_all add: spent_other)
  with book show ?case by (blast dest: keepsD)
next
  case (cancel bid root now clock t r3 t')
  have "keeps (spent code) (repo_CancelBooking bid root now clock :: (reservation_event, bool) brepo)"
    unfolding repo_CancelBooking_def
    by (auto intro!: keeps_bind keeps_basic keeps_whole_transaction keeps_update_where keeps_attempt keeps_fail_if spent_update
        simp: spent_other split: sum.split)
  with cancel show ?case by (blast dest: keepsD)
next
  case (checkin code' now t r3 t')
  have "keeps (spent code) (repo_Checkin code' now :: (reservation_event, bool) brepo)" unfolding repo_Checkin_def
    by (auto intro!: keeps_bind keeps_basic keeps_update_where spent_update)
  with checkin show ?case by (blast dest: keepsD)
next
  case (no_shows busy now t r4 t')
  have "keeps (spent code) (MarkNoShows busy now :: (reservation_event, booking list) brepo)" unfolding MarkNoShows_def
    by (auto intro!: keeps_bind keeps_basic keeps_whole_transaction keeps_update_where keeps_fail_if spent_update)
  with no_shows show ?case by (blast dest: keepsD)
next
  case (close c now t r5 t')
  have "keeps (spent code) (repo_CreateClosure c now :: (reservation_event, int64 list) brepo)"
    unfolding repo_CreateClosure_def Let_def
    by (auto intro!: keeps_bind keeps_basic keeps_whole_transaction keeps_update_where keeps_create_row spent_update
        simp: spent_other)
  with close show ?case by (blast dest: keepsD)
qed

lemma Checkin_spends:
  assumes "outcome (repo_Checkin code now) t (Inr True) t'"
  shows "spent code t'"
proof -
  from assms have n: "rows_changed (\<lambda>b. Booking_CheckinCode b = code \<and> Booking_Status b = BookingReserved) (checkin_row now) (bookings t) \<noteq> 0"
    and t': "t' = bookings_update (update_rows (\<lambda>b. Booking_CheckinCode b = code \<and> Booking_Status b = BookingReserved) (checkin_row now)) t"
    unfolding repo_Checkin_def by (auto dest!: outcome_bind_Inr simp: run_simps)
  from rows_changed_pos [OF n] obtain b where b: "b \<in> set (bookings t)" "Booking_CheckinCode b = code" "Booking_Status b = BookingReserved"
    by auto
  then have "checkin_row now b \<in> set (bookings t')" unfolding t' by (force simp: update_rows_def)
  with b(2) show ?thesis unfolding spent_def by (intro bexI [of _ "checkin_row now b"]) (simp_all add: checkin_row_def)
qed

lemma spent_refused:
  assumes "tables_ok t" and "spent code t" and "outcome (repo_Checkin code now) t (Inr ok) t'"
  shows "\<not> ok \<and> t' = t"
proof -
  obtain b where b: "b \<in> set (bookings t)" "Booking_CheckinCode b = code" "Booking_Status b \<noteq> BookingReserved"
    using assms(2) by (auto simp: spent_def)
  have "\<not> (Booking_CheckinCode c = code \<and> Booking_Status c = BookingReserved)" if "c \<in> set (bookings t)" for c
    using assms(1) b that by (auto simp: tables_ok_def bookings_ok_def distinct_map dest: inj_onD)
  then have "rows_changed (\<lambda>b. Booking_CheckinCode b = code \<and> Booking_Status b = BookingReserved) (checkin_row now) (bookings t) = 0"
    by (auto simp: rows_changed_def filter_empty_conv)
  with assms(3) update_no_change [OF this] show ?thesis
    unfolding repo_Checkin_def by (auto dest!: outcome_bind_Inr simp: run_simps)
qed

section \<open>Generating slots again\<close>

lemma slots_ok_drop: "slots_ok (rows @ [x] @ [s]) \<Longrightarrow> slots_ok (rows @ [s])"
  by (auto simp: slots_ok_def)

lemma insert_slot_again:
  "\<not> slots_ok (insert_slot s rows @ [s])" "\<not> slots_ok (rows @ [s]) \<Longrightarrow> \<not> slots_ok (insert_slot x rows @ [s])"
  using slots_ok_drop [of rows x s] by (auto simp: insert_slot_def slots_ok_def)

lemma insert_slots_conflict:
  "s \<in> set ss \<or> \<not> slots_ok (rows @ [s]) \<Longrightarrow> \<not> slots_ok (fold insert_slot ss rows @ [s])"
proof (induction ss arbitrary: rows)
  case (Cons x ss)
  have "s \<in> set ss \<or> \<not> slots_ok (insert_slot x rows @ [s])"
    using Cons.prems insert_slot_again(1) [where s = s and rows = rows] insert_slot_again(2) [of rows s x] by auto
  from Cons.IH [OF this] show ?case by simp
qed simp

lemma insert_slots_skip: "(\<And>s. s \<in> set ss \<Longrightarrow> \<not> slots_ok (rows @ [s])) \<Longrightarrow> fold insert_slot ss rows = rows"
  by (induction ss) (auto simp: insert_slot_def)

lemma insert_slots_idem: "fold insert_slot ss (fold insert_slot ss rows) = fold insert_slot ss rows"
  by (rule insert_slots_skip) (simp add: insert_slots_conflict)

lemma EnsureSlots_result:
  "outcome (EnsureSlots ss) t (Inr x) t' \<Longrightarrow> t' = t\<lparr>slots := fold insert_slot ss (slots t)\<rparr>"
  unfolding EnsureSlots_def by (auto dest!: outcome_bind_Inr simp: run_simps split: if_splits)

section \<open>Cancelling and missed bookings\<close>

lemma cancel_held:
  assumes ok: "tables_ok t" and bk: "bk \<in> set (bookings t)" "Booking_ID bk = bid" "Booking_Status bk = BookingReserved"
    and k: "Booking_SlotID bk = k"
    and t': "bookings t' = update_rows (\<lambda>b. Booking_ID b = bid \<and> Booking_Status b = BookingReserved) (cancel_booking_row now) (bookings t)"
  shows "held t' k + 1 = held t k"
proof -
  let ?P = "\<lambda>b. Booking_ID b = bid \<and> Booking_Status b = BookingReserved"
  have "held (t\<lparr>bookings := update_rows ?P (cancel_booking_row now) (bookings t)\<rparr>) k
      + length (filter (\<lambda>b. ?P b \<and> Booking_SlotID b = k) (bookings t)) = held t k"
    by (rule held_update_drop) (auto simp: occupies_def)
  moreover have "length (filter (\<lambda>b. ?P b \<and> Booking_SlotID b = k) (bookings t)) = 1"
  proof (rule length_filter_unique [OF booking_ids [OF ok] bk(1)])
    show "?P x \<and> Booking_SlotID x = k \<longleftrightarrow> x = bk" if "x \<in> set (bookings t)" for x
      using booking_unique [OF ok that bk(1)] bk k by auto
  qed
  ultimately show ?thesis by (simp add: held_def t')
qed

lemma MarkNoShows_succeeds:
  assumes calm: "calm w" and inv: "booking_inv (tables w)"
  shows "\<exists>found w'. MarkNoShows busy now w = (Inr found, w')"
proof -
  let ?t = "tables w"
  let ?found = "filter (\<lambda>b. missed now ?t b \<and> \<not> busy b) (bookings ?t)"
  let ?P = "\<lambda>b. Booking_ID b \<in> set (map Booking_ID ?found) \<and> Booking_Status b = BookingReserved"
  note ok = booking_invD(1) [OF inv]
  have same: "?P b \<and> no_show_row now b \<noteq> b \<longleftrightarrow> missed now ?t b \<and> \<not> busy b" if b: "b \<in> set (bookings ?t)" for b
  proof -
    have "no_show_row now b \<noteq> b" if "Booking_Status b = BookingReserved"
    proof
      assume "no_show_row now b = b"
      then have "Booking_Status (no_show_row now b) = Booking_Status b" by (rule arg_cong)
      with that show False by (simp add: no_show_row_def)
    qed
    moreover have "missed now ?t b \<and> \<not> busy b" if "?P b"
    proof -
      from that obtain c where c: "c \<in> set ?found" "Booking_ID c = Booking_ID b" by force
      then have "c = b" using booking_unique [OF ok _ b] by simp
      with c(1) show ?thesis by simp
    qed
    moreover have "?P b" if "missed now ?t b \<and> \<not> busy b"
      using that b by (force simp: missed_def)
    ultimately show ?thesis by blast
  qed
  have n: "rows_changed ?P (no_show_row now) (bookings ?t) = length ?found"
    unfolding rows_changed_def by (rule arg_cong [OF filter_cong [OF refl same]])
  have keys: "bookings_ok (update_rows ?P (no_show_row now) (bookings ?t))"
    using ok unfolding tables_ok_def bookings_ok_def
    by (simp add: map_key_update_rows no_show_row_def del: set_map set_filter)
  show ?thesis
    unfolding MarkNoShows_def
    using calm calm [unfolded calm_def] n keys
    by (simp add: bind_def transaction_def fail_if_def ret_def calm_gormDB calm_read_rows calm_update_where faulty_def Let_def
        del: set_map set_filter)
qed

end
