(* ===== verification/Reservation_Props.thy ===== *)
theory Reservation_Props
  imports Reservation_Example Reservation_Live
begin

text \<open>
  The properties of reservations. Those about rows hold in every state that the transition system
  reaches from empty tables: any interleaving of calls, any statement failing.
\<close>

section \<open>Refinement\<close>

text \<open>
  C9: Every run of a repository write of the reservation module, successful or stopped by any failing
  statement, moves the abstract board of places and holders by its own steps, and keeps the invariant
  of the tables: the counter implements the set of holders.
\<close>

theorem reservations_refine_board:
  assumes "booking_step t t'" and "booking_inv t"
  shows "board_step\<^sup>*\<^sup>* (board_of t) (board_of t') \<and> booking_inv t' \<and> board_inv (board_of t')"
  using booking_step_moves [OF assms] board_of_inv by (simp add: board_moves_def)

theorem reservations_refine_board_witness:
  "board_step\<^sup>*\<^sup>* (board_of bx_offered) (board_of bx_booked) \<and> board_inv (board_of bx_booked)"
  using reservations_refine_board [OF bx_steps(4) bx_invs(3)] by simp

text \<open>
  Every call of the reservation service, with any arguments, result and failing statement, is a
  sequence of repository steps and keeps the invariant: venues, resources, rules, slots and bookings
  are built with positive slot lengths and capacities and inside one day.
\<close>

theorem reservation_calls_keep_invariant:
  assumes "booking_call s t t'" and "booking_inv t"
  shows "booking_step\<^sup>*\<^sup>* t t' \<and> booking_inv t'"
  using booking_calls [OF assms] booking_service.step_inv [OF assms] by simp

theorem reservation_calls_keep_invariant_witness:
  "\<exists>t'. booking_call bx_env bx_booked t' \<and> booking_inv t'"
proof -
  let ?m = "reservation_RunDueJobs bx_env ''text'' (\<lambda>_. False) 97200000"
  have "booking_call bx_env bx_booked (tables (snd (?m (bx_world bx_booked))))"
    by (rule call_jobs, rule bx_run)
  with reservation_calls_keep_invariant [OF this bx_invs(4)] show ?thesis by blast
qed

section \<open>Places\<close>

text \<open>
  C10: No slot is overbooked: in every reachable state the pending, checked-in and missed bookings of a
  slot never outnumber its capacity, the counter of an open slot is their exact number, a closed slot
  counts zero, and every pending booking sits in an open slot.
\<close>

theorem no_overbooking:
  assumes "reachable booking_start booking_step t" and "s \<in> set (slots t)"
  shows "int (held t (Slot_ID s)) \<le> Slot_Capacity s \<and> 0 \<le> Slot_ReservedCount s \<and>
    Slot_ReservedCount s = (if Slot_Status s = SlotOpen then int (held t (Slot_ID s)) else 0) \<and>
    (\<forall>b \<in> set (bookings t). Booking_SlotID b = Slot_ID s \<and> Booking_Status b = BookingReserved \<longrightarrow> Slot_Status s = SlotOpen)"
proof -
  have inv: "booking_inv t" using assms(1) by (rule bookings_sys.reachable_inv)
  have count: "Slot_ReservedCount s = (if Slot_Status s = SlotOpen then int (held t (Slot_ID s)) else 0)"
    "int (held t (Slot_ID s)) \<le> Slot_Capacity s"
    using booking_invD(3) [OF inv] assms(2) by (auto simp: count_ok_def)
  have "Slot_Status s = SlotOpen" if b: "b \<in> set (bookings t)" "Booking_SlotID b = Slot_ID s" "Booking_Status b = BookingReserved" for b
  proof -
    obtain u where u: "u \<in> set (slots t)" "Slot_ID u = Booking_SlotID b" "Slot_Status u = SlotOpen"
      using booking_invD(4) [OF inv] b(1,3) by (auto simp: placed_ok_def)
    with slot_unique [OF booking_invD(1) [OF inv] u(1) assms(2)] b(2) show ?thesis by simp
  qed
  with count show ?thesis by simp
qed

theorem no_overbooking_witness:
  "held bx_booked 3 = 1 \<and> Slot_ReservedCount (bx_slot 1 SlotOpen 60000001) = int (held bx_booked 3)"
  using no_overbooking [OF bx_reachable(4), of "bx_slot 1 SlotOpen 60000001"]
  by (simp add: bx_states bx_slot_def)



text \<open>
  A booking that the repository accepts was allowed: the slot was open, had a place left and starts
  in the future within the venue's horizon, and after it the user holds at most the venue's daily limit
  of bookings on that day; it adds exactly one holder to the slot.
\<close>

theorem booking_respects_limits:
  assumes "outcome (repo_CreateBooking bk now clock) t (Inr (s, v)) t'" and "Booking_Status bk = BookingReserved"
  shows "Slot_Status s = SlotOpen \<and> Slot_ReservedCount s < Slot_Capacity s \<and> now < Slot_StartAt s \<and>
    Slot_StartAt s < AddDays (dayStart now) (Venue_AdvanceDays v + 1) \<and>
    int (length (user_bookings (Booking_RootUserID bk) (on_day (dayStart (Slot_StartAt s))) t')) \<le> Venue_DailyLimit v \<and>
    held t' (Slot_ID s) = held t (Slot_ID s) + 1"
proof -
  from CreateBooking_success [OF assms(1)] have can: "bookable bk now t s v" and did: "booked bk clock s t t'" by auto
  have "Slot_ID s = Booking_SlotID bk" using can by (auto simp: bookable_def dest: find_member)
  then have "held t' (Slot_ID s) = held t (Slot_ID s) + 1"
    using did assms(2) by (auto simp: booked_def held_def occupies_def)
  with booked_daily [OF can did] can show ?thesis by (simp add: bookable_def)
qed

theorem booking_respects_limits_witness:
  "held bx_booked 3 = held bx_offered 3 + 1 \<and>
     int (length (user_bookings 9 (on_day (dayStart 93600000)) bx_booked)) \<le> Venue_DailyLimit bx_venue"
  using booking_respects_limits [OF bx_outcomes(4)] by (simp add: bx_booking_def bx_slot_def)

text \<open>
  When nothing fails, a booking whose conditions hold (slot, resource, venue, horizon, daily limit, no
  overlap) with identifiers not used before is accepted.
\<close>

theorem booking_goes_through:
  assumes "calm w" and "booking_inv (tables w)" and "bookable bk now (tables w) s v"
    and "bookings_ok (bookings (tables w) @ [bk])" and "\<forall>l \<in> set (day_locks (tables w)). Lock_ID l \<noteq> Booking_ID bk"
  shows "\<exists>w'. repo_CreateBooking bk now clock w = (Inr (s, v), w') \<and> booked bk clock s (tables w) (tables w')"
proof -
  obtain w' where run: "repo_CreateBooking bk now clock w = (Inr (s, v), w')"
    using CreateBooking_succeeds [OF assms(1) refl assms(2-5)] by blast
  from CreateBooking_success [OF outcomeI [of "repo_CreateBooking bk now clock" w "Inr (s, v)" w', OF run]] run
  show ?thesis by blast
qed

theorem booking_goes_through_witness:
  "\<exists>w'. repo_CreateBooking (bx_booking BookingReserved None None 60000000) 60000000 60000001 (bx_world bx_offered)
     = (Inr (bx_slot 0 SlotOpen 0, bx_venue), w')"
proof -
  have "bookable (bx_booking BookingReserved None None 60000000) 60000000 bx_offered (bx_slot 0 SlotOpen 0) bx_venue"
    using CreateBooking_success [OF bx_outcomes(4)] by simp
  from booking_goes_through [OF bx_calm [of bx_offered], of "bx_booking BookingReserved None None 60000000" 60000000
      "bx_slot 0 SlotOpen 0" bx_venue 60000001] this bx_invs(3)
  show ?thesis by (auto simp: bx_states bookings_ok_def)
qed

text \<open>
  A cancellation either changes nothing, or it was made by the booking's owner before the deadline on
  a pending booking, which becomes cancelled and gives back exactly one place of its slot.
\<close>

theorem cancel_gives_back_one_place:
  assumes "outcome (repo_CancelBooking bid root now clock) t (Inr ok) t'" and "booking_inv t"
  shows "(\<not> ok \<longrightarrow> t' = t) \<and>
    (ok \<longrightarrow> (\<exists>b \<in> set (bookings t). \<exists>s \<in> set (slots t). \<exists>v \<in> set (venues t).
       Booking_ID b = bid \<and> Booking_RootUserID b = root \<and> Booking_Status b = BookingReserved \<and>
       Slot_ID s = Booking_SlotID b \<and> before_deadline now s v \<and>
       cancel_booking_row now b \<in> set (bookings t') \<and> held t' (Slot_ID s) + 1 = held t (Slot_ID s)))"
proof (intro conjI impI)
  note res = CancelBooking_success [OF assms(1) booking_invD(1) [OF assms(2)]]
  show "t' = t" if "\<not> ok" using res that by simp
  assume ok
  with res obtain b s v where f: "find (\<lambda>b. Booking_ID b = bid \<and> Booking_RootUserID b = root) (bookings t) = Some b"
      "find (\<lambda>s. Slot_ID s = Booking_SlotID b) (slots t) = Some s"
    and b: "Booking_Status b = BookingReserved" "v \<in> set (venues t)" "before_deadline now s v"
    and t': "bookings t' = update_rows (\<lambda>b. Booking_ID b = bid \<and> Booking_Status b = BookingReserved) (cancel_booking_row now) (bookings t)"
    by (auto simp: cancelled_def)
  have rows: "b \<in> set (bookings t)" "Booking_ID b = bid" "Booking_RootUserID b = root" "s \<in> set (slots t)" "Slot_ID s = Booking_SlotID b"
    using f [THEN find_member] by auto
  have "cancel_booking_row now b \<in> set (bookings t')" using rows(1,2) b(1) by (force simp: t' update_rows_def)
  moreover have "held t' (Slot_ID s) + 1 = held t (Slot_ID s)"
    by (rule cancel_held [OF booking_invD(1) [OF assms(2)] rows(1,2) b(1) _ t']) (simp add: rows(5))
  ultimately show "\<exists>b \<in> set (bookings t). \<exists>s \<in> set (slots t). \<exists>v \<in> set (venues t).
       Booking_ID b = bid \<and> Booking_RootUserID b = root \<and> Booking_Status b = BookingReserved \<and>
       Slot_ID s = Booking_SlotID b \<and> before_deadline now s v \<and>
       cancel_booking_row now b \<in> set (bookings t') \<and> held t' (Slot_ID s) + 1 = held t (Slot_ID s)"
    using rows b by blast
qed

theorem cancel_gives_back_one_place_witness:
  "\<exists>s \<in> set (slots bx_booked). held bx_cancelled (Slot_ID s) + 1 = held bx_booked (Slot_ID s)"
  using cancel_gives_back_one_place [OF bx_outcomes(6) bx_invs(4)] by blast

text \<open>
  C12: A check-in code is redeemed at most once: after a successful check-in, whatever calls happen in
  between, a second check-in with the same code is refused and changes nothing.
\<close>

theorem checkin_code_once:
  assumes "booking_inv t" and "brun (repo_Checkin code now) t (Inr True) t1" and "booking_step\<^sup>*\<^sup>* t1 t2"
    and "brun (repo_Checkin code now') t2 (Inr ok) t3"
  shows "\<not> ok \<and> t3 = t2"
proof -
  have "booking_inv t1" by (rule bookings_sys.step_inv [OF booking_step.checkin [OF assms(2)] assms(1)])
  then have inv: "booking_inv t2" using bookings_sys.steps_inv [OF assms(3)] by blast
  have "spent code t2" using assms(3) Checkin_spends [OF assms(2)]
    by (induction rule: rtranclp_induct) (auto intro: steps_keep_spent)
  from spent_refused [OF booking_invD(1) [OF inv] this assms(4)] show ?thesis .
qed

theorem checkin_code_once_witness:
  "repo_Checkin ''77'' 93600005 (bx_world bx_checked) = (Inr False, bx_world bx_checked)"
proof -
  have run: "repo_Checkin ''77'' 93600005 (bx_world bx_checked) = (Inr False, bx_world bx_checked)" by code_simp
  with checkin_code_once [OF bx_invs(4) bx_outcomes(5) rtranclp.rtrancl_refl bx_outcome [of "repo_Checkin ''77'' 93600005" bx_checked, OF run]] show ?thesis by simp
qed

text \<open>
  C13: After a closure is stored, every slot it covers is closed, no booking in such a slot is pending, all
  other slots and bookings are as before, and the users returned for notification are exactly the owners
  of the bookings it cancelled.
\<close>

theorem closure_clears_slots:
  assumes "outcome (repo_CreateClosure c now) t (Inr roots) t'" and "booking_inv t"
  shows "c \<in> set (closures t') \<and>
    (\<forall>s \<in> set (slots t'). Slot_ID s \<in> closing t c \<longrightarrow> Slot_Status s = SlotClosed) \<and>
    (\<forall>b \<in> set (bookings t'). Booking_SlotID b \<in> closing t c \<longrightarrow> Booking_Status b \<noteq> BookingReserved) \<and>
    filter (\<lambda>s. Slot_ID s \<notin> closing t c) (slots t') = filter (\<lambda>s. Slot_ID s \<notin> closing t c) (slots t) \<and>
    filter (\<lambda>b. Booking_SlotID b \<notin> closing t c) (bookings t') = filter (\<lambda>b. Booking_SlotID b \<notin> closing t c) (bookings t) \<and>
    set roots = Booking_RootUserID ` {b \<in> set (bookings t). pending_in (closing t c) b}"
proof -
  note ok = CreateClosure_success [OF assms(1)]
  have skip: "filter (\<lambda>x. key x \<notin> K) (update_rows P f rows) = filter (\<lambda>x. key x \<notin> K) rows"
    if "\<And>x. P x \<Longrightarrow> key x \<in> K \<and> key (f x) \<in> K" for key P f K and rows :: "'r list"
    using that by (induction rows) (auto simp: update_rows_def)
  have "filter (\<lambda>s. Slot_ID s \<notin> closing t c) (slots t') = filter (\<lambda>s. Slot_ID s \<notin> closing t c) (slots t)"
    using ok by (simp add: after_closure_def skip close_slot_row_def)
  moreover have "filter (\<lambda>b. Booking_SlotID b \<notin> closing t c) (bookings t') = filter (\<lambda>b. Booking_SlotID b \<notin> closing t c) (bookings t)"
    using ok skip [of "pending_in (closing t c)" Booking_SlotID "closing t c" "closure_booking_row now" "bookings t"]
    by (simp add: after_closure_def pending_in_def)
  moreover have "Slot_Status s = SlotClosed" if "s \<in> set (slots t')" "Slot_ID s \<in> closing t c" for s
    using that ok by (auto simp: after_closure_def update_rows_def close_slot_row_def)
  moreover have "Booking_Status b \<noteq> BookingReserved" if "b \<in> set (bookings t')" "Booking_SlotID b \<in> closing t c" for b
    using that ok by (auto simp: after_closure_def update_rows_def pending_in_def)
  ultimately show ?thesis using ok by (auto simp: after_closure_def)
qed

theorem closure_clears_slots_witness:
  "bx_closure \<in> set (closures bx_closed) \<and> {9} = Booking_RootUserID ` {b \<in> set (bookings bx_booked). pending_in (closing bx_booked bx_closure) b}"
  using closure_clears_slots [OF bx_outcomes(8) bx_invs(4)] by simp

section \<open>Slots and jobs\<close>

text \<open>
  C14: \<open>AvailableSlots\<close> always returns: on tables that satisfy the invariant the minute loop ends for
  every request, whatever statement fails.
\<close>

theorem available_slots_returns:
  assumes "booking_inv (tables w)"
  shows "\<exists>r w'. AvailableSlots s rid raw now1 now ids w = Some (r, w')"
  using AvailableSlots_returns [OF assms, of s rid raw now1 now ids] unfolding returns_def by fastforce

theorem available_slots_returns_witness:
  "\<exists>r w'. AvailableSlots bx_env ''2'' ''1970-01-02'' 60000000 60000000 int (bx_world bx_offered) = Some (r, w')"
  using available_slots_returns [of "bx_world bx_offered"] bx_invs(3) by simp

text \<open>
  The minute loop of \<open>AvailableSlots\<close> builds exactly the slots of the closed form: for each rule, one
  slot at each multiple of the slot length from the opening minute that ends by the closing minute, in
  order, each an empty slot of the resource's capacity.
\<close>

theorem slot_loop_equals_closed_form:
  assumes "1 \<le> Venue_SlotMinutes ven"
    and "rule_loop (make_slot ven res date now ids) (Venue_SlotMinutes ven) rs [] w = Some (Inr ss, w')"
  shows "list_all2 (slot_for ven res date)
    (concat (map (\<lambda>u. slot_minutes (Venue_SlotMinutes ven) (Rule_StartMinute u) (Rule_EndMinute u)) rs)) ss \<and>
    tables w' = tables w"
  using rule_loop_result [OF assms(1) make_slot_slot assms(2)]
    rule_loop_tables [OF prog_tables [OF make_slot_keeps] assms] by simp

theorem slot_loop_equals_closed_form_witness:
  "\<exists>ss w'. rule_loop (make_slot bx_venue bx_resource 57600000 0 int) 60
     [\<lparr>Rule_ID = 1, Rule_ResourceID = 2, Rule_Weekday = 5, Rule_StartMinute = 540, Rule_EndMinute = 700,
       Rule_Status = StatusActive, Rule_CreatedAt = 0, Rule_UpdatedAt = 0\<rparr>] [] (bx_world bx_offered) = Some (Inr ss, w') \<and>
     list_all2 (slot_for bx_venue bx_resource 57600000) [540, 600] ss"
proof -
  let ?u = "\<lparr>Rule_ID = 1, Rule_ResourceID = 2, Rule_Weekday = 5, Rule_StartMinute = 540, Rule_EndMinute = 700,
       Rule_Status = StatusActive, Rule_CreatedAt = 0, Rule_UpdatedAt = 0\<rparr>"
  have "\<exists>ss w'. rule_loop (make_slot bx_venue bx_resource 57600000 0 int) 60 [?u] [] (bx_world bx_offered) = Some (Inr ss, w')"
    by (simp add: slot_loop.simps make_slot_def bind_def passed_def map_error_def HasClosure_def calm_gormDB calm_read_rows ret_def Let_def)
  then obtain ss w' where run: "rule_loop (make_slot bx_venue bx_resource 57600000 0 int) 60 [?u] [] (bx_world bx_offered) = Some (Inr ss, w')"
    by blast
  from slot_loop_equals_closed_form [of bx_venue bx_resource 57600000 0 int "[?u]" "bx_world bx_offered" ss w'] run
  have "list_all2 (slot_for bx_venue bx_resource 57600000) (slot_minutes 60 540 700) ss" by (simp add: bx_venue_def)
  moreover have "slot_minutes 60 540 700 = [540, 600]" by (simp add: slot_minutes_def upt_rec)
  ultimately show ?thesis using run by auto
qed

text \<open>
  Storing generated slots is idempotent: storing the same slots again, as every later view of the
  same day does, changes nothing.
\<close>

theorem ensure_slots_idempotent:
  assumes "outcome (EnsureSlots ss) t (Inr x) t1" and "outcome (EnsureSlots ss) t1 (Inr y) t2"
  shows "t2 = t1"
  using EnsureSlots_result [OF assms(1)] EnsureSlots_result [OF assms(2)] insert_slots_idem by simp

theorem ensure_slots_idempotent_witness:
  "EnsureSlots [bx_slot 0 SlotOpen 0] (bx_world bx_offered) = (Inr (), bx_world bx_offered)"
proof -
  have run: "EnsureSlots [bx_slot 0 SlotOpen 0] (bx_world bx_offered) = (Inr (), bx_world bx_offered)" by code_simp
  from ensure_slots_idempotent [OF bx_outcomes(3) bx_outcome [of "EnsureSlots [bx_slot 0 SlotOpen 0]" bx_offered, OF run]] run show ?thesis by simp
qed

text \<open>
  The no-show job finds every missed booking: when nothing fails and no row is locked by others,
  afterwards no pending booking belongs to a slot that has ended, and the bookings it returns, whose
  owners are notified, are exactly the ones it marked.
\<close>

theorem no_show_job_complete:
  assumes "calm w" and "booking_inv (tables w)"
  shows "\<exists>found w'. MarkNoShows (\<lambda>_. False) now w = (Inr found, w') \<and>
    found = filter (missed now (tables w)) (bookings (tables w)) \<and>
    filter (missed now (tables w')) (bookings (tables w')) = [] \<and>
    (\<forall>b \<in> set found. no_show_row now b \<in> set (bookings (tables w')))"
proof -
  obtain found w' where run: "MarkNoShows (\<lambda>_. False) now w = (Inr found, w')"
    using MarkNoShows_succeeds [OF assms, of "\<lambda>_. False" now] by blast
  note res = MarkNoShows_success [OF outcomeI [of "MarkNoShows (\<lambda>_. False) now" w "Inr found" w', OF run]]
  have "\<not> missed now (tables w') b" if "b \<in> set (bookings (tables w'))" for b
    using that res by (auto simp: update_rows_def missed_def joined_def slot_of_def no_show_row_def split: if_splits)
  moreover have "no_show_row now b \<in> set (bookings (tables w'))" if "b \<in> set found" for b
    using that res by (force simp: update_rows_def missed_def)
  ultimately show ?thesis using run res by (auto simp: filter_empty_conv)
qed

theorem no_show_job_complete_witness:
  "\<exists>found w'. MarkNoShows (\<lambda>_. False) 97200000 (bx_world bx_booked) = (Inr found, w') \<and>
     filter (missed 97200000 (tables w')) (bookings (tables w')) = []"
  using no_show_job_complete [OF bx_calm [of bx_booked], of 97200000] bx_invs(4) by auto

text \<open>
  C15: An identifier that is printed for a client is parsed back to the same value by the endpoint that
  receives it, and every parsed identifier is positive and fits 64 bits.
\<close>

theorem booking_id_round_trip:
  "(0 < v \<and> v < 2 ^ 63 \<longrightarrow> parseID (booking_id v) = Inr v) \<and>
   (parseID raw = Inr k \<longrightarrow> 0 < k \<and> k < 2 ^ 63)"
  using parseID_print [of v] ParseInt_range [of "TrimSpace raw"]
  by (auto simp: parseID_def in_int64_def split: option.splits if_splits)

theorem booking_id_round_trip_witness: "parseID (booking_id 7345) = Inr 7345"
  using booking_id_round_trip [of 7345 "[]" 0] by simp

end
