(* ===== verification/Moderation_Model.thy ===== *)
theory Moderation_Model
  imports Bizerr Pagination
begin

text \<open>
  Moderation (\<open>internal/moderation\<close>): the tables, the capability cache, the requests and responses.

  Users report content; an administrator claims a report and decides it, which may punish the owner by
  taking away a capability for a while; the owner may appeal once. The rows are records, the status
  columns datatypes. The cache is the part of Redis this module owns: a map from keys to what
  \<open>json.Marshal\<close> made of a \<open>map[string]bool\<close>, with the instant at which Redis drops it.
  \<open>json.Unmarshal\<close> gives a marshalled map back, so the cache holds the map itself; bytes that do not
  unmarshal are \<open>None\<close>.
\<close>

section \<open>Tables\<close>

datatype report_status = ReportPending | ReportReviewing | ReportRejected | ReportActioned | ReportWithdrawn

datatype appeal_status = AppealPending | AppealApproved | AppealRejected

datatype punishment_status = PunishmentActive | PunishmentRevoked

definition report_status_string :: "report_status \<Rightarrow> string" where
  "report_status_string st =
     (case st of ReportPending \<Rightarrow> ''pending'' | ReportReviewing \<Rightarrow> ''reviewing''
      | ReportRejected \<Rightarrow> ''rejected'' | ReportActioned \<Rightarrow> ''actioned'' | ReportWithdrawn \<Rightarrow> ''withdrawn'')"

definition CapabilityContent :: string where "CapabilityContent = ''content''"
definition CapabilityTrade :: string where "CapabilityTrade = ''trade''"
definition CapabilityReservation :: string where "CapabilityReservation = ''reservation''"
definition CapabilityAccount :: string where "CapabilityAccount = ''account''"

definition targetTypes :: "string list" where
  "targetTypes = [''user'', ''topic'', ''comment'', ''chatMessage'', ''courseReview'', ''material'',
     ''marketplaceItem'']"

definition capabilities :: "string list" where
  "capabilities = [CapabilityContent, CapabilityTrade, CapabilityReservation, CapabilityAccount]"

record report =
  Report_ID :: int64
  Report_ReporterRootUserID :: int64
  Report_ReporterUserID :: int64
  Report_TargetType :: string
  Report_TargetID :: string
  Report_TargetRootUserID :: int64
  Report_Reason :: string
  Report_Description :: string
  Report_Status :: report_status
  Report_AssigneeAdminID :: "int64 option"
  Report_CreatedAt :: instant
  Report_UpdatedAt :: instant
  Report_WithdrawnAt :: "instant option"

record report_snapshot =
  Snapshot_ID :: int64
  Snapshot_ReportID :: int64
  Snapshot_Payload :: string
  Snapshot_CreatedAt :: instant

record punishment =
  Punishment_ID :: int64
  Punishment_RootUserID :: int64
  Punishment_ReportID :: "int64 option"
  Punishment_Capability :: string
  Punishment_Reason :: string
  Punishment_Status :: punishment_status
  Punishment_StartsAt :: instant
  Punishment_EndsAt :: "instant option"
  Punishment_CreatedBy :: int64
  Punishment_CreatedAt :: instant
  Punishment_RevokedBy :: "int64 option"
  Punishment_RevokedAt :: "instant option"
  Punishment_RevokeReason :: string

record appeal =
  Appeal_ID :: int64
  Appeal_PunishmentID :: int64
  Appeal_RootUserID :: int64
  Appeal_Reason :: string
  Appeal_Status :: appeal_status
  Appeal_Resolution :: string
  Appeal_ReviewedBy :: "int64 option"
  Appeal_CreatedAt :: instant
  Appeal_UpdatedAt :: instant

text \<open>\<open>Detail\<close> is the map with one entry that the service writes.\<close>

record audit_log =
  Audit_ID :: int64
  Audit_ReportID :: "int64 option"
  Audit_PunishmentID :: "int64 option"
  Audit_AppealID :: "int64 option"
  Audit_AdminID :: int64
  Audit_Action :: string
  Audit_Detail :: "(string \<times> string) list"
  Audit_CreatedAt :: instant

type_synonym capability_map = "string \<rightharpoonup> bool"

record cache_entry =
  Entry_Value :: "capability_map option"
  Entry_Expires :: instant

record moderation_db =
  reports :: "report list"
  snapshots :: "report_snapshot list"
  punishments :: "punishment list"
  appeals :: "appeal list"
  audit_logs :: "audit_log list"
  cache :: "string \<rightharpoonup> cache_entry"

text \<open>Primary keys and unique indexes, from the migration.\<close>

definition reports_ok :: "report list \<Rightarrow> bool" where
  "reports_ok rows \<longleftrightarrow> distinct (map Report_ID rows)"

definition snapshots_ok :: "report_snapshot list \<Rightarrow> bool" where
  "snapshots_ok rows \<longleftrightarrow> distinct (map Snapshot_ID rows) \<and> distinct (map Snapshot_ReportID rows)"

definition punishments_ok :: "punishment list \<Rightarrow> bool" where
  "punishments_ok rows \<longleftrightarrow> distinct (map Punishment_ID rows)"

definition appeals_ok :: "appeal list \<Rightarrow> bool" where
  "appeals_ok rows \<longleftrightarrow> distinct (map Appeal_ID rows) \<and> distinct (map Appeal_PunishmentID rows)"

definition audit_logs_ok :: "audit_log list \<Rightarrow> bool" where
  "audit_logs_ok rows \<longleftrightarrow> distinct (map Audit_ID rows)"

section \<open>Errors and events\<close>

text \<open>
  The repository has no sentinel errors of its own; the one cause of an internal error that does not
  come from the database is that the payload of a snapshot cannot be marshalled.
\<close>

datatype moderation_cause = MarshalFailure

type_synonym mrepo_error = "moderation_cause goerror"

datatype moderation_msg =
    MReportNotFound | MTargetInvalid | MAppealExists | MPunishmentNotFound | MCapabilityDenied
  | MReportParam | MSnapshot | MCreateReport | MQueryReports | MWithdraw | MQueryPunishments
  | MAppealReason | MCreateAppeal | MQueryAppeals | MClaim | MHideFailed | MBadCapability
  | MBadDuration | MDecideReport | MRevoke | MDecideAppeal | MAppealNotFound | MRootParam
  | MQueryActive | MBadReportID | MAccountState

type_synonym moderation_error = "(moderation_msg, mrepo_error) svc_error"

definition ErrReportNotFound :: moderation_error where "ErrReportNotFound = NotFound MReportNotFound"
definition ErrReportTargetInvalid :: moderation_error where
  "ErrReportTargetInvalid = NotFound MTargetInvalid"
definition ErrAppealAlreadyExists :: moderation_error where "ErrAppealAlreadyExists = Biz MAppealExists"
definition ErrPunishmentNotFound :: moderation_error where
  "ErrPunishmentNotFound = NotFound MPunishmentNotFound"
definition ErrCapabilityDenied :: moderation_error where "ErrCapabilityDenied = Forbidden MCapabilityDenied"

text \<open>What leaves the module: calls of the notifier, with their fixed titles, and of \<open>HideTarget\<close>.\<close>

datatype moderation_title = TReportResult | TPunishmentRevoked | TAppealResult

datatype moderation_event =
    ModerationNotice int64 string moderation_title string string string
  | TargetHidden string string

section \<open>Identifiers and pages\<close>

definition mod_id :: "int64 \<Rightarrow> string" where
  "mod_id v = FormatInt v"

definition mod_parseID :: "string \<Rightarrow> moderation_error + int64" where
  "mod_parseID raw =
     (case ParseInt (TrimSpace raw) of
        None \<Rightarrow> Inl (Param MBadReportID)
      | Some v \<Rightarrow> if v \<le> 0 then Inl (Param MBadReportID) else Inr v)"

lemma mod_parseID_print: "0 < v \<Longrightarrow> v < 2 ^ 63 \<Longrightarrow> mod_parseID (mod_id v) = Inr v"
  by (simp add: mod_parseID_def mod_id_def ParseInt_FormatInt in_int64_def)

definition mod_normalize :: "int \<Rightarrow> int \<Rightarrow> int \<times> int" where
  "mod_normalize p z =
     (let p = (if p \<le> 0 then 1 else p);
          z = (if z \<le> 0 then 15 else z);
          z = (if z > 100 then 100 else z)
      in (p, z))"

interpretation moderation_page: page_normaliser mod_normalize 100
  by unfold_locales (auto simp: mod_normalize_def Let_def split: if_splits)

section \<open>Requests and responses\<close>

record report_req =
  ReportReq_TargetType :: string
  ReportReq_TargetID :: string
  ReportReq_Reason :: string
  ReportReq_Description :: string

record admin_decision_req =
  DecisionReq_Action :: string
  DecisionReq_Reason :: string
  DecisionReq_Capability :: string
  DecisionReq_DurationMinutes :: "int64 option"

record appeal_decision_req =
  AppealReq_Approved :: bool
  AppealReq_Resolution :: string

record report_response =
  ReportResponse_ID :: string
  ReportResponse_TargetType :: string
  ReportResponse_TargetID :: string
  ReportResponse_Reason :: string
  ReportResponse_Description :: string
  ReportResponse_Status :: report_status
  ReportResponse_CreatedAt :: string
  ReportResponse_UpdatedAt :: string

record punishment_response =
  PunishmentResponse_ID :: string
  PunishmentResponse_Capability :: string
  PunishmentResponse_Reason :: string
  PunishmentResponse_Status :: punishment_status
  PunishmentResponse_StartsAt :: string
  PunishmentResponse_EndsAt :: "string option"
  PunishmentResponse_RevokeReason :: string

record appeal_response =
  AppealResponse_ID :: string
  AppealResponse_PunishmentID :: string
  AppealResponse_Reason :: string
  AppealResponse_Status :: appeal_status
  AppealResponse_Resolution :: string
  AppealResponse_CreatedAt :: string
  AppealResponse_UpdatedAt :: string

definition zero_time :: instant where
  "zero_time = - 62135596800000"

text \<open>\<open>show\<close> is the host's rendering of an instant in Asia/Shanghai (RFC 3339).\<close>

definition formatDateTime :: "(instant \<Rightarrow> string) \<Rightarrow> instant \<Rightarrow> string" where
  "formatDateTime show v = (if v = zero_time then [] else show v)"

definition reportResponse :: "(instant \<Rightarrow> string) \<Rightarrow> report \<Rightarrow> report_response" where
  "reportResponse show r =
     \<lparr>ReportResponse_ID = mod_id (Report_ID r), ReportResponse_TargetType = Report_TargetType r,
      ReportResponse_TargetID = Report_TargetID r, ReportResponse_Reason = Report_Reason r,
      ReportResponse_Description = Report_Description r, ReportResponse_Status = Report_Status r,
      ReportResponse_CreatedAt = formatDateTime show (Report_CreatedAt r),
      ReportResponse_UpdatedAt = formatDateTime show (Report_UpdatedAt r)\<rparr>"

definition reportPage ::
  "(instant \<Rightarrow> string) \<Rightarrow> report list \<Rightarrow> int64 \<Rightarrow> int \<Rightarrow> int \<Rightarrow> report_response page_result" where
  "reportPage show rows tot page sz = NewPageResult (map (reportResponse show) rows) tot page sz"

definition punishmentResponse :: "(instant \<Rightarrow> string) \<Rightarrow> punishment \<Rightarrow> punishment_response" where
  "punishmentResponse show p =
     \<lparr>PunishmentResponse_ID = mod_id (Punishment_ID p),
      PunishmentResponse_Capability = Punishment_Capability p,
      PunishmentResponse_Reason = Punishment_Reason p, PunishmentResponse_Status = Punishment_Status p,
      PunishmentResponse_StartsAt = formatDateTime show (Punishment_StartsAt p),
      PunishmentResponse_EndsAt = map_option (formatDateTime show) (Punishment_EndsAt p),
      PunishmentResponse_RevokeReason = Punishment_RevokeReason p\<rparr>"

definition punishmentPage ::
  "(instant \<Rightarrow> string) \<Rightarrow> punishment list \<Rightarrow> int64 \<Rightarrow> int \<Rightarrow> int \<Rightarrow> punishment_response page_result" where
  "punishmentPage show rows tot page sz = NewPageResult (map (punishmentResponse show) rows) tot page sz"

definition appealResponse :: "(instant \<Rightarrow> string) \<Rightarrow> appeal \<Rightarrow> appeal_response" where
  "appealResponse show a =
     \<lparr>AppealResponse_ID = mod_id (Appeal_ID a), AppealResponse_PunishmentID = mod_id (Appeal_PunishmentID a),
      AppealResponse_Reason = Appeal_Reason a, AppealResponse_Status = Appeal_Status a,
      AppealResponse_Resolution = Appeal_Resolution a,
      AppealResponse_CreatedAt = formatDateTime show (Appeal_CreatedAt a),
      AppealResponse_UpdatedAt = formatDateTime show (Appeal_UpdatedAt a)\<rparr>"

definition appealPage ::
  "(instant \<Rightarrow> string) \<Rightarrow> appeal list \<Rightarrow> int64 \<Rightarrow> int \<Rightarrow> int \<Rightarrow> appeal_response page_result" where
  "appealPage show rows tot page sz = NewPageResult (map (appealResponse show) rows) tot page sz"

section \<open>Searching an error text\<close>

text \<open>
  \<open>strings.Contains(strings.ToLower(s), word)\<close> for an ASCII word. The lower case of a rune outside
  ASCII is outside ASCII, save for U+0130 and U+212A, so the other bytes are left alone.
\<close>

fun lower_ascii :: "string \<Rightarrow> string" where
  "lower_ascii [] = []"
| "lower_ascii (c # s) =
     (if c = CHR 0xC4 \<and> take 1 s = [CHR 0xB0] then CHR ''i'' # lower_ascii (drop 1 s)
      else if c = CHR 0xE2 \<and> take 2 s = [CHR 0x84, CHR 0xAA] then CHR ''k'' # lower_ascii (drop 2 s)
      else lower_char c # lower_ascii s)"

definition contains_lower :: "string \<Rightarrow> string \<Rightarrow> bool" where
  "contains_lower s word \<longleftrightarrow> sublist word (lower_ascii s)"

end
