(* ===== verification/Moderation_Repo.thy ===== *)
theory Moderation_Repo
  imports Moderation_Model
begin

text \<open>
  The moderation repository (\<open>internal/moderation/repository.go\<close>), one program per method, and the three
  Redis commands the service issues.

  \<open>ORDER BY created_at DESC\<close> keeps the insertion order of equal instants. \<open>ListReports\<close> takes an SQL
  condition with its arguments; the two conditions the service passes are the datatype \<open>report_query\<close>,
  and \<open>same_text\<close> is the comparison of the column's collation. The body of \<open>DecideAppeal\<close> after its read
  is a definition of its own, because the row is read without a lock.
\<close>

type_synonym ('o, 'a) mrepo = "(moderation_db, 'o, mrepo_error, 'a) prog"

section \<open>Reports\<close>

definition repo_CreateReport :: "report \<Rightarrow> report_snapshot \<Rightarrow> ('o, unit) mrepo" where
  "repo_CreateReport rep snap =
     bind gormDB (\<lambda>_.
     transaction (
       bind (create_row reports reports_update reports_ok rep) (\<lambda>_.
       create_child (\<lambda>t. Snapshot_ReportID snap \<in> set (map Report_ID (reports t)))
         snapshots snapshots_update snapshots_ok snap)))"

datatype report_query = AllReports | ByReporter int64 | ByStatus string

fun query_matches :: "(string \<Rightarrow> string \<Rightarrow> bool) \<Rightarrow> report_query \<Rightarrow> report \<Rightarrow> bool" where
  "query_matches same_text AllReports r = True"
| "query_matches same_text (ByReporter root) r = (Report_ReporterRootUserID r = root)"
| "query_matches same_text (ByStatus s) r = same_text (report_status_string (Report_Status r)) s"

definition newest_first :: "('r \<Rightarrow> instant) \<Rightarrow> 'r list \<Rightarrow> 'r list" where
  "newest_first created rows = sort_key (\<lambda>r. - created r) rows"

definition ListReports ::
  "(string \<Rightarrow> string \<Rightarrow> bool) \<Rightarrow> report_query \<Rightarrow> int \<Rightarrow> int \<Rightarrow> ('o, report list \<times> int64) mrepo" where
  "ListReports same_text query page sz =
     bind gormDB (\<lambda>_.
     bind (read_rows (\<lambda>t. int (length (filter (query_matches same_text query) (reports t))))) (\<lambda>tot.
     bind (read_rows (\<lambda>t. window page sz
             (newest_first Report_CreatedAt (filter (query_matches same_text query) (reports t))))) (\<lambda>rows.
     ret (rows, tot))))"

definition FindReport :: "int64 \<Rightarrow> ('o, report option) mrepo" where
  "FindReport rid = bind gormDB (\<lambda>_. find_row reports (\<lambda>r. Report_ID r = rid))"

definition withdraw_report_row :: "instant \<Rightarrow> report \<Rightarrow> report" where
  "withdraw_report_row now r =
     r\<lparr>Report_Status := ReportWithdrawn, Report_WithdrawnAt := Some now, Report_UpdatedAt := now\<rparr>"

definition repo_WithdrawReport :: "int64 \<Rightarrow> int64 \<Rightarrow> instant \<Rightarrow> ('o, bool) mrepo" where
  "repo_WithdrawReport rid rootUserID now =
     bind gormDB (\<lambda>_.
     bind (update_where reports reports_update reports_ok
            (\<lambda>r. Report_ID r = rid \<and> Report_ReporterRootUserID r = rootUserID \<and> Report_Status r = ReportPending)
            (withdraw_report_row now)) (\<lambda>n.
     ret (n > 0)))"

definition claim_report_row :: "int64 \<Rightarrow> instant \<Rightarrow> report \<Rightarrow> report" where
  "claim_report_row adminID now r =
     r\<lparr>Report_Status := ReportReviewing, Report_AssigneeAdminID := Some adminID, Report_UpdatedAt := now\<rparr>"

definition repo_ClaimReport :: "int64 \<Rightarrow> int64 \<Rightarrow> instant \<Rightarrow> ('o, bool) mrepo" where
  "repo_ClaimReport rid adminID now =
     bind gormDB (\<lambda>_.
     bind (update_where reports reports_update reports_ok
            (\<lambda>r. Report_ID r = rid \<and> Report_Status r = ReportPending) (claim_report_row adminID now)) (\<lambda>n.
     ret (n > 0)))"

definition review_report_row :: "report_status \<Rightarrow> instant \<Rightarrow> report \<Rightarrow> report" where
  "review_report_row status now r = r\<lparr>Report_Status := status, Report_UpdatedAt := now\<rparr>"

definition under_review :: "int64 \<Rightarrow> int64 \<Rightarrow> report \<Rightarrow> bool" where
  "under_review rid adminID r \<longleftrightarrow>
     Report_ID r = rid \<and> Report_Status r = ReportReviewing \<and> Report_AssigneeAdminID r = Some adminID"

definition CompleteReview ::
  "int64 \<Rightarrow> int64 \<Rightarrow> report_status \<Rightarrow> punishment option \<Rightarrow> audit_log \<Rightarrow> instant \<Rightarrow> ('o, bool) mrepo" where
  "CompleteReview reportID adminID status pun audit now =
     bind gormDB (\<lambda>_.
     transaction (
       bind (update_where reports reports_update reports_ok (under_review reportID adminID)
              (review_report_row status now)) (\<lambda>n.
       if n = 0 then ret False
       else
         bind (case pun of
                 None \<Rightarrow> ret ()
               | Some p \<Rightarrow> create_row punishments punishments_update punishments_ok p) (\<lambda>_.
         bind (create_row audit_logs audit_logs_update audit_logs_ok audit) (\<lambda>_.
         ret True)))))"

section \<open>Punishments\<close>

definition repo_ListPunishments :: "int64 \<Rightarrow> int \<Rightarrow> int \<Rightarrow> ('o, punishment list \<times> int64) mrepo" where
  "repo_ListPunishments rootUserID page sz =
     bind gormDB (\<lambda>_.
     bind (read_rows (\<lambda>t. int (length (filter (\<lambda>p. Punishment_RootUserID p = rootUserID) (punishments t))))) (\<lambda>tot.
     bind (read_rows (\<lambda>t. window page sz (newest_first Punishment_CreatedAt
             (filter (\<lambda>p. Punishment_RootUserID p = rootUserID) (punishments t))))) (\<lambda>rows.
     ret (rows, tot))))"

definition in_force :: "int64 \<Rightarrow> instant \<Rightarrow> punishment \<Rightarrow> bool" where
  "in_force rootUserID now p \<longleftrightarrow>
     Punishment_RootUserID p = rootUserID \<and> Punishment_Status p = PunishmentActive \<and>
     Punishment_StartsAt p \<le> now \<and>
     (case Punishment_EndsAt p of None \<Rightarrow> True | Some til \<Rightarrow> til > now)"

definition ActivePunishments :: "int64 \<Rightarrow> instant \<Rightarrow> ('o, punishment list) mrepo" where
  "ActivePunishments rootUserID now =
     bind gormDB (\<lambda>_. read_rows (\<lambda>t. filter (in_force rootUserID now) (punishments t)))"

definition FindPunishment :: "int64 \<Rightarrow> ('o, punishment option) mrepo" where
  "FindPunishment pid = bind gormDB (\<lambda>_. find_row punishments (\<lambda>p. Punishment_ID p = pid))"

definition revoke_row :: "int64 \<Rightarrow> instant \<Rightarrow> string \<Rightarrow> punishment \<Rightarrow> punishment" where
  "revoke_row adminID now reason p =
     p\<lparr>Punishment_Status := PunishmentRevoked, Punishment_RevokedBy := Some adminID,
       Punishment_RevokedAt := Some now, Punishment_RevokeReason := reason\<rparr>"

definition repo_RevokePunishment ::
  "int64 \<Rightarrow> int64 \<Rightarrow> string \<Rightarrow> instant \<Rightarrow> audit_log \<Rightarrow> ('o, int64 \<times> bool) mrepo" where
  "repo_RevokePunishment pid adminID reason now audit =
     bind gormDB (\<lambda>_.
     transaction (
       bind (find_row punishments (\<lambda>p. Punishment_ID p = pid \<and> Punishment_Status p = PunishmentActive)) (\<lambda>found.
       case found of
         None \<Rightarrow> ret (0, False)
       | Some item \<Rightarrow>
           bind (update_where punishments punishments_update punishments_ok
                  (\<lambda>p. Punishment_ID p = pid \<and> Punishment_Status p = PunishmentActive)
                  (revoke_row adminID now reason)) (\<lambda>_.
           bind (create_row audit_logs audit_logs_update audit_logs_ok
                  (audit\<lparr>Audit_PunishmentID := Some (Punishment_ID item)\<rparr>)) (\<lambda>_.
           ret (Punishment_RootUserID item, True))))))"

section \<open>Appeals\<close>

definition repo_CreateAppeal :: "appeal \<Rightarrow> ('o, unit) mrepo" where
  "repo_CreateAppeal ap =
     bind gormDB (\<lambda>_.
       create_child (\<lambda>t. Appeal_PunishmentID ap \<in> set (map Punishment_ID (punishments t)))
         appeals appeals_update appeals_ok ap)"

definition repo_ListAppeals :: "int64 option \<Rightarrow> int \<Rightarrow> int \<Rightarrow> ('o, appeal list \<times> int64) mrepo" where
  "repo_ListAppeals rootUserID page sz =
     (let mine = (\<lambda>a. case rootUserID of None \<Rightarrow> True | Some root \<Rightarrow> Appeal_RootUserID a = root)
      in bind gormDB (\<lambda>_.
         bind (read_rows (\<lambda>t. int (length (filter mine (appeals t))))) (\<lambda>tot.
         bind (read_rows (\<lambda>t. window page sz (newest_first Appeal_CreatedAt (filter mine (appeals t))))) (\<lambda>rows.
         ret (rows, tot)))))"

definition decide_appeal_row :: "appeal_status \<Rightarrow> string \<Rightarrow> int64 \<Rightarrow> instant \<Rightarrow> appeal \<Rightarrow> appeal" where
  "decide_appeal_row status resolution adminID now a =
     a\<lparr>Appeal_Status := status, Appeal_Resolution := resolution, Appeal_ReviewedBy := Some adminID,
       Appeal_UpdatedAt := now\<rparr>"

definition decide_read_appeal ::
  "appeal \<Rightarrow> int64 \<Rightarrow> int64 \<Rightarrow> bool \<Rightarrow> string \<Rightarrow> instant \<Rightarrow> audit_log \<Rightarrow> ('o, int64 \<times> bool) mrepo" where
  "decide_read_appeal ap appealID adminID approved resolution now audit =
     (let status = (if approved then AppealApproved else AppealRejected)
      in bind (update_where appeals appeals_update appeals_ok
                (\<lambda>a. Appeal_ID a = appealID \<and> Appeal_Status a = AppealPending)
                (decide_appeal_row status resolution adminID now)) (\<lambda>_.
         bind (if approved
               then update_where punishments punishments_update punishments_ok
                      (\<lambda>p. Punishment_ID p = Appeal_PunishmentID ap \<and> Punishment_Status p = PunishmentActive)
                      (revoke_row adminID now resolution)
               else ret 0) (\<lambda>_.
         bind (create_row audit_logs audit_logs_update audit_logs_ok
                (audit\<lparr>Audit_AppealID := Some (Appeal_ID ap),
                       Audit_PunishmentID := Some (Appeal_PunishmentID ap)\<rparr>)) (\<lambda>_.
         ret (Appeal_RootUserID ap, True)))))"

definition repo_DecideAppeal ::
  "int64 \<Rightarrow> int64 \<Rightarrow> bool \<Rightarrow> string \<Rightarrow> instant \<Rightarrow> audit_log \<Rightarrow> ('o, int64 \<times> bool) mrepo" where
  "repo_DecideAppeal appealID adminID approved resolution now audit =
     bind gormDB (\<lambda>_.
     transaction (
       bind (find_row appeals (\<lambda>a. Appeal_ID a = appealID \<and> Appeal_Status a = AppealPending)) (\<lambda>found.
       case found of
         None \<Rightarrow> ret (0, False)
       | Some ap \<Rightarrow> decide_read_appeal ap appealID adminID approved resolution now audit)))"

section \<open>Redis\<close>

text \<open>
  \<open>GET\<close>, \<open>SET\<close> with an expiry and \<open>DEL\<close>. \<open>clock\<close> is the instant at which Redis runs the command; an
  entry is there strictly before its expiry. A missing key is \<open>redis.Nil\<close>, an error like any other
  to the callers.
\<close>

definition alive :: "instant \<Rightarrow> string \<Rightarrow> moderation_db \<Rightarrow> cache_entry option" where
  "alive clock key t =
     (case cache t key of None \<Rightarrow> None | Some e \<Rightarrow> if clock < Entry_Expires e then Some e else None)"

definition redis_Get :: "instant \<Rightarrow> string \<Rightarrow> ('o, capability_map option) mrepo" where
  "redis_Get clock key =
     stmt (\<lambda>t. case alive clock key t of None \<Rightarrow> Inl RecordNotFound | Some e \<Rightarrow> Inr (Entry_Value e, t))"

definition redis_Set :: "instant \<Rightarrow> string \<Rightarrow> capability_map \<Rightarrow> int \<Rightarrow> ('o, unit) mrepo" where
  "redis_Set clock key v ttl =
     stmt (\<lambda>t. Inr ((), t\<lparr>cache := (cache t)(key \<mapsto> \<lparr>Entry_Value = Some v, Entry_Expires = clock + ttl\<rparr>)\<rparr>))"

definition redis_Del :: "string \<Rightarrow> ('o, unit) mrepo" where
  "redis_Del key = stmt (\<lambda>t. Inr ((), t\<lparr>cache := (cache t)(key := None)\<rparr>))"

end
