(* ===== verification/Moderation_Inv.thy ===== *)
theory Moderation_Inv
  imports Moderation_Repo
begin

text \<open>
  What the moderation tables satisfy between two transactions, and that every repository write keeps it.

  Each report has its snapshot; a report has an assignee exactly from its claim on; a punishment belongs to
  one actioned report, hits the owner of its target and was created by its assignee; an appeal belongs to a
  punishment of the same user, and an approved one to a revoked punishment; a report has one decision in
  the audit log when it is decided and none before, and so has an appeal; a revocation leaves an audit row.
\<close>

section \<open>The invariant\<close>

definition keys_ok :: "moderation_db \<Rightarrow> bool" where
  "keys_ok t \<longleftrightarrow> reports_ok (reports t) \<and> snapshots_ok (snapshots t) \<and> punishments_ok (punishments t) \<and>
     appeals_ok (appeals t) \<and> audit_logs_ok (audit_logs t)"

definition decided :: "report \<Rightarrow> bool" where
  "decided r \<longleftrightarrow> Report_Status r = ReportRejected \<or> Report_Status r = ReportActioned"

definition report_shape :: "report \<Rightarrow> bool" where
  "report_shape r \<longleftrightarrow>
     (Report_AssigneeAdminID r = None \<longleftrightarrow> Report_Status r = ReportPending \<or> Report_Status r = ReportWithdrawn) \<and>
     (Report_WithdrawnAt r = None \<longleftrightarrow> Report_Status r \<noteq> ReportWithdrawn)"

definition reports_inv :: "moderation_db \<Rightarrow> bool" where
  "reports_inv t \<longleftrightarrow> map Snapshot_ReportID (snapshots t) = map Report_ID (reports t) \<and>
     (\<forall>r \<in> set (reports t). report_shape r)"

definition sanction_of :: "report \<Rightarrow> punishment \<Rightarrow> bool" where
  "sanction_of r p \<longleftrightarrow> Punishment_ReportID p = Some (Report_ID r) \<and> Report_Status r = ReportActioned \<and>
     Punishment_RootUserID p = Report_TargetRootUserID r \<and> Report_AssigneeAdminID r = Some (Punishment_CreatedBy p)"

definition punishments_inv :: "moderation_db \<Rightarrow> bool" where
  "punishments_inv t \<longleftrightarrow> distinct (map Punishment_ReportID (punishments t)) \<and>
     (\<forall>p \<in> set (punishments t). Punishment_Capability p \<in> set capabilities \<and>
        (\<exists>r \<in> set (reports t). sanction_of r p))"

definition plea_of :: "punishment \<Rightarrow> appeal \<Rightarrow> bool" where
  "plea_of p a \<longleftrightarrow> Appeal_PunishmentID a = Punishment_ID p \<and> Appeal_RootUserID a = Punishment_RootUserID p \<and>
     (Appeal_Status a = AppealApproved \<longrightarrow> Punishment_Status p = PunishmentRevoked)"

definition appeals_inv :: "moderation_db \<Rightarrow> bool" where
  "appeals_inv t \<longleftrightarrow> (\<forall>a \<in> set (appeals t). \<exists>p \<in> set (punishments t). plea_of p a)"

definition audits_of :: "(audit_log \<Rightarrow> int64 option) \<Rightarrow> int64 \<Rightarrow> moderation_db \<Rightarrow> audit_log list" where
  "audits_of ref k t = filter (\<lambda>l. ref l = Some k) (audit_logs t)"

definition audited :: "(audit_log \<Rightarrow> int64 option) \<Rightarrow> ('r \<Rightarrow> int64) \<Rightarrow> ('r \<Rightarrow> bool) \<Rightarrow> 'r list \<Rightarrow> audit_log list \<Rightarrow> bool" where
  "audited ref key closed rows logs \<longleftrightarrow>
     (\<forall>r \<in> set rows. length (filter (\<lambda>l. ref l = Some (key r)) logs) = (if closed r then 1 else 0)) \<and>
     (\<forall>l \<in> set logs. \<forall>k. ref l = Some k \<longrightarrow> k \<in> key ` set rows)"

definition revocations_audited :: "moderation_db \<Rightarrow> bool" where
  "revocations_audited t \<longleftrightarrow>
     (\<forall>p \<in> set (punishments t). Punishment_Status p = PunishmentRevoked \<longrightarrow>
        (\<exists>l \<in> set (audit_logs t). Audit_PunishmentID l = Some (Punishment_ID p) \<and> Audit_ReportID l = None))"

definition appeal_decided :: "appeal \<Rightarrow> bool" where
  "appeal_decided a \<longleftrightarrow> Appeal_Status a \<noteq> AppealPending"

definition audit_inv :: "moderation_db \<Rightarrow> bool" where
  "audit_inv t \<longleftrightarrow>
     audited Audit_ReportID Report_ID decided (reports t) (audit_logs t) \<and>
     audited Audit_AppealID Appeal_ID appeal_decided (appeals t) (audit_logs t) \<and>
     revocations_audited t"

definition moderation_inv :: "moderation_db \<Rightarrow> bool" where
  "moderation_inv t \<longleftrightarrow> keys_ok t \<and> reports_inv t \<and> punishments_inv t \<and> appeals_inv t \<and> audit_inv t"

lemma moderation_invI:
  "keys_ok t \<Longrightarrow> reports_inv t \<Longrightarrow> punishments_inv t \<Longrightarrow> appeals_inv t \<Longrightarrow> audit_inv t \<Longrightarrow> moderation_inv t"
  by (simp add: moderation_inv_def)

lemma moderation_invE:
  assumes "moderation_inv t"
  obtains "keys_ok t" "reports_inv t" "punishments_inv t" "appeals_inv t" "audit_inv t"
  using assms by (simp add: moderation_inv_def)

lemmas mod_keys = keys_ok_def reports_ok_def snapshots_ok_def punishments_ok_def appeals_ok_def audit_logs_ok_def

section \<open>Counting audit rows\<close>

lemma set_update_rows: "set (update_rows P f rows) = (\<lambda>r. if P r then f r else r) ` set rows"
  by (simp add: update_rows_def)

lemma update_rows_member: "x \<in> set rows \<Longrightarrow> (if P x then f x else x) \<in> set (update_rows P f rows)"
  unfolding set_update_rows by (rule imageI)

lemma ball_update_rows:
  "(\<forall>r \<in> set (update_rows P f rows). Q r) \<longleftrightarrow> (\<forall>r \<in> set rows. Q (if P r then f r else r))"
  by (auto simp: update_rows_def)

lemma keys_update_rows: "(\<And>r. key (f r) = key r) \<Longrightarrow> key ` set (update_rows P f rows) = key ` set rows"
  using map_key_update_rows [of key f P rows] by (simp flip: set_map)

lemma audited_new_row:
  assumes "audited ref key closed rows logs" and "key r \<notin> key ` set rows" and "\<not> closed r"
  shows "audited ref key closed (rows @ [r]) logs"
proof -
  have "filter (\<lambda>l. ref l = Some (key r)) logs = []"
    using assms(1,2) by (auto simp: audited_def filter_empty_conv)
  with assms show ?thesis by (auto simp: audited_def)
qed

lemma audited_unrelated:
  "audited ref key closed rows logs \<Longrightarrow> ref l = None \<Longrightarrow> audited ref key closed rows (logs @ [l])"
  by (auto simp: audited_def)

lemma audited_update:
  assumes "audited ref key closed rows logs" and "\<And>r. key (f r) = key r"
    and "\<And>r. r \<in> set rows \<Longrightarrow> P r \<Longrightarrow> closed (f r) = closed r"
  shows "audited ref key closed (update_rows P f rows) logs"
  using assms(1,3) unfolding audited_def ball_update_rows keys_update_rows [of key f, OF assms(2)]
  by (auto simp: assms(2))

text \<open>One row is closed, and one audit row says so.\<close>

lemma audited_close:
  assumes "audited ref key closed rows logs" and "distinct (map key rows)"
    and f: "\<And>r. key (f r) = key r" and P: "\<And>r. P r \<Longrightarrow> key r = k \<and> \<not> closed r \<and> closed (f r)"
    and r: "r \<in> set rows" "P r" and "ref l = Some k"
  shows "audited ref key closed (update_rows P f rows) (logs @ [l])"
proof -
  have "key r = k" using P r(2) by simp
  have one: "q = r" if "q \<in> set rows" "key q = k" for q
    using assms(2) that r(1) \<open>key r = k\<close> by (auto simp: distinct_map inj_on_def)
  have count: "length (filter (\<lambda>l. ref l = Some (key q)) (logs @ [l])) =
      (if closed (if P q then f q else q) then 1 else 0)" if q: "q \<in> set rows" for q
  proof (cases "key q = k")
    case True
    then have "q = r" using one q by simp
    with assms(1) r P [OF r(2)] \<open>ref l = Some k\<close> show ?thesis by (auto simp: audited_def)
  next
    case False
    with P have "\<not> P q" by blast
    with assms(1) q False \<open>ref l = Some k\<close> show ?thesis by (auto simp: audited_def)
  qed
  have "k \<in> key ` set rows" using r(1) \<open>key r = k\<close> by auto
  moreover have "key (if P q then f q else q) = key q" for q by (simp add: f)
  ultimately show ?thesis
    using assms(1) count \<open>ref l = Some k\<close> unfolding audited_def ball_update_rows keys_update_rows [of key f, OF f]
    by (simp del: filter_append)
qed

section \<open>Reports\<close>

definition fresh_report :: "report \<Rightarrow> report_snapshot \<Rightarrow> bool" where
  "fresh_report r snap \<longleftrightarrow> Report_Status r = ReportPending \<and> Report_AssigneeAdminID r = None \<and>
     Report_WithdrawnAt r = None \<and> Snapshot_ReportID snap = Report_ID r"

lemma CreateReport_success:
  assumes "outcome (repo_CreateReport r snap) t (Inr x) t'"
  shows "reports_ok (reports t @ [r]) \<and> snapshots_ok (snapshots t @ [snap]) \<and>
    t' = t\<lparr>reports := reports t @ [r], snapshots := snapshots t @ [snap]\<rparr>"
  using assms unfolding repo_CreateReport_def
  by (auto dest!: outcome_bind_Inr transaction_success simp: run_simps)

lemma file_inv:
  assumes inv: "moderation_inv t" and "reports_ok (reports t @ [r])" "snapshots_ok (snapshots t @ [snap])"
    and fresh: "fresh_report r snap"
  shows "moderation_inv (t\<lparr>reports := reports t @ [r], snapshots := snapshots t @ [snap]\<rparr>)" (is "moderation_inv ?u")
proof (rule moderation_invI)
  note parts = inv [unfolded moderation_inv_def]
  have new: "Report_ID r \<notin> Report_ID ` set (reports t)" using assms(2) by (auto simp: reports_ok_def)
  show "keys_ok ?u" using parts assms(2,3) by (simp add: keys_ok_def)
  show "reports_inv ?u" using parts fresh by (auto simp: reports_inv_def fresh_report_def report_shape_def)
  show "punishments_inv ?u" using parts by (auto simp: punishments_inv_def)
  show "appeals_inv ?u" using parts by (simp add: appeals_inv_def)
  have "\<not> decided r" using fresh by (simp add: fresh_report_def decided_def)
  with parts audited_new_row [OF _ new] show "audit_inv ?u"
    by (simp add: audit_inv_def revocations_audited_def)
qed

text \<open>Updates of undecided reports that keep them undecided.\<close>

lemma report_update_inv:
  assumes inv: "moderation_inv t"
    and f: "\<And>r. Report_ID (f r) = Report_ID r"
    and P: "\<And>r. P r \<Longrightarrow> report_shape r \<Longrightarrow> \<not> decided r \<and> \<not> decided (f r) \<and> report_shape (f r)"
  shows "moderation_inv (t\<lparr>reports := update_rows P f (reports t)\<rparr>)" (is "moderation_inv ?u")
proof (rule moderation_invI)
  note parts = inv [unfolded moderation_inv_def]
  have shapes: "report_shape r" if "r \<in> set (reports t)" for r using parts that by (simp add: reports_inv_def)
  have ids: "map Report_ID (update_rows P f (reports t)) = map Report_ID (reports t)"
    by (rule map_key_update_rows) (rule f)
  show "keys_ok ?u" using parts by (simp add: keys_ok_def reports_ok_def ids)
  show "reports_inv ?u" using parts P by (auto simp: reports_inv_def ids set_update_rows)
  have "r \<in> set (update_rows P f (reports t))" if "r \<in> set (reports t)" "Report_Status r = ReportActioned" for r
  proof -
    have "\<not> P r" using P shapes that by (auto simp: decided_def)
    with that(1) show ?thesis by (auto simp: set_update_rows intro!: image_eqI [of _ _ r])
  qed
  with parts show "punishments_inv ?u" by (fastforce simp: punishments_inv_def sanction_of_def)
  show "appeals_inv ?u" using parts by (simp add: appeals_inv_def)
  have "audited Audit_ReportID Report_ID decided (update_rows P f (reports t)) (audit_logs t)"
    by (rule audited_update) (use parts f P shapes in \<open>auto simp: audit_inv_def\<close>)
  with parts show "audit_inv ?u" by (simp add: audit_inv_def revocations_audited_def)
qed

lemma withdraw_claim_inv:
  assumes "moderation_inv t"
  shows "moderation_inv (t\<lparr>reports := update_rows (\<lambda>r. Report_ID r = rid \<and> Report_ReporterRootUserID r = root \<and>
      Report_Status r = ReportPending) (withdraw_report_row now) (reports t)\<rparr>)"
    and "moderation_inv (t\<lparr>reports := update_rows (\<lambda>r. Report_ID r = rid \<and> Report_Status r = ReportPending)
      (claim_report_row adminID now) (reports t)\<rparr>)"
  by (rule report_update_inv [OF assms];
      simp add: withdraw_report_row_def claim_report_row_def decided_def report_shape_def)+

section \<open>Decisions\<close>

definition review_fits ::
  "moderation_db \<Rightarrow> int64 \<Rightarrow> int64 \<Rightarrow> report_status \<Rightarrow> punishment option \<Rightarrow> audit_log \<Rightarrow> bool" where
  "review_fits t rid adminID status pun audit \<longleftrightarrow>
     (status = ReportRejected \<or> status = ReportActioned) \<and> Audit_ReportID audit = Some rid \<and>
     Audit_AppealID audit = None \<and>
     (case pun of None \<Rightarrow> True | Some p \<Rightarrow>
        status = ReportActioned \<and> Punishment_ReportID p = Some rid \<and> Punishment_CreatedBy p = adminID \<and>
        Punishment_Status p = PunishmentActive \<and> Punishment_Capability p \<in> set capabilities \<and>
        (\<forall>r \<in> set (reports t). Report_ID r = rid \<longrightarrow> Report_TargetRootUserID r = Punishment_RootUserID p))"

definition reviewed ::
  "int64 \<Rightarrow> int64 \<Rightarrow> report_status \<Rightarrow> punishment option \<Rightarrow> audit_log \<Rightarrow> instant \<Rightarrow> moderation_db \<Rightarrow> moderation_db" where
  "reviewed rid adminID status pun audit now t =
     t\<lparr>reports := update_rows (under_review rid adminID) (review_report_row status now) (reports t),
       punishments := punishments t @ (case pun of None \<Rightarrow> [] | Some p \<Rightarrow> [p]),
       audit_logs := audit_logs t @ [audit]\<rparr>"

lemma CompleteReview_success:
  assumes "outcome (CompleteReview rid adminID status pun audit now) t (Inr ok) t'"
  shows "(\<not> ok \<and> t' = t) \<or>
    (ok \<and> (\<exists>r \<in> set (reports t). under_review rid adminID r) \<and>
     (case pun of None \<Rightarrow> True | Some p \<Rightarrow> punishments_ok (punishments t @ [p])) \<and>
     audit_logs_ok (audit_logs t @ [audit]) \<and> t' = reviewed rid adminID status pun audit now t)"
proof -
  let ?P = "under_review rid adminID" and ?f = "review_report_row status now"
  from assms consider "rows_changed ?P ?f (reports t) = 0" "\<not> ok" "t' = t\<lparr>reports := update_rows ?P ?f (reports t)\<rparr>"
    | "rows_changed ?P ?f (reports t) \<noteq> 0" ok
      "case pun of None \<Rightarrow> True | Some p \<Rightarrow> punishments_ok (punishments t @ [p])"
      "audit_logs_ok (audit_logs t @ [audit])" "t' = reviewed rid adminID status pun audit now t"
    unfolding CompleteReview_def
    by (cases pun) (auto dest!: outcome_bind_Inr transaction_success simp: run_simps reviewed_def split: if_splits)
  then show ?thesis
  proof cases
    case 1
    with update_no_change [of ?P ?f "reports t"] show ?thesis by simp
  next
    case 2
    with rows_changed_pos [of ?P ?f "reports t"] show ?thesis by blast
  qed
qed

lemma review_inv:
  assumes inv: "moderation_inv t" and fits: "review_fits t rid adminID status pun audit"
    and r: "r \<in> set (reports t)" "under_review rid adminID r"
    and ok: "case pun of None \<Rightarrow> True | Some p \<Rightarrow> punishments_ok (punishments t @ [p])"
      "audit_logs_ok (audit_logs t @ [audit])"
  shows "moderation_inv (reviewed rid adminID status pun audit now t)" (is "moderation_inv ?u")
proof (rule moderation_invI)
  let ?P = "under_review rid adminID" and ?f = "review_report_row status now"
  note parts = inv [unfolded moderation_inv_def]
  have f: "Report_ID (?f q) = Report_ID q" for q by (simp add: review_report_row_def)
  have ids: "map Report_ID (update_rows ?P ?f (reports t)) = map Report_ID (reports t)"
    by (rule map_key_update_rows) (rule f)
  have P: "Report_ID q = rid \<and> \<not> decided q \<and> decided (?f q)" if "?P q" for q
    using that fits by (auto simp: under_review_def decided_def review_report_row_def review_fits_def)
  have stay: "q \<in> set (update_rows ?P ?f (reports t))" if "q \<in> set (reports t)" "Report_Status q = ReportActioned" for q
    using that by (auto simp: set_update_rows under_review_def intro!: image_eqI [of _ _ q])
  have here: "?f r \<in> set (update_rows ?P ?f (reports t))"
    using r by (auto simp: set_update_rows intro!: image_eqI [of _ _ r])
  have rid: "Report_ID r = rid" and admin: "Report_AssigneeAdminID r = Some adminID"
    using r(2) by (auto simp: under_review_def)
  have first: "Punishment_ReportID q \<noteq> Some rid" if q: "q \<in> set (punishments t)" for q
  proof
    assume "Punishment_ReportID q = Some rid"
    then obtain r' where r': "r' \<in> set (reports t)" "Report_ID r' = rid" "Report_Status r' = ReportActioned"
      using parts q by (fastforce simp: punishments_inv_def sanction_of_def)
    with r(1) rid parts have "r' = r" by (auto simp: mod_keys distinct_map inj_on_def)
    with r' r(2) show False by (simp add: under_review_def)
  qed
  show "keys_ok ?u" using parts ok by (auto simp: keys_ok_def reviewed_def reports_ok_def ids split: option.splits)
  show "reports_inv ?u" using parts fits
    by (auto simp: reports_inv_def reviewed_def ids ball_update_rows report_shape_def under_review_def
        review_report_row_def review_fits_def)
  have rows: "reports ?u = update_rows ?P ?f (reports t)" by (simp add: reviewed_def)
  have old: "\<exists>r \<in> set (reports ?u). sanction_of r q" if q: "q \<in> set (punishments t)" for q
  proof -
    obtain r' where "r' \<in> set (reports t)" "sanction_of r' q" using parts q by (auto simp: punishments_inv_def)
    with stay [of r'] show ?thesis unfolding rows by (auto simp: sanction_of_def)
  qed
  show "punishments_inv ?u"
  proof (cases pun)
    case None
    with parts old show ?thesis by (simp add: punishments_inv_def reviewed_def)
  next
    case (Some p)
    have "sanction_of (?f r) p"
      using fits Some r(1) rid admin by (simp add: review_fits_def sanction_of_def review_report_row_def)
    then have "\<exists>r \<in> set (reports ?u). sanction_of r p" using here unfolding rows by blast
    moreover have "Some rid \<notin> Punishment_ReportID ` set (punishments t)" using first by force
    moreover have "punishments ?u = punishments t @ [p]" using Some by (simp add: reviewed_def)
    ultimately show ?thesis using parts fits Some old by (auto simp: punishments_inv_def review_fits_def)
  qed
  show "appeals_inv ?u" using parts by (fastforce simp: appeals_inv_def reviewed_def)
  have "audited Audit_ReportID Report_ID decided (update_rows ?P ?f (reports t)) (audit_logs t @ [audit])"
    by (rule audited_close [where k = rid and r = r])
      (use parts fits f P r in \<open>auto simp: audit_inv_def mod_keys review_fits_def\<close>)
  moreover have "audited Audit_AppealID Appeal_ID appeal_decided (appeals t) (audit_logs t @ [audit])"
    by (rule audited_unrelated) (use parts fits in \<open>auto simp: audit_inv_def review_fits_def\<close>)
  moreover have "revocations_audited ?u"
    using parts fits by (cases pun) (auto simp: audit_inv_def revocations_audited_def reviewed_def review_fits_def)
  ultimately show "audit_inv ?u" by (simp add: audit_inv_def reviewed_def)
qed

section \<open>Revocations and appeals\<close>

text \<open>Revoking a punishment, with an audit row that names it but no report.\<close>

lemma revoke_parts:
  assumes inv: "moderation_inv t" and "Audit_ReportID audit = None"
    and "Audit_PunishmentID audit = Some pid" and P: "\<And>p. P p \<Longrightarrow> Punishment_ID p = pid"
    and rows_def: "rows = update_rows P (revoke_row adminID now reason) (punishments t)"
  shows "map Punishment_ID rows = map Punishment_ID (punishments t)"
    and "punishments_inv (t\<lparr>punishments := rows\<rparr>)" and "appeals_inv (t\<lparr>punishments := rows\<rparr>)"
    and "revocations_audited (t\<lparr>punishments := rows, audit_logs := audit_logs t @ [audit]\<rparr>)"
proof -
  note parts = inv [unfolded moderation_inv_def]
  show "map Punishment_ID rows = map Punishment_ID (punishments t)"
    unfolding rows_def by (rule map_key_update_rows) (simp add: revoke_row_def)
  have "map Punishment_ReportID rows = map Punishment_ReportID (punishments t)"
    unfolding rows_def by (rule map_key_update_rows) (simp add: revoke_row_def)
  with parts show "punishments_inv (t\<lparr>punishments := rows\<rparr>)"
    by (simp add: punishments_inv_def) (simp add: rows_def ball_update_rows sanction_of_def revoke_row_def)
  show "appeals_inv (t\<lparr>punishments := rows\<rparr>)"
    unfolding appeals_inv_def
  proof
    fix a assume "a \<in> set (appeals (t\<lparr>punishments := rows\<rparr>))"
    then obtain p where p: "p \<in> set (punishments t)" "plea_of p a" using parts by (auto simp: appeals_inv_def)
    let ?p = "if P p then revoke_row adminID now reason p else p"
    have "?p \<in> set rows" unfolding rows_def using p(1) by (rule update_rows_member)
    moreover have "plea_of ?p a" using p(2) by (simp add: plea_of_def revoke_row_def)
    ultimately show "\<exists>p \<in> set (punishments (t\<lparr>punishments := rows\<rparr>)). plea_of p a" by auto
  qed
  show "revocations_audited (t\<lparr>punishments := rows, audit_logs := audit_logs t @ [audit]\<rparr>)"
    using parts assms(2,3) P unfolding rows_def
    by (auto simp: audit_inv_def revocations_audited_def ball_update_rows revoke_row_def)
qed

definition revoked ::
  "(punishment \<Rightarrow> bool) \<Rightarrow> int64 \<Rightarrow> instant \<Rightarrow> string \<Rightarrow> audit_log \<Rightarrow> moderation_db \<Rightarrow> moderation_db" where
  "revoked P adminID now reason audit t =
     t\<lparr>punishments := update_rows P (revoke_row adminID now reason) (punishments t),
       audit_logs := audit_logs t @ [audit]\<rparr>"

definition active_id :: "int64 \<Rightarrow> punishment \<Rightarrow> bool" where
  "active_id pid p \<longleftrightarrow> Punishment_ID p = pid \<and> Punishment_Status p = PunishmentActive"

lemma RevokePunishment_success:
  assumes "outcome (repo_RevokePunishment pid adminID reason now audit) t (Inr x) t'"
  shows "(x = (0, False) \<and> t' = t \<and> find (active_id pid) (punishments t) = None) \<or>
    (\<exists>p. find (active_id pid) (punishments t) = Some p \<and> x = (Punishment_RootUserID p, True) \<and>
       audit_logs_ok (audit_logs t @ [audit\<lparr>Audit_PunishmentID := Some pid\<rparr>]) \<and>
       t' = revoked (active_id pid) adminID now reason (audit\<lparr>Audit_PunishmentID := Some pid\<rparr>) t)"
proof -
  have "active_id pid = (\<lambda>p. Punishment_ID p = pid \<and> Punishment_Status p = PunishmentActive)"
    by (rule ext) (simp add: active_id_def)
  with assms have "(x = (0, False) \<and> t' = t \<and> find (active_id pid) (punishments t) = None) \<or>
    (\<exists>p. find (active_id pid) (punishments t) = Some p \<and> x = (Punishment_RootUserID p, True) \<and>
       audit_logs_ok (audit_logs t @ [audit\<lparr>Audit_PunishmentID := Some (Punishment_ID p)\<rparr>]) \<and>
       t' = revoked (active_id pid) adminID now reason (audit\<lparr>Audit_PunishmentID := Some (Punishment_ID p)\<rparr>) t)"
    unfolding repo_RevokePunishment_def
    by (auto dest!: outcome_bind_Inr transaction_success outcome_find_row(1) simp: run_simps revoked_def
        split: option.splits)
  moreover have "Punishment_ID p = pid" if "find (active_id pid) (punishments t) = Some p" for p
    using find_member [OF that] by (simp add: active_id_def)
  ultimately show ?thesis by auto
qed

lemma revoke_inv:
  assumes inv: "moderation_inv t" and "Audit_ReportID audit = None" "Audit_AppealID audit = None"
    and "Audit_PunishmentID audit = Some pid" and ok: "audit_logs_ok (audit_logs t @ [audit])"
  shows "moderation_inv (revoked (active_id pid) adminID now reason audit t)" (is "moderation_inv ?u")
proof (rule moderation_invI)
  note parts = inv [unfolded moderation_inv_def]
  have P: "Punishment_ID p = pid" if "active_id pid p" for p using that by (simp add: active_id_def)
  note moved = revoke_parts [where P = "active_id pid" and adminID = adminID and now = now and reason = reason,
    OF inv assms(2,4) P refl]
  show "keys_ok ?u" using parts ok moved(1) by (simp add: keys_ok_def revoked_def punishments_ok_def)
  show "reports_inv ?u" using parts by (simp add: reports_inv_def revoked_def)
  show "punishments_inv ?u" using moved(2) by (simp add: punishments_inv_def revoked_def)
  show "appeals_inv ?u" using moved(3) by (simp add: appeals_inv_def revoked_def)
  show "audit_inv ?u" using parts moved(4) assms(2,3) by (auto simp: audit_inv_def revoked_def intro: audited_unrelated)
qed

lemma CreateAppeal_success:
  assumes "outcome (repo_CreateAppeal a) t (Inr x) t'"
  shows "appeals_ok (appeals t @ [a]) \<and> t' = t\<lparr>appeals := appeals t @ [a]\<rparr>"
  using assms unfolding repo_CreateAppeal_def by (auto dest!: outcome_bind_Inr simp: run_simps)

lemma appeal_inv:
  assumes inv: "moderation_inv t" and ok: "appeals_ok (appeals t @ [a])" and st: "Appeal_Status a = AppealPending"
    and p: "p \<in> set (punishments t)" "Punishment_ID p = Appeal_PunishmentID a" "Punishment_RootUserID p = Appeal_RootUserID a"
  shows "moderation_inv (t\<lparr>appeals := appeals t @ [a]\<rparr>)" (is "moderation_inv ?u")
proof (rule moderation_invI)
  note parts = inv [unfolded moderation_inv_def]
  have new: "Appeal_ID a \<notin> Appeal_ID ` set (appeals t)" using ok by (auto simp: appeals_ok_def)
  show "keys_ok ?u" using parts ok by (simp add: keys_ok_def)
  show "reports_inv ?u" "punishments_inv ?u" using parts by (simp_all add: reports_inv_def punishments_inv_def)
  have "plea_of p a" using p st by (simp add: plea_of_def)
  with parts p(1) show "appeals_inv ?u" by (auto simp: appeals_inv_def)
  show "audit_inv ?u" using parts audited_new_row [OF _ new] st
    by (simp add: audit_inv_def revocations_audited_def appeal_decided_def)
qed

definition appeal_closed ::
  "int64 \<Rightarrow> appeal_status \<Rightarrow> string \<Rightarrow> int64 \<Rightarrow> instant \<Rightarrow> moderation_db \<Rightarrow> moderation_db" where
  "appeal_closed aid status resolution adminID now t =
     t\<lparr>appeals := update_rows (\<lambda>a. Appeal_ID a = aid \<and> Appeal_Status a = AppealPending)
        (decide_appeal_row status resolution adminID now) (appeals t)\<rparr>"

definition appeal_audit :: "appeal \<Rightarrow> audit_log \<Rightarrow> audit_log" where
  "appeal_audit a audit =
     audit\<lparr>Audit_AppealID := Some (Appeal_ID a), Audit_PunishmentID := Some (Appeal_PunishmentID a)\<rparr>"

text \<open>The two effects of a decision on an appeal that was read: approved and rejected.\<close>

definition judged ::
  "appeal \<Rightarrow> int64 \<Rightarrow> bool \<Rightarrow> string \<Rightarrow> instant \<Rightarrow> audit_log \<Rightarrow> moderation_db \<Rightarrow> moderation_db" where
  "judged a adminID approved resolution now audit t =
     (if approved
      then revoked (active_id (Appeal_PunishmentID a)) adminID now resolution (appeal_audit a audit)
             (appeal_closed (Appeal_ID a) AppealApproved resolution adminID now t)
      else (appeal_closed (Appeal_ID a) AppealRejected resolution adminID now t)
             \<lparr>audit_logs := audit_logs t @ [appeal_audit a audit]\<rparr>)"

lemma decide_read_appeal_success:
  assumes "outcome (decide_read_appeal a (Appeal_ID a) adminID approved resolution now audit) t (Inr x) t'"
  shows "x = (Appeal_RootUserID a, True) \<and> audit_logs_ok (audit_logs t @ [appeal_audit a audit]) \<and>
    t' = judged a adminID approved resolution now audit t"
proof -
  have "active_id k = (\<lambda>p. Punishment_ID p = k \<and> Punishment_Status p = PunishmentActive)" for k
    by (rule ext) (simp add: active_id_def)
  with assms show ?thesis unfolding decide_read_appeal_def Let_def
    by (cases approved) (auto dest!: outcome_bind_Inr
        simp: run_simps judged_def revoked_def appeal_closed_def appeal_audit_def)
qed

definition pending_appeal :: "int64 \<Rightarrow> appeal \<Rightarrow> bool" where
  "pending_appeal aid a \<longleftrightarrow> Appeal_ID a = aid \<and> Appeal_Status a = AppealPending"

lemma DecideAppeal_success:
  assumes "outcome (repo_DecideAppeal aid adminID approved resolution now audit :: ('o, int64 \<times> bool) mrepo) t (Inr x) t'"
  shows "(x = (0, False) \<and> t' = t \<and> find (pending_appeal aid) (appeals t) = None) \<or>
    (\<exists>a. find (pending_appeal aid) (appeals t) = Some a \<and> x = (Appeal_RootUserID a, True) \<and>
       audit_logs_ok (audit_logs t @ [appeal_audit a audit]) \<and>
       t' = judged a adminID approved resolution now audit t)"
proof -
  have P: "pending_appeal aid = (\<lambda>a. Appeal_ID a = aid \<and> Appeal_Status a = AppealPending)"
    by (rule ext) (simp add: pending_appeal_def)
  from assms have "(x = (0, False) \<and> t' = t \<and> find (pending_appeal aid) (appeals t) = None) \<or>
    (\<exists>a. find (pending_appeal aid) (appeals t) = Some a \<and>
       outcome (decide_read_appeal a aid adminID approved resolution now audit :: ('o, int64 \<times> bool) mrepo) t (Inr x) t')"
    unfolding repo_DecideAppeal_def P
    by (auto dest!: outcome_bind_Inr transaction_success outcome_find_row(1) simp: run_simps split: option.splits)
  moreover have "Appeal_ID a = aid" if "find (pending_appeal aid) (appeals t) = Some a" for a
    using find_member [OF that] by (simp add: pending_appeal_def)
  ultimately show ?thesis using decide_read_appeal_success by blast
qed

lemma judge_inv:
  assumes inv: "moderation_inv t" and a: "a \<in> set (appeals t)" "Appeal_Status a = AppealPending"
    and audit: "Audit_ReportID audit = None" and ok: "audit_logs_ok (audit_logs t @ [appeal_audit a audit])"
  shows "moderation_inv (judged a adminID approved resolution now audit t)" (is "moderation_inv ?u")
proof (rule moderation_invI)
  let ?st = "if approved then AppealApproved else AppealRejected"
  let ?P = "\<lambda>b. Appeal_ID b = Appeal_ID a \<and> Appeal_Status b = AppealPending"
  let ?f = "decide_appeal_row ?st resolution adminID now"
  let ?l = "appeal_audit a audit" and ?pid = "Appeal_PunishmentID a"
  note parts = inv [unfolded moderation_inv_def]
  have ref: "Audit_ReportID ?l = None" "Audit_PunishmentID ?l = Some ?pid" "Audit_AppealID ?l = Some (Appeal_ID a)"
    using audit by (simp_all add: appeal_audit_def)
  have P: "Punishment_ID p = ?pid" if "active_id ?pid p" for p using that by (simp add: active_id_def)
  note moved = revoke_parts [where P = "active_id ?pid" and adminID = adminID and now = now and reason = resolution,
    OF inv ref(1,2) P refl]
  have f: "Appeal_ID (?f b) = Appeal_ID b" "Appeal_PunishmentID (?f b) = Appeal_PunishmentID b"
    "Appeal_RootUserID (?f b) = Appeal_RootUserID b" "Appeal_Status (?f b) = ?st" for b
    by (simp_all add: decide_appeal_row_def)
  have apps: "appeals ?u = update_rows ?P ?f (appeals t)" "audit_logs ?u = audit_logs t @ [?l]" "reports ?u = reports t"
    "snapshots ?u = snapshots t"
    by (simp_all add: judged_def revoked_def appeal_closed_def)
  have puns: "punishments ?u = (if approved then update_rows (active_id ?pid) (revoke_row adminID now resolution)
      (punishments t) else punishments t)"
    by (simp add: judged_def revoked_def appeal_closed_def)
  have keys: "map Appeal_ID (update_rows ?P ?f (appeals t)) = map Appeal_ID (appeals t)"
    "map Appeal_PunishmentID (update_rows ?P ?f (appeals t)) = map Appeal_PunishmentID (appeals t)"
    by (rule map_key_update_rows; rule f)+
  show "keys_ok ?u" using parts ok moved(1)
    by (simp add: keys_ok_def apps puns punishments_ok_def appeals_ok_def keys)
  show "reports_inv ?u" using parts by (simp add: reports_inv_def apps)
  show "punishments_inv ?u" using parts moved(2) by (simp add: punishments_inv_def apps puns)
  have olds: "\<exists>p \<in> set (punishments ?u). plea_of p b" if "b \<in> set (appeals t)" for b
    using parts moved(3) that by (simp add: appeals_inv_def puns)
  show "appeals_inv ?u"
    unfolding appeals_inv_def apps ball_update_rows
  proof
    fix b assume b: "b \<in> set (appeals t)"
    show "\<exists>p \<in> set (punishments ?u). plea_of p (if ?P b then ?f b else b)"
    proof (cases "?P b")
      case True
      from olds [OF b] obtain p where p: "p \<in> set (punishments ?u)" "plea_of p b" by blast
      have same: "b = a" using True a(1) b parts by (auto simp: mod_keys distinct_map inj_on_def)
      have "Punishment_Status p = PunishmentRevoked" if approved
      proof -
        have "p \<in> set (update_rows (active_id ?pid) (revoke_row adminID now resolution) (punishments t))"
          using p(1) [unfolded puns] that by simp
        moreover have "Punishment_ID p = ?pid" using p(2) same by (simp add: plea_of_def)
        ultimately show ?thesis
          by (cases "Punishment_Status p") (auto simp: update_rows_def active_id_def revoke_row_def split: if_splits)
      qed
      then have "plea_of p (?f b)" using p(2) f by (simp add: plea_of_def)
      with p(1) True show ?thesis by auto
    qed (use olds b in auto)
  qed
  have "audited Audit_AppealID Appeal_ID appeal_decided (update_rows ?P ?f (appeals t)) (audit_logs t @ [?l])"
    by (rule audited_close [where k = "Appeal_ID a" and r = a])
      (use parts a ref in \<open>auto simp: audit_inv_def mod_keys appeal_decided_def decide_appeal_row_def\<close>)
  moreover have "revocations_audited ?u"
    using parts moved(4) by (auto simp: audit_inv_def revocations_audited_def apps puns)
  moreover have "audited Audit_ReportID Report_ID decided (reports t) (audit_logs t @ [?l])"
    using parts ref(1) by (auto simp: audit_inv_def intro: audited_unrelated)
  ultimately show "audit_inv ?u" by (simp add: audit_inv_def apps)
qed

end
