(* ===== verification/Moderation_Service.thy ===== *)
theory Moderation_Service
  imports Moderation_Repo
begin

text \<open>
  The moderation service (\<open>internal/moderation/service.go\<close>).

  Parameters: whether a Redis client is configured, the target resolver and the notifier (absent or
  present), the RFC 3339 printer, the messages of the database driver and the collation of the status
  column. \<open>s.now()\<close> and \<open>snowflake.Generate()\<close> are arguments, in the order in which a method asks for
  them; \<open>clock\<close> arguments are the instants at which Redis runs a command.
\<close>

text \<open>
  The payload of a snapshot is any Go value; what matters of it is the text \<open>json.Marshal\<close> makes of
  it, \<open>None\<close> when it cannot. \<open>resolve\<close> gives an error (\<open>Inl\<close>), nil or a snapshot.
\<close>

record target_snapshot =
  Target_OwnerRootUserID :: int64
  Target_Payload :: "string option"

record target_resolver =
  ResolveTarget :: "int64 \<Rightarrow> int64 \<Rightarrow> string \<Rightarrow> string \<Rightarrow> string + target_snapshot option"
  HideTarget :: "string \<Rightarrow> string \<Rightarrow> bool"

record moderation_env =
  mod_redis :: bool
  mod_targets :: "target_resolver option"
  mod_notifier :: bool
  mod_show_time :: "instant \<Rightarrow> string"
  driver_text :: "db_err \<Rightarrow> string"
  same_text :: "string \<Rightarrow> string \<Rightarrow> bool"

type_synonym 'a mservice = "(moderation_db, moderation_event, moderation_error, 'a) prog"

definition SetTargetResolver :: "target_resolver \<Rightarrow> moderation_env \<Rightarrow> moderation_env" where
  "SetTargetResolver resolver s = s\<lparr>mod_targets := Some resolver\<rparr>"

definition SetNotifier :: "moderation_env \<Rightarrow> moderation_env" where
  "SetNotifier s = s\<lparr>mod_notifier := True\<rparr>"

definition mod_notify ::
  "moderation_env \<Rightarrow> int64 \<Rightarrow> string \<Rightarrow> moderation_title \<Rightarrow> string \<Rightarrow> string \<Rightarrow> int64 \<Rightarrow> unit mservice" where
  "mod_notify s root event title content resourceType resourceID =
     (if mod_notifier s then emit (ModerationNotice root event title content resourceType (mod_id resourceID))
      else ret ())"

definition capability_key :: "int64 \<Rightarrow> string" where
  "capability_key rootUserID = ''campus:moderation:capabilities:'' @ FormatInt rootUserID"

text \<open>Calls whose error is dropped (\<open>_ = f()\<close>).\<close>

definition ignore_error :: "('o, unit) mrepo \<Rightarrow> (moderation_db, 'o, 'e, unit) prog" where
  "ignore_error m = bind (attempt m) (\<lambda>_. ret ())"

definition invalidate :: "moderation_env \<Rightarrow> int64 \<Rightarrow> unit mservice" where
  "invalidate s rootUserID =
     (if mod_redis s then ignore_error (redis_Del (capability_key rootUserID)) else ret ())"

section \<open>Reports\<close>

definition new_report ::
  "int64 \<Rightarrow> int64 \<Rightarrow> int64 \<Rightarrow> report_req \<Rightarrow> int64 \<Rightarrow> instant \<Rightarrow> report" where
  "new_report newID rootUserID userID req owner now =
     \<lparr>Report_ID = newID, Report_ReporterRootUserID = rootUserID, Report_ReporterUserID = userID,
      Report_TargetType = ReportReq_TargetType req, Report_TargetID = ReportReq_TargetID req,
      Report_TargetRootUserID = owner, Report_Reason = ReportReq_Reason req,
      Report_Description = TrimSpace (ReportReq_Description req), Report_Status = ReportPending,
      Report_AssigneeAdminID = None, Report_CreatedAt = now, Report_UpdatedAt = now,
      Report_WithdrawnAt = None\<rparr>"

definition trim_report_req :: "report_req \<Rightarrow> report_req" where
  "trim_report_req req =
     req\<lparr>ReportReq_TargetType := TrimSpace (ReportReq_TargetType req),
         ReportReq_TargetID := TrimSpace (ReportReq_TargetID req),
         ReportReq_Reason := TrimSpace (ReportReq_Reason req)\<rparr>"

text \<open>\<open>err != nil || snapshot == nil || snapshot.OwnerRootUserID <= 0\<close>.\<close>

definition resolved :: "string + target_snapshot option \<Rightarrow> target_snapshot option" where
  "resolved r = (case r of
       Inr (Some snap) \<Rightarrow> if Target_OwnerRootUserID snap \<le> 0 then None else Some snap
     | _ \<Rightarrow> None)"

definition CreateReport ::
  "moderation_env \<Rightarrow> int64 \<Rightarrow> int64 \<Rightarrow> report_req \<Rightarrow> instant \<Rightarrow> int64 \<Rightarrow> int64 \<Rightarrow> report_response mservice" where
  "CreateReport s rootUserID userID req now newID snapshotID =
     (let req = trim_report_req req
      in if rootUserID \<le> 0 \<or> userID \<le> 0 \<or> ReportReq_TargetID req = [] \<or> ReportReq_Reason req = []
         then throw (Param MReportParam)
         else if ReportReq_TargetType req \<notin> set targetTypes then throw ErrReportTargetInvalid
         else
           bind (present ErrReportTargetInvalid (mod_targets s)) (\<lambda>targets.
           bind (present ErrReportTargetInvalid (resolved
                  (ResolveTarget targets rootUserID userID (ReportReq_TargetType req) (ReportReq_TargetID req))))
             (\<lambda>snap.
           bind (present (InternalWrap MSnapshot (Some (Sentinel MarshalFailure))) (Target_Payload snap)) (\<lambda>payload.
           let rep = new_report newID rootUserID userID req (Target_OwnerRootUserID snap) now;
               reportSnapshot = \<lparr>Snapshot_ID = snapshotID, Snapshot_ReportID = Report_ID rep,
                                 Snapshot_Payload = payload, Snapshot_CreatedAt = now\<rparr>
           in bind (internal_error MCreateReport (repo_CreateReport rep reportSnapshot)) (\<lambda>_.
              ret (reportResponse (mod_show_time s) rep))))))"

definition ListMyReports :: "moderation_env \<Rightarrow> int64 \<Rightarrow> int \<Rightarrow> int \<Rightarrow> report_response page_result mservice" where
  "ListMyReports s rootUserID page sz =
     (let (page, sz) = mod_normalize page sz
      in bind (internal_error MQueryReports (ListReports (same_text s) (ByReporter rootUserID) page sz)) (\<lambda>(rows, tot).
         ret (reportPage (mod_show_time s) rows tot page sz)))"

definition WithdrawReport :: "int64 \<Rightarrow> string \<Rightarrow> instant \<Rightarrow> unit mservice" where
  "WithdrawReport rootUserID reportID now =
     bind (result (mod_parseID reportID)) (\<lambda>idValue.
     bind (internal_error MWithdraw (repo_WithdrawReport idValue rootUserID now)) (\<lambda>ok.
     if \<not> ok then throw ErrReportNotFound else ret ()))"

definition ListReportsAdmin ::
  "moderation_env \<Rightarrow> string \<Rightarrow> int \<Rightarrow> int \<Rightarrow> report_response page_result mservice" where
  "ListReportsAdmin s status page sz =
     (let (page, sz) = mod_normalize page sz;
          query = (if TrimSpace status \<noteq> [] then ByStatus status else AllReports)
      in bind (internal_error MQueryReports (ListReports (same_text s) query page sz)) (\<lambda>(rows, tot).
         ret (reportPage (mod_show_time s) rows tot page sz)))"

definition ClaimReport :: "string \<Rightarrow> int64 \<Rightarrow> instant \<Rightarrow> unit mservice" where
  "ClaimReport reportID adminID now =
     bind (result (mod_parseID reportID)) (\<lambda>idValue.
     bind (internal_error MClaim (repo_ClaimReport idValue adminID now)) (\<lambda>ok.
     if \<not> ok then throw ErrReportNotFound else ret ()))"

section \<open>Decisions\<close>

text \<open>
  \<open>now.Add(time.Duration(m) * time.Minute)\<close>: the product is in nanoseconds and wraps at 64 bits. The
  column keeps milliseconds, rounding half up.
\<close>

definition punishment_end :: "instant \<Rightarrow> int64 \<Rightarrow> instant" where
  "punishment_end now m = now + (wrap64 (m * 60000000000) + 500000) div 1000000"

definition punishment_ends :: "instant \<Rightarrow> int64 option \<Rightarrow> moderation_error + instant option" where
  "punishment_ends now duration =
     (case duration of
        None \<Rightarrow> Inr None
      | Some m \<Rightarrow> if m \<le> 0 then Inl (Param MBadDuration) else Inr (Some (punishment_end now m)))"

definition new_punishment ::
  "int64 \<Rightarrow> report \<Rightarrow> admin_decision_req \<Rightarrow> instant option \<Rightarrow> int64 \<Rightarrow> instant \<Rightarrow> punishment" where
  "new_punishment newID rep req endsAt adminID now =
     \<lparr>Punishment_ID = newID, Punishment_RootUserID = Report_TargetRootUserID rep,
      Punishment_ReportID = Some (Report_ID rep), Punishment_Capability = DecisionReq_Capability req,
      Punishment_Reason = TrimSpace (DecisionReq_Reason req), Punishment_Status = PunishmentActive,
      Punishment_StartsAt = now, Punishment_EndsAt = endsAt, Punishment_CreatedBy = adminID,
      Punishment_CreatedAt = now, Punishment_RevokedBy = None, Punishment_RevokedAt = None,
      Punishment_RevokeReason = []\<rparr>"

text \<open>\<open>if req.Action == "punish"\<close>: the punishment to record, or a parameter error.\<close>

definition punish_decision ::
  "int64 \<Rightarrow> report \<Rightarrow> admin_decision_req \<Rightarrow> int64 \<Rightarrow> instant \<Rightarrow> moderation_error + punishment option" where
  "punish_decision newID rep req adminID now =
     (if DecisionReq_Action req = ''punish'' then
        (if DecisionReq_Capability req \<notin> set capabilities then Inl (Param MBadCapability)
         else case punishment_ends now (DecisionReq_DurationMinutes req) of
                Inl e \<Rightarrow> Inl e
              | Inr endsAt \<Rightarrow> Inr (Some (new_punishment newID rep req endsAt adminID now)))
      else Inr None)"

definition decision_audit ::
  "int64 \<Rightarrow> report \<Rightarrow> admin_decision_req \<Rightarrow> punishment option \<Rightarrow> int64 \<Rightarrow> instant \<Rightarrow> audit_log" where
  "decision_audit auditID rep req pun adminID now =
     \<lparr>Audit_ID = auditID, Audit_ReportID = Some (Report_ID rep),
      Audit_PunishmentID = map_option Punishment_ID pun, Audit_AppealID = None, Audit_AdminID = adminID,
      Audit_Action = DecisionReq_Action req, Audit_Detail = [(''reason'', DecisionReq_Reason req)],
      Audit_CreatedAt = now\<rparr>"

text \<open>The report the administrator may decide.\<close>

definition decidable :: "int64 \<Rightarrow> report option \<Rightarrow> report option" where
  "decidable adminID r =
     (case r of
        None \<Rightarrow> None
      | Some rep \<Rightarrow>
          if Report_Status rep \<noteq> ReportReviewing \<or> Report_AssigneeAdminID rep \<noteq> Some adminID then None
          else Some rep)"

definition hide_target :: "moderation_env \<Rightarrow> report \<Rightarrow> unit mservice" where
  "hide_target s rep =
     (case mod_targets s of
        None \<Rightarrow> throw (Biz MHideFailed)
      | Some targets \<Rightarrow>
          bind (emit (TargetHidden (Report_TargetType rep) (Report_TargetID rep))) (\<lambda>_.
          if HideTarget targets (Report_TargetType rep) (Report_TargetID rep) then ret ()
          else throw (Biz MHideFailed)))"

definition decision_status :: "admin_decision_req \<Rightarrow> report_status" where
  "decision_status req = (if DecisionReq_Action req = ''reject'' then ReportRejected else ReportActioned)"

text \<open>From \<open>audit := &AuditLog{...}\<close> to the end: the review is completed, the cache dropped, the owner told.\<close>

definition finish_decision ::
  "moderation_env \<Rightarrow> int64 \<Rightarrow> report \<Rightarrow> int64 \<Rightarrow> admin_decision_req \<Rightarrow> punishment option \<Rightarrow> int64 \<Rightarrow> instant
    \<Rightarrow> unit mservice" where
  "finish_decision s idValue rep adminID req pun auditID now =
     bind (internal_error MDecideReport
            (CompleteReview (Report_ID rep) adminID (decision_status req) pun
              (decision_audit auditID rep req pun adminID now) now)) (\<lambda>ok.
     if \<not> ok then throw ErrReportNotFound
     else
       bind (case pun of None \<Rightarrow> ret () | Some p \<Rightarrow> invalidate s (Punishment_RootUserID p)) (\<lambda>_.
       mod_notify s (Report_TargetRootUserID rep) (''report.'' @ DecisionReq_Action req) TReportResult
         (DecisionReq_Reason req) ''report'' idValue))"

definition DecideReport ::
  "moderation_env \<Rightarrow> string \<Rightarrow> int64 \<Rightarrow> admin_decision_req \<Rightarrow> instant \<Rightarrow> int64 \<Rightarrow> int64 \<Rightarrow> unit mservice" where
  "DecideReport s reportID adminID req now punishmentID auditID =
     bind (result (mod_parseID reportID)) (\<lambda>idValue.
     bind (internal_error MQueryReports (FindReport idValue)) (\<lambda>found.
     bind (present ErrReportNotFound (decidable adminID found)) (\<lambda>rep.
     bind (if DecisionReq_Action req = ''hide'' then hide_target s rep else ret ()) (\<lambda>_.
     bind (result (punish_decision punishmentID rep req adminID now)) (\<lambda>pun.
     finish_decision s idValue rep adminID req pun auditID now)))))"

section \<open>Punishments and appeals\<close>

definition ListMyPunishments ::
  "moderation_env \<Rightarrow> int64 \<Rightarrow> int \<Rightarrow> int \<Rightarrow> punishment_response page_result mservice" where
  "ListMyPunishments s rootUserID page sz =
     (let (page, sz) = mod_normalize page sz
      in bind (internal_error MQueryPunishments (repo_ListPunishments rootUserID page sz)) (\<lambda>(rows, tot).
         ret (punishmentPage (mod_show_time s) rows tot page sz)))"

definition admin_audit :: "int64 \<Rightarrow> int64 \<Rightarrow> string \<Rightarrow> string \<times> string \<Rightarrow> instant \<Rightarrow> audit_log" where
  "admin_audit auditID adminID action detail now =
     \<lparr>Audit_ID = auditID, Audit_ReportID = None, Audit_PunishmentID = None, Audit_AppealID = None,
      Audit_AdminID = adminID, Audit_Action = action, Audit_Detail = [detail], Audit_CreatedAt = now\<rparr>"

definition RevokePunishment ::
  "moderation_env \<Rightarrow> string \<Rightarrow> int64 \<Rightarrow> string \<Rightarrow> int64 \<Rightarrow> instant \<Rightarrow> instant \<Rightarrow> unit mservice" where
  "RevokePunishment s punishmentID adminID reason auditID now1 now =
     bind (result (mod_parseID punishmentID)) (\<lambda>idValue.
     bind (internal_error MRevoke
            (repo_RevokePunishment idValue adminID reason now
              (admin_audit auditID adminID ''revoke'' (''reason'', reason) now1))) (\<lambda>(rootUserID, ok).
     if \<not> ok then throw ErrPunishmentNotFound
     else
       bind (invalidate s rootUserID) (\<lambda>_.
       mod_notify s rootUserID ''punishment.revoked'' TPunishmentRevoked reason ''punishment'' idValue)))"

text \<open>\<open>err.Error()\<close> of the error \<open>CreateAppeal\<close> of the repository returns.\<close>

definition appeal_error_text :: "moderation_env \<Rightarrow> mrepo_error \<Rightarrow> string" where
  "appeal_error_text s e =
     (case e of
        Db NotInitialized \<Rightarrow> ''moderation database not initialized''
      | Db d \<Rightarrow> ''create appeal: '' @ driver_text s d
      | Sentinel _ \<Rightarrow> [])"

definition new_appeal :: "int64 \<Rightarrow> int64 \<Rightarrow> int64 \<Rightarrow> string \<Rightarrow> instant \<Rightarrow> appeal" where
  "new_appeal newID punishmentID rootUserID reason now =
     \<lparr>Appeal_ID = newID, Appeal_PunishmentID = punishmentID, Appeal_RootUserID = rootUserID,
      Appeal_Reason = TrimSpace reason, Appeal_Status = AppealPending, Appeal_Resolution = [],
      Appeal_ReviewedBy = None, Appeal_CreatedAt = now, Appeal_UpdatedAt = now\<rparr>"

definition CreateAppeal ::
  "moderation_env \<Rightarrow> int64 \<Rightarrow> string \<Rightarrow> string \<Rightarrow> instant \<Rightarrow> int64 \<Rightarrow> appeal_response mservice" where
  "CreateAppeal s rootUserID punishmentID reason now newID =
     bind (result (mod_parseID punishmentID)) (\<lambda>idValue.
     bind (internal_error MQueryPunishments (FindPunishment idValue)) (\<lambda>found.
     bind (present ErrPunishmentNotFound found) (\<lambda>item.
     if Punishment_RootUserID item \<noteq> rootUserID then throw ErrPunishmentNotFound
     else
       let ap = new_appeal newID idValue rootUserID reason now
       in if Appeal_Reason ap = [] then throw (Param MAppealReason)
          else
            bind (map_error (\<lambda>e. if contains_lower (appeal_error_text s e) ''unique'' then ErrAppealAlreadyExists
                                 else InternalWrap MCreateAppeal (Some e)) (repo_CreateAppeal ap)) (\<lambda>_.
            ret (appealResponse (mod_show_time s) ap)))))"

definition ListMyAppeals :: "moderation_env \<Rightarrow> int64 \<Rightarrow> int \<Rightarrow> int \<Rightarrow> appeal_response page_result mservice" where
  "ListMyAppeals s rootUserID page sz =
     (let (page, sz) = mod_normalize page sz
      in bind (internal_error MQueryAppeals (repo_ListAppeals (Some rootUserID) page sz)) (\<lambda>(rows, tot).
         ret (appealPage (mod_show_time s) rows tot page sz)))"

definition ListAppealsAdmin :: "moderation_env \<Rightarrow> int \<Rightarrow> int \<Rightarrow> appeal_response page_result mservice" where
  "ListAppealsAdmin s page sz =
     (let (page, sz) = mod_normalize page sz
      in bind (internal_error MQueryAppeals (repo_ListAppeals None page sz)) (\<lambda>(rows, tot).
         ret (appealPage (mod_show_time s) rows tot page sz)))"

definition DecideAppeal ::
  "moderation_env \<Rightarrow> string \<Rightarrow> int64 \<Rightarrow> appeal_decision_req \<Rightarrow> int64 \<Rightarrow> instant \<Rightarrow> instant \<Rightarrow> unit mservice" where
  "DecideAppeal s appealID adminID req auditID now1 now =
     bind (result (mod_parseID appealID)) (\<lambda>idValue.
     let action = (if AppealReq_Approved req then ''appeal.approve'' else ''appeal.reject'');
         audit = admin_audit auditID adminID action (''resolution'', AppealReq_Resolution req) now1
     in
     bind (internal_error MDecideAppeal
            (repo_DecideAppeal idValue adminID (AppealReq_Approved req) (AppealReq_Resolution req) now audit))
       (\<lambda>(rootUserID, ok).
     if \<not> ok then throw (NotFound MAppealNotFound)
     else
       bind (if AppealReq_Approved req then invalidate s rootUserID else ret ()) (\<lambda>_.
       mod_notify s rootUserID action TAppealResult (AppealReq_Resolution req) ''appeal'' idValue)))"

section \<open>Capabilities\<close>

text \<open>In milliseconds, like all instants.\<close>

definition capabilityCacheTTL :: int where
  "capabilityCacheTTL = 300000"

text \<open>The loop over the active punishments: the map and the time to live it builds.\<close>

definition collect_step :: "instant \<Rightarrow> punishment \<Rightarrow> capability_map \<times> int \<Rightarrow> capability_map \<times> int" where
  "collect_step now item acc =
     (case acc of (active, ttl) \<Rightarrow>
       (active(Punishment_Capability item \<mapsto> True),
        (case Punishment_EndsAt item of
           None \<Rightarrow> ttl
         | Some til \<Rightarrow> if til - now < ttl then til - now else ttl)))"

definition collect :: "instant \<Rightarrow> punishment list \<Rightarrow> capability_map \<times> int" where
  "collect now items =
     (let (active, ttl) = fold (collect_step now) items (Map.empty, capabilityCacheTTL)
      in (active, if ttl \<le> 0 then 1000 else ttl))"

definition cached_capabilities :: "moderation_env \<Rightarrow> instant \<Rightarrow> int64 \<Rightarrow> ('o, capability_map option) mrepo" where
  "cached_capabilities s clock rootUserID =
     (if mod_redis s then
        bind (attempt (redis_Get clock (capability_key rootUserID))) (\<lambda>r.
        case r of Inl (_ :: mrepo_error) \<Rightarrow> ret None | Inr v \<Rightarrow> ret v)
      else ret None)"

definition store_capabilities ::
  "moderation_env \<Rightarrow> instant \<Rightarrow> int64 \<Rightarrow> capability_map \<Rightarrow> int \<Rightarrow> ('o, unit) mrepo" where
  "store_capabilities s clock rootUserID active ttl =
     (if mod_redis s then ignore_error (redis_Set clock (capability_key rootUserID) active ttl) else ret ())"

definition activeCapabilities ::
  "moderation_env \<Rightarrow> instant \<Rightarrow> instant \<Rightarrow> instant \<Rightarrow> int64 \<Rightarrow> ('o, capability_map) mrepo" where
  "activeCapabilities s clock1 now clock2 rootUserID =
     bind (cached_capabilities s clock1 rootUserID) (\<lambda>cached.
     case cached of
       Some active \<Rightarrow> ret active
     | None \<Rightarrow>
         bind (ActivePunishments rootUserID now) (\<lambda>items.
         let (active, ttl) = collect now items
         in bind (store_capabilities s clock2 rootUserID active ttl) (\<lambda>_. ret active)))"

text \<open>\<open>active[name]\<close>: false when the key is missing.\<close>

definition denies :: "capability_map \<Rightarrow> string \<Rightarrow> bool" where
  "denies active name = (active name = Some True)"

definition Check :: "moderation_env \<Rightarrow> instant \<Rightarrow> instant \<Rightarrow> instant \<Rightarrow> int64 \<Rightarrow> string \<Rightarrow> unit mservice" where
  "Check s clock1 now clock2 rootUserID capability =
     (if rootUserID \<le> 0 then throw (Param MRootParam)
      else
        bind (internal_error MQueryActive (activeCapabilities s clock1 now clock2 rootUserID)) (\<lambda>active.
        if denies active CapabilityAccount \<or> denies active capability then throw ErrCapabilityDenied
        else ret ()))"

definition AccountBlocked :: "moderation_env \<Rightarrow> instant \<Rightarrow> instant \<Rightarrow> instant \<Rightarrow> int64 \<Rightarrow> bool mservice" where
  "AccountBlocked s clock1 now clock2 rootUserID =
     bind (passed (activeCapabilities s clock1 now clock2 rootUserID)) (\<lambda>active.
     ret (denies active CapabilityAccount))"

section \<open>The account guard and the capability adapter\<close>

text \<open>
  \<open>currentRootUserID\<close> reads the root account from the claims of the token (\<open>None\<close> without a token); the
  two fields it uses are given. \<open>AccountGuard\<close> lets a request through (\<open>ret\<close>) or answers with an error.
\<close>

record token_claims =
  Claims_UserID :: int64
  Claims_RootUserID :: int64

definition currentRootUserID :: "token_claims option \<Rightarrow> int64" where
  "currentRootUserID claims =
     (case claims of
        None \<Rightarrow> 0
      | Some c \<Rightarrow> if Claims_RootUserID c > 0 then Claims_RootUserID c else Claims_UserID c)"

definition accountGuardAllowed :: "string \<Rightarrow> bool" where
  "accountGuardAllowed path \<longleftrightarrow>
     path = ''/api/user/logout'' \<or> prefix ''/api/moderation/punishments'' path
     \<or> prefix ''/api/moderation/appeals'' path"

definition AccountGuard ::
  "moderation_env \<Rightarrow> instant \<Rightarrow> instant \<Rightarrow> instant \<Rightarrow> string \<Rightarrow> string \<Rightarrow> token_claims option \<Rightarrow> unit mservice" where
  "AccountGuard s clock1 now clock2 httpMethod path claims =
     (if httpMethod = ''OPTIONS'' \<or> accountGuardAllowed path then ret ()
      else
        bind (map_error (\<lambda>e. InternalWrap MAccountState (case e of Passed c \<Rightarrow> Some c | _ \<Rightarrow> None))
               (AccountBlocked s clock1 now clock2 (currentRootUserID claims))) (\<lambda>blocked.
        if blocked then throw ErrCapabilityDenied else ret ()))"

text \<open>
  \<open>CheckCapability\<close> (\<open>internal/app/moderationadapter\<close>) is what the marketplace and the reservations call;
  \<open>ResolveRootUserID\<close> belongs to the user module and is a parameter.
\<close>

definition CheckCapability ::
  "moderation_env \<Rightarrow> (int64 \<Rightarrow> moderation_error + int64) \<Rightarrow> instant \<Rightarrow> instant \<Rightarrow> instant \<Rightarrow> int64 \<Rightarrow> int64
    \<Rightarrow> string \<Rightarrow> unit mservice" where
  "CheckCapability s ResolveRootUserID clock1 now clock2 userID rootUserID capability =
     bind (if rootUserID \<le> 0 then result (ResolveRootUserID userID) else ret rootUserID) (\<lambda>root.
     Check s clock1 now clock2 root capability)"

end
