(* ===== verification/Moderation_System.thy ===== *)
theory Moderation_System
  imports Moderation_Inv Moderation_Service
begin

text \<open>
  The moderation tables as a transition system. A step is one run of a repository write, successful or
  not, with the rows the service builds, or any change of the cache. The invariant holds in every reachable
  state, and along any run rows only advance: a report moves along its life cycle, a punishment is revoked
  once, an appeal is decided once, and snapshots and audit rows are only added. The second part shows that
  every call of the service is a sequence of such steps.
\<close>

section \<open>Steps\<close>

abbreviation mrun :: "(moderation_event, 'a) mrepo \<Rightarrow> moderation_db \<Rightarrow> mrepo_error + 'a \<Rightarrow> moderation_db \<Rightarrow> bool" where
  "mrun \<equiv> outcome"

inductive mod_step :: "moderation_db \<Rightarrow> moderation_db \<Rightarrow> bool" where
  submit: "mrun (repo_CreateReport r snap) t q1 t' \<Longrightarrow> fresh_report r snap \<Longrightarrow> mod_step t t'"
| withdraw: "mrun (repo_WithdrawReport rid root now) t q2 t' \<Longrightarrow> mod_step t t'"
| claim: "mrun (repo_ClaimReport rid adminID now) t q2 t' \<Longrightarrow> mod_step t t'"
| review: "mrun (CompleteReview rid adminID status pun audit now) t q2 t' \<Longrightarrow>
    review_fits t rid adminID status pun audit \<Longrightarrow> mod_step t t'"
| revoke: "mrun (repo_RevokePunishment pid adminID reason now audit) t q3 t' \<Longrightarrow>
    Audit_ReportID audit = None \<Longrightarrow> Audit_AppealID audit = None \<Longrightarrow> mod_step t t'"
| plead: "mrun (repo_CreateAppeal a) t q1 t' \<Longrightarrow> Appeal_Status a = AppealPending \<Longrightarrow> p \<in> set (punishments t) \<Longrightarrow>
    Punishment_ID p = Appeal_PunishmentID a \<Longrightarrow> Punishment_RootUserID p = Appeal_RootUserID a \<Longrightarrow> mod_step t t'"
| judge: "mrun (repo_DecideAppeal aid adminID approved resolution now audit) t q3 t' \<Longrightarrow>
    Audit_ReportID audit = None \<Longrightarrow> mod_step t t'"
| recache: "mod_step t (t\<lparr>cache := c\<rparr>)"

text \<open>What a step did, when it did something.\<close>

inductive mod_effect :: "moderation_db \<Rightarrow> moderation_db \<Rightarrow> bool" where
  filed: "reports_ok (reports t @ [r]) \<Longrightarrow> snapshots_ok (snapshots t @ [snap]) \<Longrightarrow> fresh_report r snap \<Longrightarrow>
    mod_effect t (t\<lparr>reports := reports t @ [r], snapshots := snapshots t @ [snap]\<rparr>)"
| withdrawn: "mod_effect t (t\<lparr>reports := update_rows (\<lambda>r. Report_ID r = rid \<and> Report_ReporterRootUserID r = root \<and>
      Report_Status r = ReportPending) (withdraw_report_row now) (reports t)\<rparr>)"
| claimed: "mod_effect t (t\<lparr>reports := update_rows (\<lambda>r. Report_ID r = rid \<and> Report_Status r = ReportPending)
      (claim_report_row adminID now) (reports t)\<rparr>)"
| reviewed: "review_fits t rid adminID status pun audit \<Longrightarrow> r \<in> set (reports t) \<Longrightarrow> under_review rid adminID r \<Longrightarrow>
    (case pun of None \<Rightarrow> True | Some p \<Rightarrow> punishments_ok (punishments t @ [p])) \<Longrightarrow>
    audit_logs_ok (audit_logs t @ [audit]) \<Longrightarrow> mod_effect t (reviewed rid adminID status pun audit now t)"
| revoked: "Audit_ReportID audit = None \<Longrightarrow> Audit_AppealID audit = None \<Longrightarrow> Audit_PunishmentID audit = Some pid \<Longrightarrow>
    audit_logs_ok (audit_logs t @ [audit]) \<Longrightarrow> mod_effect t (revoked (active_id pid) adminID now reason audit t)"
| pleaded: "appeals_ok (appeals t @ [a]) \<Longrightarrow> Appeal_Status a = AppealPending \<Longrightarrow> p \<in> set (punishments t) \<Longrightarrow>
    Punishment_ID p = Appeal_PunishmentID a \<Longrightarrow> Punishment_RootUserID p = Appeal_RootUserID a \<Longrightarrow>
    mod_effect t (t\<lparr>appeals := appeals t @ [a]\<rparr>)"
| judged: "a \<in> set (appeals t) \<Longrightarrow> Appeal_Status a = AppealPending \<Longrightarrow> Audit_ReportID audit = None \<Longrightarrow>
    audit_logs_ok (audit_logs t @ [appeal_audit a audit]) \<Longrightarrow>
    mod_effect t (judged a adminID approved resolution now audit t)"
| recached: "mod_effect t (t\<lparr>cache := c\<rparr>)"

lemma report_updates:
  "outcome (repo_WithdrawReport rid root now) t q t' \<Longrightarrow> t' = t \<or> t' = t\<lparr>reports := update_rows (\<lambda>r. Report_ID r = rid \<and>
     Report_ReporterRootUserID r = root \<and> Report_Status r = ReportPending) (withdraw_report_row now) (reports t)\<rparr>"
  "outcome (repo_ClaimReport rid adminID now) t q t' \<Longrightarrow> t' = t \<or> t' = t\<lparr>reports := update_rows (\<lambda>r. Report_ID r = rid \<and>
     Report_Status r = ReportPending) (claim_report_row adminID now) (reports t)\<rparr>"
  unfolding repo_WithdrawReport_def repo_ClaimReport_def by (auto elim!: outcome_bindE simp: run_simps)

lemma mod_step_effect: "mod_step t t' \<Longrightarrow> t' = t \<or> mod_effect t t'"
proof (induction rule: mod_step.induct)
  case (submit r snap t q t')
  then show ?case
  proof (cases q)
    case (Inl e)
    with submit.hyps(1) show ?thesis unfolding repo_CreateReport_def by (auto elim: connected_transactionE)
  qed (use submit CreateReport_success in \<open>blast intro: filed\<close>)
next
  case (withdraw rid root now t q t')
  from report_updates(1) [OF this] show ?case by (blast intro: withdrawn)
next
  case (claim rid adminID now t q t')
  from report_updates(2) [OF this] show ?case by (blast intro: claimed)
next
  case (review rid adminID status pun audit now t q t')
  then show ?case
  proof (cases q)
    case (Inl e)
    with review.hyps(1) show ?thesis unfolding CompleteReview_def by (auto elim: connected_transactionE)
  next
    case (Inr ok)
    from CompleteReview_success [OF review.hyps(1) [unfolded Inr]] review.hyps(2) show ?thesis
      by (blast intro: mod_effect.reviewed)
  qed
next
  case (revoke pid adminID reason now audit t q t')
  then show ?case
  proof (cases q)
    case (Inl e)
    with revoke.hyps(1) show ?thesis unfolding repo_RevokePunishment_def by (auto elim: connected_transactionE)
  next
    case (Inr x)
    from RevokePunishment_success [OF revoke.hyps(1) [unfolded Inr]] revoke.hyps(2,3) show ?thesis
      by (auto intro: mod_effect.revoked)
  qed
next
  case (plead a t q t' p)
  then show ?case
  proof (cases q)
    case (Inl e)
    with plead.hyps(1) show ?thesis unfolding repo_CreateAppeal_def create_child_def
      by (auto elim!: outcome_bindE simp: run_simps split: if_splits)
  qed (use plead CreateAppeal_success in \<open>blast intro: pleaded\<close>)
next
  case (judge aid adminID approved resolution now audit t q t')
  then show ?case
  proof (cases q)
    case (Inl e)
    with judge.hyps(1) show ?thesis unfolding repo_DecideAppeal_def by (auto elim: connected_transactionE)
  next
    case (Inr x)
    from DecideAppeal_success [OF judge.hyps(1) [unfolded Inr]] judge.hyps(2) show ?thesis
      by (auto dest!: find_member simp: pending_appeal_def intro: mod_effect.judged)
  qed
qed (blast intro: recached)

lemma recache_inv: "moderation_inv t \<Longrightarrow> moderation_inv (t\<lparr>cache := c\<rparr>)"
  by (simp add: moderation_inv_def mod_keys reports_inv_def punishments_inv_def appeals_inv_def audit_inv_def
      revocations_audited_def)

lemma mod_effect_inv: "mod_effect t t' \<Longrightarrow> moderation_inv t \<Longrightarrow> moderation_inv t'"
  by (induction rule: mod_effect.induct)
    (auto intro: file_inv withdraw_claim_inv review_inv revoke_inv appeal_inv judge_inv recache_inv)

definition moderation_start :: "moderation_db \<Rightarrow> bool" where
  "moderation_start t \<longleftrightarrow> reports t = [] \<and> snapshots t = [] \<and> punishments t = [] \<and> appeals t = [] \<and> audit_logs t = []"

interpretation moderation_sys: invariant_system moderation_start mod_step moderation_inv
proof
  show "moderation_inv t" if "moderation_start t" for t
    using that by (simp add: moderation_start_def moderation_inv_def mod_keys reports_inv_def punishments_inv_def
        appeals_inv_def audit_inv_def audited_def revocations_audited_def)
  show "moderation_inv t'" if "mod_step t t'" "moderation_inv t" for t t'
    using mod_step_effect [OF that(1)] mod_effect_inv that(2) by blast
qed

section \<open>Life cycles\<close>

definition report_later :: "report_status \<Rightarrow> report_status \<Rightarrow> bool" where
  "report_later a b \<longleftrightarrow> a = b \<or> a = ReportPending \<or> (a = ReportReviewing \<and> (b = ReportRejected \<or> b = ReportActioned))"

definition report_next :: "report \<Rightarrow> report \<Rightarrow> bool" where
  "report_next r r' \<longleftrightarrow>
     Report_ID r' = Report_ID r \<and> Report_ReporterRootUserID r' = Report_ReporterRootUserID r \<and>
     Report_TargetType r' = Report_TargetType r \<and> Report_TargetID r' = Report_TargetID r \<and>
     Report_TargetRootUserID r' = Report_TargetRootUserID r \<and> Report_Reason r' = Report_Reason r \<and>
     report_later (Report_Status r) (Report_Status r') \<and>
     (Report_Status r \<noteq> ReportPending \<longrightarrow> Report_AssigneeAdminID r' = Report_AssigneeAdminID r)"

definition punishment_next :: "punishment \<Rightarrow> punishment \<Rightarrow> bool" where
  "punishment_next p p' \<longleftrightarrow>
     Punishment_ID p' = Punishment_ID p \<and> Punishment_RootUserID p' = Punishment_RootUserID p \<and>
     Punishment_ReportID p' = Punishment_ReportID p \<and> Punishment_Capability p' = Punishment_Capability p \<and>
     Punishment_StartsAt p' = Punishment_StartsAt p \<and> Punishment_EndsAt p' = Punishment_EndsAt p \<and>
     (Punishment_Status p = PunishmentRevoked \<longrightarrow> p' = p)"

definition appeal_next :: "appeal \<Rightarrow> appeal \<Rightarrow> bool" where
  "appeal_next a a' \<longleftrightarrow>
     Appeal_ID a' = Appeal_ID a \<and> Appeal_PunishmentID a' = Appeal_PunishmentID a \<and>
     Appeal_RootUserID a' = Appeal_RootUserID a \<and> Appeal_Reason a' = Appeal_Reason a \<and>
     (Appeal_Status a \<noteq> AppealPending \<longrightarrow> a' = a)"

definition rows_advance :: "('r \<Rightarrow> 'r \<Rightarrow> bool) \<Rightarrow> 'r list \<Rightarrow> 'r list \<Rightarrow> bool" where
  "rows_advance R rows rows' \<longleftrightarrow> (\<forall>r \<in> set rows. \<exists>r' \<in> set rows'. R r r')"

definition advances :: "moderation_db \<Rightarrow> moderation_db \<Rightarrow> bool" where
  "advances t t' \<longleftrightarrow>
     rows_advance report_next (reports t) (reports t') \<and>
     rows_advance punishment_next (punishments t) (punishments t') \<and>
     rows_advance appeal_next (appeals t) (appeals t') \<and>
     prefix (snapshots t) (snapshots t') \<and> prefix (audit_logs t) (audit_logs t')"

lemma next_refl [simp]: "report_next r r" "punishment_next p p" "appeal_next a a"
  by (simp_all add: report_next_def report_later_def punishment_next_def appeal_next_def)

lemma next_trans:
  "report_next r r' \<Longrightarrow> report_next r' r'' \<Longrightarrow> report_next r r''"
  "punishment_next p p' \<Longrightarrow> punishment_next p' p'' \<Longrightarrow> punishment_next p p''"
  "appeal_next a a' \<Longrightarrow> appeal_next a' a'' \<Longrightarrow> appeal_next a a''"
proof -
  show "report_next r r''" if "report_next r r'" "report_next r' r''"
    using that by (cases "Report_Status r"; cases "Report_Status r'") (auto simp: report_next_def report_later_def)
qed (auto simp: punishment_next_def appeal_next_def)

lemma rows_advanceD:
  "rows_advance R xs ys \<Longrightarrow> (\<And>x y. R x y \<Longrightarrow> Q x y) \<Longrightarrow> \<forall>x \<in> set xs. \<exists>y \<in> set ys. Q x y"
  unfolding rows_advance_def by blast

lemma rows_advance_trans:
  assumes "\<And>x y z. R x y \<Longrightarrow> R y z \<Longrightarrow> R x z"
  shows "rows_advance R xs ys \<Longrightarrow> rows_advance R ys zs \<Longrightarrow> rows_advance R xs zs"
  unfolding rows_advance_def using assms by blast

lemma rows_advance_keep [intro]: "(\<And>x. R x x) \<Longrightarrow> rows_advance R xs (xs @ ys)" "(\<And>x. R x x) \<Longrightarrow> rows_advance R xs xs"
  by (auto simp: rows_advance_def)

lemma rows_advance_update:
  assumes "\<And>x. R x x" and "\<And>x. x \<in> set xs \<Longrightarrow> P x \<Longrightarrow> R x (f x)"
  shows "rows_advance R xs (update_rows P f xs)"
  unfolding rows_advance_def
proof
  fix x assume x: "x \<in> set xs"
  then have "(if P x then f x else x) \<in> set (update_rows P f xs)" by (rule update_rows_member)
  moreover have "R x (if P x then f x else x)" using assms x by simp
  ultimately show "\<exists>r' \<in> set (update_rows P f xs). R x r'" by blast
qed

lemma advances_refl [simp]: "advances t t"
  by (auto simp: advances_def)

lemma advances_trans: "advances t t' \<Longrightarrow> advances t' t'' \<Longrightarrow> advances t t''"
  unfolding advances_def
  using rows_advance_trans [of report_next] rows_advance_trans [of punishment_next] rows_advance_trans [of appeal_next]
    next_trans prefix_order.trans by metis

lemma reports_advance:
  assumes "\<And>r. P r \<Longrightarrow> report_next r (f r)"
  shows "advances t (t\<lparr>reports := update_rows P f (reports t)\<rparr>)"
  using assms by (auto simp: advances_def intro!: rows_advance_update)

lemma punishments_advance:
  "rows_advance punishment_next (punishments t) (update_rows (active_id pid) (revoke_row adminID now reason) (punishments t))"
  by (rule rows_advance_update) (auto simp: active_id_def punishment_next_def revoke_row_def)

lemma judged_advance: "advances t (judged a adminID approved resolution now audit t)"
proof -
  have "rows_advance appeal_next (appeals t) (update_rows (\<lambda>b. Appeal_ID b = Appeal_ID a \<and> Appeal_Status b = AppealPending)
      (decide_appeal_row st resolution adminID now) (appeals t))" for st
    by (rule rows_advance_update) (auto simp: appeal_next_def decide_appeal_row_def)
  then show ?thesis
    using punishments_advance by (auto simp: advances_def judged_def revoked_def appeal_closed_def)
qed

lemma mod_effect_advances: "mod_effect t t' \<Longrightarrow> advances t t'"
proof (induction rule: mod_effect.induct)
  case (reviewed t rid adminID status pun audit r now)
  have "rows_advance report_next (reports t) (update_rows (under_review rid adminID) (review_report_row status now) (reports t))"
    by (rule rows_advance_update)
      (use reviewed.hyps(1) in \<open>auto simp: under_review_def review_report_row_def report_next_def report_later_def review_fits_def\<close>)
  then show ?case by (auto simp: advances_def reviewed_def split: option.split)
next
  case (revoked audit pid t adminID now reason)
  then show ?case using punishments_advance by (auto simp: advances_def revoked_def)
next
  case (judged a t audit adminID approved resolution now)
  then show ?case by (simp add: judged_advance)
qed (auto intro!: reports_advance simp: report_next_def report_later_def withdraw_report_row_def claim_report_row_def,
    auto simp: advances_def)

lemma mod_steps_advance: "mod_step\<^sup>*\<^sup>* t t' \<Longrightarrow> advances t t'"
  by (induction rule: rtranclp_induct) (auto dest!: mod_step_effect dest: mod_effect_advances intro: advances_trans)

end
