(* ===== verification/Moderation_Calls.thy ===== *)
theory Moderation_Calls
  imports Moderation_System
begin

text \<open>
  Every call of the moderation service, with any arguments and any failing statement, is a sequence of
  steps of the transition system: it keeps the invariant and rows only advance.
\<close>

section \<open>Programs that only read\<close>

lemma read_then:
  assumes "\<And>I. keeps I m" and "outcome (bind m f) t r t'"
  obtains e where "r = Inl e" "t' = t" | x where "outcome m t (Inr x) t" "outcome (f x) t r t'"
proof -
  have same: "u = t" if "outcome m t q u" for q u using keepsD [OF assms(1) that, of "\<lambda>v. v = t"] by simp
  from assms(2) show thesis
  proof (rule outcome_bindE)
    fix x t1 assume "outcome m t (Inr x) t1" "outcome (f x) t1 r t'"
    with same that(2) show thesis by blast
  qed (use same that(1) in blast)
qed

lemma mod_reads_keep [intro]:
  "keeps I (result x :: 'a mservice)" "keeps I (present e y :: 'b mservice)"
  "keeps I (internal_error msg (FindReport rid) :: report option mservice)"
  "keeps I (internal_error msg (FindPunishment pid) :: punishment option mservice)"
  "keeps I (hide_target s rep)"
  "keeps I (mod_notify s root ev title content ty k)"
  "keeps I (internal_error msg (ListReports same q page sz) :: (report list \<times> int64) mservice)"
  "keeps I (internal_error msg (repo_ListPunishments root page sz) :: (punishment list \<times> int64) mservice)"
  "keeps I (internal_error msg (repo_ListAppeals who page sz) :: (appeal list \<times> int64) mservice)"
  unfolding result_def present_def internal_error_def FindReport_def FindPunishment_def hide_target_def
    mod_notify_def ListReports_def repo_ListPunishments_def repo_ListAppeals_def Let_def
  by (auto intro!: keeps_bind keeps_basic keeps_map_error keeps_find_row split: sum.split option.split)

section \<open>Writes as steps\<close>

lemma mod_step_keeps:
  fixes m :: "(moderation_event, 'a) mrepo"
  assumes "\<And>t r t'. outcome m t r t' \<Longrightarrow> mod_step t t'"
  shows "keeps (mod_step\<^sup>*\<^sup>* t0) m"
  unfolding keeps_def using assms by (blast intro: rtranclp.rtrancl_into_rtrancl)

lemma cache_step: "t' = t \<or> (\<exists>c. t' = t\<lparr>cache := c\<rparr>) \<Longrightarrow> mod_step t t'"
  using recache [of t "cache t"] recache by auto

lemma redis_keeps:
  "keeps (mod_step\<^sup>*\<^sup>* t0) (redis_Get clock key :: (moderation_event, capability_map option) mrepo)"
  "keeps (mod_step\<^sup>*\<^sup>* t0) (redis_Set clock key v ttl :: (moderation_event, unit) mrepo)"
  "keeps (mod_step\<^sup>*\<^sup>* t0) (redis_Del key :: (moderation_event, unit) mrepo)"
  by (rule mod_step_keeps; rule cache_step;
      auto simp: redis_Get_def redis_Set_def redis_Del_def outcome_stmt split: option.splits)+

lemma mod_repo_keeps:
  "fresh_report rep snap \<Longrightarrow> keeps (mod_step\<^sup>*\<^sup>* t0) (repo_CreateReport rep snap :: (moderation_event, unit) mrepo)"
  "keeps (mod_step\<^sup>*\<^sup>* t0) (repo_WithdrawReport rid root now :: (moderation_event, bool) mrepo)"
  "keeps (mod_step\<^sup>*\<^sup>* t0) (repo_ClaimReport rid adminID now :: (moderation_event, bool) mrepo)"
  "Audit_ReportID l = None \<Longrightarrow> Audit_AppealID l = None \<Longrightarrow>
     keeps (mod_step\<^sup>*\<^sup>* t0) (repo_RevokePunishment pid adminID reason now l :: (moderation_event, int64 \<times> bool) mrepo)"
  "Audit_ReportID l = None \<Longrightarrow>
     keeps (mod_step\<^sup>*\<^sup>* t0) (repo_DecideAppeal aid adminID approved resolution now l :: (moderation_event, int64 \<times> bool) mrepo)"
  by (rule mod_step_keeps; blast intro: mod_step.intros)+

lemma invalidate_keeps: "keeps (mod_step\<^sup>*\<^sup>* t0) (invalidate s root)"
  unfolding invalidate_def ignore_error_def by (auto intro!: keeps_bind keeps_attempt redis_keeps)

lemma ActivePunishments_keeps [intro]: "keeps I (ActivePunishments root now)"
  unfolding ActivePunishments_def by auto

lemma activeCapabilities_keeps:
  "keeps (mod_step\<^sup>*\<^sup>* t0) (activeCapabilities s clock1 now clock2 root :: (moderation_event, capability_map) mrepo)"
  unfolding activeCapabilities_def cached_capabilities_def store_capabilities_def ignore_error_def
  by (auto intro!: keeps_bind keeps_basic keeps_attempt redis_keeps ActivePunishments_keeps
      split: sum.split option.split prod.split)

section \<open>Calls\<close>

lemma mod_service_keeps:
  "keeps (mod_step\<^sup>*\<^sup>* t0) (CreateReport s root user req now rid sid)"
  "keeps (mod_step\<^sup>*\<^sup>* t0) (WithdrawReport root raw now)"
  "keeps (mod_step\<^sup>*\<^sup>* t0) (ClaimReport raw adminID now)"
  "keeps (mod_step\<^sup>*\<^sup>* t0) (RevokePunishment s raw adminID reason lid now1 now)"
  "keeps (mod_step\<^sup>*\<^sup>* t0) (DecideAppeal s raw adminID dreq lid now1 now)"
  "keeps (mod_step\<^sup>*\<^sup>* t0) (Check s clock1 now clock2 root capability)"
  "keeps (mod_step\<^sup>*\<^sup>* t0) (AccountBlocked s clock1 now clock2 root)"
  "keeps (mod_step\<^sup>*\<^sup>* t0) (ListMyReports s root page sz)" "keeps (mod_step\<^sup>*\<^sup>* t0) (ListReportsAdmin s st page sz)"
  "keeps (mod_step\<^sup>*\<^sup>* t0) (ListMyPunishments s root page sz)"
  "keeps (mod_step\<^sup>*\<^sup>* t0) (ListMyAppeals s root page sz)" "keeps (mod_step\<^sup>*\<^sup>* t0) (ListAppealsAdmin s page sz)"
  unfolding CreateReport_def WithdrawReport_def ClaimReport_def RevokePunishment_def DecideAppeal_def Check_def
    AccountBlocked_def ListMyReports_def ListReportsAdmin_def ListMyPunishments_def ListMyAppeals_def
    ListAppealsAdmin_def Let_def passed_def
  by (auto intro!: keeps_bind keeps_basic mod_reads_keep invalidate_keeps activeCapabilities_keeps
      keeps_map_error [OF activeCapabilities_keeps] split: prod.split,
      auto intro!: keeps_map_error mod_repo_keeps activeCapabilities_keeps
      simp: internal_error_def fresh_report_def new_report_def admin_audit_def)

text \<open>The two calls whose row depends on a row read before.\<close>

lemma found_in:
  assumes "outcome (internal_error msg (bind gormDB (\<lambda>_. find_row tab P))) t (Inr x) t'"
  shows "x = find P (tab t)"
  using assms unfolding internal_error_def
  by (auto simp: outcome_map_error_Inr run_simps dest!: outcome_bind_Inr outcome_find_row(1))

lemma present_given: "outcome (present e y) t (Inr x) t' \<Longrightarrow> y = Some x"
  by (auto simp: present_def run_simps split: option.splits)

lemma result_given: "outcome (result y) t (Inr x) t' \<Longrightarrow> y = Inr x"
  by (auto simp: result_def run_simps split: sum.splits)

lemma punish_decision_fits:
  assumes "punish_decision pid rep req adminID now = Inr pun"
    and "\<And>r. r \<in> set (reports t) \<Longrightarrow> Report_ID r = Report_ID rep \<Longrightarrow> Report_TargetRootUserID r = Report_TargetRootUserID rep"
  shows "review_fits t (Report_ID rep) adminID (decision_status req) pun (decision_audit lid rep req pun adminID now)"
  using assms by (auto simp: review_fits_def decision_audit_def decision_status_def punish_decision_def new_punishment_def
      split: if_splits sum.splits)

lemma finish_decision_steps:
  assumes rep: "rep \<in> set (reports t)" and pun: "punish_decision pid rep req adminID now = Inr pun"
    and run: "outcome (finish_decision s k rep adminID req pun lid now) t r t'" and inv: "moderation_inv t"
  shows "mod_step\<^sup>*\<^sup>* t t'"
proof -
  let ?review = "CompleteReview (Report_ID rep) adminID (decision_status req) pun (decision_audit lid rep req pun adminID now) now"
  have "x = rep" if "x \<in> set (reports t)" "Report_ID x = Report_ID rep" for x
    using that rep inv by (auto simp: moderation_inv_def mod_keys distinct_map inj_on_def)
  then have fits: "review_fits t (Report_ID rep) adminID (decision_status req) pun (decision_audit lid rep req pun adminID now)"
    by (intro punish_decision_fits [OF pun]) auto
  have one: "mod_step\<^sup>*\<^sup>* t u" if "outcome (internal_error MDecideReport ?review :: bool mservice) t q u" for q u
    using that fits unfolding internal_error_def by (auto elim!: outcome_map_errorE intro: mod_step.review)
  have tail: "keeps (mod_step\<^sup>*\<^sup>* t) (bind (case pun of None \<Rightarrow> ret () | Some p \<Rightarrow> invalidate s (Punishment_RootUserID p))
      (\<lambda>_. mod_notify s root ev title content ty k))" for root ev title content ty k
    by (auto intro!: keeps_bind keeps_basic mod_reads_keep invalidate_keeps split: option.split)
  show ?thesis
    using run unfolding finish_decision_def
    by (elim outcome_bindE [where m = "internal_error MDecideReport ?review"])
      (auto dest: one elim: keepsD [OF keeps_if [OF keeps_basic(2) tail]])
qed

lemma DecideReport_steps:
  assumes run: "outcome (DecideReport s raw adminID req now pid lid) t r t'" and inv: "moderation_inv t"
  shows "mod_step\<^sup>*\<^sup>* t t'"
  using run unfolding DecideReport_def Let_def FindReport_def
  by (elim read_then [rotated])
    (auto intro!: mod_reads_keep [unfolded FindReport_def] intro: finish_decision_steps [OF _ _ _ inv]
      dest!: found_in present_given result_given dest: find_member [OF sym]
      simp: decidable_def split: option.splits if_splits)

lemma plead_steps:
  assumes "outcome (map_error f (repo_CreateAppeal (new_appeal aid (Punishment_ID p) root reason now)) :: unit mservice) t r t'"
    and "p \<in> set (punishments t)" and "Punishment_RootUserID p = root"
  shows "mod_step\<^sup>*\<^sup>* t t'"
proof -
  from assms(1) obtain q where q: "mrun (repo_CreateAppeal (new_appeal aid (Punishment_ID p) root reason now)) t q t'"
    by (auto elim: outcome_map_errorE)
  have "mod_step t t'" by (rule mod_step.plead [OF q]) (use assms(2,3) in \<open>auto simp: new_appeal_def\<close>)
  then show ?thesis by blast
qed

lemma CreateAppeal_steps:
  assumes run: "outcome (CreateAppeal s root raw reason now aid) t r t'"
  shows "mod_step\<^sup>*\<^sup>* t t'"
proof -
  have step: "mod_step\<^sup>*\<^sup>* t t'" if k: "find (\<lambda>p. Punishment_ID p = k) (punishments t) = Some p" "Punishment_RootUserID p = root"
      and m: "outcome (bind (map_error f (repo_CreateAppeal (new_appeal aid k root reason now))) (\<lambda>_. ret x) ::
        appeal_response mservice) t r t'" for k p f x
  proof -
    have p: "p \<in> set (punishments t)" "Punishment_ID p = k" using find_member [OF k(1)] by auto
    from m show ?thesis
      by (rule outcome_bindE) (auto simp: outcome_ret p(2) [symmetric] dest: plead_steps [OF _ p(1) k(2)])
  qed
  show ?thesis
    using run unfolding CreateAppeal_def Let_def FindPunishment_def
    by (elim read_then [rotated])
      (auto intro!: mod_reads_keep [unfolded FindPunishment_def] dest!: found_in present_given result_given
        dest: step [OF sym] simp: run_simps split: if_splits)
qed

inductive mod_call :: "moderation_env \<Rightarrow> moderation_db \<Rightarrow> moderation_db \<Rightarrow> bool" for s :: moderation_env where
  call_report: "outcome (CreateReport s root user req now rid sid) t r1 t' \<Longrightarrow> mod_call s t t'"
| call_withdraw: "outcome (WithdrawReport root raw now) t r2 t' \<Longrightarrow> mod_call s t t'"
| call_claim: "outcome (ClaimReport raw adminID now) t r2 t' \<Longrightarrow> mod_call s t t'"
| call_decide: "outcome (DecideReport s raw adminID areq now pid lid) t r2 t' \<Longrightarrow> mod_call s t t'"
| call_revoke: "outcome (RevokePunishment s raw adminID reason lid now1 now) t r2 t' \<Longrightarrow> mod_call s t t'"
| call_appeal: "outcome (CreateAppeal s root raw reason now aid) t r3 t' \<Longrightarrow> mod_call s t t'"
| call_judge: "outcome (DecideAppeal s raw adminID dreq lid now1 now) t r2 t' \<Longrightarrow> mod_call s t t'"
| call_check: "outcome (Check s clock1 now clock2 root capability) t r2 t' \<Longrightarrow> mod_call s t t'"
| call_blocked: "outcome (AccountBlocked s clock1 now clock2 root) t r4 t' \<Longrightarrow> mod_call s t t'"
| call_reports: "outcome (ListMyReports s root page sz) t r5 t' \<Longrightarrow> mod_call s t t'"
| call_all_reports: "outcome (ListReportsAdmin s st page sz) t r5 t' \<Longrightarrow> mod_call s t t'"
| call_punishments: "outcome (ListMyPunishments s root page sz) t r6 t' \<Longrightarrow> mod_call s t t'"
| call_appeals: "outcome (ListMyAppeals s root page sz) t r7 t' \<Longrightarrow> mod_call s t t'"
| call_all_appeals: "outcome (ListAppealsAdmin s page sz) t r7 t' \<Longrightarrow> mod_call s t t'"

lemma mod_calls:
  assumes "mod_call s t t'" and "moderation_inv t"
  shows "mod_step\<^sup>*\<^sup>* t t'"
  using assms
  by (induction rule: mod_call.induct)
    (blast intro: DecideReport_steps CreateAppeal_steps keepsD [OF mod_service_keeps(1)] keepsD [OF mod_service_keeps(2)]
      keepsD [OF mod_service_keeps(3)] keepsD [OF mod_service_keeps(4)] keepsD [OF mod_service_keeps(5)]
      keepsD [OF mod_service_keeps(6)] keepsD [OF mod_service_keeps(7)] keepsD [OF mod_service_keeps(8)]
      keepsD [OF mod_service_keeps(9)] keepsD [OF mod_service_keeps(10)] keepsD [OF mod_service_keeps(11)]
      keepsD [OF mod_service_keeps(12)])+

interpretation moderation_service: invariant_system moderation_start "mod_call s" moderation_inv for s
proof
  show "moderation_inv t" if "moderation_start t" for t using that by (rule moderation_sys.start_inv)
  show "moderation_inv t'" if "mod_call s t t'" "moderation_inv t" for t t'
    using moderation_sys.steps_inv [OF mod_calls [OF that] that(2)] .
qed

lemma mod_call_run_advances: "(mod_call s)\<^sup>*\<^sup>* t t' \<Longrightarrow> moderation_inv t \<Longrightarrow> advances t t' \<and> moderation_inv t'"
  by (induction rule: rtranclp_induct)
    (auto dest: mod_calls mod_steps_advance intro: advances_trans moderation_service.step_inv)

end
