(* ===== verification/Moderation_Live.thy ===== *)
theory Moderation_Live
  imports Moderation_Calls
begin

text \<open>
  What the capability checks answer: against the punishments in force, against the cache, and after
  a decision or a revocation. The effect of the calls is computed in worlds where nothing fails.
\<close>

section \<open>Collecting the active punishments\<close>

lemma collect_fold:
  "fold (collect_step now) items (active, ttl) = (active', ttl') \<Longrightarrow>
     active' = (\<lambda>c. if c \<in> Punishment_Capability ` set items then Some True else active c) \<and>
     ttl' \<le> ttl \<and> (\<forall>p \<in> set items. \<forall>til. Punishment_EndsAt p = Some til \<longrightarrow> ttl' \<le> til - now) \<and>
     (0 < ttl \<and> (\<forall>p \<in> set items. \<forall>til. Punishment_EndsAt p = Some til \<longrightarrow> now < til) \<longrightarrow> 0 < ttl')"
proof (induction items arbitrary: active ttl)
  case (Cons p items)
  obtain a1 t1 where step: "collect_step now p (active, ttl) = (a1, t1)" by (cases "collect_step now p (active, ttl)")
  with Cons.prems have "fold (collect_step now) items (a1, t1) = (active', ttl')" by simp
  note rest = Cons.IH [OF this]
  have a1: "a1 = active(Punishment_Capability p \<mapsto> True)" using step by (simp add: collect_step_def)
  have t1: "t1 \<le> ttl" "\<And>til. Punishment_EndsAt p = Some til \<Longrightarrow> t1 \<le> til - now"
    "0 < ttl \<Longrightarrow> (\<And>til. Punishment_EndsAt p = Some til \<Longrightarrow> now < til) \<Longrightarrow> 0 < t1"
    using step by (auto simp: collect_step_def split: option.splits if_splits)
  have "ttl' \<le> t1" using rest by simp
  show ?case
  proof (intro conjI)
    show "active' = (\<lambda>c. if c \<in> Punishment_Capability ` set (p # items) then Some True else active c)"
      using rest by (simp add: a1 fun_eq_iff)
    show "ttl' \<le> ttl" using \<open>ttl' \<le> t1\<close> t1(1) by simp
    show "\<forall>q \<in> set (p # items). \<forall>til. Punishment_EndsAt q = Some til \<longrightarrow> ttl' \<le> til - now"
    proof (intro ballI allI impI)
      fix q til assume "q \<in> set (p # items)" "Punishment_EndsAt q = Some til"
      with rest \<open>ttl' \<le> t1\<close> t1(2) [of til] show "ttl' \<le> til - now" by auto
    qed
    show "0 < ttl \<and> (\<forall>q \<in> set (p # items). \<forall>til. Punishment_EndsAt q = Some til \<longrightarrow> now < til) \<longrightarrow> 0 < ttl'"
      using rest t1(3) by simp
  qed
qed simp

lemma collect_result:
  assumes "collect now items = (active, ttl)" and "\<forall>p \<in> set items. \<forall>til. Punishment_EndsAt p = Some til \<longrightarrow> now < til"
  shows "denies active c \<longleftrightarrow> c \<in> Punishment_Capability ` set items" and "0 < ttl" and "ttl \<le> capabilityCacheTTL"
    and "p \<in> set items \<Longrightarrow> Punishment_EndsAt p = Some til \<Longrightarrow> ttl \<le> til - now"
proof -
  obtain a1 t1 where f: "fold (collect_step now) items (Map.empty, capabilityCacheTTL) = (a1, t1)"
    by (cases "fold (collect_step now) items (Map.empty, capabilityCacheTTL)")
  note facts = collect_fold [OF f]
  have pos: "0 < t1" using facts assms(2) by (auto simp: capabilityCacheTTL_def)
  with assms(1) f have eq: "active = a1" "ttl = t1" by (simp_all add: collect_def)
  show "denies active c \<longleftrightarrow> c \<in> Punishment_Capability ` set items" using facts by (simp add: denies_def eq)
  show "0 < ttl" "ttl \<le> capabilityCacheTTL" using facts pos by (simp_all add: eq)
  show "p \<in> set items \<Longrightarrow> Punishment_EndsAt p = Some til \<Longrightarrow> ttl \<le> til - now" using facts by (simp add: eq)
qed

definition barred :: "moderation_db \<Rightarrow> int64 \<Rightarrow> instant \<Rightarrow> string \<Rightarrow> bool" where
  "barred t root now c \<longleftrightarrow> (\<exists>p \<in> set (punishments t). in_force root now p \<and> Punishment_Capability p = c)"

definition in_cache :: "moderation_env \<Rightarrow> moderation_db \<Rightarrow> instant \<Rightarrow> int64 \<Rightarrow> bool" where
  "in_cache s t clock root \<longleftrightarrow>
     mod_redis s \<and> (\<exists>e. alive clock (capability_key root) t = Some e \<and> Entry_Value e \<noteq> None)"

lemma in_force_ends:
  "\<forall>p \<in> set (filter (in_force root now) rows). \<forall>til. Punishment_EndsAt p = Some til \<longrightarrow> now < til"
  by (auto simp: in_force_def)

definition filled :: "moderation_env \<Rightarrow> instant \<Rightarrow> int64 \<Rightarrow> capability_map \<Rightarrow> int \<Rightarrow> moderation_db \<Rightarrow> moderation_db" where
  "filled s clock root active ttl t =
     t\<lparr>cache := (cache t)(capability_key root \<mapsto> \<lparr>Entry_Value = Some active, Entry_Expires = clock + ttl\<rparr>)\<rparr>"

text \<open>Without a usable entry the answer is read from the table; the cache is filled, or is left as it was.\<close>

lemma activeCapabilities_miss:
  assumes run: "outcome (activeCapabilities s clock1 now clock2 root :: ('o, capability_map) mrepo) t r t'" and miss: "\<not> in_cache s t clock1 root"
  shows "(t' = t \<or> (mod_redis s \<and> (\<exists>active ttl. collect now (filter (in_force root now) (punishments t)) = (active, ttl) \<and>
        t' = filled s clock2 root active ttl t))) \<and>
     (\<forall>active. r = Inr active \<longrightarrow> fst (collect now (filter (in_force root now) (punishments t))) = active)"
proof -
  obtain active ttl where c: "collect now (filter (in_force root now) (punishments t)) = (active, ttl)"
    by (cases "collect now (filter (in_force root now) (punishments t))")
  have hit: "x = None \<and> u = t" if "outcome (cached_capabilities s clock1 root :: ('o, capability_map option) mrepo) t (Inr x) u" for x u
    using that miss unfolding cached_capabilities_def redis_Get_def in_cache_def
    by (auto dest!: outcome_bind_Inr simp: run_simps outcome_stmt split: if_splits sum.splits option.splits)
  have noerr: "False" if "outcome (cached_capabilities s clock1 root :: ('o, capability_map option) mrepo) t (Inl x) u" for x u
    using that unfolding cached_capabilities_def
    by (auto elim!: outcome_bindE simp: run_simps split: if_splits sum.splits)
  have store: "q = Inr () \<and> (u = t \<or> mod_redis s \<and> u = filled s clock2 root active ttl t)"
    if "outcome (store_capabilities s clock2 root active ttl :: ('o, unit) mrepo) t q u" for q u
    using that unfolding store_capabilities_def ignore_error_def redis_Set_def filled_def
    by (auto elim!: outcome_bindE simp: run_simps outcome_stmt split: if_splits)
  have rest: "(t' = t \<or> mod_redis s \<and> t' = filled s clock2 root active ttl t) \<and> (\<forall>a. r = Inr a \<longrightarrow> a = active)"
    if "outcome (bind (ActivePunishments root now) (\<lambda>items. let (active, ttl) = collect now items
         in bind (store_capabilities s clock2 root active ttl) (\<lambda>_. ret active)) :: ('o, capability_map) mrepo) t r t'"
    using that unfolding ActivePunishments_def
    by (auto elim!: outcome_bindE simp: run_simps c dest!: store)
  from run have "outcome (bind (ActivePunishments root now) (\<lambda>items. let (active, ttl) = collect now items
         in bind (store_capabilities s clock2 root active ttl) (\<lambda>_. ret active)) :: ('o, capability_map) mrepo) t r t'"
    unfolding activeCapabilities_def by (rule outcome_bindE) (auto dest!: hit noerr)
  from rest [OF this] c show ?thesis by auto
qed

text \<open>Without a usable entry, a check is denied exactly for the punishments in force.\<close>

lemma Check_miss:
  assumes run: "outcome (Check s clock1 now clock2 root c) t r t'" and miss: "\<not> in_cache s t clock1 root" and "0 < root"
  shows "(r = Inr () \<longrightarrow> \<not> barred t root now CapabilityAccount \<and> \<not> barred t root now c) \<and>
    (r = Inl ErrCapabilityDenied \<longrightarrow> barred t root now CapabilityAccount \<or> barred t root now c) \<and>
    (r = Inr () \<or> r = Inl ErrCapabilityDenied \<or> (\<exists>e. r = Inl (InternalWrap MQueryActive (Some e))))"
proof -
  let ?items = "filter (in_force root now) (punishments t)"
  obtain active ttl where c: "collect now ?items = (active, ttl)" by (cases "collect now ?items")
  have "denies active x \<longleftrightarrow> x \<in> Punishment_Capability ` set ?items" for x
    by (rule collect_result(1) [OF c in_force_ends])
  then have denied: "denies active x \<longleftrightarrow> barred t root now x" for x by (auto simp: barred_def)
  have "\<not> root \<le> 0" using assms(3) by simp
  from run [unfolded Check_def if_not_P [OF this]] show ?thesis
  proof (rule outcome_bindE)
    fix e assume "outcome (internal_error MQueryActive (activeCapabilities s clock1 now clock2 root) :: capability_map mservice) t (Inl e) t'"
      "r = Inl e"
    then show ?thesis unfolding internal_error_def
      by (auto elim!: outcome_map_errorE simp: ErrCapabilityDenied_def bizerr_defs)
  next
    fix a t1 assume a: "outcome (internal_error MQueryActive (activeCapabilities s clock1 now clock2 root) :: capability_map mservice) t (Inr a) t1"
      and b: "outcome (if denies a CapabilityAccount \<or> denies a c then throw ErrCapabilityDenied else ret () :: unit mservice) t1 r t'"
    from a have "a = active" unfolding internal_error_def
      using activeCapabilities_miss [OF _ miss] c by (fastforce simp: outcome_map_error_Inr)
    with b denied show ?thesis by (auto simp: run_simps split: if_splits)
  qed
qed

section \<open>The cache\<close>

lemma alive_earlier: "alive clock3 key t = Some e \<Longrightarrow> clock1 \<le> clock3 \<Longrightarrow> alive clock1 key t = Some e"
  by (auto simp: alive_def split: option.splits if_splits)

text \<open>
  An entry written by a check denies only what was in force, for at most five minutes, and not longer than
  the punishment lasts, up to the delay between reading the clock and writing the entry.
\<close>

lemma cached_denial_lasts:
  assumes run: "outcome (activeCapabilities s clock1 now clock2 root) t (Inr a) t'"
    and miss: "\<not> in_cache s t clock1 root" and redis: "mod_redis s" and later: "clock1 \<le> clock3"
    and hit: "alive clock3 (capability_key root) t' = Some e" "Entry_Value e = Some m" and "denies m c"
  shows "clock3 < clock2 + capabilityCacheTTL \<and> barred t root now c \<and>
    (\<forall>p \<in> set (punishments t). \<forall>til. in_force root now p \<longrightarrow> Punishment_EndsAt p = Some til \<longrightarrow> clock3 < til + (clock2 - now))"
proof -
  let ?items = "filter (in_force root now) (punishments t)"
  have "t' \<noteq> t" using miss redis alive_earlier [OF hit(1) later] hit(2) by (auto simp: in_cache_def)
  with activeCapabilities_miss [OF run miss] obtain active ttl
    where c: "collect now ?items = (active, ttl)" and t': "t' = filled s clock2 root active ttl t" by blast
  note facts = collect_result [OF c in_force_ends]
  have "m = active" "clock3 < clock2 + ttl"
    using hit by (auto simp: t' filled_def alive_def split: if_splits)
  moreover have "barred t root now c"
    using facts(1) [of c] \<open>denies m c\<close> \<open>m = active\<close> by (auto simp: barred_def)
  moreover have "ttl \<le> til - now" if "p \<in> set (punishments t)" "in_force root now p" "Punishment_EndsAt p = Some til" for p til
    using facts(4) [of p til] that by auto
  ultimately show ?thesis using facts(3) by fastforce
qed

section \<open>Punishing and revoking\<close>

lemma calm_present: "present e (Some x) w = (Inr x, w)" "result (Inr x) w = (Inr x, w)"
  by (simp_all add: present_def result_def ret_def)

lemma calm_invalidate:
  "calm w \<Longrightarrow> invalidate s root w =
     (Inr (), if mod_redis s then w\<lparr>tables := tables w\<lparr>cache := (cache (tables w))(capability_key root := None)\<rparr>\<rparr> else w)"
  by (simp add: invalidate_def ignore_error_def redis_Del_def bind_def attempt_def calm_stmt ret_def)

lemma calm_notify:
  "mod_notify s root ev title content ty k w =
     (Inr (), if mod_notifier s then w\<lparr>outbox := outbox w @ [ModerationNotice root ev title content ty (mod_id k)]\<rparr> else w)"
  by (simp add: mod_notify_def emit_def ret_def)

lemma calm_CompleteReview:
  assumes calm: "calm w" and r: "r \<in> set (reports (tables w))" "under_review rid adminID r" and inv: "moderation_inv (tables w)"
    and st: "status \<noteq> ReportReviewing" and ok: "punishments_ok (punishments (tables w) @ [p])" "audit_logs_ok (audit_logs (tables w) @ [audit])"
  shows "CompleteReview rid adminID status (Some p) audit now w =
    (Inr True, w\<lparr>tables := reviewed rid adminID status (Some p) audit now (tables w)\<rparr>)"
proof -
  let ?P = "under_review rid adminID" and ?f = "review_report_row status now"
  have "?f r \<noteq> r"
  proof
    assume "?f r = r"
    then have "Report_Status (?f r) = Report_Status r" by simp
    with st r(2) show False by (simp add: review_report_row_def under_review_def)
  qed
  with r have changed: "rows_changed ?P ?f (reports (tables w)) \<noteq> 0"
    by (auto simp: rows_changed_def filter_empty_conv)
  have keys: "reports_ok (update_rows ?P ?f (reports (tables w)))"
  proof -
    have "map Report_ID (update_rows ?P ?f (reports (tables w))) = map Report_ID (reports (tables w))"
      by (rule map_key_update_rows) (simp add: review_report_row_def)
    with inv show ?thesis by (simp add: moderation_inv_def mod_keys)
  qed
  show ?thesis
    unfolding CompleteReview_def
    using calm calm [unfolded calm_def] changed keys ok
    by (simp add: bind_def transaction_def ret_def calm_gormDB calm_update_where calm_create_row faulty_def Let_def
        reviewed_def)
qed

definition dropped :: "moderation_env \<Rightarrow> int64 \<Rightarrow> moderation_db \<Rightarrow> moderation_db" where
  "dropped s root t = (if mod_redis s then t\<lparr>cache := (cache t)(capability_key root := None)\<rparr> else t)"

lemma dropped_miss [simp]: "\<not> in_cache s (dropped s root t) clock root"
  by (simp add: in_cache_def dropped_def alive_def)

lemma dropped_rows [simp]:
  "punishments (dropped s root t) = punishments t" "reports (dropped s root t) = reports t"
  "audit_logs (dropped s root t) = audit_logs t" "appeals (dropped s root t) = appeals t"
  by (simp_all add: dropped_def)

lemma DecideReport_punishes:
  assumes calm: "calm w" and inv: "moderation_inv (tables w)" and k: "mod_parseID raw = Inr k"
    and rep: "rep \<in> set (reports (tables w))" "under_review k adminID rep"
    and req: "DecisionReq_Action req = ''punish''" "DecisionReq_Capability req \<in> set capabilities"
      "punishment_ends now (DecisionReq_DurationMinutes req) = Inr til"
    and fresh: "pid \<notin> Punishment_ID ` set (punishments (tables w))" "lid \<notin> Audit_ID ` set (audit_logs (tables w))"
  shows "\<exists>w'. DecideReport s raw adminID req now pid lid w = (Inr (), w') \<and> calm w' \<and>
    tables w' = dropped s (Report_TargetRootUserID rep) (reviewed k adminID ReportActioned
      (Some (new_punishment pid rep req til adminID now))
      (decision_audit lid rep req (Some (new_punishment pid rep req til adminID now)) adminID now) now (tables w))"
proof -
  let ?p = "new_punishment pid rep req til adminID now"
  let ?l = "decision_audit lid rep req (Some ?p) adminID now"
  have k': "Report_ID rep = k" using rep(2) by (simp add: under_review_def)
  have "lookup Report_ID (reports (tables w)) k = Some rep"
    using lookup_member [of Report_ID "reports (tables w)" rep] rep(1) inv k' by (simp add: moderation_inv_def mod_keys)
  then have found: "FindReport k w = (Inr (Some rep), w)"
    using calm by (simp add: FindReport_def bind_def calm_gormDB calm_find_row lookup_def)
  have ok: "punishments_ok (punishments (tables w) @ [?p])" "audit_logs_ok (audit_logs (tables w) @ [?l])"
    using fresh inv by (auto simp: moderation_inv_def mod_keys new_punishment_def decision_audit_def)
  have review: "CompleteReview k adminID (decision_status req) (Some ?p) ?l now w =
    (Inr True, w\<lparr>tables := reviewed k adminID ReportActioned (Some ?p) ?l now (tables w)\<rparr>)"
    using calm_CompleteReview [OF calm rep inv _ ok, of ReportActioned now] req(1) by (simp add: decision_status_def)
  have pun: "punish_decision pid rep req adminID now = Inr (Some ?p)" using req by (simp add: punish_decision_def)
  have own: "Punishment_RootUserID ?p = Report_TargetRootUserID rep" by (simp add: new_punishment_def)
  have dec: "decidable adminID (Some rep) = Some rep" using rep(2) by (simp add: decidable_def under_review_def)
  show ?thesis
    unfolding DecideReport_def finish_decision_def k pun k' own
    using calm req(1)
    by (simp add: bind_def calm_present internal_error_def map_error_def found dec pun k' review own calm_invalidate calm_notify ret_def
        dropped_def)
qed

section \<open>Outcomes of decisions\<close>

lemma invalidate_outcome:
  "outcome (invalidate s root) t r t' \<Longrightarrow> r = Inr () \<and> (t' = t \<or> t' = dropped s root t)"
  unfolding invalidate_def ignore_error_def redis_Del_def dropped_def
  by (auto elim!: outcome_bindE simp: run_simps outcome_stmt split: if_splits)

lemma mod_notify_outcome: "outcome (mod_notify s root ev title content ty k) t r t' \<Longrightarrow> r = Inr () \<and> t' = t"
  by (auto simp: mod_notify_def run_simps split: if_splits)

lemma invalidate_or_not_outcome:
  "outcome (case pun of None \<Rightarrow> ret () | Some p \<Rightarrow> invalidate s (Punishment_RootUserID p)) t r t' \<Longrightarrow>
     r = Inr () \<and> (t' = t \<or> (\<exists>p. pun = Some p \<and> t' = dropped s (Punishment_RootUserID p) t))"
  by (cases pun) (auto simp: run_simps dest: invalidate_outcome)

text \<open>A decision happens as a whole, by the assignee, or not at all.\<close>

definition decision_made ::
  "moderation_env \<Rightarrow> int64 \<Rightarrow> report \<Rightarrow> int64 \<Rightarrow> admin_decision_req \<Rightarrow> punishment option \<Rightarrow> int64 \<Rightarrow> instant
    \<Rightarrow> moderation_db \<Rightarrow> moderation_db \<Rightarrow> bool" where
  "decision_made s k rep adminID req pun lid now t t' \<longleftrightarrow>
     (let u = reviewed k adminID (decision_status req) pun (decision_audit lid rep req pun adminID now) now t
      in t' = u \<or> (\<exists>p. pun = Some p \<and> t' = dropped s (Punishment_RootUserID p) u))"

lemma finish_decision_outcome:
  assumes "outcome (finish_decision s k rep adminID req pun lid now) t r t'"
  shows "(r = Inr () \<longrightarrow> (\<exists>x \<in> set (reports t). under_review (Report_ID rep) adminID x) \<and>
      decision_made s (Report_ID rep) rep adminID req pun lid now t t') \<and> (\<forall>e. r = Inl e \<longrightarrow> t' = t)"
proof -
  let ?review = "CompleteReview (Report_ID rep) adminID (decision_status req) pun (decision_audit lid rep req pun adminID now) now"
  have fail: "u = t" if "outcome (internal_error MDecideReport ?review :: bool mservice) t (Inl e) u" for e u
    using that unfolding internal_error_def CompleteReview_def
    by (auto elim!: outcome_map_errorE elim: connected_transactionE)
  from assms show ?thesis unfolding finish_decision_def
  proof (rule outcome_bindE)
    fix ok t1
    assume a: "outcome (internal_error MDecideReport ?review :: bool mservice) t (Inr ok) t1"
      and b: "outcome (if \<not> ok then throw ErrReportNotFound
        else bind (case pun of None \<Rightarrow> ret () | Some p \<Rightarrow> invalidate s (Punishment_RootUserID p)) (\<lambda>_.
          mod_notify s (Report_TargetRootUserID rep) (''report.'' @ DecisionReq_Action req) TReportResult
            (DecisionReq_Reason req) ''report'' k)) t1 r t'"
    from a have "outcome (?review :: (moderation_event, bool) mrepo) t (Inr ok) t1"
      unfolding internal_error_def by (simp add: outcome_map_error_Inr)
    from CompleteReview_success [OF this] b show ?thesis
      by (auto simp: run_simps decision_made_def Let_def elim!: outcome_bindE dest!: invalidate_or_not_outcome mod_notify_outcome)
  qed (use fail in auto)
qed

lemma DecideReport_outcome:
  assumes run: "outcome (DecideReport s raw adminID req now pid lid) t r t'"
  shows "(r = Inr () \<longrightarrow> (\<exists>k rep pun. mod_parseID raw = Inr k \<and> rep \<in> set (reports t) \<and> under_review k adminID rep \<and>
      punish_decision pid rep req adminID now = Inr pun \<and> decision_made s k rep adminID req pun lid now t t')) \<and>
    (\<forall>e. r = Inl e \<longrightarrow> t' = t)"
  using run unfolding DecideReport_def FindReport_def
  by (elim read_then [rotated])
    (auto intro!: mod_reads_keep [unfolded FindReport_def] dest!: found_in present_given result_given finish_decision_outcome
      dest: find_member [OF sym] simp: decidable_def under_review_def split: option.splits if_splits)

lemma punished_in_force:
  assumes "pun = new_punishment pid rep req til adminID now" and "now \<le> later"
    and "\<forall>e. til = Some e \<longrightarrow> later < e"
  shows "in_force (Report_TargetRootUserID rep) later pun"
  using assms by (auto simp: in_force_def new_punishment_def split: option.split)

lemma punished_barred:
  assumes "punishments t' = rows @ [new_punishment pid rep req til adminID now]" and "now \<le> later"
    and "\<forall>e. til = Some e \<longrightarrow> later < e"
  shows "barred t' (Report_TargetRootUserID rep) later (DecisionReq_Capability req)"
  using punished_in_force [OF refl assms(2,3)] assms(1) by (auto simp: barred_def new_punishment_def)

lemma RevokePunishment_outcome:
  assumes run: "outcome (RevokePunishment s raw adminID reason lid now1 now) t r t'" 
  shows "(r = Inr () \<longrightarrow> (\<exists>pid p. mod_parseID raw = Inr pid \<and> find (active_id pid) (punishments t) = Some p \<and>
      punishments t' = update_rows (active_id pid) (revoke_row adminID now reason) (punishments t) \<and>
      (cache t' = cache t \<or> (\<forall>clock. \<not> in_cache s t' clock (Punishment_RootUserID p))))) \<and> (\<forall>e. r = Inl e \<longrightarrow> t' = t)"
proof -
  have fail: "u = t" if "outcome (internal_error MRevoke (repo_RevokePunishment k adminID reason now l) :: (int64 \<times> bool) mservice) t (Inl e) u"
    for k l e u
    using that unfolding internal_error_def repo_RevokePunishment_def
    by (auto elim!: outcome_map_errorE elim: connected_transactionE)
  have step: "(r = Inr () \<longrightarrow> (\<exists>p. find (active_id k) (punishments t) = Some p \<and>
      punishments t' = update_rows (active_id k) (revoke_row adminID now reason) (punishments t) \<and>
      (cache t' = cache t \<or> (\<forall>clock. \<not> in_cache s t' clock (Punishment_RootUserID p))))) \<and> (\<forall>e. r = Inl e \<longrightarrow> t' = t)"
    if "outcome (bind (internal_error MRevoke (repo_RevokePunishment k adminID reason now l)) (\<lambda>(rootUserID, ok).
     if \<not> ok then throw ErrPunishmentNotFound
     else bind (invalidate s rootUserID) (\<lambda>_.
       mod_notify s rootUserID ''punishment.revoked'' TPunishmentRevoked reason ''punishment'' k))) t r t'" for k l
    using that
  proof (rule outcome_bindE)
    fix x t1
    assume a: "outcome (internal_error MRevoke (repo_RevokePunishment k adminID reason now l) :: (int64 \<times> bool) mservice) t (Inr x) t1"
      and b: "outcome ((\<lambda>(rootUserID, ok). if \<not> ok then throw ErrPunishmentNotFound
     else bind (invalidate s rootUserID) (\<lambda>_.
       mod_notify s rootUserID ''punishment.revoked'' TPunishmentRevoked reason ''punishment'' k)) x) t1 r t'"
    from a have "outcome (repo_RevokePunishment k adminID reason now l :: (moderation_event, int64 \<times> bool) mrepo) t (Inr x) t1"
      unfolding internal_error_def by (simp add: outcome_map_error_Inr)
    from RevokePunishment_success [OF this] b show ?thesis
      by (auto simp: run_simps revoked_def elim!: outcome_bindE dest!: invalidate_outcome mod_notify_outcome)
  qed (use fail in auto)
  from run [unfolded RevokePunishment_def] show ?thesis
    by (rule read_then [OF mod_reads_keep(1)]) (auto dest!: result_given step)
qed

lemma revoked_barred:
  assumes "punishments t' = update_rows (active_id pid) (revoke_row adminID now reason) (punishments t)"
  shows "barred t' root later c \<longleftrightarrow>
    (\<exists>q \<in> set (punishments t). Punishment_ID q \<noteq> pid \<and> in_force root later q \<and> Punishment_Capability q = c)"
proof -
  have "in_force root later (if active_id pid q then revoke_row adminID now reason q else q) \<longleftrightarrow>
      Punishment_ID q \<noteq> pid \<and> in_force root later q" for q
    by (auto simp: in_force_def active_id_def revoke_row_def)
  moreover have "Punishment_Capability (if active_id pid q then revoke_row adminID now reason q else q) = Punishment_Capability q" for q
    by (simp add: revoke_row_def)
  ultimately show ?thesis unfolding barred_def assms set_update_rows by (simp only: bex_simps conj_assoc)
qed

section \<open>Durations\<close>

lemma punishment_end_exact: "0 < m \<Longrightarrow> m \<le> 153722867 \<Longrightarrow> punishment_end now m = now + m * 60000"
  by (simp add: punishment_end_def wrap64_id in_int64_def)

lemma punishment_end_wraps:
  assumes "153722867 < m" and "m \<le> 307445734"
  shows "punishment_end now m < now"
proof -
  have "wrap64 (m * 60000000000) = m * 60000000000 - 2 ^ 64"
  proof -
    have "(m * 60000000000 + 2 ^ 63) mod 2 ^ 64 = (m * 60000000000 + 2 ^ 63 - 2 ^ 64) mod 2 ^ 64"
      using mod_diff_right_eq [of "m * 60000000000 + 2 ^ 63" "2 ^ 64" "2 ^ 64"] by simp
    also have "\<dots> = m * 60000000000 + 2 ^ 63 - 2 ^ 64" by (rule mod_pos_pos_trivial) (use assms in auto)
    finally show ?thesis by (simp add: wrap64_def)
  qed
  with assms show ?thesis by (simp add: punishment_end_def)
qed

section \<open>Appeals\<close>

lemma second_appeal:
  assumes run: "outcome (CreateAppeal s root raw reason now aid) t r t'" and k: "mod_parseID raw = Inr pid"
    and a: "a \<in> set (appeals t)" "Appeal_PunishmentID a = pid"
  shows "t' = t \<and> (\<exists>e. r = Inl e)"
proof -
  have full: "\<not> appeals_ok (appeals t @ [new_appeal aid pid root reason now])" for root
    using a by (auto simp: appeals_ok_def new_appeal_def)
  have step: "t' = t \<and> (\<exists>e. r = Inl e)" if "outcome (bind (map_error f (repo_CreateAppeal (new_appeal aid pid root reason now)))
      (\<lambda>_. ret x) :: appeal_response mservice) t r t'" for f x root
    using that unfolding repo_CreateAppeal_def create_child_def
    by (elim outcome_bindE outcome_map_errorE) (auto simp: run_simps outcome_stmt full split: if_splits)
  show ?thesis
    using run unfolding CreateAppeal_def Let_def FindPunishment_def
    by (elim read_then [rotated])
      (auto intro!: mod_reads_keep [unfolded FindPunishment_def] dest!: result_given present_given
        dest: step simp: k run_simps split: if_splits)
qed

end
