(* ===== verification/Moderation_Example.thy ===== *)
theory Moderation_Example
  imports Moderation_Live
begin

text \<open>
  A concrete course of events, the one of the package's own test: user 100 reports a topic of user 200,
  administrator 9 claims the report and takes the capability \<open>content\<close> away for an hour, user 200 appeals and
  the appeal is approved. The states are written out and
  reached by the repository writes.
\<close>

definition mx_resolver :: target_resolver where
  "mx_resolver = \<lparr>ResolveTarget = (\<lambda>_ _ _ _. Inr (Some \<lparr>Target_OwnerRootUserID = 200, Target_Payload = Some ''{}''\<rparr>)),
     HideTarget = (\<lambda>_ _. True)\<rparr>"

text \<open>The message of the MySQL driver for a duplicate key.\<close>

definition mx_driver_text :: "db_err \<Rightarrow> string" where
  "mx_driver_text e = (case e of
      UniqueViolation \<Rightarrow>
        ''Error 1062 (23000): Duplicate entry '' @ [CHR 39] @ ''13'' @ [CHR 39] @ '' for key '' @ [CHR 39] @
        ''moderation_appeals.uk_moderation_appeal_punishment'' @ [CHR 39]
    | _ \<Rightarrow> ''driver: bad connection'')"

definition mx_env :: moderation_env where
  "mx_env = \<lparr>mod_redis = True, mod_targets = Some mx_resolver, mod_notifier = True, mod_show_time = (\<lambda>_. ''time''),
     driver_text = mx_driver_text, same_text = (=)\<rparr>"

definition mx_world :: "moderation_db \<Rightarrow> (moderation_db, moderation_event) world" where
  "mx_world t = \<lparr>tables = t, connected = True, faults = [], outbox = []\<rparr>"

definition mx_report :: "report_status \<Rightarrow> int64 option \<Rightarrow> instant \<Rightarrow> report" where
  "mx_report st assignee updated =
     \<lparr>Report_ID = 11, Report_ReporterRootUserID = 100, Report_ReporterUserID = 101, Report_TargetType = ''topic'',
      Report_TargetID = ''abc'', Report_TargetRootUserID = 200, Report_Reason = ''spam'', Report_Description = [],
      Report_Status = st, Report_AssigneeAdminID = assignee, Report_CreatedAt = 1000, Report_UpdatedAt = updated,
      Report_WithdrawnAt = None\<rparr>"

definition mx_snapshot :: report_snapshot where
  "mx_snapshot = \<lparr>Snapshot_ID = 12, Snapshot_ReportID = 11, Snapshot_Payload = ''{}'', Snapshot_CreatedAt = 1000\<rparr>"

definition mx_punish :: admin_decision_req where
  "mx_punish = \<lparr>DecisionReq_Action = ''punish'', DecisionReq_Reason = ''confirmed'',
     DecisionReq_Capability = ''content'', DecisionReq_DurationMinutes = Some 60\<rparr>"

definition mx_punishment :: punishment where
  "mx_punishment =
     \<lparr>Punishment_ID = 13, Punishment_RootUserID = 200, Punishment_ReportID = Some 11, Punishment_Capability = ''content'',
      Punishment_Reason = ''confirmed'', Punishment_Status = PunishmentActive, Punishment_StartsAt = 3000,
      Punishment_EndsAt = Some 3603000, Punishment_CreatedBy = 9, Punishment_CreatedAt = 3000,
      Punishment_RevokedBy = None, Punishment_RevokedAt = None, Punishment_RevokeReason = []\<rparr>"

definition mx_decision :: audit_log where
  "mx_decision = \<lparr>Audit_ID = 14, Audit_ReportID = Some 11, Audit_PunishmentID = Some 13, Audit_AppealID = None,
     Audit_AdminID = 9, Audit_Action = ''punish'', Audit_Detail = [(''reason'', ''confirmed'')], Audit_CreatedAt = 3000\<rparr>"

definition mx_appeal :: "appeal_status \<Rightarrow> appeal" where
  "mx_appeal st = \<lparr>Appeal_ID = 15, Appeal_PunishmentID = 13, Appeal_RootUserID = 200, Appeal_Reason = ''please'',
     Appeal_Status = st, Appeal_Resolution = [], Appeal_ReviewedBy = None, Appeal_CreatedAt = 4000,
     Appeal_UpdatedAt = 4000\<rparr>"

definition mx_tables ::
  "report list \<Rightarrow> punishment list \<Rightarrow> appeal list \<Rightarrow> audit_log list \<Rightarrow> moderation_db" where
  "mx_tables rs ps as ls = \<lparr>reports = rs, snapshots = map (\<lambda>_. mx_snapshot) rs, punishments = ps, appeals = as,
     audit_logs = ls, cache = Map.empty\<rparr>"

definition mx_empty :: moderation_db where "mx_empty = mx_tables [] [] [] []"
definition mx_reported :: moderation_db where "mx_reported = mx_tables [mx_report ReportPending None 1000] [] [] []"
definition mx_claimed :: moderation_db where
  "mx_claimed = mx_tables [mx_report ReportReviewing (Some 9) 2000] [] [] []"
definition mx_punished :: moderation_db where
  "mx_punished = mx_tables [mx_report ReportActioned (Some 9) 3000] [mx_punishment] [] [mx_decision]"
definition mx_appealed :: moderation_db where
  "mx_appealed = mx_tables [mx_report ReportActioned (Some 9) 3000] [mx_punishment] [mx_appeal AppealPending] [mx_decision]"
definition mx_revoked :: moderation_db where
  "mx_revoked = mx_tables [mx_report ReportActioned (Some 9) 3000] [revoke_row 9 5000 ''mistake'' mx_punishment] []
     [mx_decision, (admin_audit 16 9 ''revoke'' (''reason'', ''mistake'') 5000)\<lparr>Audit_PunishmentID := Some 13\<rparr>]"

lemmas mx_rows = mx_report_def mx_snapshot_def mx_punishment_def mx_decision_def mx_appeal_def mx_tables_def
lemmas mx_states = mx_empty_def mx_reported_def mx_claimed_def mx_punished_def mx_appealed_def mx_revoked_def mx_rows
lemmas mx_eval = bind_def transaction_def ret_def calm_gormDB calm_update_where calm_create_row calm_create_child
  calm_find_row faulty_def Let_def update_rows_def rows_changed_def reports_ok_def snapshots_ok_def punishments_ok_def
  appeals_ok_def audit_logs_ok_def

lemma mx_world_simps [simp]: "tables (mx_world t) = t" "calm (mx_world t)" "faults (mx_world t) = []"
    "(mx_world t)\<lparr>tables := u\<rparr> = mx_world u"
  by (simp_all add: mx_world_def calm_def)

lemma mx_outcome: "m (mx_world t) = (r, mx_world t') \<Longrightarrow> outcome m t r t'"
  using outcomeI [of m "mx_world t" r "mx_world t'"] by simp

lemma mx_run: "outcome m t (fst (m (mx_world t))) (tables (snd (m (mx_world t))))"
  using outcomeI [of m "mx_world t" "fst (m (mx_world t))" "snd (m (mx_world t))"] by simp

lemma mx_runs:
  "repo_CreateReport (mx_report ReportPending None 1000) mx_snapshot (mx_world mx_empty) = (Inr (), mx_world mx_reported)"
  "repo_ClaimReport 11 9 2000 (mx_world mx_reported) = (Inr True, mx_world mx_claimed)"
  "CompleteReview 11 9 ReportActioned (Some mx_punishment) mx_decision 3000 (mx_world mx_claimed) = (Inr True, mx_world mx_punished)"
  "repo_CreateAppeal (mx_appeal AppealPending) (mx_world mx_punished) = (Inr (), mx_world mx_appealed)"
  "repo_RevokePunishment 13 9 ''mistake'' 5000 (admin_audit 16 9 ''revoke'' (''reason'', ''mistake'') 5000) (mx_world mx_punished)
     = (Inr (200, True), mx_world mx_revoked)"
  by (simp_all add: mx_eval mx_states repo_CreateReport_def repo_ClaimReport_def CompleteReview_def
      repo_CreateAppeal_def claim_report_row_def under_review_def review_report_row_def repo_RevokePunishment_def
      revoke_row_def admin_audit_def)

lemma mx_outcomes:
  "mrun (repo_CreateReport (mx_report ReportPending None 1000) mx_snapshot) mx_empty (Inr ()) mx_reported"
  "mrun (repo_ClaimReport 11 9 2000) mx_reported (Inr True) mx_claimed"
  "mrun (CompleteReview 11 9 ReportActioned (Some mx_punishment) mx_decision 3000) mx_claimed (Inr True) mx_punished"
  "mrun (repo_CreateAppeal (mx_appeal AppealPending)) mx_punished (Inr ()) mx_appealed"
  by (rule mx_outcome, rule mx_runs)+

lemma mx_steps:
  "mod_step mx_empty mx_reported" "mod_step mx_reported mx_claimed" "mod_step mx_claimed mx_punished"
  "mod_step mx_punished mx_appealed"
proof -
  show "mod_step mx_empty mx_reported"
    by (rule submit [OF mx_outcomes(1)]) (simp add: fresh_report_def mx_rows)
  show "mod_step mx_reported mx_claimed" by (rule claim [OF mx_outcomes(2)])
  show "mod_step mx_claimed mx_punished"
    by (rule review [OF mx_outcomes(3)]) (simp add: review_fits_def mx_states capabilities_def CapabilityContent_def)
  show "mod_step mx_punished mx_appealed"
    by (rule plead [OF mx_outcomes(4), where p = mx_punishment]) (simp_all add: mx_states)
qed

lemma mx_reachable:
  "reachable moderation_start mod_step mx_empty" "reachable moderation_start mod_step mx_reported"
  "reachable moderation_start mod_step mx_claimed" "reachable moderation_start mod_step mx_punished"
  "reachable moderation_start mod_step mx_appealed"
proof -
  note step = reachable_step [where start = moderation_start and step = mod_step]
  show e: "reachable moderation_start mod_step mx_empty"
    by (rule reachable_start) (simp add: moderation_start_def mx_states)
  show r: "reachable moderation_start mod_step mx_reported" by (rule step [OF e mx_steps(1)])
  show c: "reachable moderation_start mod_step mx_claimed" by (rule step [OF r mx_steps(2)])
  show p: "reachable moderation_start mod_step mx_punished" by (rule step [OF c mx_steps(3)])
  show "reachable moderation_start mod_step mx_appealed" by (rule step [OF p mx_steps(4)])
qed

lemmas mx_invs = mx_reachable [THEN moderation_sys.reachable_inv]

lemma mx_ids: "mod_parseID (mod_id 11) = Inr 11" "mod_parseID (mod_id 13) = Inr 13" "mod_parseID (mod_id 15) = Inr 15"
  by (simp_all add: mod_parseID_print)

end
