(* ===== verification/Moderation_Props.thy ===== *)
theory Moderation_Props
  imports Moderation_Example
begin

text \<open>
  The properties of moderation. Those about rows hold in every state the transition system reaches from
  empty tables; those about checks hold for any state of the tables and the cache.
\<close>

section \<open>Rows\<close>

text \<open>
  Every call of the moderation service, with any arguments, result and failing statement, is a sequence
  of repository steps and cache changes and keeps the invariant of the tables.
\<close>

theorem moderation_calls_keep_invariant:
  assumes "mod_call s t t'" and "moderation_inv t"
  shows "mod_step\<^sup>*\<^sup>* t t' \<and> moderation_inv t'"
  using mod_calls [OF assms] moderation_service.step_inv [OF assms] by simp

theorem moderation_calls_keep_invariant_witness:
  "\<exists>t'. mod_call mx_env mx_claimed t' \<and> moderation_inv t'"
proof -
  let ?m = "DecideReport mx_env (mod_id 11) 9 mx_punish 3000 13 14"
  have "mod_call mx_env mx_claimed (tables (snd (?m (mx_world mx_claimed))))"
    by (rule call_decide, rule mx_run)
  with moderation_calls_keep_invariant [OF this mx_invs(3)] show ?thesis by blast
qed

text \<open>
  C16: Every punishment can be traced: it comes from one report, which was actioned, by the administrator who
  had claimed it and against the owner of the reported target; no report yields two punishments; every report
  has its snapshot; the audit log has exactly one decision for a decided report and none for another; every
  revocation has an audit row.
\<close>

theorem punishments_traceable:
  assumes "reachable moderation_start mod_step t"
  shows "(\<forall>p \<in> set (punishments t). \<exists>r \<in> set (reports t).
      Punishment_ReportID p = Some (Report_ID r) \<and> Report_Status r = ReportActioned \<and>
      Report_AssigneeAdminID r = Some (Punishment_CreatedBy p) \<and>
      Report_TargetRootUserID r = Punishment_RootUserID p) \<and>
    distinct (map Punishment_ReportID (punishments t)) \<and>
    map Snapshot_ReportID (snapshots t) = map Report_ID (reports t) \<and>
    (\<forall>r \<in> set (reports t). length (filter (\<lambda>l. Audit_ReportID l = Some (Report_ID r)) (audit_logs t)) =
      (if Report_Status r = ReportRejected \<or> Report_Status r = ReportActioned then 1 else 0)) \<and>
    (\<forall>p \<in> set (punishments t). Punishment_Status p = PunishmentRevoked \<longrightarrow>
      (\<exists>l \<in> set (audit_logs t). Audit_PunishmentID l = Some (Punishment_ID p) \<and> Audit_ReportID l = None))"
proof -
  have inv: "moderation_inv t" using assms by (rule moderation_sys.reachable_inv)
  have "\<exists>r \<in> set (reports t). Punishment_ReportID p = Some (Report_ID r) \<and> Report_Status r = ReportActioned \<and>
      Report_AssigneeAdminID r = Some (Punishment_CreatedBy p) \<and> Report_TargetRootUserID r = Punishment_RootUserID p"
    if "p \<in> set (punishments t)" for p
    using inv that unfolding moderation_inv_def punishments_inv_def sanction_of_def by fastforce
  with inv show ?thesis
    by (auto simp: moderation_inv_def punishments_inv_def reports_inv_def audit_inv_def audited_def decided_def
        revocations_audited_def)
qed

theorem punishments_traceable_witness:
  "punishments mx_appealed = [mx_punishment] \<and> distinct (map Punishment_ReportID (punishments mx_appealed))"
  using punishments_traceable [OF mx_reachable(5)] by (simp add: mx_appealed_def mx_tables_def)

text \<open>
  A punishment has at most one appeal, made by the punished user; an approved appeal goes with a revoked
  punishment, and the audit log has exactly one row for a decided appeal and none for a pending one.
\<close>

theorem appeals_sound:
  assumes "reachable moderation_start mod_step t" and "a \<in> set (appeals t)"
  shows "(\<forall>b \<in> set (appeals t). Appeal_PunishmentID b = Appeal_PunishmentID a \<longrightarrow> b = a) \<and>
    (\<exists>p \<in> set (punishments t). Punishment_ID p = Appeal_PunishmentID a \<and>
      Punishment_RootUserID p = Appeal_RootUserID a \<and>
      (Appeal_Status a = AppealApproved \<longrightarrow> Punishment_Status p = PunishmentRevoked)) \<and>
    length (filter (\<lambda>l. Audit_AppealID l = Some (Appeal_ID a)) (audit_logs t)) =
      (if Appeal_Status a = AppealPending then 0 else 1)"
proof -
  have inv: "moderation_inv t" using assms(1) by (rule moderation_sys.reachable_inv)
  then have "b = a" if "b \<in> set (appeals t)" "Appeal_PunishmentID b = Appeal_PunishmentID a" for b
    using that assms(2) by (auto simp: moderation_inv_def mod_keys distinct_map inj_on_def)
  moreover obtain p where "p \<in> set (punishments t)" "plea_of p a"
    using inv assms(2) by (auto simp: moderation_inv_def appeals_inv_def)
  moreover have "length (filter (\<lambda>l. Audit_AppealID l = Some (Appeal_ID a)) (audit_logs t)) =
      (if Appeal_Status a = AppealPending then 0 else 1)"
    using inv assms(2) by (simp add: moderation_inv_def audit_inv_def audited_def appeal_decided_def)
  ultimately show ?thesis unfolding plea_of_def by (metis (no_types, lifting))
qed

theorem appeals_sound_witness:
  "\<exists>p \<in> set (punishments mx_appealed). Punishment_ID p = Appeal_PunishmentID (mx_appeal AppealPending)"
  using appeals_sound [OF mx_reachable(5), of "mx_appeal AppealPending"] by (auto simp: mx_appealed_def mx_tables_def)

text \<open>
  C17: Along any sequence of calls a report keeps its reporter, target and reason, moves only from pending to
  withdrawn or to reviewing and from reviewing to rejected or actioned, and keeps its assignee once claimed;
  a revoked punishment and a decided appeal never change again; audit rows and snapshots are never changed or
  removed.
\<close>

theorem moderation_life_cycle:
  assumes "(mod_call s)\<^sup>*\<^sup>* t t'" and "moderation_inv t"
  shows "(\<forall>r \<in> set (reports t). \<exists>r' \<in> set (reports t'). Report_ID r' = Report_ID r \<and>
      Report_ReporterRootUserID r' = Report_ReporterRootUserID r \<and> Report_TargetID r' = Report_TargetID r \<and>
      Report_TargetRootUserID r' = Report_TargetRootUserID r \<and>
      (Report_Status r' = Report_Status r \<or> Report_Status r = ReportPending \<or>
        Report_Status r = ReportReviewing \<and> (Report_Status r' = ReportRejected \<or> Report_Status r' = ReportActioned)) \<and>
      (Report_Status r \<noteq> ReportPending \<longrightarrow> Report_AssigneeAdminID r' = Report_AssigneeAdminID r)) \<and>
    (\<forall>p \<in> set (punishments t). \<exists>p' \<in> set (punishments t'). Punishment_ID p' = Punishment_ID p \<and>
      Punishment_RootUserID p' = Punishment_RootUserID p \<and> Punishment_EndsAt p' = Punishment_EndsAt p \<and>
      (Punishment_Status p = PunishmentRevoked \<longrightarrow> p' = p)) \<and>
    (\<forall>a \<in> set (appeals t). \<exists>a' \<in> set (appeals t'). Appeal_ID a' = Appeal_ID a \<and>
      (Appeal_Status a \<noteq> AppealPending \<longrightarrow> a' = a)) \<and>
    prefix (audit_logs t) (audit_logs t') \<and> prefix (snapshots t) (snapshots t')"
proof -
  note adv = mod_call_run_advances [OF assms, THEN conjunct1, unfolded advances_def]
  show ?thesis
    apply (intro conjI)
    subgoal by (rule rows_advanceD [of report_next]) (use adv in \<open>auto simp: report_next_def report_later_def\<close>)
    subgoal by (rule rows_advanceD [of punishment_next]) (use adv in \<open>auto simp: punishment_next_def\<close>)
    subgoal by (rule rows_advanceD [of appeal_next]) (use adv in \<open>auto simp: appeal_next_def\<close>)
    using adv by simp_all
qed

theorem moderation_life_cycle_witness:
  "\<exists>t'. (mod_call mx_env)\<^sup>*\<^sup>* mx_claimed t' \<and> prefix (snapshots mx_claimed) (snapshots t')"
proof -
  let ?t = "tables (snd (DecideReport mx_env (mod_id 11) 9 mx_punish 3000 13 14 (mx_world mx_claimed)))"
  have "(mod_call mx_env)\<^sup>*\<^sup>* mx_claimed ?t" by (rule r_into_rtranclp, rule call_decide, rule mx_run)
  with moderation_life_cycle [OF this mx_invs(3)] show ?thesis by blast
qed

section \<open>Decisions\<close>

text \<open>
  C18: A report is decided as a whole and only by the administrator who claimed it: when the call succeeds the
  report was under review by the caller, and afterwards the report, the punishment if any and the audit row are
  all there; when it fails the tables are as before.
\<close>

theorem only_assignee_decides:
  assumes "outcome (DecideReport s raw adminID req now pid lid) t r t'"
  shows "(r = Inr () \<longrightarrow>
      (\<exists>k rep pun. mod_parseID raw = Inr k \<and> rep \<in> set (reports t) \<and> Report_ID rep = k \<and>
        Report_Status rep = ReportReviewing \<and> Report_AssigneeAdminID rep = Some adminID \<and>
        punish_decision pid rep req adminID now = Inr pun \<and>
        reports t' = update_rows (under_review k adminID) (review_report_row (decision_status req) now) (reports t) \<and>
        punishments t' = punishments t @ (case pun of None \<Rightarrow> [] | Some p \<Rightarrow> [p]) \<and>
        audit_logs t' = audit_logs t @ [decision_audit lid rep req pun adminID now])) \<and>
    (\<forall>e. r = Inl e \<longrightarrow> t' = t)"
proof -
  have rows: "reports t' = update_rows (under_review k adminID) (review_report_row (decision_status req) now) (reports t) \<and>
      punishments t' = punishments t @ (case pun of None \<Rightarrow> [] | Some p \<Rightarrow> [p]) \<and>
      audit_logs t' = audit_logs t @ [decision_audit lid rep req pun adminID now]"
    if "decision_made s k rep adminID req pun lid now t t'" for k rep pun
    using that by (auto simp: decision_made_def Let_def reviewed_def)
  show ?thesis using DecideReport_outcome [OF assms] rows by (auto simp: under_review_def) blast
qed

text \<open>The decision of the example, computed.\<close>

lemma mx_decides:
  "\<exists>w'. DecideReport mx_env (mod_id 11) 9 mx_punish 3000 13 14 (mx_world mx_claimed) = (Inr (), w') \<and> calm w' \<and>
    punishments (tables w') = [new_punishment 13 (mx_report ReportReviewing (Some 9) 2000) mx_punish (Some 3603000) 9 3000] \<and>
    (\<forall>clock. \<not> in_cache mx_env (tables w') clock 200)"
proof -
  have "punishment_ends 3000 (Some 60) = Inr (Some 3603000)"
    by (simp add: punishment_ends_def punishment_end_exact)
  then have "\<exists>w'. DecideReport mx_env (mod_id 11) 9 mx_punish 3000 13 14 (mx_world mx_claimed) = (Inr (), w') \<and> calm w' \<and>
    tables w' = dropped mx_env 200 (reviewed 11 9 ReportActioned
      (Some (new_punishment 13 (mx_report ReportReviewing (Some 9) 2000) mx_punish (Some 3603000) 9 3000))
      (decision_audit 14 (mx_report ReportReviewing (Some 9) 2000) mx_punish
        (Some (new_punishment 13 (mx_report ReportReviewing (Some 9) 2000) mx_punish (Some 3603000) 9 3000)) 9 3000) 3000 mx_claimed)"
    using DecideReport_punishes [of "mx_world mx_claimed" "mod_id 11" 11 "mx_report ReportReviewing (Some 9) 2000" 9 mx_punish
        3000 "Some 3603000" 13 14 mx_env] mx_invs(3)
    by (simp add: mx_ids under_review_def mx_states mx_punish_def capabilities_def CapabilityContent_def)
  moreover have "punishments mx_claimed = []" by (simp add: mx_claimed_def mx_tables_def)
  ultimately show ?thesis by (auto simp: reviewed_def)
qed

theorem only_assignee_decides_witness:
  "\<exists>(t' :: moderation_db) rep. rep \<in> set (reports mx_claimed) \<and> Report_AssigneeAdminID rep = Some 9 \<and> length (punishments t') = 1"
proof -
  from mx_decides obtain w' where w': "DecideReport mx_env (mod_id 11) 9 mx_punish 3000 13 14 (mx_world mx_claimed) = (Inr (), w')"
    "length (punishments (tables w')) = 1" by auto
  have "outcome (DecideReport mx_env (mod_id 11) 9 mx_punish 3000 13 14) mx_claimed (Inr ()) (tables w')"
    using outcomeI [of "DecideReport mx_env (mod_id 11) 9 mx_punish 3000 13 14" "mx_world mx_claimed" "Inr ()" w'] w'(1)
    by simp
  from only_assignee_decides [OF this] obtain rep where "rep \<in> set (reports mx_claimed)" "Report_AssigneeAdminID rep = Some 9"
    by auto
  with w'(2) show ?thesis by blast
qed



section \<open>Checks\<close>

text \<open>
  When the cache has no usable entry, a check lets a user through only if no punishment of the account or
  of the capability is in force, denies only if one is, and answers an internal error, never a permission, when
  the database fails.
\<close>

theorem check_denies_exactly:
  assumes "outcome (Check s clock1 now clock2 root capability) t r t'" and "\<not> in_cache s t clock1 root" and "0 < root"
  shows "(r = Inr () \<longrightarrow> (\<nexists>p. p \<in> set (punishments t) \<and> in_force root now p \<and>
      (Punishment_Capability p = CapabilityAccount \<or> Punishment_Capability p = capability))) \<and>
    (r = Inl ErrCapabilityDenied \<longrightarrow> (\<exists>p \<in> set (punishments t). in_force root now p \<and>
      (Punishment_Capability p = CapabilityAccount \<or> Punishment_Capability p = capability))) \<and>
    (r = Inr () \<or> r = Inl ErrCapabilityDenied \<or> (\<exists>e. r = Inl (InternalWrap MQueryActive (Some e))))"
  using Check_miss [OF assms] unfolding barred_def by blast

theorem check_denies_exactly_witness:
  "fst (Check mx_env 4000 4000 4000 200 ''content'' (mx_world mx_punished)) \<noteq> Inr ()"
proof -
  have "in_force 200 4000 mx_punishment" "Punishment_Capability mx_punishment = ''content''"
    by (simp_all add: in_force_def mx_punishment_def)
  moreover have "mx_punishment \<in> set (punishments mx_punished)" "\<not> in_cache mx_env mx_punished 4000 200"
    by (simp_all add: mx_punished_def mx_tables_def in_cache_def alive_def)
  ultimately show ?thesis
    using check_denies_exactly [OF mx_run [of "Check mx_env 4000 4000 4000 200 ''content''" mx_punished]] by auto
qed





text \<open>
  C22: Revoking works: when the call succeeds the punishment was active, and afterwards exactly the other
  punishments in force bar anybody from anything, at any time; the entry of the user in the cache is gone
  unless Redis failed to delete it. When the call fails nothing changes.
\<close>

theorem revoke_lifts:
  assumes "outcome (RevokePunishment s raw adminID reason lid now1 now) t r t'"
  shows "(r = Inr () \<longrightarrow> (\<exists>pid p. mod_parseID raw = Inr pid \<and> p \<in> set (punishments t) \<and> Punishment_ID p = pid \<and>
      Punishment_Status p = PunishmentActive \<and>
      (\<forall>root later c. (\<exists>q \<in> set (punishments t'). in_force root later q \<and> Punishment_Capability q = c) =
        (\<exists>q \<in> set (punishments t). Punishment_ID q \<noteq> pid \<and> in_force root later q \<and> Punishment_Capability q = c)) \<and>
      (cache t' = cache t \<or> (\<forall>clock. \<not> in_cache s t' clock (Punishment_RootUserID p))))) \<and>
    (\<forall>e. r = Inl e \<longrightarrow> t' = t)"
proof -
  have "\<exists>pid p. mod_parseID raw = Inr pid \<and> p \<in> set (punishments t) \<and> Punishment_ID p = pid \<and>
      Punishment_Status p = PunishmentActive \<and>
      (\<forall>root later c. barred t' root later c =
        (\<exists>q \<in> set (punishments t). Punishment_ID q \<noteq> pid \<and> in_force root later q \<and> Punishment_Capability q = c)) \<and>
      (cache t' = cache t \<or> (\<forall>clock. \<not> in_cache s t' clock (Punishment_RootUserID p)))" if "r = Inr ()"
  proof -
    from RevokePunishment_outcome [OF assms] that obtain pid p where f: "mod_parseID raw = Inr pid"
      "find (active_id pid) (punishments t) = Some p"
      "punishments t' = update_rows (active_id pid) (revoke_row adminID now reason) (punishments t)"
      "cache t' = cache t \<or> (\<forall>clock. \<not> in_cache s t' clock (Punishment_RootUserID p))" by blast
    have "p \<in> set (punishments t)" "Punishment_ID p = pid" "Punishment_Status p = PunishmentActive"
      using find_member [OF f(2)] by (auto simp: active_id_def)
    with f(1,4) revoked_barred [OF f(3)] show ?thesis by blast
  qed
  with RevokePunishment_outcome [OF assms] show ?thesis by (simp only: barred_def) blast
qed

theorem revoke_lifts_witness:
  "\<exists>t'. outcome (RevokePunishment mx_env (mod_id 13) 9 ''mistake'' 16 5000 5000) mx_punished (Inr ()) t' \<and>
    \<not> (\<exists>q \<in> set (punishments t'). in_force 200 6000 q \<and> Punishment_Capability q = ''content'')"
proof -
  let ?m = "RevokePunishment mx_env (mod_id 13) 9 ''mistake'' 16 5000 5000"
  have "fst (?m (mx_world mx_punished)) = Inr ()"
    unfolding RevokePunishment_def mx_ids
    by (simp add: bind_def calm_present internal_error_def map_error_def mx_runs calm_invalidate calm_notify)
  then have run: "outcome ?m mx_punished (Inr ()) (tables (snd (?m (mx_world mx_punished))))"
    using mx_run [of ?m mx_punished] by simp
  from revoke_lifts [OF run] have "\<not> (\<exists>q \<in> set (punishments (tables (snd (?m (mx_world mx_punished))))).
      in_force 200 6000 q \<and> Punishment_Capability q = ''content'')"
    by (auto simp: mx_ids mx_punished_def mx_tables_def mx_punishment_def)
  with run show ?thesis by blast
qed

section \<open>Appeals\<close>

text \<open>
  A second appeal against a punishment is refused and changes nothing, whatever statement fails; the answer
  says that an appeal exists when the message of the driver contains the word unique.
\<close>

theorem second_appeal_refused:
  assumes "outcome (CreateAppeal s root raw reason now aid) t r t'" and "mod_parseID raw = Inr pid"
    and "a \<in> set (appeals t)" and "Appeal_PunishmentID a = pid"
  shows "t' = t \<and> (\<exists>e. r = Inl e)"
  using second_appeal [OF assms] .

theorem second_appeal_refused_witness:
  "\<exists>e. fst (CreateAppeal mx_env 200 (mod_id 13) ''again'' 4500 17 (mx_world mx_appealed)) = Inl e"
  using second_appeal_refused [OF mx_run [of "CreateAppeal mx_env 200 (mod_id 13) ''again'' 4500 17" mx_appealed] mx_ids(2),
      of "mx_appeal AppealPending"]
  by (simp add: mx_appealed_def mx_tables_def mx_appeal_def)

text \<open>The message of MySQL for the unique index of the appeals does not contain that word.\<close>

lemma duplicate_appeal_unrecognised:
  "\<not> contains_lower (appeal_error_text mx_env (Db UniqueViolation)) ''unique''"
  by code_simp

text \<open>
  Two administrators that have both read the appeal as pending: the second one approves it after the first
  one's rejection was committed. The appeal stays rejected and the punishment is revoked all the same.
\<close>

lemma stale_approval:
  assumes inv: "moderation_inv t" and a: "a \<in> set (appeals t)" "Appeal_Status a = AppealPending"
    and t1: "t1 = judged a admin1 False why1 now1 audit1 t"
    and run: "outcome (decide_read_appeal a (Appeal_ID a) admin2 True why2 now2 audit2) t1 (Inr x) t2"
  shows "(\<exists>b \<in> set (appeals t2). Appeal_ID b = Appeal_ID a \<and> Appeal_Status b = AppealRejected) \<and>
    (\<exists>p \<in> set (punishments t2). Punishment_ID p = Appeal_PunishmentID a \<and> Punishment_Status p = PunishmentRevoked)"
proof -
  have t2: "t2 = judged a admin2 True why2 now2 audit2 t1" using decide_read_appeal_success [OF run] by blast
  let ?b = "decide_appeal_row AppealRejected why1 admin1 now1 a"
  have "?b \<in> set (appeals t1)"
    using a by (auto simp: t1 judged_def appeal_closed_def set_update_rows intro!: image_eqI [of _ _ a])
  then have "?b \<in> set (appeals t2)"
    by (auto simp: t2 judged_def revoked_def appeal_closed_def set_update_rows decide_appeal_row_def intro!: image_eqI [of _ _ ?b])
  moreover have "Appeal_ID ?b = Appeal_ID a" "Appeal_Status ?b = AppealRejected" by (simp_all add: decide_appeal_row_def)
  ultimately have "\<exists>b \<in> set (appeals t2). Appeal_ID b = Appeal_ID a \<and> Appeal_Status b = AppealRejected" by blast
  moreover have "\<exists>p \<in> set (punishments t2). Punishment_ID p = Appeal_PunishmentID a \<and> Punishment_Status p = PunishmentRevoked"
  proof -
    obtain p where p: "p \<in> set (punishments t)" "Appeal_PunishmentID a = Punishment_ID p"
      using inv a(1) by (fastforce simp: moderation_inv_def appeals_inv_def plea_of_def)
    let ?p = "if active_id (Punishment_ID p) p then revoke_row admin2 now2 why2 p else p"
    have "punishments t2 = update_rows (active_id (Punishment_ID p)) (revoke_row admin2 now2 why2) (punishments t)"
      by (simp add: t2 t1 judged_def revoked_def appeal_closed_def p(2))
    then have "?p \<in> set (punishments t2)" using update_rows_member [OF p(1)] by simp
    moreover have "Punishment_ID ?p = Punishment_ID p" by (simp add: revoke_row_def)
    moreover have "Punishment_Status ?p = PunishmentRevoked"
      by (cases "Punishment_Status p") (simp_all add: active_id_def revoke_row_def)
    ultimately show ?thesis using p(2) by metis
  qed
  ultimately show ?thesis by blast
qed

end
