(* ===== verification/Sensitive_Model.thy ===== *)
theory Sensitive_Model
  imports Bizerr Pagination
begin

text \<open>
  Sensitive words (\<open>internal/sensitive\<close>): text, the word list and the masking of hits.

  The functions of this module look at text rune by rune, so text is a list of runes (code points); the
  strings that reach it were decoded from JSON or read from a \<open>utf8mb4\<close> column and are valid UTF-8.
  The Unicode tables (case, categories, case folding) and the normal form NFKC are parameters, and so is
  \<open>sort.Slice\<close>, which may order equal elements in any way.
\<close>

type_synonym rune = int
type_synonym runes = "rune list"

definition star :: rune where "star = 42"

text \<open>\<open>unicode.IsSpace\<close>.\<close>

definition IsSpace :: "rune \<Rightarrow> bool" where
  "IsSpace r \<longleftrightarrow> 9 \<le> r \<and> r \<le> 13 \<or> r = 32 \<or> r = 0x85 \<or> r = 0xA0 \<or> r = 0x1680 \<or> 0x2000 \<le> r \<and> r \<le> 0x200A
     \<or> r = 0x2028 \<or> r = 0x2029 \<or> r = 0x202F \<or> r = 0x205F \<or> r = 0x3000"

definition TrimSpace_text :: "runes \<Rightarrow> runes" where
  "TrimSpace_text s = rev (dropWhile IsSpace (rev (dropWhile IsSpace s)))"

text \<open>The class of noise characters of the two patterns: ASCII white space and punctuation.\<close>

definition noise_runes :: "rune list" where
  "noise_runes =
     [9, 10, 12, 13, 32,
      33, 64, 35, 36, 37, 94, 38, 42, 40, 41, 95, 43, 45, 61, 91, 93, 123, 125, 59, 39, 58, 34, 92, 124, 44, 46, 60,
      62, 47, 63]"

definition noise :: "rune \<Rightarrow> bool" where
  "noise r \<longleftrightarrow> r \<in> set noise_runes"

section \<open>Tables and errors\<close>

record sensitive_word =
  Word_ID :: int64
  Word_Text :: runes

definition words_ok :: "sensitive_word list \<Rightarrow> bool" where
  "words_ok rows \<longleftrightarrow> distinct (map Word_ID rows)"

datatype sensitive_msg = MInvalidParam | MWordNotFound | MWordExists | MQueryWords | MDeleteWord | MAddWord

type_synonym wrepo_error = "unit goerror"
type_synonym sensitive_error = "(sensitive_msg, wrepo_error) svc_error"

definition ErrSensitiveWordNotFound :: sensitive_error where
  "ErrSensitiveWordNotFound = NotFound MWordNotFound"
definition ErrSensitiveWordExists :: sensitive_error where
  "ErrSensitiveWordExists = Biz MWordExists"

text \<open>
  A filter of the library \<open>importcjj/sensitive\<close> is what its two methods compute. \<open>cur_filter\<close> is the atomic
  pointer of the service, kept beside the table because both are the state a call may change.
\<close>

record text_filter =
  RemoveNoise :: "runes \<Rightarrow> runes"
  FilterFindAll :: "runes \<Rightarrow> runes list"

record sensitive_db =
  words :: "sensitive_word list"
  cur_filter :: "text_filter option"

text \<open>
  The environment: \<open>lib_filter\<close> is \<open>New\<close>, \<open>AddWord\<close> and \<open>UpdateNoisePattern\<close> of the library on a list of
  words, \<open>same_word\<close> and \<open>like_word\<close> are \<open>=\<close> and \<open>LIKE\<close> of the column's collation.
\<close>

record sensitive_env =
  nfkc :: "runes \<Rightarrow> runes"
  to_lower :: "rune \<Rightarrow> rune"
  invisible :: "rune \<Rightarrow> bool"
  folds :: "rune \<Rightarrow> rune \<Rightarrow> bool"
  sort_slice :: "runes list \<Rightarrow> runes list"
  lib_filter :: "runes list \<Rightarrow> text_filter"
  same_word :: "runes \<Rightarrow> runes \<Rightarrow> bool"
  like_word :: "runes \<Rightarrow> runes \<Rightarrow> bool"

section \<open>Text\<close>

definition stripInvisible :: "sensitive_env \<Rightarrow> runes \<Rightarrow> runes" where
  "stripInvisible s t = filter (\<lambda>r. \<not> invisible s r) t"

definition normalizeText :: "sensitive_env \<Rightarrow> runes \<Rightarrow> runes" where
  "normalizeText s t = map (to_lower s) (stripInvisible s (nfkc s t))"

definition truncate_text :: "runes \<Rightarrow> int \<Rightarrow> runes" where
  "truncate_text t maxRunes =
     (if int (length t) \<le> maxRunes then t else take (nat maxRunes) t @ [46, 46, 46])"

text \<open>The loop of \<open>normalizeWordList\<close>: \<open>seen\<close> holds the keys of the map.\<close>

fun normalizeWordList_loop :: "runes set \<Rightarrow> runes list \<Rightarrow> runes list" where
  "normalizeWordList_loop seen [] = []"
| "normalizeWordList_loop seen (w # ws) =
     (let w = TrimSpace_text w
      in if w = [] then normalizeWordList_loop seen ws
         else if w \<in> seen then normalizeWordList_loop seen ws
         else w # normalizeWordList_loop (insert w seen) ws)"

definition normalizeWordList :: "runes list \<Rightarrow> runes list" where
  "normalizeWordList ws = normalizeWordList_loop {} ws"

definition buildFilter :: "sensitive_env \<Rightarrow> runes list \<Rightarrow> text_filter option" where
  "buildFilter s ws =
     (let normalized = normalizeWordList ws
      in if normalized = [] then None
         else
           let lowerWords = filter (\<lambda>w. w \<noteq> []) (map (\<lambda>w. map (to_lower s) (nfkc s w)) normalized)
           in if lowerWords = [] then None else Some (lib_filter s lowerWords))"

definition normalizePageSize :: "int \<Rightarrow> int \<Rightarrow> int \<times> int" where
  "normalizePageSize page sz = (if page \<le> 0 then 1 else page, if sz \<le> 0 then 15 else sz)"

section \<open>Masking\<close>

text \<open>
  The pattern of a word: its runes, case folded, with the noise class under a star between them. The star is
  greedy and the engine prefers the leftmost, then the longest gap: \<open>first_gap f n\<close> tries the gaps of length
  \<open>n\<close> down to \<open>0\<close>. The result is the length of the match at the beginning of the text. Such a pattern is a
  concatenation of literals and classes, so it always compiles.
\<close>

fun first_gap :: "(nat \<Rightarrow> nat option) \<Rightarrow> nat \<Rightarrow> nat option" where
  "first_gap f 0 = map_option Suc (f 0)"
| "first_gap f (Suc k) =
     (case f (Suc k) of Some n \<Rightarrow> Some (Suc (Suc k + n)) | None \<Rightarrow> first_gap f k)"

fun match_word :: "(rune \<Rightarrow> rune \<Rightarrow> bool) \<Rightarrow> runes \<Rightarrow> runes \<Rightarrow> nat option" where
  "match_word eq [] t = Some 0"
| "match_word eq [c] t = (case t of [] \<Rightarrow> None | x # _ \<Rightarrow> if eq c x then Some 1 else None)"
| "match_word eq (c # d # w) t =
     (case t of
        [] \<Rightarrow> None
      | x # rest \<Rightarrow>
          if eq c x
          then first_gap (\<lambda>k. match_word eq (d # w) (drop k rest)) (length (takeWhile noise rest))
          else None)"

text \<open>\<open>ReplaceAllStringFunc\<close> with stars; an empty match replaces nothing.\<close>

function mask_word :: "(runes \<Rightarrow> nat option) \<Rightarrow> runes \<Rightarrow> runes" where
  "mask_word m [] = []"
| "mask_word m (x # t) =
     (case m (x # t) of
        Some (Suc n) \<Rightarrow> replicate (Suc n) star @ mask_word m (drop n t)
      | _ \<Rightarrow> x # mask_word m t)"
  by pat_completeness auto
termination by (relation "measure (\<lambda>(m, t). length t)") auto

fun mask_loop :: "(rune \<Rightarrow> rune \<Rightarrow> bool) \<Rightarrow> runes set \<Rightarrow> runes list \<Rightarrow> runes \<Rightarrow> runes" where
  "mask_loop eq seen [] t = t"
| "mask_loop eq seen (w # ws) t =
     (if w \<in> seen then mask_loop eq seen ws t
      else mask_loop eq (insert w seen) ws (mask_word (match_word eq w) t))"

definition maskHits :: "sensitive_env \<Rightarrow> runes \<Rightarrow> runes list \<Rightarrow> runes" where
  "maskHits s t hitWords = mask_loop (folds s) {} (sort_slice s hitWords) t"

definition maxMaskHits :: nat where "maxMaskHits = 30"

end
