(* ===== verification/Sensitive_Mask.thy ===== *)
theory Sensitive_Mask
  imports Sensitive_Model
begin

text \<open>
  What masking does to a text: every rune stays or becomes a star, and no masked word can be read in the result
  any more.
\<close>

section \<open>Masked texts\<close>

definition masked :: "runes \<Rightarrow> runes \<Rightarrow> bool" where
  "masked t t' \<longleftrightarrow> list_all2 (\<lambda>x y. y = x \<or> y = star) t t'"

lemma masked_refl [simp]: "masked t t"
  by (simp add: masked_def list_all2_same)

lemma masked_trans: "masked t u \<Longrightarrow> masked u v \<Longrightarrow> masked t v"
  unfolding masked_def by (rule list_all2_trans [rotated], assumption, assumption, auto)

lemma masked_length: "masked t t' \<Longrightarrow> length t' = length t"
  by (auto simp: masked_def dest: list_all2_lengthD)

lemma masked_stars: "length t = n \<Longrightarrow> masked t (replicate n star)"
  by (simp add: masked_def list_all2_conv_all_nth)

lemma masked_append: "masked t t' \<Longrightarrow> masked u u' \<Longrightarrow> masked (t @ u) (t' @ u')"
  unfolding masked_def by (rule list_all2_appendI)

text \<open>A part of a masked text without stars is a part of the text.\<close>

lemma masked_part:
  assumes "masked t (u @ v @ z)" and "star \<notin> set v"
  shows "\<exists>u' z'. t = u' @ v @ z' \<and> length u' = length u"
proof -
  from assms(1) obtain u' v' z' where t: "t = u' @ v' @ z'" "length u' = length u"
    and v: "list_all2 (\<lambda>x y. y = x \<or> y = star) v' v"
    unfolding masked_def by (auto simp: list_all2_append2)
  from v assms(2) have "v' = v" by (induction rule: list_all2_induct) auto
  with t show ?thesis by auto
qed

section \<open>The matcher\<close>

lemma first_gap_SomeD: "first_gap f n = Some m \<Longrightarrow> \<exists>k j. k \<le> n \<and> f k = Some j \<and> m = Suc (k + j)"
proof (induction n)
  case (Suc n)
  show ?case
  proof (cases "f (Suc n)")
    case None
    with Suc obtain k j where "k \<le> n" "f k = Some j" "m = Suc (k + j)" by auto
    then show ?thesis by (intro exI [of _ k] exI [of _ j]) simp
  next
    case (Some j)
    with Suc.prems show ?thesis by (intro exI [of _ "Suc n"] exI [of _ j]) simp
  qed
qed auto

lemma first_gap_found: "k \<le> n \<Longrightarrow> f k \<noteq> None \<Longrightarrow> first_gap f n \<noteq> None"
  by (induction n) (auto simp: le_Suc_eq split: option.splits)

lemma match_word_length: "match_word eq w t = Some n \<Longrightarrow> n \<le> length t"
proof (induction eq w t arbitrary: n rule: match_word.induct)
  case (3 eq c d w t)
  then obtain x rest where t: "t = x # rest" "eq c x" by (auto split: list.splits if_splits)
  with 3 obtain k j where k: "k \<le> length (takeWhile noise rest)" "match_word eq (d # w) (drop k rest) = Some j"
    "n = Suc (k + j)" by (auto dest!: first_gap_SomeD)
  have "j \<le> length (drop k rest)" using "3.IH" [OF t k(2)] .
  with k length_takeWhile_le [of noise rest] t(1) show ?case by simp
qed (auto split: list.splits if_splits)

lemma match_word_pos: "w \<noteq> [] \<Longrightarrow> match_word eq w t = Some n \<Longrightarrow> 0 < n"
  by (cases "(eq, w, t)" rule: match_word.cases) (auto split: list.splits if_splits dest: first_gap_SomeD)

text \<open>A word that begins the text, up to case, is matched.\<close>

lemma match_word_prefix: "list_all2 eq w v \<Longrightarrow> match_word eq w (v @ z) \<noteq> None"
proof (induction w arbitrary: v rule: induct_list012)
  case (3 c d w)
  then obtain x v' where v: "v = x # v'" "eq c x" "list_all2 eq (d # w) v'" by (auto simp: list_all2_Cons1)
  have "match_word eq (d # w) (drop 0 (v' @ z)) \<noteq> None" using "3.IH"(2) v(3) by simp
  with first_gap_found [of 0 "length (takeWhile noise (v' @ z))" "\<lambda>k. match_word eq (d # w) (drop k (v' @ z))"] v
  show ?case by simp
qed (auto simp: list_all2_Cons1)

section \<open>Masking\<close>

lemma mask_word_masked:
  assumes "\<And>u n. m u = Some n \<Longrightarrow> n \<le> length u"
  shows "masked t (mask_word m t)"
  using assms
proof (induction m t rule: mask_word.induct)
  case (2 m x t)
  have keep: "masked (x # t) (mask_word m (x # t))" if "mask_word m (x # t) = x # mask_word m t" "masked t (mask_word m t)"
    using that by (simp add: masked_def)
  show ?case
  proof (cases "m (x # t)")
    case None
    with 2 show ?thesis by (intro keep) auto
  next
    case (Some n)
    show ?thesis
    proof (cases n)
      case 0
      with Some 2 show ?thesis by (intro keep) auto
    next
      case (Suc k)
      with Some 2 have IH: "masked (drop k t) (mask_word m (drop k t))" and "k \<le> length t" by force+
      then have "masked (take (Suc k) (x # t) @ drop k t) (replicate (Suc k) star @ mask_word m (drop k t))"
        by (intro masked_append masked_stars) auto
      with Some Suc show ?thesis by simp
    qed
  qed
qed simp

lemma mask_loop_masked: "masked t (mask_loop eq seen ws t)"
proof (induction eq seen ws t rule: mask_loop.induct)
  case (2 eq seen w ws t)
  have "masked t (mask_word (match_word eq w) t)" by (rule mask_word_masked) (rule match_word_length)
  with 2 show ?case by (auto intro: masked_trans)
qed simp

definition occurs :: "(rune \<Rightarrow> rune \<Rightarrow> bool) \<Rightarrow> runes \<Rightarrow> runes \<Rightarrow> bool" where
  "occurs eq w t \<longleftrightarrow> (\<exists>u v z. t = u @ v @ z \<and> list_all2 eq w v)"

definition maskable :: "(rune \<Rightarrow> rune \<Rightarrow> bool) \<Rightarrow> runes \<Rightarrow> bool" where
  "maskable eq w \<longleftrightarrow> w \<noteq> [] \<and> (\<forall>c \<in> set w. \<not> eq c star)"

lemma maskable_no_star: "maskable eq w \<Longrightarrow> list_all2 eq w v \<Longrightarrow> star \<notin> set v"
proof -
  have "list_all2 eq w v \<Longrightarrow> \<forall>c \<in> set w. \<not> eq c star \<Longrightarrow> star \<notin> set v"
    by (induction rule: list_all2_induct) auto
  then show "maskable eq w \<Longrightarrow> list_all2 eq w v \<Longrightarrow> star \<notin> set v" by (simp add: maskable_def)
qed

lemma occurs_unmask: "masked t t' \<Longrightarrow> maskable eq w \<Longrightarrow> occurs eq w t' \<Longrightarrow> occurs eq w t"
  unfolding occurs_def using masked_part maskable_no_star by metis

lemma occurs_Cons: "occurs eq w (x # t) \<longleftrightarrow> occurs eq w t \<or> (\<exists>v z. x # t = v @ z \<and> list_all2 eq w v)"
  (is "?lhs \<longleftrightarrow> ?rhs")
proof
  assume ?lhs
  then obtain u v z where u: "x # t = u @ v @ z" "list_all2 eq w v" by (auto simp: occurs_def)
  show ?rhs using u by (cases u) (auto simp: occurs_def)
next
  show "?rhs \<Longrightarrow> ?lhs" unfolding occurs_def by (metis append_Cons append_Nil)
qed

lemma occurs_stars:
  assumes "maskable eq w" and "occurs eq w (replicate n star @ t)"
  shows "occurs eq w t"
  using assms(2)
proof (induction n)
  case (Suc n)
  have "\<not> (\<exists>v z. star # replicate n star @ t = v @ z \<and> list_all2 eq w v)"
  proof
    assume "\<exists>v z. star # replicate n star @ t = v @ z \<and> list_all2 eq w v"
    then obtain v z where v: "star # replicate n star @ t = v @ z" "list_all2 eq w v" by blast
    from v(2) assms(1) have "v \<noteq> []" by (auto simp: maskable_def)
    with v(1) have "star \<in> set v" by (cases v) auto
    with maskable_no_star [OF assms(1) v(2)] show False by simp
  qed
  with Suc show ?case unfolding replicate_Suc append_Cons occurs_Cons by blast
qed simp

lemma mask_word_gone: "maskable eq w \<Longrightarrow> \<not> occurs eq w (mask_word (match_word eq w) t)"
proof (induction "match_word eq w" t rule: mask_word.induct)
  case 1
  then show ?case by (auto simp: occurs_def maskable_def)
next
  case (2 x t)
  let ?m = "match_word eq w"
  have w: "w \<noteq> []" using 2 by (simp add: maskable_def)
  show ?case
  proof (cases "?m (x # t)")
    case None
    have "masked t (mask_word ?m t)" by (rule mask_word_masked) (rule match_word_length)
    then have keep: "masked (x # t) (x # mask_word ?m t)" by (simp add: masked_def)
    have "\<not> list_all2 eq w v" if "x # mask_word ?m t = v @ z" for v z
    proof
      assume v: "list_all2 eq w v"
      from keep that have "masked (x # t) ([] @ v @ z)" by simp
      from masked_part [OF this maskable_no_star [OF "2.prems" v]] obtain z' where "x # t = v @ z'" by auto
      with match_word_prefix [OF v, of z'] None show False by simp
    qed
    with 2 None show ?thesis by (auto simp: occurs_Cons)
  next
    case (Some n)
    with match_word_pos [OF w] obtain k where k: "n = Suc k" by (cases n) fastforce+
    have "\<not> occurs eq w (mask_word ?m (drop k t))" using 2 Some k by simp
    with occurs_stars [OF "2.prems", of "Suc k"] show ?thesis by (simp add: Some k del: replicate.simps) blast
  qed
qed

lemma mask_loop_gone:
  "w \<in> set ws \<Longrightarrow> w \<notin> seen \<Longrightarrow> maskable eq w \<Longrightarrow> \<not> occurs eq w (mask_loop eq seen ws t)"
proof (induction eq seen ws t rule: mask_loop.induct)
  case (2 eq seen x ws t)
  show ?case
  proof (cases "x = w")
    case True
    have "masked (mask_word (match_word eq w) t) (mask_loop eq (insert w seen) ws (mask_word (match_word eq w) t))"
      by (rule mask_loop_masked)
    with occurs_unmask [OF this "2.prems"(3)] mask_word_gone [OF "2.prems"(3)] 2 True show ?thesis by auto
  qed (use 2 in auto)
qed simp

end
