(* ===== verification/Sensitive_Service.thy ===== *)
theory Sensitive_Service
  imports Sensitive_Mask
begin

text \<open>
  The repository and the service of the sensitive words (\<open>internal/sensitive/repository_sensitive.go\<close>,
  \<open>service.go\<close>).

  \<open>newID\<close> is the identifier the AUTO_INCREMENT column gives. The filter pointer is read and replaced
  atomically, which cannot fail; a rebuild that cannot read the table keeps the old filter. \<open>reloadLoop\<close>
  rebuilds the filter at every tick, so one round of it is \<open>rebuildFilter\<close>.
\<close>

datatype sensitive_event = HitLog "runes list" runes

type_synonym ('o, 'a) wrepo = "(sensitive_db, 'o, wrepo_error, 'a) prog"
type_synonym 'a wservice = "(sensitive_db, sensitive_event, sensitive_error, 'a) prog"

section \<open>Repository\<close>

definition newest_words :: "sensitive_db \<Rightarrow> sensitive_word list" where
  "newest_words t = sort_key (\<lambda>w. - Word_ID w) (words t)"

definition repo_FindAll :: "('o, sensitive_word list) wrepo" where
  "repo_FindAll = bind gormDB (\<lambda>_. read_rows newest_words)"

definition repo_FindByWord :: "sensitive_env \<Rightarrow> runes \<Rightarrow> ('o, sensitive_word option) wrepo" where
  "repo_FindByWord s word =
     bind gormDB (\<lambda>_. find_row (\<lambda>t. sort_key Word_ID (words t)) (\<lambda>w. same_word s (Word_Text w) word))"

definition repo_CreateWord :: "sensitive_word \<Rightarrow> ('o, unit) wrepo" where
  "repo_CreateWord item = bind gormDB (\<lambda>_. create_row words words_update words_ok item)"

definition repo_DeleteByWord :: "sensitive_env \<Rightarrow> runes \<Rightarrow> ('o, bool) wrepo" where
  "repo_DeleteByWord s word =
     bind gormDB (\<lambda>_.
     bind (delete_where words words_update (\<lambda>w. same_word s (Word_Text w) word)) (\<lambda>n. ret (n > 0)))"

definition FindPage :: "int \<Rightarrow> int \<Rightarrow> ('o, sensitive_word list \<times> int64) wrepo" where
  "FindPage page sz =
     (let page = (if page \<le> 0 then 1 else page);
          sz = (if sz \<le> 0 then 15 else sz)
      in bind gormDB (\<lambda>_.
         bind (read_rows (\<lambda>t. int (length (words t)))) (\<lambda>tot.
         bind (read_rows (\<lambda>t. window page sz (newest_words t))) (\<lambda>rows.
         ret (rows, tot)))))"

definition repo_FindByLike :: "sensitive_env \<Rightarrow> runes \<Rightarrow> ('o, sensitive_word list) wrepo" where
  "repo_FindByLike s word =
     bind gormDB (\<lambda>_. read_rows (\<lambda>t. filter (\<lambda>w. like_word s (Word_Text w) word) (newest_words t)))"

section \<open>The filter\<close>

definition load_filter :: "(sensitive_db, 'o, 'e, text_filter option) prog" where
  "load_filter w = (Inr (cur_filter (tables w)), w)"

definition store_filter :: "text_filter option \<Rightarrow> (sensitive_db, 'o, 'e, unit) prog" where
  "store_filter f w = (Inr (), w\<lparr>tables := tables w\<lparr>cur_filter := f\<rparr>\<rparr>)"

definition rebuildFilter :: "sensitive_env \<Rightarrow> (sensitive_db, 'o, 'e, unit) prog" where
  "rebuildFilter s =
     bind (attempt repo_FindAll) (\<lambda>r.
     case r of
       Inl (_ :: wrepo_error) \<Rightarrow> ret ()
     | Inr ws \<Rightarrow> store_filter (buildFilter s (map Word_Text ws)))"

definition invalidateCache :: "sensitive_env \<Rightarrow> (sensitive_db, 'o, 'e, unit) prog" where
  "invalidateCache s = rebuildFilter s"

text \<open>\<open>NewService\<close> starts with no filter and builds it once.\<close>

definition sensitive_NewService :: "sensitive_env \<Rightarrow> (sensitive_db, 'o, 'e, unit) prog" where
  "sensitive_NewService s = bind (store_filter None) (\<lambda>_. rebuildFilter s)"

definition FilterText :: "sensitive_env \<Rightarrow> runes \<Rightarrow> runes wservice" where
  "FilterText s content =
     (if content = [] then ret content
      else
        bind load_filter (\<lambda>f.
        case f of
          None \<Rightarrow> ret content
        | Some f \<Rightarrow>
            let normalized = normalizeText s content;
                cleaned = RemoveNoise f normalized;
                hits = FilterFindAll f cleaned
            in if hits = [] then ret content
               else
                 let hits = (if length hits > maxMaskHits then take maxMaskHits hits else hits)
                 in bind (emit (HitLog hits (truncate_text content 100))) (\<lambda>_.
                    let displayText = stripInvisible s (nfkc s content)
                    in ret (maskHits s displayText hits))))"

section \<open>The word list\<close>

definition svc_FindAll :: "sensitive_word list wservice" where
  "svc_FindAll = internal_error MQueryWords repo_FindAll"

definition FindByWord :: "sensitive_env \<Rightarrow> runes \<Rightarrow> sensitive_word wservice" where
  "FindByWord s word =
     (let word = TrimSpace_text word
      in if word = [] then throw (Param MInvalidParam)
         else
           bind (internal_error MQueryWords (repo_FindByWord s word)) (\<lambda>item.
           present ErrSensitiveWordNotFound item))"

definition DeleteByWord :: "sensitive_env \<Rightarrow> runes \<Rightarrow> unit wservice" where
  "DeleteByWord s word =
     (let word = TrimSpace_text word
      in if word = [] then throw (Param MInvalidParam)
         else
           bind (internal_error MDeleteWord (repo_DeleteByWord s word)) (\<lambda>deleted.
           if \<not> deleted then throw ErrSensitiveWordNotFound else invalidateCache s))"

definition AddWord :: "sensitive_env \<Rightarrow> int64 \<Rightarrow> runes \<Rightarrow> unit wservice" where
  "AddWord s newID word =
     (let word = TrimSpace_text word
      in if word = [] then throw (Param MInvalidParam)
         else
           bind (internal_error MAddWord (repo_FindByWord s word)) (\<lambda>exists.
           if exists \<noteq> None then throw ErrSensitiveWordExists
           else
             bind (internal_error MAddWord (repo_CreateWord \<lparr>Word_ID = newID, Word_Text = word\<rparr>)) (\<lambda>_.
             invalidateCache s)))"

definition FindByPage :: "int \<Rightarrow> int \<Rightarrow> sensitive_word page_result wservice" where
  "FindByPage page sz =
     (let (page, sz) = normalizePageSize page sz
      in bind (internal_error MQueryWords (FindPage page sz)) (\<lambda>(rows, tot).
         ret (NewPageResult rows tot page sz)))"

definition FindByLike :: "sensitive_env \<Rightarrow> runes \<Rightarrow> sensitive_word list wservice" where
  "FindByLike s word =
     (let word = TrimSpace_text word
      in if word = [] then throw (Param MInvalidParam)
         else internal_error MQueryWords (repo_FindByLike s word))"

section \<open>Filtering\<close>

lemma FilterText_run:
  "FilterText s content w =
     (case cur_filter (tables w) of
        None \<Rightarrow> (Inr content, w)
      | Some f \<Rightarrow>
          let hits = FilterFindAll f (RemoveNoise f (normalizeText s content))
          in if content = [] \<or> hits = [] then (Inr content, w)
             else (Inr (maskHits s (stripInvisible s (nfkc s content)) (take maxMaskHits hits)),
                   w\<lparr>outbox := outbox w @ [HitLog (take maxMaskHits hits) (truncate_text content 100)]\<rparr>))"
  by (auto simp: FilterText_def bind_def load_filter_def ret_def emit_def Let_def split: option.split)

lemma FilterText_total: "\<exists>out w'. FilterText s content w = (Inr out, w')"
  by (auto simp: FilterText_run Let_def split: option.split)

lemma maskHits_masked: "masked t (maskHits s t hits)"
  by (simp add: maskHits_def mask_loop_masked)

lemma maskHits_gone:
  assumes "set (sort_slice s hits) = set hits" and "w \<in> set hits" and "maskable (folds s) w"
  shows "\<not> occurs (folds s) w (maskHits s t hits)"
  unfolding maskHits_def by (rule mask_loop_gone) (use assms in auto)

section \<open>The word list and the filter\<close>

text \<open>The filter in use is the one of the words in the table.\<close>

definition in_sync :: "sensitive_env \<Rightarrow> sensitive_db \<Rightarrow> bool" where
  "in_sync s t \<longleftrightarrow> cur_filter t = buildFilter s (map Word_Text (newest_words t))"

lemma calm_FindAll: "calm w \<Longrightarrow> repo_FindAll w = (Inr (newest_words (tables w)), w)"
  by (simp add: repo_FindAll_def bind_def calm_gormDB calm_read_rows)

lemma calm_rebuild:
  "calm w \<Longrightarrow> rebuildFilter s w =
     (Inr (), w\<lparr>tables := tables w\<lparr>cur_filter := buildFilter s (map Word_Text (newest_words (tables w)))\<rparr>\<rparr>)"
  by (simp add: rebuildFilter_def bind_def attempt_def calm_FindAll store_filter_def)

lemma rebuild_sync: "in_sync s (t\<lparr>cur_filter := buildFilter s (map Word_Text (newest_words t))\<rparr>)"
  by (simp add: in_sync_def newest_words_def)

lemma calm_AddWord:
  assumes "calm w" and "TrimSpace_text word \<noteq> []" and "words_ok (words (tables w) @ [\<lparr>Word_ID = newID, Word_Text = TrimSpace_text word\<rparr>])"
    and "\<nexists>x. x \<in> set (words (tables w)) \<and> same_word s (Word_Text x) (TrimSpace_text word)"
  shows "\<exists>w'. AddWord s newID word w = (Inr (), w') \<and> calm w' \<and> in_sync s (tables w') \<and>
    words (tables w') = words (tables w) @ [\<lparr>Word_ID = newID, Word_Text = TrimSpace_text word\<rparr>]"
proof -
  have "find (\<lambda>x. same_word s (Word_Text x) (TrimSpace_text word)) (sort_key Word_ID (words (tables w))) = None"
    using assms(4) by (auto simp: find_None_iff)
  then have "AddWord s newID word w = rebuildFilter s (w\<lparr>tables := words_update (\<lambda>rows. rows @
      [\<lparr>Word_ID = newID, Word_Text = TrimSpace_text word\<rparr>]) (tables w)\<rparr>)"
    using assms(1-3)
    by (simp add: AddWord_def Let_def bind_def internal_error_def map_error_def repo_FindByWord_def repo_CreateWord_def
        calm_gormDB calm_find_row calm_create_row invalidateCache_def)
  with assms(1) show ?thesis by (simp add: calm_rebuild rebuild_sync)
qed

lemma DeleteByWord_outcome:
  assumes "calm w" and "DeleteByWord s word w = (Inr (), w')"
  shows "in_sync s (tables w') \<and> calm w' \<and>
    words (tables w') = filter (\<lambda>x. \<not> same_word s (Word_Text x) (TrimSpace_text word)) (words (tables w)) \<and>
    (\<exists>x \<in> set (words (tables w)). same_word s (Word_Text x) (TrimSpace_text word))"
  using assms
  by (auto simp: DeleteByWord_def Let_def bind_def internal_error_def map_error_def repo_DeleteByWord_def throw_def
      calm_gormDB calm_delete_where ret_def invalidateCache_def calm_rebuild rebuild_sync split: if_splits)
    (auto simp: filter_empty_conv)

section \<open>normalizeWordList\<close>

lemma normalizeWordList_loop_eq:
  "normalizeWordList_loop seen ws =
     filter (\<lambda>w. w \<notin> seen) (rev (remdups (rev (filter (\<lambda>w. w \<noteq> []) (map TrimSpace_text ws)))))"
proof (induction seen ws rule: normalizeWordList_loop.induct)
  case (2 seen w ws)
  let ?rest = "rev (filter (\<lambda>w. w \<noteq> []) (map TrimSpace_text ws))"
  show ?case
  proof (cases "TrimSpace_text w = []")
    case True
    with 2 show ?thesis by simp
  next
    case False
    have split: "rev (remdups (xs @ [v])) = v # rev (remdups (filter (\<lambda>x. x \<noteq> v) xs))" for v and xs :: "runes list"
      by (induction xs) auto
    have same: "filter (\<lambda>x. x \<notin> seen) (rev (remdups (filter (\<lambda>x. x \<noteq> v) xs))) =
        filter (\<lambda>x. x \<notin> insert v seen) (rev (remdups xs))" for v and xs :: "runes list"
      by (simp add: remdups_filter rev_filter [symmetric] conj_commute)
    show ?thesis
    proof (cases "TrimSpace_text w \<in> seen")
      case True
      with 2 False same [of "TrimSpace_text w" ?rest] show ?thesis by (simp add: split insert_absorb Let_def)
    next
      case nin: False
      with 2 False same [of "TrimSpace_text w" ?rest] show ?thesis by (simp add: split Let_def)
    qed
  qed
qed simp

lemma normalizeWordList_eq:
  "normalizeWordList ws = rev (remdups (rev (filter (\<lambda>w. w \<noteq> []) (map TrimSpace_text ws))))"
  by (simp add: normalizeWordList_def normalizeWordList_loop_eq)

lemma dropWhile_ends: "xs = [] \<or> \<not> P (hd xs) \<Longrightarrow> dropWhile P xs = xs"
  by (cases xs) auto

lemma TrimSpace_text_idem [simp]: "TrimSpace_text (TrimSpace_text t) = TrimSpace_text t"
proof -
  let ?u = "dropWhile IsSpace t"
  have last: "TrimSpace_text t = [] \<or> \<not> IsSpace (last (TrimSpace_text t))"
    using hd_dropWhile [of IsSpace "rev ?u"] by (auto simp: TrimSpace_text_def last_rev)
  have "prefix (TrimSpace_text t) ?u"
    using suffix_dropWhile [of IsSpace "rev ?u"] by (simp add: TrimSpace_text_def suffix_to_prefix)
  then have "TrimSpace_text t = [] \<or> hd (TrimSpace_text t) = hd ?u" by (auto simp: prefix_def hd_append split: if_splits)
  moreover have "?u \<noteq> []" if "TrimSpace_text t \<noteq> []" using that
    by (metis TrimSpace_text_def dropWhile.simps(1) rev.simps(1))
  ultimately have first: "TrimSpace_text t = [] \<or> \<not> IsSpace (hd (TrimSpace_text t))"
    using hd_dropWhile [of IsSpace t] by auto
  have "rev (TrimSpace_text t) = [] \<or> \<not> IsSpace (hd (rev (TrimSpace_text t)))" using last by (auto simp: hd_rev)
  with first show ?thesis by (simp add: TrimSpace_text_def [of "TrimSpace_text t"] dropWhile_ends)
qed

lemma set_normalizeWordList: "set (normalizeWordList ws) = TrimSpace_text ` set ws - {[]}"
  by (auto simp: normalizeWordList_eq)

text \<open>A word of the table is in the filter's list, in lower case.\<close>

lemma built_filter:
  assumes "w \<in> set ws" and "map (to_lower s) (nfkc s (TrimSpace_text w)) = lw" and "lw \<noteq> []" and "TrimSpace_text w \<noteq> []"
  shows "\<exists>ls. buildFilter s ws = Some (lib_filter s ls) \<and> lw \<in> set ls"
proof -
  let ?ls = "filter (\<lambda>w. w \<noteq> []) (map (\<lambda>w. map (to_lower s) (nfkc s w)) (normalizeWordList ws))"
  have "TrimSpace_text w \<in> set (normalizeWordList ws)" using assms(1,4) by (auto simp: set_normalizeWordList)
  then have "lw \<in> set ?ls" and "normalizeWordList ws \<noteq> []" using assms(2,3) by auto
  moreover from this have "?ls \<noteq> []" by (metis empty_iff list.set(1))
  ultimately show ?thesis by (intro exI [of _ ?ls]) (simp add: buildFilter_def Let_def)
qed

end
