(* ===== verification/Sensitive_Props.thy ===== *)
theory Sensitive_Props
  imports Sensitive_Service
begin

text \<open>The properties of the text filter, and a concrete environment for their witnesses.\<close>

section \<open>An environment\<close>

definition sx_lower :: "rune \<Rightarrow> rune" where
  "sx_lower r = (if 65 \<le> r \<and> r \<le> 90 then r + 32 else r)"

text \<open>A library that looks for every word of its list.\<close>

definition sx_filter :: "runes list \<Rightarrow> text_filter" where
  "sx_filter ws = \<lparr>RemoveNoise = filter (\<lambda>r. \<not> noise r), FilterFindAll = (\<lambda>t. filter (\<lambda>w. sublist w t) ws)\<rparr>"

definition sx_env :: sensitive_env where
  "sx_env = \<lparr>nfkc = (\<lambda>t. t), to_lower = sx_lower, invisible = (\<lambda>r. r = 0x200B),
     folds = (\<lambda>a b. sx_lower a = sx_lower b), sort_slice = sort_key (\<lambda>w. - int (length w)), lib_filter = sx_filter,
     same_word = (=), like_word = (\<lambda>t w. sublist w t)\<rparr>"

definition sx_world :: "sensitive_db \<Rightarrow> (sensitive_db, sensitive_event) world" where
  "sx_world t = \<lparr>tables = t, connected = True, faults = [], outbox = []\<rparr>"


text \<open>The word \<open>bad\<close> as runes, and a text that spells it with noise and capitals.\<close>

definition sx_word :: runes where "sx_word = [98, 97, 100]"
definition sx_text :: runes where "sx_text = [97, 32, 66, 42, 97, 32, 68, 33]"

definition sx_loaded :: sensitive_db where
  "sx_loaded = \<lparr>words = [\<lparr>Word_ID = 1, Word_Text = sx_word\<rparr>], cur_filter = Some (sx_filter [sx_word])\<rparr>"

section \<open>Filtering\<close>

text \<open>
  Filtering never fails and changes neither the word list nor the filter. The result is the content as it
  was, or the normalised visible text with the same number of runes, each of them kept or replaced by a star.
\<close>

theorem filter_text_shape:
  "\<exists>out w'. FilterText s content w = (Inr out, w') \<and> tables w' = tables w \<and>
     (out = content \<or>
      length out = length (stripInvisible s (nfkc s content)) \<and>
      (\<forall>i < length out. out ! i = stripInvisible s (nfkc s content) ! i \<or> out ! i = star))"
proof -
  have "length (maskHits s t h) = length t \<and> (\<forall>i < length t. maskHits s t h ! i = t ! i \<or> maskHits s t h ! i = star)" for t h
    using maskHits_masked [of t s h] by (auto simp: masked_def list_all2_conv_all_nth)
  then show ?thesis by (auto simp: FilterText_run Let_def split: option.split)
qed

theorem filter_text_shape_witness:
  "\<exists>out w'. FilterText sx_env sx_text (sx_world sx_loaded) = (Inr out, w') \<and> tables w' = sx_loaded"
  using filter_text_shape [of sx_env sx_text "sx_world sx_loaded"] by (auto simp: sx_world_def)

text \<open>
  C23: A word that was hit cannot be read in the result: no reported word among the first thirty occurs in it,
  in any case, whatever the order in which the words are masked, provided it has no star itself.
\<close>

theorem hits_unreadable:
  assumes "cur_filter (tables w) = Some f" and "content \<noteq> []"
    and "word \<in> set (take maxMaskHits (FilterFindAll f (RemoveNoise f (normalizeText s content))))"
    and "\<And>ws. set (sort_slice s ws) = set ws"
    and "word \<noteq> []" and "\<forall>c \<in> set word. \<not> folds s c star"
    and "FilterText s content w = (Inr out, w')"
  shows "\<nexists>u v z. out = u @ v @ z \<and> list_all2 (folds s) word v"
proof -
  let ?hits = "FilterFindAll f (RemoveNoise f (normalizeText s content))"
  have "?hits \<noteq> []" using assms(3) by auto
  then have "out = maskHits s (stripInvisible s (nfkc s content)) (take maxMaskHits ?hits)"
    using assms(1,2,7) by (auto simp: FilterText_run Let_def)
  moreover have "maskable (folds s) word" using assms(5,6) by (simp add: maskable_def)
  ultimately show ?thesis using maskHits_gone [of s _ word, OF assms(4,3)] by (simp add: occurs_def)
qed

theorem hits_unreadable_witness:
  "\<exists>out w'. FilterText sx_env sx_text (sx_world sx_loaded) = (Inr out, w') \<and>
     \<not> (\<exists>u v z. out = u @ v @ z \<and> list_all2 (folds sx_env) sx_word v)"
proof -
  obtain out w' where run: "FilterText sx_env sx_text (sx_world sx_loaded) = (Inr out, w')"
    using FilterText_total by blast
  have "\<nexists>u v z. out = u @ v @ z \<and> list_all2 (folds sx_env) sx_word v"
  proof (rule hits_unreadable [OF _ _ _ _ _ _ run])
    show "cur_filter (tables (sx_world sx_loaded)) = Some (sx_filter [sx_word])"
      by (simp add: sx_world_def sx_loaded_def)
    show "sx_word \<in> set (take maxMaskHits (FilterFindAll (sx_filter [sx_word]) (RemoveNoise (sx_filter [sx_word])
        (normalizeText sx_env sx_text))))"
      by code_simp
    show "set (sort_slice sx_env ws) = set ws" for ws by (simp add: sx_env_def)
  qed (simp_all add: sx_text_def sx_word_def sx_env_def sx_lower_def star_def)
  with run show ?thesis by blast
qed

section \<open>The word list\<close>

text \<open>
  The loop that cleans the word list computes the trimmed, non-empty words, each once, in the order of
  their first appearance; cleaning a clean list changes nothing.
\<close>

theorem word_list_reference:
  "normalizeWordList ws = rev (remdups (rev (filter (\<lambda>w. w \<noteq> []) (map TrimSpace_text ws)))) \<and>
   normalizeWordList (normalizeWordList ws) = normalizeWordList ws"
proof -
  let ?n = "normalizeWordList ws"
  have "map TrimSpace_text ?n = ?n" "filter (\<lambda>w. w \<noteq> []) ?n = ?n" "distinct ?n"
    by (auto intro!: map_idI filter_True simp: set_normalizeWordList) (simp add: normalizeWordList_eq)
  then have "normalizeWordList ?n = ?n" by (simp add: normalizeWordList_eq [of ?n] distinct_remdups_id)
  then show ?thesis using normalizeWordList_eq by blast
qed



end
