(* ===== verification/Impact_Model.thy ===== *)
theory Impact_Model
  imports GoPrelude "HOL-Library.List_Lexorder" "HOL-Library.Char_ord"
begin

text \<open>
  The change analysis of the delivery pipeline (\<open>internal/ciimpact\<close>): paths, the service manifest and
  the list of changed files.

  Slash separated paths are cleaned by \<open>path.Clean\<close>, here on the list of the elements of a path. The texts of
  the errors are not modelled; what prints them is a parameter of the program.
\<close>

section \<open>Paths\<close>

definition slash :: char where "slash = CHR ''/''"

text \<open>\<open>path.Clean\<close>: the stack holds the elements of the result, the last one first.\<close>

fun clean_step :: "bool \<Rightarrow> string \<Rightarrow> string list \<Rightarrow> string list" where
  "clean_step rooted e stack =
     (if e = [] \<or> e = ''.'' then stack
      else if e = ''..'' then
        (case stack of
           [] \<Rightarrow> if rooted then [] else [e]
         | t # ts \<Rightarrow> if t = ''..'' then e # stack else ts)
      else e # stack)"

definition clean_elements :: "bool \<Rightarrow> string list \<Rightarrow> string list" where
  "clean_elements rooted es = rev (fold (clean_step rooted) es [])"

definition rooted_path :: "string \<Rightarrow> bool" where
  "rooted_path p \<longleftrightarrow> take 1 p = [slash]"

definition path_Clean :: "string \<Rightarrow> string" where
  "path_Clean p =
     (let body = join_with slash (clean_elements (rooted_path p) (split_at slash p))
      in if rooted_path p then slash # body else if body = [] then ''.'' else body)"

text \<open>\<open>path.Dir\<close> cleans everything up to the last slash; \<open>path.Ext\<close> is what begins at the last dot after it.\<close>

definition path_Dir :: "string \<Rightarrow> string" where
  "path_Dir p = path_Clean (rev (dropWhile (\<lambda>c. c \<noteq> slash) (rev p)))"

definition path_Ext :: "string \<Rightarrow> string" where
  "path_Ext p =
     (let base = takeWhile (\<lambda>c. c \<noteq> slash) (rev p)
      in if CHR ''.'' \<in> set base then CHR ''.'' # rev (takeWhile (\<lambda>c. c \<noteq> CHR ''.'') base) else [])"

text \<open>\<open>filepath.Rel\<close> on the same kind of paths.\<close>

fun strip_common :: "string list \<Rightarrow> string list \<Rightarrow> string list \<times> string list" where
  "strip_common (b # bs) (t # ts) = (if b = t then strip_common bs ts else (b # bs, t # ts))"
| "strip_common bs ts = (bs, ts)"

definition path_elements :: "string \<Rightarrow> string list" where
  "path_elements p = filter (\<lambda>e. e \<noteq> []) (split_at slash p)"

definition path_Rel :: "string \<Rightarrow> string \<Rightarrow> string option" where
  "path_Rel basepath targpath =
     (let b = path_Clean basepath; t = path_Clean targpath
      in if t = b then Some ''.''
         else
           let b = (if b = ''.'' then [] else b)
           in if rooted_path b \<noteq> rooted_path t then None
              else case strip_common (path_elements b) (path_elements t) of
                (bs, ts) \<Rightarrow>
                  if bs \<noteq> [] \<and> ts \<noteq> [] \<and> hd bs = ''..'' then None
                  else Some (join_with slash (map (\<lambda>_. ''..'') bs @ ts)))"

definition trim_prefix :: "string \<Rightarrow> string \<Rightarrow> string" where
  "trim_prefix p s = (if prefix p s then drop (length p) s else s)"

definition cleanPath :: "string \<Rightarrow> string" where
  "cleanPath value =
     (let value = TrimSpace (map (\<lambda>c. if c = CHR 0x5C then slash else c) value);
          value = trim_prefix ''./'' value
      in path_Clean value)"

section \<open>The manifest\<close>

record delivery_service =
  Svc_Service :: string
  Svc_Entrypoint :: string
  Svc_Image :: string
  Svc_ConfigDir :: string
  Svc_Port :: int

type_synonym manifest = "delivery_service list"

datatype impact_error =
    ReadManifest
  | DecodeManifest
  | EmptyManifest
  | IncompleteEntry string
  | DuplicateService string
  | UnknownService string
  | InvalidLine string
  | InvalidRename string
  | ReadNameStatus
  | GoListFailed
  | RuntimeDeps string
  | NoMainPackages string
  | TestDeps string
  | IncompleteGraph string
  | ReadChangedFiles
  | GitDiffFailed
  | NoRepositoryRoot
  | BaseWithoutHead
  | OneModeOnly

fun validate_services :: "string set \<Rightarrow> manifest \<Rightarrow> impact_error option" where
  "validate_services seen [] = None"
| "validate_services seen (s # ss) =
     (let name = TrimSpace (Svc_Service s)
      in if name = [] \<or> Svc_Entrypoint s = [] \<or> Svc_Image s = [] \<or> Svc_ConfigDir s = [] \<or> Svc_Port s \<le> 0
         then Some (IncompleteEntry name)
         else if name \<in> seen then Some (DuplicateService name)
         else validate_services (insert name seen) ss)"

definition ValidateManifest :: "manifest \<Rightarrow> impact_error option" where
  "ValidateManifest m = (if m = [] then Some EmptyManifest else validate_services {} m)"

text \<open>The content of the file, if it can be read, and what the JSON decoder makes of it.\<close>

definition LoadManifest :: "string option \<Rightarrow> (string \<Rightarrow> manifest option) \<Rightarrow> impact_error + manifest" where
  "LoadManifest data decode =
     (case data of
        None \<Rightarrow> Inl ReadManifest
      | Some d \<Rightarrow>
          (case decode d of
             None \<Rightarrow> Inl DecodeManifest
           | Some m \<Rightarrow> (case ValidateManifest m of Some e \<Rightarrow> Inl e | None \<Rightarrow> Inr m)))"

definition FindService :: "manifest \<Rightarrow> string \<Rightarrow> impact_error + delivery_service" where
  "FindService m name =
     (case find (\<lambda>s. Svc_Service s = name) m of None \<Rightarrow> Inl (UnknownService name) | Some s \<Rightarrow> Inr s)"

section \<open>Changed files\<close>

record file_change =
  Change_Status :: string
  Change_OldPath :: string
  Change_Path :: string

text \<open>
  \<open>bufio.Scanner\<close> with its default split function: lines without their end, a carriage return before it
  dropped too. A line that fills the buffer of 65536 bytes stops the scan; the flag tells.
\<close>

definition max_token :: nat where "max_token = 65536"

definition drop_cr :: "string \<Rightarrow> string" where
  "drop_cr l = (if l \<noteq> [] \<and> last l = CHR 0x0D then butlast l else l)"

function scan_lines :: "string \<Rightarrow> string list \<times> bool" where
  "scan_lines s =
     (let l = takeWhile (\<lambda>c. c \<noteq> CHR 0x0A) s; rest = dropWhile (\<lambda>c. c \<noteq> CHR 0x0A) s
      in if s = [] then ([], True)
         else if length l \<ge> max_token then ([], False)
         else if rest = [] then ([drop_cr l], True)
         else case scan_lines (drop 1 rest) of (ls, ok) \<Rightarrow> (drop_cr l # ls, ok))"
  by pat_completeness auto
termination
proof (relation "measure length")
  fix s l rest :: string
  assume rest: "rest = dropWhile (\<lambda>c. c \<noteq> CHR 0x0A) s" "rest \<noteq> []"
  have "length rest \<le> length s" unfolding rest(1) by (rule length_dropWhile_le)
  with rest(2) have "length (drop 1 rest) < length s" by (cases rest) auto
  then show "(drop 1 rest, s) \<in> measure length" by simp
qed simp

declare scan_lines.simps [simp del]

definition parse_change :: "string \<Rightarrow> impact_error + file_change" where
  "parse_change line =
     (let fields = split_at CHR 0x09 line
      in if length fields < 2 then Inl (InvalidLine line)
         else
           let status = fields ! 0
           in if prefix ''R'' status \<or> prefix ''C'' status
              then if length fields \<noteq> 3 then Inl (InvalidRename line)
                   else Inr \<lparr>Change_Status = status, Change_OldPath = cleanPath (fields ! 1),
                             Change_Path = cleanPath (fields ! 2)\<rparr>
              else Inr \<lparr>Change_Status = status, Change_OldPath = [], Change_Path = cleanPath (fields ! 1)\<rparr>)"

fun parse_lines :: "string list \<Rightarrow> impact_error + file_change list" where
  "parse_lines [] = Inr []"
| "parse_lines (l # ls) =
     (let line = TrimSpace l
      in if line = [] then parse_lines ls
         else case parse_change line of
           Inl e \<Rightarrow> Inl e
         | Inr c \<Rightarrow> (case parse_lines ls of Inl e \<Rightarrow> Inl e | Inr cs \<Rightarrow> Inr (c # cs)))"

text \<open>What the reader delivers, and whether it stopped with an error.\<close>

definition ParseNameStatus :: "string \<times> bool \<Rightarrow> impact_error + file_change list" where
  "ParseNameStatus reader =
     (case scan_lines (fst reader) of
        (ls, ok) \<Rightarrow>
          (case parse_lines ls of
             Inl e \<Rightarrow> Inl e
           | Inr cs \<Rightarrow> if ok \<and> \<not> snd reader then Inr cs else Inl ReadNameStatus))"

end
