(* ===== verification/Impact_Eval.thy ===== *)
theory Impact_Eval
  imports Impact_Model
begin

text \<open>
  The dependency graph, the evaluation of a change and the program \<open>ecampus-impact\<close>
  (\<open>internal/ciimpact/graph.go\<close>, \<open>evaluate.go\<close>, \<open>cmd/ecampus-impact/main.go\<close>).

  \<open>go_list\<close> stands for the runs of \<open>go list\<close>: the packages it prints for a list of arguments, or nothing when it
  fails or its output cannot be decoded.
\<close>

section \<open>The dependency graph\<close>

record listed_package =
  Pkg_ImportPath :: string
  Pkg_Dir :: string
  Pkg_Module :: "bool option"

record dep_graph =
  Packages :: "string \<rightharpoonup> string"
  Runtime :: "string \<rightharpoonup> string set"
  Tests :: "string \<rightharpoonup> string set"

type_synonym go_list = "string list \<Rightarrow> listed_package list option"

definition isMainModule :: "listed_package \<Rightarrow> bool" where
  "isMainModule pkg \<longleftrightarrow> Pkg_Module pkg = Some True"

definition localImports :: "listed_package list \<Rightarrow> string set" where
  "localImports pkgs =
     set (map Pkg_ImportPath (filter (\<lambda>p. isMainModule p \<and> Pkg_ImportPath p \<noteq> [] \<and> \<not> suffix ''.test'' (Pkg_ImportPath p)) pkgs))"

fun packages_step :: "string \<Rightarrow> listed_package \<Rightarrow> (string \<rightharpoonup> string) \<Rightarrow> (string \<rightharpoonup> string)" where
  "packages_step repoRoot pkg m =
     (if \<not> isMainModule pkg \<or> Pkg_Dir pkg = [] \<or> Pkg_ImportPath pkg = [] then m
      else case path_Rel repoRoot (Pkg_Dir pkg) of
        None \<Rightarrow> m
      | Some dir \<Rightarrow> if prefix ''..'' dir then m else m(cleanPath dir \<mapsto> Pkg_ImportPath pkg))"

fun add_services :: "go_list \<Rightarrow> manifest \<Rightarrow> dep_graph \<Rightarrow> impact_error + dep_graph" where
  "add_services go_list [] g = Inr g"
| "add_services go_list (s # ss) g =
     (case go_list [''-deps'', ''-json'', Svc_Entrypoint s] of
        None \<Rightarrow> Inl (RuntimeDeps (Svc_Service s))
      | Some runtimePackages \<Rightarrow>
          let runtime = localImports runtimePackages
          in if runtime = {} then Inl (NoMainPackages (Svc_Service s))
             else
               let g = g\<lparr>Runtime := (Runtime g)(Svc_Service s \<mapsto> runtime)\<rparr>
               in case go_list ([''-deps'', ''-test'', ''-json''] @ sorted_list_of_set runtime) of
                    None \<Rightarrow> Inl (TestDeps (Svc_Service s))
                  | Some testPackages \<Rightarrow>
                      add_services go_list ss
                        (g\<lparr>Tests := (Tests g)(Svc_Service s \<mapsto> localImports testPackages)\<rparr>))"

definition BuildGraph :: "go_list \<Rightarrow> string \<Rightarrow> manifest \<Rightarrow> impact_error + dep_graph" where
  "BuildGraph go_list repoRoot m =
     (case go_list [''-json'', ''./...''] of
        None \<Rightarrow> Inl GoListFailed
      | Some pkgs \<Rightarrow>
          add_services go_list m
            \<lparr>Packages = fold (packages_step repoRoot) pkgs Map.empty, Runtime = Map.empty, Tests = Map.empty\<rparr>)"

definition RuntimePackages :: "go_list \<Rightarrow> delivery_service \<Rightarrow> string list option" where
  "RuntimePackages go_list s =
     map_option (\<lambda>pkgs. sorted_list_of_set (localImports pkgs)) (go_list [''-deps'', ''-json'', Svc_Entrypoint s])"

text \<open>A missing entry of a map of sets reads as the empty set.\<close>

definition deps_of :: "(string \<rightharpoonup> string set) \<Rightarrow> string \<Rightarrow> string set" where
  "deps_of m name = (case m name of None \<Rightarrow> {} | Some ds \<Rightarrow> ds)"

fun ValidateGraph :: "manifest \<Rightarrow> dep_graph \<Rightarrow> impact_error option" where
  "ValidateGraph [] g = None"
| "ValidateGraph (s # ss) g =
     (if deps_of (Runtime g) (Svc_Service s) = {} \<or> deps_of (Tests g) (Svc_Service s) = {}
      then Some (IncompleteGraph (Svc_Service s)) else ValidateGraph ss g)"

section \<open>Kinds of files\<close>

definition fullBuildFiles :: "string list" where
  "fullBuildFiles =
     [''go.mod'', ''go.sum'', ''go.work'', ''go.work.sum'', ''.dockerignore'', ''build/Dockerfile.go-service'',
      ''scripts/ci/services.json'']"

definition ignorable :: "string \<Rightarrow> bool" where
  "ignorable f \<longleftrightarrow>
     (f = ''.github/workflows/deploy.yml'' \<or> prefix ''docs/'' f \<or> prefix ''.github/ISSUE_TEMPLATE/'' f) \<or>
     (prefix ''configs/ecampus-crm/'' f \<or> prefix ''cmd/ecampus-crm/'' f \<or> prefix ''internal/app/ecampuscrm/'' f) \<or>
     (prefix ''cmd/ecampus/'' f \<or> prefix ''deployments/ecampus/'' f \<or> prefix ''deployments/ecampus-crm/'' f) \<or>
     path_Dir f = ''internal/app/ecampus'' \<or>
     (let ext = map lower_char (path_Ext f) in ext = ''.md'' \<or> ext = ''.mdx'' \<or> f = ''LICENSE'')"

definition ciContractFile :: "string \<Rightarrow> bool" where
  "ciContractFile f \<longleftrightarrow>
     prefix ''internal/ciimpact/'' f \<or> prefix ''cmd/ecampus-impact/'' f \<or>
     prefix ''cmd/ecampus-service-check/'' f \<or> prefix ''scripts/ci/run-service-checks'' f"

definition changeIsIgnorable :: "file_change \<Rightarrow> bool" where
  "changeIsIgnorable c \<longleftrightarrow>
     ignorable (cleanPath (Change_Path c)) \<and> (Change_OldPath c = [] \<or> ignorable (cleanPath (Change_OldPath c)))"

definition change_paths :: "file_change \<Rightarrow> string list" where
  "change_paths c =
     (if Change_OldPath c \<noteq> [] then [cleanPath (Change_OldPath c)] else []) @
     (if Change_Path c \<noteq> [] then [cleanPath (Change_Path c)] else [])"

definition changedPaths :: "file_change list \<Rightarrow> string list" where
  "changedPaths cs = sorted_list_of_set (set (concat (map change_paths cs)))"

section \<open>Evaluation\<close>

record impact_result =
  ChangedFiles :: "string list"
  TestMatrix :: "delivery_service list"
  BuildMatrix :: "delivery_service list"
  HasTests :: bool
  HasBuilds :: bool
  RequiresProtoCheck :: bool
  FallbackReason :: string

definition FullResult :: "manifest \<Rightarrow> string list \<Rightarrow> string \<Rightarrow> impact_result" where
  "FullResult m changed reason =
     \<lparr>ChangedFiles = changed, TestMatrix = m, BuildMatrix = m, HasTests = length m > 0, HasBuilds = length m > 0,
      RequiresProtoCheck = list_ex (\<lambda>f. prefix ''proto/agent/'' (cleanPath f)) changed, FallbackReason = reason\<rparr>"

definition selectedServices :: "manifest \<Rightarrow> string set \<Rightarrow> delivery_service list" where
  "selectedServices m selected = filter (\<lambda>s. Svc_Service s \<in> selected) m"

text \<open>The first loop of \<open>Evaluate\<close>: the reason why a change cannot be mapped.\<close>

fun unsafe_change :: "file_change list \<Rightarrow> string option" where
  "unsafe_change [] = None"
| "unsafe_change (c # cs) =
     (if changeIsIgnorable c then unsafe_change cs
      else if prefix ''D'' (Change_Status c)
        then Some (''deleted file cannot be mapped safely: '' @ Change_Path c)
      else if prefix ''R'' (Change_Status c) \<or> prefix ''C'' (Change_Status c)
        then Some (''renamed or copied file cannot be mapped safely: '' @ Change_Path c)
      else if Change_Status c \<noteq> ''A'' \<and> Change_Status c \<noteq> ''M'' \<and> Change_Status c \<noteq> ''T''
        then Some (''unsupported git change status: '' @ Change_Status c)
      else unsafe_change cs)"

record selection =
  sel_tests :: "string set"
  sel_builds :: "string set"
  sel_proto :: bool

text \<open>The loop over the services for a file of the package \<open>imp\<close>, with the flag \<open>matched\<close>.\<close>

fun match_services :: "dep_graph \<Rightarrow> string \<Rightarrow> string \<Rightarrow> manifest \<Rightarrow> bool \<times> selection \<Rightarrow> bool \<times> selection" where
  "match_services g f imp [] r = r"
| "match_services g f imp (s # ss) (matched, sel) =
     (if imp \<in> deps_of (Runtime g) (Svc_Service s) then
        (let sel = sel\<lparr>sel_tests := insert (Svc_Service s) (sel_tests sel)\<rparr>;
             sel = (if \<not> suffix ''_test.go'' f then sel\<lparr>sel_builds := insert (Svc_Service s) (sel_builds sel)\<rparr> else sel)
         in match_services g f imp ss (True, sel))
      else if imp \<in> deps_of (Tests g) (Svc_Service s) then
        match_services g f imp ss (True, sel\<lparr>sel_tests := insert (Svc_Service s) (sel_tests sel)\<rparr>)
      else match_services g f imp ss (matched, sel))"

text \<open>The second loop: the reason for a full result, or what is selected.\<close>

fun select_services :: "manifest \<Rightarrow> dep_graph \<Rightarrow> file_change list \<Rightarrow> selection \<Rightarrow> string + selection" where
  "select_services m g [] sel = Inr sel"
| "select_services m g (c # cs) sel =
     (let f = cleanPath (Change_Path c)
      in if ignorable f then select_services m g cs sel
         else if f \<in> set fullBuildFiles \<or> prefix ''configs/ecampus/'' f \<or> ciContractFile f then Inl []
         else if prefix ''proto/agent/'' f then
           select_services m g cs
             (sel\<lparr>sel_tests := insert ''agentchat'' (sel_tests sel), sel_builds := insert ''agentchat'' (sel_builds sel),
                  sel_proto := True\<rparr>)
         else case Packages g (path_Dir f) of
           None \<Rightarrow> Inl (''file cannot be mapped to a Go package: '' @ f)
         | Some importPath \<Rightarrow>
             (case match_services g f importPath m (False, sel) of
                (matched, sel) \<Rightarrow>
                  if \<not> matched
                  then Inl (''package is outside every service dependency closure: '' @ importPath)
                  else select_services m g cs sel))"

definition Evaluate :: "manifest \<Rightarrow> file_change list \<Rightarrow> dep_graph \<Rightarrow> impact_result" where
  "Evaluate m changes g =
     (let changed = changedPaths changes
      in case unsafe_change changes of
           Some reason \<Rightarrow> FullResult m changed reason
         | None \<Rightarrow>
             (case select_services m g changes \<lparr>sel_tests = {}, sel_builds = {}, sel_proto = False\<rparr> of
                Inl reason \<Rightarrow> FullResult m changed reason
              | Inr sel \<Rightarrow>
                  let tests = selectedServices m (sel_tests sel); builds = selectedServices m (sel_builds sel)
                  in \<lparr>ChangedFiles = changed, TestMatrix = tests, BuildMatrix = builds,
                      HasTests = length tests > 0, HasBuilds = length builds > 0,
                      RequiresProtoCheck = sel_proto sel, FallbackReason = []\<rparr>))"

section \<open>The program\<close>

record impact_flags =
  Flag_base :: string
  Flag_head :: string
  Flag_changed_files :: string
  Flag_all :: bool
  Flag_manifest :: string

text \<open>
  What the program reads: the output of \<open>git rev-parse\<close>, files (with a flag for a read that fails half way), the
  JSON decoder, the output of \<open>git diff\<close> for two commits, \<open>go list\<close>, and the texts of errors.
\<close>

record impact_env =
  show_toplevel :: "string option"
  open_file :: "string \<Rightarrow> (string \<times> bool) option"
  decode_manifest :: "string \<Rightarrow> manifest option"
  git_diff :: "string \<Rightarrow> string \<Rightarrow> string option"
  run_go_list :: go_list
  error_text :: "impact_error \<Rightarrow> string"

definition read_file :: "impact_env \<Rightarrow> string \<Rightarrow> string option" where
  "read_file e p = (case open_file e p of Some (d, False) \<Rightarrow> Some d | _ \<Rightarrow> None)"

definition repositoryRoot :: "impact_env \<Rightarrow> impact_error + string" where
  "repositoryRoot e =
     (case show_toplevel e of None \<Rightarrow> Inl NoRepositoryRoot | Some out \<Rightarrow> Inr (path_Clean (TrimSpace out)))"

definition readChanges :: "impact_env \<Rightarrow> string \<Rightarrow> string \<Rightarrow> string \<Rightarrow> string \<times> (impact_error + file_change list)" where
  "readChanges e changedFile base head =
     (if changedFile \<noteq> [] then
        (case open_file e changedFile of
           None \<Rightarrow> (''read changed-files'', Inl ReadChangedFiles)
         | Some reader \<Rightarrow> (''parse changed-files'', ParseNameStatus reader))
      else
        (case git_diff e base head of
           None \<Rightarrow> (''git diff failed'', Inl GitDiffFailed)
         | Some out \<Rightarrow> (''parse git diff'', ParseNameStatus (out, False))))"

definition mode_count :: "impact_flags \<Rightarrow> impact_error + nat" where
  "mode_count fl =
     (let n = (if Flag_all fl then 1 else 0) + (if Flag_changed_files fl \<noteq> [] then 1 else 0)
      in if Flag_base fl \<noteq> [] \<or> Flag_head fl \<noteq> []
         then if Flag_base fl = [] \<or> Flag_head fl = [] then Inl BaseWithoutHead else Inr (n + 1)
         else Inr n)"

definition manifest_file :: "string \<Rightarrow> string \<Rightarrow> string" where
  "manifest_file repoRoot p = (if rooted_path p then p else path_Clean (join_with slash (filter (\<lambda>e. e \<noteq> []) [repoRoot, p])))"

definition impact_run :: "impact_env \<Rightarrow> impact_flags \<Rightarrow> impact_error + impact_result" where
  "impact_run e fl =
     (case repositoryRoot e of Inl x \<Rightarrow> Inl x | Inr repoRoot \<Rightarrow>
      case LoadManifest (read_file e (manifest_file repoRoot (Flag_manifest fl))) (decode_manifest e) of
        Inl x \<Rightarrow> Inl x
      | Inr m \<Rightarrow>
      case mode_count fl of Inl x \<Rightarrow> Inl x | Inr n \<Rightarrow>
      if n \<noteq> 1 then Inl OneModeOnly
      else if Flag_all fl then Inr (FullResult m [] [])
      else
        case readChanges e (Flag_changed_files fl) (Flag_base fl) (Flag_head fl) of
          (reason, Inl x) \<Rightarrow> Inr (FullResult m [] (reason @ '': '' @ error_text e x))
        | (_, Inr changes) \<Rightarrow>
            (case BuildGraph (run_go_list e) repoRoot m of
               Inl x \<Rightarrow> Inr (FullResult m (map Change_Path changes) (error_text e x))
             | Inr g \<Rightarrow> Inr (Evaluate m changes g)))"

end
