(* ===== verification/Impact_Spec.thy ===== *)
theory Impact_Spec
  imports Impact_Eval
begin

text \<open>
  What the change analysis means: which files force a full run, which services a file concerns, and that the loops
  of \<open>Evaluate\<close> select exactly those.
\<close>

section \<open>What a changed file asks for\<close>

definition changed_file :: "file_change \<Rightarrow> string" where
  "changed_file c = cleanPath (Change_Path c)"

definition relevant :: "file_change \<Rightarrow> bool" where
  "relevant c \<longleftrightarrow> \<not> ignorable (changed_file c)"

definition full_file :: "string \<Rightarrow> bool" where
  "full_file f \<longleftrightarrow> f \<in> set fullBuildFiles \<or> prefix ''configs/ecampus/'' f \<or> ciContractFile f"

definition proto_file :: "string \<Rightarrow> bool" where
  "proto_file f \<longleftrightarrow> prefix ''proto/agent/'' f"

text \<open>The service \<open>name\<close> must be tested, or built, because of the file \<open>f\<close>.\<close>

definition needs_test :: "dep_graph \<Rightarrow> string \<Rightarrow> string \<Rightarrow> bool" where
  "needs_test g f name \<longleftrightarrow>
     (if proto_file f then name = ''agentchat''
      else \<exists>p. Packages g (path_Dir f) = Some p \<and> (p \<in> deps_of (Runtime g) name \<or> p \<in> deps_of (Tests g) name))"

definition needs_build :: "dep_graph \<Rightarrow> string \<Rightarrow> string \<Rightarrow> bool" where
  "needs_build g f name \<longleftrightarrow>
     (if proto_file f then name = ''agentchat''
      else \<not> suffix ''_test.go'' f \<and> (\<exists>p. Packages g (path_Dir f) = Some p \<and> p \<in> deps_of (Runtime g) name))"

text \<open>A change that can be mapped: a plain change of a file that concerns some service.\<close>

definition plain_status :: "string \<Rightarrow> bool" where
  "plain_status st \<longleftrightarrow> st = ''A'' \<or> st = ''M'' \<or> st = ''T''"

definition mappable :: "manifest \<Rightarrow> dep_graph \<Rightarrow> file_change \<Rightarrow> bool" where
  "mappable m g c \<longleftrightarrow>
     changeIsIgnorable c \<or>
     plain_status (Change_Status c) \<and>
     (\<not> relevant c \<or> \<not> full_file (changed_file c) \<and>
        (proto_file (changed_file c) \<or> (\<exists>s \<in> set m. needs_test g (changed_file c) (Svc_Service s))))"

definition concerned :: "(string \<Rightarrow> string \<Rightarrow> bool) \<Rightarrow> file_change list \<Rightarrow> string \<Rightarrow> bool" where
  "concerned P cs name \<longleftrightarrow> (\<exists>c \<in> set cs. relevant c \<and> P (changed_file c) name)"

section \<open>The loops\<close>

lemma unsafe_change_None:
  "unsafe_change cs = None \<longleftrightarrow> (\<forall>c \<in> set cs. changeIsIgnorable c \<or> plain_status (Change_Status c))"
  by (induction cs) (auto simp: plain_status_def)

lemma match_services_result:
  assumes "match_services g f p m (matched, sel) = (matched', sel')"
  shows "(matched' \<longleftrightarrow> matched \<or> (\<exists>s \<in> set m. p \<in> deps_of (Runtime g) (Svc_Service s) \<or> p \<in> deps_of (Tests g) (Svc_Service s))) \<and>
    (\<forall>n. n \<in> sel_tests sel' \<longleftrightarrow> n \<in> sel_tests sel \<or>
       n \<in> Svc_Service ` set m \<and> (p \<in> deps_of (Runtime g) n \<or> p \<in> deps_of (Tests g) n)) \<and>
    (\<forall>n. n \<in> sel_builds sel' \<longleftrightarrow> n \<in> sel_builds sel \<or>
       n \<in> Svc_Service ` set m \<and> p \<in> deps_of (Runtime g) n \<and> \<not> suffix ''_test.go'' f) \<and>
    sel_proto sel' = sel_proto sel"
  using assms
proof (induction m arbitrary: matched sel)
  case (Cons s m)
  let ?n = "Svc_Service s"
  consider "p \<in> deps_of (Runtime g) ?n" | "p \<notin> deps_of (Runtime g) ?n" "p \<in> deps_of (Tests g) ?n"
    | "p \<notin> deps_of (Runtime g) ?n" "p \<notin> deps_of (Tests g) ?n" by blast
  then show ?case
  proof cases
    case 1
    let ?sel = "sel\<lparr>sel_tests := insert ?n (sel_tests sel)\<rparr>"
    let ?sel' = "if \<not> suffix ''_test.go'' f then ?sel\<lparr>sel_builds := insert ?n (sel_builds ?sel)\<rparr> else ?sel"
    have "match_services g f p m (True, ?sel') = (matched', sel')" using Cons.prems 1 by (simp add: Let_def)
    from Cons.IH [OF this] 1 show ?thesis by (auto split: if_splits)
  next
    case 2
    with Cons.prems have "match_services g f p m (True, sel\<lparr>sel_tests := insert ?n (sel_tests sel)\<rparr>) = (matched', sel')" by simp
    from Cons.IH [OF this] 2 show ?thesis by auto
  next
    case 3
    with Cons.prems have "match_services g f p m (matched, sel) = (matched', sel')" by simp
    from Cons.IH [OF this] 3 show ?thesis by auto
  qed
qed simp

text \<open>One file: it is mapped exactly when it concerns some service, and then it adds the services it concerns.\<close>

definition selects :: "manifest \<Rightarrow> dep_graph \<Rightarrow> file_change list \<Rightarrow> selection \<Rightarrow> selection \<Rightarrow> bool" where
  "selects m g cs sel sel' \<longleftrightarrow>
     (\<forall>s \<in> set m. Svc_Service s \<in> sel_tests sel' \<longleftrightarrow>
        Svc_Service s \<in> sel_tests sel \<or> concerned (needs_test g) cs (Svc_Service s)) \<and>
     (\<forall>s \<in> set m. Svc_Service s \<in> sel_builds sel' \<longleftrightarrow>
        Svc_Service s \<in> sel_builds sel \<or> concerned (needs_build g) cs (Svc_Service s)) \<and>
     (sel_proto sel' \<longleftrightarrow> sel_proto sel \<or> (\<exists>c \<in> set cs. relevant c \<and> proto_file (changed_file c)))"

lemma selects_skip: "selects m g cs sel sel' \<Longrightarrow> \<not> relevant c \<Longrightarrow> selects m g (c # cs) sel sel'"
  by (simp add: selects_def concerned_def)

lemma selects_file:
  assumes "relevant c" and "selects m g cs sel sel'"
    and "\<And>s. s \<in> set m \<Longrightarrow>
      Svc_Service s \<in> sel_tests sel \<longleftrightarrow> Svc_Service s \<in> sel_tests sel0 \<or> needs_test g (changed_file c) (Svc_Service s)"
    and "\<And>s. s \<in> set m \<Longrightarrow>
      Svc_Service s \<in> sel_builds sel \<longleftrightarrow> Svc_Service s \<in> sel_builds sel0 \<or> needs_build g (changed_file c) (Svc_Service s)"
    and "sel_proto sel \<longleftrightarrow> sel_proto sel0 \<or> proto_file (changed_file c)"
  shows "selects m g (c # cs) sel0 sel'"
  using assms by (auto simp: selects_def concerned_def)

lemma select_services_result:
  "case select_services m g cs sel of
     Inl _ \<Rightarrow> \<exists>c \<in> set cs. relevant c \<and> (full_file (changed_file c) \<or>
       \<not> (proto_file (changed_file c) \<or> (\<exists>s \<in> set m. needs_test g (changed_file c) (Svc_Service s))))
   | Inr sel' \<Rightarrow> selects m g cs sel sel' \<and> (\<forall>c \<in> set cs. relevant c \<longrightarrow> \<not> full_file (changed_file c) \<and>
       (proto_file (changed_file c) \<or> (\<exists>s \<in> set m. needs_test g (changed_file c) (Svc_Service s))))"
  (is "?P cs sel (select_services m g cs sel)")
proof (induction cs arbitrary: sel)
  case (Cons c cs)
  let ?f = "changed_file c"
  have step: "?P (c # cs) sel (select_services m g (c # cs) sel)"
    if "select_services m g (c # cs) sel = select_services m g cs sel1"
      and "\<And>sel'. selects m g cs sel1 sel' \<Longrightarrow> selects m g (c # cs) sel sel'"
      and "relevant c \<Longrightarrow> \<not> full_file ?f \<and> (proto_file ?f \<or> (\<exists>s \<in> set m. needs_test g ?f (Svc_Service s)))" for sel1
    using Cons.IH [of sel1] that by (auto split: sum.splits)
  consider "\<not> relevant c" | "relevant c" "full_file ?f" | "relevant c" "\<not> full_file ?f" "proto_file ?f"
    | "relevant c" "\<not> full_file ?f" "\<not> proto_file ?f" "Packages g (path_Dir ?f) = None"
    | p where "relevant c" "\<not> full_file ?f" "\<not> proto_file ?f" "Packages g (path_Dir ?f) = Some p"
    by (cases "Packages g (path_Dir ?f)") blast+
  then show ?case
  proof cases
    case 1
    then show ?thesis
      by (intro step [of sel]) (simp_all add: relevant_def changed_file_def Let_def selects_skip)
  next
    case 2
    then have "select_services m g (c # cs) sel = Inl []"
      by (auto simp: relevant_def changed_file_def full_file_def Let_def)
    with 2 show ?thesis by auto
  next
    case 3
    let ?sel = "sel\<lparr>sel_tests := insert ''agentchat'' (sel_tests sel), sel_builds := insert ''agentchat'' (sel_builds sel),
      sel_proto := True\<rparr>"
    have eq: "select_services m g (c # cs) sel = select_services m g cs ?sel"
      using 3 by (simp add: relevant_def changed_file_def full_file_def proto_file_def Let_def)
    show ?thesis by (rule step [OF eq]) (use 3 in \<open>auto intro!: selects_file simp: needs_test_def needs_build_def\<close>)
  next
    case 4
    then have "select_services m g (c # cs) sel = Inl (''file cannot be mapped to a Go package: '' @ ?f)"
      by (simp add: relevant_def changed_file_def full_file_def proto_file_def Let_def)
    with 4 show ?thesis by (auto simp: needs_test_def)
  next
    case 5
    obtain matched sel1 where run: "match_services g ?f p m (False, sel) = (matched, sel1)" by fastforce
    note res = match_services_result [OF run]
    have run': "select_services m g (c # cs) sel = (if \<not> matched
        then Inl (''package is outside every service dependency closure: '' @ p) else select_services m g cs sel1)"
      using 5 run by (simp add: relevant_def changed_file_def full_file_def proto_file_def Let_def)
    have hit: "matched \<longleftrightarrow> (\<exists>s \<in> set m. needs_test g ?f (Svc_Service s))" using res 5 by (simp add: needs_test_def)
    show ?thesis
    proof (cases matched)
      case True
      have more: "selects m g (c # cs) sel sel'" if "selects m g cs sel1 sel'" for sel'
        by (rule selects_file [OF 5(1) that]) (use res 5 in \<open>auto simp: needs_test_def needs_build_def\<close>)
      from True run' have eq: "select_services m g (c # cs) sel = select_services m g cs sel1" by simp
      show ?thesis by (rule step [OF eq more]) (use True hit 5 in auto)
    next
      case False
      with run' hit 5 show ?thesis by auto
    qed
  qed
qed (simp add: selects_def concerned_def)

section \<open>Evaluation\<close>

definition partial_result :: "manifest \<Rightarrow> dep_graph \<Rightarrow> file_change list \<Rightarrow> impact_result" where
  "partial_result m g cs =
     (let tests = filter (\<lambda>s. concerned (needs_test g) cs (Svc_Service s)) m;
          builds = filter (\<lambda>s. concerned (needs_build g) cs (Svc_Service s)) m
      in \<lparr>ChangedFiles = changedPaths cs, TestMatrix = tests, BuildMatrix = builds, HasTests = tests \<noteq> [],
          HasBuilds = builds \<noteq> [], RequiresProtoCheck = (\<exists>c \<in> set cs. relevant c \<and> proto_file (changed_file c)),
          FallbackReason = []\<rparr>)"

lemma mappable_parts:
  "(\<forall>c \<in> set cs. mappable m g c) \<longleftrightarrow>
   unsafe_change cs = None \<and> (\<forall>c \<in> set cs. relevant c \<longrightarrow> \<not> full_file (changed_file c) \<and>
     (proto_file (changed_file c) \<or> (\<exists>s \<in> set m. needs_test g (changed_file c) (Svc_Service s))))"
  unfolding unsafe_change_None by (auto simp: mappable_def relevant_def changeIsIgnorable_def changed_file_def)

lemma Evaluate_mappable:
  assumes "\<forall>c \<in> set cs. mappable m g c"
  shows "Evaluate m cs g = partial_result m g cs"
proof -
  let ?start = "\<lparr>sel_tests = {}, sel_builds = {}, sel_proto = False\<rparr>"
  have parts: "unsafe_change cs = None"
    and ok: "\<forall>c \<in> set cs. relevant c \<longrightarrow> \<not> full_file (changed_file c) \<and>
     (proto_file (changed_file c) \<or> (\<exists>s \<in> set m. needs_test g (changed_file c) (Svc_Service s)))"
    using assms mappable_parts by blast+
  from ok select_services_result [where m = m and g = g and cs = cs and sel = ?start] obtain sel
    where sel: "select_services m g cs ?start = Inr sel" "selects m g cs ?start sel"
    by (cases "select_services m g cs ?start") auto
  have "selectedServices m (sel_tests sel) = filter (\<lambda>s. concerned (needs_test g) cs (Svc_Service s)) m"
    "selectedServices m (sel_builds sel) = filter (\<lambda>s. concerned (needs_build g) cs (Svc_Service s)) m"
    unfolding selectedServices_def using sel(2) by (auto simp: selects_def intro!: filter_cong)
  with parts sel show ?thesis
    by (simp add: Evaluate_def partial_result_def Let_def selects_def)
qed

lemma Evaluate_unmappable:
  assumes "\<not> (\<forall>c \<in> set cs. mappable m g c)"
  shows "\<exists>reason. Evaluate m cs g = FullResult m (changedPaths cs) reason"
proof (cases "unsafe_change cs")
  case None
  let ?start = "\<lparr>sel_tests = {}, sel_builds = {}, sel_proto = False\<rparr>"
  from None assms select_services_result [where m = m and g = g and cs = cs and sel = ?start] obtain reason where "select_services m g cs ?start = Inl reason"
    unfolding mappable_parts by (cases "select_services m g cs ?start") auto
  with None show ?thesis by (auto simp: Evaluate_def Let_def)
qed (auto simp: Evaluate_def Let_def)

lemma Evaluate_cases:
  obtains reason where "Evaluate m cs g = FullResult m (changedPaths cs) reason"
  | "Evaluate m cs g = partial_result m g cs" "\<forall>c \<in> set cs. mappable m g c"
  using Evaluate_mappable Evaluate_unmappable by blast

lemma needs_build_test: "needs_build g f name \<Longrightarrow> needs_test g f name"
  by (auto simp: needs_build_def needs_test_def split: if_splits)

lemma changedPaths_set: "set (changedPaths cs) = (\<Union>c \<in> set cs. set (change_paths c))"
  by (simp add: changedPaths_def)

section \<open>The graph\<close>

lemma add_services_other:
  "add_services go_list m g = Inr g' \<Longrightarrow> Packages g' = Packages g \<and>
     (\<forall>n. n \<notin> Svc_Service ` set m \<longrightarrow> Runtime g' n = Runtime g n \<and> Tests g' n = Tests g n)"
proof (induction m arbitrary: g)
  case (Cons s m)
  then obtain rt ts where next_g: "add_services go_list m (g\<lparr>Runtime := (Runtime g)(Svc_Service s \<mapsto> rt),
      Tests := (Tests g)(Svc_Service s \<mapsto> ts)\<rparr>) = Inr g'"
    by (auto simp: Let_def split: option.splits if_splits)
  from Cons.IH [OF next_g] show ?case by auto
qed simp

lemma add_services_runtime:
  assumes "add_services go_list m g = Inr g'" and "distinct (map Svc_Service m)" and "s \<in> set m"
    and "go_list [''-deps'', ''-json'', Svc_Entrypoint s] = Some pkgs"
  shows "Runtime g' (Svc_Service s) = Some (localImports pkgs)"
  using assms
proof (induction m arbitrary: g)
  case (Cons x m)
  then obtain rt ts where next_g: "add_services go_list m (g\<lparr>Runtime := (Runtime g)(Svc_Service x \<mapsto> rt),
      Tests := (Tests g)(Svc_Service x \<mapsto> ts)\<rparr>) = Inr g'"
    and rt: "\<And>ps. go_list [''-deps'', ''-json'', Svc_Entrypoint x] = Some ps \<Longrightarrow> rt = localImports ps"
    by (auto simp: Let_def split: option.splits if_splits)
  show ?case
  proof (cases "s = x")
    case True
    have "Svc_Service x \<notin> Svc_Service ` set m" using Cons.prems(2) by simp
    with add_services_other [OF next_g] rt True Cons.prems(4) show ?thesis by simp
  next
    case False
    with Cons.IH [OF next_g] Cons.prems show ?thesis by simp
  qed
qed simp

text \<open>The directory of a package, relative to the repository, as \<open>BuildGraph\<close> records it.\<close>

definition package_dir :: "string \<Rightarrow> listed_package \<Rightarrow> string option" where
  "package_dir repoRoot pkg =
     (if \<not> isMainModule pkg \<or> Pkg_Dir pkg = [] \<or> Pkg_ImportPath pkg = [] then None
      else case path_Rel repoRoot (Pkg_Dir pkg) of
        None \<Rightarrow> None
      | Some dir \<Rightarrow> if prefix ''..'' dir then None else Some (cleanPath dir))"

lemma packages_step_dir:
  "packages_step root pkg m = (case package_dir root pkg of None \<Rightarrow> m | Some d \<Rightarrow> m(d \<mapsto> Pkg_ImportPath pkg))"
  by (simp add: package_dir_def split: option.split)

lemma packages_fold:
  assumes "pkg \<in> set pkgs \<or> m d = Some (Pkg_ImportPath pkg)" and "package_dir root pkg = Some d"
    and "\<forall>q \<in> set pkgs. package_dir root q = Some d \<longrightarrow> Pkg_ImportPath q = Pkg_ImportPath pkg"
  shows "fold (packages_step root) pkgs m d = Some (Pkg_ImportPath pkg)"
  using assms
proof (induction pkgs arbitrary: m)
  case (Cons q pkgs)
  have "pkg \<in> set pkgs \<or> packages_step root q m d = Some (Pkg_ImportPath pkg)"
    unfolding packages_step_dir using Cons.prems by (auto split: option.splits)
  with Cons show ?case by simp
qed simp

lemma validate_distinct:
  "validate_services seen m = None \<Longrightarrow>
     distinct (map (TrimSpace \<circ> Svc_Service) m) \<and> (TrimSpace \<circ> Svc_Service) ` set m \<inter> seen = {}"
  by (induction seen m rule: validate_services.induct) (auto simp: Let_def split: if_splits)

lemma manifest_distinct: "ValidateManifest m = None \<Longrightarrow> distinct (map Svc_Service m)"
  using validate_distinct [of "{}" m] by (auto simp: ValidateManifest_def distinct_map split: if_splits intro: inj_on_imageI2)

section \<open>The program\<close>

lemma impact_run_mode:
  assumes "impact_run e fl = Inr r" and "repositoryRoot e = Inr root"
    and "LoadManifest (read_file e (manifest_file root (Flag_manifest fl))) (decode_manifest e) = Inr m"
  shows "mode_count fl = Inr 1"
  using assms by (cases "mode_count fl") (auto simp: impact_run_def split: if_splits)

text \<open>With a valid manifest and one mode the program answers; \<open>answer\<close> says what.\<close>

definition answer :: "impact_env \<Rightarrow> impact_flags \<Rightarrow> string \<Rightarrow> manifest \<Rightarrow> impact_result" where
  "answer e fl root m =
     (if Flag_all fl then FullResult m [] []
      else
        case readChanges e (Flag_changed_files fl) (Flag_base fl) (Flag_head fl) of
          (reason, Inl x) \<Rightarrow> FullResult m [] (reason @ '': '' @ error_text e x)
        | (_, Inr changes) \<Rightarrow>
            (case BuildGraph (run_go_list e) root m of
               Inl x \<Rightarrow> FullResult m (map Change_Path changes) (error_text e x)
             | Inr g \<Rightarrow> Evaluate m changes g))"

lemma impact_run_answer:
  assumes "repositoryRoot e = Inr root"
    and "LoadManifest (read_file e (manifest_file root (Flag_manifest fl))) (decode_manifest e) = Inr m"
    and "mode_count fl = Inr 1"
  shows "impact_run e fl = Inr (answer e fl root m)"
  using assms by (simp add: impact_run_def answer_def split: sum.split prod.split)

lemma answer_changes:
  assumes "snd (readChanges e (Flag_changed_files fl) (Flag_base fl) (Flag_head fl)) = Inr cs"
  shows "answer e fl root m =
    (if Flag_all fl then FullResult m [] []
     else case BuildGraph (run_go_list e) root m of
       Inl x \<Rightarrow> FullResult m (map Change_Path cs) (error_text e x) | Inr g \<Rightarrow> Evaluate m cs g)"
  using assms by (cases "readChanges e (Flag_changed_files fl) (Flag_base fl) (Flag_head fl)") (simp add: answer_def)

lemma answer_unread:
  assumes "snd (readChanges e (Flag_changed_files fl) (Flag_base fl) (Flag_head fl)) = Inl x" and "\<not> Flag_all fl"
  shows "\<exists>reason. answer e fl root m = FullResult m [] (reason @ '': '' @ error_text e x)"
  using assms by (cases "readChanges e (Flag_changed_files fl) (Flag_base fl) (Flag_head fl)") (auto simp: answer_def)

end
