(* ===== verification/Impact_Props.thy ===== *)
theory Impact_Props
  imports Impact_Spec
begin

text \<open>The properties of the change analysis, and a small repository for their witnesses.\<close>

section \<open>A repository\<close>

definition ix_service :: delivery_service where
  "ix_service = \<lparr>Svc_Service = ''topic'', Svc_Entrypoint = ''./cmd/t'', Svc_Image = ''t'', Svc_ConfigDir = ''c'', Svc_Port = 80\<rparr>"

definition ix_other :: delivery_service where
  "ix_other = \<lparr>Svc_Service = ''user'', Svc_Entrypoint = ''./cmd/u'', Svc_Image = ''u'', Svc_ConfigDir = ''c'', Svc_Port = 80\<rparr>"

definition ix_lib :: listed_package where
  "ix_lib = \<lparr>Pkg_ImportPath = ''m/lib'', Pkg_Dir = ''/r/lib'', Pkg_Module = Some True\<rparr>"

definition ix_user :: listed_package where
  "ix_user = \<lparr>Pkg_ImportPath = ''m/cmd/u'', Pkg_Dir = ''/r/cmd/u'', Pkg_Module = Some True\<rparr>"

definition ix_go_list :: go_list where
  "ix_go_list args =
     (if args = [''-json'', ''./...''] then Some [ix_lib, ix_user]
      else if ''./cmd/t'' \<in> set args \<or> ''m/lib'' \<in> set args then Some [ix_lib] else Some [ix_user])"

definition ix_env :: impact_env where
  "ix_env = \<lparr>show_toplevel = Some (''/r'' @ [CHR 0x0A]),
     open_file = (\<lambda>p. if p = ''/r/s.json'' then Some (''j'', False) else None),
     decode_manifest = (\<lambda>_. Some [ix_service, ix_other]),
     git_diff = (\<lambda>_ _. Some (''M'' @ [CHR 0x09] @ ''lib/a.go'' @ [CHR 0x0A])),
     run_go_list = ix_go_list, error_text = (\<lambda>_. ''e'')\<rparr>"

definition ix_flags :: impact_flags where
  "ix_flags = \<lparr>Flag_base = ''a'', Flag_head = ''b'', Flag_changed_files = [], Flag_all = False, Flag_manifest = ''s.json''\<rparr>"

definition ix_change :: file_change where
  "ix_change = \<lparr>Change_Status = ''M'', Change_OldPath = [], Change_Path = ''lib/a.go''\<rparr>"

definition ix_graph :: dep_graph where
  "ix_graph = \<lparr>Packages = [''lib'' \<mapsto> ''m/lib''], Runtime = [''topic'' \<mapsto> {''m/lib''}], Tests = Map.empty\<rparr>"

lemma ix_clean: "cleanPath ''lib/a.go'' = ''lib/a.go''" by code_simp

lemma ix_diff: "ParseNameStatus (''M'' @ [CHR 0x09] @ ''lib/a.go'' @ [CHR 0x0A], False) = Inr [ix_change]"
proof -
  have "scan_lines (''M'' @ [CHR 0x09] @ ''lib/a.go'' @ [CHR 0x0A]) = ([''M'' @ [CHR 0x09] @ ''lib/a.go''], True)"
    by (simp add: scan_lines.simps max_token_def drop_cr_def)
  moreover have "parse_lines [''M'' @ [CHR 0x09] @ ''lib/a.go''] = Inr [ix_change]" by code_simp
  ultimately show ?thesis by (simp add: ParseNameStatus_def)
qed

lemma ix_reads:
  "repositoryRoot ix_env = Inr ''/r''"
  "LoadManifest (read_file ix_env (manifest_file ''/r'' (Flag_manifest ix_flags))) (decode_manifest ix_env) = Inr [ix_service, ix_other]"
  "mode_count ix_flags = Inr 1"
  "snd (readChanges ix_env (Flag_changed_files ix_flags) (Flag_base ix_flags) (Flag_head ix_flags)) = Inr [ix_change]"
proof -
  show "repositoryRoot ix_env = Inr ''/r''" "mode_count ix_flags = Inr 1" by code_simp+
  have "ValidateManifest [ix_service, ix_other] = None" by code_simp
  moreover have "manifest_file ''/r'' (Flag_manifest ix_flags) = ''/r/s.json''" by code_simp
  ultimately show "LoadManifest (read_file ix_env (manifest_file ''/r'' (Flag_manifest ix_flags))) (decode_manifest ix_env) =
      Inr [ix_service, ix_other]"
    by (simp add: LoadManifest_def read_file_def ix_env_def)
  show "snd (readChanges ix_env (Flag_changed_files ix_flags) (Flag_base ix_flags) (Flag_head ix_flags)) = Inr [ix_change]"
    using ix_diff by (simp add: readChanges_def ix_env_def ix_flags_def)
qed

section \<open>Evaluation\<close>

text \<open>
  C26: The evaluation of a change is exact. When every change is a plain change of a file that concerns some service
  (or can be ignored), and no file forces a full run, the services tested are exactly those whose runtime or test
  packages hold a changed file, the services built exactly those whose runtime packages hold a changed file that is
  not a test, and a change of the agent's protocol concerns the agent service; otherwise all services are tested and
  built.
\<close>

theorem evaluate_exact:
  "Evaluate m cs g =
     (if list_all (mappable m g) cs then partial_result m g cs
      else FullResult m (changedPaths cs) (FallbackReason (Evaluate m cs g)))"
proof (cases "list_all (mappable m g) cs")
  case False
  with Evaluate_unmappable [of cs m g] obtain reason where "Evaluate m cs g = FullResult m (changedPaths cs) reason"
    by (auto simp: list_all_iff)
  with False show ?thesis by (simp add: FullResult_def)
qed (simp add: Evaluate_mappable list_all_iff)

theorem evaluate_exact_witness: "Evaluate [ix_service, ix_other] [ix_change] ix_graph = partial_result [ix_service, ix_other] ix_graph [ix_change]"
proof -
  have "mappable [ix_service, ix_other] ix_graph ix_change"
  proof -
    have "path_Dir (changed_file ix_change) = ''lib''" "plain_status (Change_Status ix_change)"
      "\<not> full_file (changed_file ix_change)" "\<not> proto_file (changed_file ix_change)" by code_simp+
    then have "needs_test ix_graph (changed_file ix_change) ''topic''"
      by (simp add: needs_test_def ix_graph_def deps_of_def)
    with \<open>plain_status _\<close> \<open>\<not> full_file _\<close> show ?thesis by (simp add: mappable_def ix_service_def)
  qed
  with evaluate_exact [of "[ix_service, ix_other]" "[ix_change]" ix_graph] show ?thesis by simp
qed

text \<open>
  C25: No build is missed. Whatever the other changes are, when the program answers, every service whose entry point
  depends on the package of a changed file is in the build matrix, unless the file is a test, can be ignored or belongs
  to the agent's protocol. The package of a file is the one \<open>go list\<close> reports for its directory, and a directory holds
  one package.
\<close>

theorem no_missed_build:
  assumes "impact_run e fl = Inr r" and root: "repositoryRoot e = Inr root"
    and load: "LoadManifest (read_file e (manifest_file root (Flag_manifest fl))) (decode_manifest e) = Inr m"
    and cs: "snd (readChanges e (Flag_changed_files fl) (Flag_base fl) (Flag_head fl)) = Inr cs"
    and c: "c \<in> set cs" "\<not> ignorable (changed_file c)" "\<not> suffix ''_test.go'' (changed_file c)"
      "\<not> prefix ''proto/agent/'' (changed_file c)"
    and pkgs: "run_go_list e [''-json'', ''./...''] = Some pkgs"
    and pkg: "pkg \<in> set pkgs" "package_dir root pkg = Some (path_Dir (changed_file c))"
    and one: "\<And>q d. q \<in> set pkgs \<Longrightarrow> package_dir root q = Some d \<Longrightarrow> package_dir root pkg = Some d \<Longrightarrow>
      Pkg_ImportPath q = Pkg_ImportPath pkg"
    and s: "s \<in> set m" "run_go_list e [''-deps'', ''-json'', Svc_Entrypoint s] = Some deps" "Pkg_ImportPath pkg \<in> localImports deps"
  shows "s \<in> set (BuildMatrix r)"
proof -
  have r: "r = answer e fl root m"
    using assms(1) impact_run_answer [OF root load impact_run_mode [OF assms(1) root load]] by simp
  have "s \<in> set (BuildMatrix (Evaluate m cs g))" if "BuildGraph (run_go_list e) root m = Inr g" for g
  proof -
    let ?f = "changed_file c"
    have g: "add_services (run_go_list e) m \<lparr>Packages = fold (packages_step root) pkgs Map.empty, Runtime = Map.empty,
        Tests = Map.empty\<rparr> = Inr g"
      using that pkgs by (simp add: BuildGraph_def)
    have "distinct (map Svc_Service m)"
      using load by (auto simp: LoadManifest_def intro: manifest_distinct split: option.splits)
    then have "deps_of (Runtime g) (Svc_Service s) = localImports deps"
      using add_services_runtime [OF g _ s(1,2)] by (simp add: deps_of_def)
    moreover have "Packages g (path_Dir ?f) = Some (Pkg_ImportPath pkg)"
    proof -
      have "fold (packages_step root) pkgs Map.empty (path_Dir ?f) = Some (Pkg_ImportPath pkg)"
        by (rule packages_fold) (use pkg one in blast)+
      then show ?thesis using add_services_other [OF g] by (metis dep_graph.select_convs(1))
    qed
    ultimately have "needs_build g ?f (Svc_Service s)" using s(3) c(3,4) by (simp add: needs_build_def proto_file_def)
    then have need: "concerned (needs_build g) cs (Svc_Service s)" using c(1,2) unfolding concerned_def relevant_def by blast
    show ?thesis
    proof (rule Evaluate_cases [of m cs g])
      show ?thesis if "Evaluate m cs g = FullResult m (changedPaths cs) reason" for reason
        using s(1) that by (simp add: FullResult_def)
      show ?thesis if "Evaluate m cs g = partial_result m g cs"
        using s(1) need that by (simp add: partial_result_def Let_def)
    qed
  qed
  then show ?thesis
    unfolding r answer_changes [OF cs] using s(1) by (auto simp: FullResult_def split: sum.split)
qed

theorem no_missed_build_witness: "\<exists>r. impact_run ix_env ix_flags = Inr r \<and> ix_service \<in> set (BuildMatrix r)"
proof -
  obtain r where run: "impact_run ix_env ix_flags = Inr r"
    using impact_run_answer [OF ix_reads(1-3)] by blast
  have dir: "package_dir ''/r'' ix_lib = Some (path_Dir (changed_file ix_change))"
    "package_dir ''/r'' ix_user = Some ''cmd/u''" "path_Dir (changed_file ix_change) = ''lib''" by code_simp+
  have "ix_service \<in> set (BuildMatrix r)"
  proof (rule no_missed_build [OF run ix_reads(1,2,4), where c = ix_change and pkg = ix_lib and pkgs = "[ix_lib, ix_user]" and
      deps = "[ix_lib]"])
    show "\<not> ignorable (changed_file ix_change)" "\<not> suffix ''_test.go'' (changed_file ix_change)"
      "\<not> prefix ''proto/agent/'' (changed_file ix_change)" by code_simp+
    show "Pkg_ImportPath ix_lib \<in> localImports [ix_lib]" by code_simp
    show "Pkg_ImportPath q = Pkg_ImportPath ix_lib"
      if "q \<in> set [ix_lib, ix_user]" "package_dir ''/r'' q = Some d" "package_dir ''/r'' ix_lib = Some d" for q d
      using that dir by auto
  qed (simp_all add: dir ix_env_def ix_go_list_def ix_service_def)
  with run show ?thesis by blast
qed

text \<open>
  C28: The answer is well formed. The services to test are services of the manifest in its order, those to build are
  among them, the two flags say whether there are any, and the changed files are exactly the cleaned paths of the
  changes, sorted and without repetition.
\<close>

theorem evaluate_shape:
  "subseq (TestMatrix (Evaluate m cs g)) m \<and> subseq (BuildMatrix (Evaluate m cs g)) (TestMatrix (Evaluate m cs g)) \<and>
   (HasTests (Evaluate m cs g) \<longleftrightarrow> TestMatrix (Evaluate m cs g) \<noteq> []) \<and>
   (HasBuilds (Evaluate m cs g) \<longleftrightarrow> BuildMatrix (Evaluate m cs g) \<noteq> []) \<and>
   set (ChangedFiles (Evaluate m cs g)) = (\<Union>c \<in> set cs. set (change_paths c)) \<and>
   sorted (ChangedFiles (Evaluate m cs g)) \<and> distinct (ChangedFiles (Evaluate m cs g))"
proof -
  have "subseq (filter (\<lambda>s. concerned (needs_build g) cs (Svc_Service s)) m)
      (filter (\<lambda>s. concerned (needs_test g) cs (Svc_Service s)) m)"
  proof -
    have "filter (\<lambda>s. concerned (needs_build g) cs (Svc_Service s)) m =
        filter (\<lambda>s. concerned (needs_build g) cs (Svc_Service s)) (filter (\<lambda>s. concerned (needs_test g) cs (Svc_Service s)) m)"
      by (auto simp: concerned_def intro!: filter_cong dest: needs_build_test)
    then show ?thesis by (metis subseq_filter_left)
  qed
  then show ?thesis
    by (cases rule: Evaluate_cases [of m cs g])
      (simp_all add: FullResult_def partial_result_def Let_def changedPaths_set changedPaths_def)
qed

text \<open>
  C27: Errors err on the side of building. With a valid manifest and one mode chosen the program always answers, and
  when the changes cannot be read or parsed, or \<open>go list\<close> fails, every service is tested and built and the reason is
  given.
\<close>

theorem errors_build_everything:
  assumes "repositoryRoot e = Inr root"
    and "LoadManifest (read_file e (manifest_file root (Flag_manifest fl))) (decode_manifest e) = Inr m"
    and "mode_count fl = Inr 1"
  shows "\<exists>r. impact_run e fl = Inr r \<and>
    (\<not> Flag_all fl \<and> snd (readChanges e (Flag_changed_files fl) (Flag_base fl) (Flag_head fl)) = Inl x \<longrightarrow>
       TestMatrix r = m \<and> BuildMatrix r = m \<and> suffix (error_text e x) (FallbackReason r)) \<and>
    (\<not> Flag_all fl \<and> snd (readChanges e (Flag_changed_files fl) (Flag_base fl) (Flag_head fl)) = Inr cs \<and>
       BuildGraph (run_go_list e) root m = Inl y \<longrightarrow>
       TestMatrix r = m \<and> BuildMatrix r = m \<and> FallbackReason r = error_text e y)"
proof (intro exI conjI impI)
  show "impact_run e fl = Inr (answer e fl root m)" by (rule impact_run_answer [OF assms])
next
  assume "\<not> Flag_all fl \<and> snd (readChanges e (Flag_changed_files fl) (Flag_base fl) (Flag_head fl)) = Inl x"
  with answer_unread [of e fl x root m] obtain reason
    where "answer e fl root m = FullResult m [] (reason @ '': '' @ error_text e x)" by blast
  then show "TestMatrix (answer e fl root m) = m" "BuildMatrix (answer e fl root m) = m"
    "suffix (error_text e x) (FallbackReason (answer e fl root m))"
    by (simp_all add: FullResult_def suffix_def)
next
  assume "\<not> Flag_all fl \<and> snd (readChanges e (Flag_changed_files fl) (Flag_base fl) (Flag_head fl)) = Inr cs \<and>
       BuildGraph (run_go_list e) root m = Inl y"
  then have "answer e fl root m = FullResult m (map Change_Path cs) (error_text e y)" by (simp add: answer_changes)
  then show "TestMatrix (answer e fl root m) = m" "BuildMatrix (answer e fl root m) = m"
    "FallbackReason (answer e fl root m) = error_text e y"
    by (simp_all add: FullResult_def)
qed

text \<open>The same repository with \<open>git diff\<close> failing.\<close>

definition ix_broken :: impact_env where
  "ix_broken = ix_env\<lparr>git_diff := \<lambda>_ _. None\<rparr>"

theorem errors_build_everything_witness:
  "\<exists>r. impact_run ix_broken ix_flags = Inr r \<and> BuildMatrix r = [ix_service, ix_other]"
proof -
  have "repositoryRoot ix_broken = Inr ''/r''"
    "LoadManifest (read_file ix_broken (manifest_file ''/r'' (Flag_manifest ix_flags))) (decode_manifest ix_broken) =
      Inr [ix_service, ix_other]"
    using ix_reads(1,2) by (simp_all add: ix_broken_def repositoryRoot_def read_file_def)
  from errors_build_everything [OF this ix_reads(3), of GitDiffFailed] show ?thesis
    by (auto simp: readChanges_def ix_flags_def ix_broken_def)
qed

text \<open>
  A rename out of the protocol directory asks for the protocol check when it is evaluated, but not when the graph
  cannot be built: then only the new path is looked at.
\<close>

definition ix_rename :: file_change where
  "ix_rename = \<lparr>Change_Status = ''R100'', Change_OldPath = ''proto/agent/a.proto'', Change_Path = ''x/a.proto''\<rparr>"

lemma proto_check_lost:
  "RequiresProtoCheck (Evaluate m [ix_rename] g) \<and> \<not> RequiresProtoCheck (FullResult m (map Change_Path [ix_rename]) reason)"
proof
  have "unsafe_change [ix_rename] \<noteq> None" by code_simp
  then obtain why where "unsafe_change [ix_rename] = Some why" by blast
  then have "Evaluate m [ix_rename] g = FullResult m (changedPaths [ix_rename]) why"
    unfolding Evaluate_def Let_def by (simp only: option.case)
  moreover have "''proto/agent/a.proto'' \<in> set (changedPaths [ix_rename])"
  proof -
    have "change_paths ix_rename = [''proto/agent/a.proto'', ''x/a.proto'']" by code_simp
    then show ?thesis unfolding changedPaths_set by (simp only: list.set UN_insert UN_empty) blast
  qed
  moreover have "prefix ''proto/agent/'' (cleanPath ''proto/agent/a.proto'')" by code_simp
  ultimately show "RequiresProtoCheck (Evaluate m [ix_rename] g)"
    unfolding FullResult_def list_ex_iff by (simp only: impact_result.select_convs) blast
  have "\<not> prefix ''proto/agent/'' (cleanPath (Change_Path ix_rename))" by code_simp
  then show "\<not> RequiresProtoCheck (FullResult m (map Change_Path [ix_rename]) reason)" by (simp add: FullResult_def)
qed

end
