(* ===== verification/Notification_Model.thy ===== *)
theory Notification_Model
  imports Bizerr Pagination
begin

text \<open>
  Notifications (\<open>internal/notification\<close>): the documents of the collection \<open>campus_notifications\<close>, the responses
  and the filters.

  A field with \<open>omitempty\<close> is absent from the stored document when it has its zero value, so an absent field and a
  zero value are the same here; documents come from this module, which always writes \<open>is_read\<close>. The identifier
  of a document is a value of any BSON type: this module writes strings, older documents have others. Times are
  milliseconds, the precision of BSON dates; printing them is a parameter.
\<close>

section \<open>Categories\<close>

definition CategorySocial :: string where "CategorySocial = ''social''"
definition CategoryAcademic :: string where "CategoryAcademic = ''academic''"
definition CategoryMarketplace :: string where "CategoryMarketplace = ''marketplace''"
definition CategoryReservation :: string where "CategoryReservation = ''reservation''"
definition CategoryModeration :: string where "CategoryModeration = ''moderation''"
definition CategorySystem :: string where "CategorySystem = ''system''"

definition categories :: "string list" where
  "categories =
     [CategorySocial, CategoryAcademic, CategoryMarketplace, CategoryReservation, CategoryModeration, CategorySystem]"

definition validCategory :: "string \<Rightarrow> bool" where
  "validCategory category \<longleftrightarrow> category \<in> set categories"

section \<open>Documents\<close>

text \<open>An ObjectID is its 24 hexadecimal digits; \<open>OtherId\<close> holds what \<open>fmt.Sprint\<close> prints.\<close>

datatype doc_id = ObjectID string | StringId string | Int64Id int64 | Int32Id int | OtherId string | NilId

definition idString :: "doc_id \<Rightarrow> string" where
  "idString i =
     (case i of
        ObjectID hex \<Rightarrow> hex
      | StringId v \<Rightarrow> v
      | Int64Id v \<Rightarrow> FormatInt v
      | Int32Id v \<Rightarrow> FormatInt v
      | OtherId v \<Rightarrow> v
      | NilId \<Rightarrow> [])"

type_synonym extra = "(string \<times> string) list"

record document =
  Doc_ID :: doc_id
  Doc_EventID :: string
  Doc_ReceiverRootUserID :: int64
  Doc_ReceiverID :: string
  Doc_SenderID :: string
  Doc_Category :: string
  Doc_EventType :: string
  Doc_Type :: string
  Doc_Title :: string
  Doc_Content :: string
  Doc_ResourceType :: string
  Doc_ResourceID :: string
  Doc_TopicID :: string
  Doc_CommentID :: string
  Doc_Extra :: extra
  Doc_CreatedTime :: instant
  Doc_IsRead :: bool

text \<open>The collection, and whether its unique index on \<open>event_id\<close> exists; it is sparse, so absent values do not collide.\<close>

record notif_db =
  docs :: "document list"
  event_index :: bool

definition docs_ok :: "bool \<Rightarrow> document list \<Rightarrow> bool" where
  "docs_ok ix ds \<longleftrightarrow>
     distinct (map Doc_ID ds) \<and> (ix \<longrightarrow> distinct (map Doc_EventID (filter (\<lambda>d. Doc_EventID d \<noteq> []) ds)))"

section \<open>Responses and inputs\<close>

record notif_response =
  Resp_ID :: string
  Resp_Category :: string
  Resp_EventType :: string
  Resp_Title :: string
  Resp_Content :: string
  Resp_ResourceType :: string
  Resp_ResourceID :: string
  Resp_Extra :: extra
  Resp_CreatedTime :: string
  Resp_IsRead :: bool

record legacy_response =
  Legacy_ID :: string
  Legacy_ReceiverID :: string
  Legacy_SenderID :: string
  Legacy_Type :: string
  Legacy_Content :: string
  Legacy_TopicID :: string
  Legacy_CommentID :: string
  Legacy_CreatedTime :: string
  Legacy_IsRead :: bool

record broadcast =
  Cast_RootUserID :: int64
  Cast_LegacyReceiverID :: string
  Cast_Notification :: notif_response
  Cast_Legacy :: legacy_response

record create_input =
  In_ReceiverRootUserID :: int64
  In_ReceiverID :: string
  In_SenderID :: string
  In_Category :: string
  In_EventType :: string
  In_Title :: string
  In_Content :: string
  In_ResourceType :: string
  In_ResourceID :: string
  In_Extra :: extra
  In_EventID :: string
  In_CreatedTime :: instant

record legacy_input =
  Leg_TargetUserID :: string
  Leg_SenderUserID :: string
  Leg_Type :: string
  Leg_Content :: string
  Leg_TopicID :: string
  Leg_CommentID :: string
  Leg_CreatedTime :: instant
  Leg_EventID :: int64

definition formatTime :: "(instant \<Rightarrow> string) \<Rightarrow> instant \<Rightarrow> string" where
  "formatTime show_rfc3339 v = (if v = zero_time then [] else show_rfc3339 v)"

definition formatLegacyDate :: "(instant \<Rightarrow> string) \<Rightarrow> instant \<Rightarrow> string" where
  "formatLegacyDate show_date v = (if v = zero_time then [] else show_date v)"

definition response :: "(instant \<Rightarrow> string) \<Rightarrow> document \<Rightarrow> notif_response" where
  "response show_rfc3339 d =
     (let category = (if Doc_Category d = [] then CategorySocial else Doc_Category d);
          eventType = (if Doc_EventType d = [] then Doc_Type d else Doc_EventType d);
          (resourceType, resourceID) =
            (if Doc_ResourceID d = [] \<and> Doc_CommentID d \<noteq> [] then (''comment'', Doc_CommentID d)
             else if Doc_ResourceID d = [] \<and> Doc_TopicID d \<noteq> [] then (''topic'', Doc_TopicID d)
             else (Doc_ResourceType d, Doc_ResourceID d))
      in \<lparr>Resp_ID = idString (Doc_ID d), Resp_Category = category, Resp_EventType = eventType,
          Resp_Title = Doc_Title d, Resp_Content = Doc_Content d, Resp_ResourceType = resourceType,
          Resp_ResourceID = resourceID, Resp_Extra = Doc_Extra d,
          Resp_CreatedTime = formatTime show_rfc3339 (Doc_CreatedTime d), Resp_IsRead = Doc_IsRead d\<rparr>)"

definition legacyResponse :: "(instant \<Rightarrow> string) \<Rightarrow> document \<Rightarrow> legacy_response" where
  "legacyResponse show_date d =
     (let typ' = (if Doc_Type d = [] then Doc_EventType d else Doc_Type d)
      in \<lparr>Legacy_ID = idString (Doc_ID d), Legacy_ReceiverID = Doc_ReceiverID d, Legacy_SenderID = Doc_SenderID d,
          Legacy_Type = typ', Legacy_Content = Doc_Content d, Legacy_TopicID = Doc_TopicID d,
          Legacy_CommentID = Doc_CommentID d, Legacy_CreatedTime = formatLegacyDate show_date (Doc_CreatedTime d),
          Legacy_IsRead = Doc_IsRead d\<rparr>)"

section \<open>Filters\<close>

text \<open>The filters are BSON documents that the server evaluates; here they are the conditions they denote.\<close>

definition receiver_ids :: "int64 \<Rightarrow> int64 list \<Rightarrow> string list" where
  "receiver_ids rootUserID identityIDs = map FormatInt (filter (\<lambda>i. i > 0) (identityIDs @ [rootUserID]))"

definition receiverFilter :: "int64 \<Rightarrow> int64 list \<Rightarrow> document \<Rightarrow> bool" where
  "receiverFilter rootUserID identityIDs d \<longleftrightarrow>
     Doc_ReceiverRootUserID d = rootUserID \<or> Doc_ReceiverID d \<in> set (receiver_ids rootUserID identityIDs)"

definition categoryFilter :: "string \<Rightarrow> document \<Rightarrow> bool" where
  "categoryFilter category d \<longleftrightarrow>
     (if category = CategorySocial then Doc_Category d = category \<or> Doc_Category d = []
      else Doc_Category d = category)"

definition andFilter :: "(document \<Rightarrow> bool) list \<Rightarrow> document \<Rightarrow> bool" where
  "andFilter filters d \<longleftrightarrow> list_all (\<lambda>f. f d) filters"

text \<open>
  The values \<open>MarkOneRead\<close> looks for: the string, an ObjectID if it has 24 hexadecimal digits, a number if it is one.
  The server compares numbers by value.
\<close>

definition id_matches :: "string \<Rightarrow> doc_id \<Rightarrow> bool" where
  "id_matches i d \<longleftrightarrow>
     (case d of
        StringId v \<Rightarrow> v = i
      | ObjectID hex \<Rightarrow> length i = 24 \<and> list_all hex_digit i \<and> hex = map lower_char i
      | Int64Id v \<Rightarrow> ParseInt i = Some v
      | Int32Id v \<Rightarrow> ParseInt i = Some v
      | _ \<Rightarrow> False)"

definition mark_read :: "document \<Rightarrow> document" where
  "mark_read d = d\<lparr>Doc_IsRead := True\<rparr>"

definition normalizePage :: "int \<Rightarrow> int \<Rightarrow> int \<times> int" where
  "normalizePage page sz =
     (let page = (if page \<le> 0 then 1 else page);
          sz = (if sz \<le> 0 then 15 else sz);
          sz = (if sz > 100 then 100 else sz)
      in (page, sz))"

interpretation notification_page: page_normaliser normalizePage 100
  by unfold_locales (auto simp: normalizePage_def Let_def split: if_splits)

end
