(* ===== verification/Notification_Service.thy ===== *)
theory Notification_Service
  imports Notification_Model
begin

text \<open>
  The repository and the service of the notifications (\<open>internal/notification/repository.go\<close>, \<open>service.go\<close>) and
  the adapter the other modules notify through (\<open>internal/app/notificationadapter\<close>).

  \<open>connected\<close> says whether the collection handle is there. Some methods test for it, the others would dereference
  nil: that panic is the sentinel \<open>NilCollection\<close>, which no caller wraps. Publishing and marshalling a broadcast
  may fail, which is only logged. \<open>newest\<close> is the server's sort by \<open>created_time\<close>, newest first, with ties in
  any order. \<open>newID\<close> is the snowflake identifier, \<open>now\<close> the clock.
\<close>

datatype notif_sentinel = NilCollection | ResolverFailed string

datatype notif_msg =
    MNotifParams | MReceiver | MRootLookup | MUserParams | MBadCategory | MQueryNotif | MQueryUnread | MEmptyID
  | MMarkRead | MNotifMissing | MEmptyType | MQueryLatest | MRootParams | MIdentities

datatype notif_event = Published broadcast

type_synonym nrepo_error = "notif_sentinel goerror"
type_synonym notif_error = "(notif_msg, nrepo_error) svc_error"
type_synonym ('o, 'a) nrepo = "(notif_db, 'o, nrepo_error, 'a) prog"
type_synonym 'a nservice = "(notif_db, notif_event, notif_error, 'a) prog"

record identity_resolver =
  ResolveRootUserID :: "int64 \<Rightarrow> string + int64"
  ListIdentityIDs :: "int64 \<Rightarrow> string + int64 list"

record notif_env =
  identities :: "identity_resolver option"
  has_redis :: bool
  newest :: "document list \<Rightarrow> document list"
  show_rfc3339 :: "instant \<Rightarrow> string"
  show_date :: "instant \<Rightarrow> string"

definition ErrInvalidCategory :: notif_error where "ErrInvalidCategory = Param MBadCategory"
definition ErrNotificationNotFound :: notif_error where "ErrNotificationNotFound = NotFound MNotifMissing"
definition ErrNotificationType :: notif_error where "ErrNotificationType = Param MEmptyType"

section \<open>Repository\<close>

definition use_collection :: "('o, unit) nrepo" where
  "use_collection w = (if connected w then (Inr (), w) else (Inl (Sentinel NilCollection), w))"

text \<open>Creating an index that exists succeeds; creating it on documents that collide fails.\<close>

definition repo_EnsureIndexes :: "('o, unit) nrepo" where
  "repo_EnsureIndexes =
     bind gormDB (\<lambda>_.
     stmt (\<lambda>t. if docs_ok True (docs t) then Inr ((), t\<lparr>event_index := True\<rparr>) else Inl UniqueViolation))"

definition insert_one :: "document \<Rightarrow> ('o, unit) nrepo" where
  "insert_one d =
     stmt (\<lambda>t. if docs_ok (event_index t) (docs t @ [d]) then Inr ((), t\<lparr>docs := docs t @ [d]\<rparr>) else Inl UniqueViolation)"

definition Insert :: "document \<Rightarrow> ('o, bool) nrepo" where
  "Insert d =
     bind gormDB (\<lambda>_.
     bind (attempt (insert_one d)) (\<lambda>r.
     case r of
       Inl (Db UniqueViolation) \<Rightarrow> ret False
     | Inl e \<Rightarrow> throw e
     | Inr _ \<Rightarrow> ret True))"

text \<open>The server refuses a negative skip.\<close>

definition list_docs :: "notif_env \<Rightarrow> (document \<Rightarrow> bool) \<Rightarrow> int \<Rightarrow> int \<Rightarrow> ('o, document list \<times> int64) nrepo" where
  "list_docs s P page sz =
     bind gormDB (\<lambda>_.
     bind (read_rows (\<lambda>t. int (length (filter P (docs t))))) (\<lambda>tot.
     bind (stmt (\<lambda>t. if wrap64 ((page - 1) * sz) < 0 then Inl DbFailure
                     else Inr (window page sz (newest s (filter P (docs t))), t))) (\<lambda>rows.
     ret (rows, tot))))"

definition repo_List ::
  "notif_env \<Rightarrow> int64 \<Rightarrow> int64 list \<Rightarrow> string \<Rightarrow> int \<Rightarrow> int \<Rightarrow> ('o, document list \<times> int64) nrepo" where
  "repo_List s rootUserID identityIDs category page sz =
     (let P = receiverFilter rootUserID identityIDs;
          P = (if category \<noteq> [] then andFilter [P, categoryFilter category] else P)
      in list_docs s P page sz)"

definition repo_ListLegacy ::
  "notif_env \<Rightarrow> int64 \<Rightarrow> int64 list \<Rightarrow> string \<Rightarrow> int \<Rightarrow> int \<Rightarrow> ('o, document list \<times> int64) nrepo" where
  "repo_ListLegacy s rootUserID identityIDs ty page sz =
     list_docs s (andFilter [receiverFilter rootUserID identityIDs, \<lambda>d. Doc_Type d = ty]) page sz"

definition count_category :: "document \<Rightarrow> (string \<rightharpoonup> int64) \<Rightarrow> (string \<rightharpoonup> int64)" where
  "count_category d counts =
     (let c = (if Doc_Category d = [] then CategorySocial else Doc_Category d)
      in counts(c \<mapsto> (case counts c of None \<Rightarrow> 0 | Some n \<Rightarrow> n) + 1))"

definition UnreadCategories :: "int64 \<Rightarrow> int64 list \<Rightarrow> ('o, string \<rightharpoonup> int64) nrepo" where
  "UnreadCategories rootUserID identityIDs =
     bind gormDB (\<lambda>_.
     read_rows (\<lambda>t. fold count_category
       (filter (andFilter [receiverFilter rootUserID identityIDs, \<lambda>d. \<not> Doc_IsRead d]) (docs t)) Map.empty))"

definition repo_MarkOneRead :: "int64 \<Rightarrow> int64 list \<Rightarrow> string \<Rightarrow> ('o, bool) nrepo" where
  "repo_MarkOneRead rootUserID identityIDs i =
     (let P = andFilter [receiverFilter rootUserID identityIDs, \<lambda>d. id_matches i (Doc_ID d)]
      in bind use_collection (\<lambda>_.
         stmt (\<lambda>t. Inr (list_ex P (docs t), t\<lparr>docs := update_first P mark_read (docs t)\<rparr>))))"

definition repo_MarkRead :: "int64 \<Rightarrow> int64 list \<Rightarrow> string \<Rightarrow> ('o, int64) nrepo" where
  "repo_MarkRead rootUserID identityIDs category =
     (let P = andFilter [receiverFilter rootUserID identityIDs, \<lambda>d. \<not> Doc_IsRead d];
          P = (if category \<noteq> [] then andFilter [P, categoryFilter category] else P)
      in bind use_collection (\<lambda>_.
         stmt (\<lambda>t. Inr (int (length (filter P (docs t))), t\<lparr>docs := update_rows P mark_read (docs t)\<rparr>))))"

definition repo_LatestLegacy :: "notif_env \<Rightarrow> int64 \<Rightarrow> int64 list \<Rightarrow> string \<Rightarrow> ('o, document option) nrepo" where
  "repo_LatestLegacy s rootUserID identityIDs ty =
     (let P = andFilter [receiverFilter rootUserID identityIDs, \<lambda>d. Doc_Type d = ty]
      in bind use_collection (\<lambda>_. find_row (\<lambda>t. newest s (filter P (docs t))) (\<lambda>_. True)))"

definition MarkLatestLegacyRead :: "notif_env \<Rightarrow> int64 \<Rightarrow> int64 list \<Rightarrow> string \<Rightarrow> ('o, unit) nrepo" where
  "MarkLatestLegacyRead s rootUserID identityIDs ty =
     (let P = andFilter [receiverFilter rootUserID identityIDs, \<lambda>d. Doc_Type d = ty]
      in bind use_collection (\<lambda>_.
         stmt (\<lambda>t. Inr ((),
           case newest s (filter P (docs t)) of
             [] \<Rightarrow> t
           | d # _ \<Rightarrow> t\<lparr>docs := update_first (\<lambda>x. P x \<and> Doc_ID x = Doc_ID d) mark_read (docs t)\<rparr>))))"

section \<open>Service\<close>

text \<open>Errors of the repository become internal errors; a panic is not an error value.\<close>

definition notif_internal :: "notif_msg \<Rightarrow> (notif_db, 'o, nrepo_error, 'a) prog \<Rightarrow> (notif_db, 'o, notif_error, 'a) prog" where
  "notif_internal msg m =
     map_error (\<lambda>e. if e = Sentinel NilCollection then Passed e else InternalWrap msg (Some e)) m"

definition EnsureIndexes :: "unit nservice" where
  "EnsureIndexes = map_error Passed repo_EnsureIndexes"

definition publish :: "notif_env \<Rightarrow> document \<Rightarrow> unit nservice" where
  "publish s d =
     (if \<not> has_redis s then ret ()
      else
        bind (attempt (read_rows (\<lambda>_. ()) :: (notif_db, notif_event, nrepo_error, unit) prog)) (\<lambda>r.
        case r of
          Inl _ \<Rightarrow> ret ()
        | Inr _ \<Rightarrow>
            emit (Published
              \<lparr>Cast_RootUserID = Doc_ReceiverRootUserID d, Cast_LegacyReceiverID = Doc_ReceiverID d,
               Cast_Notification = response (show_rfc3339 s) d, Cast_Legacy = legacyResponse (show_date s) d\<rparr>)))"

definition created_at :: "instant \<Rightarrow> instant \<Rightarrow> instant" where
  "created_at given now = (if given = zero_time then now else given)"

definition new_document :: "create_input \<Rightarrow> int64 \<Rightarrow> instant \<Rightarrow> document" where
  "new_document input newID now =
     \<lparr>Doc_ID = StringId (FormatInt newID), Doc_EventID = TrimSpace (In_EventID input),
      Doc_ReceiverRootUserID = In_ReceiverRootUserID input, Doc_ReceiverID = In_ReceiverID input,
      Doc_SenderID = In_SenderID input, Doc_Category = In_Category input, Doc_EventType = In_EventType input,
      Doc_Type = In_EventType input, Doc_Title = In_Title input, Doc_Content = In_Content input,
      Doc_ResourceType = In_ResourceType input, Doc_ResourceID = In_ResourceID input, Doc_TopicID = [],
      Doc_CommentID = [], Doc_Extra = In_Extra input, Doc_CreatedTime = created_at (In_CreatedTime input) now,
      Doc_IsRead = False\<rparr>"

text \<open>From \<open>inserted, err := s.repo.Insert(ctx, doc)\<close> on, in both creating methods.\<close>

definition insert_and_publish :: "notif_env \<Rightarrow> document \<Rightarrow> bool nservice" where
  "insert_and_publish s d =
     bind (map_error Passed (Insert d)) (\<lambda>inserted.
     if \<not> inserted then ret False else bind (publish s d) (\<lambda>_. ret True))"

definition CreateNotification ::
  "notif_env \<Rightarrow> create_input \<Rightarrow> int64 \<Rightarrow> instant \<Rightarrow> (document \<times> bool) nservice" where
  "CreateNotification s input newID now =
     (if In_ReceiverRootUserID input \<le> 0 \<or> \<not> validCategory (TrimSpace (In_Category input))
         \<or> TrimSpace (In_EventType input) = []
      then throw (Param MNotifParams)
      else
        let doc = new_document input newID now
        in bind (insert_and_publish s doc) (\<lambda>inserted. ret (doc, inserted)))"

definition resolve_root :: "notif_env \<Rightarrow> int64 \<Rightarrow> notif_error + int64" where
  "resolve_root s targetUserID =
     (case identities s of
        None \<Rightarrow> Inr targetUserID
      | Some ids \<Rightarrow>
          (case ResolveRootUserID ids targetUserID of
             Inl e \<Rightarrow> Inl (InternalWrap MRootLookup (Some (Sentinel (ResolverFailed e))))
           | Inr resolved \<Rightarrow> Inr (if resolved > 0 then resolved else targetUserID)))"

definition legacy_event_id :: "int64 \<Rightarrow> string" where
  "legacy_event_id eventID = (if eventID > 0 then ''mq:'' @ FormatInt eventID else [])"

definition legacy_document :: "legacy_input \<Rightarrow> int64 \<Rightarrow> int64 \<Rightarrow> instant \<Rightarrow> document" where
  "legacy_document input rootUserID newID now =
     \<lparr>Doc_ID = StringId (FormatInt newID), Doc_EventID = legacy_event_id (Leg_EventID input),
      Doc_ReceiverRootUserID = rootUserID, Doc_ReceiverID = Leg_TargetUserID input,
      Doc_SenderID = Leg_SenderUserID input, Doc_Category = CategorySocial, Doc_EventType = Leg_Type input,
      Doc_Type = Leg_Type input, Doc_Title = [], Doc_Content = Leg_Content input, Doc_ResourceType = [],
      Doc_ResourceID = [], Doc_TopicID = Leg_TopicID input, Doc_CommentID = Leg_CommentID input, Doc_Extra = [],
      Doc_CreatedTime = created_at (Leg_CreatedTime input) now, Doc_IsRead = False\<rparr>"

definition CreateLegacy :: "notif_env \<Rightarrow> legacy_input \<Rightarrow> int64 \<Rightarrow> instant \<Rightarrow> unit nservice" where
  "CreateLegacy s input newID now =
     (case ParseInt (TrimSpace (Leg_TargetUserID input)) of
        None \<Rightarrow> throw (Param MReceiver)
      | Some targetUserID \<Rightarrow>
          if targetUserID \<le> 0 then throw (Param MReceiver)
          else
            bind (result (resolve_root s targetUserID)) (\<lambda>rootUserID.
            bind (insert_and_publish s (legacy_document input rootUserID newID now)) (\<lambda>_. ret ())))"

definition identityIDs :: "notif_env \<Rightarrow> int64 \<Rightarrow> notif_error + int64 list" where
  "identityIDs s rootUserID =
     (if rootUserID \<le> 0 then Inl (Param MRootParams)
      else
        case identities s of
          None \<Rightarrow> Inr [rootUserID]
        | Some ids \<Rightarrow>
            (case ListIdentityIDs ids rootUserID of
               Inl e \<Rightarrow> Inl (InternalWrap MIdentities (Some (Sentinel (ResolverFailed e))))
             | Inr l \<Rightarrow> Inr (if l = [] then [rootUserID] else l)))"

definition ListNotifications ::
  "notif_env \<Rightarrow> int64 \<Rightarrow> string \<Rightarrow> int \<Rightarrow> int \<Rightarrow> notif_response page_result nservice" where
  "ListNotifications s rootUserID category page sz =
     (if rootUserID \<le> 0 then throw (Param MUserParams)
      else
        let category = TrimSpace category
        in if category \<noteq> [] \<and> \<not> validCategory category then throw ErrInvalidCategory
           else
             let (page, sz) = normalizePage page sz
             in bind (result (identityIDs s rootUserID)) (\<lambda>ids.
                bind (notif_internal MQueryNotif (repo_List s rootUserID ids category page sz)) (\<lambda>(rows, tot).
                ret (NewPageResult (map (response (show_rfc3339 s)) rows) tot page sz))))"

text \<open>The loop over the known categories fills in the zeros.\<close>

definition with_zeros :: "(string \<rightharpoonup> int64) \<Rightarrow> (string \<rightharpoonup> int64)" where
  "with_zeros counts = fold (\<lambda>c m. if m c = None then m(c \<mapsto> 0) else m) categories counts"

definition UnreadCounts :: "notif_env \<Rightarrow> int64 \<Rightarrow> (string \<rightharpoonup> int64) nservice" where
  "UnreadCounts s rootUserID =
     bind (result (identityIDs s rootUserID)) (\<lambda>ids.
     bind (notif_internal MQueryUnread (UnreadCategories rootUserID ids)) (\<lambda>counts.
     ret (with_zeros counts)))"

definition MarkOneRead :: "notif_env \<Rightarrow> int64 \<Rightarrow> string \<Rightarrow> unit nservice" where
  "MarkOneRead s rootUserID i =
     (if TrimSpace i = [] then throw (Param MEmptyID)
      else
        bind (result (identityIDs s rootUserID)) (\<lambda>ids.
        bind (notif_internal MMarkRead (repo_MarkOneRead rootUserID ids i)) (\<lambda>ok.
        if \<not> ok then throw ErrNotificationNotFound else ret ())))"

definition MarkRead :: "notif_env \<Rightarrow> int64 \<Rightarrow> string \<Rightarrow> int64 nservice" where
  "MarkRead s rootUserID category =
     (let category = TrimSpace category
      in if category \<noteq> [] \<and> \<not> validCategory category then throw ErrInvalidCategory
         else
           bind (result (identityIDs s rootUserID)) (\<lambda>ids.
           notif_internal MMarkRead (repo_MarkRead rootUserID ids category)))"

datatype legacy_list = EmptyList | LegacyPage "legacy_response page_result"

definition ListLegacy ::
  "notif_env \<Rightarrow> int64 \<Rightarrow> int64 \<Rightarrow> string \<Rightarrow> int \<Rightarrow> int \<Rightarrow> legacy_list nservice" where
  "ListLegacy s currentUserID rootUserID ty page sz =
     (if TrimSpace ty = [] then throw ErrNotificationType
      else
        let (page, sz) = normalizePage page sz
        in bind (result (identityIDs s rootUserID)) (\<lambda>ids.
           let ids = ids @ [currentUserID]
           in bind (notif_internal MQueryNotif (repo_ListLegacy s rootUserID ids ty page sz)) (\<lambda>(rows, tot).
              let items = map (legacyResponse (show_date s)) rows
              in if items = [] then ret EmptyList
                 else
                   bind (notif_internal MMarkRead (MarkLatestLegacyRead s rootUserID ids ty)) (\<lambda>_.
                   ret (LegacyPage (NewPageResult items tot page sz))))))"

definition LatestLegacy :: "notif_env \<Rightarrow> int64 \<Rightarrow> int64 \<Rightarrow> string \<Rightarrow> legacy_response option nservice" where
  "LatestLegacy s currentUserID rootUserID ty =
     (if TrimSpace ty = [] then throw ErrNotificationType
      else
        bind (result (identityIDs s rootUserID)) (\<lambda>ids.
        bind (notif_internal MQueryLatest (repo_LatestLegacy s rootUserID (ids @ [currentUserID]) ty)) (\<lambda>d.
        ret (map_option (legacyResponse (show_date s)) d))))"

definition HaveUnreadLegacy :: "notif_env \<Rightarrow> int64 \<Rightarrow> int64 \<Rightarrow> string \<Rightarrow> bool nservice" where
  "HaveUnreadLegacy s currentUserID rootUserID ty =
     bind (LatestLegacy s currentUserID rootUserID ty) (\<lambda>latest.
     ret (case latest of None \<Rightarrow> False | Some l \<Rightarrow> \<not> Legacy_IsRead l))"

section \<open>The adapter\<close>

definition adapter_create ::
  "notif_env \<Rightarrow> int64 \<Rightarrow> string \<Rightarrow> string \<Rightarrow> string \<Rightarrow> string \<Rightarrow> string \<Rightarrow> string \<Rightarrow> int64 \<Rightarrow> instant \<Rightarrow> unit nservice" where
  "adapter_create s rootUserID category eventType title content resourceType resourceID newID now =
     bind (CreateNotification s
            \<lparr>In_ReceiverRootUserID = rootUserID, In_ReceiverID = FormatInt rootUserID, In_SenderID = [],
             In_Category = category, In_EventType = eventType, In_Title = title, In_Content = content,
             In_ResourceType = resourceType, In_ResourceID = resourceID, In_Extra = [], In_EventID = [],
             In_CreatedTime = zero_time\<rparr> newID now) (\<lambda>_. ret ())"

definition NotifyModeration ::
  "notif_env \<Rightarrow> int64 \<Rightarrow> string \<Rightarrow> string \<Rightarrow> string \<Rightarrow> string \<Rightarrow> string \<Rightarrow> int64 \<Rightarrow> instant \<Rightarrow> unit nservice" where
  "NotifyModeration s rootUserID eventType title content resourceType resourceID newID now =
     adapter_create s rootUserID CategoryModeration eventType title content resourceType resourceID newID now"

definition NotifyReservation ::
  "notif_env \<Rightarrow> int64 \<Rightarrow> string \<Rightarrow> string \<Rightarrow> string \<Rightarrow> string \<Rightarrow> int64 \<Rightarrow> instant \<Rightarrow> unit nservice" where
  "NotifyReservation s rootUserID eventType title content resourceID newID now =
     adapter_create s rootUserID CategoryReservation eventType title content ''reservation'' resourceID newID now"

definition NotifyMarketplace ::
  "notif_env \<Rightarrow> int64 \<Rightarrow> string \<Rightarrow> string \<Rightarrow> string \<Rightarrow> string \<Rightarrow> int64 \<Rightarrow> instant \<Rightarrow> unit nservice" where
  "NotifyMarketplace s rootUserID eventType title content resourceID newID now =
     adapter_create s rootUserID CategoryMarketplace eventType title content ''marketplaceOrder'' resourceID newID now"

text \<open>\<open>PersistLegacyNotification\<close> copies the message of the queue field by field.\<close>

definition PersistLegacyNotification :: "notif_env \<Rightarrow> legacy_input \<Rightarrow> int64 \<Rightarrow> instant \<Rightarrow> unit nservice" where
  "PersistLegacyNotification s msg newID now = CreateLegacy s msg newID now"

end
