(* ===== verification/Notification_Inv.thy ===== *)
theory Notification_Inv
  imports Notification_Service
begin

text \<open>
  What the notification calls do to the collection: documents are added, never removed or changed, save that a
  receiver may mark those addressed to them as read; identifiers and event identifiers stay unique.
\<close>

section \<open>Documents only advance\<close>

definition doc_next :: "(document \<Rightarrow> bool) \<Rightarrow> document \<Rightarrow> document \<Rightarrow> bool" where
  "doc_next P d d' \<longleftrightarrow> d' = d \<or> P d \<and> d' = mark_read d"

definition marked :: "(document \<Rightarrow> bool) \<Rightarrow> document list \<Rightarrow> document list \<Rightarrow> bool" where
  "marked P ds ds' \<longleftrightarrow> list_all2 (doc_next P) ds ds'"

definition advances_docs :: "(document \<Rightarrow> bool) \<Rightarrow> notif_db \<Rightarrow> notif_db \<Rightarrow> bool" where
  "advances_docs P t t' \<longleftrightarrow>
     (\<exists>old new. docs t' = old @ new \<and> marked P (docs t) old) \<and> (event_index t \<longrightarrow> event_index t')"

text \<open>A condition that does not look at the read flag.\<close>

definition flag_free :: "(document \<Rightarrow> bool) \<Rightarrow> bool" where
  "flag_free P \<longleftrightarrow> (\<forall>d. P (mark_read d) = P d)"

definition notif_inv :: "notif_db \<Rightarrow> bool" where
  "notif_inv t \<longleftrightarrow> event_index t \<and> docs_ok True (docs t)"

lemma mark_read_idem [simp]: "mark_read (mark_read d) = mark_read d"
  by (simp add: mark_read_def)

lemma mark_read_sel [simp]:
  "Doc_ID (mark_read d) = Doc_ID d" "Doc_EventID (mark_read d) = Doc_EventID d"
  "Doc_ReceiverRootUserID (mark_read d) = Doc_ReceiverRootUserID d" "Doc_ReceiverID (mark_read d) = Doc_ReceiverID d"
  "Doc_Category (mark_read d) = Doc_Category d" "Doc_Type (mark_read d) = Doc_Type d" "Doc_IsRead (mark_read d)"
  by (simp_all add: mark_read_def)

lemma doc_next_trans: "flag_free P \<Longrightarrow> doc_next P a b \<Longrightarrow> doc_next P b c \<Longrightarrow> doc_next P a c"
  by (auto simp: doc_next_def flag_free_def)

lemma marked_refl: "marked P ds ds"
  by (simp add: marked_def list_all2_same doc_next_def)

lemma marked_trans: "flag_free P \<Longrightarrow> marked P a b \<Longrightarrow> marked P b c \<Longrightarrow> marked P a c"
  unfolding marked_def by (rule list_all2_trans [rotated], assumption, assumption) (rule doc_next_trans)

lemma marked_update_rows: "(\<And>d. Q d \<Longrightarrow> P d) \<Longrightarrow> marked P ds (update_rows Q mark_read ds)"
  by (auto simp: marked_def update_rows_def list_all2_conv_all_nth doc_next_def)

lemma marked_update_first: "(\<And>d. Q d \<Longrightarrow> P d) \<Longrightarrow> marked P ds (update_first Q mark_read ds)"
  by (induction ds) (auto simp: marked_def doc_next_def list_all2_same)

lemma marked_keys: "marked P ds ds' \<Longrightarrow> map Doc_ID ds' = map Doc_ID ds \<and>
    map Doc_EventID (filter (\<lambda>d. Doc_EventID d \<noteq> []) ds') = map Doc_EventID (filter (\<lambda>d. Doc_EventID d \<noteq> []) ds)"
  unfolding marked_def by (induction rule: list_all2_induct) (auto simp: doc_next_def)

lemma advances_docs_refl: "advances_docs P t t"
  using marked_refl by (force simp: advances_docs_def)

lemma advances_docs_trans:
  assumes "flag_free P" and "advances_docs P a b" and "advances_docs P b c"
  shows "advances_docs P a c"
proof -
  from assms(2,3) obtain o1 n1 o2 n2 where b: "docs b = o1 @ n1" "marked P (docs a) o1"
    and c: "docs c = o2 @ n2" "marked P (docs b) o2" by (auto simp: advances_docs_def)
  from b(1) c(2) obtain o3 n3 where o2: "o2 = o3 @ n3" "marked P o1 o3" by (auto simp: marked_def list_all2_append1)
  have "marked P (docs a) o3" using marked_trans [OF assms(1) b(2) o2(2)] .
  with c(1) o2(1) assms(2,3) show ?thesis by (auto simp: advances_docs_def)
qed

text \<open>What a call keeps: the invariant, and that the documents advance from where they were.\<close>

definition sound_from :: "(document \<Rightarrow> bool) \<Rightarrow> notif_db \<Rightarrow> notif_db \<Rightarrow> bool" where
  "sound_from P t0 t \<longleftrightarrow> notif_inv t \<and> advances_docs P t0 t"

lemma sound_mark:
  assumes "flag_free P" and "sound_from P t0 t" and "marked P (docs t) ds"
  shows "sound_from P t0 (t\<lparr>docs := ds\<rparr>)"
proof -
  have "advances_docs P t (t\<lparr>docs := ds\<rparr>)" using assms(3) by (auto simp: advances_docs_def)
  with assms marked_keys [OF assms(3)] show ?thesis
    by (auto simp: sound_from_def notif_inv_def docs_ok_def intro: advances_docs_trans)
qed

lemma sound_append:
  "sound_from P t0 t \<Longrightarrow> docs_ok (event_index t) (docs t @ [d]) \<Longrightarrow> sound_from P t0 (t\<lparr>docs := docs t @ [d]\<rparr>)"
  by (force simp: sound_from_def notif_inv_def advances_docs_def)

section \<open>The repository\<close>

lemma keeps_use_collection [intro]: "keeps I use_collection"
  by (auto simp: keeps_def outcome_def use_collection_def split: if_splits)

declare keeps_result [intro]

lemma keeps_notif_internal [intro]: "keeps I m \<Longrightarrow> keeps I (notif_internal msg m)"
  by (auto simp: notif_internal_def)

lemma keeps_notif_reads [intro]:
  "keeps I (list_docs s P page sz)" "keeps I (repo_List s r ids c page sz)" "keeps I (repo_ListLegacy s r ids ty page sz)"
  "keeps I (UnreadCategories r ids)" "keeps I (repo_LatestLegacy s r ids ty)"
proof -
  show reads: "keeps I (list_docs s P page sz)" for P
    unfolding list_docs_def by (intro keeps_bind keeps_basic keeps_stmt) (auto split: if_splits)
  show "keeps I (repo_List s r ids c page sz)" "keeps I (repo_ListLegacy s r ids ty page sz)"
    unfolding repo_List_def repo_ListLegacy_def Let_def by (rule reads)+
  show "keeps I (UnreadCategories r ids)" "keeps I (repo_LatestLegacy s r ids ty)"
    unfolding UnreadCategories_def repo_LatestLegacy_def Let_def by (intro keeps_bind keeps_basic keeps_use_collection keeps_find_row)+
qed

lemma flag_free_receiver: "flag_free (receiverFilter r ids)"
  by (simp add: flag_free_def receiverFilter_def)

lemma andFilter_simps [simp]: "andFilter [p, q] d \<longleftrightarrow> p d \<and> q d"
  by (simp add: andFilter_def)

lemma keeps_marks:
  assumes "\<And>d. receiverFilter r ids d \<Longrightarrow> P d" and "flag_free P"
  shows "keeps (sound_from P t0) (repo_MarkOneRead r ids i)" "keeps (sound_from P t0) (repo_MarkRead r ids c)"
    "keeps (sound_from P t0) (MarkLatestLegacyRead s r ids ty)"
proof -
  note mark = sound_mark [OF assms(2)]
  show "keeps (sound_from P t0) (repo_MarkOneRead r ids i)"
    unfolding repo_MarkOneRead_def Let_def
    by (intro keeps_bind keeps_use_collection keeps_stmt) (use assms(1) in \<open>auto intro!: mark marked_update_first\<close>)
  show "keeps (sound_from P t0) (repo_MarkRead r ids c)"
    unfolding repo_MarkRead_def Let_def
    by (intro keeps_bind keeps_use_collection keeps_stmt)
      (use assms(1) in \<open>auto intro!: mark marked_update_rows split: if_splits\<close>)
  show "keeps (sound_from P t0) (MarkLatestLegacyRead s r ids ty)"
    unfolding MarkLatestLegacyRead_def Let_def
    by (intro keeps_bind keeps_use_collection keeps_stmt)
      (use assms(1) in \<open>auto intro!: mark marked_update_first split: list.splits\<close>)
qed

lemma keeps_insert: "keeps (sound_from P t0) (insert_and_publish s d)"
proof -
  have "keeps (sound_from P t0) (insert_one d)"
    unfolding insert_one_def by (rule keeps_stmt) (auto intro: sound_append split: if_splits)
  then have "keeps (sound_from P t0) (Insert d)"
    unfolding Insert_def
    by (intro keeps_bind keeps_basic keeps_attempt) (auto split: sum.split goerror.split db_err.split)
  moreover have "keeps (sound_from P t0) (publish s d)"
    unfolding publish_def by (auto intro!: keeps_bind keeps_attempt split: sum.split)
  ultimately show ?thesis
    unfolding insert_and_publish_def by (auto intro!: keeps_bind keeps_map_error)
qed

lemma keeps_create:
  "keeps (sound_from P t0) (CreateNotification s input n now)" "keeps (sound_from P t0) (CreateLegacy s linput n now)"
  unfolding CreateNotification_def CreateLegacy_def Let_def
  by (auto intro!: keeps_bind keeps_insert split: option.split)

section \<open>The calls\<close>

text \<open>Who calls: another module, a user, or a user through the older endpoints, which add the current identity.\<close>

datatype notif_actor = System | User int64 | LegacyUser int64 int64

definition seen_by :: "notif_env \<Rightarrow> notif_actor \<Rightarrow> document \<Rightarrow> bool" where
  "seen_by s who d =
     (case who of
        System \<Rightarrow> False
      | User root \<Rightarrow> (case identityIDs s root of Inl _ \<Rightarrow> False | Inr ids \<Rightarrow> receiverFilter root ids d)
      | LegacyUser cur root \<Rightarrow>
          (case identityIDs s root of Inl _ \<Rightarrow> False | Inr ids \<Rightarrow> receiverFilter root (ids @ [cur]) d))"

inductive notif_call :: "notif_env \<Rightarrow> notif_actor \<Rightarrow> notif_db \<Rightarrow> notif_db \<Rightarrow> bool" for s where
  create: "outcome (CreateNotification s input n now) t r t' \<Longrightarrow> notif_call s System t t'"
| legacy: "outcome (CreateLegacy s linput n now) t r t' \<Longrightarrow> notif_call s System t t'"
| list_page: "outcome (ListNotifications s root c page sz) t r t' \<Longrightarrow> notif_call s (User root) t t'"
| unread: "outcome (UnreadCounts s root) t r t' \<Longrightarrow> notif_call s (User root) t t'"
| mark_one: "outcome (MarkOneRead s root i) t r t' \<Longrightarrow> notif_call s (User root) t t'"
| mark_all: "outcome (MarkRead s root c) t r t' \<Longrightarrow> notif_call s (User root) t t'"
| legacy_page: "outcome (ListLegacy s cur root ty page sz) t r t' \<Longrightarrow> notif_call s (LegacyUser cur root) t t'"
| legacy_latest: "outcome (LatestLegacy s cur root ty) t r t' \<Longrightarrow> notif_call s (LegacyUser cur root) t t'"
| legacy_unread: "outcome (HaveUnreadLegacy s cur root ty) t r t' \<Longrightarrow> notif_call s (LegacyUser cur root) t t'"

lemma flag_free_seen: "flag_free (seen_by s who)"
  by (auto simp: flag_free_def seen_by_def receiverFilter_def split: notif_actor.split sum.split)

lemma keeps_known_ids:
  "(\<And>ids. identityIDs s root = Inr ids \<Longrightarrow> keeps I (f ids)) \<Longrightarrow> keeps I (bind (result (identityIDs s root)) f)"
  by (cases "identityIDs s root") (auto simp: result_def keeps_def bind_def throw_def ret_def outcome_def)

lemma keeps_seen:
  assumes "identityIDs s root = Inr ids"
  shows "keeps (sound_from (seen_by s (User root)) t0) (repo_MarkOneRead root ids i)"
    "keeps (sound_from (seen_by s (User root)) t0) (repo_MarkRead root ids c)"
    "keeps (sound_from (seen_by s (LegacyUser cur root)) t0) (MarkLatestLegacyRead s root (ids @ [cur]) ty)"
  by (rule keeps_marks, simp add: seen_by_def assms, rule flag_free_seen)+

lemma keeps_user:
  "keeps (sound_from (seen_by s (User root)) t0) (ListNotifications s root c page sz)"
  "keeps (sound_from (seen_by s (User root)) t0) (UnreadCounts s root)"
  "keeps (sound_from (seen_by s (User root)) t0) (MarkOneRead s root i)"
  "keeps (sound_from (seen_by s (User root)) t0) (MarkRead s root c)"
proof -
  show "keeps (sound_from (seen_by s (User root)) t0) (ListNotifications s root c page sz)"
    "keeps (sound_from (seen_by s (User root)) t0) (UnreadCounts s root)"
    unfolding ListNotifications_def UnreadCounts_def Let_def
    by (auto intro!: keeps_known_ids keeps_bind split: prod.split)
  show "keeps (sound_from (seen_by s (User root)) t0) (MarkOneRead s root i)"
    unfolding MarkOneRead_def
    by (intro keeps_if keeps_known_ids keeps_bind keeps_notif_internal keeps_seen(1) keeps_basic) assumption
  show "keeps (sound_from (seen_by s (User root)) t0) (MarkRead s root c)"
    unfolding MarkRead_def Let_def
    by (intro keeps_if keeps_known_ids keeps_notif_internal keeps_seen(2) keeps_basic) assumption
qed

lemma keeps_legacy_user:
  "keeps (sound_from (seen_by s (LegacyUser cur root)) t0) (ListLegacy s cur root ty page sz)"
  "keeps (sound_from (seen_by s (LegacyUser cur root)) t0) (LatestLegacy s cur root ty)"
  "keeps (sound_from (seen_by s (LegacyUser cur root)) t0) (HaveUnreadLegacy s cur root ty)"
proof -
  show latest: "keeps (sound_from (seen_by s (LegacyUser cur root)) t0) (LatestLegacy s cur root ty)"
    unfolding LatestLegacy_def
    by (intro keeps_if keeps_known_ids keeps_bind keeps_notif_internal keeps_notif_reads keeps_basic)
  show "keeps (sound_from (seen_by s (LegacyUser cur root)) t0) (HaveUnreadLegacy s cur root ty)"
    unfolding HaveUnreadLegacy_def by (intro keeps_bind latest keeps_basic)
  show "keeps (sound_from (seen_by s (LegacyUser cur root)) t0) (ListLegacy s cur root ty page sz)"
    unfolding ListLegacy_def Let_def split_def
    by (intro keeps_if keeps_known_ids keeps_bind keeps_notif_internal keeps_notif_reads keeps_seen(3) keeps_basic) assumption
qed

lemma sound_call: "keeps (sound_from P t) m \<Longrightarrow> outcome m t r t' \<Longrightarrow> notif_inv t \<Longrightarrow> sound_from P t t'"
  using keepsD [of "sound_from P t" m t r t'] by (simp add: sound_from_def advances_docs_refl)

lemma notif_call_sound:
  assumes "notif_call s who t t'" and "notif_inv t"
  shows "sound_from (seen_by s who) t t'"
  using assms
proof (induction rule: notif_call.induct)
  case (create i n now t r t')
  then show ?case by (rule sound_call [OF keeps_create(1)])
next
  case (legacy i n now t r t')
  then show ?case by (rule sound_call [OF keeps_create(2)])
next
  case (list_page root c page sz t r t')
  then show ?case by (rule sound_call [OF keeps_user(1)])
next
  case (unread root t r t')
  then show ?case by (rule sound_call [OF keeps_user(2)])
next
  case (mark_one root i t r t')
  then show ?case by (rule sound_call [OF keeps_user(3)])
next
  case (mark_all root c t r t')
  then show ?case by (rule sound_call [OF keeps_user(4)])
next
  case (legacy_page cur root ty page sz t r t')
  then show ?case by (rule sound_call [OF keeps_legacy_user(1)])
next
  case (legacy_latest cur root ty t r t')
  then show ?case by (rule sound_call [OF keeps_legacy_user(2)])
next
  case (legacy_unread cur root ty t r t')
  then show ?case by (rule sound_call [OF keeps_legacy_user(3)])
qed

definition notif_start :: "notif_db \<Rightarrow> bool" where
  "notif_start t \<longleftrightarrow> docs t = [] \<and> event_index t"

interpretation notification_service: invariant_system notif_start "\<lambda>t t'. \<exists>who. notif_call s who t t'" notif_inv for s
proof (unfold_locales)
  show "notif_start t \<Longrightarrow> notif_inv t" for t by (simp add: notif_start_def notif_inv_def docs_ok_def)
  show "\<exists>who. notif_call s who t t' \<Longrightarrow> notif_inv t \<Longrightarrow> notif_inv t'" for t t'
    using notif_call_sound by (auto simp: sound_from_def)
qed

text \<open>Along any calls the documents only advance.\<close>

lemma advances_docs_weaken: "advances_docs P t t' \<Longrightarrow> advances_docs (\<lambda>_. True) t t'"
  unfolding advances_docs_def marked_def using list_all2_mono [of "doc_next P" _ _ "doc_next (\<lambda>_. True)"]
  by (fastforce simp: doc_next_def)

lemma notif_calls_advance:
  assumes "(\<lambda>t t'. \<exists>who. notif_call s who t t')\<^sup>*\<^sup>* t t'" and "notif_inv t"
  shows "notif_inv t' \<and> advances_docs (\<lambda>_. True) t t'"
  using assms
proof (induction rule: rtranclp_induct)
  case base
  then show ?case by (simp add: advances_docs_refl)
next
  case (step u v)
  then obtain who where "sound_from (seen_by s who) u v" using notif_call_sound by blast
  with step show ?case
    by (auto simp: sound_from_def flag_free_def intro: advances_docs_trans advances_docs_weaken)
qed

end
