(* ===== verification/Notification_Props.thy ===== *)
theory Notification_Props
  imports Notification_Inv
begin

text \<open>The properties of the notifications, and a concrete run for their witnesses.\<close>

section \<open>Events\<close>

definition event_present :: "string \<Rightarrow> notif_db \<Rightarrow> bool" where
  "event_present e t \<longleftrightarrow> (\<exists>d \<in> set (docs t). Doc_EventID d = e)"

lemma event_stays: "advances_docs P t t' \<Longrightarrow> event_present e t \<Longrightarrow> event_present e t'"
proof -
  have "marked P ds ds' \<Longrightarrow> d \<in> set ds \<Longrightarrow> \<exists>d' \<in> set ds'. Doc_EventID d' = Doc_EventID d" for ds ds' d
    unfolding marked_def by (induction rule: list_all2_induct) (auto simp: doc_next_def)
  then show "advances_docs P t t' \<Longrightarrow> event_present e t \<Longrightarrow> event_present e t'"
    unfolding advances_docs_def event_present_def by fastforce
qed

lemmas insert_unfold = insert_and_publish_def Insert_def insert_one_def bind_def map_error_def attempt_def stmt_def
  gormDB_def ret_def throw_def Let_def

lemma insert_done:
  assumes "insert_and_publish s d w = (Inr b, w')" and "notif_inv (tables w)" and "Doc_ID d \<notin> Doc_ID ` set (docs (tables w))"
  shows "event_present (Doc_EventID d) (tables w')"
proof -
  have "tables u' = tables u" if "publish s d u = (r, u')" for r u u'
    using that by (auto simp: publish_def bind_def attempt_def read_rows_def stmt_def ret_def emit_def Let_def split: if_splits)
  then have cases: "tables w' = (tables w)\<lparr>docs := docs (tables w) @ [d]\<rparr> \<or>
      \<not> docs_ok True (docs (tables w) @ [d]) \<and> tables w' = tables w"
    using assms(1,2) by (auto simp: insert_unfold notif_inv_def split: if_splits sum.splits prod.splits)
  show ?thesis
  proof (cases "docs_ok True (docs (tables w) @ [d])")
    case True
    with cases show ?thesis by (auto simp: event_present_def)
  next
    case False
    with assms(2,3) have "Doc_EventID d \<noteq> [] \<and> Doc_EventID d \<in> Doc_EventID ` set (docs (tables w))"
      by (auto simp: docs_ok_def notif_inv_def split: if_splits)
    with cases show ?thesis by (auto simp: event_present_def)
  qed
qed

lemma insert_refused:
  assumes "insert_and_publish s d w = (r, w')" and "notif_inv (tables w)" and "event_present (Doc_EventID d) (tables w)"
    and "Doc_EventID d \<noteq> []"
  shows "tables w' = tables w \<and> outbox w' = outbox w \<and> (calm w \<longrightarrow> r = Inr False)"
proof -
  have "\<not> docs_ok (event_index (tables w)) (docs (tables w) @ [d])"
  proof -
    obtain x where x: "x \<in> set (docs (tables w))" "Doc_EventID x = Doc_EventID d" using assms(3) by (auto simp: event_present_def)
    with assms(4) have "Doc_EventID d \<in> set (map Doc_EventID (filter (\<lambda>d. Doc_EventID d \<noteq> []) (docs (tables w))))"
      unfolding set_map set_filter by (intro image_eqI [of _ _ x]) auto
    with assms(2,4) show ?thesis by (simp add: docs_ok_def notif_inv_def)
  qed
  with assms(1) show ?thesis by (auto simp: insert_unfold calm_def faulty_def split: if_splits)
qed

lemma legacy_outcome:
  "CreateLegacy s input n now w = (r, w') \<Longrightarrow> outcome (CreateLegacy s input n now) (tables w) r (tables w')"
  by (rule outcomeI)

lemma CreateLegacy_run:
  assumes "CreateLegacy s input n now w = (Inr (), w')"
  shows "\<exists>target root b. ParseInt (TrimSpace (Leg_TargetUserID input)) = Some target \<and> 0 < target \<and> resolve_root s target = Inr root \<and>
    insert_and_publish s (legacy_document input root n now) w = (Inr b, w')"
  using assms
  by (auto simp: CreateLegacy_def bind_def result_def throw_def ret_def split: option.splits if_splits sum.splits prod.splits)

lemma CreateLegacy_again:
  assumes "ParseInt (TrimSpace (Leg_TargetUserID input)) = Some target" and "0 < target" and "resolve_root s target = Inr root"
  shows "CreateLegacy s input n now w =
    (case insert_and_publish s (legacy_document input root n now) w of (Inl e, w') \<Rightarrow> (Inl e, w') | (Inr _, w') \<Rightarrow> (Inr (), w'))"
  using assms by (simp add: CreateLegacy_def bind_def result_def ret_def split: sum.split prod.split)

section \<open>Unread counts\<close>

definition doc_category :: "document \<Rightarrow> string" where
  "doc_category d = (if Doc_Category d = [] then CategorySocial else Doc_Category d)"

definition unread_number :: "int64 \<Rightarrow> int64 list \<Rightarrow> string \<Rightarrow> document list \<Rightarrow> int64" where
  "unread_number root ids c ds =
     int (length (filter (\<lambda>d. receiverFilter root ids d \<and> \<not> Doc_IsRead d \<and> doc_category d = c) ds))"

lemma count_fold:
  "fold count_category ds m c =
     (if filter (\<lambda>d. doc_category d = c) ds = [] then m c
      else Some ((case m c of None \<Rightarrow> 0 | Some n \<Rightarrow> n) + int (length (filter (\<lambda>d. doc_category d = c) ds))))"
  by (induction ds arbitrary: m) (auto simp: count_category_def doc_category_def Let_def split: option.split)

lemma with_zeros_eq: "with_zeros m c = (if m c = None \<and> c \<in> set categories then Some 0 else m c)"
proof -
  have "fold (\<lambda>c m. if m c = None then m(c \<mapsto> 0) else m) cs m c = (if m c = None \<and> c \<in> set cs then Some (0 :: int64) else m c)"
    for cs by (induction cs arbitrary: m) auto
  then show ?thesis by (simp add: with_zeros_def)
qed

lemma UnreadCounts_run:
  assumes "UnreadCounts s root w = (Inr counts, w')" and "identityIDs s root = Inr ids" and "c \<in> set categories"
  shows "counts c = Some (unread_number root ids c (docs (tables w)))"
proof -
  have "outcome (UnreadCounts s root) (tables w) (Inr counts) (tables w')" using assms(1) by (rule outcomeI)
  then have "counts = with_zeros (fold count_category
      (filter (andFilter [receiverFilter root ids, \<lambda>d. \<not> Doc_IsRead d]) (docs (tables w))) Map.empty)"
    using assms(2)
    by (auto simp: UnreadCounts_def UnreadCategories_def result_def notif_internal_def run_simps
        dest!: outcome_bind_Inr)
  with assms(3) show ?thesis
    by (auto simp: with_zeros_eq count_fold unread_number_def filter_empty_conv conj_ac)
qed

lemma category_filter: "c \<in> set categories \<Longrightarrow> categoryFilter c d \<longleftrightarrow> doc_category d = c"
  by (auto simp: categoryFilter_def doc_category_def categories_def CategorySocial_def CategoryAcademic_def
      CategoryMarketplace_def CategoryReservation_def CategoryModeration_def CategorySystem_def)

lemma category_trim: "c \<in> set categories \<Longrightarrow> TrimSpace c = c \<and> c \<noteq> []"
proof -
  have "list_all (\<lambda>c. TrimSpace c = c \<and> c \<noteq> []) categories" by code_simp
  then show "c \<in> set categories \<Longrightarrow> TrimSpace c = c \<and> c \<noteq> []" by (simp add: list_all_iff)
qed

lemma outcome_use_collection: "outcome use_collection t (Inr x) t' \<Longrightarrow> t' = t"
  by (auto simp: outcome_def use_collection_def split: if_splits)

lemma MarkRead_run:
  assumes "MarkRead s root c w = (Inr n, w')" and "identityIDs s root = Inr ids" and "c \<in> set categories"
  shows "n = unread_number root ids c (docs (tables w)) \<and>
    tables w' = (tables w)\<lparr>docs := update_rows (\<lambda>d. receiverFilter root ids d \<and> \<not> Doc_IsRead d \<and> doc_category d = c) mark_read
      (docs (tables w))\<rparr>"
proof -
  have "outcome (MarkRead s root c) (tables w) (Inr n) (tables w')" using assms(1) by (rule outcomeI)
  moreover have "andFilter [andFilter [receiverFilter root ids, \<lambda>d. \<not> Doc_IsRead d], categoryFilter c] =
      (\<lambda>d. receiverFilter root ids d \<and> \<not> Doc_IsRead d \<and> doc_category d = c)"
    using category_filter [OF assms(3)] by (simp add: fun_eq_iff)
  ultimately show ?thesis
    using assms(2,3) category_trim [OF assms(3)]
    by (auto simp: MarkRead_def repo_MarkRead_def validCategory_def result_def notif_internal_def run_simps unread_number_def Let_def
        dest!: outcome_bind_Inr outcome_use_collection)
qed

lemma unread_after_mark:
  "unread_number root ids c' (update_rows (\<lambda>d. receiverFilter root ids d \<and> \<not> Doc_IsRead d \<and> doc_category d = c) mark_read ds) =
   (if c' = c then 0 else unread_number root ids c' ds)"
proof -
  let ?P = "\<lambda>d. receiverFilter root ids d \<and> \<not> Doc_IsRead d \<and> doc_category d = c"
  have cat: "doc_category (mark_read d) = doc_category d" for d by (simp add: doc_category_def)
  show ?thesis
  proof (cases "c' = c")
    case True
    have "\<not> ?P (if ?P d then mark_read d else d)" for d by simp
    then have "filter ?P (update_rows ?P mark_read ds) = []" 
      unfolding update_rows_def filter_empty_conv set_map by (intro ballI) (erule imageE, simp only: not_False_eq_True)
    with True show ?thesis by (simp add: unread_number_def)
  next
    case False
    have "length (filter (\<lambda>d. receiverFilter root ids d \<and> \<not> Doc_IsRead d \<and> doc_category d = c') (update_rows ?P mark_read ds)) =
        length (filter (\<lambda>d. receiverFilter root ids d \<and> \<not> Doc_IsRead d \<and> doc_category d = c') ds)"
      using False by (induction ds) (auto simp: update_rows_def cat)
    with False show ?thesis by (simp add: unread_number_def)
  qed
qed

section \<open>A run\<close>

definition nx_env :: notif_env where
  "nx_env = \<lparr>identities = None, has_redis = True, newest = (\<lambda>ds. ds), show_rfc3339 = (\<lambda>_. ''t''), show_date = (\<lambda>_. ''d'')\<rparr>"

definition nx_input :: legacy_input where
  "nx_input = \<lparr>Leg_TargetUserID = FormatInt 7, Leg_SenderUserID = ''8'', Leg_Type = ''like'', Leg_Content = ''c'',
     Leg_TopicID = ''1'', Leg_CommentID = [], Leg_CreatedTime = 5, Leg_EventID = 9\<rparr>"

definition nx_world :: "notif_db \<Rightarrow> (notif_db, notif_event) world" where
  "nx_world t = \<lparr>tables = t, connected = True, faults = [], outbox = []\<rparr>"

definition nx_doc :: "int64 \<Rightarrow> document" where
  "nx_doc n = legacy_document nx_input 7 n 5"

definition nx_empty :: notif_db where "nx_empty = \<lparr>docs = [], event_index = True\<rparr>"
definition nx_one :: notif_db where "nx_one = \<lparr>docs = [nx_doc 1], event_index = True\<rparr>"

lemma nx_calm: "calm (nx_world t)" "tables (nx_world t) = t" "outbox (nx_world t) = []"
  by (simp_all add: nx_world_def calm_def)

lemma nx_create: "\<exists>w'. CreateLegacy nx_env nx_input 1 5 (nx_world nx_empty) = (Inr (), w') \<and> tables w' = nx_one"
proof -
  have parse: "ParseInt (TrimSpace (Leg_TargetUserID nx_input)) = Some 7"
    using ParseInt_FormatInt [of 7] by (simp add: nx_input_def in_int64_def)
  have root: "resolve_root nx_env 7 = Inr 7" by (simp add: resolve_root_def nx_env_def)
  have "\<exists>w'. insert_and_publish nx_env (nx_doc 1) (nx_world nx_empty) = (Inr True, w') \<and> tables w' = nx_one"
    by (simp add: insert_unfold publish_def nx_env_def nx_world_def nx_empty_def nx_one_def faulty_def docs_ok_def read_rows_def
        emit_def)
  with CreateLegacy_again [OF parse _ root, of 1 5 "nx_world nx_empty"] show ?thesis by (auto simp: nx_doc_def)
qed

section \<open>Properties\<close>

text \<open>
  C29: An event is delivered once. When a queue message with an event identifier has been stored successfully, then,
  whatever calls happen in between, delivering the message again stores nothing and broadcasts nothing, and is
  acknowledged when nothing fails.
\<close>

theorem event_delivered_once:
  assumes "reachable notif_start (\<lambda>t t'. \<exists>who. notif_call s who t t') (tables w)"
    and "0 < Leg_EventID input" and "StringId (FormatInt n) \<notin> Doc_ID ` set (docs (tables w))"
    and first: "CreateLegacy s input n now w = (Inr (), w')"
    and between: "(\<lambda>t t'. \<exists>who. notif_call s who t t')\<^sup>*\<^sup>* (tables w') (tables v)"
    and again: "CreateLegacy s input n' now' v = (r, v')"
  shows "tables v' = tables v \<and> outbox v' = outbox v \<and> (calm v \<longrightarrow> r = Inr ())"
proof -
  have inv: "notif_inv (tables w)" by (rule notification_service.reachable_inv [OF assms(1)])
  obtain target root b where run: "ParseInt (TrimSpace (Leg_TargetUserID input)) = Some target" "0 < target"
    "resolve_root s target = Inr root" "insert_and_publish s (legacy_document input root n now) w = (Inr b, w')"
    using CreateLegacy_run [OF first] by blast
  let ?e = "legacy_event_id (Leg_EventID input)"
  have "event_present ?e (tables w')"
    using insert_done [OF run(4) inv] assms(3) by (simp add: legacy_document_def)
  moreover have inv': "notif_inv (tables w')"
    using notif_call_sound [OF notif_call.legacy [OF legacy_outcome [OF first]] inv] by (simp add: sound_from_def)
  ultimately have there: "event_present ?e (tables v)" "notif_inv (tables v)"
    using notif_calls_advance [OF between inv'] event_stays by blast+
  obtain r' where r': "insert_and_publish s (legacy_document input root n' now') v = (r', v')"
    "r = (case r' of Inl e \<Rightarrow> Inl e | Inr _ \<Rightarrow> Inr ())"
    using again unfolding CreateLegacy_again [OF run(1-3)] by (auto split: prod.splits sum.splits)
  have "?e \<noteq> []" using assms(2) by (simp add: legacy_event_id_def)
  with insert_refused [OF r'(1) there(2)] there(1) r'(2) show ?thesis by (auto simp: legacy_document_def)
qed

theorem event_delivered_once_witness:
  "\<exists>w' r v'. CreateLegacy nx_env nx_input 1 5 (nx_world nx_empty) = (Inr (), w') \<and>
     CreateLegacy nx_env nx_input 2 6 (nx_world (tables w')) = (r, v') \<and> tables v' = tables w' \<and> outbox v' = [] \<and> r = Inr ()"
proof -
  obtain w' where w': "CreateLegacy nx_env nx_input 1 5 (nx_world nx_empty) = (Inr (), w')" using nx_create by blast
  obtain r v' where again: "CreateLegacy nx_env nx_input 2 6 (nx_world (tables w')) = (r, v')" by fastforce
  have start: "reachable notif_start (\<lambda>t t'. \<exists>who. notif_call nx_env who t t') (tables (nx_world nx_empty))"
    by (rule reachable_start) (simp add: nx_calm nx_empty_def notif_start_def)
  have "tables v' = tables (nx_world (tables w')) \<and> outbox v' = outbox (nx_world (tables w')) \<and>
      (calm (nx_world (tables w')) \<longrightarrow> r = Inr ())"
    by (rule event_delivered_once [OF start _ _ w' _ again]) (simp_all add: nx_input_def nx_calm nx_empty_def)
  with w' again show ?thesis by (auto simp: nx_calm)
qed

text \<open>
  C31: The unread counts are exact: for each known category the number of unread documents addressed to the account
  or one of its identities. Marking a category as read returns that number, makes it zero and leaves the counts of the
  other categories as they were.
\<close>

theorem unread_counts_exact:
  assumes "identityIDs s root = Inr ids" and "c \<in> set categories" and "c' \<in> set categories"
    and "UnreadCounts s root w = (Inr before, w0)" and "MarkRead s root c w0 = (Inr n, w1)"
    and "UnreadCounts s root w1 = (Inr after, w2)"
  shows "before c = Some (int (length (filter (\<lambda>d. receiverFilter root ids d \<and> \<not> Doc_IsRead d \<and> categoryFilter c d) (docs (tables w)))))
    \<and> before c = Some n \<and> after c = Some 0 \<and> (c' \<noteq> c \<longrightarrow> after c' = before c')"
proof -
  have same: "tables w0 = tables w"
    using outcomeI [of "UnreadCounts s root", OF assms(4)] assms(1)
    by (auto simp: UnreadCounts_def UnreadCategories_def result_def notif_internal_def run_simps dest!: outcome_bind_Inr)
  note counts = UnreadCounts_run [OF assms(4,1)] UnreadCounts_run [OF assms(6,1)]
  note marks = MarkRead_run [OF assms(5,1,2)]
  have "before c = Some (unread_number root ids c (docs (tables w)))" by (rule counts(1) [OF assms(2)])
  moreover have "unread_number root ids c (docs (tables w)) =
      int (length (filter (\<lambda>d. receiverFilter root ids d \<and> \<not> Doc_IsRead d \<and> categoryFilter c d) (docs (tables w))))"
    by (simp add: unread_number_def category_filter [OF assms(2)])
  moreover have "after c = Some 0" "c' \<noteq> c \<longrightarrow> after c' = before c'"
    using counts(2) [OF assms(2)] counts(2) [OF assms(3)] counts(1) [OF assms(3)] marks same by (simp_all add: unread_after_mark)
  ultimately show ?thesis using marks same by simp
qed

theorem unread_counts_exact_witness:
  "\<exists>counts w0 n w1 after w2. UnreadCounts nx_env 7 (nx_world nx_one) = (Inr counts, w0) \<and>
     MarkRead nx_env 7 CategorySocial w0 = (Inr n, w1) \<and> UnreadCounts nx_env 7 w1 = (Inr after, w2) \<and>
     counts CategorySocial = Some n \<and> after CategorySocial = Some 0"
proof -
  have ids: "identityIDs nx_env 7 = Inr [7]" by (simp add: identityIDs_def nx_env_def)
  have valid: "CategorySocial \<in> set categories" by (simp add: categories_def)
  have calm_counts: "\<exists>counts. UnreadCounts nx_env 7 w = (Inr counts, w)" if "calm w" for w
    using that by (simp add: UnreadCounts_def UnreadCategories_def bind_def result_def ids ret_def notif_internal_def
        map_error_def calm_gormDB calm_read_rows)
  obtain before where before: "UnreadCounts nx_env 7 (nx_world nx_one) = (Inr before, nx_world nx_one)"
    using calm_counts nx_calm(1) by blast
  have "\<exists>n w1. MarkRead nx_env 7 CategorySocial (nx_world nx_one) = (Inr n, w1) \<and> calm w1"
    using category_trim [OF valid] valid nx_calm(1) [of nx_one]
    by (simp add: MarkRead_def repo_MarkRead_def bind_def result_def ids ret_def notif_internal_def map_error_def
        validCategory_def use_collection_def calm_stmt Let_def) (simp add: calm_def)
  then obtain n w1 where mark: "MarkRead nx_env 7 CategorySocial (nx_world nx_one) = (Inr n, w1)" "calm w1" by blast
  obtain after where after: "UnreadCounts nx_env 7 w1 = (Inr after, w1)" using calm_counts mark(2) by blast
  from unread_counts_exact [OF ids valid valid before mark(1) after] before mark(1) after show ?thesis by blast
qed



section \<open>Two observations\<close>

text \<open>Without a collection the marking methods panic.\<close>

lemma mark_without_collection:
  assumes "\<not> connected w" and "identityIDs s root = Inr ids" and "TrimSpace i \<noteq> []"
  shows "MarkOneRead s root i w = (Inl (Passed (Sentinel NilCollection)), w)"
  using assms
  by (simp add: MarkOneRead_def repo_MarkOneRead_def bind_def result_def ret_def notif_internal_def map_error_def
      use_collection_def Let_def)

text \<open>A category with a space in front is accepted, but the document belongs to no category.\<close>

lemma padded_category:
  "validCategory (TrimSpace '' social'') \<and>
   \<not> list_ex (\<lambda>c. categoryFilter c (new_document (input\<lparr>In_Category := '' social''\<rparr>) n now)) categories"
proof
  show "validCategory (TrimSpace '' social'')" by code_simp
  show "\<not> list_ex (\<lambda>c. categoryFilter c (new_document (input\<lparr>In_Category := '' social''\<rparr>) n now)) categories"
    by (simp add: categoryFilter_def new_document_def categories_def CategorySocial_def CategoryAcademic_def
        CategoryMarketplace_def CategoryReservation_def CategoryModeration_def CategorySystem_def)
qed

end
