(* ===== verification/File_Model.thy ===== *)
theory File_Model
  imports Bizerr Pagination
begin

text \<open>
  Uploaded files (\<open>internal/file\<close>) and the object storage client (\<open>internal/integration/cosutil\<close>): records, errors, what
  may be uploaded, and the addresses of files.

  A file is its bytes. An ObjectID is its 24 hexadecimal digits in lower case. The hash, the detection of media types, the
  names inside a zip archive, \<open>strings.ToLower\<close>, and the driver's functions on ObjectIDs (parsing and the time in it) are
  parameters: nothing below depends on what they compute.
\<close>

section \<open>Data\<close>

record file_doc =
  File_ID :: string
  File_MD5 :: string
  File_IsPublic :: bool
  File_UserID :: string
  File_RefCount :: int
  File_CreatedTime :: int64

record stored_object =
  Object_Data :: string
  Object_Type :: string

text \<open>The collection and the two buckets.\<close>

record file_db =
  files :: "file_doc list"
  base_bucket :: "string \<rightharpoonup> stored_object"
  compress_bucket :: "string \<rightharpoonup> stored_object"

record original_upload =
  Upload_MD5 :: string
  Upload_OriginalName :: string
  Upload_MIME :: string
  Upload_Size :: int64

text \<open>The header of a form file; \<open>Header_ContentType\<close> is \<open>[]\<close> when it has none.\<close>

record file_header =
  Header_Filename :: string
  Header_Size :: int64
  Header_ContentType :: string

datatype upload_stream = NilStream | BrokenStream | Bytes string

record cos_config =
  COS_BaseCDN :: string
  COS_CompressBaseCDN :: string
  COS_Compress :: string

record file_config =
  Cfg_COS :: cos_config
  Cfg_MaxFileSizeMB :: int

record file_env =
  fl_cfg :: "file_config option"
  fl_has_base :: bool
  fl_has_compress :: bool
  fl_md5 :: "string \<Rightarrow> string"
  fl_mime :: "string \<Rightarrow> string"
  fl_detect :: "string \<Rightarrow> string"
  fl_zip_names :: "string \<Rightarrow> string list option"
  fl_lower :: "string \<Rightarrow> string"
  fl_newest :: "file_doc list \<Rightarrow> file_doc list"
  fl_object_id :: "string \<Rightarrow> string option"
  fl_id_millis :: "string \<Rightarrow> int64"

definition file_ids_ok :: "file_doc list \<Rightarrow> bool" where
  "file_ids_ok fs \<longleftrightarrow> distinct (map File_ID fs)"

section \<open>Errors\<close>

datatype file_msg =
    MFileParam | MFileMissing | MFileLimited | MImageFormat | MDocumentFormat | MFileUpdate | MReadUpload | MQueryFile | MRefCount
  | MPutObject | MSaveFile | MDropFile | MListPublic | MListFiles | MSetPublic

datatype file_sentinel = NoBaseClient | ReadFailed

type_synonym frepo_error = "file_sentinel goerror"
type_synonym file_error = "(file_msg, frepo_error) svc_error"

definition ErrFileNotFound :: file_error where "ErrFileNotFound = NotFound MFileMissing"
definition ErrFileLimited :: file_error where "ErrFileLimited = Biz MFileLimited"
definition ErrUnsupportedFileFormat :: file_error where "ErrUnsupportedFileFormat = Param MImageFormat"
definition ErrUnsupportedDocumentFormat :: file_error where "ErrUnsupportedDocumentFormat = Param MDocumentFormat"
definition ErrFileUpdateFailed :: file_error where "ErrFileUpdateFailed = Biz MFileUpdate"

section \<open>What may be uploaded\<close>

definition defaultMaxUploadMB :: int where "defaultMaxUploadMB = 10"

definition AcademicMaxUploadBytes :: int64 where "AcademicMaxUploadBytes = 50 * 1024 * 1024"

definition academicExtensions :: "string list" where
  "academicExtensions = [''.pdf'', ''.doc'', ''.docx'', ''.ppt'', ''.pptx'', ''.xls'', ''.xlsx'', ''.txt'', ''.png'', ''.jpg'',
     ''.jpeg'', ''.gif'', ''.webp'']"

definition maxUploadBytes :: "file_env \<Rightarrow> int64" where
  "maxUploadBytes s =
     (let maxMB = (case fl_cfg s of
            Some cfg \<Rightarrow> if Cfg_MaxFileSizeMB cfg > 0 then Cfg_MaxFileSizeMB cfg else defaultMaxUploadMB
          | None \<Rightarrow> defaultMaxUploadMB)
      in wrap64 (wrap64 (maxMB * 1024) * 1024))"

definition normalizeContentType :: "file_env \<Rightarrow> file_header option \<Rightarrow> file_error + string" where
  "normalizeContentType s header =
     (let contentType = (case header of None \<Rightarrow> [] | Some h \<Rightarrow> fl_lower s (TrimSpace (Header_ContentType h)))
      in if contentType \<in> {[], ''application/octet-stream''} then Inr ''image/png''
         else if contentType \<in> {''image/png'', ''image/jpeg'', ''image/x-icon''} then Inr contentType
         else Inl ErrUnsupportedFileFormat)"

text \<open>\<open>filepath.Ext\<close>: from the last dot of the last path element.\<close>

definition filepath_Ext :: "string \<Rightarrow> string" where
  "filepath_Ext path =
     (let tl = takeWhile (\<lambda>c. c \<noteq> CHR ''.'' \<and> c \<noteq> CHR ''/'') (rev path)
      in case drop (length tl) (rev path) of
           [] \<Rightarrow> []
         | c # _ \<Rightarrow> if c = CHR ''.'' then CHR ''.'' # rev tl else [])"

definition ooxml_folder :: "string \<Rightarrow> string" where
  "ooxml_folder ext =
     (if ext = ''.docx'' then ''word/'' else if ext = ''.xlsx'' then ''xl/'' else if ext = ''.pptx'' then ''ppt/'' else [])"

definition validOOXML :: "file_env \<Rightarrow> string \<Rightarrow> string \<Rightarrow> bool" where
  "validOOXML s data ext =
     (case fl_zip_names s data of
        None \<Rightarrow> False
      | Some names \<Rightarrow> list_ex (\<lambda>n. n = ''[Content_Types].xml'') names \<and> list_ex (\<lambda>n. prefix (ooxml_folder ext) n) names)"

definition validAcademicDocument :: "file_env \<Rightarrow> string \<Rightarrow> string \<Rightarrow> string \<Rightarrow> bool" where
  "validAcademicDocument s data ext mimeType =
     (if ext \<in> {''.docx'', ''.xlsx'', ''.pptx''} then
        (if mimeType \<noteq> ''application/zip'' \<and> \<not> sublist ''officedocument'' mimeType then False else validOOXML s data ext)
      else if ext = ''.pdf'' then mimeType = ''application/pdf''
      else if ext = ''.doc'' then mimeType = ''application/msword'' \<or> mimeType = ''application/octet-stream''
      else if ext = ''.xls'' then
        sublist ''excel'' mimeType \<or> mimeType = ''application/x-ole-storage'' \<or> mimeType = ''application/octet-stream''
      else if ext = ''.ppt'' then
        sublist ''powerpoint'' mimeType \<or> mimeType = ''application/x-ole-storage'' \<or> mimeType = ''application/octet-stream''
      else if ext = ''.txt'' then prefix ''text/plain'' mimeType
      else if ext \<in> {''.png'', ''.jpg'', ''.jpeg'', ''.gif'', ''.webp''} then prefix ''image/'' mimeType
      else False)"

section \<open>Addresses\<close>

definition ensureSuffixSlash :: "string \<Rightarrow> string" where
  "ensureSuffixSlash v = (if v = [] \<or> suffix ''/'' v then v else v @ ''/'')"

definition fileURL :: "file_env \<Rightarrow> string \<Rightarrow> string" where
  "fileURL s md5 =
     (case fl_cfg s of
        None \<Rightarrow> md5
      | Some cfg \<Rightarrow> if COS_BaseCDN (Cfg_COS cfg) = [] then md5 else ensureSuffixSlash (COS_BaseCDN (Cfg_COS cfg)) @ md5)"

definition file_compressObjectKey :: "file_env \<Rightarrow> string \<Rightarrow> string" where
  "file_compressObjectKey s md5 =
     (let compress = (case fl_cfg s of
            Some cfg \<Rightarrow> if TrimSpace (COS_Compress (Cfg_COS cfg)) \<noteq> [] then TrimSpace (COS_Compress (Cfg_COS cfg)) else ''webp''
          | None \<Rightarrow> ''webp'')
      in md5 @ ''.'' @ compress)"

definition compressFileURL :: "file_env \<Rightarrow> string \<Rightarrow> string" where
  "compressFileURL s md5 =
     (case fl_cfg s of
        None \<Rightarrow> md5
      | Some cfg \<Rightarrow>
          if COS_CompressBaseCDN (Cfg_COS cfg) = [] then md5
          else ensureSuffixSlash (COS_CompressBaseCDN (Cfg_COS cfg)) @ file_compressObjectKey s md5)"

definition OriginalURL :: "file_env \<Rightarrow> string \<Rightarrow> string" where
  "OriginalURL s md5 = fileURL s md5"

text \<open>The client's own versions (\<open>cosutil\<close>).\<close>

definition cos_compressObjectKey :: "cos_config \<Rightarrow> string \<Rightarrow> string" where
  "cos_compressObjectKey cfg key =
     (let compress = TrimSpace (COS_Compress cfg) in if compress = [] then key else key @ ''.'' @ compress)"

definition buildURL :: "string \<Rightarrow> string \<Rightarrow> string" where
  "buildURL base key = (if base = [] then key else if suffix ''/'' base then base @ key else base @ ''/'' @ key)"

section \<open>Identifiers\<close>

definition zero_object_id :: string where "zero_object_id = replicate 24 CHR ''0''"

definition file_normalizePage :: "int \<Rightarrow> int \<Rightarrow> int \<times> int" where
  "file_normalizePage page sz = (if page \<le> 0 then 1 else page, if sz \<le> 0 then 15 else sz)"

end
