(* ===== verification/File_Service.thy ===== *)
theory File_Service
  imports File_Model
begin

text \<open>
  The repository and the service of the files, with the object storage client they use (\<open>internal/file\<close>,
  \<open>internal/integration/cosutil/client.go\<close>).

  The service has a storage client when it has a configuration; its two bucket clients may be missing. A request to the
  storage may fail like a statement. \<open>newID\<close> is the ObjectID the driver generates.
\<close>

type_synonym ('o, 'a) frepo = "(file_db, 'o, frepo_error, 'a) prog"
type_synonym ('o, 'a) fservice = "(file_db, 'o, file_error, 'a) prog"

section \<open>Object storage\<close>

definition put_base :: "string \<Rightarrow> stored_object \<Rightarrow> ('o, unit) frepo" where
  "put_base key obj = stmt (\<lambda>t. Inr ((), t\<lparr>base_bucket := (base_bucket t)(key \<mapsto> obj)\<rparr>))"

definition put_compress :: "string \<Rightarrow> stored_object \<Rightarrow> ('o, unit) frepo" where
  "put_compress key obj = stmt (\<lambda>t. Inr ((), t\<lparr>compress_bucket := (compress_bucket t)(key \<mapsto> obj)\<rparr>))"

definition cos_Put :: "file_env \<Rightarrow> cos_config \<Rightarrow> string \<Rightarrow> string \<Rightarrow> string \<Rightarrow> ('o, string) frepo" where
  "cos_Put s cfg key data contentType =
     (if \<not> fl_has_base s then throw (Sentinel NoBaseClient)
      else
        let contentType = (if contentType = [] then fl_detect s data else contentType)
        in bind (put_base key \<lparr>Object_Data = data, Object_Type = contentType\<rparr>) (\<lambda>_.
           ret (buildURL (COS_BaseCDN cfg) key)))"

definition PutWithImageProcess :: "file_env \<Rightarrow> cos_config \<Rightarrow> string \<Rightarrow> string \<Rightarrow> string \<Rightarrow> string \<Rightarrow> ('o, string) frepo" where
  "PutWithImageProcess s cfg key data contentType process =
     bind (cos_Put s cfg key data contentType) (\<lambda>originURL.
     if TrimSpace process = [] \<or> \<not> fl_has_compress s then ret originURL
     else
       let compressKey = cos_compressObjectKey cfg key
       in bind (attempt (put_compress compressKey \<lparr>Object_Data = data, Object_Type = contentType\<rparr>)) (\<lambda>r.
          case r of
            Inr _ \<Rightarrow> ret (buildURL (COS_CompressBaseCDN cfg) compressKey)
          | Inl _ \<Rightarrow> ret originURL))"

definition drop_base :: "string \<Rightarrow> ('o, unit) frepo" where
  "drop_base key = stmt (\<lambda>t. Inr ((), t\<lparr>base_bucket := (base_bucket t)(key := None)\<rparr>))"

definition drop_compress :: "string \<Rightarrow> ('o, unit) frepo" where
  "drop_compress key = stmt (\<lambda>t. Inr ((), t\<lparr>compress_bucket := (compress_bucket t)(key := None)\<rparr>))"

definition cos_Delete :: "file_env \<Rightarrow> cos_config \<Rightarrow> string \<Rightarrow> ('o, unit) frepo" where
  "cos_Delete s cfg key =
     bind (if fl_has_base s then drop_base key else ret ()) (\<lambda>_.
     if fl_has_compress s then bind (attempt (drop_compress (cos_compressObjectKey cfg key))) (\<lambda>_. ret ()) else ret ())"

section \<open>Repository\<close>

definition FindFileByMD5 :: "string \<Rightarrow> ('o, file_doc option) frepo" where
  "FindFileByMD5 md5 =
     (if md5 = [] then ret None
      else bind gormDB (\<lambda>_. read_rows (\<lambda>t. find (\<lambda>f. File_MD5 f = md5) (files t))))"

definition FindFileByUserAndMD5 :: "string \<Rightarrow> string \<Rightarrow> ('o, file_doc option) frepo" where
  "FindFileByUserAndMD5 userID md5 =
     (if userID = [] \<or> md5 = [] then ret None
      else bind gormDB (\<lambda>_. read_rows (\<lambda>t. find (\<lambda>f. File_UserID f = userID \<and> File_MD5 f = md5) (files t))))"

text \<open>The server refuses a negative skip.\<close>

definition FindFilesPage :: "file_env \<Rightarrow> (file_doc \<Rightarrow> bool) \<Rightarrow> int \<Rightarrow> int \<Rightarrow> ('o, file_doc list) frepo" where
  "FindFilesPage s P page sz =
     (let (page, sz) = file_normalizePage page sz
      in bind gormDB (\<lambda>_.
         stmt (\<lambda>t. if wrap64 ((page - 1) * sz) < 0 then Inl DbFailure
                   else Inr (window page sz (fl_newest s (filter P (files t))), t))))"

definition CreateFile :: "file_doc \<Rightarrow> ('o, unit) frepo" where
  "CreateFile f = bind gormDB (\<lambda>_. create_row files files_update file_ids_ok f)"

definition IncrementFileRefCount :: "string \<Rightarrow> int \<Rightarrow> ('o, unit) frepo" where
  "IncrementFileRefCount i delta =
     (if i = zero_object_id \<or> delta = 0 then ret ()
      else bind gormDB (\<lambda>_.
        bind (update_where files files_update file_ids_ok (\<lambda>f. File_ID f = i)
               (\<lambda>f. f\<lparr>File_RefCount := File_RefCount f + delta\<rparr>)) (\<lambda>_. ret ())))"

definition UpdateFileRefCount :: "string \<Rightarrow> int \<Rightarrow> ('o, unit) frepo" where
  "UpdateFileRefCount i refCount =
     (if i = zero_object_id then ret ()
      else bind gormDB (\<lambda>_.
        bind (update_where files files_update file_ids_ok (\<lambda>f. File_ID f = i) (\<lambda>f. f\<lparr>File_RefCount := refCount\<rparr>)) (\<lambda>_. ret ())))"

definition DeleteFile :: "string \<Rightarrow> ('o, unit) frepo" where
  "DeleteFile i =
     (if i = zero_object_id then ret ()
      else bind gormDB (\<lambda>_. bind (delete_where files files_update (\<lambda>f. File_ID f = i)) (\<lambda>_. ret ())))"

definition UpdateFilesPublic :: "string list \<Rightarrow> bool \<Rightarrow> ('o, int64) frepo" where
  "UpdateFilesPublic ids isPublic =
     (if ids = [] then ret 0
      else bind gormDB (\<lambda>_.
        bind (update_where files files_update file_ids_ok (\<lambda>f. File_ID f \<in> set ids) (\<lambda>f. f\<lparr>File_IsPublic := isPublic\<rparr>)) (\<lambda>n.
        ret (int n))))"

section \<open>Images\<close>

definition GetByMD5 :: "string \<Rightarrow> ('o, file_doc option) fservice" where
  "GetByMD5 md5 =
     (if TrimSpace md5 = [] then throw (Param MFileParam) else internal_error MQueryFile (FindFileByMD5 md5))"

definition new_file :: "string \<Rightarrow> string \<Rightarrow> string \<Rightarrow> file_doc" where
  "new_file newID md5 userID =
     \<lparr>File_ID = newID, File_MD5 = md5, File_IsPublic = False, File_UserID = userID, File_RefCount = 1, File_CreatedTime = 0\<rparr>"

definition store_image :: "file_env \<Rightarrow> string \<Rightarrow> string \<Rightarrow> string \<Rightarrow> ('o, unit) fservice" where
  "store_image s md5 data contentType =
     (case fl_cfg s of
        None \<Rightarrow> ret ()
      | Some cfg \<Rightarrow>
          bind (internal_error MPutObject (PutWithImageProcess s (Cfg_COS cfg) md5 data contentType (COS_Compress (Cfg_COS cfg))))
            (\<lambda>_. ret ()))"

definition finish_image :: "file_env \<Rightarrow> string \<Rightarrow> string \<Rightarrow> string \<Rightarrow> string \<Rightarrow> string \<Rightarrow> ('o, unit) fservice" where
  "finish_image s md5 data contentType userID newID =
     bind (internal_error MQueryFile (FindFileByUserAndMD5 userID md5)) (\<lambda>existing.
     case existing of
       Some f \<Rightarrow> internal_error MRefCount (IncrementFileRefCount (File_ID f) 1)
     | None \<Rightarrow>
         bind (store_image s md5 data contentType) (\<lambda>_.
         internal_error MSaveFile (CreateFile (new_file newID md5 userID))))"

definition Upload :: "file_env \<Rightarrow> upload_stream \<Rightarrow> file_header option \<Rightarrow> string \<Rightarrow> string \<Rightarrow> ('o, string) fservice" where
  "Upload s stream header userID newID =
     (if stream = NilStream \<or> TrimSpace userID = [] then throw (Param MFileParam)
      else
        let maxBytes = maxUploadBytes s
        in if maxBytes > 0 \<and> (case header of None \<Rightarrow> False | Some h \<Rightarrow> Header_Size h > maxBytes) then throw ErrFileLimited
           else
             bind (case stream of Bytes data \<Rightarrow> ret data
                   | _ \<Rightarrow> throw (InternalWrap MReadUpload (Some (Sentinel ReadFailed)))) (\<lambda>data.
             if maxBytes > 0 \<and> int (length data) > maxBytes then throw ErrFileLimited
             else
               bind (result (normalizeContentType s header)) (\<lambda>contentType.
               let md5 = fl_md5 s data
               in bind (finish_image s md5 data contentType userID newID) (\<lambda>_. ret md5))))"

text \<open>A failing removal from the storage is only logged.\<close>

definition delete_object :: "file_env \<Rightarrow> string \<Rightarrow> ('o, unit) fservice" where
  "delete_object s md5 =
     (case fl_cfg s of None \<Rightarrow> ret () | Some cfg \<Rightarrow> bind (attempt (cos_Delete s (Cfg_COS cfg) md5)) (\<lambda>_. ret ()))"

definition file_Delete :: "file_env \<Rightarrow> string \<Rightarrow> string \<Rightarrow> bool \<Rightarrow> ('o, unit) fservice" where
  "file_Delete s md5 userID force =
     (if TrimSpace md5 = [] \<or> (\<not> force \<and> TrimSpace userID = []) then throw (Param MFileParam)
      else
        bind (if force then GetByMD5 md5 else internal_error MQueryFile (FindFileByUserAndMD5 userID md5)) (\<lambda>current.
        case current of
          None \<Rightarrow> throw ErrFileNotFound
        | Some f \<Rightarrow>
            let nextRef = (if force then 0 else File_RefCount f - 1)
            in if nextRef \<le> 0
               then bind (internal_error MDropFile (DeleteFile (File_ID f))) (\<lambda>_. delete_object s md5)
               else internal_error MRefCount (UpdateFileRefCount (File_ID f) nextRef)))"

definition ListPublic :: "file_env \<Rightarrow> int \<Rightarrow> int \<Rightarrow> ('o, file_doc list) fservice" where
  "ListPublic s page sz = internal_error MListPublic (FindFilesPage s File_IsPublic page sz)"

definition ListAll :: "file_env \<Rightarrow> int \<Rightarrow> int \<Rightarrow> ('o, file_doc list) fservice" where
  "ListAll s page sz =
     bind (internal_error MListFiles (FindFilesPage s (\<lambda>_. True) page sz)) (\<lambda>fs.
     ret (map (\<lambda>f. f\<lparr>File_CreatedTime := fl_id_millis s (File_ID f)\<rparr>) fs))"

text \<open>The identifiers that parse, each once, in order.\<close>

fun parse_object_ids :: "file_env \<Rightarrow> string list \<Rightarrow> string list \<Rightarrow> string list" where
  "parse_object_ids s out [] = out"
| "parse_object_ids s out (i # is) =
     (case fl_object_id s i of
        None \<Rightarrow> parse_object_ids s out is
      | Some oid \<Rightarrow> if oid \<in> set out then parse_object_ids s out is else parse_object_ids s (out @ [oid]) is)"

definition SetPublic :: "file_env \<Rightarrow> string list \<Rightarrow> bool \<Rightarrow> ('o, int64) fservice" where
  "SetPublic s ids isPublic =
     (if ids = [] then throw (Param MFileParam)
      else
        let objectIDs = parse_object_ids s [] ids
        in if objectIDs = [] then throw (Param MFileParam)
           else
             bind (internal_error MSetPublic (UpdateFilesPublic objectIDs isPublic)) (\<lambda>modified.
             if modified \<le> 0 then throw ErrFileUpdateFailed else ret modified))"

definition GetDownloadURL :: "file_env \<Rightarrow> string \<Rightarrow> bool \<Rightarrow> ('o, string) fservice" where
  "GetDownloadURL s md5 showOrigin =
     bind (GetByMD5 md5) (\<lambda>f.
     if f = None then throw ErrFileNotFound
     else ret (if showOrigin then fileURL s md5 else compressFileURL s md5))"

section \<open>Documents\<close>

definition store_document :: "file_env \<Rightarrow> string \<Rightarrow> string \<Rightarrow> string \<Rightarrow> ('o, unit) fservice" where
  "store_document s md5 data mimeType =
     (case fl_cfg s of
        None \<Rightarrow> ret ()
      | Some cfg \<Rightarrow> bind (internal_error MPutObject (cos_Put s (Cfg_COS cfg) md5 data mimeType)) (\<lambda>_. ret ()))"

definition finish_document :: "file_env \<Rightarrow> string \<Rightarrow> string \<Rightarrow> string \<Rightarrow> string \<Rightarrow> string \<Rightarrow> ('o, unit) fservice" where
  "finish_document s md5 data mimeType userID newID =
     bind (internal_error MQueryFile (FindFileByMD5 md5)) (\<lambda>existing.
     case existing of
       Some f \<Rightarrow> internal_error MRefCount (IncrementFileRefCount (File_ID f) 1)
     | None \<Rightarrow>
         bind (store_document s md5 data mimeType) (\<lambda>_.
         internal_error MSaveFile (CreateFile (new_file newID md5 userID))))"

definition UploadAcademicDocument ::
  "file_env \<Rightarrow> upload_stream \<Rightarrow> file_header option \<Rightarrow> string \<Rightarrow> string \<Rightarrow> ('o, original_upload) fservice" where
  "UploadAcademicDocument s stream header userID newID =
     (case header of
        None \<Rightarrow> throw (Param MFileParam)
      | Some h \<Rightarrow>
          if stream = NilStream \<or> TrimSpace userID = [] then throw (Param MFileParam)
          else if Header_Size h > AcademicMaxUploadBytes then throw ErrFileLimited
          else
            let ext = fl_lower s (filepath_Ext (TrimSpace (Header_Filename h)))
            in if ext \<notin> set academicExtensions then throw ErrUnsupportedDocumentFormat
               else
                 bind (case stream of Bytes data \<Rightarrow> ret (take (nat (AcademicMaxUploadBytes + 1)) data)
                       | _ \<Rightarrow> throw (InternalWrap MReadUpload (Some (Sentinel ReadFailed)))) (\<lambda>data.
                 if int (length data) > AcademicMaxUploadBytes then throw ErrFileLimited
                 else
                   let mimeType = fl_mime s data
                   in if \<not> validAcademicDocument s data ext mimeType then throw ErrUnsupportedDocumentFormat
                      else
                        let md5 = fl_md5 s data;
                            upload = \<lparr>Upload_MD5 = md5, Upload_OriginalName = Header_Filename h, Upload_MIME = mimeType,
                                      Upload_Size = int (length data)\<rparr>
                        in bind (finish_document s md5 data mimeType userID newID) (\<lambda>_. ret upload)))"

definition ReleaseReference :: "file_env \<Rightarrow> string \<Rightarrow> ('o, unit) fservice" where
  "ReleaseReference s md5 =
     bind (GetByMD5 md5) (\<lambda>current.
     case current of
       None \<Rightarrow> throw ErrFileNotFound
     | Some f \<Rightarrow>
         if File_RefCount f > 1 then passed (UpdateFileRefCount (File_ID f) (File_RefCount f - 1))
         else bind (internal_error MDropFile (DeleteFile (File_ID f))) (\<lambda>_. delete_object s md5))"

end
