(* ===== verification/File_Inv.thy ===== *)
theory File_Inv
  imports File_Service
begin

text \<open>
  What the collection of files and the storage satisfy. Every call keeps the reference counts positive and the identifiers
  unique; as long as no image is uploaded, there is one record per content and its object is in the storage.
\<close>

section \<open>Invariants\<close>

definition file_inv :: "file_db \<Rightarrow> bool" where
  "file_inv t \<longleftrightarrow> file_ids_ok (files t) \<and> (\<forall>f \<in> set (files t). 1 \<le> File_RefCount f \<and> File_ID f \<noteq> zero_object_id)"

definition stored :: "file_env \<Rightarrow> file_db \<Rightarrow> string \<Rightarrow> bool" where
  "stored s t k \<longleftrightarrow> (case base_bucket t k of None \<Rightarrow> False | Some obj \<Rightarrow> fl_md5 s (Object_Data obj) = k)"

definition docs_inv :: "file_env \<Rightarrow> file_db \<Rightarrow> bool" where
  "docs_inv s t \<longleftrightarrow> file_inv t \<and> distinct (map File_MD5 (files t)) \<and> (\<forall>f \<in> set (files t). stored s t (File_MD5 f))"

text \<open>The number of references to a content.\<close>

definition refs :: "file_db \<Rightarrow> string \<Rightarrow> int" where
  "refs t k = sum_list (map File_RefCount (filter (\<lambda>f. File_MD5 f = k) (files t)))"

section \<open>Effects of the statements\<close>

definition set_refs :: "string \<Rightarrow> int \<Rightarrow> file_db \<Rightarrow> file_db" where
  "set_refs i n t = files_update (update_rows (\<lambda>f. File_ID f = i) (\<lambda>f. f\<lparr>File_RefCount := n\<rparr>)) t"

definition add_reference :: "string \<Rightarrow> file_db \<Rightarrow> file_db" where
  "add_reference i t = files_update (update_rows (\<lambda>f. File_ID f = i) (\<lambda>f. f\<lparr>File_RefCount := File_RefCount f + 1\<rparr>)) t"

definition drop_record :: "string \<Rightarrow> file_db \<Rightarrow> file_db" where
  "drop_record i t = files_update (filter (\<lambda>f. File_ID f \<noteq> i)) t"

lemma find_by_md5:
  "outcome (FindFileByMD5 k :: ('o, _) frepo) t r t' \<Longrightarrow> t' = t"
  "outcome (FindFileByMD5 k :: ('o, _) frepo) t (Inr (Some f)) t' \<Longrightarrow> f \<in> set (files t) \<and> File_MD5 f = k"
  "outcome (FindFileByMD5 k :: ('o, _) frepo) t (Inr None) t' \<Longrightarrow> k = [] \<or> (\<forall>f \<in> set (files t). File_MD5 f \<noteq> k)"
proof -
  have "keeps (\<lambda>u. u = t) (FindFileByMD5 k :: ('o, _) frepo)"
    unfolding FindFileByMD5_def by (intro keeps_if keeps_bind keeps_basic)
  then show "outcome (FindFileByMD5 k :: ('o, _) frepo) t r t' \<Longrightarrow> t' = t" by (auto dest: keepsD)
  show "outcome (FindFileByMD5 k :: ('o, _) frepo) t (Inr (Some f)) t' \<Longrightarrow> f \<in> set (files t) \<and> File_MD5 f = k"
    "outcome (FindFileByMD5 k :: ('o, _) frepo) t (Inr None) t' \<Longrightarrow> k = [] \<or> (\<forall>f \<in> set (files t). File_MD5 f \<noteq> k)"
    by (auto simp: FindFileByMD5_def run_simps find_None_iff eq_commute [of None] split: if_splits
        dest!: outcome_bind_Inr find_member [OF sym])
qed

lemma find_by_user:
  "outcome (FindFileByUserAndMD5 u k :: ('o, _) frepo) t r t' \<Longrightarrow> t' = t"
  "outcome (FindFileByUserAndMD5 u k :: ('o, _) frepo) t (Inr (Some f)) t' \<Longrightarrow>
     f \<in> set (files t) \<and> File_MD5 f = k \<and> File_UserID f = u"
  "outcome (FindFileByUserAndMD5 u k :: ('o, _) frepo) t (Inr None) t' \<Longrightarrow>
     u = [] \<or> k = [] \<or> (\<forall>f \<in> set (files t). \<not> (File_UserID f = u \<and> File_MD5 f = k))"
proof -
  have "keeps (\<lambda>v. v = t) (FindFileByUserAndMD5 u k :: ('o, _) frepo)"
    unfolding FindFileByUserAndMD5_def by (intro keeps_if keeps_bind keeps_basic)
  then show "outcome (FindFileByUserAndMD5 u k :: ('o, _) frepo) t r t' \<Longrightarrow> t' = t" by (auto dest: keepsD)
  show "outcome (FindFileByUserAndMD5 u k :: ('o, _) frepo) t (Inr (Some f)) t' \<Longrightarrow>
      f \<in> set (files t) \<and> File_MD5 f = k \<and> File_UserID f = u"
    "outcome (FindFileByUserAndMD5 u k :: ('o, _) frepo) t (Inr None) t' \<Longrightarrow>
      u = [] \<or> k = [] \<or> (\<forall>f \<in> set (files t). \<not> (File_UserID f = u \<and> File_MD5 f = k))"
    by (auto simp: FindFileByUserAndMD5_def run_simps find_None_iff eq_commute [of None] split: if_splits dest!: outcome_bind_Inr find_member [OF sym])
qed

lemma update_refs:
  assumes "outcome (UpdateFileRefCount i n :: ('o, _) frepo) t r t'"
  shows "t' = t \<and> (i = zero_object_id \<or> isl r) \<or> t' = set_refs i n t \<and> r = Inr ()"
  using assms
  by (cases r) (auto simp: UpdateFileRefCount_def set_refs_def run_simps split: if_splits elim!: outcome_bindE dest!: outcome_bind_Inr)

lemma add_refs:
  assumes "outcome (IncrementFileRefCount i 1 :: ('o, _) frepo) t r t'"
  shows "t' = t \<and> (i = zero_object_id \<or> isl r) \<or> t' = add_reference i t \<and> r = Inr ()"
  using assms
  by (cases r) (auto simp: IncrementFileRefCount_def add_reference_def run_simps split: if_splits elim!: outcome_bindE dest!: outcome_bind_Inr)

lemma drop_file:
  assumes "outcome (DeleteFile i :: ('o, _) frepo) t r t'"
  shows "t' = t \<and> (i = zero_object_id \<or> isl r) \<or> t' = drop_record i t \<and> r = Inr ()"
  using assms
  by (cases r) (auto simp: DeleteFile_def drop_record_def run_simps split: if_splits elim!: outcome_bindE dest!: outcome_bind_Inr)

text \<open>Requests to the storage touch one key of the buckets.\<close>

definition around :: "string \<Rightarrow> file_db \<Rightarrow> file_db \<Rightarrow> bool" where
  "around k t u \<longleftrightarrow> files u = files t \<and> (\<forall>j. j \<noteq> k \<longrightarrow> base_bucket u j = base_bucket t j)"

lemma around_refl [simp]: "around k t t"
  by (simp add: around_def)

lemma storage_around:
  "keeps (around k t) (delete_object s k :: ('o, _) fservice)" "keeps (around k t) (cos_Put s cfg k d c :: ('o, _) frepo)"
  "keeps (around k t) (PutWithImageProcess s cfg k d c p :: ('o, _) frepo)"
proof -
  have step: "keeps (around k t) (put_base k obj :: ('o, _) frepo)" "keeps (around k t) (put_compress j obj :: ('o, _) frepo)"
    "keeps (around k t) (drop_base k :: ('o, _) frepo)" "keeps (around k t) (drop_compress j :: ('o, _) frepo)" for j obj
    unfolding put_base_def put_compress_def drop_base_def drop_compress_def
    by (rule keeps_stmt, auto simp: around_def)+
  show put: "keeps (around k t) (cos_Put s cfg k d c :: ('o, _) frepo)"
    unfolding cos_Put_def Let_def by (intro keeps_if keeps_bind keeps_basic step)
  show "keeps (around k t) (PutWithImageProcess s cfg k d c p :: ('o, _) frepo)"
    unfolding PutWithImageProcess_def Let_def
    by (intro keeps_if keeps_bind keeps_basic keeps_attempt step put) (auto split: sum.split)
  show "keeps (around k t) (delete_object s k :: ('o, _) fservice)"
    unfolding delete_object_def cos_Delete_def
    by (auto intro!: keeps_if keeps_bind keeps_attempt step split: option.split)
qed

lemma put_stored:
  assumes "outcome (cos_Put s cfg (fl_md5 s d) d c :: ('o, _) frepo) t (Inr u) t'"
  shows "stored s t' (fl_md5 s d)"
  using assms by (auto simp: cos_Put_def put_base_def stored_def run_simps Let_def split: if_splits dest!: outcome_bind_Inr)

lemma removal:
  assumes "outcome (bind (internal_error MDropFile (DeleteFile i)) (\<lambda>_. delete_object s k) :: ('o, _) fservice) t r t'"
    and "i \<noteq> zero_object_id"
  shows "t' = t \<and> isl r \<or> around k (drop_record i t) t'"
  using assms(1)
proof (rule outcome_bindE)
  fix e assume "outcome (internal_error MDropFile (DeleteFile i) :: ('o, _) fservice) t (Inl e) t'" "r = Inl e"
  then show ?thesis using assms(2) drop_file [of i t _ t'] by (auto simp: internal_error_def elim!: outcome_map_errorE)
next
  fix x t1 assume del: "outcome (internal_error MDropFile (DeleteFile i) :: ('o, _) fservice) t (Inr x) t1"
    and rest: "outcome (delete_object s k :: ('o, _) fservice) t1 r t'"
  have "t1 = drop_record i t"
    using del assms(2) drop_file [of i t "Inr x" t1] by (auto simp: internal_error_def run_simps)
  with keepsD [OF storage_around(1) rest] show ?thesis by simp
qed

section \<open>Effects of the calls\<close>

text \<open>What storing a content \<open>k\<close> can do: nothing, leave an object behind, one more reference, or a new record.\<close>

inductive stores :: "file_env \<Rightarrow> string \<Rightarrow> string \<Rightarrow> (file_doc \<Rightarrow> bool) \<Rightarrow> file_db \<Rightarrow> bool \<Rightarrow> file_db \<Rightarrow> bool" for s k n P t where
  stores_left: "around k t t' \<Longrightarrow> t' = t \<or> (\<forall>f \<in> set (files t). \<not> P f) \<Longrightarrow> stores s k n P t False t'"
| stores_more: "f \<in> set (files t) \<Longrightarrow> P f \<Longrightarrow> File_ID f = zero_object_id \<and> t' = t \<or> t' = add_reference (File_ID f) t \<Longrightarrow> stores s k n P t True t'"
| stores_new: "\<forall>f \<in> set (files t). \<not> P f \<Longrightarrow> around k t t1 \<Longrightarrow> file_ids_ok (files t @ [new_file n k u]) \<Longrightarrow>
    t' = files_update (\<lambda>fs. fs @ [new_file n k u]) t1 \<Longrightarrow> fl_cfg s \<noteq> None \<longrightarrow> stored s t1 k \<Longrightarrow> stores s k n P t True t'"

lemma create_outcome:
  "outcome (internal_error msg (CreateFile f) :: ('o, _) fservice) t (Inr u) t' \<Longrightarrow>
     t' = files_update (\<lambda>fs. fs @ [f]) t \<and> file_ids_ok (files t @ [f])"
  "outcome (internal_error msg (CreateFile f) :: ('o, _) fservice) t (Inl e) t' \<Longrightarrow> t' = t"
  by (auto simp: CreateFile_def internal_error_def run_simps elim!: outcome_bindE outcome_map_errorE)

lemma wrapped_any:
  "outcome (internal_error msg m) t r t' \<Longrightarrow> \<exists>r'. isl r' = isl r \<and> outcome m t r' t'"
  "outcome (passed m) t r t' \<Longrightarrow> \<exists>r'. isl r' = isl r \<and> outcome m t r' t'"
  unfolding internal_error_def passed_def by (erule outcome_map_errorE, force+)+

text \<open>Images and documents are stored the same way: look for a record, count it once more, or put the object and create one.\<close>

lemma stores_shape:
  fixes look :: "('o, file_doc option) fservice" and put :: "('o, unit) fservice"
  assumes run: "outcome (bind look (\<lambda>found. (case found of
        Some f \<Rightarrow> internal_error MRefCount (IncrementFileRefCount (File_ID f) 1)
      | None \<Rightarrow> bind put (\<lambda>_. internal_error MSaveFile (CreateFile (new_file n k u)))))) t r t'"
    and same: "\<And>x t1. outcome look t x t1 \<Longrightarrow> t1 = t"
    and found: "\<And>f t1. outcome look t (Inr (Some f)) t1 \<Longrightarrow> f \<in> set (files t) \<and> P f"
    and missing: "\<And>t1. outcome look t (Inr None) t1 \<Longrightarrow> \<forall>f \<in> set (files t). \<not> P f"
    and keep: "keeps (around k t) put" and after: "\<And>x t2. outcome put t (Inr x) t2 \<Longrightarrow> fl_cfg s \<noteq> None \<longrightarrow> stored s t2 k"
  shows "stores s k n P t (\<not> isl r) t'"
  using run
proof (rule outcome_bindE)
  fix e assume "outcome look t (Inl e) t'" "r = Inl e"
  with same [OF this(1)] show ?thesis by (auto intro: stores_left)
next
  fix x t1
  assume look: "outcome look t (Inr x) t1" and "outcome (case x of
        Some f \<Rightarrow> internal_error MRefCount (IncrementFileRefCount (File_ID f) 1)
      | None \<Rightarrow> bind put (\<lambda>_. internal_error MSaveFile (CreateFile (new_file n k u)))) t1 r t'"
  with same have rest: "outcome (case x of
        Some f \<Rightarrow> internal_error MRefCount (IncrementFileRefCount (File_ID f) 1)
      | None \<Rightarrow> bind put (\<lambda>_. internal_error MSaveFile (CreateFile (new_file n k u)))) t r t'" by blast
  show ?thesis
  proof (cases x)
    case (Some f)
    with look found have f: "f \<in> set (files t)" "P f" by blast+
    from rest Some obtain r' where "isl r' = isl r" "outcome (IncrementFileRefCount (File_ID f) 1 :: ('o, unit) frepo) t r' t'"
      using wrapped_any(1) [of MRefCount "IncrementFileRefCount (File_ID f) 1 :: ('o, unit) frepo" t r t'] by auto
    with add_refs [OF this(2)] f show ?thesis by (cases r) (auto intro: stores_left stores_more)
  next
    case None
    with look missing have none: "\<forall>f \<in> set (files t). \<not> P f" by blast
    from rest None have "outcome (bind put (\<lambda>_. internal_error MSaveFile (CreateFile (new_file n k u)))) t r t'" by simp
    then show ?thesis
    proof (rule outcome_bindE)
      fix e assume "outcome put t (Inl e) t'" "r = Inl e"
      with keepsD [OF keep this(1)] none show ?thesis by (auto intro: stores_left)
    next
      fix x t2 assume put: "outcome put t (Inr x) t2"
        and new: "outcome (internal_error MSaveFile (CreateFile (new_file n k u)) :: ('o, unit) fservice) t2 r t'"
      have t2: "around k t t2" using keepsD [OF keep put] by simp
      show ?thesis
      proof (cases r)
        case (Inl e)
        with new create_outcome(2) have "t' = t2" by blast
        with Inl t2 none show ?thesis by (auto intro: stores_left)
      next
        case (Inr v)
        with new create_outcome(1) have "t' = files_update (\<lambda>fs. fs @ [new_file n k u]) t2" "file_ids_ok (files t2 @ [new_file n k u])"
          by blast+
        with Inr t2 none after [OF put] show ?thesis by (auto simp: around_def intro: stores_new)
      qed
    qed
  qed
qed

lemma wrapped_outcome: "outcome (internal_error msg m) t (Inr x) t' = outcome m t (Inr x) t'"
  by (simp add: internal_error_def run_simps)

lemma wrapped_same: "outcome (internal_error msg m) t r t' \<Longrightarrow> (\<And>r. outcome m t r t' \<Longrightarrow> t' = t) \<Longrightarrow> t' = t"
  by (auto simp: internal_error_def elim!: outcome_map_errorE)

lemma bind_then_keeps:
  "outcome (bind m f) t (Inr y) t' \<Longrightarrow> (\<And>x t1. outcome m t (Inr x) t1 \<Longrightarrow> I t1) \<Longrightarrow> (\<And>x. keeps I (f x)) \<Longrightarrow> I t'"
  by (blast dest: outcome_bind_Inr keepsD)

lemma put_effects:
  "keeps (around k t) (store_document s k d c :: ('o, _) fservice)" "keeps (around k t) (store_image s k d c :: ('o, _) fservice)"
  "outcome (store_document s (fl_md5 s d) d c :: ('o, _) fservice) t (Inr x) t' \<Longrightarrow> fl_cfg s \<noteq> None \<longrightarrow> stored s t' (fl_md5 s d)"
  "outcome (store_image s (fl_md5 s d) d c :: ('o, _) fservice) t (Inr x) t' \<Longrightarrow> fl_cfg s \<noteq> None \<longrightarrow> stored s t' (fl_md5 s d)"
proof -
  show "keeps (around k t) (store_document s k d c :: ('o, _) fservice)" "keeps (around k t) (store_image s k d c :: ('o, _) fservice)"
    unfolding store_document_def store_image_def
    by (auto intro!: keeps_bind keeps_wrapped storage_around split: option.split)
  show "outcome (store_document s (fl_md5 s d) d c :: ('o, _) fservice) t (Inr x) t' \<Longrightarrow> fl_cfg s \<noteq> None \<longrightarrow> stored s t' (fl_md5 s d)"
    unfolding store_document_def
    by (auto simp: wrapped_outcome run_simps split: option.splits dest!: outcome_bind_Inr put_stored)
  have keep: "keeps (\<lambda>u. stored s u (fl_md5 s d)) (put_compress j obj :: ('o, _) frepo)" for j obj
    unfolding put_compress_def by (rule keeps_stmt) (auto simp: stored_def)
  have "stored s t' (fl_md5 s d)"
    if run: "outcome (PutWithImageProcess s cfg (fl_md5 s d) d c p :: ('o, _) frepo) t (Inr y) t'" for cfg p y
    using run unfolding PutWithImageProcess_def
    by (rule bind_then_keeps) (auto simp: Let_def intro: put_stored intro!: keeps_bind keeps_attempt keep split: sum.split)
  then show "outcome (store_image s (fl_md5 s d) d c :: ('o, _) fservice) t (Inr x) t' \<Longrightarrow> fl_cfg s \<noteq> None \<longrightarrow> stored s t' (fl_md5 s d)"
    unfolding store_image_def
    by (auto simp: wrapped_outcome run_simps split: option.splits dest!: outcome_bind_Inr)
qed

lemma document_stores:
  assumes "outcome (finish_document s (fl_md5 s d) d c u n :: ('o, _) fservice) t r t'" and "fl_md5 s d \<noteq> []"
  shows "stores s (fl_md5 s d) n (\<lambda>f. File_MD5 f = fl_md5 s d) t (\<not> isl r) t'"
  using assms(1) unfolding finish_document_def
proof (rule stores_shape [OF _ _ _ _ put_effects(1,3)])
  fix x t1 assume "outcome (internal_error MQueryFile (FindFileByMD5 (fl_md5 s d)) :: ('o, _) fservice) t x t1"
  then show "t1 = t" by (rule wrapped_same) (rule find_by_md5(1))
qed (use assms(2) in \<open>auto simp: wrapped_outcome dest: find_by_md5(2,3)\<close>)

lemma image_stores:
  assumes "outcome (finish_image s (fl_md5 s d) d c u n :: ('o, _) fservice) t r t'" and "fl_md5 s d \<noteq> []" and "u \<noteq> []"
  shows "stores s (fl_md5 s d) n (\<lambda>f. File_UserID f = u \<and> File_MD5 f = fl_md5 s d) t (\<not> isl r) t'"
  using assms(1) unfolding finish_image_def
proof (rule stores_shape [OF _ _ _ _ put_effects(2,4)])
  fix x t1 assume "outcome (internal_error MQueryFile (FindFileByUserAndMD5 u (fl_md5 s d)) :: ('o, _) fservice) t x t1"
  then show "t1 = t" by (rule wrapped_same) (rule find_by_user(1))
qed (use assms(2,3) in \<open>auto simp: wrapped_outcome dest: find_by_user(2,3)\<close>)

text \<open>Taking a reference back: nothing, one reference less, or the record and then its object are gone.\<close>

inductive releases :: "bool \<Rightarrow> string \<Rightarrow> (file_doc \<Rightarrow> bool) \<Rightarrow> file_db \<Rightarrow> bool \<Rightarrow> file_db \<Rightarrow> bool" for force k P t where
  releases_not: "releases force k P t False t"
| releases_less: "f \<in> set (files t) \<Longrightarrow> P f \<Longrightarrow> File_RefCount f > 1 \<Longrightarrow>
    releases force k P t True (set_refs (File_ID f) (File_RefCount f - 1) t)"
| releases_last: "f \<in> set (files t) \<Longrightarrow> P f \<Longrightarrow> force \<or> File_RefCount f \<le> 1 \<Longrightarrow> around k (drop_record (File_ID f) t) t' \<Longrightarrow>
    releases force k P t True t'"

lemma delete_object_Inr: "outcome (delete_object s k :: ('o, _) fservice) t r t' \<Longrightarrow> r = Inr ()"
  by (auto simp: delete_object_def run_simps split: option.splits elim!: outcome_bindE)

lemma removal_releases:
  assumes "outcome (bind (internal_error MDropFile (DeleteFile (File_ID f))) (\<lambda>_. delete_object s k) :: ('o, _) fservice) t r t'"
    and "file_inv t" and "f \<in> set (files t)" and "P f" and "force \<or> File_RefCount f \<le> 1"
  shows "releases force k P t (\<not> isl r) t'"
proof -
  have id: "File_ID f \<noteq> zero_object_id" using assms(2,3) by (auto simp: file_inv_def)
  from assms(1) show ?thesis
  proof (rule outcome_bindE)
    fix e assume "outcome (internal_error MDropFile (DeleteFile (File_ID f)) :: ('o, _) fservice) t (Inl e) t'" "r = Inl e"
    with drop_file [of "File_ID f" t _ t'] have "t' = t" by (auto simp: internal_error_def elim!: outcome_map_errorE)
    with \<open>r = Inl e\<close> show ?thesis by (auto intro: releases_not)
  next
    fix x t1 assume del: "outcome (internal_error MDropFile (DeleteFile (File_ID f)) :: ('o, _) fservice) t (Inr x) t1"
      and rest: "outcome (delete_object s k :: ('o, _) fservice) t1 r t'"
    have "t1 = drop_record (File_ID f) t" using del id drop_file [of "File_ID f" t "Inr x" t1] by (auto simp: wrapped_outcome)
    with keepsD [OF storage_around(1) rest] delete_object_Inr [OF rest] assms(3-5) show ?thesis by (auto intro: releases_last)
  qed
qed

lemma countdown_releases:
  assumes "outcome (UpdateFileRefCount (File_ID f) (File_RefCount f - 1) :: ('o, _) frepo) t r t'"
    and "file_inv t" and "f \<in> set (files t)" and "P f" and "File_RefCount f > 1"
  shows "releases force k P t (\<not> isl r) t'"
  using update_refs [OF assms(1)] assms(2-) releases_not [of force k P t] releases_less [of f t P force k]
  by (auto simp: file_inv_def)

section \<open>What the effects keep\<close>

lemma around_inv: "around k t t' \<Longrightarrow> file_inv t \<Longrightarrow> file_inv t'"
  by (simp add: around_def file_inv_def)

lemma rewrite_inv:
  assumes "file_inv t" and "\<And>f. File_ID (g f) = File_ID f" and "\<And>f. 1 \<le> File_RefCount f \<Longrightarrow> 1 \<le> File_RefCount (g f)"
  shows "file_inv (files_update (update_rows Q g) t)"
  using assms by (auto simp: file_inv_def file_ids_ok_def map_key_update_rows) (auto simp: update_rows_def)

lemma drop_inv: "file_inv t \<Longrightarrow> file_inv (drop_record i t)"
  by (auto simp: file_inv_def file_ids_ok_def drop_record_def distinct_map_filter)

lemma stores_inv: "stores s k n P t b t' \<Longrightarrow> file_inv t \<Longrightarrow> n \<noteq> zero_object_id \<Longrightarrow> file_inv t'"
proof (induction rule: stores.induct)
  case (stores_more f t')
  then show ?case by (auto simp: add_reference_def intro!: rewrite_inv)
next
  case (stores_new t1 u t')
  then show ?case by (auto simp: around_def file_inv_def new_file_def)
qed (auto intro: around_inv)

lemma releases_inv: "releases force k P t b t' \<Longrightarrow> file_inv t \<Longrightarrow> file_inv t'"
  by (induction rule: releases.induct) (auto simp: set_refs_def intro: around_inv drop_inv intro!: rewrite_inv)

text \<open>References.\<close>

lemma refs_rewrite:
  assumes "distinct (map File_ID fs)" and "f \<in> set fs" and "\<And>x. File_MD5 (g x) = File_MD5 x"
  shows "sum_list (map File_RefCount (filter (\<lambda>x. File_MD5 x = j) (update_rows (\<lambda>x. File_ID x = File_ID f) g fs))) =
    sum_list (map File_RefCount (filter (\<lambda>x. File_MD5 x = j) fs)) +
    (if File_MD5 f = j then File_RefCount (g f) - File_RefCount f else 0)"
  using assms(1,2)
proof (induction fs)
  case (Cons a fs)
  show ?case
  proof (cases "a = f")
    case True
    with Cons.prems(1) have "\<forall>x \<in> set fs. File_ID x \<noteq> File_ID f" by (auto simp: image_iff)
    then have "update_rows (\<lambda>x. File_ID x = File_ID f) g fs = fs" by (auto simp: update_rows_def intro: map_idI)
    with True assms(3) show ?thesis by (simp add: update_rows_def)
  next
    case False
    with Cons.prems have "f \<in> set fs" "File_ID a \<noteq> File_ID f" by auto
    with Cons show ?thesis by (simp add: update_rows_def)
  qed
qed simp

lemma refs_drop:
  assumes "distinct (map File_ID fs)" and "f \<in> set fs"
  shows "sum_list (map File_RefCount (filter (\<lambda>x. File_MD5 x = j) (filter (\<lambda>x. File_ID x \<noteq> File_ID f) fs))) =
    sum_list (map File_RefCount (filter (\<lambda>x. File_MD5 x = j) fs)) - (if File_MD5 f = j then File_RefCount f else 0)"
  using assms
proof (induction fs)
  case (Cons a fs)
  show ?case
  proof (cases "a = f")
    case True
    with Cons.prems(1) have "filter (\<lambda>x. File_ID x \<noteq> File_ID f) fs = fs" by (auto simp: filter_id_conv image_iff)
    with True show ?thesis by simp
  next
    case False
    with Cons.prems have "f \<in> set fs" "File_ID a \<noteq> File_ID f" by auto
    with Cons show ?thesis by simp
  qed
qed simp

lemma stores_refs:
  assumes "stores s k n P t b t'" and "file_inv t" and "\<And>f. P f \<Longrightarrow> File_MD5 f = k"
  shows "refs t' j = refs t j + (if b \<and> j = k then 1 else 0)"
  using assms(1)
proof cases
  case stores_left
  then show ?thesis by (simp add: refs_def around_def)
next
  case (stores_more f)
  with assms(2) have "t' = add_reference (File_ID f) t" "distinct (map File_ID (files t))" by (auto simp: file_inv_def file_ids_ok_def)
  with stores_more assms(3) [of f] refs_rewrite [of "files t" f "\<lambda>f. f\<lparr>File_RefCount := File_RefCount f + 1\<rparr>" j]
  show ?thesis by (auto simp: refs_def add_reference_def)
next
  case (stores_new t1 u)
  then show ?thesis by (auto simp: refs_def around_def new_file_def)
qed

lemma releases_refs:
  assumes "releases False k P t b t'" and "file_inv t" and "\<And>f. P f \<Longrightarrow> File_MD5 f = k"
  shows "refs t' j = refs t j - (if b \<and> j = k then 1 else 0)"
  using assms(1)
proof cases
  case (releases_less f)
  with assms(2,3) refs_rewrite [of "files t" f "\<lambda>x. x\<lparr>File_RefCount := File_RefCount f - 1\<rparr>" j]
  show ?thesis by (auto simp: refs_def set_refs_def file_inv_def file_ids_ok_def)
next
  case (releases_last f)
  with assms(2,3) refs_drop [of "files t" f j] show ?thesis
    by (auto simp: refs_def around_def drop_record_def file_inv_def file_ids_ok_def)
qed simp

text \<open>Objects.\<close>

lemma stored_files [simp]: "stored s (files_update g t) k = stored s t k"
  by (simp add: stored_def)

lemma new_file_sel [simp]: "File_MD5 (new_file n k u) = k" "File_ID (new_file n k u) = n" "File_RefCount (new_file n k u) = 1"
  by (simp_all add: new_file_def)

lemma stored_around: "around k t t' \<Longrightarrow> j \<noteq> k \<Longrightarrow> stored s t' j = stored s t j"
  by (simp add: around_def stored_def)

lemma docs_same:
  assumes "base_bucket t' = base_bucket t" and "map File_MD5 (files t') = map File_MD5 (files t)" and "file_inv t'" and "docs_inv s t"
  shows "docs_inv s t'"
proof -
  have "stored s t' k = stored s t k" for k using assms(1) by (simp add: stored_def)
  moreover have "(\<forall>f \<in> set fs. stored s t (File_MD5 f)) = (\<forall>k \<in> set (map File_MD5 fs). stored s t k)" for fs by simp
  ultimately show ?thesis using assms(2-4) unfolding docs_inv_def by metis
qed

lemma stores_docs:
  assumes "stores s k n (\<lambda>f. File_MD5 f = k) t b t'" and "docs_inv s t" and "n \<noteq> zero_object_id" and "fl_cfg s \<noteq> None"
  shows "docs_inv s t'"
proof -
  have inv: "file_inv t'" using stores_inv [OF assms(1) _ assms(3)] assms(2) by (simp add: docs_inv_def)
  from assms(1) show ?thesis
  proof cases
    case stores_left
    with inv assms(2) stored_around [of k t t' _ s] show ?thesis by (auto simp: docs_inv_def around_def)
  next
    case (stores_more f)
    then have "base_bucket t' = base_bucket t" "map File_MD5 (files t') = map File_MD5 (files t)"
      by (auto simp: add_reference_def map_key_update_rows)
    then show ?thesis by (rule docs_same [OF _ _ inv assms(2)])
  next
    case (stores_new t1 u)
    then have "\<forall>f \<in> set (files t). stored s t1 (File_MD5 f)"
      using assms(2) stored_around [of k t t1 _ s] by (auto simp: docs_inv_def)
    with stores_new inv assms(2,4) show ?thesis by (auto simp: docs_inv_def around_def)
  qed
qed

lemma releases_docs:
  assumes "releases force k P t b t'" and "docs_inv s t" and "\<And>f. P f \<Longrightarrow> File_MD5 f = k"
  shows "docs_inv s t'"
proof -
  have inv: "file_inv t'" using releases_inv [OF assms(1)] assms(2) by (simp add: docs_inv_def)
  from assms(1) show ?thesis
  proof cases
    case (releases_less f)
    then have "base_bucket t' = base_bucket t" "map File_MD5 (files t') = map File_MD5 (files t)"
      by (auto simp: set_refs_def map_key_update_rows)
    then show ?thesis by (rule docs_same [OF _ _ inv assms(2)])
  next
    case (releases_last f)
    have "File_MD5 x \<noteq> k" if "x \<in> set (files t')" for x
    proof -
      have x: "x \<in> set (files t)" "File_ID x \<noteq> File_ID f" using that releases_last(5) by (auto simp: around_def drop_record_def)
      have "inj_on File_MD5 (set (files t))" using assms(2) by (simp add: docs_inv_def distinct_map)
      with x releases_last(2,3) assms(3) show ?thesis by (auto dest: inj_onD)
    qed
    with releases_last inv assms(2) stored_around [of k "drop_record (File_ID f) t" t' _ s] show ?thesis
      by (auto simp: docs_inv_def around_def drop_record_def distinct_map_filter stored_def)
  qed (use assms(2) in simp)
qed

end
