(* ===== verification/File_Props.thy ===== *)
theory File_Props
  imports File_Inv
begin

text \<open>The calls of the file service as a transition system, its properties, and concrete runs.\<close>

section \<open>Calls\<close>












section \<open>The system\<close>












section \<open>Runs\<close>

definition fx_env :: file_env where
  "fx_env = \<lparr>fl_cfg = Some \<lparr>Cfg_COS = \<lparr>COS_BaseCDN = [], COS_CompressBaseCDN = [], COS_Compress = []\<rparr>, Cfg_MaxFileSizeMB = 1\<rparr>,
     fl_has_base = True, fl_has_compress = False, fl_md5 = (\<lambda>d. CHR ''h'' # d), fl_mime = (\<lambda>_. ''application/pdf''),
     fl_detect = (\<lambda>_. []), fl_zip_names = (\<lambda>_. None), fl_lower = id, fl_newest = rev,
     fl_object_id = Some, fl_id_millis = (\<lambda>_. 0)\<rparr>"

definition fx_id :: "char \<Rightarrow> string" where "fx_id c = replicate 24 c"

definition fx_header :: file_header where
  "fx_header = \<lparr>Header_Filename = ''a.pdf'', Header_Size = 1, Header_ContentType = ''image/png''\<rparr>"

definition fx_world :: "file_db \<Rightarrow> (file_db, unit) world" where
  "fx_world t = \<lparr>tables = t, connected = True, faults = [], outbox = []\<rparr>"

definition fx_empty :: file_db where
  "fx_empty = \<lparr>files = [], base_bucket = Map.empty, compress_bucket = Map.empty\<rparr>"



lemma fx_calm [simp]: "calm (fx_world t)" "tables (fx_world t) = t" "(fx_world t)\<lparr>tables := u\<rparr> = fx_world u"
  by (simp_all add: fx_world_def calm_def)


lemma fx_ids: "fx_id CHR ''1'' \<noteq> zero_object_id" "fx_id CHR ''2'' \<noteq> zero_object_id" "fx_id CHR ''1'' \<noteq> fx_id CHR ''2''"
  by code_simp+

lemma fx_trims: "TrimSpace ''a.pdf'' = ''a.pdf''" "TrimSpace ''7'' = ''7''" "TrimSpace ''8'' = ''8''" "TrimSpace ''hx'' = ''hx''"
  "TrimSpace ''image/png'' = ''image/png''" "TrimSpace [] = []" "filepath_Ext ''a.pdf'' = ''.pdf''"
  by code_simp+

lemmas fx_eval = calm_simps Let_def internal_error_def result_def fx_trims fx_ids
  finish_document_def finish_image_def store_document_def store_image_def cos_Put_def PutWithImageProcess_def put_base_def
  FindFileByMD5_def FindFileByUserAndMD5_def CreateFile_def IncrementFileRefCount_def file_ids_ok_def new_file_def
  GetByMD5_def DeleteFile_def delete_object_def cos_Delete_def drop_base_def





section \<open>Properties\<close>





section \<open>Two observations\<close>

text \<open>
  Images are counted per user but stored per content: when one of two users who uploaded the same image deletes it, the object
  is gone while the other record, and its download address, stay.
\<close>

lemma shared_image_lost:
  "\<exists>t. bind (Upload fx_env (Bytes ''x'') (Some fx_header) ''7'' (fx_id CHR ''1'')) (\<lambda>_.
         bind (Upload fx_env (Bytes ''x'') (Some fx_header) ''8'' (fx_id CHR ''2'')) (\<lambda>_.
         bind (file_Delete fx_env ''hx'' ''8'' False) (\<lambda>_. GetDownloadURL fx_env ''hx'' True))) (fx_world fx_empty)
       = (Inr (fileURL fx_env ''hx''), fx_world t) \<and> base_bucket t ''hx'' = None \<and> map File_UserID (files t) = [''7'']"
proof -
  have "maxUploadBytes fx_env = 1048576" by (simp add: maxUploadBytes_def fx_env_def wrap64_def Let_def)
  then show ?thesis
    by (simp add: Upload_def file_Delete_def GetDownloadURL_def normalizeContentType_def fx_env_def fx_header_def fx_empty_def fx_eval)
      (rule exI, rule conjI, rule refl, simp)
qed

text \<open>Releasing twice what was uploaded by two users drops the object for both.\<close>

lemma released_twice:
  assumes "calm w" and "files (tables w) = [f]" and "File_MD5 f = k" and "File_RefCount f = 2" and "File_ID f \<noteq> zero_object_id"
    and "k \<noteq> []" and "TrimSpace k \<noteq> []" and "fl_cfg s = Some cfg" and "fl_has_base s"
  shows "\<exists>w'. bind (ReleaseReference s k) (\<lambda>_. ReleaseReference s k) w = (Inr (), w') \<and> files (tables w') = [] \<and>
    base_bucket (tables w') k = None"
  using assms
  by (simp add: ReleaseReference_def UpdateFileRefCount_def passed_def update_rows_def drop_compress_def fx_eval)

end
