(* ===== verification/Academic_Model.thy ===== *)
theory Academic_Model
  imports Bizerr Pagination
begin

text \<open>
  Course reviews and materials (\<open>internal/academic\<close>): tables, requests, responses and validation.

  The tables and their unique keys are those of \<open>db/migrations/000003_create_academic.up.sql\<close>; their columns compare
  strings by a collation, here the keys a parameter assigns to them. Averages are in ten-thousandths, the scale of
  MySQL's \<open>AVG\<close> on integers.
\<close>

section \<open>Tables\<close>

datatype academic_status = StatusNormal | StatusHidden | StatusDeleted | StatusMerged

record course =
  Course_ID :: int64
  Course_School :: string
  Course_Name :: string
  Course_NormalizedName :: string
  Course_Teacher :: string
  Course_NormalizedTeacher :: string
  Course_Description :: string
  Course_Status :: academic_status
  Course_MergeTargetID :: "int64 option"
  Course_CreatedByRootUserID :: int64
  Course_CreatedAt :: instant
  Course_UpdatedAt :: instant

record review =
  Review_ID :: int64
  Review_CourseID :: int64
  Review_RootUserID :: int64
  Review_Semester :: string
  Review_Content :: string
  Review_OverallRating :: int
  Review_DifficultyRating :: int
  Review_WorkloadRating :: int
  Review_GainRating :: int
  Review_Status :: academic_status
  Review_CreatedAt :: instant
  Review_UpdatedAt :: instant

record material =
  Material_ID :: int64
  Material_CourseID :: int64
  Material_RootUserID :: int64
  Material_Semester :: string
  Material_Title :: string
  Material_Description :: string
  Material_OriginalName :: string
  Material_MIMEType :: string
  Material_SizeBytes :: int64
  Material_FileMD5 :: string
  Material_Status :: academic_status
  Material_CreatedAt :: instant
  Material_UpdatedAt :: instant

record rating_stats =
  Stats_Count :: int64
  Stats_Overall :: int
  Stats_Difficulty :: int
  Stats_Workload :: int
  Stats_Gain :: int

record academic_db =
  courses :: "course list"
  reviews :: "review list"
  materials :: "material list"

definition course_identity :: "(string \<Rightarrow> string) \<Rightarrow> course \<Rightarrow> string \<times> string \<times> string" where
  "course_identity coll c = (coll (Course_School c), coll (Course_NormalizedName c), coll (Course_NormalizedTeacher c))"

definition courses_ok :: "(string \<Rightarrow> string) \<Rightarrow> course list \<Rightarrow> bool" where
  "courses_ok coll cs \<longleftrightarrow> distinct (map Course_ID cs) \<and> distinct (map (course_identity coll) cs)"

definition review_owner :: "review \<Rightarrow> int64 \<times> int64" where
  "review_owner r = (Review_CourseID r, Review_RootUserID r)"

definition reviews_ok :: "review list \<Rightarrow> bool" where
  "reviews_ok rs \<longleftrightarrow> distinct (map Review_ID rs) \<and> distinct (map review_owner rs)"

definition materials_ok :: "material list \<Rightarrow> bool" where
  "materials_ok ms \<longleftrightarrow> distinct (map Material_ID ms)"

section \<open>Errors\<close>

datatype academic_msg =
    MCourseMissing | MCourseExists | MReviewMissing | MMaterialMissing | MNoProfiles | MNoSchool | MNoName | MQueryCourse
  | MCreateCourse | MSearchCourses | MQueryStats | MListReviews | MBadRatings | MNoSemester | MSaveReview | MDeleteReview
  | MNoFiles | MNoTitle | MSaveMaterial | MSameCourse | MMergeCourses | MBadID | MFilter

datatype academic_sentinel = NilFileStore | FilterFailed string

type_synonym arepo_error = "academic_sentinel goerror"
type_synonym academic_error = "(academic_msg, arepo_error) svc_error"

definition ErrCourseNotFound :: academic_error where "ErrCourseNotFound = NotFound MCourseMissing"
definition ErrCourseDuplicated :: academic_error where "ErrCourseDuplicated = Biz MCourseExists"
definition ErrReviewNotFound :: academic_error where "ErrReviewNotFound = NotFound MReviewMissing"
definition ErrMaterialNotFound :: academic_error where "ErrMaterialNotFound = NotFound MMaterialMissing"

section \<open>Requests and responses\<close>

record create_course_req =
  CourseReq_Name :: string
  CourseReq_Teacher :: string
  CourseReq_Description :: string

record review_req =
  ReviewReq_Semester :: string
  ReviewReq_Content :: string
  ReviewReq_OverallRating :: int
  ReviewReq_DifficultyRating :: int
  ReviewReq_WorkloadRating :: int
  ReviewReq_GainRating :: int

record course_response =
  CourseResponse_ID :: string
  CourseResponse_School :: string
  CourseResponse_Name :: string
  CourseResponse_Teacher :: string
  CourseResponse_Description :: string
  CourseResponse_Status :: academic_status
  CourseResponse_Stats :: rating_stats
  CourseResponse_CreatedAt :: string
  CourseResponse_UpdatedAt :: string

record review_response =
  ReviewResponse_ID :: string
  ReviewResponse_CourseID :: string
  ReviewResponse_Semester :: string
  ReviewResponse_Content :: string
  ReviewResponse_OverallRating :: int
  ReviewResponse_DifficultyRating :: int
  ReviewResponse_WorkloadRating :: int
  ReviewResponse_GainRating :: int
  ReviewResponse_UpdatedAt :: string

record material_response =
  MaterialResponse_ID :: string
  MaterialResponse_CourseID :: string
  MaterialResponse_Semester :: string
  MaterialResponse_Title :: string
  MaterialResponse_Description :: string
  MaterialResponse_OriginalName :: string
  MaterialResponse_MIMEType :: string
  MaterialResponse_SizeBytes :: int64
  MaterialResponse_MD5 :: string
  MaterialResponse_Status :: academic_status
  MaterialResponse_CreatedAt :: string

definition academic_time :: "(instant \<Rightarrow> string) \<Rightarrow> instant \<Rightarrow> string" where
  "academic_time show_rfc3339 v = (if v = zero_time then [] else show_rfc3339 v)"

definition courseResponse :: "(instant \<Rightarrow> string) \<Rightarrow> course \<Rightarrow> rating_stats \<Rightarrow> course_response" where
  "courseResponse sh c stats =
     \<lparr>CourseResponse_ID = FormatInt (Course_ID c), CourseResponse_School = Course_School c,
      CourseResponse_Name = Course_Name c, CourseResponse_Teacher = Course_Teacher c,
      CourseResponse_Description = Course_Description c, CourseResponse_Status = Course_Status c,
      CourseResponse_Stats = stats, CourseResponse_CreatedAt = academic_time sh (Course_CreatedAt c),
      CourseResponse_UpdatedAt = academic_time sh (Course_UpdatedAt c)\<rparr>"

definition reviewResponse :: "(instant \<Rightarrow> string) \<Rightarrow> review \<Rightarrow> review_response" where
  "reviewResponse sh r =
     \<lparr>ReviewResponse_ID = FormatInt (Review_ID r), ReviewResponse_CourseID = FormatInt (Review_CourseID r),
      ReviewResponse_Semester = Review_Semester r, ReviewResponse_Content = Review_Content r,
      ReviewResponse_OverallRating = Review_OverallRating r, ReviewResponse_DifficultyRating = Review_DifficultyRating r,
      ReviewResponse_WorkloadRating = Review_WorkloadRating r, ReviewResponse_GainRating = Review_GainRating r,
      ReviewResponse_UpdatedAt = academic_time sh (Review_UpdatedAt r)\<rparr>"

definition materialResponse :: "(instant \<Rightarrow> string) \<Rightarrow> material \<Rightarrow> material_response" where
  "materialResponse sh m =
     \<lparr>MaterialResponse_ID = FormatInt (Material_ID m), MaterialResponse_CourseID = FormatInt (Material_CourseID m),
      MaterialResponse_Semester = Material_Semester m, MaterialResponse_Title = Material_Title m,
      MaterialResponse_Description = Material_Description m, MaterialResponse_OriginalName = Material_OriginalName m,
      MaterialResponse_MIMEType = Material_MIMEType m, MaterialResponse_SizeBytes = Material_SizeBytes m,
      MaterialResponse_MD5 = Material_FileMD5 m, MaterialResponse_Status = Material_Status m,
      MaterialResponse_CreatedAt = academic_time sh (Material_CreatedAt m)\<rparr>"

definition materialPage :: "(instant \<Rightarrow> string) \<Rightarrow> material list \<Rightarrow> int64 \<Rightarrow> int \<Rightarrow> int \<Rightarrow> material_response page_result" where
  "materialPage sh rows tot page sz = NewPageResult (map (materialResponse sh) rows) tot page sz"

section \<open>Validation\<close>

definition between :: "int \<Rightarrow> bool" where
  "between v \<longleftrightarrow> v \<ge> 1 \<and> v \<le> 5"

definition validRatings :: "review_req \<Rightarrow> bool" where
  "validRatings req \<longleftrightarrow>
     between (ReviewReq_OverallRating req) \<and> between (ReviewReq_DifficultyRating req) \<and>
     between (ReviewReq_WorkloadRating req) \<and> between (ReviewReq_GainRating req)"

definition academic_parseID :: "string \<Rightarrow> academic_error + int64" where
  "academic_parseID raw =
     (case ParseInt (TrimSpace raw) of
        None \<Rightarrow> Inl (Param MBadID)
      | Some v \<Rightarrow> if v \<le> 0 then Inl (Param MBadID) else Inr v)"

lemma academic_parseID_print: "0 < v \<Longrightarrow> v < 2 ^ 63 \<Longrightarrow> academic_parseID (FormatInt v) = Inr v"
  by (simp add: academic_parseID_def ParseInt_FormatInt in_int64_def)

definition academic_normalizePage :: "int \<Rightarrow> int \<Rightarrow> int \<times> int" where
  "academic_normalizePage page sz =
     (let page = (if page \<le> 0 then 1 else page);
          sz = (if sz \<le> 0 then 15 else sz);
          sz = (if sz > 100 then 100 else sz)
      in (page, sz))"

interpretation academic_page: page_normaliser academic_normalizePage 100
  by unfold_locales (auto simp: academic_normalizePage_def Let_def split: if_splits)

end
