(* ===== verification/Academic_Service.thy ===== *)
theory Academic_Service
  imports Academic_Model File_Model
begin

text \<open>
  The repository and the service of courses, reviews and materials (\<open>internal/academic/repository.go\<close>,
  \<open>service.go\<close>).

  The environment holds the collaborators: the capability checker, the profile resolver, the text filter and the
  file store, each possibly missing; the Unicode functions; the collation and \<open>LIKE\<close>; \<open>AVG\<close>; the driver's message for a
  unique key; and the order in which the server returns rows with equal sort keys. What the file store is asked to do is
  recorded in the outbox.
\<close>

record file_store =
  Store_UploadAcademicDocument :: "string \<Rightarrow> string \<Rightarrow> academic_error + original_upload"
  Store_ReleaseReference :: "string \<Rightarrow> bool"
  Store_OriginalURL :: "string \<Rightarrow> string"

record academic_env =
  ac_capability :: "(int64 \<Rightarrow> int64 \<Rightarrow> string \<Rightarrow> academic_error option) option"
  ac_school :: "(int64 \<Rightarrow> academic_error + string) option"
  ac_filter :: "(string \<Rightarrow> string + string) option"
  ac_files :: "file_store option"
  ac_nfkc :: "string \<Rightarrow> string"
  ac_lower :: "string \<Rightarrow> string"
  ac_coll :: "string \<Rightarrow> string"
  ac_like :: "string \<Rightarrow> string \<Rightarrow> bool"
  ac_avg :: "int list \<Rightarrow> int"
  ac_duplicate_text :: string
  ac_recent_courses :: "course list \<Rightarrow> course list"
  ac_recent_reviews :: "review list \<Rightarrow> review list"
  ac_recent_materials :: "material list \<Rightarrow> material list"
  ac_show_time :: "instant \<Rightarrow> string"

datatype academic_event = FileUploaded string | FileReleased string

type_synonym ('o, 'a) arepo = "(academic_db, 'o, arepo_error, 'a) prog"
type_synonym 'a aservice = "(academic_db, academic_event, academic_error, 'a) prog"

section \<open>Repository\<close>

definition repo_CreateCourse :: "academic_env \<Rightarrow> course \<Rightarrow> ('o, unit) arepo" where
  "repo_CreateCourse s c = bind gormDB (\<lambda>_. create_row courses courses_update (courses_ok (ac_coll s)) c)"

definition FindCourseByIdentity :: "academic_env \<Rightarrow> string \<Rightarrow> string \<Rightarrow> string \<Rightarrow> ('o, course option) arepo" where
  "FindCourseByIdentity s school name teacher =
     bind gormDB (\<lambda>_.
     find_row courses (\<lambda>c. course_identity (ac_coll s) c = (ac_coll s school, ac_coll s name, ac_coll s teacher)))"

definition FindCourse :: "int64 \<Rightarrow> ('o, course option) arepo" where
  "FindCourse i = bind gormDB (\<lambda>_. find_row courses (\<lambda>c. Course_ID c = i))"

definition repo_SearchCourses ::
  "academic_env \<Rightarrow> string \<Rightarrow> string \<Rightarrow> int \<Rightarrow> int \<Rightarrow> ('o, course list \<times> int64) arepo" where
  "repo_SearchCourses s school keyword page sz =
     (let base = (\<lambda>c. ac_coll s (Course_School c) = ac_coll s school \<and> Course_Status c = StatusNormal \<and>
            (keyword \<noteq> [] \<longrightarrow> ac_like s (Course_Name c) keyword \<or> ac_like s (Course_Teacher c) keyword))
      in bind gormDB (\<lambda>_.
         bind (read_rows (\<lambda>t. int (length (filter base (courses t))))) (\<lambda>tot.
         bind (read_rows (\<lambda>t. window page sz (ac_recent_courses s (filter base (courses t))))) (\<lambda>rows.
         ret (rows, tot)))))"

definition repo_ListReviews :: "academic_env \<Rightarrow> int64 \<Rightarrow> int \<Rightarrow> int \<Rightarrow> ('o, review list \<times> int64) arepo" where
  "repo_ListReviews s courseID page sz =
     (let base = (\<lambda>r. Review_CourseID r = courseID \<and> Review_Status r = StatusNormal)
      in bind gormDB (\<lambda>_.
         bind (read_rows (\<lambda>t. int (length (filter base (reviews t))))) (\<lambda>tot.
         bind (read_rows (\<lambda>t. window page sz (ac_recent_reviews s (filter base (reviews t))))) (\<lambda>rows.
         ret (rows, tot)))))"

text \<open>\<open>COALESCE(AVG(...), 0)\<close>.\<close>

definition coalesce_avg :: "academic_env \<Rightarrow> int list \<Rightarrow> int" where
  "coalesce_avg s xs = (if xs = [] then 0 else ac_avg s xs)"

definition stats_of :: "academic_env \<Rightarrow> review list \<Rightarrow> rating_stats" where
  "stats_of s rs =
     \<lparr>Stats_Count = int (length rs), Stats_Overall = coalesce_avg s (map Review_OverallRating rs),
      Stats_Difficulty = coalesce_avg s (map Review_DifficultyRating rs),
      Stats_Workload = coalesce_avg s (map Review_WorkloadRating rs), Stats_Gain = coalesce_avg s (map Review_GainRating rs)\<rparr>"

definition repo_RatingStats :: "academic_env \<Rightarrow> int64 \<Rightarrow> ('o, rating_stats) arepo" where
  "repo_RatingStats s courseID =
     bind gormDB (\<lambda>_.
     read_rows (\<lambda>t. stats_of s (filter (\<lambda>r. Review_CourseID r = courseID \<and> Review_Status r = StatusNormal) (reviews t))))"

text \<open>The foreign key of reviews and materials.\<close>

definition has_course :: "int64 \<Rightarrow> academic_db \<Rightarrow> bool" where
  "has_course i t \<longleftrightarrow> list_ex (\<lambda>c. Course_ID c = i) (courses t)"

definition rewrite_review :: "review \<Rightarrow> academic_status \<Rightarrow> instant \<Rightarrow> review \<Rightarrow> review" where
  "rewrite_review new status now r =
     r\<lparr>Review_Semester := Review_Semester new, Review_Content := Review_Content new,
       Review_OverallRating := Review_OverallRating new, Review_DifficultyRating := Review_DifficultyRating new,
       Review_WorkloadRating := Review_WorkloadRating new, Review_GainRating := Review_GainRating new,
       Review_Status := status, Review_UpdatedAt := now\<rparr>"

definition repo_SaveReview :: "review \<Rightarrow> ('o, review) arepo" where
  "repo_SaveReview rw =
     bind gormDB (\<lambda>_.
     transaction (
       bind (find_row reviews (\<lambda>r. Review_CourseID r = Review_CourseID rw \<and> Review_RootUserID r = Review_RootUserID rw)) (\<lambda>found.
       case found of
         None \<Rightarrow>
           bind (create_child (has_course (Review_CourseID rw)) reviews reviews_update reviews_ok rw) (\<lambda>_. ret rw)
       | Some existing \<Rightarrow>
           let rw = rw\<lparr>Review_ID := Review_ID existing, Review_CreatedAt := Review_CreatedAt existing\<rparr>
           in bind (update_where reviews reviews_update reviews_ok (\<lambda>r. Review_ID r = Review_ID existing)
                     (rewrite_review rw StatusNormal (Review_UpdatedAt rw))) (\<lambda>_. ret rw))))"

definition review_status_row :: "academic_status \<Rightarrow> instant \<Rightarrow> review \<Rightarrow> review" where
  "review_status_row status now r = r\<lparr>Review_Status := status, Review_UpdatedAt := now\<rparr>"

definition repo_DeleteReview :: "int64 \<Rightarrow> int64 \<Rightarrow> instant \<Rightarrow> ('o, bool) arepo" where
  "repo_DeleteReview courseID rootUserID now =
     bind gormDB (\<lambda>_.
     bind (update_where reviews reviews_update reviews_ok
            (\<lambda>r. Review_CourseID r = courseID \<and> Review_RootUserID r = rootUserID \<and> Review_Status r \<noteq> StatusDeleted)
            (review_status_row StatusDeleted now)) (\<lambda>n. ret (n > 0)))"

definition CreateMaterial :: "material \<Rightarrow> ('o, unit) arepo" where
  "CreateMaterial m =
     bind gormDB (\<lambda>_. create_child (has_course (Material_CourseID m)) materials materials_update materials_ok m)"

definition repo_ListMaterials ::
  "academic_env \<Rightarrow> (material \<Rightarrow> bool) \<Rightarrow> int \<Rightarrow> int \<Rightarrow> ('o, material list \<times> int64) arepo" where
  "repo_ListMaterials s query page sz =
     bind gormDB (\<lambda>_.
     bind (read_rows (\<lambda>t. int (length (filter query (materials t))))) (\<lambda>tot.
     bind (read_rows (\<lambda>t. window page sz (ac_recent_materials s (filter query (materials t))))) (\<lambda>rows.
     ret (rows, tot))))"

definition FindMaterial :: "int64 \<Rightarrow> ('o, material option) arepo" where
  "FindMaterial i = bind gormDB (\<lambda>_. find_row materials (\<lambda>m. Material_ID m = i))"

definition material_status_row :: "academic_status \<Rightarrow> instant \<Rightarrow> material \<Rightarrow> material" where
  "material_status_row status now m = m\<lparr>Material_Status := status, Material_UpdatedAt := now\<rparr>"

definition UpdateMaterialStatus :: "int64 \<Rightarrow> int64 option \<Rightarrow> academic_status \<Rightarrow> instant \<Rightarrow> ('o, bool) arepo" where
  "UpdateMaterialStatus i owner status now =
     bind gormDB (\<lambda>_.
     bind (update_where materials materials_update materials_ok
            (\<lambda>m. Material_ID m = i \<and> (case owner of None \<Rightarrow> True | Some u \<Rightarrow> Material_RootUserID m = u))
            (material_status_row status now)) (\<lambda>n. ret (n > 0)))"

definition course_status_row :: "academic_status \<Rightarrow> instant \<Rightarrow> course \<Rightarrow> course" where
  "course_status_row status now c = c\<lparr>Course_Status := status, Course_UpdatedAt := now\<rparr>"

definition UpdateCourseStatus :: "academic_env \<Rightarrow> int64 \<Rightarrow> academic_status \<Rightarrow> instant \<Rightarrow> ('o, bool) arepo" where
  "UpdateCourseStatus s i status now =
     bind gormDB (\<lambda>_.
     bind (update_where courses courses_update (courses_ok (ac_coll s)) (\<lambda>c. Course_ID c = i) (course_status_row status now)) (\<lambda>n.
     ret (n > 0)))"

definition UpdateReviewStatus :: "int64 \<Rightarrow> academic_status \<Rightarrow> instant \<Rightarrow> ('o, bool) arepo" where
  "UpdateReviewStatus i status now =
     bind gormDB (\<lambda>_.
     bind (update_where reviews reviews_update reviews_ok (\<lambda>r. Review_ID r = i) (review_status_row status now)) (\<lambda>n.
     ret (n > 0)))"

definition FindReview :: "int64 \<Rightarrow> ('o, review option) arepo" where
  "FindReview i = bind gormDB (\<lambda>_. find_row reviews (\<lambda>r. Review_ID r = i))"

text \<open>One round of the loop of \<open>MergeCourses\<close>.\<close>

definition move_review_row :: "int64 \<Rightarrow> instant \<Rightarrow> review \<Rightarrow> review" where
  "move_review_row targetID now r = r\<lparr>Review_CourseID := targetID, Review_UpdatedAt := now\<rparr>"

definition merge_review :: "int64 \<Rightarrow> instant \<Rightarrow> review \<Rightarrow> ('o, unit) arepo" where
  "merge_review targetID now rw =
     bind (find_row reviews (\<lambda>r. Review_CourseID r = targetID \<and> Review_RootUserID r = Review_RootUserID rw)) (\<lambda>found.
     case found of
       None \<Rightarrow>
         bind (update_where reviews reviews_update reviews_ok (\<lambda>r. Review_ID r = Review_ID rw)
                (move_review_row targetID now)) (\<lambda>_. ret ())
     | Some existing \<Rightarrow>
         bind (if Review_UpdatedAt rw > Review_UpdatedAt existing
               then bind (update_where reviews reviews_update reviews_ok (\<lambda>r. Review_ID r = Review_ID existing)
                           (rewrite_review rw (Review_Status rw) now)) (\<lambda>_. ret ())
               else ret ()) (\<lambda>_.
         bind (update_where reviews reviews_update reviews_ok (\<lambda>r. Review_ID r = Review_ID rw)
                (review_status_row StatusMerged now)) (\<lambda>_. ret ())))"

fun merge_reviews :: "int64 \<Rightarrow> instant \<Rightarrow> review list \<Rightarrow> ('o, unit) arepo" where
  "merge_reviews targetID now [] = ret ()"
| "merge_reviews targetID now (r # rs) = bind (merge_review targetID now r) (\<lambda>_. merge_reviews targetID now rs)"

definition merge_course_row :: "int64 \<Rightarrow> instant \<Rightarrow> course \<Rightarrow> course" where
  "merge_course_row targetID now c =
     c\<lparr>Course_Status := StatusMerged, Course_MergeTargetID := Some targetID, Course_UpdatedAt := now\<rparr>"

definition repo_MergeCourses :: "academic_env \<Rightarrow> int64 \<Rightarrow> int64 \<Rightarrow> instant \<Rightarrow> ('o, unit) arepo" where
  "repo_MergeCourses s sourceID targetID now =
     bind gormDB (\<lambda>_.
     transaction (
       bind (take_row courses (\<lambda>c. Course_ID c = sourceID \<and> Course_Status c = StatusNormal)) (\<lambda>_.
       bind (take_row courses (\<lambda>c. Course_ID c = targetID \<and> Course_Status c = StatusNormal)) (\<lambda>_.
       bind (read_rows (\<lambda>t. filter (\<lambda>r. Review_CourseID r = sourceID) (reviews t))) (\<lambda>rs.
       bind (merge_reviews targetID now rs) (\<lambda>_.
       bind (update_where materials materials_update materials_ok (\<lambda>m. Material_CourseID m = sourceID)
              (\<lambda>m. m\<lparr>Material_CourseID := targetID, Material_UpdatedAt := now\<rparr>)) (\<lambda>_.
       bind (update_where courses courses_update (courses_ok (ac_coll s)) (\<lambda>c. Course_ID c = sourceID)
              (merge_course_row targetID now)) (\<lambda>_. ret ()))))))))"

section \<open>Helpers of the service\<close>

definition checkContent :: "academic_env \<Rightarrow> int64 \<Rightarrow> int64 \<Rightarrow> unit aservice" where
  "checkContent s userID rootUserID =
     (case ac_capability s of
        None \<Rightarrow> ret ()
      | Some may \<Rightarrow> (case may userID rootUserID ''content'' of None \<Rightarrow> ret () | Some e \<Rightarrow> throw e))"

definition academic_filterText :: "academic_env \<Rightarrow> string \<Rightarrow> string aservice" where
  "academic_filterText s v =
     (case ac_filter s of
        None \<Rightarrow> ret (TrimSpace v)
      | Some flt \<Rightarrow>
          (case flt v of
             Inl e \<Rightarrow> throw (InternalWrap MFilter (Some (Sentinel (FilterFailed e))))
           | Inr filtered \<Rightarrow> ret (TrimSpace filtered)))"

definition normalizeName :: "academic_env \<Rightarrow> string \<Rightarrow> string" where
  "normalizeName s v = ac_lower s (join_with CHR '' '' (strings_Fields (ac_nfkc s v)))"

definition root_school :: "academic_env \<Rightarrow> int64 \<Rightarrow> string aservice" where
  "root_school s rootUserID =
     (case ac_school s of
        None \<Rightarrow> throw (Internal MNoProfiles)
      | Some f \<Rightarrow> result (f rootUserID))"

text \<open>A course that reviews and materials may be added to.\<close>

definition normal_course :: "int64 \<Rightarrow> course aservice" where
  "normal_course i =
     bind (fixed_error ErrCourseNotFound (FindCourse i)) (\<lambda>found.
     case found of
       None \<Rightarrow> throw ErrCourseNotFound
     | Some c \<Rightarrow> if Course_Status c \<noteq> StatusNormal then throw ErrCourseNotFound else ret c)"

definition hide_status :: "bool \<Rightarrow> academic_status" where
  "hide_status hidden = (if hidden then StatusHidden else StatusNormal)"

section \<open>Courses and reviews\<close>

text \<open>The driver's message for a unique key, which the service searches for two words.\<close>

definition create_course_error :: "academic_env \<Rightarrow> arepo_error \<Rightarrow> academic_error" where
  "create_course_error s e =
     (if e = Db UniqueViolation \<and>
         (sublist ''unique'' (ac_lower s (ac_duplicate_text s)) \<or> sublist ''duplicate'' (ac_lower s (ac_duplicate_text s)))
      then ErrCourseDuplicated else InternalWrap MCreateCourse (Some e))"

definition CreateCourse ::
  "academic_env \<Rightarrow> int64 \<Rightarrow> int64 \<Rightarrow> create_course_req \<Rightarrow> int64 \<Rightarrow> instant \<Rightarrow> course_response aservice" where
  "CreateCourse s userID rootUserID req newID now =
     bind (checkContent s userID rootUserID) (\<lambda>_.
     bind (root_school s rootUserID) (\<lambda>school.
     if TrimSpace school = [] then throw (Biz MNoSchool)
     else
       bind (academic_filterText s (CourseReq_Name req)) (\<lambda>name.
       bind (academic_filterText s (CourseReq_Teacher req)) (\<lambda>teacher.
       bind (academic_filterText s (CourseReq_Description req)) (\<lambda>description.
       let c = \<lparr>Course_ID = newID, Course_School = TrimSpace school, Course_Name = TrimSpace name,
                Course_NormalizedName = normalizeName s name, Course_Teacher = TrimSpace teacher,
                Course_NormalizedTeacher = normalizeName s teacher, Course_Description = description,
                Course_Status = StatusNormal, Course_MergeTargetID = None, Course_CreatedByRootUserID = rootUserID,
                Course_CreatedAt = now, Course_UpdatedAt = now\<rparr>
       in if Course_NormalizedName c = [] then throw (Param MNoName)
          else
            bind (internal_error MQueryCourse (FindCourseByIdentity s (Course_School c) (Course_NormalizedName c)
                   (Course_NormalizedTeacher c))) (\<lambda>existing.
            if existing \<noteq> None then throw ErrCourseDuplicated
            else
              bind (map_error (create_course_error s) (repo_CreateCourse s c)) (\<lambda>_.
              ret (courseResponse (ac_show_time s) c
                \<lparr>Stats_Count = 0, Stats_Overall = 0, Stats_Difficulty = 0, Stats_Workload = 0, Stats_Gain = 0\<rparr>))))))))"

definition SearchCourses ::
  "academic_env \<Rightarrow> int64 \<Rightarrow> string \<Rightarrow> int \<Rightarrow> int \<Rightarrow> course_response page_result aservice" where
  "SearchCourses s rootUserID keyword page sz =
     bind (root_school s rootUserID) (\<lambda>school.
     let (page, sz) = academic_normalizePage page sz
     in bind (internal_error MSearchCourses (repo_SearchCourses s (TrimSpace school) (TrimSpace keyword) page sz)) (\<lambda>(rows, tot).
        ret (NewPageResult (map (\<lambda>c. courseResponse (ac_show_time s) c
          \<lparr>Stats_Count = 0, Stats_Overall = 0, Stats_Difficulty = 0, Stats_Workload = 0, Stats_Gain = 0\<rparr>) rows) tot page sz)))"

definition CourseDetail :: "academic_env \<Rightarrow> string \<Rightarrow> course_response aservice" where
  "CourseDetail s courseID =
     bind (result (academic_parseID courseID)) (\<lambda>i.
     bind (internal_error MQueryCourse (FindCourse i)) (\<lambda>found.
     case found of
       None \<Rightarrow> throw ErrCourseNotFound
     | Some c \<Rightarrow>
         if Course_Status c = StatusHidden then throw ErrCourseNotFound
         else
           bind (case Course_MergeTargetID c of
                   Some target \<Rightarrow>
                     if Course_Status c = StatusMerged then fixed_error ErrCourseNotFound (FindCourse target)
                     else ret (Some c)
                 | None \<Rightarrow> ret (Some c)) (\<lambda>c.
           bind (present ErrCourseNotFound c) (\<lambda>c.
           bind (internal_error MQueryStats (repo_RatingStats s (Course_ID c))) (\<lambda>stats.
           ret (courseResponse (ac_show_time s) c stats))))))"

definition ListReviews :: "academic_env \<Rightarrow> string \<Rightarrow> int \<Rightarrow> int \<Rightarrow> review_response page_result aservice" where
  "ListReviews s courseID page sz =
     bind (result (academic_parseID courseID)) (\<lambda>i.
     let (page, sz) = academic_normalizePage page sz
     in bind (internal_error MListReviews (repo_ListReviews s i page sz)) (\<lambda>(rows, tot).
        ret (NewPageResult (map (reviewResponse (ac_show_time s)) rows) tot page sz)))"

definition new_review :: "review_req \<Rightarrow> string \<Rightarrow> int64 \<Rightarrow> int64 \<Rightarrow> int64 \<Rightarrow> instant \<Rightarrow> review" where
  "new_review req content courseID rootUserID newID now =
     \<lparr>Review_ID = newID, Review_CourseID = courseID, Review_RootUserID = rootUserID,
      Review_Semester = TrimSpace (ReviewReq_Semester req), Review_Content = content,
      Review_OverallRating = ReviewReq_OverallRating req, Review_DifficultyRating = ReviewReq_DifficultyRating req,
      Review_WorkloadRating = ReviewReq_WorkloadRating req, Review_GainRating = ReviewReq_GainRating req,
      Review_Status = StatusNormal, Review_CreatedAt = now, Review_UpdatedAt = now\<rparr>"

definition SaveReview ::
  "academic_env \<Rightarrow> int64 \<Rightarrow> int64 \<Rightarrow> string \<Rightarrow> review_req \<Rightarrow> int64 \<Rightarrow> instant \<Rightarrow> review_response aservice" where
  "SaveReview s userID rootUserID courseID req newID now =
     bind (checkContent s userID rootUserID) (\<lambda>_.
     bind (result (academic_parseID courseID)) (\<lambda>i.
     bind (normal_course i) (\<lambda>_.
     if \<not> validRatings req then throw (Param MBadRatings)
     else
       bind (academic_filterText s (ReviewReq_Content req)) (\<lambda>content.
       let rw = new_review req content i rootUserID newID now
       in if Review_Semester rw = [] then throw (Param MNoSemester)
          else
            bind (internal_error MSaveReview (repo_SaveReview rw)) (\<lambda>rw.
            ret (reviewResponse (ac_show_time s) rw))))))"

definition DeleteReview :: "int64 \<Rightarrow> string \<Rightarrow> instant \<Rightarrow> unit aservice" where
  "DeleteReview rootUserID courseID now =
     bind (result (academic_parseID courseID)) (\<lambda>i.
     bind (internal_error MDeleteReview (repo_DeleteReview i rootUserID now)) (\<lambda>ok.
     if \<not> ok then throw ErrReviewNotFound else ret ()))"

section \<open>Materials\<close>

text \<open>\<open>stream\<close> is the uploaded file; the file store decides what it is.\<close>

definition UploadMaterial ::
  "academic_env \<Rightarrow> int64 \<Rightarrow> int64 \<Rightarrow> string \<Rightarrow> string \<Rightarrow> string \<Rightarrow> string \<Rightarrow> string \<Rightarrow> int64 \<Rightarrow> instant
    \<Rightarrow> material_response aservice" where
  "UploadMaterial s userID rootUserID courseID semester title description stream newID now =
     bind (checkContent s userID rootUserID) (\<lambda>_.
     bind (present (Internal MNoFiles) (ac_files s)) (\<lambda>files.
     bind (result (academic_parseID courseID)) (\<lambda>i.
     bind (normal_course i) (\<lambda>_.
     let semester = TrimSpace semester; title = TrimSpace title; description = TrimSpace description
     in if semester = [] \<or> title = [] then throw (Param MNoTitle)
        else
          bind (academic_filterText s title) (\<lambda>title.
          bind (academic_filterText s description) (\<lambda>description.
          bind (result (Store_UploadAcademicDocument files stream (FormatInt rootUserID))) (\<lambda>upload.
          bind (emit (FileUploaded (Upload_MD5 upload))) (\<lambda>_.
          let item = \<lparr>Material_ID = newID, Material_CourseID = i, Material_RootUserID = rootUserID,
                      Material_Semester = semester, Material_Title = title, Material_Description = description,
                      Material_OriginalName = Upload_OriginalName upload, Material_MIMEType = Upload_MIME upload,
                      Material_SizeBytes = Upload_Size upload, Material_FileMD5 = Upload_MD5 upload,
                      Material_Status = StatusNormal, Material_CreatedAt = now, Material_UpdatedAt = now\<rparr>
          in bind (attempt (CreateMaterial item)) (\<lambda>r.
             case r of
               Inl e \<Rightarrow> bind (emit (FileReleased (Upload_MD5 upload))) (\<lambda>_. throw (InternalWrap MSaveMaterial (Some e)))
             | Inr _ \<Rightarrow> ret (materialResponse (ac_show_time s) item))))))))))"

definition ListMaterials :: "academic_env \<Rightarrow> string \<Rightarrow> int \<Rightarrow> int \<Rightarrow> material_response page_result aservice" where
  "ListMaterials s courseID page sz =
     bind (result (academic_parseID courseID)) (\<lambda>i.
     let (page, sz) = academic_normalizePage page sz
     in bind (map_error Passed (repo_ListMaterials s
               (\<lambda>m. Material_CourseID m = i \<and> Material_Status m = StatusNormal) page sz)) (\<lambda>(rows, tot).
        ret (materialPage (ac_show_time s) rows tot page sz)))"

definition ListMyMaterials :: "academic_env \<Rightarrow> int64 \<Rightarrow> int \<Rightarrow> int \<Rightarrow> material_response page_result aservice" where
  "ListMyMaterials s rootUserID page sz =
     (let (page, sz) = academic_normalizePage page sz
      in bind (map_error Passed (repo_ListMaterials s
                (\<lambda>m. Material_RootUserID m = rootUserID \<and> Material_Status m \<noteq> StatusDeleted) page sz)) (\<lambda>(rows, tot).
         ret (materialPage (ac_show_time s) rows tot page sz)))"

text \<open>Without a file store the last line dereferences nil.\<close>

definition MaterialDownloadURL :: "academic_env \<Rightarrow> int64 \<Rightarrow> string \<Rightarrow> string aservice" where
  "MaterialDownloadURL s rootUserID materialID =
     bind (result (academic_parseID materialID)) (\<lambda>i.
     bind (map_error Passed (FindMaterial i)) (\<lambda>found.
     case found of
       None \<Rightarrow> throw ErrMaterialNotFound
     | Some m \<Rightarrow>
         if Material_Status m \<noteq> StatusNormal \<and> Material_RootUserID m \<noteq> rootUserID then throw ErrMaterialNotFound
         else
           bind (present (Passed (Sentinel NilFileStore)) (ac_files s)) (\<lambda>files.
           ret (Store_OriginalURL files (Material_FileMD5 m)))))"

text \<open>Whether the file store releases the reference or fails, the call succeeds: a failure is only logged.\<close>

definition DeleteMaterial :: "academic_env \<Rightarrow> int64 \<Rightarrow> string \<Rightarrow> instant \<Rightarrow> unit aservice" where
  "DeleteMaterial s rootUserID materialID now =
     bind (result (academic_parseID materialID)) (\<lambda>i.
     bind (fixed_error ErrMaterialNotFound (FindMaterial i)) (\<lambda>found.
     case found of
       None \<Rightarrow> throw ErrMaterialNotFound
     | Some m \<Rightarrow>
         if Material_RootUserID m \<noteq> rootUserID then throw ErrMaterialNotFound
         else
           bind (fixed_error ErrMaterialNotFound (UpdateMaterialStatus i (Some rootUserID) StatusDeleted now)) (\<lambda>ok.
           if \<not> ok then throw ErrMaterialNotFound
           else
             bind (present (Passed (Sentinel NilFileStore)) (ac_files s)) (\<lambda>_.
             emit (FileReleased (Material_FileMD5 m))))))"

section \<open>Administration\<close>

definition MergeCourses :: "academic_env \<Rightarrow> string \<Rightarrow> string \<Rightarrow> instant \<Rightarrow> unit aservice" where
  "MergeCourses s sourceID targetID now =
     bind (result (academic_parseID sourceID)) (\<lambda>source.
     bind (result (academic_parseID targetID)) (\<lambda>target.
     if source = target then throw (Param MSameCourse)
     else internal_error MMergeCourses (repo_MergeCourses s source target now)))"

definition updateCourseStatus :: "academic_env \<Rightarrow> string \<Rightarrow> bool \<Rightarrow> instant \<Rightarrow> unit aservice" where
  "updateCourseStatus s raw hidden now =
     bind (result (academic_parseID raw)) (\<lambda>i.
     bind (fixed_error ErrCourseNotFound (UpdateCourseStatus s i (hide_status hidden) now)) (\<lambda>ok.
     if \<not> ok then throw ErrCourseNotFound else ret ()))"

definition HideCourse :: "academic_env \<Rightarrow> string \<Rightarrow> bool \<Rightarrow> instant \<Rightarrow> unit aservice" where
  "HideCourse s i hidden now = updateCourseStatus s i hidden now"

definition HideReview :: "string \<Rightarrow> bool \<Rightarrow> instant \<Rightarrow> unit aservice" where
  "HideReview raw hidden now =
     bind (result (academic_parseID raw)) (\<lambda>i.
     bind (fixed_error ErrReviewNotFound (UpdateReviewStatus i (hide_status hidden) now)) (\<lambda>ok.
     if \<not> ok then throw ErrReviewNotFound else ret ()))"

definition HideMaterial :: "string \<Rightarrow> bool \<Rightarrow> instant \<Rightarrow> unit aservice" where
  "HideMaterial raw hidden now =
     bind (result (academic_parseID raw)) (\<lambda>i.
     bind (fixed_error ErrMaterialNotFound (UpdateMaterialStatus i None (hide_status hidden) now)) (\<lambda>ok.
     if \<not> ok then throw ErrMaterialNotFound else ret ()))"

text \<open>The owner and the row of a reported target; a missing row is no error and has owner 0.\<close>

datatype report_item = ReportedReview review | ReportedMaterial material | NoItem

definition academic_ReportTarget :: "string \<Rightarrow> string \<Rightarrow> (int64 \<times> report_item) aservice" where
  "academic_ReportTarget targetType targetID =
     bind (result (academic_parseID targetID)) (\<lambda>i.
     if targetType = ''courseReview'' then
       bind (map_error Passed (FindReview i)) (\<lambda>found.
       ret (case found of None \<Rightarrow> (0, NoItem) | Some r \<Rightarrow> (Review_RootUserID r, ReportedReview r)))
     else if targetType = ''material'' then
       bind (map_error Passed (FindMaterial i)) (\<lambda>found.
       ret (case found of None \<Rightarrow> (0, NoItem) | Some m \<Rightarrow> (Material_RootUserID m, ReportedMaterial m)))
     else throw ErrCourseNotFound)"

definition HideReportTarget :: "string \<Rightarrow> string \<Rightarrow> instant \<Rightarrow> unit aservice" where
  "HideReportTarget targetType targetID now =
     (if targetType = ''courseReview'' then HideReview targetID True now
      else if targetType = ''material'' then HideMaterial targetID True now
      else throw ErrCourseNotFound)"

end
