(* ===== verification/Academic_Merge.thy ===== *)
theory Academic_Merge
  imports Academic_Service
begin

text \<open>
  Merging two courses: the loop of \<open>MergeCourses\<close> over the reviews of the source, one database round trip after the
  other, computes a simple function of the rows.
\<close>

section \<open>The reference\<close>

text \<open>
  What becomes of a row when the reviews \<open>ps\<close> have been merged into the course \<open>target\<close>: a review among them moves to
  the target, or is marked as merged when its author has a review there; a review of the target is rewritten when its
  author's review among \<open>ps\<close> is newer.
\<close>

definition merged_row :: "int64 \<Rightarrow> instant \<Rightarrow> review list \<Rightarrow> review list \<Rightarrow> review \<Rightarrow> review" where
  "merged_row target now rows ps x =
     (if x \<in> set ps
      then if \<exists>e \<in> set rows. Review_CourseID e = target \<and> Review_RootUserID e = Review_RootUserID x
           then review_status_row StatusMerged now x else move_review_row target now x
      else if Review_CourseID x = target
      then case find (\<lambda>r. Review_RootUserID r = Review_RootUserID x) ps of
             None \<Rightarrow> x
           | Some r \<Rightarrow> if Review_UpdatedAt r > Review_UpdatedAt x then rewrite_review r (Review_Status r) now x else x
      else x)"

lemma row_sel [simp]:
  "Review_ID (review_status_row st now x) = Review_ID x" "Review_ID (move_review_row target now x) = Review_ID x"
  "Review_ID (rewrite_review r st now x) = Review_ID x"
  "Review_RootUserID (review_status_row st now x) = Review_RootUserID x"
  "Review_RootUserID (move_review_row target now x) = Review_RootUserID x"
  "Review_RootUserID (rewrite_review r st now x) = Review_RootUserID x"
  "Review_CourseID (review_status_row st now x) = Review_CourseID x"
  "Review_CourseID (move_review_row target now x) = target"
  "Review_CourseID (rewrite_review r st now x) = Review_CourseID x"
  by (simp_all add: review_status_row_def move_review_row_def rewrite_review_def)

lemma merged_row_sel [simp]:
  "Review_ID (merged_row target now rows ps x) = Review_ID x"
  "Review_RootUserID (merged_row target now rows ps x) = Review_RootUserID x"
  by (auto simp: merged_row_def split: option.split)

section \<open>One round\<close>

lemma find_append: "find P (xs @ ys) = (case find P xs of None \<Rightarrow> find P ys | Some x \<Rightarrow> Some x)"
  by (induction xs) auto

lemma find_map_same:
  "\<forall>x \<in> set xs. P (f x) = P x \<Longrightarrow> \<forall>x \<in> set xs. P x \<longrightarrow> f x = x \<Longrightarrow> find P (map f xs) = find P xs"
  by (induction xs) auto

text \<open>The rows of a course belong to different authors, and rows with the same identifier are the same.\<close>

lemma rows_same:
  assumes "reviews_ok rows" and "x \<in> set rows" and "y \<in> set rows"
  shows "Review_ID x = Review_ID y \<Longrightarrow> x = y"
    and "Review_CourseID x = Review_CourseID y \<Longrightarrow> Review_RootUserID x = Review_RootUserID y \<Longrightarrow> x = y"
  using assms unfolding reviews_ok_def distinct_map inj_on_def review_owner_def by auto

text \<open>The effect of one round on the tables.\<close>

definition merge_effect :: "int64 \<Rightarrow> instant \<Rightarrow> review \<Rightarrow> review list \<Rightarrow> review list" where
  "merge_effect target now r rows =
     (case find (\<lambda>x. Review_CourseID x = target \<and> Review_RootUserID x = Review_RootUserID r) rows of
        None \<Rightarrow> update_rows (\<lambda>x. Review_ID x = Review_ID r) (move_review_row target now) rows
      | Some e \<Rightarrow>
          update_rows (\<lambda>x. Review_ID x = Review_ID r) (review_status_row StatusMerged now)
            (if Review_UpdatedAt r > Review_UpdatedAt e
             then update_rows (\<lambda>x. Review_ID x = Review_ID e) (rewrite_review r (Review_Status r) now) rows else rows))"

lemma merge_review_outcome:
  fixes t :: academic_db
  assumes "outcome (merge_review target now r :: ('o, unit) arepo) t (Inr ()) t'"
  shows "t' = t\<lparr>reviews := merge_effect target now r (reviews t)\<rparr>"
proof -
  have "t' = reviews_update (merge_effect target now r) t"
    using assms unfolding merge_review_def
    by (auto simp: outcome_update_where outcome_ret o_def merge_effect_def [abs_def]
        split: option.splits if_splits dest!: outcome_bind_Inr outcome_find_row(1))
  then show ?thesis by (cases t) simp
qed

lemma merge_round:
  assumes ok: "reviews_ok rows" and ps: "set ps \<subseteq> set rows" "\<forall>p \<in> set ps. Review_CourseID p = source"
    and r: "r \<in> set rows" "r \<notin> set ps" "Review_CourseID r = source" and ne: "source \<noteq> target"
    and run: "outcome (merge_review target now r :: ('o, unit) arepo) t (Inr ()) t'" and t: "reviews t = map (merged_row target now rows ps) rows"
  shows "t' = t\<lparr>reviews := map (merged_row target now rows (ps @ [r])) rows\<rparr>"
proof -
  let ?f = "merged_row target now rows ps" and ?f' = "merged_row target now rows (ps @ [r])"
  let ?P = "\<lambda>x. Review_CourseID x = target \<and> Review_RootUserID x = Review_RootUserID r"
  have other: "Review_RootUserID p \<noteq> Review_RootUserID r" if "p \<in> set ps" for p
    using rows_same(2) [OF ok _ r(1)] that ps r(2,3) by blast
  have fresh: "find (\<lambda>p. Review_RootUserID p = Review_RootUserID r) ps = None"
    using other by (auto simp: find_None_iff)
  have self: "?f r = r" using r(2,3) ne by (simp add: merged_row_def)
  have keep: "?f x = x" if "?P x" for x using that fresh other [of x] by (auto simp: merged_row_def)
  have same: "?f' x = ?f x" if "x \<noteq> r" "\<not> ?P x" for x
    using that by (auto simp: merged_row_def find_append split: option.split)
  have found: "find ?P (map ?f rows) = find ?P rows"
  proof (rule find_map_same)
    show "\<forall>x \<in> set rows. ?P (?f x) = ?P x"
      using other ps(2) ne by (auto simp: merged_row_def split: option.split)
    show "\<forall>x \<in> set rows. ?P x \<longrightarrow> ?f x = x" using keep by blast
  qed
  have byid: "update_rows (\<lambda>x. Review_ID x = Review_ID y) g (map h rows) = map (\<lambda>x. if x = y then g (h x) else h x) rows"
    if "y \<in> set rows" "\<And>x. Review_ID (h x) = Review_ID x" for y g h
    using rows_same(1) [OF ok _ that(1)] that(2) by (auto simp: update_rows_def)
  note result = merge_review_outcome [OF run, unfolded t merge_effect_def found]
  show ?thesis
  proof (cases "find ?P rows")
    case None
    then have none: "\<not> ?P x" if "x \<in> set rows" for x using that by (auto simp: find_None_iff)
    have "map (\<lambda>x. if x = r then move_review_row target now (?f x) else ?f x) rows = map ?f' rows"
      using none same self by (auto simp: merged_row_def [of _ _ _ "ps @ [r]" r])
    then show ?thesis unfolding result None option.case byid [OF r(1) merged_row_sel(1)] by (simp only:)
  next
    case (Some e)
    then have e: "e \<in> set rows" "?P e" by (auto simp: find_Some_iff)
    have only: "x = e" if "x \<in> set rows" "?P x" for x using rows_same(2) [OF ok that(1) e(1)] that(2) e(2) by simp
    have "e \<noteq> r" using e(2) r(3) ne by auto
    have r_after: "?f' r = review_status_row StatusMerged now r" using e by (auto simp: merged_row_def)
    have e_after: "?f' e = (if Review_UpdatedAt r > Review_UpdatedAt e then rewrite_review r (Review_Status r) now e else e)"
      using e \<open>e \<noteq> r\<close> other [of e] fresh by (auto simp: merged_row_def find_append)
    let ?h = "\<lambda>x. if x = e then ?f' e else ?f x"
    have step1: "(if Review_UpdatedAt r > Review_UpdatedAt e
        then update_rows (\<lambda>x. Review_ID x = Review_ID e) (rewrite_review r (Review_Status r) now) (map ?f rows) else map ?f rows) =
        map ?h rows"
    proof (cases "Review_UpdatedAt r > Review_UpdatedAt e")
      case True
      then have "map (\<lambda>x. if x = e then rewrite_review r (Review_Status r) now (?f x) else ?f x) rows = map ?h rows"
        using keep [OF e(2)] e_after by (intro map_cong) simp_all
      with True byid [OF e(1), of ?f "rewrite_review r (Review_Status r) now"] show ?thesis by simp
    next
      case False
      then have "map ?f rows = map ?h rows" using keep [OF e(2)] e_after by (intro map_cong) simp_all
      with False show ?thesis by simp
    qed
    have hid: "Review_ID (?h x) = Review_ID x" for x by simp
    have step2: "update_rows (\<lambda>x. Review_ID x = Review_ID r) (review_status_row StatusMerged now) (map ?h rows) =
        map (\<lambda>x. if x = r then review_status_row StatusMerged now (?h x) else ?h x) rows"
      by (rule byid [OF r(1) hid])
    have all: "map ?f' rows = map (\<lambda>x. if x = r then review_status_row StatusMerged now (?h x) else ?h x) rows"
    proof (rule map_cong [OF refl])
      fix x assume x: "x \<in> set rows"
      consider "x = r" | "x = e" | "x \<noteq> r" "x \<noteq> e" by blast
      then show "?f' x = (if x = r then review_status_row StatusMerged now (?h x) else ?h x)"
      proof cases
        case 1
        then show ?thesis using self r_after \<open>e \<noteq> r\<close> by simp
      next
        case 2
        then show ?thesis using \<open>e \<noteq> r\<close> by simp
      next
        case 3
        then have "?f' x = ?f x" using only [OF x] by (intro same) blast+
        with 3 show ?thesis by (simp only: if_False)
      qed
    qed
    show ?thesis unfolding result Some option.case step1 step2 all ..
  qed
qed

text \<open>The whole loop.\<close>

lemma merge_loop:
  assumes ok: "reviews_ok rows" and "source \<noteq> target"
    and "set ps \<union> set rs \<subseteq> set rows" and "\<forall>p \<in> set ps \<union> set rs. Review_CourseID p = source" and "distinct (ps @ rs)"
    and "outcome (merge_reviews target now rs :: ('o, unit) arepo) t (Inr ()) t'" and "reviews t = map (merged_row target now rows ps) rows"
  shows "t' = t\<lparr>reviews := map (merged_row target now rows (ps @ rs)) rows\<rparr>"
  using assms(3-)
proof (induction rs arbitrary: ps t)
  case Nil
  then show ?case by (auto simp: outcome_ret)
next
  case (Cons r rs)
  then obtain t1 where run: "outcome (merge_review target now r :: ('o, unit) arepo) t (Inr ()) t1"
    "outcome (merge_reviews target now rs :: ('o, unit) arepo) t1 (Inr ()) t'"
    by (auto dest!: outcome_bind_Inr)
  have t1: "t1 = t\<lparr>reviews := map (merged_row target now rows (ps @ [r])) rows\<rparr>"
    by (rule merge_round [OF ok _ _ _ _ _ assms(2) run(1)]) (use Cons.prems in auto)
  have "t' = t1\<lparr>reviews := map (merged_row target now rows ((ps @ [r]) @ rs)) rows\<rparr>"
    by (rule Cons.IH [OF _ _ _ run(2)]) (use Cons.prems t1 in auto)
  with t1 show ?case by simp
qed

section \<open>MergeCourses\<close>

definition merged_tables :: "int64 \<Rightarrow> int64 \<Rightarrow> instant \<Rightarrow> academic_db \<Rightarrow> academic_db" where
  "merged_tables source target now t =
     \<lparr>courses = update_rows (\<lambda>c. Course_ID c = source) (merge_course_row target now) (courses t),
      reviews = map (merged_row target now (reviews t) (filter (\<lambda>r. Review_CourseID r = source) (reviews t))) (reviews t),
      materials = update_rows (\<lambda>m. Material_CourseID m = source)
        (\<lambda>m. m\<lparr>Material_CourseID := target, Material_UpdatedAt := now\<rparr>) (materials t)\<rparr>"

text \<open>A successful run: both courses were there, the loop ran on the reviews of the source, the rest followed.\<close>

lemma MergeCourses_parts:
  fixes t :: academic_db
  assumes "outcome (repo_MergeCourses s source target now :: ('o, unit) arepo) t (Inr ()) t'"
  obtains c d t1 where "c \<in> set (courses t)" "Course_ID c = source" "Course_Status c = StatusNormal"
    and "d \<in> set (courses t)" "Course_ID d = target" "Course_Status d = StatusNormal"
    and "outcome (merge_reviews target now (filter (\<lambda>r. Review_CourseID r = source) (reviews t)) :: ('o, unit) arepo) t (Inr ()) t1"
    and "t' = courses_update (update_rows (\<lambda>c. Course_ID c = source) (merge_course_row target now))
      (materials_update (update_rows (\<lambda>m. Material_CourseID m = source)
        (\<lambda>m. m\<lparr>Material_CourseID := target, Material_UpdatedAt := now\<rparr>)) t1)"
proof -
  obtain c d t1 where "find (\<lambda>c. Course_ID c = source \<and> Course_Status c = StatusNormal) (courses t) = Some c"
    and "find (\<lambda>c. Course_ID c = target \<and> Course_Status c = StatusNormal) (courses t) = Some d"
    and "outcome (merge_reviews target now (filter (\<lambda>r. Review_CourseID r = source) (reviews t)) :: ('o, unit) arepo) t (Inr ()) t1"
    and "t' = courses_update (update_rows (\<lambda>c. Course_ID c = source) (merge_course_row target now))
      (materials_update (update_rows (\<lambda>m. Material_CourseID m = source)
        (\<lambda>m. m\<lparr>Material_CourseID := target, Material_UpdatedAt := now\<rparr>)) t1)"
    using assms unfolding repo_MergeCourses_def
    by (auto simp: outcome_gormDB outcome_update_where outcome_ret outcome_take_row outcome_read_rows
        dest!: outcome_bind_Inr transaction_success)
  note parts = this
  have "c \<in> set (courses t)" "Course_ID c = source" "Course_Status c = StatusNormal"
    "d \<in> set (courses t)" "Course_ID d = target" "Course_Status d = StatusNormal"
    using parts(1,2) by (auto simp: find_Some_iff)
  then show thesis by (rule that) (fact parts(3), fact parts(4))
qed

lemma MergeCourses_outcome:
  fixes t :: academic_db
  assumes "outcome (repo_MergeCourses s source target now :: ('o, unit) arepo) t (Inr ()) t'" and "reviews_ok (reviews t)"
    and "source \<noteq> target"
  shows "t' = merged_tables source target now t"
proof -
  let ?rs = "filter (\<lambda>r. Review_CourseID r = source) (reviews t)"
  obtain t1 where loop: "outcome (merge_reviews target now ?rs :: ('o, unit) arepo) t (Inr ()) t1"
    and t': "t' = courses_update (update_rows (\<lambda>c. Course_ID c = source) (merge_course_row target now))
      (materials_update (update_rows (\<lambda>m. Material_CourseID m = source)
        (\<lambda>m. m\<lparr>Material_CourseID := target, Material_UpdatedAt := now\<rparr>)) t1)"
    using MergeCourses_parts [OF assms(1)] by blast
  have start: "map (merged_row target now (reviews t) []) (reviews t) = reviews t"
    by (rule map_idI) (simp add: merged_row_def)
  have "distinct ?rs" using assms(2) by (simp add: reviews_ok_def distinct_map)
  then have "t1 = t\<lparr>reviews := map (merged_row target now (reviews t) ([] @ ?rs)) (reviews t)\<rparr>"
    by (intro merge_loop [OF assms(2,3) _ _ _ loop]) (simp_all add: start)
  with t' show ?thesis by (simp add: merged_tables_def)
qed

end
