(* ===== verification/Academic_Inv.thy ===== *)
theory Academic_Inv
  imports Academic_Merge
begin

text \<open>
  What the academic tables satisfy: unique keys, foreign keys, ratings from 1 to 5, and merged courses point to a course.
  Every call keeps it, whatever statement fails.
\<close>

definition ratings_ok :: "review \<Rightarrow> bool" where
  "ratings_ok r \<longleftrightarrow> between (Review_OverallRating r) \<and> between (Review_DifficultyRating r) \<and>
     between (Review_WorkloadRating r) \<and> between (Review_GainRating r)"

definition academic_inv :: "(string \<Rightarrow> string) \<Rightarrow> academic_db \<Rightarrow> bool" where
  "academic_inv coll t \<longleftrightarrow>
     courses_ok coll (courses t) \<and> reviews_ok (reviews t) \<and> materials_ok (materials t) \<and>
     (\<forall>r \<in> set (reviews t). ratings_ok r \<and> has_course (Review_CourseID r) t) \<and>
     (\<forall>m \<in> set (materials t). has_course (Material_CourseID m) t) \<and>
     (\<forall>c \<in> set (courses t). \<forall>i. Course_MergeTargetID c = Some i \<longrightarrow> has_course i t)"

section \<open>Statements\<close>

lemma keeps_update_ok:
  "(\<And>t. I t \<Longrightarrow> ok (update_rows P f (tab t)) \<Longrightarrow> I (upd (update_rows P f) t)) \<Longrightarrow> keeps I (update_where tab upd ok P f)"
  by (auto simp: keeps_def update_where_def outcome_stmt split: if_splits)

lemma keeps_create_child_ok:
  "(\<And>t. I t \<Longrightarrow> fk t \<Longrightarrow> ok (tab t @ [r]) \<Longrightarrow> I (upd (\<lambda>rows. rows @ [r]) t)) \<Longrightarrow> keeps I (create_child fk tab upd ok r)"
  by (auto simp: keeps_def create_child_def outcome_stmt split: if_splits)

lemma has_course_simps [simp]:
  "has_course i (reviews_update g t) = has_course i t" "has_course i (materials_update h t) = has_course i t"
  by (simp_all add: has_course_def)

lemma has_course_update:
  "(\<And>c. Course_ID (f c) = Course_ID c) \<Longrightarrow> has_course i (courses_update (update_rows P f) t) = has_course i t"
  by (auto simp: has_course_def list_ex_iff update_rows_def)

lemma update_rows_ball: "(\<forall>x \<in> set (update_rows P f rows). Q x) \<longleftrightarrow> (\<forall>x \<in> set rows. if P x then Q (f x) else Q x)"
  by (auto simp: update_rows_def)

text \<open>Rewriting rows of one table.\<close>

lemma review_update_keeps:
  assumes "\<And>t x. academic_inv coll t \<Longrightarrow> I t \<Longrightarrow> x \<in> set (reviews t) \<Longrightarrow> P x \<Longrightarrow> ratings_ok (f x) \<and> has_course (Review_CourseID (f x)) t"
    and "\<And>g t. I (reviews_update g t) = I t"
  shows "keeps (\<lambda>t. academic_inv coll t \<and> I t) (update_where reviews reviews_update reviews_ok P f)"
proof (rule keeps_update_ok, intro conjI)
  fix t
  assume t: "academic_inv coll t \<and> I t" and ok: "reviews_ok (update_rows P f (reviews t))"
  have "\<forall>x \<in> set (update_rows P f (reviews t)). ratings_ok x \<and> has_course (Review_CourseID x) t"
    unfolding update_rows_ball using assms(1) [of t] t by (auto simp: academic_inv_def)
  with t ok show "academic_inv coll (reviews_update (update_rows P f) t)" by (simp add: academic_inv_def)
  show "I (reviews_update (update_rows P f) t)" using t assms(2) by simp
qed

lemma review_rows_keep:
  "keeps (academic_inv coll) (update_where reviews reviews_update reviews_ok P (review_status_row st now))"
  "ratings_ok rw \<Longrightarrow> keeps (academic_inv coll) (update_where reviews reviews_update reviews_ok P (rewrite_review rw st now))"
proof -
  have keep: "keeps (academic_inv coll) (update_where reviews reviews_update reviews_ok P f)"
    if "\<And>t x. academic_inv coll t \<Longrightarrow> x \<in> set (reviews t) \<Longrightarrow> ratings_ok (f x) \<and> has_course (Review_CourseID (f x)) t" for f
    using review_update_keeps [of coll "\<lambda>_. True" P f] that by simp
  show "keeps (academic_inv coll) (update_where reviews reviews_update reviews_ok P (review_status_row st now))"
    by (rule keep) (auto simp: academic_inv_def ratings_ok_def review_status_row_def)
  show "ratings_ok rw \<Longrightarrow> keeps (academic_inv coll) (update_where reviews reviews_update reviews_ok P (rewrite_review rw st now))"
    by (rule keep) (auto simp: academic_inv_def ratings_ok_def rewrite_review_def)
qed

lemma material_rows_keep:
  "keeps (academic_inv coll) (update_where materials materials_update materials_ok P (material_status_row st now))"
  by (rule keeps_update_ok) (auto simp: academic_inv_def update_rows_ball material_status_row_def)

lemma course_rows_keep:
  "keeps (academic_inv coll) (update_where courses courses_update (courses_ok coll) P (course_status_row st now))"
proof (rule keeps_update_ok)
  fix t
  assume t: "academic_inv coll t" "courses_ok coll (update_rows P (course_status_row st now) (courses t))"
  have "has_course i (courses_update (update_rows P (course_status_row st now)) t) = has_course i t" for i
    by (rule has_course_update) (simp add: course_status_row_def)
  with t show "academic_inv coll (courses_update (update_rows P (course_status_row st now)) t)"
    by (auto simp: academic_inv_def update_rows_def course_status_row_def)
qed

lemma create_course_keeps: "Course_MergeTargetID c = None \<Longrightarrow> keeps (academic_inv (ac_coll s)) (repo_CreateCourse s c)"
  unfolding repo_CreateCourse_def
  by (intro keeps_bind keeps_basic keeps_create_row) (auto simp: academic_inv_def has_course_def)

section \<open>The repository\<close>

lemma save_review_keeps: "ratings_ok rw \<Longrightarrow> keeps (academic_inv coll) (repo_SaveReview rw)"
proof -
  assume ok: "ratings_ok rw"
  have "keeps (academic_inv coll) (create_child (has_course (Review_CourseID rw)) reviews reviews_update reviews_ok rw)"
    by (rule keeps_create_child_ok) (use ok in \<open>auto simp: academic_inv_def\<close>)
  moreover have "ratings_ok (rw\<lparr>Review_ID := i, Review_CreatedAt := j\<rparr>)" for i j using ok by (simp add: ratings_ok_def)
  ultimately show ?thesis
    unfolding repo_SaveReview_def Let_def
    by (intro keeps_bind keeps_basic keeps_whole_transaction keeps_find_row)
      (auto intro!: keeps_bind review_rows_keep(2) split: option.split)
qed

lemma merge_review_keeps:
  assumes "ratings_ok rw"
  shows "keeps (\<lambda>t. academic_inv coll t \<and> has_course target t) (merge_review target now rw)"
proof -
  note upd = review_update_keeps [of coll "has_course target"]
  have "keeps (\<lambda>t. academic_inv coll t \<and> has_course target t)
      (update_where reviews reviews_update reviews_ok P (move_review_row target now))" for P
    by (rule upd) (auto simp: academic_inv_def ratings_ok_def move_review_row_def)
  moreover have "keeps (\<lambda>t. academic_inv coll t \<and> has_course target t)
      (update_where reviews reviews_update reviews_ok P (rewrite_review rw st now))" for P st
    by (rule upd) (use assms in \<open>auto simp: academic_inv_def ratings_ok_def rewrite_review_def\<close>)
  moreover have "keeps (\<lambda>t. academic_inv coll t \<and> has_course target t)
      (update_where reviews reviews_update reviews_ok P (review_status_row st now))" for P st
    by (rule upd) (auto simp: academic_inv_def ratings_ok_def review_status_row_def)
  ultimately show ?thesis
    unfolding merge_review_def
    by (intro keeps_bind keeps_find_row) (auto intro!: keeps_bind keeps_if split: option.split)
qed

lemma merge_loop_keeps:
  "\<forall>r \<in> set rs. ratings_ok r \<Longrightarrow> keeps (\<lambda>t. academic_inv coll t \<and> has_course target t) (merge_reviews target now rs)"
  by (induction rs) (auto intro!: keeps_bind merge_review_keeps)

lemma merge_keeps: "keeps (academic_inv (ac_coll s)) (repo_MergeCourses s source target now)"
  unfolding keeps_def
proof (intro allI impI)
  fix t r t'
  assume run: "outcome (repo_MergeCourses s source target now :: ('o, unit) arepo) t r t'" and inv: "academic_inv (ac_coll s) t"
  show "academic_inv (ac_coll s) t'"
  proof (cases r)
    case (Inl e)
    then have "t' = t" using run unfolding repo_MergeCourses_def by (auto elim!: connected_transactionE)
    with inv show ?thesis by simp
  next
    case (Inr u)
    with run have "outcome (repo_MergeCourses s source target now :: ('o, unit) arepo) t (Inr ()) t'" by simp
    then obtain d t1 where d: "d \<in> set (courses t)" "Course_ID d = target"
      and loop: "outcome (merge_reviews target now (filter (\<lambda>r. Review_CourseID r = source) (reviews t)) :: ('o, unit) arepo) t (Inr ()) t1"
      and t': "t' = courses_update (update_rows (\<lambda>c. Course_ID c = source) (merge_course_row target now))
        (materials_update (update_rows (\<lambda>m. Material_CourseID m = source)
          (\<lambda>m. m\<lparr>Material_CourseID := target, Material_UpdatedAt := now\<rparr>)) t1)"
      by (rule MergeCourses_parts) blast
    have "academic_inv (ac_coll s) t1 \<and> has_course target t1"
      by (rule keepsD [OF merge_loop_keeps loop]) (use inv d in \<open>auto simp: academic_inv_def has_course_def list_ex_iff\<close>)
    moreover have "has_course i (courses_update (update_rows (\<lambda>c. Course_ID c = source) (merge_course_row target now)) u) = has_course i u" for i u
      by (rule has_course_update) (simp add: merge_course_row_def)
    moreover have "courses_ok coll (update_rows P (merge_course_row target now) cs) = courses_ok coll cs" for coll P cs
      by (simp add: courses_ok_def map_key_update_rows merge_course_row_def course_identity_def)
    moreover have "materials_ok (update_rows P (\<lambda>m. m\<lparr>Material_CourseID := target, Material_UpdatedAt := now\<rparr>) ms) = materials_ok ms" for P ms
      by (simp add: materials_ok_def map_key_update_rows)
    ultimately show ?thesis unfolding t'
      by (auto simp: academic_inv_def update_rows_ball merge_course_row_def)
  qed
qed

section \<open>The service\<close>

lemma academic_reads_keep:
  "keeps I (FindCourse i)" "keeps I (FindCourseByIdentity s school name teacher)" "keeps I (FindReview i)" "keeps I (FindMaterial i)"
  "keeps I (repo_SearchCourses s school keyword page sz)" "keeps I (repo_ListReviews s i page sz)"
  "keeps I (repo_ListMaterials s q page sz)" "keeps I (repo_RatingStats s i)"
  unfolding FindCourse_def FindCourseByIdentity_def FindReview_def FindMaterial_def repo_SearchCourses_def repo_ListReviews_def
    repo_ListMaterials_def repo_RatingStats_def Let_def
  by (intro keeps_bind keeps_basic keeps_find_row)+

lemma status_writes_keep:
  "keeps (academic_inv coll) (repo_DeleteReview i u now)" "keeps (academic_inv coll) (UpdateReviewStatus i st now)"
  "keeps (academic_inv coll) (UpdateMaterialStatus i ow st now)" "keeps (academic_inv (ac_coll s)) (UpdateCourseStatus s i st now)"
  unfolding repo_DeleteReview_def UpdateReviewStatus_def UpdateMaterialStatus_def UpdateCourseStatus_def
  by (intro keeps_bind keeps_basic review_rows_keep(1) material_rows_keep course_rows_keep)+

lemma create_material_keeps: "keeps (academic_inv coll) (CreateMaterial m)"
proof -
  have "keeps (academic_inv coll) (create_child (has_course (Material_CourseID m)) materials materials_update materials_ok m)"
    by (rule keeps_create_child_ok) (auto simp: academic_inv_def)
  then show ?thesis unfolding CreateMaterial_def by (intro keeps_bind keeps_basic)
qed

lemma academic_helpers_keep:
  "keeps I (checkContent s u r)" "keeps I (academic_filterText s v)" "keeps I (root_school s r)" "keeps I (normal_course i)"
proof -
  show "keeps I (checkContent s u r)" "keeps I (academic_filterText s v)" "keeps I (root_school s r)"
    unfolding checkContent_def academic_filterText_def root_school_def
    by (auto intro: keeps_basic keeps_result split: option.split sum.split)
  show "keeps I (normal_course i)"
    unfolding normal_course_def
    by (intro keeps_bind keeps_wrapped academic_reads_keep) (auto split: option.split)
qed

lemmas academic_keeps = keeps_result keeps_present keeps_wrapped keeps_map_error keeps_basic academic_reads_keep status_writes_keep
  academic_helpers_keep

lemma course_calls_keep:
  "keeps (academic_inv (ac_coll s)) (CreateCourse s u r req n now)"
  "keeps (academic_inv (ac_coll s)) (MergeCourses s src tgt now)"
  "keeps (academic_inv (ac_coll s)) (HideCourse s i hidden now)"
proof -
  show "keeps (academic_inv (ac_coll s)) (CreateCourse s u r req n now)"
    unfolding CreateCourse_def Let_def by (intro keeps_bind keeps_if academic_keeps create_course_keeps) simp
  show "keeps (academic_inv (ac_coll s)) (MergeCourses s src tgt now)"
    unfolding MergeCourses_def by (intro keeps_bind keeps_if academic_keeps merge_keeps)
  show "keeps (academic_inv (ac_coll s)) (HideCourse s i hidden now)"
    unfolding HideCourse_def updateCourseStatus_def by (intro keeps_bind keeps_if academic_keeps)
qed

lemma review_calls_keep:
  "keeps (academic_inv coll) (SaveReview s u r i req n now)" "keeps (academic_inv coll) (DeleteReview r i now)"
  "keeps (academic_inv coll) (HideReview i hidden now)"
proof -
  have "validRatings req \<Longrightarrow> ratings_ok (new_review req content i r n now)" for content i
    by (simp add: validRatings_def ratings_ok_def new_review_def)
  then show "keeps (academic_inv coll) (SaveReview s u r i req n now)"
    unfolding SaveReview_def Let_def by (intro keeps_bind keeps_if academic_keeps save_review_keeps) simp
  show "keeps (academic_inv coll) (DeleteReview r i now)" "keeps (academic_inv coll) (HideReview i hidden now)"
    unfolding DeleteReview_def HideReview_def by (intro keeps_bind keeps_if academic_keeps)+
qed

lemma material_calls_keep:
  "keeps (academic_inv coll) (UploadMaterial s u r i semester title description stream n now)"
  "keeps (academic_inv coll) (DeleteMaterial s r i now)" "keeps (academic_inv coll) (HideMaterial i hidden now)"
proof -
  show "keeps (academic_inv coll) (UploadMaterial s u r i semester title description stream n now)"
    unfolding UploadMaterial_def Let_def
    by (intro keeps_bind keeps_if academic_keeps keeps_attempt create_material_keeps)
      (auto intro!: keeps_bind split: sum.split)
  show "keeps (academic_inv coll) (DeleteMaterial s r i now)"
    unfolding DeleteMaterial_def
    by (intro keeps_bind academic_keeps) (auto intro!: keeps_bind academic_keeps split: option.split)
  show "keeps (academic_inv coll) (HideMaterial i hidden now)"
    unfolding HideMaterial_def by (intro keeps_bind keeps_if academic_keeps)
qed

lemma academic_queries_keep:
  "keeps I (SearchCourses s r keyword page sz)" "keeps I (CourseDetail s i)" "keeps I (ListReviews s i page sz)"
  "keeps I (ListMaterials s i page sz)" "keeps I (ListMyMaterials s r page sz)" "keeps I (MaterialDownloadURL s r i)"
  "keeps I (academic_ReportTarget ty i)"
proof -
  show "keeps I (SearchCourses s r keyword page sz)" "keeps I (ListReviews s i page sz)" "keeps I (ListMaterials s i page sz)"
    "keeps I (ListMyMaterials s r page sz)"
    unfolding SearchCourses_def ListReviews_def ListMaterials_def ListMyMaterials_def Let_def split_def
    by (intro keeps_bind academic_keeps)+
  show "keeps I (CourseDetail s i)" "keeps I (MaterialDownloadURL s r i)" "keeps I (academic_ReportTarget ty i)"
    unfolding CourseDetail_def MaterialDownloadURL_def academic_ReportTarget_def
    by (intro keeps_bind keeps_if academic_keeps; auto intro!: keeps_bind academic_keeps split: option.split)+
qed

section \<open>The system\<close>

text \<open>A call of the service, with any argument, result and failures.\<close>

inductive academic_call :: "academic_env \<Rightarrow> academic_db \<Rightarrow> academic_db \<Rightarrow> bool" for s where
  create_course: "outcome (CreateCourse s u r req n now) t x t' \<Longrightarrow> academic_call s t t'"
| merge_courses: "outcome (MergeCourses s src tgt now) t x t' \<Longrightarrow> academic_call s t t'"
| hide_course: "outcome (HideCourse s i hidden now) t x t' \<Longrightarrow> academic_call s t t'"
| save_review: "outcome (SaveReview s u r i rreq n now) t x t' \<Longrightarrow> academic_call s t t'"
| delete_review: "outcome (DeleteReview r i now) t x t' \<Longrightarrow> academic_call s t t'"
| hide_review: "outcome (HideReview i hidden now) t x t' \<Longrightarrow> academic_call s t t'"
| upload: "outcome (UploadMaterial s u r i semester title description stream n now) t x t' \<Longrightarrow> academic_call s t t'"
| delete_material: "outcome (DeleteMaterial s r i now) t x t' \<Longrightarrow> academic_call s t t'"
| hide_material: "outcome (HideMaterial i hidden now) t x t' \<Longrightarrow> academic_call s t t'"
| hide_reported: "outcome (HideReportTarget ty i now) t x t' \<Longrightarrow> academic_call s t t'"
| search: "outcome (SearchCourses s r keyword page sz) t x t' \<Longrightarrow> academic_call s t t'"
| detail: "outcome (CourseDetail s i) t x t' \<Longrightarrow> academic_call s t t'"
| list_reviews: "outcome (ListReviews s i page sz) t x t' \<Longrightarrow> academic_call s t t'"
| list_materials: "outcome (ListMaterials s i page sz) t x t' \<Longrightarrow> academic_call s t t'"
| list_mine: "outcome (ListMyMaterials s r page sz) t x t' \<Longrightarrow> academic_call s t t'"
| download: "outcome (MaterialDownloadURL s r i) t x t' \<Longrightarrow> academic_call s t t'"
| report_target: "outcome (academic_ReportTarget ty i) t x t' \<Longrightarrow> academic_call s t t'"

definition academic_start :: "academic_db \<Rightarrow> bool" where
  "academic_start t \<longleftrightarrow> courses t = [] \<and> reviews t = [] \<and> materials t = []"

interpretation academic_service: invariant_system academic_start "academic_call s" "academic_inv (ac_coll s)" for s
proof (unfold_locales)
  show "academic_start t \<Longrightarrow> academic_inv (ac_coll s) t" for t
    by (simp add: academic_start_def academic_inv_def courses_ok_def reviews_ok_def materials_ok_def)
  have "keeps (academic_inv (ac_coll s)) (HideReportTarget ty i now)" for ty i now
    unfolding HideReportTarget_def by (intro keeps_if review_calls_keep material_calls_keep keeps_basic)
  note keep = this course_calls_keep review_calls_keep material_calls_keep academic_queries_keep
  show "academic_call s t t' \<Longrightarrow> academic_inv (ac_coll s) t \<Longrightarrow> academic_inv (ac_coll s) t'" for t t'
    by (induction rule: academic_call.induct) (erule keep [THEN keepsD], assumption)+
qed

end
