(* ===== verification/Academic_Props.thy ===== *)
theory Academic_Props
  imports Academic_Inv
begin

text \<open>The properties of courses, reviews and materials, and a concrete run for their witnesses.\<close>

section \<open>Statistics\<close>

text \<open>What MySQL documents of \<open>AVG\<close>: the result lies between the smallest and the largest value (in ten-thousandths).\<close>

definition avg_between :: "academic_env \<Rightarrow> bool" where
  "avg_between s \<longleftrightarrow> (\<forall>xs lo hi. xs \<noteq> [] \<longrightarrow> (\<forall>x \<in> set xs. lo \<le> x \<and> x \<le> hi) \<longrightarrow>
     10000 * lo \<le> ac_avg s xs \<and> ac_avg s xs \<le> 10000 * hi)"

text \<open>No rating at all, or an average between one and five stars.\<close>

definition stars :: "int64 \<Rightarrow> int \<Rightarrow> bool" where
  "stars n a \<longleftrightarrow> (if n = 0 then a = 0 else 10000 \<le> a \<and> a \<le> 50000)"

lemma coalesce_stars:
  assumes "avg_between s" and "\<forall>x \<in> set xs. between x"
  shows "stars (int (length xs)) (coalesce_avg s xs)"
  using assms(1) [unfolded avg_between_def, rule_format, of xs 1 5] assms(2)
  by (auto simp: stars_def coalesce_avg_def between_def)

lemma stats_of_bounds:
  assumes "avg_between s" and "\<forall>r \<in> set rs. ratings_ok r"
  shows "Stats_Count (stats_of s rs) = int (length rs)" "stars (int (length rs)) (Stats_Overall (stats_of s rs))"
    "stars (int (length rs)) (Stats_Difficulty (stats_of s rs))" "stars (int (length rs)) (Stats_Workload (stats_of s rs))"
    "stars (int (length rs)) (Stats_Gain (stats_of s rs))"
proof -
  have "stars (int (length rs)) (coalesce_avg s (map f rs))" if "\<forall>r \<in> set rs. between (f r)" for f
    using coalesce_stars [OF assms(1), of "map f rs"] that by simp
  then show "stars (int (length rs)) (Stats_Overall (stats_of s rs))" "stars (int (length rs)) (Stats_Difficulty (stats_of s rs))"
    "stars (int (length rs)) (Stats_Workload (stats_of s rs))" "stars (int (length rs)) (Stats_Gain (stats_of s rs))"
    using assms(2) by (simp_all add: stats_of_def ratings_ok_def)
qed (simp add: stats_of_def)

lemma CourseDetail_run:
  assumes "outcome (CourseDetail s courseID) t (Inr resp) t'"
  shows "\<exists>c \<in> set (courses t). resp = courseResponse (ac_show_time s) c
    (stats_of s (filter (\<lambda>r. Review_CourseID r = Course_ID c \<and> Review_Status r = StatusNormal) (reviews t)))"
  using assms
  by (auto simp: CourseDetail_def FindCourse_def repo_RatingStats_def internal_error_def fixed_error_def present_def run_simps
      result_def split: option.splits if_splits sum.splits dest!: outcome_bind_Inr outcome_find_row(1))
    (rule bexI, rule refl, blast dest: find_member find_member [OF sym])+

section \<open>Merging\<close>

lemma MergeCourses_run:
  assumes "outcome (MergeCourses s sourceID targetID now) t (Inr u) t'"
  obtains source target where "academic_parseID sourceID = Inr source" "academic_parseID targetID = Inr target" "source \<noteq> target"
    "outcome (repo_MergeCourses s source target now :: (academic_event, unit) arepo) t (Inr ()) t'"
  using assms
  by (auto simp: MergeCourses_def result_def internal_error_def run_simps split: sum.splits if_splits dest!: outcome_bind_Inr)

text \<open>After the merge only merged reviews are left in the source, and every author still has a review in the target.\<close>

lemma merged_left:
  assumes "r \<in> set (reviews (merged_tables source target now t))" and "Review_CourseID r = source" and "source \<noteq> target"
  shows "Review_Status r = StatusMerged"
proof -
  let ?ps = "filter (\<lambda>r. Review_CourseID r = source) (reviews t)"
  obtain x where x: "x \<in> set (reviews t)" "r = merged_row target now (reviews t) ?ps x"
    using assms(1) by (auto simp: merged_tables_def)
  show ?thesis
  proof (cases "x \<in> set ?ps")
    case True
    with x(2) assms(2,3) show ?thesis by (auto simp: merged_row_def review_status_row_def split: if_splits)
  next
    case False
    with x assms(2,3) show ?thesis by (auto simp: merged_row_def split: if_splits option.splits)
  qed
qed

definition opinion :: "review \<Rightarrow> string \<times> string \<times> int \<times> int \<times> int \<times> int" where
  "opinion r = (Review_Semester r, Review_Content r, Review_OverallRating r, Review_DifficultyRating r, Review_WorkloadRating r,
     Review_GainRating r)"

lemma merged_survives:
  assumes ok: "reviews_ok (reviews t)" and r: "r \<in> set (reviews t)" "Review_CourseID r = source" and ne: "source \<noteq> target"
  shows "\<exists>x \<in> set (reviews (merged_tables source target now t)). Review_CourseID x = target \<and>
    Review_RootUserID x = Review_RootUserID r \<and>
    (opinion x = opinion r \<or> x \<in> set (reviews t) \<and> Review_UpdatedAt r \<le> Review_UpdatedAt x)"
proof -
  let ?ps = "filter (\<lambda>r. Review_CourseID r = source) (reviews t)"
  let ?f = "merged_row target now (reviews t) ?ps"
  have rows: "set (reviews (merged_tables source target now t)) = ?f ` set (reviews t)" by (simp add: merged_tables_def)
  show ?thesis
  proof (cases "\<exists>e \<in> set (reviews t). Review_CourseID e = target \<and> Review_RootUserID e = Review_RootUserID r")
    case False
    with r have "?f r = move_review_row target now r" by (auto simp: merged_row_def)
    moreover have "opinion (move_review_row target now r) = opinion r" by (simp add: opinion_def move_review_row_def)
    ultimately have "Review_CourseID (?f r) = target \<and> Review_RootUserID (?f r) = Review_RootUserID r \<and> opinion (?f r) = opinion r"
      by simp
    with r(1) rows show ?thesis by blast
  next
    case True
    then obtain e where e: "e \<in> set (reviews t)" "Review_CourseID e = target" "Review_RootUserID e = Review_RootUserID r" by blast
    have "find (\<lambda>p. Review_RootUserID p = Review_RootUserID e) ?ps = Some r"
    proof (cases "find (\<lambda>p. Review_RootUserID p = Review_RootUserID e) ?ps")
      case None
      with e r show ?thesis by (auto simp: find_None_iff)
    next
      case (Some p)
      then have "p \<in> set (reviews t)" "Review_CourseID p = source" "Review_RootUserID p = Review_RootUserID e"
        by (auto dest: find_member)
      with rows_same(2) [OF ok _ r(1)] e(3) r(2) Some show ?thesis by simp
    qed
    then have after: "?f e = (if Review_UpdatedAt r > Review_UpdatedAt e then rewrite_review r (Review_Status r) now e else e)"
      using e ne by (simp add: merged_row_def)
    have "opinion (rewrite_review r st now e) = opinion r" for st by (simp add: opinion_def rewrite_review_def)
    with after e have "Review_CourseID (?f e) = target \<and> Review_RootUserID (?f e) = Review_RootUserID r \<and>
        (opinion (?f e) = opinion r \<or> ?f e \<in> set (reviews t) \<and> Review_UpdatedAt r \<le> Review_UpdatedAt (?f e))"
      by simp
    with e(1) rows show ?thesis by blast
  qed
qed

section \<open>A run\<close>

text \<open>Two courses at the school of the accounts 7 and 8; 7 reviews both, 8 the first one; then the first is merged into the second.\<close>

definition ax_avg :: "int list \<Rightarrow> int" where
  "ax_avg xs = (10000 * sum_list xs) div int (length xs)"

definition ax_env :: academic_env where
  "ax_env = \<lparr>ac_capability = None, ac_school = Some (\<lambda>_. Inr ''S''), ac_filter = None, ac_files = None, ac_nfkc = id,
     ac_lower = map lower_char, ac_coll = id, ac_like = (\<lambda>name key. sublist key name), ac_avg = ax_avg,
     ac_duplicate_text = ''Duplicate entry'', ac_recent_courses = rev, ac_recent_reviews = rev, ac_recent_materials = rev,
     ac_show_time = (\<lambda>_. ''t'')\<rparr>"

lemma ax_avg_between: "avg_between ax_env"
  unfolding avg_between_def
proof (intro allI impI)
  fix xs :: "int list" and lo hi
  assume "xs \<noteq> []" and range: "\<forall>x \<in> set xs. lo \<le> x \<and> x \<le> hi"
  then have n: "int (length xs) > 0" by simp
  have "lo * int (length xs) \<le> sum_list xs \<and> sum_list xs \<le> hi * int (length xs)"
    using range by (induction xs) (auto simp: distrib_left)
  then have "10000 * lo * int (length xs) \<le> 10000 * sum_list xs" "10000 * sum_list xs \<le> 10000 * hi * int (length xs)" by simp_all
  with n show "10000 * lo \<le> ac_avg ax_env xs \<and> ac_avg ax_env xs \<le> 10000 * hi"
    using zdiv_mono1 [of "10000 * lo * int (length xs)" "10000 * sum_list xs" "int (length xs)"]
      zdiv_mono1 [of "10000 * sum_list xs" "10000 * hi * int (length xs)" "int (length xs)"]
    by (simp add: ax_env_def ax_avg_def)
qed

definition ax_world :: "academic_db \<Rightarrow> (academic_db, academic_event) world" where
  "ax_world t = \<lparr>tables = t, connected = True, faults = [], outbox = []\<rparr>"

lemma ax_calm [simp]: "calm (ax_world t)" "tables (ax_world t) = t" "(ax_world t)\<lparr>tables := u\<rparr> = ax_world u"
  by (simp_all add: ax_world_def calm_def)

lemma ax_outcome: "m (ax_world t) = (r, ax_world t') \<Longrightarrow> outcome m t r t'"
  using outcomeI [of m "ax_world t" r "ax_world t'"] by simp

definition ax_course :: "int64 \<Rightarrow> string \<Rightarrow> course" where
  "ax_course i name =
     \<lparr>Course_ID = i, Course_School = ''S'', Course_Name = name, Course_NormalizedName = name, Course_Teacher = ''t'',
      Course_NormalizedTeacher = ''t'', Course_Description = ''d'', Course_Status = StatusNormal, Course_MergeTargetID = None,
      Course_CreatedByRootUserID = 7, Course_CreatedAt = 1, Course_UpdatedAt = 1\<rparr>"

definition ax_course_req :: "string \<Rightarrow> create_course_req" where
  "ax_course_req name = \<lparr>CourseReq_Name = name, CourseReq_Teacher = ''t'', CourseReq_Description = ''d''\<rparr>"

definition ax_review_req :: "int \<Rightarrow> review_req" where
  "ax_review_req n = \<lparr>ReviewReq_Semester = ''f'', ReviewReq_Content = ''good'', ReviewReq_OverallRating = n,
     ReviewReq_DifficultyRating = 3, ReviewReq_WorkloadRating = 2, ReviewReq_GainRating = 5\<rparr>"

definition ax_review :: "int64 \<Rightarrow> int64 \<Rightarrow> int64 \<Rightarrow> int \<Rightarrow> review" where
  "ax_review i course user n = new_review (ax_review_req n) ''good'' course user i i"

definition ax_tables :: "course list \<Rightarrow> review list \<Rightarrow> academic_db" where
  "ax_tables cs rs = \<lparr>courses = cs, reviews = rs, materials = []\<rparr>"

definition ax_full :: academic_db where
  "ax_full = ax_tables [ax_course 1 ''a'', ax_course 2 ''b''] [ax_review 11 1 7 4, ax_review 12 2 7 2, ax_review 13 1 8 5]"

lemma ax_names:
  "normalizeName ax_env ''a'' = ''a''" "normalizeName ax_env ''b'' = ''b''" "normalizeName ax_env ''t'' = ''t''"
  by code_simp+

lemma ax_trim:
  "TrimSpace ''a'' = ''a''" "TrimSpace ''b'' = ''b''" "TrimSpace ''t'' = ''t''" "TrimSpace ''d'' = ''d''" "TrimSpace ''S'' = ''S''"
  "TrimSpace ''f'' = ''f''" "TrimSpace ''good'' = ''good''"
  by code_simp+

lemma ax_helpers:
  "checkContent ax_env u r w = (Inr (), w)" "root_school ax_env r w = (Inr ''S'', w)" "academic_filterText ax_env v w = (Inr (TrimSpace v), w)"
  "ac_show_time ax_env = (\<lambda>_. ''t'')" "ac_coll ax_env = id"
  by (simp_all add: checkContent_def root_school_def academic_filterText_def ax_env_def result_def ret_def)

lemmas ax_eval = calm_simps Let_def internal_error_def fixed_error_def ax_helpers ax_trim ax_names

lemma ax_create:
  assumes "normalizeName ax_env name = name" and "TrimSpace name = name" and "name \<noteq> []"
    and ok: "courses_ok id (cs @ [ax_course n name])"
  shows "\<exists>v. CreateCourse ax_env 1 7 (ax_course_req name) n 1 (ax_world (ax_tables cs rs)) =
    (Inr v, ax_world (ax_tables (cs @ [ax_course n name]) rs))"
proof -
  have "find (\<lambda>c. course_identity id c = (''S'', name, ''t'')) cs = None"
    using ok by (auto simp: find_None_iff courses_ok_def course_identity_def ax_course_def image_iff)
  then show ?thesis
    using assms(1-3) ok [unfolded ax_course_def]
    by (simp add: CreateCourse_def FindCourseByIdentity_def repo_CreateCourse_def ax_course_req_def ax_course_def ax_tables_def ax_eval)
qed

lemma ax_save:
  assumes "c \<in> set cs" and "Course_ID c = i" and "distinct (map Course_ID cs)" and "Course_Status c = StatusNormal"
    and "0 < i" and "i < 2 ^ 63" and "between x" and "reviews_ok (rs @ [ax_review n i u x])"
  shows "\<exists>v. SaveReview ax_env 1 u (FormatInt i) (ax_review_req x) n n (ax_world (ax_tables cs rs)) =
    (Inr v, ax_world (ax_tables cs (rs @ [ax_review n i u x])))"
proof -
  have "find (\<lambda>c. Course_ID c = i) cs = Some c"
    using assms(1-3) by (metis find_key lookup_member)
  moreover have "find (\<lambda>r. Review_CourseID r = i \<and> Review_RootUserID r = u) rs = None"
    using assms(8) by (auto simp: find_None_iff reviews_ok_def review_owner_def ax_review_def new_review_def image_iff)
  moreover have "validRatings (ax_review_req x)" using assms(7) by (simp add: validRatings_def ax_review_req_def between_def)
  moreover have "has_course i \<lparr>courses = cs, reviews = rs, materials = []\<rparr>"
    using assms(1,2) by (auto simp: has_course_def list_ex_iff)
  ultimately show ?thesis
    using assms
    by (simp add: SaveReview_def academic_parseID_print result_def normal_course_def FindCourse_def repo_SaveReview_def
        ax_review_def ax_review_req_def new_review_def ax_tables_def ax_eval)
qed

lemma ax_create_call:
  assumes "normalizeName ax_env name = name" and "TrimSpace name = name" and "name \<noteq> []"
    and "courses_ok id (cs @ [ax_course n name])"
  shows "academic_call ax_env (ax_tables cs rs) (ax_tables (cs @ [ax_course n name]) rs)"
  using ax_create [OF assms, of rs] by (blast intro: create_course ax_outcome)

lemma ax_save_call:
  assumes "c \<in> set cs" and "Course_ID c = i" and "distinct (map Course_ID cs)" and "Course_Status c = StatusNormal"
    and "0 < i" and "i < 2 ^ 63" and "between x" and "reviews_ok (rs @ [ax_review n i u x])"
  shows "academic_call ax_env (ax_tables cs rs) (ax_tables cs (rs @ [ax_review n i u x]))"
  using ax_save [OF assms] by (blast intro: save_review ax_outcome)

lemma ax_reachable: "reachable academic_start (academic_call ax_env) ax_full"
proof -
  let ?a = "ax_course 1 ''a''" and ?b = "ax_course 2 ''b''"
  let ?r = "ax_review 11 1 7 4" and ?q = "ax_review 12 2 7 2" and ?p = "ax_review 13 1 8 5"
  note rows = ax_course_def ax_review_def new_review_def courses_ok_def course_identity_def reviews_ok_def review_owner_def between_def
  have "academic_call ax_env (ax_tables [] []) (ax_tables ([] @ [?a]) [])"
    by (rule ax_create_call) (simp_all add: rows ax_names ax_trim)
  moreover have "academic_call ax_env (ax_tables [?a] []) (ax_tables ([?a] @ [?b]) [])"
    by (rule ax_create_call) (simp_all add: rows ax_names ax_trim)
  moreover have "academic_call ax_env (ax_tables [?a, ?b] []) (ax_tables [?a, ?b] ([] @ [?r]))"
    by (rule ax_save_call [of ?a]) (simp_all add: rows)
  moreover have "academic_call ax_env (ax_tables [?a, ?b] [?r]) (ax_tables [?a, ?b] ([?r] @ [?q]))"
    by (rule ax_save_call [of ?b]) (simp_all add: rows)
  moreover have "academic_call ax_env (ax_tables [?a, ?b] [?r, ?q]) (ax_tables [?a, ?b] ([?r, ?q] @ [?p]))"
    by (rule ax_save_call [of ?a]) (simp_all add: rows)
  moreover have "reachable academic_start (academic_call ax_env) (ax_tables [] [])"
    by (rule reachable_start) (simp add: academic_start_def ax_tables_def)
  ultimately show ?thesis unfolding ax_full_def append.simps by (meson reachable_step)
qed

lemma ax_detail:
  "\<exists>v. CourseDetail ax_env (FormatInt 2) (ax_world ax_full) = (Inr v, ax_world ax_full) \<and> Stats_Count (CourseResponse_Stats v) = 1"
  by (simp add: CourseDetail_def academic_parseID_print result_def present_def FindCourse_def repo_RatingStats_def ax_full_def
      ax_tables_def ax_course_def ax_review_def new_review_def courseResponse_def stats_of_def ax_eval)

lemma ax_merge: "\<exists>t'. MergeCourses ax_env (FormatInt 1) (FormatInt 2) 20 (ax_world ax_full) = (Inr (), ax_world t')"
  by (simp add: MergeCourses_def academic_parseID_print result_def repo_MergeCourses_def merge_review_def ax_full_def
      ax_tables_def ax_course_def ax_review_def new_review_def move_review_row_def review_status_row_def rewrite_review_def
      merge_course_row_def update_rows_def reviews_ok_def review_owner_def courses_ok_def course_identity_def materials_ok_def ax_eval)
    (rule exI, rule refl)

section \<open>Properties\<close>

text \<open>
  C39: Ratings stay between one and five stars. In every reachable state each stored rating is from 1 to 5, and the detail of
  a course, also when it follows a merge, counts exactly the visible reviews of the course it shows; its four averages are 0
  without reviews and otherwise between 1 and 5 (in ten-thousandths).
\<close>

theorem ratings_bounded:
  assumes "reachable academic_start (academic_call s) t" and "avg_between s"
    and "outcome (CourseDetail s courseID) t (Inr resp) t'"
  shows "(\<forall>r \<in> set (reviews t). \<forall>x \<in> {Review_OverallRating r, Review_DifficultyRating r, Review_WorkloadRating r, Review_GainRating r}.
      1 \<le> x \<and> x \<le> 5) \<and>
    (\<exists>c \<in> set (courses t). CourseResponse_ID resp = FormatInt (Course_ID c) \<and>
       (let n = int (length (filter (\<lambda>r. Review_CourseID r = Course_ID c \<and> Review_Status r = StatusNormal) (reviews t)));
            st = CourseResponse_Stats resp
        in Stats_Count st = n \<and> stars n (Stats_Overall st) \<and> stars n (Stats_Difficulty st) \<and>
           stars n (Stats_Workload st) \<and> stars n (Stats_Gain st)))"
proof
  have inv: "academic_inv (ac_coll s) t" by (rule academic_service.reachable_inv [OF assms(1)])
  then show "\<forall>r \<in> set (reviews t). \<forall>x \<in> {Review_OverallRating r, Review_DifficultyRating r, Review_WorkloadRating r,
      Review_GainRating r}. 1 \<le> x \<and> x \<le> 5"
    by (auto simp: academic_inv_def ratings_ok_def between_def)
  obtain c where c: "c \<in> set (courses t)" "resp = courseResponse (ac_show_time s) c
      (stats_of s (filter (\<lambda>r. Review_CourseID r = Course_ID c \<and> Review_Status r = StatusNormal) (reviews t)))"
    using CourseDetail_run [OF assms(3)] by blast
  have "\<forall>r \<in> set (filter (\<lambda>r. Review_CourseID r = Course_ID c \<and> Review_Status r = StatusNormal) (reviews t)). ratings_ok r"
    using inv by (auto simp: academic_inv_def)
  note bounds = stats_of_bounds [OF assms(2) this]
  show "\<exists>c \<in> set (courses t). CourseResponse_ID resp = FormatInt (Course_ID c) \<and>
       (let n = int (length (filter (\<lambda>r. Review_CourseID r = Course_ID c \<and> Review_Status r = StatusNormal) (reviews t)));
            st = CourseResponse_Stats resp
        in Stats_Count st = n \<and> stars n (Stats_Overall st) \<and> stars n (Stats_Difficulty st) \<and>
           stars n (Stats_Workload st) \<and> stars n (Stats_Gain st))"
    using c(1) bounds by (intro bexI [of _ c]) (simp_all add: c(2) courseResponse_def)
qed

theorem ratings_bounded_witness:
  "\<exists>resp. outcome (CourseDetail ax_env (FormatInt 2)) ax_full (Inr resp) ax_full \<and> Stats_Count (CourseResponse_Stats resp) = 1 \<and>
     10000 \<le> Stats_Overall (CourseResponse_Stats resp) \<and> Stats_Overall (CourseResponse_Stats resp) \<le> 50000"
proof -
  obtain resp where run: "outcome (CourseDetail ax_env (FormatInt 2)) ax_full (Inr resp) ax_full"
    and one: "Stats_Count (CourseResponse_Stats resp) = 1"
    using ax_detail ax_outcome by blast
  have "stars 1 (Stats_Overall (CourseResponse_Stats resp))"
    using ratings_bounded [OF ax_reachable ax_avg_between run, THEN conjunct2] one by (auto simp: Let_def)
  with run one show ?thesis by (auto simp: stars_def)
qed

text \<open>
  C40: Merging two courses is exactly its specification and loses nobody's review. A successful merge, whatever else the tables
  hold, gives the state computed by one pass over the rows; afterwards the source holds only reviews marked as merged, and
  every author of a review in the source has a review in the target: the same opinion, or the author's own review there when
  that is at least as recent. The source course points to the target.
\<close>

theorem merge_preserves_reviews:
  assumes "reachable academic_start (academic_call s) t" and "outcome (MergeCourses s sourceID targetID now) t (Inr ()) t'"
  shows "\<exists>source target. academic_parseID sourceID = Inr source \<and> academic_parseID targetID = Inr target \<and> source \<noteq> target \<and>
    t' = merged_tables source target now t \<and>
    (\<forall>r \<in> set (reviews t'). Review_CourseID r = source \<longrightarrow> Review_Status r = StatusMerged) \<and>
    (\<forall>r \<in> set (reviews t). Review_CourseID r = source \<longrightarrow>
       (\<exists>x \<in> set (reviews t'). Review_CourseID x = target \<and> Review_RootUserID x = Review_RootUserID r \<and>
          (opinion x = opinion r \<or> x \<in> set (reviews t) \<and> Review_UpdatedAt r \<le> Review_UpdatedAt x))) \<and>
    (\<exists>c \<in> set (courses t'). Course_ID c = source \<and> Course_MergeTargetID c = Some target)"
proof -
  have ok: "reviews_ok (reviews t)" using academic_service.reachable_inv [OF assms(1)] by (simp add: academic_inv_def)
  obtain source target where parsed: "academic_parseID sourceID = Inr source" "academic_parseID targetID = Inr target"
    and ne: "source \<noteq> target"
    and run: "outcome (repo_MergeCourses s source target now :: (academic_event, unit) arepo) t (Inr ()) t'"
    using assms(2) by (rule MergeCourses_run)
  have t': "t' = merged_tables source target now t" by (rule MergeCourses_outcome [OF run ok ne])
  obtain c where c: "c \<in> set (courses t)" "Course_ID c = source" using run by (rule MergeCourses_parts) blast
  have "merge_course_row target now c \<in> set (courses t')"
    using c by (auto simp: t' merged_tables_def update_rows_def)
  moreover have "Course_ID (merge_course_row target now c) = source" "Course_MergeTargetID (merge_course_row target now c) = Some target"
    using c by (simp_all add: merge_course_row_def)
  ultimately have "\<exists>c \<in> set (courses t'). Course_ID c = source \<and> Course_MergeTargetID c = Some target" by blast
  then show ?thesis
    using parsed ne t' merged_left [OF _ _ ne] merged_survives [OF ok _ _ ne] by blast
qed

theorem merge_preserves_reviews_witness:
  "\<exists>t'. outcome (MergeCourses ax_env (FormatInt 1) (FormatInt 2) 20) ax_full (Inr ()) t' \<and> t' = merged_tables 1 2 20 ax_full"
proof -
  obtain t' where run: "outcome (MergeCourses ax_env (FormatInt 1) (FormatInt 2) 20) ax_full (Inr ()) t'"
    using ax_merge ax_outcome by blast
  from merge_preserves_reviews [OF ax_reachable run] have "t' = merged_tables 1 2 20 ax_full"
    by (auto simp: academic_parseID_print)
  with run show ?thesis by blast
qed

section \<open>An observation\<close>

text \<open>
  Deleting a material does not require that it is not deleted yet: the owner can call it twice, and the reference of the file
  is released twice.
\<close>

lemma delete_material_calm:
  assumes "calm w" and "ac_files s = Some fs" and "academic_parseID i = Inr (Material_ID m)" and "materials (tables w) = [m]"
    and "Material_UpdatedAt m < now"
  shows "DeleteMaterial s (Material_RootUserID m) i now w =
    (Inr (), w\<lparr>tables := materials_update (\<lambda>_. [material_status_row StatusDeleted now m]) (tables w),
               outbox := outbox w @ [FileReleased (Material_FileMD5 m)]\<rparr>)"
proof -
  have changed: "material_status_row StatusDeleted now m \<noteq> m"
  proof
    assume "material_status_row StatusDeleted now m = m"
    then have "Material_UpdatedAt (material_status_row StatusDeleted now m) = Material_UpdatedAt m" by simp
    with assms(5) show False by (simp add: material_status_row_def)
  qed
  obtain t where t: "t = tables w" by blast
  have "materials_update (update_rows P (material_status_row StatusDeleted now)) t = materials_update (\<lambda>_. [material_status_row StatusDeleted now m]) t"
    if "P m" for P
    using that assms(4) by (cases t) (simp add: t update_rows_def)
  with changed assms t show ?thesis
    by (simp add: DeleteMaterial_def FindMaterial_def UpdateMaterialStatus_def result_def present_def fixed_error_def calm_simps
        rows_changed_def update_rows_def materials_ok_def)
qed

lemma material_released_twice:
  assumes "calm w" and "ac_files s = Some fs" and "academic_parseID i = Inr (Material_ID m)" and "materials (tables w) = [m]"
    and "Material_UpdatedAt m < now" and "now < now'"
  shows "\<exists>w'. bind (DeleteMaterial s (Material_RootUserID m) i now) (\<lambda>_. DeleteMaterial s (Material_RootUserID m) i now') w = (Inr (), w') \<and>
    outbox w' = outbox w @ [FileReleased (Material_FileMD5 m), FileReleased (Material_FileMD5 m)]"
proof -
  let ?m = "material_status_row StatusDeleted now m"
  have same: "Material_ID ?m = Material_ID m" "Material_RootUserID ?m = Material_RootUserID m" "Material_UpdatedAt ?m = now"
    "Material_FileMD5 ?m = Material_FileMD5 m" by (simp_all add: material_status_row_def)
  show ?thesis
    using assms delete_material_calm [OF assms(1-5)] delete_material_calm [where m = ?m and now = now' and s = s and i = i and fs = fs]
    by (simp add: bind_step same)
qed

end
