(* ===== verification/Social_Model.thy ===== *)
theory Social_Model
  imports Bizerr Pagination
begin

text \<open>
  Topics, comments and the messages between them: the collections that \<open>internal/topic\<close>, \<open>internal/comment\<close> and the
  consumers of \<open>internal/mq\<close> share, and what the three packages send to the queue.

  An ObjectID is its 24 hexadecimal digits in lower case. A field that is absent and a zero value are the same, except
  \<open>hasCheck\<close> of a comment, which \<open>omitempty\<close> leaves out when it is false: there \<open>None\<close> is the absent field. Times are
  milliseconds. The value of \<open>ext\<close>, any JSON value, is kept as its text. Counters are the numbers the server keeps.
\<close>

section \<open>Collections\<close>

record topic_doc =
  Topic_ID :: string
  Topic_ThemeID :: string
  Topic_UserID :: string
  Topic_Title :: string
  Topic_Content :: string
  Topic_Imgs :: "string list"
  Topic_HasCheck :: bool
  Topic_VisitedNum :: int64
  Topic_LikeNum :: int64
  Topic_CommentNum :: int64
  Topic_CollectionNum :: int64
  Topic_Ext :: "string option"
  Topic_AccountType :: string
  Topic_NickName :: string
  Topic_Avatar :: string
  Topic_gender :: string
  Topic_signature :: string
  Topic_account_type :: string

record comment_user =
  CUser_UserID :: string
  CUser_Avatar :: string
  CUser_NickName :: string
  CUser_AccountType :: string
  CUser_Signature :: string
  CUser_gender :: string

record comment_doc =
  Comment_ID :: string
  Comment_TopicID :: string
  Comment_Comment :: string
  Comment_CreatedTime :: instant
  Comment_User :: comment_user
  Comment_Parent :: "comment_user option"
  Comment_ParentCmtID :: string
  Comment_RootCmtID :: string
  Comment_IsAuthor :: bool
  Comment_LikeNum :: int64
  Comment_CommentNum :: int64
  Comment_HasCheck :: "bool option"
  Comment_deletedTime :: "instant option"

record comment_like =
  CLike_CommentID :: string
  CLike_UserIDs :: "string list"

text \<open>\<open>TopicLike\<close> and \<open>TopicCollection\<close>: one document per user and account type, with the topics.\<close>

record topic_state =
  State_UserID :: string
  State_ThemeName :: string
  State_AccountType :: string
  State_TopicIDs :: "string list"

record theme_doc =
  Theme_Name :: string
  Theme_ThemeID :: string

text \<open>The columns of \<open>campus_user\<close> the three packages read.\<close>

record user_row =
  User_ID :: int64
  User_Nickname :: string
  User_Avatar :: string
  User_AccountType :: string
  User_Power :: int
  User_Gender :: string
  User_RootUserID :: int64
  User_Signature :: string
  User_StuIsCheck :: bool
  User_ProvisionalExpiresAt :: "instant option"
  User_OpenID :: string

record die_msg =
  Die_Queue :: string
  Die_Payload :: "string option"
  Die_Reason :: string

record mq_log =
  Log_CreatedTime :: instant
  Log_Type :: string
  Log_Data :: die_msg

text \<open>The keys of Redis: the number of the last message, and the state of messages, with the time it expires.\<close>

record social_db =
  topics :: "topic_doc list"
  comments :: "comment_doc list"
  comment_likes :: "comment_like list"
  topic_likes :: "topic_state list"
  topic_collections :: "topic_state list"
  themes :: "theme_doc list"
  campus_users :: "user_row list"
  campus_mq :: "mq_log list"
  mq_uuid :: int64
  mq_status :: "string \<rightharpoonup> int \<times> instant"

definition topic_ids_ok :: "topic_doc list \<Rightarrow> bool" where
  "topic_ids_ok ts \<longleftrightarrow> distinct (map Topic_ID ts)"

definition comment_ids_ok :: "comment_doc list \<Rightarrow> bool" where
  "comment_ids_ok cs \<longleftrightarrow> distinct (map Comment_ID cs)"

section \<open>Messages\<close>

record notify_msg =
  Notify_EventID :: int64
  Notify_TargetUserID :: string
  Notify_SenderUserID :: string
  Notify_Type :: string
  Notify_Content :: string
  Notify_TopicID :: string
  Notify_CommentID :: string
  Notify_CreatedTime :: instant

record user_update_msg =
  Profile_UserID :: string
  Profile_NickName :: string
  Profile_Avatar :: string
  Profile_Gender :: string
  Profile_Signature :: string
  Profile_AccountType :: int

datatype mq_data =
    TopicCheckMsg string
  | AddCommentMsg comment_doc
  | NotifyMsg notify_msg
  | TopicDeleteMsg string
  | CommentDeleteMsg string string

definition KeyTopicCheck :: string where "KeyTopicCheck = ''topic_check''"
definition KeyAddComment :: string where "KeyAddComment = ''add_comment''"
definition KeyNotifyUser :: string where "KeyNotifyUser = ''notify_user''"
definition KeyDeleteTopic :: string where "KeyDeleteTopic = ''delete_topic''"
definition KeyDeleteComment :: string where "KeyDeleteComment = ''delete_comment''"

text \<open>What is published: the routing key, the unique number of the message and its data.\<close>

datatype social_event = Published_MQ string int64 mq_data

section \<open>Programs\<close>

datatype social_sentinel =
    FilterFailed string | SliceOutOfRange | DecodeFailed | NoWXClient | BadObjectID | BadWXUser | NoOpenID | SecCheckFailed
  | QRCheckFailed | NoWriter | WriterFailed string | EmptyCommentID

type_synonym srepo_error = "social_sentinel goerror"
type_synonym 'a srepo = "(social_db, social_event, srepo_error, 'a) prog"

text \<open>
  What the packages are given. \<open>so_object_id\<close> is \<open>primitive.ObjectIDFromHex\<close> and \<open>so_id_time\<close> the printed time in
  an ObjectID; \<open>so_topic_order\<close> and \<open>so_comment_order\<close> are the server's sort for a list of fields and directions;
  \<open>so_regex\<close> is its pattern matching (\<open>None\<close> for a pattern it refuses). \<open>so_nano\<close> and \<open>so_snowflake\<close> number messages.
\<close>

record social_env =
  so_has_db :: bool
  so_has_redis :: bool
  so_producer :: bool
  so_checker :: "(int64 \<Rightarrow> int64 \<Rightarrow> string \<Rightarrow> string option) option"
  so_filter :: "(string \<Rightarrow> string + string) option"
  so_page_size :: "int option"
  so_object_id :: "string \<Rightarrow> string option"
  so_id_time :: "string \<Rightarrow> string"
  so_topic_order :: "(string \<times> int) list \<Rightarrow> topic_doc list \<Rightarrow> topic_doc list"
  so_comment_order :: "(string \<times> int) list \<Rightarrow> comment_doc list \<Rightarrow> comment_doc list"
  so_regex :: "string \<Rightarrow> (string \<Rightarrow> bool) option"
  so_lower :: "string \<Rightarrow> string"
  so_nano :: int64
  so_snowflake :: int64

text \<open>The SQL handle may be missing; the MongoDB handle is \<open>connected\<close>.\<close>

definition sql_db :: "social_env \<Rightarrow> 'a srepo \<Rightarrow> 'a srepo" where
  "sql_db s m = (if so_has_db s then m else throw (Db NotInitialized))"

text \<open>\<open>_, _ = m\<close>, or an error that is only logged.\<close>

definition ignored :: "(social_db, social_event, 'e, 'a) prog \<Rightarrow> (social_db, social_event, 'f, unit) prog" where
  "ignored m = bind (attempt m) (\<lambda>_. ret ())"

text \<open>\<open>BaseProducer.Send\<close>: number the message, then publish it.\<close>

definition next_uuid :: "social_env \<Rightarrow> int64 srepo" where
  "next_uuid s =
     (if so_has_redis s then stmt (\<lambda>t. Inr (mq_uuid t + 1, t\<lparr>mq_uuid := mq_uuid t + 1\<rparr>)) else ret (so_nano s))"

definition mq_Send :: "social_env \<Rightarrow> string \<Rightarrow> mq_data \<Rightarrow> unit srepo" where
  "mq_Send s key data =
     bind (next_uuid s) (\<lambda>uniqueID.
     bind (read_rows (\<lambda>_. ())) (\<lambda>_.
     emit (Published_MQ key uniqueID data)))"

definition SendTopicCheck :: "social_env \<Rightarrow> string \<Rightarrow> unit srepo" where
  "SendTopicCheck s topicID = mq_Send s KeyTopicCheck (TopicCheckMsg topicID)"

definition SendDeleteTopic :: "social_env \<Rightarrow> string \<Rightarrow> unit srepo" where
  "SendDeleteTopic s topicID = mq_Send s KeyDeleteTopic (TopicDeleteMsg topicID)"

definition SendNotifyUser :: "social_env \<Rightarrow> notify_msg \<Rightarrow> unit srepo" where
  "SendNotifyUser s msg =
     mq_Send s KeyNotifyUser
       (NotifyMsg (if Notify_EventID msg \<le> 0 then msg\<lparr>Notify_EventID := so_snowflake s\<rparr> else msg))"

text \<open>The payload has every field of the comment but the two that only the server knows.\<close>

definition SendAddComment :: "social_env \<Rightarrow> comment_doc \<Rightarrow> unit srepo" where
  "SendAddComment s item = mq_Send s KeyAddComment (AddCommentMsg item)"

definition SendDeleteComment :: "social_env \<Rightarrow> string \<Rightarrow> string \<Rightarrow> unit srepo" where
  "SendDeleteComment s topicID commentID = mq_Send s KeyDeleteComment (CommentDeleteMsg topicID commentID)"

text \<open>\<open>TopicLike\<close> and \<open>TopicCollection\<close> are handled by the same methods with the name of the collection.\<close>

datatype state_coll = CollLike | CollCollection

definition state_docs :: "state_coll \<Rightarrow> social_db \<Rightarrow> topic_state list" where
  "state_docs c t = (case c of CollLike \<Rightarrow> topic_likes t | CollCollection \<Rightarrow> topic_collections t)"

definition state_docs_update :: "state_coll \<Rightarrow> (topic_state list \<Rightarrow> topic_state list) \<Rightarrow> social_db \<Rightarrow> social_db" where
  "state_docs_update c f t =
     (case c of CollLike \<Rightarrow> topic_likes_update f t | CollCollection \<Rightarrow> topic_collections_update f t)"

text \<open>\<open>$addToSet\<close> and \<open>$pull\<close>.\<close>

definition add_to_set :: "'a \<Rightarrow> 'a list \<Rightarrow> 'a list" where
  "add_to_set x xs = (if x \<in> set xs then xs else xs @ [x])"

end
