(* ===== verification/Topic_Service.thy ===== *)
theory Topic_Service
  imports Social_Model
begin

text \<open>
  The repository and the service of the topics (\<open>internal/topic\<close>).

  A topic that is read carries, beside the document, the fields the service fills in; \<open>topic_view\<close> has them. An error
  that the code only logs leaves what was filled in before it. \<open>newID\<close> is the ObjectID the driver generates, \<open>now\<close> the
  clock. A slice with bounds out of range panics: that is the sentinel \<open>SliceOutOfRange\<close>, which no caller wraps.
\<close>

section \<open>Data and errors\<close>

datatype topic_msg =
    MTopicParam | MTopicMissing | MTargetUserMissing | MTopicUserMissing | MThemeMissing | MAnonymousMissing | MAlreadyLiked
  | MCollectionLimit | MAuthClaims | MQueryTheme | MQueryAnonymous | MQueryTopicUser | MQueryTopic | MCreateTopic | MDeleteTopic
  | MUpdateTopic | MListTopics | MListHot | MQueryTarget | MCertification | MLikeTopic | MUnlikeTopic | MCountCollection | MCollectTopic
  | MUncollectTopic | MQueryAdmin | MFilterTopic

type_synonym topic_error = "(topic_msg, srepo_error) svc_error"
type_synonym 'a tservice = "(social_db, social_event, topic_error, 'a) prog"

definition topic_ErrTopicNotFound :: topic_error where "topic_ErrTopicNotFound = NotFound MTopicMissing"
definition ErrTargetUserNotFound :: topic_error where "ErrTargetUserNotFound = NotFound MTargetUserMissing"
definition topic_ErrUserNotFound :: topic_error where "topic_ErrUserNotFound = NotFound MTopicUserMissing"
definition ErrThemeNotFound :: topic_error where "ErrThemeNotFound = NotFound MThemeMissing"
definition ErrAnonymousAccountNotFound :: topic_error where "ErrAnonymousAccountNotFound = Biz MAnonymousMissing"
definition ErrTopicAlreadyLiked :: topic_error where "ErrTopicAlreadyLiked = Biz MAlreadyLiked"
definition ErrTopicCollectionLimit :: topic_error where "ErrTopicCollectionLimit = Biz MCollectionLimit"
definition ErrInvalidAuthClaims :: topic_error where "ErrInvalidAuthClaims = Unauthorized MAuthClaims"

record topic_view =
  View_Topic :: topic_doc
  View_StuIsCheck :: "bool option"
  View_ProvisionalExpiresAt :: "instant option"
  View_CreatedTime :: string
  View_HasLike :: bool
  View_HasCollection :: bool

definition decoded_topic :: "topic_doc \<Rightarrow> topic_view" where
  "decoded_topic d =
     \<lparr>View_Topic = d, View_StuIsCheck = None, View_ProvisionalExpiresAt = None, View_CreatedTime = [], View_HasLike = False,
      View_HasCollection = False\<rparr>"

record create_topic_req =
  NewTopic_ThemeID :: string
  NewTopic_Title :: string
  NewTopic_Content :: string
  NewTopic_Imgs :: "string list"
  NewTopic_Ext :: "string option"
  NewTopic_AccountType :: string

record update_topic_req =
  ChgTopic_Title :: string
  ChgTopic_Content :: string
  ChgTopic_Imgs :: "string list"
  ChgTopic_Ext :: "string option"
  ChgTopic_HasCheck :: "bool option"

record claims =
  Claims_UserID :: int64
  Claims_RootUserID :: int64
  Claims_AccountType :: string

text \<open>The \<open>$set\<close> document of an update.\<close>

record topic_update =
  Set_Title :: "string option"
  Set_Content :: "string option"
  Set_Imgs :: "string list option"
  Set_Ext :: "string option"
  Set_HasCheck :: "bool option"

definition no_update :: topic_update where
  "no_update = \<lparr>Set_Title = None, Set_Content = None, Set_Imgs = None, Set_Ext = None, Set_HasCheck = None\<rparr>"

definition set_topic :: "topic_update \<Rightarrow> topic_doc \<Rightarrow> topic_doc" where
  "set_topic u d =
     d\<lparr>Topic_Title := (case Set_Title u of None \<Rightarrow> Topic_Title d | Some v \<Rightarrow> v),
       Topic_Content := (case Set_Content u of None \<Rightarrow> Topic_Content d | Some v \<Rightarrow> v),
       Topic_Imgs := (case Set_Imgs u of None \<Rightarrow> Topic_Imgs d | Some v \<Rightarrow> v),
       Topic_Ext := (case Set_Ext u of None \<Rightarrow> Topic_Ext d | Some v \<Rightarrow> Some v),
       Topic_HasCheck := (case Set_HasCheck u of None \<Rightarrow> Topic_HasCheck d | Some v \<Rightarrow> v)\<rparr>"

section \<open>Repository\<close>

definition CreateTopic :: "topic_doc \<Rightarrow> unit srepo" where
  "CreateTopic d = bind gormDB (\<lambda>_. create_row topics topics_update topic_ids_ok d)"

text \<open>\<open>UpdateOne\<close> and \<open>UpdateByID\<close> on topics: the filters have the identifier, so at most one document matches.\<close>

definition update_topics :: "(topic_doc \<Rightarrow> bool) \<Rightarrow> (topic_doc \<Rightarrow> topic_doc) \<Rightarrow> bool srepo" where
  "update_topics P f = stmt (\<lambda>t. Inr (list_ex P (topics t), topics_update (update_rows P f) t))"

definition hideTopic :: "(topic_doc \<Rightarrow> bool) \<Rightarrow> bool srepo" where
  "hideTopic P = bind gormDB (\<lambda>_. update_topics P (\<lambda>d. d\<lparr>Topic_HasCheck := False\<rparr>))"

definition HideTopicByUser :: "string \<Rightarrow> string \<Rightarrow> bool srepo" where
  "HideTopicByUser topicID userID = hideTopic (\<lambda>d. Topic_ID d = topicID \<and> Topic_UserID d = userID)"

definition HideTopicAdmin :: "string \<Rightarrow> bool srepo" where
  "HideTopicAdmin topicID = hideTopic (\<lambda>d. Topic_ID d = topicID)"

definition topic_FindTopicByID :: "string \<Rightarrow> bool \<Rightarrow> topic_doc option srepo" where
  "topic_FindTopicByID topicID onlyChecked =
     bind gormDB (\<lambda>_. find_row topics (\<lambda>d. Topic_ID d = topicID \<and> (onlyChecked \<longrightarrow> Topic_HasCheck d)))"

datatype topic_field = VisitedNum | LikeNum | CollectionNum

definition inc_field :: "topic_field \<Rightarrow> int64 \<Rightarrow> topic_doc \<Rightarrow> topic_doc" where
  "inc_field f n d =
     (case f of
        VisitedNum \<Rightarrow> d\<lparr>Topic_VisitedNum := Topic_VisitedNum d + n\<rparr>
      | LikeNum \<Rightarrow> d\<lparr>Topic_LikeNum := Topic_LikeNum d + n\<rparr>
      | CollectionNum \<Rightarrow> d\<lparr>Topic_CollectionNum := Topic_CollectionNum d + n\<rparr>)"

definition IncrementTopicField :: "string \<Rightarrow> topic_field \<Rightarrow> int64 \<Rightarrow> unit srepo" where
  "IncrementTopicField topicID field delta =
     (if delta = 0 then ret ()
      else bind gormDB (\<lambda>_. bind (update_topics (\<lambda>d. Topic_ID d = topicID) (inc_field field delta)) (\<lambda>_. ret ())))"

definition UpdateTopic :: "string \<Rightarrow> string \<Rightarrow> topic_update \<Rightarrow> bool srepo" where
  "UpdateTopic topicID userID u =
     bind gormDB (\<lambda>_. update_topics (\<lambda>d. Topic_ID d = topicID \<and> Topic_UserID d = userID) (set_topic u))"

text \<open>A filter with a pattern the server refuses is \<open>None\<close>; a negative skip is refused too.\<close>

definition page_of_topics ::
  "(topic_doc \<Rightarrow> bool) option \<Rightarrow> (topic_doc list \<Rightarrow> topic_doc list) \<Rightarrow> int \<Rightarrow> int \<Rightarrow> (topic_doc list \<times> int64) srepo" where
  "page_of_topics P order page sz =
     (let page = (if page \<le> 0 then 1 else page);
          sz = (if sz \<le> 0 then 15 else sz)
      in bind gormDB (\<lambda>_.
         bind (stmt (\<lambda>t. case P of None \<Rightarrow> Inl DbFailure | Some P \<Rightarrow> Inr (int (length (filter P (topics t))), t))) (\<lambda>tot.
         bind (stmt (\<lambda>t. case P of
             None \<Rightarrow> Inl DbFailure
           | Some P \<Rightarrow> if wrap64 ((page - 1) * sz) < 0 then Inl DbFailure
                       else Inr (window page sz (order (filter P (topics t))), t))) (\<lambda>rows.
         ret (rows, tot)))))"

definition FindTopicsPage ::
  "social_env \<Rightarrow> (topic_doc \<Rightarrow> bool) option \<Rightarrow> (string \<times> int) list \<Rightarrow> int \<Rightarrow> int \<Rightarrow> (topic_doc list \<times> int64) srepo" where
  "FindTopicsPage s P order_by page sz =
     page_of_topics P (so_topic_order s (if order_by = [] then [(''_id'', -1)] else order_by)) page sz"

text \<open>ObjectIDs are compared as their bytes, which is the order of their hexadecimal digits.\<close>

fun bytes_less :: "string \<Rightarrow> string \<Rightarrow> bool" where
  "bytes_less [] ys = (ys \<noteq> [])"
| "bytes_less (x # xs) [] = False"
| "bytes_less (x # xs) (y # ys) =
     ((of_char x :: nat) < of_char y \<or> x = y \<and> bytes_less xs ys)"

definition hotScore :: "topic_doc \<Rightarrow> int" where
  "hotScore d = Topic_CommentNum d * 9 + Topic_LikeNum d * 6 + Topic_VisitedNum d * 1"

definition recentFlag :: "string \<Rightarrow> topic_doc \<Rightarrow> int" where
  "recentFlag sevenDaysAgo d = (if bytes_less (Topic_ID d) sevenDaysAgo then 0 else 1)"

text \<open>The sort of the pipeline: recent topics first, then by score, then by identifier.\<close>

definition hotter :: "string \<Rightarrow> topic_doc \<Rightarrow> topic_doc \<Rightarrow> bool" where
  "hotter ago a b \<longleftrightarrow>
     recentFlag ago a > recentFlag ago b \<or>
     recentFlag ago a = recentFlag ago b \<and>
       (hotScore a > hotScore b \<or> hotScore a = hotScore b \<and> \<not> bytes_less (Topic_ID a) (Topic_ID b))"

fun insert_hot :: "string \<Rightarrow> topic_doc \<Rightarrow> topic_doc list \<Rightarrow> topic_doc list" where
  "insert_hot ago d [] = [d]"
| "insert_hot ago d (x # xs) = (if hotter ago d x then d # x # xs else x # insert_hot ago d xs)"

definition sort_hot :: "string \<Rightarrow> topic_doc list \<Rightarrow> topic_doc list" where
  "sort_hot ago ds = foldr (insert_hot ago) ds []"

definition SearchHotTopics :: "(topic_doc \<Rightarrow> bool) option \<Rightarrow> string \<Rightarrow> int \<Rightarrow> int \<Rightarrow> (topic_doc list \<times> int64) srepo" where
  "SearchHotTopics P sevenDaysAgo page sz = page_of_topics P (sort_hot sevenDaysAgo) page sz"

definition owns_state :: "string \<Rightarrow> string \<Rightarrow> topic_state \<Rightarrow> bool" where
  "owns_state userID accountType d \<longleftrightarrow> State_UserID d = userID \<and> State_AccountType d = accountType"

definition FindTopicStateDocs :: "state_coll \<Rightarrow> string \<Rightarrow> string \<Rightarrow> topic_state option srepo" where
  "FindTopicStateDocs c userID accountType =
     bind gormDB (\<lambda>_. find_row (state_docs c) (owns_state userID accountType))"

text \<open>The upsert: the first document of the user gets the topic, or a new document is made.\<close>

definition add_state :: "string \<Rightarrow> string \<Rightarrow> string \<Rightarrow> string \<Rightarrow> topic_state list \<Rightarrow> topic_state list" where
  "add_state userID themeName accountType topicID ds =
     (if list_ex (owns_state userID accountType) ds
      then update_first (owns_state userID accountType)
             (\<lambda>d. d\<lparr>State_TopicIDs := add_to_set topicID (State_TopicIDs d)\<rparr>) ds
      else ds @ [\<lparr>State_UserID = userID, State_ThemeName = themeName, State_AccountType = accountType,
                  State_TopicIDs = [topicID]\<rparr>])"

definition AddTopicState :: "state_coll \<Rightarrow> string \<Rightarrow> string \<Rightarrow> string \<Rightarrow> string \<Rightarrow> bool srepo" where
  "AddTopicState c userID themeName accountType topicID =
     bind gormDB (\<lambda>_.
     stmt (\<lambda>t. Inr (add_state userID themeName accountType topicID (state_docs c t) \<noteq> state_docs c t,
                    state_docs_update c (add_state userID themeName accountType topicID) t)))"

definition pull_state :: "string \<Rightarrow> topic_state \<Rightarrow> topic_state" where
  "pull_state topicID d = d\<lparr>State_TopicIDs := removeAll topicID (State_TopicIDs d)\<rparr>"

definition remove_state :: "string \<Rightarrow> string \<Rightarrow> string \<Rightarrow> topic_state list \<Rightarrow> topic_state list" where
  "remove_state userID accountType topicID ds = update_first (owns_state userID accountType) (pull_state topicID) ds"

definition RemoveTopicState :: "state_coll \<Rightarrow> string \<Rightarrow> string \<Rightarrow> string \<Rightarrow> bool srepo" where
  "RemoveTopicState c userID accountType topicID =
     bind gormDB (\<lambda>_.
     stmt (\<lambda>t. Inr (remove_state userID accountType topicID (state_docs c t) \<noteq> state_docs c t,
                    state_docs_update c (remove_state userID accountType topicID) t)))"

definition CountTopicStateItems :: "state_coll \<Rightarrow> string \<Rightarrow> string \<Rightarrow> int64 srepo" where
  "CountTopicStateItems c userID accountType =
     bind (FindTopicStateDocs c userID accountType) (\<lambda>docs.
     ret (case docs of None \<Rightarrow> 0 | Some d \<Rightarrow> int (length (State_TopicIDs d))))"

definition FindTopicsByIDs :: "string list \<Rightarrow> bool \<Rightarrow> topic_doc list srepo" where
  "FindTopicsByIDs topicIDs onlyChecked =
     (if topicIDs = [] then ret []
      else bind gormDB (\<lambda>_.
        read_rows (\<lambda>t. filter (\<lambda>d. Topic_ID d \<in> set topicIDs \<and> (onlyChecked \<longrightarrow> Topic_HasCheck d)) (topics t))))"

definition ThemeExists :: "string \<Rightarrow> bool srepo" where
  "ThemeExists themeID =
     bind gormDB (\<lambda>_. bind (find_row themes (\<lambda>d. Theme_ThemeID d = themeID)) (\<lambda>d. ret (d \<noteq> None)))"

definition FindThemeName :: "string \<Rightarrow> string srepo" where
  "FindThemeName themeID =
     bind gormDB (\<lambda>_. bind (find_row themes (\<lambda>d. Theme_ThemeID d = themeID)) (\<lambda>d.
     ret (case d of None \<Rightarrow> [] | Some d \<Rightarrow> Theme_Name d)))"

definition topic_FindUserByID :: "social_env \<Rightarrow> int64 \<Rightarrow> user_row option srepo" where
  "topic_FindUserByID s i = (if i \<le> 0 then ret None else sql_db s (find_row campus_users (\<lambda>u. User_ID u = i)))"

definition users_by_id :: "user_row list \<Rightarrow> int64 \<rightharpoonup> user_row" where
  "users_by_id us = fold (\<lambda>u m. m(User_ID u \<mapsto> u)) us Map.empty"

definition topic_FindUsersByIDs :: "social_env \<Rightarrow> int64 list \<Rightarrow> (int64 \<rightharpoonup> user_row) srepo" where
  "topic_FindUsersByIDs s ids =
     (if ids = [] then ret Map.empty
      else sql_db s (read_rows (\<lambda>t. users_by_id (filter (\<lambda>u. User_ID u \<in> set ids) (campus_users t)))))"

definition FindUserByRootAndAccountType :: "social_env \<Rightarrow> int64 \<Rightarrow> string \<Rightarrow> user_row option srepo" where
  "FindUserByRootAndAccountType s rootUserID accountType =
     sql_db s (find_row campus_users (\<lambda>u. User_RootUserID u = rootUserID \<and> User_AccountType u = accountType))"

definition UpdateTopicAdmin :: "string \<Rightarrow> topic_update \<Rightarrow> bool srepo" where
  "UpdateTopicAdmin topicID u = bind gormDB (\<lambda>_. update_topics (\<lambda>d. Topic_ID d = topicID) (set_topic u))"

definition removeTopicFromStateCollection :: "state_coll \<Rightarrow> string \<Rightarrow> nat srepo" where
  "removeTopicFromStateCollection c topicID =
     bind gormDB (\<lambda>_. update_where (state_docs c) (state_docs_update c) (\<lambda>_. True) (\<lambda>_. True) (pull_state topicID))"

definition hide_comment_row :: "comment_doc \<Rightarrow> comment_doc" where
  "hide_comment_row c = c\<lparr>Comment_HasCheck := Some False\<rparr>"

definition hide_topic_comments :: "string \<Rightarrow> nat srepo" where
  "hide_topic_comments topicID =
     update_where comments comments_update (\<lambda>_. True) (\<lambda>c. Comment_TopicID c = topicID) hide_comment_row"

definition CleanupDeletedTopic :: "string \<Rightarrow> unit srepo" where
  "CleanupDeletedTopic topicID =
     bind (removeTopicFromStateCollection CollLike topicID) (\<lambda>_.
     bind (removeTopicFromStateCollection CollCollection topicID) (\<lambda>_.
     bind gormDB (\<lambda>_.
     bind (hide_topic_comments topicID) (\<lambda>_. ret ()))))"

section \<open>Helpers of the service\<close>

definition topic_filterText :: "social_env \<Rightarrow> string \<Rightarrow> string tservice" where
  "topic_filterText s content =
     (case so_filter s of
        None \<Rightarrow> ret content
      | Some flt \<Rightarrow>
          if content = [] then ret content
          else (case flt content of
                  Inl e \<Rightarrow> throw (InternalWrap MFilterTopic (Some (Sentinel (FilterFailed e))))
                | Inr filtered \<Rightarrow> ret filtered))"

definition topic_capability :: "social_env \<Rightarrow> int64 \<Rightarrow> int64 \<Rightarrow> unit tservice" where
  "topic_capability s userID rootUserID =
     (case so_checker s of
        None \<Rightarrow> ret ()
      | Some checker \<Rightarrow> (case checker userID rootUserID ''content'' of None \<Rightarrow> ret () | Some e \<Rightarrow> throw (Foreign e)))"

definition parseTopicObjectID :: "social_env \<Rightarrow> string \<Rightarrow> string tservice" where
  "parseTopicObjectID s topicID = present (Param MTopicParam) (so_object_id s (TrimSpace topicID))"

definition ensureThemeExists :: "string \<Rightarrow> unit tservice" where
  "ensureThemeExists themeID =
     (if TrimSpace themeID = [] then throw (Param MTopicParam)
      else
        bind (internal_error MQueryTheme (ThemeExists themeID)) (\<lambda>there.
        if \<not> there then throw ErrThemeNotFound else ret ()))"

definition resolveThemeName :: "string \<Rightarrow> string tservice" where
  "resolveThemeName themeID =
     bind (attempt (FindThemeName themeID)) (\<lambda>r.
     ret (case r of Inl _ \<Rightarrow> themeID | Inr name \<Rightarrow> if TrimSpace name = [] then themeID else name))"

definition validateTopicClaims :: "claims \<Rightarrow> topic_error option" where
  "validateTopicClaims c =
     (if Claims_UserID c \<le> 0 \<or> Claims_RootUserID c \<le> 0 then Some ErrInvalidAuthClaims else None)"

definition normalizeTopicAccountType :: "string \<Rightarrow> topic_error + string" where
  "normalizeTopicAccountType accountType =
     (let accountType = TrimSpace accountType
      in if accountType = ''base'' \<or> accountType = ''anonymous'' then Inr accountType else Inl (Param MTopicParam))"

text \<open>The author of a root account for one of its two account types.\<close>

definition author_of_root :: "social_env \<Rightarrow> int64 \<Rightarrow> string \<Rightarrow> user_row tservice" where
  "author_of_root s rootUserID accountType =
     (if accountType = ''anonymous'' then
        bind (internal_error MQueryAnonymous (FindUserByRootAndAccountType s rootUserID ''anonymous'')) (\<lambda>author.
        present ErrAnonymousAccountNotFound author)
      else
        bind (internal_error MQueryTopicUser (topic_FindUserByID s rootUserID)) (\<lambda>author.
        present topic_ErrUserNotFound author))"

definition resolveTopicAuthor :: "social_env \<Rightarrow> claims \<Rightarrow> string \<Rightarrow> user_row tservice" where
  "resolveTopicAuthor s c accountType =
     bind (check (validateTopicClaims c)) (\<lambda>_.
     bind (result (normalizeTopicAccountType accountType)) (\<lambda>accountType.
     author_of_root s (Claims_RootUserID c) accountType))"

definition prepareTopic :: "social_env \<Rightarrow> topic_view \<Rightarrow> topic_view" where
  "prepareTopic s v = v\<lparr>View_CreatedTime := so_id_time s (Topic_ID (View_Topic v))\<rparr>"

definition getTopicByID :: "social_env \<Rightarrow> string \<Rightarrow> bool \<Rightarrow> topic_view option tservice" where
  "getTopicByID s topicID onlyChecked =
     bind (parseTopicObjectID s topicID) (\<lambda>oid.
     bind (internal_error MQueryTopic (topic_FindTopicByID oid onlyChecked)) (\<lambda>topic.
     ret (map_option (\<lambda>d. prepareTopic s (decoded_topic d)) topic)))"

definition parseTopicUserID :: "string \<Rightarrow> int64 option" where
  "parseTopicUserID raw = (case ParseInt (TrimSpace raw) of None \<Rightarrow> None | Some i \<Rightarrow> if i \<le> 0 then None else Some i)"

definition add_author_id :: "int64 list \<Rightarrow> topic_view \<Rightarrow> int64 list" where
  "add_author_id ids v =
     (case parseTopicUserID (Topic_UserID (View_Topic v)) of
        None \<Rightarrow> ids
      | Some i \<Rightarrow> if i \<in> set ids then ids else ids @ [i])"

definition collectTopicAuthorIDs :: "topic_view list \<Rightarrow> int64 list" where
  "collectTopicAuthorIDs vs = foldl add_author_id [] vs"

definition certify_topic :: "(int64 \<rightharpoonup> user_row) \<Rightarrow> topic_view \<Rightarrow> topic_view" where
  "certify_topic authors v =
     (case parseTopicUserID (Topic_UserID (View_Topic v)) of
        None \<Rightarrow> v
      | Some i \<Rightarrow>
          (case authors i of
             None \<Rightarrow> v
           | Some u \<Rightarrow> v\<lparr>View_StuIsCheck := Some (User_StuIsCheck u),
                          View_ProvisionalExpiresAt := User_ProvisionalExpiresAt u\<rparr>))"

definition applyTopicUserCertification :: "topic_view list \<Rightarrow> (int64 \<rightharpoonup> user_row) \<Rightarrow> topic_view list" where
  "applyTopicUserCertification vs authors = map (certify_topic authors) vs"

definition fillTopicUserCertification :: "social_env \<Rightarrow> topic_view list \<Rightarrow> topic_view list tservice" where
  "fillTopicUserCertification s vs =
     (let ids = collectTopicAuthorIDs vs
      in if ids = [] then ret vs
         else
           bind (internal_error MCertification (topic_FindUsersByIDs s ids)) (\<lambda>authors.
           ret (applyTopicUserCertification vs authors)))"

text \<open>The positions of the topics by identifier, the last one when an identifier repeats.\<close>

definition topic_indexes :: "topic_view list \<Rightarrow> (string \<rightharpoonup> nat)" where
  "topic_indexes vs = fold (\<lambda>i m. m(Topic_ID (View_Topic (vs ! i)) \<mapsto> i)) [0..<length vs] Map.empty"

definition clear_flags :: "topic_view \<Rightarrow> topic_view" where
  "clear_flags v = v\<lparr>View_HasLike := False, View_HasCollection := False\<rparr>"

definition set_flag :: "state_coll \<Rightarrow> topic_view \<Rightarrow> topic_view" where
  "set_flag c v = (case c of CollLike \<Rightarrow> v\<lparr>View_HasLike := True\<rparr> | CollCollection \<Rightarrow> v\<lparr>View_HasCollection := True\<rparr>)"

definition applyTopicFlags :: "(string \<rightharpoonup> nat) \<Rightarrow> topic_view list \<Rightarrow> topic_state option \<Rightarrow> state_coll \<Rightarrow> topic_view list" where
  "applyTopicFlags indexes vs docs c =
     (case docs of
        None \<Rightarrow> vs
      | Some d \<Rightarrow>
          fold (\<lambda>i vs. case indexes i of None \<Rightarrow> vs | Some n \<Rightarrow> vs[n := set_flag c (vs ! n)]) (State_TopicIDs d) vs)"

definition fillTopicFlags ::
  "string \<Rightarrow> string \<Rightarrow> (string \<rightharpoonup> nat) \<Rightarrow> topic_view list \<Rightarrow> state_coll \<Rightarrow> topic_view list srepo" where
  "fillTopicFlags userID accountType indexes vs c =
     bind (FindTopicStateDocs c userID accountType) (\<lambda>docs. ret (applyTopicFlags indexes vs docs c))"

text \<open>An error stops the filling and is logged by the callers.\<close>

definition fill_or_keep :: "topic_view list srepo \<Rightarrow> topic_view list \<Rightarrow> (topic_view list \<times> bool) tservice" where
  "fill_or_keep m vs = bind (attempt m) (\<lambda>r. ret (case r of Inl _ \<Rightarrow> (vs, False) | Inr vs' \<Rightarrow> (vs', True)))"

definition fillLikeAndCollection :: "string \<Rightarrow> string \<Rightarrow> topic_view list \<Rightarrow> topic_view list tservice" where
  "fillLikeAndCollection userID accountType vs =
     (if userID = [] \<or> accountType = [] \<or> vs = [] then ret vs
      else
        let indexes = topic_indexes vs; vs = map clear_flags vs
        in bind (fill_or_keep (fillTopicFlags userID accountType indexes vs CollLike) vs) (\<lambda>(vs, ok).
           if \<not> ok then ret vs
           else
             bind (fill_or_keep (fillTopicFlags userID accountType indexes vs CollCollection) vs) (\<lambda>(vs, _). ret vs)))"

text \<open>The content of the two notifications, as UTF-8: "liked your topic" and "collected your topic".\<close>

definition like_notice :: string where
  "like_notice = map char_of [231, 130, 185, 232, 181, 158, 228, 186, 134, 228, 189, 160, 231, 154, 132, 229, 184, 150, 229, 173, 144 :: nat]"

definition collection_notice :: string where
  "collection_notice = map char_of [230, 148, 182, 232, 151, 143, 228, 186, 134, 228, 189, 160, 231, 154, 132, 229, 184, 150, 229, 173, 144 :: nat]"

definition sendTopicNotify ::
  "social_env \<Rightarrow> string \<Rightarrow> string \<Rightarrow> string \<Rightarrow> string \<Rightarrow> string \<Rightarrow> instant \<Rightarrow> unit tservice" where
  "sendTopicNotify s targetUserID senderUserID topicID content notifyType now =
     (if \<not> so_producer s \<or> targetUserID = [] \<or> targetUserID = senderUserID then ret ()
      else
        ignored (SendNotifyUser s
          \<lparr>Notify_EventID = 0, Notify_TargetUserID = targetUserID, Notify_SenderUserID = senderUserID, Notify_Type = notifyType,
           Notify_Content = content, Notify_TopicID = topicID, Notify_CommentID = [], Notify_CreatedTime = now\<rparr>))"

section \<open>Service\<close>

definition new_topic :: "string \<Rightarrow> create_topic_req \<Rightarrow> user_row \<Rightarrow> string \<Rightarrow> string \<Rightarrow> bool \<Rightarrow> topic_doc" where
  "new_topic newID req author title content checked =
     \<lparr>Topic_ID = newID, Topic_ThemeID = NewTopic_ThemeID req, Topic_UserID = FormatInt (User_ID author), Topic_Title = title,
      Topic_Content = content, Topic_Imgs = NewTopic_Imgs req, Topic_HasCheck = checked, Topic_VisitedNum = 0,
      Topic_LikeNum = 0, Topic_CommentNum = 0, Topic_CollectionNum = 0, Topic_Ext = NewTopic_Ext req,
      Topic_AccountType = User_AccountType author, Topic_NickName = User_Nickname author, Topic_Avatar = User_Avatar author,
      Topic_gender = [], Topic_signature = [], Topic_account_type = []\<rparr>"

definition created_view :: "social_env \<Rightarrow> topic_doc \<Rightarrow> user_row \<Rightarrow> topic_view" where
  "created_view s d author =
     prepareTopic s (decoded_topic d)
       \<lparr>View_StuIsCheck := Some (User_StuIsCheck author), View_ProvisionalExpiresAt := User_ProvisionalExpiresAt author\<rparr>"

definition topic_Create ::
  "social_env \<Rightarrow> claims option \<Rightarrow> create_topic_req option \<Rightarrow> string \<Rightarrow> topic_view tservice" where
  "topic_Create s cl req newID =
     bind (present ErrInvalidAuthClaims cl) (\<lambda>c.
     bind (present (Param MTopicParam) req) (\<lambda>req.
     bind (topic_capability s (Claims_UserID c) (Claims_RootUserID c)) (\<lambda>_.
     bind (ensureThemeExists (NewTopic_ThemeID req)) (\<lambda>_.
     bind (resolveTopicAuthor s c (NewTopic_AccountType req)) (\<lambda>author.
     bind (topic_filterText s (if NewTopic_Title req = [] then '' '' else NewTopic_Title req)) (\<lambda>title.
     bind (topic_filterText s (NewTopic_Content req)) (\<lambda>content.
     let d = new_topic newID req author title content False
     in bind (internal_error MCreateTopic (CreateTopic d)) (\<lambda>_.
        bind (if so_producer s then ignored (SendTopicCheck s newID) else ret ()) (\<lambda>_.
        ret (created_view s d author))))))))))"

definition topic_Delete :: "social_env \<Rightarrow> string \<Rightarrow> int64 \<Rightarrow> unit tservice" where
  "topic_Delete s topicID userID =
     (if userID \<le> 0 then throw (Param MTopicParam)
      else
        bind (parseTopicObjectID s topicID) (\<lambda>oid.
        bind (internal_error MDeleteTopic (HideTopicByUser oid (FormatInt userID))) (\<lambda>ok.
        if \<not> ok then throw topic_ErrTopicNotFound
        else if so_producer s then ignored (SendDeleteTopic s topicID) else ret ())))"

definition topic_GetByID :: "social_env \<Rightarrow> string \<Rightarrow> string \<Rightarrow> string \<Rightarrow> topic_view tservice" where
  "topic_GetByID s topicID queryUserID accountType =
     bind (getTopicByID s topicID False) (\<lambda>topic.
     bind (present topic_ErrTopicNotFound topic) (\<lambda>v.
     bind (ignored (IncrementTopicField (Topic_ID (View_Topic v)) VisitedNum 1)) (\<lambda>_.
     bind (fillTopicUserCertification s [v]) (\<lambda>vs.
     bind (fillLikeAndCollection queryUserID accountType vs) (\<lambda>vs.
     ret (hd vs))))))"

text \<open>The fields that are not empty; title and content filtered.\<close>

definition filtered_field :: "social_env \<Rightarrow> string \<Rightarrow> string option tservice" where
  "filtered_field s v = (if v = [] then ret None else bind (topic_filterText s v) (\<lambda>f. ret (Some f)))"

definition given_text :: "string option \<Rightarrow> string option" where
  "given_text v = (if v = Some [] then None else v)"

definition topic_Update :: "social_env \<Rightarrow> string \<Rightarrow> int64 \<Rightarrow> update_topic_req option \<Rightarrow> unit tservice" where
  "topic_Update s topicID userID req =
     (case req of
        None \<Rightarrow> throw (Param MTopicParam)
      | Some req \<Rightarrow>
          if userID \<le> 0 then throw (Param MTopicParam)
          else
            bind (topic_capability s userID 0) (\<lambda>_.
            bind (filtered_field s (ChgTopic_Title req)) (\<lambda>title.
            bind (filtered_field s (ChgTopic_Content req)) (\<lambda>content.
            let u = \<lparr>Set_Title = title, Set_Content = content,
                     Set_Imgs = (if ChgTopic_Imgs req = [] then None else Some (ChgTopic_Imgs req)),
                     Set_Ext = given_text (ChgTopic_Ext req), Set_HasCheck = None\<rparr>
            in if u = no_update \<and> ChgTopic_HasCheck req = None then ret ()
               else
                 let u = u\<lparr>Set_HasCheck := Some (case ChgTopic_HasCheck req of Some b \<Rightarrow> b | None \<Rightarrow> False)\<rparr>
                 in bind (parseTopicObjectID s topicID) (\<lambda>oid.
                    bind (internal_error MUpdateTopic (UpdateTopic oid (FormatInt userID) u)) (\<lambda>ok.
                    if \<not> ok then throw topic_ErrTopicNotFound else ret ()))))))"

definition dress_topics :: "social_env \<Rightarrow> topic_doc list \<Rightarrow> topic_view list tservice" where
  "dress_topics s ds = fillTopicUserCertification s (map (\<lambda>d. prepareTopic s (decoded_topic d)) ds)"

definition listByFilter ::
  "social_env \<Rightarrow> (topic_doc \<Rightarrow> bool) option \<Rightarrow> int \<Rightarrow> int \<Rightarrow> string \<Rightarrow> string \<Rightarrow> (string \<times> int) list \<Rightarrow> topic_view page_result tservice" where
  "listByFilter s P page sz queryUserID accountType order_by =
     bind (internal_error MListTopics (FindTopicsPage s P order_by page sz)) (\<lambda>(ds, tot).
     bind (dress_topics s ds) (\<lambda>vs.
     bind (fillLikeAndCollection queryUserID accountType vs) (\<lambda>vs.
     ret (NewPageResult vs tot page sz))))"

definition popular_order :: "(string \<times> int) list" where
  "popular_order = [(''_id'', -1), (''commentNum'', -1), (''likeNum'', -1), (''visitedNum'', -1)]"

definition topic_ListMine :: "social_env \<Rightarrow> int64 \<Rightarrow> string \<Rightarrow> int \<Rightarrow> int \<Rightarrow> topic_view page_result tservice" where
  "topic_ListMine s userID accountType page sz =
     (if userID \<le> 0 then throw (Param MTopicParam)
      else listByFilter s (Some (\<lambda>d. Topic_UserID d = FormatInt userID \<and> Topic_HasCheck d)) page sz (FormatInt userID) accountType
             popular_order)"

definition ListTargetUserTopics ::
  "social_env \<Rightarrow> int64 \<Rightarrow> int64 \<Rightarrow> string \<Rightarrow> int \<Rightarrow> int \<Rightarrow> topic_view page_result tservice" where
  "ListTargetUserTopics s currentUserID targetUserID accountType page sz =
     (if targetUserID \<le> 0 then throw (Param MTopicParam)
      else
        bind (internal_error MQueryTarget (topic_FindUserByID s targetUserID)) (\<lambda>author.
        bind (present ErrTargetUserNotFound author) (\<lambda>_.
        listByFilter s (Some (\<lambda>d. Topic_UserID d = FormatInt targetUserID \<and> Topic_HasCheck d)) page sz
          (FormatInt currentUserID) accountType [(''_id'', -1), (''visitedNum'', -1)])))"

text \<open>The filter of both searches: a theme of the list, and the content as a pattern.\<close>

definition search_filter :: "social_env \<Rightarrow> string list \<Rightarrow> string \<Rightarrow> (topic_doc \<Rightarrow> bool) option" where
  "search_filter s themeIDs content =
     (let themed = (\<lambda>d. Topic_HasCheck d \<and> (themeIDs = [] \<or> Topic_ThemeID d \<in> set themeIDs))
      in if TrimSpace content = [] then Some themed
         else map_option (\<lambda>m d. themed d \<and> m (Topic_Content d)) (so_regex s (''.*'' @ content @ ''.*'')))"

definition searchHot ::
  "social_env \<Rightarrow> string \<Rightarrow> string \<Rightarrow> string list \<Rightarrow> string \<Rightarrow> string \<Rightarrow> int \<Rightarrow> int \<Rightarrow> topic_view page_result tservice" where
  "searchHot s userID accountType themeIDs content sevenDaysAgo page sz =
     bind (internal_error MListHot (SearchHotTopics (search_filter s themeIDs content) sevenDaysAgo page sz)) (\<lambda>(ds, tot).
     bind (dress_topics s ds) (\<lambda>vs.
     bind (fillLikeAndCollection userID accountType vs) (\<lambda>vs.
     ret (NewPageResult vs tot page sz))))"

definition topic_Search ::
  "social_env \<Rightarrow> string \<Rightarrow> string \<Rightarrow> string list \<Rightarrow> string \<Rightarrow> string \<Rightarrow> int \<Rightarrow> int \<Rightarrow> int \<Rightarrow> topic_view page_result tservice" where
  "topic_Search s userID accountType themeIDs content sevenDaysAgo page sz ordCreated =
     (if ordCreated = 0 then searchHot s userID accountType themeIDs content sevenDaysAgo page sz
      else listByFilter s (search_filter s themeIDs content) page sz userID accountType popular_order)"

end
