(* ===== verification/Topic_Social.thy ===== *)
theory Topic_Social
  imports Topic_Service
begin

text \<open>Likes and collections of topics (\<open>service_social.go\<close>), and what administrators and moderators do (\<open>service_admin.go\<close>,
  \<open>moderation.go\<close>).\<close>

section \<open>Likes and collections\<close>

definition LikeTopic :: "social_env \<Rightarrow> claims option \<Rightarrow> string \<Rightarrow> instant \<Rightarrow> unit tservice" where
  "LikeTopic s cl topicID now =
     bind (present ErrInvalidAuthClaims cl) (\<lambda>c.
     bind (getTopicByID s topicID True) (\<lambda>topic.
     bind (present topic_ErrTopicNotFound topic) (\<lambda>v.
     let d = View_Topic v; currentUserID = FormatInt (Claims_UserID c)
     in bind (resolveThemeName (Topic_ThemeID d)) (\<lambda>themeName.
        bind (internal_error MLikeTopic (AddTopicState CollLike currentUserID themeName (Claims_AccountType c) topicID)) (\<lambda>added.
        if \<not> added then throw ErrTopicAlreadyLiked
        else
          bind (ignored (IncrementTopicField (Topic_ID d) LikeNum 1)) (\<lambda>_.
          sendTopicNotify s (Topic_UserID d) currentUserID topicID like_notice ''TOPIC_LIKE'' now))))))"

definition UnlikeTopic :: "social_env \<Rightarrow> int64 \<Rightarrow> string \<Rightarrow> string \<Rightarrow> unit tservice" where
  "UnlikeTopic s userID accountType topicID =
     (if userID \<le> 0 then throw (Param MTopicParam)
      else
        bind (parseTopicObjectID s topicID) (\<lambda>oid.
        bind (internal_error MUnlikeTopic (RemoveTopicState CollLike (FormatInt userID) accountType topicID)) (\<lambda>removed.
        if removed then ignored (IncrementTopicField oid LikeNum (-1)) else ret ())))"

definition CollectTopic :: "social_env \<Rightarrow> claims option \<Rightarrow> string \<Rightarrow> instant \<Rightarrow> unit tservice" where
  "CollectTopic s cl topicID now =
     bind (present ErrInvalidAuthClaims cl) (\<lambda>c.
     bind (getTopicByID s topicID True) (\<lambda>topic.
     bind (present topic_ErrTopicNotFound topic) (\<lambda>v.
     let d = View_Topic v; currentUserID = FormatInt (Claims_UserID c)
     in bind (resolveThemeName (Topic_ThemeID d)) (\<lambda>themeName.
        bind (internal_error MCountCollection (CountTopicStateItems CollCollection currentUserID (Claims_AccountType c))) (\<lambda>collCount.
        if collCount \<ge> 500 then throw ErrTopicCollectionLimit
        else
          bind (internal_error MCollectTopic
                  (AddTopicState CollCollection currentUserID themeName (Claims_AccountType c) topicID)) (\<lambda>added.
          if added then
            bind (ignored (IncrementTopicField (Topic_ID d) CollectionNum 1)) (\<lambda>_.
            sendTopicNotify s (Topic_UserID d) currentUserID topicID collection_notice ''TOPIC_COLLECTION'' now)
          else ret ()))))))"

definition UncollectTopic :: "social_env \<Rightarrow> int64 \<Rightarrow> string \<Rightarrow> string \<Rightarrow> unit tservice" where
  "UncollectTopic s userID accountType topicID =
     (if userID \<le> 0 then throw (Param MTopicParam)
      else
        bind (parseTopicObjectID s topicID) (\<lambda>oid.
        bind (internal_error MUncollectTopic (RemoveTopicState CollCollection (FormatInt userID) accountType topicID)) (\<lambda>removed.
        if removed then ignored (IncrementTopicField oid CollectionNum (-1)) else ret ())))"

text \<open>\<open>byID\<close> puts the topics back into the order of the identifiers; those that are hidden or gone are left out.\<close>

definition ordered_by_ids :: "string list \<Rightarrow> topic_view list \<Rightarrow> topic_view list" where
  "ordered_by_ids ids vs =
     (let byID = fold (\<lambda>v m. m(Topic_ID (View_Topic v) \<mapsto> v)) vs Map.empty in List.map_filter byID ids)"

definition findByIDs :: "social_env \<Rightarrow> string list \<Rightarrow> topic_view list tservice" where
  "findByIDs s topicIDs =
     (let oids = List.map_filter (so_object_id s) topicIDs
      in if oids = [] then ret []
         else
           bind (passed (FindTopicsByIDs oids True)) (\<lambda>ds.
           bind (dress_topics s ds) (\<lambda>vs.
           ret (ordered_by_ids topicIDs vs))))"

text \<open>\<open>allIDs[start:end]\<close> with \<open>start := (page - 1) * size\<close> and \<open>end := start + size\<close>, both \<open>int\<close>.\<close>

definition id_window :: "int \<Rightarrow> int \<Rightarrow> string list \<Rightarrow> (string list) option" where
  "id_window page sz ids =
     (let from = wrap64 ((page - 1) * sz); upto = wrap64 (from + sz);
          upto = (if upto > int (length ids) then int (length ids) else upto)
      in if from < 0 \<or> upto < from then None else Some (take (nat (upto - from)) (drop (nat from) ids)))"

text \<open>The error of \<open>findByIDs\<close> is wrapped again, whatever it was; the innermost cause is kept.\<close>

definition wrapped_again :: "topic_msg \<Rightarrow> 'a tservice \<Rightarrow> 'a tservice" where
  "wrapped_again msg m =
     map_error (\<lambda>e. InternalWrap msg
       (case e of Passed c \<Rightarrow> Some c | Business b \<Rightarrow> BE_Cause b | Foreign v \<Rightarrow> Some (Sentinel (FilterFailed v)))) m"

definition other_coll :: "state_coll \<Rightarrow> state_coll" where
  "other_coll c = (case c of CollLike \<Rightarrow> CollCollection | CollCollection \<Rightarrow> CollLike)"

definition listTopicsFromArrayDocs ::
  "social_env \<Rightarrow> state_coll \<Rightarrow> int64 \<Rightarrow> string \<Rightarrow> int \<Rightarrow> int \<Rightarrow> topic_view page_result tservice" where
  "listTopicsFromArrayDocs s c userID accountType page sz =
     (if userID \<le> 0 then throw (Param MTopicParam)
      else
        bind (internal_error MListTopics (FindTopicStateDocs c (FormatInt userID) accountType)) (\<lambda>docs.
        let allIDs = (case docs of None \<Rightarrow> [] | Some d \<Rightarrow> State_TopicIDs d); tot = int (length allIDs)
        in if allIDs = [] then ret (NewPageResult [] 0 page sz)
           else if wrap64 ((page - 1) * sz) \<ge> tot then ret (NewPageResult [] tot page sz)
           else
             bind (present (Passed (Sentinel SliceOutOfRange)) (id_window page sz allIDs)) (\<lambda>ids.
             bind (wrapped_again MListTopics (findByIDs s ids)) (\<lambda>vs.
             let indexes = topic_indexes vs; vs = map (\<lambda>v. set_flag c (clear_flags v)) vs
             in bind (fill_or_keep (fillTopicFlags (FormatInt userID) accountType indexes vs (other_coll c)) vs) (\<lambda>(vs, _).
                ret (NewPageResult vs tot page sz))))))"

definition ListLikedTopics :: "social_env \<Rightarrow> int64 \<Rightarrow> string \<Rightarrow> int \<Rightarrow> int \<Rightarrow> topic_view page_result tservice" where
  "ListLikedTopics s userID accountType page sz = listTopicsFromArrayDocs s CollLike userID accountType page sz"

definition ListCollectedTopics :: "social_env \<Rightarrow> int64 \<Rightarrow> string \<Rightarrow> int \<Rightarrow> int \<Rightarrow> topic_view page_result tservice" where
  "ListCollectedTopics s userID accountType page sz = listTopicsFromArrayDocs s CollCollection userID accountType page sz"

section \<open>Administrators and moderators\<close>

definition ListAdmin :: "social_env \<Rightarrow> int \<Rightarrow> int \<Rightarrow> topic_view page_result tservice" where
  "ListAdmin s page sz =
     bind (internal_error MListTopics (FindTopicsPage s (Some (\<lambda>_. True)) [(''_id'', -1)] page sz)) (\<lambda>(ds, tot).
     bind (dress_topics s ds) (\<lambda>vs.
     ret (NewPageResult vs tot page sz)))"

definition resolveAdminTopicAuthor :: "social_env \<Rightarrow> int64 \<Rightarrow> string \<Rightarrow> user_row tservice" where
  "resolveAdminTopicAuthor s adminUserID accountType =
     (if adminUserID \<le> 0 then throw ErrInvalidAuthClaims
      else
        bind (result (normalizeTopicAccountType accountType)) (\<lambda>accountType.
        bind (internal_error MQueryAdmin (topic_FindUserByID s adminUserID)) (\<lambda>adminUser.
        bind (present topic_ErrUserNotFound adminUser) (\<lambda>u.
        author_of_root s (if User_RootUserID u > 0 then User_RootUserID u else User_ID u) accountType))))"

definition buildAdminTopic :: "user_row \<Rightarrow> create_topic_req \<Rightarrow> string \<Rightarrow> topic_doc" where
  "buildAdminTopic author req newID =
     new_topic newID req author (if NewTopic_Title req = [] then '' '' else NewTopic_Title req) (NewTopic_Content req) True"

definition CreateAdmin :: "social_env \<Rightarrow> int64 option \<Rightarrow> create_topic_req option \<Rightarrow> string \<Rightarrow> topic_view tservice" where
  "CreateAdmin s cl req newID =
     bind (present ErrInvalidAuthClaims cl) (\<lambda>adminUserID.
     bind (present (Param MTopicParam) req) (\<lambda>req.
     bind (ensureThemeExists (NewTopic_ThemeID req)) (\<lambda>_.
     bind (resolveAdminTopicAuthor s adminUserID (NewTopic_AccountType req)) (\<lambda>author.
     let d = buildAdminTopic author req newID
     in bind (internal_error MCreateTopic (CreateTopic d)) (\<lambda>_.
        ret (created_view s d author))))))"

definition buildAdminTopicUpdate :: "update_topic_req \<Rightarrow> topic_update" where
  "buildAdminTopicUpdate req =
     \<lparr>Set_Title = (if ChgTopic_Title req = [] then None else Some (ChgTopic_Title req)),
      Set_Content = (if ChgTopic_Content req = [] then None else Some (ChgTopic_Content req)),
      Set_Imgs = (if ChgTopic_Imgs req = [] then None else Some (ChgTopic_Imgs req)),
      Set_Ext = given_text (ChgTopic_Ext req), Set_HasCheck = None\<rparr>"

definition UpdateAdmin :: "social_env \<Rightarrow> string \<Rightarrow> update_topic_req option \<Rightarrow> unit tservice" where
  "UpdateAdmin s topicID req =
     bind (present (Param MTopicParam) req) (\<lambda>req.
     let u = buildAdminTopicUpdate req
     in if u = no_update then ret ()
        else
          bind (parseTopicObjectID s topicID) (\<lambda>oid.
          bind (internal_error MUpdateTopic (UpdateTopicAdmin oid u)) (\<lambda>ok.
          if \<not> ok then throw topic_ErrTopicNotFound else ret ())))"

definition topic_DeleteAdmin :: "social_env \<Rightarrow> string \<Rightarrow> unit tservice" where
  "topic_DeleteAdmin s topicID =
     bind (parseTopicObjectID s topicID) (\<lambda>oid.
     bind (internal_error MDeleteTopic (HideTopicAdmin oid)) (\<lambda>ok.
     if \<not> ok then throw topic_ErrTopicNotFound
     else internal_error MDeleteTopic (CleanupDeletedTopic topicID)))"

definition topic_ReportTarget :: "social_env \<Rightarrow> string \<Rightarrow> topic_view option tservice" where
  "topic_ReportTarget s topicID = getTopicByID s topicID False"

definition topic_HideForModeration :: "social_env \<Rightarrow> string \<Rightarrow> unit tservice" where
  "topic_HideForModeration s topicID = topic_DeleteAdmin s topicID"

end
