(* ===== verification/Comment_Service.thy ===== *)
theory Comment_Service
  imports Social_Model
begin

text \<open>
  The repository and the service of the comments (\<open>internal/comment\<close>). Filters are the conditions they denote: a comment
  whose field \<open>hasCheck\<close> is absent is not hidden.
\<close>

section \<open>Data and errors\<close>

datatype comment_msg =
    MCmtParam | MCmtTopicMissing | MCmtMissing | MCmtUserMissing | MBadRootID | MTargetRequired | MCmtDeleteFailed | MCmtLikeFailed
  | MCmtUnlikeFailed | MCmtNotLiked | MAnonymousForbidden | MSelfForbidden | MCreateCmt | MDeleteCmt | MListCmt | MListMyCmt | MListTargetCmt
  | MListAdminCmt | MCmtQueryUser | MBadAuthor | MCmtQueryTopic | MQueryCmt | MCmtLikeStatus | MCmtCertification | MQueryCmtLike | MLikeCmt
  | MUnlikeCmt | MIncCmtLike | MFilterCmt

type_synonym comment_error = "(comment_msg, srepo_error) svc_error"
type_synonym 'a cservice = "(social_db, social_event, comment_error, 'a) prog"

definition comment_ErrTopicNotFound :: comment_error where "comment_ErrTopicNotFound = NotFound MCmtTopicMissing"
definition ErrCommentNotFound :: comment_error where "ErrCommentNotFound = NotFound MCmtMissing"
definition comment_ErrUserNotFound :: comment_error where "comment_ErrUserNotFound = NotFound MCmtUserMissing"
definition ErrInvalidRootID :: comment_error where "ErrInvalidRootID = Param MBadRootID"
definition ErrTargetUserIDRequired :: comment_error where "ErrTargetUserIDRequired = Param MTargetRequired"
definition ErrCommentDeleteFailed :: comment_error where "ErrCommentDeleteFailed = Biz MCmtDeleteFailed"
definition ErrCommentLikeFailed :: comment_error where "ErrCommentLikeFailed = Biz MCmtLikeFailed"
definition ErrCommentUnlikeFailed :: comment_error where "ErrCommentUnlikeFailed = Biz MCmtUnlikeFailed"
definition ErrCommentLikeNotFound :: comment_error where "ErrCommentLikeNotFound = Biz MCmtNotLiked"
definition ErrAnonymousCommentForbidden :: comment_error where "ErrAnonymousCommentForbidden = Forbidden MAnonymousForbidden"
definition ErrCommentSelfRolePlayForbidden :: comment_error where "ErrCommentSelfRolePlayForbidden = Forbidden MSelfForbidden"

definition DefaultRootCommentID :: string where "DefaultRootCommentID = ''0''"

definition maxPageSize :: int where "maxPageSize = 100"

definition comment_pageSize :: "int \<Rightarrow> int \<Rightarrow> int \<Rightarrow> int \<times> int" where
  "comment_pageSize page sz defaultSize =
     (let defaultSize = (if defaultSize \<le> 0 then 15 else defaultSize);
          page = (if page \<le> 0 then 1 else page);
          sz = (if sz \<le> 0 then defaultSize else sz);
          sz = (if sz > maxPageSize then maxPageSize else sz)
      in (page, sz))"

interpretation comment_page: page_normaliser "\<lambda>page sz. comment_pageSize page sz d" 100
  by unfold_locales (auto simp: comment_pageSize_def maxPageSize_def Let_def split: if_splits)

definition defaultPageSize :: "social_env \<Rightarrow> int" where
  "defaultPageSize s = (case so_page_size s of Some n \<Rightarrow> if n > 0 then n else 15 | None \<Rightarrow> 15)"

text \<open>A comment as it is answered: the document, the certification of its author and of the author it replies to, and
  whether the viewer likes it.\<close>

record certification =
  Cert_StuIsCheck :: "bool option"
  Cert_ProvisionalExpiresAt :: "instant option"

definition no_certification :: certification where
  "no_certification = \<lparr>Cert_StuIsCheck = None, Cert_ProvisionalExpiresAt = None\<rparr>"

record comment_view =
  CView_Comment :: comment_doc
  CView_User :: certification
  CView_Parent :: certification
  CView_HasLike :: bool

definition decoded_comment :: "comment_doc \<Rightarrow> comment_view" where
  "decoded_comment c =
     \<lparr>CView_Comment = c, CView_User = no_certification, CView_Parent = no_certification, CView_HasLike = False\<rparr>"

text \<open>\<open>CommentTopic\<close>: the topic with the time in its identifier.\<close>

record comment_topic =
  CTopic_Topic :: topic_doc
  CTopic_CreatedTime :: string

record my_comment_item =
  Mine_Comment :: comment_view
  Mine_Topic :: comment_topic

section \<open>Repository\<close>

definition CreateComment :: "comment_doc \<Rightarrow> unit srepo" where
  "CreateComment c = bind gormDB (\<lambda>_. create_row comments comments_update comment_ids_ok c)"

text \<open>Matched and modified: \<open>deletedTime\<close> is set to the clock, so a hidden comment is modified again.\<close>

definition hideComment :: "(comment_doc \<Rightarrow> bool) \<Rightarrow> instant \<Rightarrow> (bool \<times> bool) srepo" where
  "hideComment P now =
     (let f = (\<lambda>c. c\<lparr>Comment_HasCheck := Some False, Comment_deletedTime := Some now\<rparr>)
      in bind gormDB (\<lambda>_.
         stmt (\<lambda>t. Inr ((list_ex P (comments t), rows_changed P f (comments t) > 0), comments_update (update_rows P f) t))))"

definition HideCommentByUser :: "string \<Rightarrow> string \<Rightarrow> string \<Rightarrow> instant \<Rightarrow> (bool \<times> bool) srepo" where
  "HideCommentByUser topicID commentID userID now =
     hideComment (\<lambda>c. Comment_ID c = commentID \<and> Comment_TopicID c = topicID \<and> CUser_UserID (Comment_User c) = userID) now"

definition HideCommentAdmin :: "string \<Rightarrow> string \<Rightarrow> instant \<Rightarrow> (bool \<times> bool) srepo" where
  "HideCommentAdmin topicID commentID now = hideComment (\<lambda>c. Comment_ID c = commentID \<and> Comment_TopicID c = topicID) now"

definition inc_topic_comments :: "int64 \<Rightarrow> topic_doc \<Rightarrow> topic_doc" where
  "inc_topic_comments delta d = d\<lparr>Topic_CommentNum := Topic_CommentNum d + delta\<rparr>"

definition IncrementTopicCommentNum :: "string \<Rightarrow> int64 \<Rightarrow> bool srepo" where
  "IncrementTopicCommentNum topicID delta =
     bind gormDB (\<lambda>_.
     stmt (\<lambda>t. Inr (list_ex (\<lambda>d. Topic_ID d = topicID) (topics t),
                    topics_update (update_rows (\<lambda>d. Topic_ID d = topicID) (inc_topic_comments delta)) t)))"

definition inc_replies :: "int64 \<Rightarrow> comment_doc \<Rightarrow> comment_doc" where
  "inc_replies delta c = c\<lparr>Comment_CommentNum := Comment_CommentNum c + delta\<rparr>"

definition inc_likes :: "int64 \<Rightarrow> comment_doc \<Rightarrow> comment_doc" where
  "inc_likes delta c = c\<lparr>Comment_LikeNum := Comment_LikeNum c + delta\<rparr>"

definition update_comment :: "string \<Rightarrow> (comment_doc \<Rightarrow> comment_doc) \<Rightarrow> bool srepo" where
  "update_comment i f =
     stmt (\<lambda>t. Inr (list_ex (\<lambda>c. Comment_ID c = i) (comments t), comments_update (update_rows (\<lambda>c. Comment_ID c = i) f) t))"

definition IncrementRootCommentNum :: "string \<Rightarrow> int64 \<Rightarrow> bool srepo" where
  "IncrementRootCommentNum rootCommentID delta = bind gormDB (\<lambda>_. update_comment rootCommentID (inc_replies delta))"

definition IncrementCommentLikeNum :: "string \<Rightarrow> int64 \<Rightarrow> bool srepo" where
  "IncrementCommentLikeNum commentID delta = bind gormDB (\<lambda>_. update_comment commentID (inc_likes delta))"

definition FindCommentsPage ::
  "social_env \<Rightarrow> (comment_doc \<Rightarrow> bool) \<Rightarrow> (string \<times> int) list \<Rightarrow> int \<Rightarrow> int \<Rightarrow> (comment_doc list \<times> int64) srepo" where
  "FindCommentsPage s P order_by page sz =
     bind gormDB (\<lambda>_.
     bind (read_rows (\<lambda>t. int (length (filter P (comments t))))) (\<lambda>tot.
     bind (stmt (\<lambda>t. if wrap64 ((page - 1) * sz) < 0 then Inl DbFailure
                     else Inr (window page sz (so_comment_order s order_by (filter P (comments t))), t))) (\<lambda>rows.
     ret (rows, tot))))"

definition comment_FindUserByID :: "social_env \<Rightarrow> int64 \<Rightarrow> user_row option srepo" where
  "comment_FindUserByID s userID =
     (if userID \<le> 0 then ret None else sql_db s (find_row campus_users (\<lambda>u. User_ID u = userID)))"

definition comment_FindUsersByIDs :: "social_env \<Rightarrow> int64 list \<Rightarrow> (int64 \<rightharpoonup> user_row) srepo" where
  "comment_FindUsersByIDs s userIDs =
     (if userIDs = [] then ret Map.empty
      else sql_db s (read_rows (\<lambda>t.
        fold (\<lambda>u m. m(User_ID u \<mapsto> u)) (filter (\<lambda>u. User_ID u \<in> set userIDs) (campus_users t)) Map.empty)))"

definition comment_FindTopicByID :: "string \<Rightarrow> bool \<Rightarrow> topic_doc option srepo" where
  "comment_FindTopicByID topicID onlyChecked =
     bind gormDB (\<lambda>_. find_row topics (\<lambda>d. Topic_ID d = topicID \<and> (onlyChecked \<longrightarrow> Topic_HasCheck d)))"

definition FindCommentByID :: "string \<Rightarrow> comment_doc option srepo" where
  "FindCommentByID commentID = bind gormDB (\<lambda>_. find_row comments (\<lambda>c. Comment_ID c = commentID))"

definition likes_comment :: "string \<Rightarrow> string \<Rightarrow> comment_like \<Rightarrow> bool" where
  "likes_comment commentID userID l \<longleftrightarrow> CLike_CommentID l = commentID \<and> userID \<in> set (CLike_UserIDs l)"

definition FindLikedCommentIDs :: "string list \<Rightarrow> string \<Rightarrow> string set srepo" where
  "FindLikedCommentIDs commentIDs userID =
     (if userID = [] \<or> commentIDs = [] then ret {}
      else bind gormDB (\<lambda>_.
        read_rows (\<lambda>t. set (filter (\<lambda>i. i \<noteq> []) (map CLike_CommentID
          (filter (\<lambda>l. CLike_CommentID l \<in> set commentIDs \<and> userID \<in> set (CLike_UserIDs l)) (comment_likes t)))))))"

definition CommentLikeExists :: "string \<Rightarrow> string \<Rightarrow> bool srepo" where
  "CommentLikeExists commentID userID =
     bind gormDB (\<lambda>_. read_rows (\<lambda>t. int (length (filter (likes_comment commentID userID) (comment_likes t))) > 0))"

definition add_like :: "string \<Rightarrow> string \<Rightarrow> comment_like list \<Rightarrow> comment_like list" where
  "add_like commentID userID ls =
     (if list_ex (\<lambda>l. CLike_CommentID l = commentID) ls
      then update_first (\<lambda>l. CLike_CommentID l = commentID) (\<lambda>l. l\<lparr>CLike_UserIDs := add_to_set userID (CLike_UserIDs l)\<rparr>) ls
      else ls @ [\<lparr>CLike_CommentID = commentID, CLike_UserIDs = [userID]\<rparr>])"

definition AddCommentLike :: "string \<Rightarrow> string \<Rightarrow> bool srepo" where
  "AddCommentLike commentID userID =
     bind gormDB (\<lambda>_.
     stmt (\<lambda>t. Inr (add_like commentID userID (comment_likes t) \<noteq> comment_likes t, comment_likes_update (add_like commentID userID) t)))"

definition remove_like :: "string \<Rightarrow> string \<Rightarrow> comment_like list \<Rightarrow> comment_like list" where
  "remove_like commentID userID ls =
     update_first (\<lambda>l. CLike_CommentID l = commentID) (\<lambda>l. l\<lparr>CLike_UserIDs := removeAll userID (CLike_UserIDs l)\<rparr>) ls"

definition RemoveCommentLike :: "string \<Rightarrow> string \<Rightarrow> bool srepo" where
  "RemoveCommentLike commentID userID =
     bind gormDB (\<lambda>_.
     stmt (\<lambda>t. Inr (remove_like commentID userID (comment_likes t) \<noteq> comment_likes t,
                    comment_likes_update (remove_like commentID userID) t)))"

section \<open>Helpers of the service\<close>

definition comment_filterText :: "social_env \<Rightarrow> string \<Rightarrow> string cservice" where
  "comment_filterText s content =
     (case so_filter s of
        None \<Rightarrow> ret content
      | Some flt \<Rightarrow>
          if content = [] then ret content
          else (case flt content of
                  Inl e \<Rightarrow> throw (InternalWrap MFilterCmt (Some (Sentinel (FilterFailed e))))
                | Inr filtered \<Rightarrow> ret filtered))"

definition comment_parseObjectID :: "social_env \<Rightarrow> string \<Rightarrow> string cservice" where
  "comment_parseObjectID s raw = present (Param MCmtParam) (so_object_id s (TrimSpace raw))"

definition comment_userIDString :: "int64 \<Rightarrow> string" where
  "comment_userIDString userID = (if userID \<le> 0 then [] else FormatInt userID)"

definition loadUser :: "social_env \<Rightarrow> int64 \<Rightarrow> user_row cservice" where
  "loadUser s userID =
     bind (internal_error MCmtQueryUser (comment_FindUserByID s userID)) (\<lambda>user. present comment_ErrUserNotFound user)"

definition loadUserByStringID :: "social_env \<Rightarrow> string \<Rightarrow> user_row cservice" where
  "loadUserByStringID s userID =
     bind (present (Internal MBadAuthor) (ParseInt (TrimSpace userID))) (\<lambda>i. loadUser s i)"

definition getTopic :: "social_env \<Rightarrow> string \<Rightarrow> bool \<Rightarrow> comment_topic option cservice" where
  "getTopic s topicID onlyChecked =
     bind (comment_parseObjectID s topicID) (\<lambda>oid.
     bind (internal_error MCmtQueryTopic (comment_FindTopicByID oid onlyChecked)) (\<lambda>topic.
     ret (map_option (\<lambda>d. \<lparr>CTopic_Topic = d, CTopic_CreatedTime = so_id_time s (Topic_ID d)\<rparr>) topic)))"

definition ensureTopicExists :: "social_env \<Rightarrow> string \<Rightarrow> unit cservice" where
  "ensureTopicExists s topicID =
     bind (getTopic s topicID False) (\<lambda>topic. bind (present comment_ErrTopicNotFound topic) (\<lambda>_. ret ()))"

definition getCommentByID :: "social_env \<Rightarrow> string \<Rightarrow> comment_doc cservice" where
  "getCommentByID s commentID =
     bind (comment_parseObjectID s commentID) (\<lambda>oid.
     bind (internal_error MQueryCmt (FindCommentByID oid)) (\<lambda>cmt. present ErrCommentNotFound cmt))"

definition zero_id :: string where "zero_id = replicate 24 CHR ''0''"

definition getHasLikeBatch :: "string \<Rightarrow> comment_view list \<Rightarrow> string set cservice" where
  "getHasLikeBatch userID vs =
     internal_error MCmtLikeStatus
       (FindLikedCommentIDs (filter (\<lambda>i. i \<noteq> zero_id) (map (\<lambda>v. Comment_ID (CView_Comment v)) vs)) userID)"

definition fillCommentLikeState :: "string \<Rightarrow> comment_view list \<Rightarrow> comment_view list cservice" where
  "fillCommentLikeState userID vs =
     (if TrimSpace userID = [] \<or> vs = [] then ret vs
      else
        bind (getHasLikeBatch userID vs) (\<lambda>liked.
        ret (map (\<lambda>v. v\<lparr>CView_HasLike := Comment_ID (CView_Comment v) \<in> liked\<rparr>) vs)))"

definition buildCommentUser :: "user_row \<Rightarrow> comment_user" where
  "buildCommentUser u =
     \<lparr>CUser_UserID = FormatInt (User_ID u), CUser_Avatar = User_Avatar u, CUser_NickName = User_Nickname u,
      CUser_AccountType = User_AccountType u, CUser_Signature = User_Signature u, CUser_gender = []\<rparr>"

definition parseCommentUserID :: "string \<Rightarrow> int64 option" where
  "parseCommentUserID raw = (case ParseInt (TrimSpace raw) of None \<Rightarrow> None | Some i \<Rightarrow> if i \<le> 0 then None else Some i)"

definition appendCommentUserID :: "int64 list \<Rightarrow> string \<Rightarrow> int64 list" where
  "appendCommentUserID ids raw =
     (case parseCommentUserID raw of None \<Rightarrow> ids | Some i \<Rightarrow> if i \<in> set ids then ids else ids @ [i])"

definition append_comment_users :: "int64 list \<Rightarrow> comment_view \<Rightarrow> int64 list" where
  "append_comment_users ids v =
     (let c = CView_Comment v; ids = appendCommentUserID ids (CUser_UserID (Comment_User c))
      in case Comment_Parent c of None \<Rightarrow> ids | Some p \<Rightarrow> appendCommentUserID ids (CUser_UserID p))"

definition collectCommentUserIDs :: "comment_view list \<Rightarrow> int64 list" where
  "collectCommentUserIDs vs = foldl append_comment_users [] vs"

definition applyCommentUserCertificationToUser :: "(int64 \<rightharpoonup> user_row) \<Rightarrow> comment_user \<Rightarrow> certification \<Rightarrow> certification" where
  "applyCommentUserCertificationToUser users cu cert =
     (case parseCommentUserID (CUser_UserID cu) of
        None \<Rightarrow> cert
      | Some i \<Rightarrow>
          (case users i of
             None \<Rightarrow> cert
           | Some u \<Rightarrow> \<lparr>Cert_StuIsCheck = Some (User_StuIsCheck u), Cert_ProvisionalExpiresAt = User_ProvisionalExpiresAt u\<rparr>))"

definition certify_comment :: "(int64 \<rightharpoonup> user_row) \<Rightarrow> comment_view \<Rightarrow> comment_view" where
  "certify_comment users v =
     v\<lparr>CView_User := applyCommentUserCertificationToUser users (Comment_User (CView_Comment v)) (CView_User v),
       CView_Parent := (case Comment_Parent (CView_Comment v) of
           None \<Rightarrow> CView_Parent v
         | Some p \<Rightarrow> applyCommentUserCertificationToUser users p (CView_Parent v))\<rparr>"

definition applyCommentUserCertification :: "comment_view list \<Rightarrow> (int64 \<rightharpoonup> user_row) \<Rightarrow> comment_view list" where
  "applyCommentUserCertification vs users = map (certify_comment users) vs"

definition fillCommentUserCertification :: "social_env \<Rightarrow> comment_view list \<Rightarrow> comment_view list cservice" where
  "fillCommentUserCertification s vs =
     (let userIDs = collectCommentUserIDs vs
      in if userIDs = [] then ret vs
         else
           bind (internal_error MCmtCertification (comment_FindUsersByIDs s userIDs)) (\<lambda>users.
           ret (applyCommentUserCertification vs users)))"

definition normalizeCommentAccountType :: "social_env \<Rightarrow> string \<Rightarrow> string" where
  "normalizeCommentAccountType s accountType =
     (if so_lower s (TrimSpace accountType) = ''anonymous'' then ''anonymous'' else ''base'')"

definition root_of :: "user_row \<Rightarrow> int64" where
  "root_of u = (if User_RootUserID u = 0 then User_ID u else User_RootUserID u)"

definition validateCommentPermission :: "social_env \<Rightarrow> user_row \<Rightarrow> topic_doc \<Rightarrow> unit cservice" where
  "validateCommentPermission s actor topic =
     (let actorType = normalizeCommentAccountType s (User_AccountType actor);
          topicType = normalizeCommentAccountType s (Topic_AccountType topic)
      in if actorType = ''anonymous'' \<and> topicType \<noteq> ''anonymous'' then throw ErrAnonymousCommentForbidden
         else if actorType \<noteq> ''base'' \<or> topicType \<noteq> ''anonymous'' then ret ()
         else
           bind (loadUserByStringID s (Topic_UserID topic)) (\<lambda>topicAuthor.
           if root_of actor = root_of topicAuthor then throw ErrCommentSelfRolePlayForbidden else ret ()))"

section \<open>Service\<close>

definition comment_capability :: "social_env \<Rightarrow> int64 \<Rightarrow> unit cservice" where
  "comment_capability s userID =
     (case so_checker s of
        None \<Rightarrow> ret ()
      | Some checker \<Rightarrow> (case checker userID 0 ''content'' of None \<Rightarrow> ret () | Some e \<Rightarrow> throw (Foreign e)))"

definition new_comment ::
  "string \<Rightarrow> string \<Rightarrow> topic_doc \<Rightarrow> user_row \<Rightarrow> int64 \<Rightarrow> string \<Rightarrow> string \<Rightarrow> instant \<Rightarrow> comment_doc" where
  "new_comment newID topicID topic user currentUserID content parentCmtID now =
     \<lparr>Comment_ID = newID, Comment_TopicID = topicID, Comment_Comment = content, Comment_CreatedTime = now,
      Comment_User = buildCommentUser user, Comment_Parent = None, Comment_ParentCmtID = parentCmtID,
      Comment_RootCmtID = DefaultRootCommentID, Comment_IsAuthor = (Topic_UserID topic = FormatInt currentUserID),
      Comment_LikeNum = 0, Comment_CommentNum = 0, Comment_HasCheck = None, Comment_deletedTime = None\<rparr>"

definition reply_to :: "comment_doc \<Rightarrow> comment_doc \<Rightarrow> comment_doc" where
  "reply_to parent c =
     c\<lparr>Comment_Parent := Some (Comment_User parent),
       Comment_RootCmtID := (if Comment_RootCmtID parent \<noteq> [] \<and> Comment_RootCmtID parent \<noteq> DefaultRootCommentID
                             then Comment_RootCmtID parent else Comment_ID parent)\<rparr>"

definition AddComment ::
  "social_env \<Rightarrow> string \<Rightarrow> int64 \<Rightarrow> string \<Rightarrow> string \<Rightarrow> string \<Rightarrow> instant \<Rightarrow> string cservice" where
  "AddComment s topicID currentUserID content parentCmtID newID now =
     bind (comment_capability s currentUserID) (\<lambda>_.
     bind (getTopic s topicID False) (\<lambda>topic.
     bind (present comment_ErrTopicNotFound topic) (\<lambda>topic.
     bind (loadUser s currentUserID) (\<lambda>user.
     bind (validateCommentPermission s user (CTopic_Topic topic)) (\<lambda>_.
     bind (comment_filterText s content) (\<lambda>filteredContent.
     let c = new_comment newID topicID (CTopic_Topic topic) user currentUserID filteredContent parentCmtID now
     in bind (if parentCmtID \<noteq> DefaultRootCommentID
              then bind (getCommentByID s parentCmtID) (\<lambda>parent. ret (reply_to parent c)) else ret c) (\<lambda>c.
        bind (internal_error MCreateCmt (CreateComment c)) (\<lambda>_.
        bind (if so_producer s then ignored (SendAddComment s c) else ret ()) (\<lambda>_.
        ret newID)))))))))"

definition deleteCommentFallback :: "social_env \<Rightarrow> string \<Rightarrow> string \<Rightarrow> comment_error \<Rightarrow> unit cservice" where
  "deleteCommentFallback s topicID commentID cause =
     bind (if so_producer s then ignored (SendDeleteComment s topicID commentID) else ret ()) (\<lambda>_. throw cause)"

definition decrementCommentCounters :: "social_env \<Rightarrow> string \<Rightarrow> string \<Rightarrow> unit cservice" where
  "decrementCommentCounters s topicID rootCommentID =
     bind (comment_parseObjectID s topicID) (\<lambda>topicOID.
     bind (internal_error MDeleteCmt (IncrementTopicCommentNum topicOID (-1))) (\<lambda>ok.
     if \<not> ok then throw ErrCommentDeleteFailed
     else if rootCommentID = [] \<or> rootCommentID = DefaultRootCommentID then ret ()
     else
       bind (comment_parseObjectID s rootCommentID) (\<lambda>rootOID.
       bind (internal_error MDeleteCmt (IncrementRootCommentNum rootOID (-1))) (\<lambda>ok.
       if \<not> ok then throw ErrCommentDeleteFailed else ret ()))))"

text \<open>What both deleting methods do once they have the result of hiding the comment.\<close>

definition finish_delete ::
  "social_env \<Rightarrow> string \<Rightarrow> string \<Rightarrow> string \<Rightarrow> (srepo_error + bool \<times> bool) \<Rightarrow> unit cservice" where
  "finish_delete s topicID commentID rootCommentID r =
     (case r of
        Inl e \<Rightarrow> deleteCommentFallback s topicID commentID (InternalWrap MDeleteCmt (Some e))
      | Inr (matched, modified) \<Rightarrow>
          if \<not> matched then throw ErrCommentNotFound
          else if \<not> modified then throw ErrCommentDeleteFailed
          else
            bind (attempt (decrementCommentCounters s topicID rootCommentID)) (\<lambda>r.
            case r of
              Inl err \<Rightarrow> deleteCommentFallback s topicID commentID err
            | Inr _ \<Rightarrow> ret ()))"

definition DeleteComment :: "social_env \<Rightarrow> string \<Rightarrow> string \<Rightarrow> int64 \<Rightarrow> instant \<Rightarrow> unit cservice" where
  "DeleteComment s topicID commentID userID now =
     (if userID \<le> 0 then throw (Param MCmtParam)
      else
        bind (getCommentByID s commentID) (\<lambda>c.
        bind (comment_parseObjectID s commentID) (\<lambda>commentOID.
        bind (attempt (HideCommentByUser topicID commentOID (comment_userIDString userID) now)) (\<lambda>r.
        finish_delete s topicID commentID (Comment_RootCmtID c) r))))"

definition DeleteCommentAdmin :: "social_env \<Rightarrow> string \<Rightarrow> string \<Rightarrow> instant \<Rightarrow> unit cservice" where
  "DeleteCommentAdmin s topicID commentID now =
     bind (getCommentByID s commentID) (\<lambda>c.
     bind (comment_parseObjectID s commentID) (\<lambda>commentOID.
     bind (attempt (HideCommentAdmin topicID commentOID now)) (\<lambda>r.
     finish_delete s topicID commentID (Comment_RootCmtID c) r)))"

definition comment_ReportTarget :: "social_env \<Rightarrow> string \<Rightarrow> comment_doc cservice" where
  "comment_ReportTarget s commentID = getCommentByID s commentID"

definition comment_HideForModeration :: "social_env \<Rightarrow> string \<Rightarrow> instant \<Rightarrow> unit cservice" where
  "comment_HideForModeration s commentID now =
     bind (getCommentByID s commentID) (\<lambda>c. DeleteCommentAdmin s (Comment_TopicID c) commentID now)"

definition not_hidden :: "comment_doc \<Rightarrow> bool" where
  "not_hidden c \<longleftrightarrow> Comment_HasCheck c \<noteq> Some False"

definition ListByTopic ::
  "social_env \<Rightarrow> string \<Rightarrow> string \<Rightarrow> int64 \<Rightarrow> int \<Rightarrow> int \<Rightarrow> comment_view page_result cservice" where
  "ListByTopic s topicID rootID viewerUserID page sz =
     (let (page, sz) = comment_pageSize page sz (defaultPageSize s)
      in bind (ensureTopicExists s topicID) (\<lambda>_.
         let rootID = (if rootID = [] then DefaultRootCommentID else rootID)
         in bind (if rootID \<noteq> DefaultRootCommentID
                  then bind (fixed_error ErrInvalidRootID (comment_parseObjectID s rootID)) (\<lambda>_. ret ()) else ret ()) (\<lambda>_.
            bind (internal_error MListCmt (FindCommentsPage s
                   (\<lambda>c. Comment_TopicID c = topicID \<and> Comment_RootCmtID c = rootID \<and> not_hidden c)
                   (if rootID = DefaultRootCommentID then [(''commentNum'', -1), (''_id'', -1)] else [(''_id'', 1)]) page sz)) (\<lambda>(cs, tot).
            bind (fillCommentUserCertification s (map decoded_comment cs)) (\<lambda>vs.
            bind (fillCommentLikeState (comment_userIDString viewerUserID) vs) (\<lambda>vs.
            ret (NewPageResult vs tot page sz)))))))"

text \<open>The loop of \<open>ListMine\<close> stops at the first comment whose topic is not there or not checked.\<close>

fun with_topics :: "social_env \<Rightarrow> comment_view list \<Rightarrow> my_comment_item list cservice" where
  "with_topics s [] = ret []"
| "with_topics s (v # vs) =
     bind (getTopic s (Comment_TopicID (CView_Comment v)) True) (\<lambda>topic.
     bind (present comment_ErrTopicNotFound topic) (\<lambda>topic.
     bind (with_topics s vs) (\<lambda>items.
     ret (\<lparr>Mine_Comment = v, Mine_Topic = topic\<rparr> # items))))"

definition comment_ListMine :: "social_env \<Rightarrow> int64 \<Rightarrow> int \<Rightarrow> int \<Rightarrow> my_comment_item page_result cservice" where
  "comment_ListMine s userID page sz =
     (let (page, sz) = comment_pageSize page sz (defaultPageSize s)
      in bind (internal_error MListMyCmt (FindCommentsPage s
                (\<lambda>c. CUser_UserID (Comment_User c) = comment_userIDString userID \<and> not_hidden c)
                [(''commentNum'', -1), (''likeNum'', -1), (''_id'', -1)] page sz)) (\<lambda>(cs, tot).
         bind (fillCommentUserCertification s (map decoded_comment cs)) (\<lambda>vs.
         bind (fillCommentLikeState (comment_userIDString userID) vs) (\<lambda>vs.
         bind (with_topics s vs) (\<lambda>items.
         ret (NewPageResult items tot page sz))))))"

definition ListTargetUserComments :: "social_env \<Rightarrow> int64 \<Rightarrow> int \<Rightarrow> int \<Rightarrow> comment_view page_result cservice" where
  "ListTargetUserComments s targetUserID page sz =
     (let (page, sz) = comment_pageSize page sz (defaultPageSize s)
      in if targetUserID \<le> 0 then throw ErrTargetUserIDRequired
         else
           bind (internal_error MListTargetCmt (FindCommentsPage s
                  (\<lambda>c. CUser_UserID (Comment_User c) = comment_userIDString targetUserID \<and> not_hidden c)
                  [(''_id'', -1)] page sz)) (\<lambda>(cs, tot).
           bind (fillCommentUserCertification s (map decoded_comment cs)) (\<lambda>vs.
           ret (NewPageResult vs tot page sz))))"

definition ListCommentAdmin :: "social_env \<Rightarrow> string \<Rightarrow> int \<Rightarrow> int \<Rightarrow> comment_view page_result cservice" where
  "ListCommentAdmin s topicID page sz =
     (let (page, sz) = comment_pageSize page sz (defaultPageSize s)
      in bind (ensureTopicExists s topicID) (\<lambda>_.
         bind (internal_error MListAdminCmt (FindCommentsPage s (\<lambda>c. Comment_TopicID c = topicID) [(''_id'', -1)] page sz)) (\<lambda>(cs, tot).
         bind (fillCommentUserCertification s (map decoded_comment cs)) (\<lambda>vs.
         ret (NewPageResult vs tot page sz)))))"

section \<open>Likes\<close>

definition incCommentLikeStrict :: "social_env \<Rightarrow> string \<Rightarrow> int64 \<Rightarrow> unit cservice" where
  "incCommentLikeStrict s commentID delta =
     bind (comment_parseObjectID s commentID) (\<lambda>oid.
     bind (internal_error MIncCmtLike (IncrementCommentLikeNum oid delta)) (\<lambda>ok.
     if \<not> ok then throw ErrCommentLikeFailed else ret ()))"

definition LikeComment :: "social_env \<Rightarrow> string \<Rightarrow> int64 \<Rightarrow> unit cservice" where
  "LikeComment s commentID userID =
     (let userIDStr = comment_userIDString userID
      in bind (internal_error MQueryCmtLike (CommentLikeExists commentID userIDStr)) (\<lambda>there.
         if there then ret ()
         else
           bind (incCommentLikeStrict s commentID 1) (\<lambda>_.
           bind (internal_error MLikeCmt (AddCommentLike commentID userIDStr)) (\<lambda>updated.
           if \<not> updated then throw ErrCommentLikeFailed else ret ()))))"

definition UnlikeComment :: "social_env \<Rightarrow> string \<Rightarrow> int64 \<Rightarrow> unit cservice" where
  "UnlikeComment s commentID userID =
     (let userIDStr = comment_userIDString userID
      in bind (internal_error MQueryCmtLike (CommentLikeExists commentID userIDStr)) (\<lambda>there.
         if \<not> there then throw ErrCommentLikeNotFound
         else
           bind (incCommentLikeStrict s commentID (-1)) (\<lambda>_.
           bind (internal_error MUnlikeCmt (RemoveCommentLike commentID userIDStr)) (\<lambda>updated.
           if \<not> updated then throw ErrCommentUnlikeFailed else ret ()))))"

end
