(* ===== verification/Queue_Consumer.thy ===== *)
theory Queue_Consumer
  imports Topic_Social Comment_Service
begin

text \<open>
  The consumers of the message queue (\<open>internal/mq\<close>): \<open>HandleWithDedup\<close> and the handlers of the queues.

  A delivery is what its body decodes to: the unique number and, for the handler of its queue, the decoded data, each
  \<open>None\<close> when decoding fails. The consumers run with a MongoDB handle. The security check of WeChat, the QR code service
  and the notification writer are parameters; a request to them may fail. Redis may fail like a statement.
\<close>

datatype delivery_result = Acked | Nacked

type_synonym 'a handler = "(social_db, social_event, srepo_error, 'a) prog"

datatype 'd delivery = BadBody | Message int64 "'d option"

datatype qr_reply = NoReply | Reply int "(int \<times> (string \<times> bool) list option) option"

record mq_env =
  mq_social :: social_env
  mq_wx :: bool
  mq_sec_check :: "string \<Rightarrow> string \<Rightarrow> (string \<times> string) option"
  mq_jw_base_url :: "string option"
  mq_jw_api_key :: string
  mq_qr_service :: "string \<Rightarrow> string \<Rightarrow> string list \<Rightarrow> qr_reply"
  mq_writer :: "(notify_msg \<Rightarrow> string option) option"
  mq_equal_fold :: "string \<Rightarrow> string \<Rightarrow> bool"

section \<open>Deduplication\<close>

definition MsgIng :: int where "MsgIng = 1"
definition MsgPost :: int where "MsgPost = 2"

definition QueueCommentUpdate :: string where "QueueCommentUpdate = ''campus.comment_update''"
definition QueueTopicUpdate :: string where "QueueTopicUpdate = ''campus.topic_update''"
definition QueueTopicDelete :: string where "QueueTopicDelete = ''campus.topic_delete''"
definition QueueCommentDelete :: string where "QueueCommentDelete = ''campus.comment_delete''"
definition QueueCommentAdd :: string where "QueueCommentAdd = ''campus.comment_add''"
definition QueueTopicCheck :: string where "QueueTopicCheck = ''campus.topic_check''"
definition QueueNotifyUser :: string where "QueueNotifyUser = ''campus.notify_user''"
definition QueueDie :: string where "QueueDie = ''campus.die''"

definition dedupPrefix :: "string \<Rightarrow> string" where
  "dedupPrefix queue =
     (if queue = QueueTopicCheck then ''campus:TCC:''
      else if queue = QueueCommentAdd then ''campus:AMC:''
      else if queue = QueueTopicUpdate \<or> queue = QueueCommentUpdate then ''campus:UMC:''
      else if queue = QueueTopicDelete \<or> queue = QueueCommentDelete then ''campus:DMC:''
      else if queue = QueueNotifyUser then ''campus:NOTIFY:''
      else if queue = QueueDie then ''campus:DMC:''
      else ''campus:mq:dedup:'')"

definition dedup_key :: "string \<Rightarrow> int64 \<Rightarrow> string" where
  "dedup_key prefixKey uniqueID = prefixKey @ FormatInt uniqueID"

definition dedup_ttl :: int where "dedup_ttl = 3 * 24 * 60 * 60 * 1000"

definition status_at :: "social_db \<Rightarrow> string \<Rightarrow> instant \<Rightarrow> int option" where
  "status_at t key now = (case mq_status t key of None \<Rightarrow> None | Some (v, expires) \<Rightarrow> if now < expires then Some v else None)"

definition set_status :: "string \<Rightarrow> int \<Rightarrow> instant \<Rightarrow> unit srepo" where
  "set_status key v now = stmt (\<lambda>t. Inr ((), t\<lparr>mq_status := (mq_status t)(key \<mapsto> (v, now + dedup_ttl))\<rparr>))"

definition setDedupDone :: "mq_env \<Rightarrow> string \<Rightarrow> int64 \<Rightarrow> instant \<Rightarrow> unit handler" where
  "setDedupDone c prefixKey uniqueID now =
     (if \<not> so_has_redis (mq_social c) then ret () else ignored (set_status (dedup_key prefixKey uniqueID) MsgPost now))"

text \<open>\<open>for i := 0; i < 3; i++\<close>: the first success ends the loop.\<close>

fun handle_attempts :: "nat \<Rightarrow> unit handler \<Rightarrow> bool handler" where
  "handle_attempts 0 h = ret False"
| "handle_attempts (Suc n) h =
     bind (attempt h) (\<lambda>r. case r of Inr _ \<Rightarrow> ret True | Inl _ \<Rightarrow> handle_attempts n h)"

text \<open>A missing key and a failing request both give an error, and the message is handled.\<close>

definition already_seen :: "mq_env \<Rightarrow> string \<Rightarrow> instant \<Rightarrow> bool handler" where
  "already_seen c key now =
     bind (attempt (read_rows (\<lambda>t. status_at t key now) :: int option srepo)) (\<lambda>r.
     ret (case r of Inr (Some v) \<Rightarrow> v = MsgPost \<or> v = MsgIng | _ \<Rightarrow> False))"

definition HandleWithDedup ::
  "mq_env \<Rightarrow> string \<Rightarrow> 'd delivery \<Rightarrow> ('d option \<Rightarrow> unit handler) \<Rightarrow> instant \<Rightarrow> instant \<Rightarrow> delivery_result handler" where
  "HandleWithDedup c prefixKey delivery h now done_at =
     (case delivery of
        BadBody \<Rightarrow> ret Nacked
      | Message uniqueID data \<Rightarrow>
          let key = dedup_key prefixKey uniqueID
          in bind (if so_has_redis (mq_social c) then already_seen c key now else ret False) (\<lambda>seen.
             if seen then ret Acked
             else
               bind (if so_has_redis (mq_social c) then ignored (set_status key MsgIng now) else ret ()) (\<lambda>_.
               bind (handle_attempts 3 (h data)) (\<lambda>ok.
               if ok then bind (setDedupDone c prefixKey uniqueID done_at) (\<lambda>_. ret Acked) else ret Nacked))))"

section \<open>Helpers\<close>

definition decodeData :: "'d option \<Rightarrow> 'd handler" where
  "decodeData data = present (Sentinel DecodeFailed) data"

definition pickFiltered :: "string \<Rightarrow> string \<Rightarrow> string" where
  "pickFiltered origin filtered = (if TrimSpace filtered = [] then origin else filtered)"

definition isRisky :: "mq_env \<Rightarrow> string \<Rightarrow> bool" where
  "isRisky c suggest = (let v = so_lower (mq_social c) (TrimSpace suggest) in v = ''risky'' \<or> v = ''block'')"

definition filterSensitiveText :: "mq_env \<Rightarrow> string \<Rightarrow> string handler" where
  "filterSensitiveText c content =
     (case so_filter (mq_social c) of
        None \<Rightarrow> ret content
      | Some flt \<Rightarrow>
          if content = [] then ret content
          else (case flt content of Inl e \<Rightarrow> throw (Sentinel (FilterFailed e)) | Inr filtered \<Rightarrow> ret filtered))"

definition findWXUserRecord :: "int64 \<Rightarrow> user_row handler" where
  "findWXUserRecord userID =
     (if userID \<le> 0 then throw (Sentinel BadWXUser)
      else take_row campus_users (\<lambda>u. User_ID u = userID))"

definition resolveWXOpenIDOwnerID :: "mq_env \<Rightarrow> user_row \<Rightarrow> int64 option" where
  "resolveWXOpenIDOwnerID c u =
     (if User_ID u \<le> 0 then None
      else if User_RootUserID u > 0 \<and> User_RootUserID u \<noteq> User_ID u then Some (User_RootUserID u)
      else if mq_equal_fold c (TrimSpace (User_AccountType u)) ''anonymous'' then None
      else Some (User_ID u))"

definition validateWXOpenID :: "user_row \<Rightarrow> string handler" where
  "validateWXOpenID u =
     (if User_ID u \<le> 0 then throw (Sentinel BadWXUser)
      else if TrimSpace (User_OpenID u) = [] then throw (Sentinel NoOpenID)
      else ret (TrimSpace (User_OpenID u)))"

definition resolveWXOpenID :: "mq_env \<Rightarrow> string \<Rightarrow> string handler" where
  "resolveWXOpenID c userID =
     (let userID = TrimSpace userID
      in if userID = [] then throw (Sentinel BadWXUser)
         else if \<not> so_has_db (mq_social c) then throw (Db NotInitialized)
         else
           case ParseInt userID of
             None \<Rightarrow> throw (Sentinel BadWXUser)
           | Some i \<Rightarrow>
               if i \<le> 0 then throw (Sentinel BadWXUser)
               else
                 bind (findWXUserRecord i) (\<lambda>user.
                 bind (present (Sentinel BadWXUser) (resolveWXOpenIDOwnerID c user)) (\<lambda>owner.
                 if owner = User_ID user then validateWXOpenID user
                 else bind (findWXUserRecord owner) (\<lambda>rootUser. validateWXOpenID rootUser))))"

definition MsgSecCheck :: "mq_env \<Rightarrow> string \<Rightarrow> string \<Rightarrow> (string \<times> string) handler" where
  "MsgSecCheck c content openID = present (Sentinel SecCheckFailed) (mq_sec_check c content openID)"

section \<open>QR codes\<close>

definition trim_right_slash :: "string \<Rightarrow> string" where
  "trim_right_slash u = rev (dropWhile (\<lambda>x. x = CHR ''/'') (rev u))"

definition checkQRCode :: "mq_env \<Rightarrow> string list \<Rightarrow> (string \<times> bool) list option handler" where
  "checkQRCode c urls =
     (case mq_jw_base_url c of
        None \<Rightarrow> throw (Sentinel QRCheckFailed)
      | Some base \<Rightarrow>
          if TrimSpace base = [] then throw (Sentinel QRCheckFailed)
          else
            (case mq_qr_service c (trim_right_slash base @ ''/qr/check'')
                    (if TrimSpace (mq_jw_api_key c) \<noteq> [] then mq_jw_api_key c else []) urls of
               Reply status (Some (code, results)) \<Rightarrow>
                 if status \<ge> 400 \<or> code \<noteq> 200 then throw (Sentinel QRCheckFailed) else ret results
             | _ \<Rightarrow> throw (Sentinel QRCheckFailed)))"

definition filterImagesWithQRCode :: "mq_env \<Rightarrow> string list \<Rightarrow> string list handler" where
  "filterImagesWithQRCode c urls =
     (if urls = [] then ret urls
      else
        bind (checkQRCode c urls) (\<lambda>results.
        ret (case results of
               None \<Rightarrow> urls
             | Some rs \<Rightarrow> (let hit = set (map fst (filter snd rs)) in filter (\<lambda>u. u \<notin> hit) urls))))"

section \<open>Topics and comments\<close>

definition checked_topic :: "string \<Rightarrow> string \<Rightarrow> string list \<Rightarrow> topic_doc \<Rightarrow> topic_doc" where
  "checked_topic title content imgs d =
     d\<lparr>Topic_HasCheck := True, Topic_Title := title, Topic_Content := content, Topic_Imgs := imgs\<rparr>"

text \<open>From the test for the WeChat client on.\<close>

definition check_topic :: "mq_env \<Rightarrow> string \<Rightarrow> topic_doc \<Rightarrow> unit handler" where
  "check_topic c topicOID d =
     (if \<not> mq_wx c then throw (Sentinel NoWXClient)
      else
        bind (resolveWXOpenID c (Topic_UserID d)) (\<lambda>openID.
        bind (filterSensitiveText c (Topic_Title d)) (\<lambda>filteredTitle.
        bind (filterSensitiveText c (Topic_Content d)) (\<lambda>filteredContent.
        bind (MsgSecCheck c filteredTitle openID) (\<lambda>(titleSuggest, titleFiltered).
        bind (MsgSecCheck c filteredContent openID) (\<lambda>(contentSuggest, contentFiltered).
        if isRisky c titleSuggest \<or> isRisky c contentSuggest then ret ()
        else
          bind (attempt (filterImagesWithQRCode c (Topic_Imgs d))) (\<lambda>r.
          let imgs = (case r of Inl _ \<Rightarrow> Topic_Imgs d | Inr imgs \<Rightarrow> imgs)
          in bind (update_topics (\<lambda>d. Topic_ID d = topicOID)
                    (checked_topic (pickFiltered filteredTitle titleFiltered) (pickFiltered filteredContent contentFiltered) imgs)) (\<lambda>_.
             ret ()))))))))"

definition handleTopicCheck :: "mq_env \<Rightarrow> string option \<Rightarrow> unit handler" where
  "handleTopicCheck c data =
     bind (decodeData data) (\<lambda>topicID.
     bind (present (Sentinel BadObjectID) (so_object_id (mq_social c) topicID)) (\<lambda>topicOID.
     bind (find_row topics (\<lambda>d. Topic_ID d = topicOID)) (\<lambda>topic.
     case topic of None \<Rightarrow> ret () | Some d \<Rightarrow> check_topic c topicOID d)))"

definition deleteRejectedComment :: "string \<Rightarrow> unit handler" where
  "deleteRejectedComment commentID =
     (if commentID = zero_id then ret ()
      else bind (delete_where comments comments_update (\<lambda>c. Comment_ID c = commentID)) (\<lambda>_. ret ()))"

definition sendNotify :: "mq_env \<Rightarrow> notify_msg \<Rightarrow> unit handler" where
  "sendNotify c msg = (if \<not> so_producer (mq_social c) then ret () else ignored (SendNotifyUser (mq_social c) msg))"

definition comment_notice :: "comment_doc \<Rightarrow> string \<Rightarrow> string \<Rightarrow> string \<Rightarrow> instant \<Rightarrow> notify_msg" where
  "comment_notice cmt filteredComment receiver ty createdTime =
     \<lparr>Notify_EventID = 0, Notify_TargetUserID = receiver, Notify_SenderUserID = CUser_UserID (Comment_User cmt), Notify_Type = ty,
      Notify_Content = filteredComment, Notify_TopicID = Comment_TopicID cmt, Notify_CommentID = Comment_ID cmt,
      Notify_CreatedTime = createdTime\<rparr>"

definition parent_user :: "mq_env \<Rightarrow> comment_doc \<Rightarrow> string handler" where
  "parent_user c cmt =
     (let known = (case Comment_Parent cmt of None \<Rightarrow> [] | Some p \<Rightarrow> CUser_UserID p)
      in if known \<noteq> [] \<or> Comment_ParentCmtID cmt = [] \<or> Comment_ParentCmtID cmt = ''0'' then ret known
         else
           (case so_object_id (mq_social c) (Comment_ParentCmtID cmt) of
              None \<Rightarrow> ret known
            | Some parentOID \<Rightarrow>
                bind (attempt (find_row comments (\<lambda>p. Comment_ID p = parentOID) :: comment_doc option srepo)) (\<lambda>r.
                ret (case r of Inr (Some p) \<Rightarrow> CUser_UserID (Comment_User p) | _ \<Rightarrow> known))))"

definition comment_receivers :: "comment_doc \<Rightarrow> string \<Rightarrow> string \<Rightarrow> string list" where
  "comment_receivers cmt topicAuthorID parentUserID =
     filter (\<lambda>r. r \<noteq> [] \<and> r \<noteq> CUser_UserID (Comment_User cmt)) (remdups [topicAuthorID, parentUserID])"

fun notify_receivers :: "mq_env \<Rightarrow> comment_doc \<Rightarrow> string \<Rightarrow> string \<Rightarrow> instant \<Rightarrow> string list \<Rightarrow> unit handler" where
  "notify_receivers c cmt filteredComment parentUserID createdTime [] = ret ()"
| "notify_receivers c cmt filteredComment parentUserID createdTime (r # rs) =
     bind (sendNotify c (comment_notice cmt filteredComment r
             (if r = parentUserID then ''COMMENT_REPLY'' else ''COMMENT_ADD'') createdTime)) (\<lambda>_.
     notify_receivers c cmt filteredComment parentUserID createdTime rs)"

text \<open>The receivers are the keys of a map; the loop sends to them in this or the other order (\<open>swap\<close>).\<close>

definition notifyCommentUsers :: "mq_env \<Rightarrow> comment_doc \<Rightarrow> string \<Rightarrow> string \<Rightarrow> instant \<Rightarrow> bool \<Rightarrow> unit handler" where
  "notifyCommentUsers c cmt filteredComment topicAuthorID createdTime swap =
     (if Comment_ParentCmtID cmt = ''0'' then
        (if topicAuthorID \<noteq> [] \<and> topicAuthorID \<noteq> CUser_UserID (Comment_User cmt)
         then sendNotify c (comment_notice cmt filteredComment topicAuthorID ''COMMENT_ADD'' createdTime) else ret ())
      else
        bind (parent_user c cmt) (\<lambda>parentUserID.
        if parentUserID = CUser_UserID (Comment_User cmt) then ret ()
        else
          let receivers = comment_receivers cmt topicAuthorID parentUserID
          in notify_receivers c cmt filteredComment parentUserID createdTime (if swap then rev receivers else receivers)))"

text \<open>The document the consumer inserts when the comment is gone has only the fields of its own struct.\<close>

definition bare_user :: "comment_user \<Rightarrow> comment_user" where
  "bare_user u =
     \<lparr>CUser_UserID = CUser_UserID u, CUser_Avatar = [], CUser_NickName = [], CUser_AccountType = [], CUser_Signature = [],
      CUser_gender = []\<rparr>"

definition bare_comment :: "comment_doc \<Rightarrow> string \<Rightarrow> instant \<Rightarrow> comment_doc" where
  "bare_comment cmt content now =
     cmt\<lparr>Comment_Comment := content, Comment_CreatedTime := now, Comment_User := bare_user (Comment_User cmt),
         Comment_Parent := map_option bare_user (Comment_Parent cmt), Comment_IsAuthor := False, Comment_LikeNum := 0,
         Comment_CommentNum := 0, Comment_HasCheck := Some True, Comment_deletedTime := None\<rparr>"

definition check_comment_row :: "string \<Rightarrow> instant \<Rightarrow> comment_doc \<Rightarrow> comment_doc" where
  "check_comment_row content now c = c\<lparr>Comment_Comment := content, Comment_HasCheck := Some True, Comment_CreatedTime := now\<rparr>"

definition store_checked :: "comment_doc \<Rightarrow> string \<Rightarrow> instant \<Rightarrow> unit handler" where
  "store_checked cmt content now =
     bind (update_comment (Comment_ID cmt) (check_comment_row content now)) (\<lambda>matched.
     if matched then ret () else create_row comments comments_update comment_ids_ok (bare_comment cmt content now))"

definition count_in_topic :: "mq_env \<Rightarrow> string \<Rightarrow> int64 \<Rightarrow> unit handler" where
  "count_in_topic c topicID delta =
     (case so_object_id (mq_social c) topicID of
        None \<Rightarrow> ret ()
      | Some topicOID \<Rightarrow> ignored (update_topics (\<lambda>d. Topic_ID d = topicOID) (inc_topic_comments delta)))"

definition count_in_root :: "mq_env \<Rightarrow> string \<Rightarrow> int64 \<Rightarrow> unit handler" where
  "count_in_root c rootCmtID delta =
     (if rootCmtID = [] then ret ()
      else
        case so_object_id (mq_social c) rootCmtID of
          None \<Rightarrow> ret ()
        | Some rootOID \<Rightarrow> ignored (update_comment rootOID (inc_replies delta)))"

text \<open>A topic identifier that does not parse leaves the zero ObjectID for the last query.\<close>

definition notify_about :: "mq_env \<Rightarrow> comment_doc \<Rightarrow> string \<Rightarrow> instant \<Rightarrow> bool \<Rightarrow> unit handler" where
  "notify_about c cmt content now swap =
     (let topicOID = (case so_object_id (mq_social c) (Comment_TopicID cmt) of None \<Rightarrow> zero_id | Some i \<Rightarrow> i)
      in bind (attempt (find_row topics (\<lambda>d. Topic_ID d = topicOID) :: topic_doc option srepo)) (\<lambda>r.
         case r of
           Inr (Some d) \<Rightarrow> notifyCommentUsers c cmt content (Topic_UserID d) now swap
         | _ \<Rightarrow> ret ()))"

definition handleCommentAdd :: "mq_env \<Rightarrow> instant \<Rightarrow> bool \<Rightarrow> comment_doc option \<Rightarrow> unit handler" where
  "handleCommentAdd c now swap data =
     bind (decodeData data) (\<lambda>cmt.
     if Comment_ID cmt = zero_id then throw (Sentinel EmptyCommentID)
     else if \<not> mq_wx c then throw (Sentinel NoWXClient)
     else
       bind (resolveWXOpenID c (CUser_UserID (Comment_User cmt))) (\<lambda>openID.
       bind (filterSensitiveText c (Comment_Comment cmt)) (\<lambda>filteredComment.
       bind (MsgSecCheck c filteredComment openID) (\<lambda>(suggest, filtered).
       if isRisky c suggest then deleteRejectedComment (Comment_ID cmt)
       else
         let content = pickFiltered filteredComment filtered
         in bind (store_checked cmt content now) (\<lambda>_.
            bind (count_in_topic c (Comment_TopicID cmt) 1) (\<lambda>_.
            bind (count_in_root c (Comment_RootCmtID cmt) 1) (\<lambda>_.
            notify_about c cmt content now swap)))))))"

section \<open>Profiles, deletions and dead letters\<close>

definition accountTypeName :: "int \<Rightarrow> string" where
  "accountTypeName accountType = (if accountType = 3 then ''anonymous'' else ''base'')"

definition new_or_old :: "string \<Rightarrow> string \<Rightarrow> string" where
  "new_or_old v old = (if v = [] then old else v)"

definition empty_profile :: "user_update_msg \<Rightarrow> bool" where
  "empty_profile msg \<longleftrightarrow>
     Profile_NickName msg = [] \<and> Profile_Avatar msg = [] \<and> Profile_Gender msg = [] \<and> Profile_Signature msg = []"

definition profile_topic_row :: "user_update_msg \<Rightarrow> topic_doc \<Rightarrow> topic_doc" where
  "profile_topic_row msg d =
     d\<lparr>Topic_NickName := new_or_old (Profile_NickName msg) (Topic_NickName d), Topic_Avatar := new_or_old (Profile_Avatar msg) (Topic_Avatar d),
       Topic_gender := new_or_old (Profile_Gender msg) (Topic_gender d),
       Topic_signature := new_or_old (Profile_Signature msg) (Topic_signature d),
       Topic_account_type :=
         (if Profile_AccountType msg > 0 then accountTypeName (Profile_AccountType msg) else Topic_account_type d)\<rparr>"

definition handleTopicUpdate :: "user_update_msg option \<Rightarrow> unit handler" where
  "handleTopicUpdate data =
     bind (decodeData data) (\<lambda>msg.
     if Profile_UserID msg = [] \<or> empty_profile msg \<and> Profile_AccountType msg \<le> 0 then ret ()
     else bind (update_where topics topics_update (\<lambda>_. True) (\<lambda>d. Topic_UserID d = Profile_UserID msg) (profile_topic_row msg)) (\<lambda>_. ret ()))"

definition profile_user :: "user_update_msg \<Rightarrow> comment_user \<Rightarrow> comment_user" where
  "profile_user msg u =
     u\<lparr>CUser_NickName := new_or_old (Profile_NickName msg) (CUser_NickName u), CUser_Avatar := new_or_old (Profile_Avatar msg) (CUser_Avatar u),
       CUser_gender := new_or_old (Profile_Gender msg) (CUser_gender u),
       CUser_Signature := new_or_old (Profile_Signature msg) (CUser_Signature u)\<rparr>"

definition profile_user_row :: "user_update_msg \<Rightarrow> comment_doc \<Rightarrow> comment_doc" where
  "profile_user_row msg c =
     c\<lparr>Comment_User := (profile_user msg (Comment_User c))
         \<lparr>CUser_AccountType := (if Profile_AccountType msg > 0 then accountTypeName (Profile_AccountType msg)
                               else CUser_AccountType (Comment_User c))\<rparr>\<rparr>"

definition profile_parent_row :: "user_update_msg \<Rightarrow> comment_doc \<Rightarrow> comment_doc" where
  "profile_parent_row msg c = c\<lparr>Comment_Parent := map_option (profile_user msg) (Comment_Parent c)\<rparr>"

definition handleCommentUpdate :: "user_update_msg option \<Rightarrow> unit handler" where
  "handleCommentUpdate data =
     bind (decodeData data) (\<lambda>msg.
     if Profile_UserID msg = [] \<or> empty_profile msg \<and> Profile_AccountType msg \<le> 0 then ret ()
     else
       bind (update_where comments comments_update (\<lambda>_. True)
              (\<lambda>c. CUser_UserID (Comment_User c) = Profile_UserID msg) (profile_user_row msg)) (\<lambda>_.
       if empty_profile msg then ret ()
       else bind (update_where comments comments_update (\<lambda>_. True)
              (\<lambda>c. case Comment_Parent c of None \<Rightarrow> False | Some p \<Rightarrow> CUser_UserID p = Profile_UserID msg)
              (profile_parent_row msg)) (\<lambda>_. ret ())))"

definition pull_everywhere :: "state_coll \<Rightarrow> string \<Rightarrow> nat srepo" where
  "pull_everywhere c topicID =
     update_where (state_docs c) (state_docs_update c) (\<lambda>_. True) (\<lambda>_. True) (pull_state topicID)"

definition handleTopicDelete :: "string option \<Rightarrow> unit handler" where
  "handleTopicDelete data =
     bind (decodeData data) (\<lambda>topicID.
     if topicID = [] then ret ()
     else
       bind (ignored (pull_everywhere CollLike topicID)) (\<lambda>_.
       bind (ignored (pull_everywhere CollCollection topicID)) (\<lambda>_.
       bind (hide_topic_comments topicID) (\<lambda>_. ret ()))))"

definition handleCommentDelete :: "mq_env \<Rightarrow> (string \<times> string) option \<Rightarrow> unit handler" where
  "handleCommentDelete c data =
     bind (decodeData data) (\<lambda>(topicID, commentID).
     if commentID = [] then ret ()
     else
       bind (present (Sentinel BadObjectID) (so_object_id (mq_social c) commentID)) (\<lambda>commentOID.
       bind (attempt (find_row comments (\<lambda>c. Comment_ID c = commentOID) :: comment_doc option srepo)) (\<lambda>r.
       bind (case r of
               Inr (Some cmt) \<Rightarrow>
                 if Comment_HasCheck cmt = Some True then
                   bind (if Comment_TopicID cmt \<noteq> [] then count_in_topic c (Comment_TopicID cmt) (-1) else ret ()) (\<lambda>_.
                   count_in_root c (Comment_RootCmtID cmt) (-1))
                 else ret ()
             | _ \<Rightarrow> ret ()) (\<lambda>_.
       bind (ignored (delete_where comment_likes comment_likes_update (\<lambda>l. CLike_CommentID l = commentID) :: nat srepo)) (\<lambda>_.
       bind (delete_where comments comments_update (\<lambda>c. Comment_ID c = commentOID)) (\<lambda>_. ret ()))))))"

definition handleNotifyUser :: "mq_env \<Rightarrow> notify_msg option \<Rightarrow> unit handler" where
  "handleNotifyUser c data =
     bind (decodeData data) (\<lambda>msg.
     if Notify_TargetUserID msg = [] then ret ()
     else
       case mq_writer c of
         None \<Rightarrow> throw (Sentinel NoWriter)
       | Some write \<Rightarrow> (case write msg of None \<Rightarrow> ret () | Some e \<Rightarrow> throw (Sentinel (WriterFailed e))))"

text \<open>Data that is no dead letter of its own is kept as text; \<open>raw\<close> is that text.\<close>

definition die_content :: "die_msg option \<Rightarrow> string \<Rightarrow> die_msg" where
  "die_content data raw =
     (case data of
        None \<Rightarrow> \<lparr>Die_Queue = [], Die_Payload = Some raw, Die_Reason = []\<rparr>
      | Some msg \<Rightarrow>
          if Die_Queue msg = [] \<and> Die_Payload msg = None \<and> Die_Reason msg = []
          then \<lparr>Die_Queue = [], Die_Payload = Some raw, Die_Reason = []\<rparr> else msg)"

definition handleDie :: "string \<Rightarrow> instant \<Rightarrow> die_msg option \<Rightarrow> unit handler" where
  "handleDie raw now data w =
     (if \<not> connected w then (Inr (), w)
      else create_row campus_mq campus_mq_update (\<lambda>_. True)
             \<lparr>Log_CreatedTime = now, Log_Type = ''die'', Log_Data = die_content data raw\<rparr> w)"

end
