(* ===== verification/Social_Inv.thy ===== *)
theory Social_Inv
  imports Queue_Consumer
begin

text \<open>
  What the calls of the topics, the comments and the consumers keep. A predicate on the collections that the everyday
  statements keep (locale \<open>everyday\<close>) is kept by every call that neither publishes a topic nor touches likes and
  collections; the calls of the comments and their consumers are among them.
\<close>

named_theorems social_keeps \<open>programs that keep a predicate\<close>

lemma keeps_cases [social_keeps]:
  "(x = None \<Longrightarrow> keeps I m) \<Longrightarrow> (\<And>y. x = Some y \<Longrightarrow> keeps I (f y)) \<Longrightarrow> keeps I (case x of None \<Rightarrow> m | Some y \<Rightarrow> f y)"
  "(\<And>e. r = Inl e \<Longrightarrow> keeps I (g e)) \<Longrightarrow> (\<And>y. r = Inr y \<Longrightarrow> keeps I (h y)) \<Longrightarrow> keeps I (case r of Inl e \<Rightarrow> g e | Inr y \<Rightarrow> h y)"
  "(\<And>a b. p = (a, b) \<Longrightarrow> keeps I (k a b)) \<Longrightarrow> keeps I (case p of (a, b) \<Rightarrow> k a b)"
  by (auto split: option.split sum.split prod.split)

lemma keeps_ignored [social_keeps]: "keeps I m \<Longrightarrow> keeps I (ignored m)"
  unfolding ignored_def by (intro keeps_bind keeps_attempt keeps_basic)

lemma keeps_sql_db [social_keeps]: "keeps I m \<Longrightarrow> keeps I (sql_db s m)"
  unfolding sql_db_def by (intro keeps_if keeps_basic)

lemma keeps_check [social_keeps]: "keeps I (check e)"
  unfolding check_def by (intro keeps_cases keeps_basic)

lemma keeps_passed [social_keeps]: "keeps I m \<Longrightarrow> keeps I (passed m)"
  unfolding passed_def by (rule keeps_map_error)

lemma keeps_decodeData [social_keeps]: "keeps I (decodeData x)"
  unfolding decodeData_def by (rule keeps_present)

lemma keeps_refused_page [social_keeps]: "keeps I (stmt (\<lambda>t. if b then Inl DbFailure else Inr (q t, t)))"
  by (rule keeps_stmt) (auto split: if_splits)

lemma keeps_refused_filter [social_keeps]:
  "keeps I (stmt (\<lambda>t. case P of None \<Rightarrow> Inl DbFailure | Some P \<Rightarrow> Inr (q P t, t)))"
  "keeps I (stmt (\<lambda>t. case P of None \<Rightarrow> Inl DbFailure | Some P \<Rightarrow> if b then Inl DbFailure else Inr (q P t, t)))"
  by (rule keeps_stmt, auto split: if_splits option.splits)+

lemmas [social_keeps] = keeps_basic keeps_bind keeps_if keeps_attempt keeps_find_row keeps_result keeps_present keeps_wrapped
  keeps_map_error

section \<open>Runs\<close>

lemma unchanged: "(\<And>u. keeps (\<lambda>v. v = u) m) \<Longrightarrow> outcome m t r t' \<Longrightarrow> t' = t"
  by (auto dest: keepsD)

text \<open>A program that only reads is passed, or ends the whole with an error and no change.\<close>

lemma bind_readE:
  assumes "outcome (bind m f) t r t'" and "\<And>u. keeps (\<lambda>v. v = u) m"
  obtains e where "r = Inl e" and "t' = t" | x where "outcome m t (Inr x) t" and "outcome (f x) t r t'"
  using assms(1) by (rule outcome_bindE) (auto dest: unchanged [OF assms(2)] intro: that)

lemma present_outcome: "outcome (present e x) t (Inr y) t' \<longleftrightarrow> x = Some y \<and> t' = t"
  by (auto simp: present_def outcome_ret outcome_throw split: option.splits)

lemma internal_outcomeE:
  assumes "outcome (internal_error msg m) t r t'"
  obtains e where "r = Inl (InternalWrap msg (Some e))" and "outcome m t (Inl e) t'" | x where "r = Inr x" and "outcome m t (Inr x) t'"
  using assms unfolding internal_error_def by (rule outcome_map_errorE)

lemma internal_Inr: "outcome (internal_error msg m) t (Inr x) t' \<longleftrightarrow> outcome m t (Inr x) t'"
  by (simp add: internal_error_def outcome_map_error_Inr)

text \<open>Sending a message changes the number of messages.\<close>

definition renumbered :: "social_db \<Rightarrow> social_db \<Rightarrow> bool" where
  "renumbered t u \<longleftrightarrow> (\<exists>n. u = t\<lparr>mq_uuid := n\<rparr>)"

lemma renumbered_refl [simp]: "renumbered t t"
  unfolding renumbered_def by (rule exI [of _ "mq_uuid t"]) simp

lemma keeps_numbering [social_keeps]: "keeps (renumbered t) (mq_Send s key d)"
proof -
  have "keeps (renumbered t) (next_uuid s)"
    unfolding next_uuid_def by (intro social_keeps keeps_stmt) (auto simp: renumbered_def intro: exI)
  then show ?thesis unfolding mq_Send_def by (intro social_keeps)
qed

section \<open>Reading\<close>

text \<open>These programs change nothing, so they keep everything.\<close>

lemma keeps_topic_reads [social_keeps]:
  "keeps I (topic_FindTopicByID i b)" "keeps I (FindTopicsPage s P ord page sz)" "keeps I (SearchHotTopics P ago page sz)"
  "keeps I (FindTopicStateDocs k u a)" "keeps I (CountTopicStateItems k u a)" "keeps I (FindTopicsByIDs ids b)"
  "keeps I (ThemeExists th)" "keeps I (FindThemeName th)" "keeps I (topic_FindUserByID s n)" "keeps I (topic_FindUsersByIDs s ns)"
  "keeps I (FindUserByRootAndAccountType s n a)"
  unfolding topic_FindTopicByID_def FindTopicsPage_def SearchHotTopics_def page_of_topics_def FindTopicStateDocs_def
    CountTopicStateItems_def FindTopicsByIDs_def ThemeExists_def FindThemeName_def topic_FindUserByID_def topic_FindUsersByIDs_def
    FindUserByRootAndAccountType_def Let_def
  by (intro social_keeps)+

lemma keeps_topic_helpers [social_keeps]:
  "keeps I (topic_filterText s x)" "keeps I (topic_capability s n m)" "keeps I (parseTopicObjectID s i)"
  "keeps I (ensureThemeExists th)" "keeps I (resolveThemeName th)" "keeps I (author_of_root s n a)"
  unfolding topic_filterText_def topic_capability_def parseTopicObjectID_def ensureThemeExists_def resolveThemeName_def
    author_of_root_def
  by (intro social_keeps)+

lemma keeps_topic_lookups [social_keeps]:
  "keeps I (resolveTopicAuthor s cl a)" "keeps I (resolveAdminTopicAuthor s n a)" "keeps I (getTopicByID s i b)"
  "keeps I (fillTopicUserCertification s vs)" "keeps I (filtered_field s x)" "keeps I (fillTopicFlags u a ix vs k)"
  unfolding resolveTopicAuthor_def resolveAdminTopicAuthor_def getTopicByID_def fillTopicUserCertification_def filtered_field_def
    fillTopicFlags_def Let_def
  by (intro social_keeps)+

lemma keeps_fill [social_keeps]: "keeps I m \<Longrightarrow> keeps I (fill_or_keep m vs)"
  unfolding fill_or_keep_def by (intro social_keeps)

lemma keeps_topic_lists [social_keeps]:
  "keeps I (fillLikeAndCollection u a vs)" "keeps I (dress_topics s ds)"
  unfolding fillLikeAndCollection_def dress_topics_def Let_def by (intro social_keeps)+

lemma keeps_topic_pages [social_keeps]:
  "keeps I (listByFilter s P page sz u a ord)" "keeps I (searchHot s u a ths x ago page sz)" "keeps I (findByIDs s ids)"
  "keeps I (ListAdmin s page sz)"
  unfolding listByFilter_def searchHot_def findByIDs_def ListAdmin_def Let_def by (intro social_keeps)+

lemma keeps_topic_listings [social_keeps]:
  "keeps I (topic_ListMine s n a page sz)" "keeps I (ListTargetUserTopics s n m a page sz)"
  "keeps I (topic_Search s u a ths x ago page sz ord)" "keeps I (listTopicsFromArrayDocs s k n a page sz)"
  "keeps I (topic_ReportTarget s i)"
  unfolding topic_ListMine_def ListTargetUserTopics_def topic_Search_def listTopicsFromArrayDocs_def topic_ReportTarget_def
    wrapped_again_def Let_def
  by (intro social_keeps)+

lemma keeps_state_listings [social_keeps]: "keeps I (ListLikedTopics s n a page sz)" "keeps I (ListCollectedTopics s n a page sz)"
  unfolding ListLikedTopics_def ListCollectedTopics_def by (intro social_keeps)+

lemma keeps_comment_reads [social_keeps]:
  "keeps I (FindCommentsPage s P ord page sz)" "keeps I (comment_FindUserByID s n)" "keeps I (comment_FindUsersByIDs s ns)"
  "keeps I (comment_FindTopicByID i b)" "keeps I (FindCommentByID i)" "keeps I (FindLikedCommentIDs ids u)" "keeps I (CommentLikeExists i u)"
  "keeps I (comment_filterText s x)" "keeps I (comment_parseObjectID s i)" "keeps I (comment_capability s n)"
  unfolding FindCommentsPage_def comment_FindUserByID_def comment_FindUsersByIDs_def comment_FindTopicByID_def FindCommentByID_def
    FindLikedCommentIDs_def CommentLikeExists_def comment_filterText_def comment_parseObjectID_def comment_capability_def
  by (intro social_keeps)+

lemma keeps_comment_lookups [social_keeps]:
  "keeps I (loadUser s n)" "keeps I (getTopic s i b)" "keeps I (getCommentByID s i)" "keeps I (getHasLikeBatch u vs)"
  "keeps I (fillCommentUserCertification s vs)"
  unfolding loadUser_def getTopic_def getCommentByID_def getHasLikeBatch_def fillCommentUserCertification_def Let_def
  by (intro social_keeps)+

lemma keeps_comment_checks [social_keeps]:
  "keeps I (loadUserByStringID s i)" "keeps I (ensureTopicExists s i)" "keeps I (fillCommentLikeState u vs)"
  unfolding loadUserByStringID_def ensureTopicExists_def fillCommentLikeState_def by (intro social_keeps)+

lemma keeps_with_topics [social_keeps]: "keeps I (with_topics s vs)"
  by (induction vs) (simp_all, (intro social_keeps; assumption)+)

lemma keeps_comment_lists [social_keeps]:
  "keeps I (validateCommentPermission s u d)" "keeps I (ListByTopic s i root n page sz)" "keeps I (comment_ListMine s n page sz)"
  "keeps I (ListTargetUserComments s n page sz)" "keeps I (ListCommentAdmin s i page sz)" "keeps I (comment_ReportTarget s i)"
  unfolding validateCommentPermission_def ListByTopic_def comment_ListMine_def ListTargetUserComments_def ListCommentAdmin_def
    comment_ReportTarget_def Let_def
  by (intro social_keeps)+

lemma keeps_consumer_reads [social_keeps]:
  "keeps I (filterSensitiveText c x)" "keeps I (findWXUserRecord n)" "keeps I (validateWXOpenID u)" "keeps I (MsgSecCheck c x oid)"
  "keeps I (checkQRCode c urls)" "keeps I (already_seen c key now)"
  unfolding filterSensitiveText_def findWXUserRecord_def validateWXOpenID_def MsgSecCheck_def already_seen_def
  by (intro social_keeps)+ (auto simp: checkQRCode_def intro!: social_keeps split: qr_reply.split option.split)

lemma keeps_consumer_lookups [social_keeps]:
  "keeps I (resolveWXOpenID c u)" "keeps I (filterImagesWithQRCode c urls)" "keeps I (parent_user c cmt)"
  unfolding resolveWXOpenID_def filterImagesWithQRCode_def parent_user_def Let_def by (intro social_keeps)+

section \<open>Everyday statements\<close>

text \<open>A change of a topic that keeps what it is known by, its likes and collections, and does not publish it.\<close>

definition quiet :: "(topic_doc \<Rightarrow> topic_doc) \<Rightarrow> bool" where
  "quiet f \<longleftrightarrow> (\<forall>d. Topic_ID (f d) = Topic_ID d \<and> Topic_UserID (f d) = Topic_UserID d \<and> Topic_LikeNum (f d) = Topic_LikeNum d \<and>
     Topic_CollectionNum (f d) = Topic_CollectionNum d \<and> (Topic_HasCheck (f d) \<longrightarrow> Topic_HasCheck d))"

lemma quiet_changes:
  "quiet (\<lambda>d. d\<lparr>Topic_HasCheck := False\<rparr>)" "quiet (inc_field VisitedNum n)" "quiet (inc_topic_comments n)"
  "quiet (profile_topic_row msg)" "Set_HasCheck u \<noteq> Some True \<Longrightarrow> quiet (set_topic u)"
  by (auto simp: quiet_def inc_field_def inc_topic_comments_def profile_topic_row_def set_topic_def split: option.splits)

definition plain_topic :: "topic_doc \<Rightarrow> bool" where
  "plain_topic d \<longleftrightarrow> \<not> Topic_HasCheck d \<and> Topic_LikeNum d = 0 \<and> Topic_CollectionNum d = 0"

locale everyday =
  fixes I :: "social_db \<Rightarrow> bool"
  assumes uuid_kept: "I t \<Longrightarrow> I (t\<lparr>mq_uuid := n\<rparr>)"
    and topics_kept: "quiet f \<Longrightarrow> I t \<Longrightarrow> I (topics_update (update_rows P f) t)"
    and topic_added: "plain_topic d \<Longrightarrow> topic_ids_ok (topics t @ [d]) \<Longrightarrow> I t \<Longrightarrow> I (topics_update (\<lambda>ts. ts @ [d]) t)"
    and comments_kept: "I t \<Longrightarrow> I (comments_update g t)"
    and comment_likes_kept: "I t \<Longrightarrow> I (comment_likes_update h t)"
    and campus_mq_kept: "I t \<Longrightarrow> I (campus_mq_update l t)"
begin

lemma keeps_send [social_keeps]: "keeps I (mq_Send s key d)"
proof -
  have "keeps I (next_uuid s)"
    unfolding next_uuid_def by (intro social_keeps keeps_stmt) (auto simp: uuid_kept)
  then show ?thesis unfolding mq_Send_def by (intro social_keeps)
qed

lemma keeps_producers [social_keeps]:
  "keeps I (SendTopicCheck s i)" "keeps I (SendDeleteTopic s i)" "keeps I (SendNotifyUser s msg)" "keeps I (SendAddComment s cmt)"
  "keeps I (SendDeleteComment s i j)" "keeps I (sendTopicNotify s u v i x ty now)" "keeps I (sendNotify c msg)"
  unfolding SendTopicCheck_def SendDeleteTopic_def SendNotifyUser_def SendAddComment_def SendDeleteComment_def sendTopicNotify_def sendNotify_def
  by (intro social_keeps)+

lemma keeps_update_topics: "quiet f \<Longrightarrow> keeps I (update_topics P f)"
  unfolding update_topics_def by (rule keeps_stmt) (auto simp: topics_kept)

lemma keeps_topic_writes [social_keeps]:
  "keeps I (HideTopicByUser i u)" "keeps I (HideTopicAdmin i)" "keeps I (IncrementTopicField i VisitedNum n)"
  "keeps I (IncrementTopicCommentNum i n)"
  unfolding HideTopicByUser_def HideTopicAdmin_def hideTopic_def IncrementTopicField_def
  by (intro social_keeps keeps_update_topics quiet_changes; assumption)+
    (auto simp: IncrementTopicCommentNum_def quiet_changes topics_kept intro!: social_keeps keeps_stmt)

lemma keeps_unpublished:
  assumes "Set_HasCheck v \<noteq> Some True"
  shows "keeps I (UpdateTopic i u v)" "keeps I (UpdateTopicAdmin i v)"
  unfolding UpdateTopic_def UpdateTopicAdmin_def
  by (intro social_keeps keeps_update_topics quiet_changes assms)+

lemma keeps_create_topic: "plain_topic d \<Longrightarrow> keeps I (CreateTopic d)"
  unfolding CreateTopic_def by (intro social_keeps keeps_create_row topic_added)

lemma keeps_comment_writes [social_keeps]:
  "keeps I (CreateComment cmt)" "keeps I (hideComment Q now)" "keeps I (update_comment i g)" "keeps I (AddCommentLike i u)"
  "keeps I (RemoveCommentLike i u)" "keeps I (hide_topic_comments i)" "keeps I (create_row comments comments_update ok cmt)"
  "keeps I (delete_where comments comments_update Q :: nat srepo)" "keeps I (delete_where comment_likes comment_likes_update R :: nat srepo)"
  "keeps I (update_where comments comments_update ok' Q g :: nat srepo)"
  unfolding CreateComment_def hideComment_def update_comment_def AddCommentLike_def RemoveCommentLike_def hide_topic_comments_def Let_def
  by (intro social_keeps keeps_stmt keeps_create_row keeps_delete_where keeps_update_where; auto simp: comments_kept comment_likes_kept)+

lemma keeps_comment_counts [social_keeps]:
  "keeps I (IncrementRootCommentNum i n)" "keeps I (IncrementCommentLikeNum i n)" "keeps I (HideCommentByUser i j u now)"
  "keeps I (HideCommentAdmin i j now)"
  unfolding IncrementRootCommentNum_def IncrementCommentLikeNum_def HideCommentByUser_def HideCommentAdmin_def by (intro social_keeps)+

text \<open>The calls of the topics.\<close>

lemma new_topic_plain: "plain_topic (new_topic i req u title x False)"
  by (simp add: plain_topic_def new_topic_def)

lemma keeps_topic_Create [social_keeps]: "keeps I (topic_Create s cl req i)"
  unfolding topic_Create_def Let_def by (intro social_keeps keeps_create_topic new_topic_plain)

lemma keeps_topic_calls [social_keeps]:
  "keeps I (topic_Delete s i n)" "keeps I (topic_GetByID s i u a)" "keeps I (UpdateAdmin s i req)"
  unfolding topic_Delete_def topic_GetByID_def UpdateAdmin_def Let_def
  by (intro social_keeps keeps_unpublished; simp add: buildAdminTopicUpdate_def)+

lemma keeps_topic_Update:
  assumes "\<And>r. req = Some r \<Longrightarrow> ChgTopic_HasCheck r \<noteq> Some True"
  shows "keeps I (topic_Update s i n req)"
  unfolding topic_Update_def Let_def by (intro social_keeps keeps_unpublished) (use assms in \<open>auto split: option.splits\<close>)

text \<open>The calls of the comments.\<close>

lemma keeps_delete_parts [social_keeps]:
  "keeps I (deleteCommentFallback s i j e)" "keeps I (decrementCommentCounters s i j)"
  unfolding deleteCommentFallback_def decrementCommentCounters_def by (intro social_keeps)+

lemma keeps_finish_delete [social_keeps]: "keeps I (finish_delete s i j k r)"
  unfolding finish_delete_def by (intro social_keeps)

lemma keeps_comment_calls [social_keeps]:
  "keeps I (AddComment s i n x p j now)" "keeps I (DeleteComment s i j n now)" "keeps I (DeleteCommentAdmin s i j now)"
  "keeps I (incCommentLikeStrict s j d)"
  unfolding AddComment_def DeleteComment_def DeleteCommentAdmin_def incCommentLikeStrict_def Let_def
  by (intro social_keeps)+

lemma keeps_comment_actions [social_keeps]:
  "keeps I (comment_HideForModeration s j now)" "keeps I (LikeComment s j n)" "keeps I (UnlikeComment s j n)"
  unfolding comment_HideForModeration_def LikeComment_def UnlikeComment_def Let_def by (intro social_keeps)+

text \<open>The consumers that neither publish a topic nor clean up after one.\<close>

lemma keeps_counting [social_keeps]: "keeps I (count_in_topic c i n)" "keeps I (count_in_root c i n)"
  unfolding count_in_topic_def count_in_root_def by (intro social_keeps keeps_update_topics quiet_changes)+

lemma keeps_notify_all [social_keeps]: "keeps I (notify_receivers c cmt x p now rs)"
  by (induction rs) (auto intro!: social_keeps)

lemma keeps_notifying [social_keeps]:
  "keeps I (notifyCommentUsers c cmt x u now b)" "keeps I (store_checked cmt x now)" "keeps I (deleteRejectedComment i)"
  unfolding notifyCommentUsers_def store_checked_def deleteRejectedComment_def Let_def by (intro social_keeps)+

lemma keeps_notify_about [social_keeps]: "keeps I (notify_about c cmt x now b)"
  unfolding notify_about_def Let_def by (intro social_keeps)

lemma keeps_handleCommentAdd [social_keeps]: "keeps I (handleCommentAdd c now b d)"
  unfolding handleCommentAdd_def Let_def by (intro social_keeps)

lemma keeps_handlers [social_keeps]:
  "keeps I (handleTopicUpdate m)" "keeps I (handleCommentUpdate m)" "keeps I (handleCommentDelete c d)" "keeps I (handleNotifyUser c n)"
  unfolding handleTopicUpdate_def handleCommentUpdate_def handleCommentDelete_def handleNotifyUser_def
  by (intro social_keeps keeps_update_where topics_kept quiet_changes; assumption)+

lemma keeps_handleDie [social_keeps]: "keeps I (handleDie raw now d)"
proof -
  have "handleDie raw now d =
    bind (\<lambda>w. (Inr (connected w), w)) (\<lambda>b. if \<not> b then ret () else create_row campus_mq campus_mq_update (\<lambda>_. True)
      \<lparr>Log_CreatedTime = now, Log_Type = ''die'', Log_Data = die_content d raw\<rparr>)"
    by (simp add: fun_eq_iff handleDie_def bind_def ret_def)
  moreover have "keeps I (\<lambda>w. (Inr (connected w), w))" by (auto simp: keeps_def outcome_def)
  ultimately show ?thesis by (auto intro!: social_keeps keeps_create_row campus_mq_kept)
qed

lemma keeps_retry: "keeps I h \<Longrightarrow> keeps I (handle_attempts n h)"
  by (induction n) (simp_all, (intro social_keeps; assumption)+)

end

text \<open>Cleaning up after a deleted topic takes it out of all likes and collections.\<close>

locale everyday_cleanup = everyday +
  assumes pulled_kept: "I t \<Longrightarrow> I (state_docs_update k (update_rows (\<lambda>_. True) (pull_state i)) t)"
begin

lemma keeps_pulls [social_keeps]: "keeps I (pull_everywhere k i)" "keeps I (removeTopicFromStateCollection k i)"
  unfolding pull_everywhere_def removeTopicFromStateCollection_def
  by (intro social_keeps keeps_update_where pulled_kept; assumption)+

lemma keeps_cleanup [social_keeps]: "keeps I (CleanupDeletedTopic i)" "keeps I (handleTopicDelete d)"
  unfolding CleanupDeletedTopic_def handleTopicDelete_def by (intro social_keeps)+

lemma keeps_topic_DeleteAdmin [social_keeps]: "keeps I (topic_DeleteAdmin s i)" "keeps I (topic_HideForModeration s i)"
  unfolding topic_DeleteAdmin_def topic_HideForModeration_def by (intro social_keeps)+

end

end
