(* ===== verification/Social_System.thy ===== *)
theory Social_System
  imports Social_Inv
begin

text \<open>
  The queues with their handlers, the calls of the topics, the comments and the consumers as a transition system, and the
  predicates the properties are about.
\<close>

section \<open>The queues\<close>

datatype queue_message =
    ForTopicCheck "string delivery" | ForCommentAdd "comment_doc delivery" | ForTopicUpdate "user_update_msg delivery"
  | ForTopicDelete "string delivery" | ForCommentUpdate "user_update_msg delivery" | ForCommentDelete "(string \<times> string) delivery"
  | ForNotifyUser "notify_msg delivery" | ForDie string "die_msg delivery"

text \<open>The map of \<open>Start\<close>: each queue with its handler and its prefix. \<open>now\<close> and \<open>done_at\<close> are the clock before and after.\<close>

definition consume :: "mq_env \<Rightarrow> instant \<Rightarrow> instant \<Rightarrow> bool \<Rightarrow> queue_message \<Rightarrow> delivery_result handler" where
  "consume c now done_at swap msg =
     (case msg of
        ForTopicCheck d \<Rightarrow> HandleWithDedup c (dedupPrefix QueueTopicCheck) d (handleTopicCheck c) now done_at
      | ForCommentAdd d \<Rightarrow> HandleWithDedup c (dedupPrefix QueueCommentAdd) d (handleCommentAdd c now swap) now done_at
      | ForTopicUpdate d \<Rightarrow> HandleWithDedup c (dedupPrefix QueueTopicUpdate) d handleTopicUpdate now done_at
      | ForTopicDelete d \<Rightarrow> HandleWithDedup c (dedupPrefix QueueTopicDelete) d handleTopicDelete now done_at
      | ForCommentUpdate d \<Rightarrow> HandleWithDedup c (dedupPrefix QueueCommentUpdate) d handleCommentUpdate now done_at
      | ForCommentDelete d \<Rightarrow> HandleWithDedup c (dedupPrefix QueueCommentDelete) d (handleCommentDelete c) now done_at
      | ForNotifyUser d \<Rightarrow> HandleWithDedup c (dedupPrefix QueueNotifyUser) d (handleNotifyUser c) now done_at
      | ForDie raw d \<Rightarrow> HandleWithDedup c (dedupPrefix QueueDie) d (handleDie raw now) now done_at)"

text \<open>What a message is recognised by.\<close>

definition delivered_as :: "string \<Rightarrow> 'd delivery \<Rightarrow> string option" where
  "delivered_as queue d = (case d of BadBody \<Rightarrow> None | Message uniqueID _ \<Rightarrow> Some (dedup_key (dedupPrefix queue) uniqueID))"

definition message_key :: "queue_message \<Rightarrow> string option" where
  "message_key msg =
     (case msg of
        ForTopicCheck d \<Rightarrow> delivered_as QueueTopicCheck d
      | ForCommentAdd d \<Rightarrow> delivered_as QueueCommentAdd d
      | ForTopicUpdate d \<Rightarrow> delivered_as QueueTopicUpdate d
      | ForTopicDelete d \<Rightarrow> delivered_as QueueTopicDelete d
      | ForCommentUpdate d \<Rightarrow> delivered_as QueueCommentUpdate d
      | ForCommentDelete d \<Rightarrow> delivered_as QueueCommentDelete d
      | ForNotifyUser d \<Rightarrow> delivered_as QueueNotifyUser d
      | ForDie raw d \<Rightarrow> delivered_as QueueDie d)"

section \<open>Calls\<close>

inductive everyday_call :: "social_env \<Rightarrow> social_db \<Rightarrow> social_db \<Rightarrow> bool" for s t t' where
  call_Create: "outcome (topic_Create s cl req i) t r t' \<Longrightarrow> everyday_call s t t'"
| call_Delete: "outcome (topic_Delete s i n) t r t' \<Longrightarrow> everyday_call s t t'"
| call_GetByID: "outcome (topic_GetByID s i u a) t r t' \<Longrightarrow> everyday_call s t t'"
| call_UpdateAdmin: "outcome (UpdateAdmin s i upd) t r t' \<Longrightarrow> everyday_call s t t'"
| call_topic_ListMine: "outcome (topic_ListMine s n a page sz) t r t' \<Longrightarrow> everyday_call s t t'"
| call_ListTarget: "outcome (ListTargetUserTopics s n m a page sz) t r t' \<Longrightarrow> everyday_call s t t'"
| call_Search: "outcome (topic_Search s u a ths x ago page sz ord) t r t' \<Longrightarrow> everyday_call s t t'"
| call_ListLiked: "outcome (ListLikedTopics s n a page sz) t r t' \<Longrightarrow> everyday_call s t t'"
| call_ListCollected: "outcome (ListCollectedTopics s n a page sz) t r t' \<Longrightarrow> everyday_call s t t'"
| call_ListAdmin: "outcome (ListAdmin s page sz) t r t' \<Longrightarrow> everyday_call s t t'"
| call_topic_ReportTarget: "outcome (topic_ReportTarget s i) t r t' \<Longrightarrow> everyday_call s t t'"
| call_AddComment: "outcome (AddComment s i n x p j now) t r t' \<Longrightarrow> everyday_call s t t'"
| call_DeleteComment: "outcome (DeleteComment s i j n now) t r t' \<Longrightarrow> everyday_call s t t'"
| call_DeleteCommentAdmin: "outcome (DeleteCommentAdmin s i j now) t r t' \<Longrightarrow> everyday_call s t t'"
| call_comment_Hide: "outcome (comment_HideForModeration s j now) t r t' \<Longrightarrow> everyday_call s t t'"
| call_LikeComment: "outcome (LikeComment s j n) t r t' \<Longrightarrow> everyday_call s t t'"
| call_UnlikeComment: "outcome (UnlikeComment s j n) t r t' \<Longrightarrow> everyday_call s t t'"
| call_ListByTopic: "outcome (ListByTopic s i root n page sz) t r t' \<Longrightarrow> everyday_call s t t'"
| call_comment_ListMine: "outcome (comment_ListMine s n page sz) t r t' \<Longrightarrow> everyday_call s t t'"
| call_ListTargetComments: "outcome (ListTargetUserComments s n page sz) t r t' \<Longrightarrow> everyday_call s t t'"
| call_ListCommentAdmin: "outcome (ListCommentAdmin s i page sz) t r t' \<Longrightarrow> everyday_call s t t'"
| call_comment_ReportTarget: "outcome (comment_ReportTarget s j) t r t' \<Longrightarrow> everyday_call s t t'"

inductive publishing_call :: "social_env \<Rightarrow> social_db \<Rightarrow> social_db \<Rightarrow> bool" for s t t' where
  call_CreateAdmin: "outcome (CreateAdmin s cl req i) t r t' \<Longrightarrow> publishing_call s t t'"
| call_Update: "outcome (topic_Update s i n upd) t r t' \<Longrightarrow> publishing_call s t t'"

inductive cleanup_call :: "social_env \<Rightarrow> social_db \<Rightarrow> social_db \<Rightarrow> bool" for s t t' where
  call_DeleteAdmin: "outcome (topic_DeleteAdmin s i) t r t' \<Longrightarrow> cleanup_call s t t'"
| call_topic_Hide: "outcome (topic_HideForModeration s i) t r t' \<Longrightarrow> cleanup_call s t t'"

inductive social_call :: "social_env \<Rightarrow> social_db \<Rightarrow> social_db \<Rightarrow> bool" for s t t' where
  call_Like: "outcome (LikeTopic s cl i now) t r t' \<Longrightarrow> social_call s t t'"
| call_Unlike: "outcome (UnlikeTopic s n a i) t r t' \<Longrightarrow> social_call s t t'"
| call_Collect: "outcome (CollectTopic s cl i now) t r t' \<Longrightarrow> social_call s t t'"
| call_Uncollect: "outcome (UncollectTopic s n a i) t r t' \<Longrightarrow> social_call s t t'"

text \<open>A step of the system: a call, or a delivery from a queue at a time not before \<open>T\<close>.\<close>

inductive social_step :: "mq_env \<Rightarrow> instant \<Rightarrow> social_db \<Rightarrow> social_db \<Rightarrow> bool" for c T t t' where
  step_everyday: "everyday_call (mq_social c) t t' \<Longrightarrow> social_step c T t t'"
| step_publishing: "publishing_call (mq_social c) t t' \<Longrightarrow> social_step c T t t'"
| step_cleanup: "cleanup_call (mq_social c) t t' \<Longrightarrow> social_step c T t t'"
| step_social: "social_call (mq_social c) t t' \<Longrightarrow> social_step c T t t'"
| step_consume: "outcome (consume c now done_at swap msg) t r t' \<Longrightarrow> T \<le> now \<Longrightarrow> T \<le> done_at \<Longrightarrow> social_step c T t t'"

section \<open>What the kinds of calls keep\<close>

context everyday
begin

lemma everyday_call_kept: "everyday_call s t t' \<Longrightarrow> I t \<Longrightarrow> I t'"
  by (erule everyday_call.cases) (erule keepsD [rotated], assumption, intro social_keeps)+

end

text \<open>Predicates that do not ask whether a topic is published.\<close>

locale everyday_publish = everyday +
  assumes published_kept: "I t \<Longrightarrow> I (topics_update (update_rows (\<lambda>d. Topic_ID d = i) (checked_topic ti x imgs)) t)"
    and checked_kept: "I t \<Longrightarrow> I (topics_update (update_rows P (set_topic u)) t)"
    and admin_topic_added: "Topic_LikeNum d = 0 \<Longrightarrow> Topic_CollectionNum d = 0 \<Longrightarrow> topic_ids_ok (topics t @ [d]) \<Longrightarrow> I t \<Longrightarrow>
      I (topics_update (\<lambda>ts. ts @ [d]) t)"
begin

lemma keeps_handleTopicCheck [social_keeps]: "keeps I (handleTopicCheck c d)"
proof -
  have "keeps I (update_topics (\<lambda>d. Topic_ID d = i) (checked_topic ti x imgs))" for i ti x imgs
    unfolding update_topics_def by (rule keeps_stmt) (auto simp: published_kept)
  then show ?thesis unfolding handleTopicCheck_def check_topic_def Let_def by (intro social_keeps)
qed

lemma keeps_CreateAdmin: "keeps I (CreateAdmin s cl req i)"
  unfolding CreateAdmin_def CreateTopic_def Let_def
  by (intro social_keeps keeps_create_row admin_topic_added) (auto simp: buildAdminTopic_def new_topic_def)

lemma keeps_any_Update: "keeps I (topic_Update s i n req)"
proof -
  have "keeps I (UpdateTopic i u v)" for i u v
    unfolding UpdateTopic_def update_topics_def by (intro social_keeps keeps_stmt) (auto simp: checked_kept)
  then show ?thesis unfolding topic_Update_def Let_def by (intro social_keeps)
qed

lemma publishing_call_kept: "publishing_call s t t' \<Longrightarrow> I t \<Longrightarrow> I t'"
  by (erule publishing_call.cases) (auto dest: keepsD [OF keeps_CreateAdmin] keepsD [OF keeps_any_Update])

end

text \<open>Predicates that do not look at likes and collections.\<close>

locale everyday_social = everyday +
  assumes bump_kept: "I t \<Longrightarrow> I (topics_update (update_rows (\<lambda>d. Topic_ID d = i) (inc_field F n)) t)"
    and state_kept: "I t \<Longrightarrow> I (state_docs_update k f t)"
begin

lemma keeps_state_writes [social_keeps]:
  "keeps I (IncrementTopicField i F n)" "keeps I (AddTopicState k u th a i)" "keeps I (RemoveTopicState k u a i)"
  unfolding IncrementTopicField_def update_topics_def AddTopicState_def RemoveTopicState_def
  by (intro social_keeps keeps_stmt; auto simp: bump_kept state_kept)+

lemma keeps_likes [social_keeps]:
  "keeps I (LikeTopic s cl i now)" "keeps I (UnlikeTopic s n a i)" "keeps I (CollectTopic s cl i now)" "keeps I (UncollectTopic s n a i)"
  unfolding LikeTopic_def UnlikeTopic_def CollectTopic_def UncollectTopic_def Let_def by (intro social_keeps)+

lemma social_call_kept: "social_call s t t' \<Longrightarrow> I t \<Longrightarrow> I t'"
  by (erule social_call.cases) (erule keepsD [rotated], assumption, intro social_keeps)+

end

text \<open>Predicates that do not depend on the state of messages.\<close>

locale everyday_queue = everyday +
  assumes status_kept: "I t \<Longrightarrow> I (t\<lparr>mq_status := f\<rparr>)"
begin

lemma keeps_dedup:
  assumes "\<And>x. keeps I (h x)"
  shows "keeps I (HandleWithDedup c p d h now e)"
proof -
  have [social_keeps]: "keeps I (set_status k v n)" for k v n
    unfolding set_status_def by (rule keeps_stmt) (auto simp: status_kept)
  then show ?thesis
    unfolding HandleWithDedup_def setDedupDone_def Let_def
    by (cases d) (auto intro!: social_keeps keeps_retry assms simp del: handle_attempts.simps)
qed

text \<open>The consumers whose handlers keep a predicate.\<close>

lemma keeps_consume:
  assumes "\<And>d. keeps I (handleTopicCheck c d) \<or> (\<forall>m. msg \<noteq> ForTopicCheck m)"
    and "\<And>d. keeps I (handleTopicDelete d) \<or> (\<forall>m. msg \<noteq> ForTopicDelete m)"
  shows "keeps I (consume c now e swap msg)"
  using assms unfolding consume_def
  by (cases msg) (auto intro!: keeps_dedup social_keeps)

end

lemma cleanup_kept:
  assumes "everyday_cleanup I" "cleanup_call s t t'" "I t"
  shows "I t'"
  using assms(2)
  by cases (use assms in \<open>auto dest: keepsD [OF everyday_cleanup.keeps_topic_DeleteAdmin(1)] keepsD [OF everyday_cleanup.keeps_topic_DeleteAdmin(2)]\<close>)

end
