(* ===== verification/Social_Likes.thy ===== *)
theory Social_Likes
  imports Social_System
begin

text \<open>
  The counters of likes and collections and the documents they count. A topic's counter is the number of documents that have
  the topic, as long as no statement of a like fails, topics are named by their identifiers as they are printed, and no deleted
  topic is cleaned up.
\<close>

section \<open>Documents that have a topic\<close>

definition state_count :: "topic_state list \<Rightarrow> string \<Rightarrow> nat" where
  "state_count ds i = length (filter (\<lambda>l. i \<in> set (State_TopicIDs l)) ds)"

lemma state_count_simps [simp]:
  "state_count [] i = 0" "state_count (d # ds) i = (if i \<in> set (State_TopicIDs d) then 1 else 0) + state_count ds i"
  "state_count (ds @ es) i = state_count ds i + state_count es i"
  by (simp_all add: state_count_def)

lemma update_first_unchanged: "update_first P f ds = ds \<longleftrightarrow> (case find P ds of None \<Rightarrow> True | Some d \<Rightarrow> f d = d)"
  by (induction ds) auto

lemma count_update_first:
  assumes "update_first P f ds \<noteq> ds"
    and "\<And>d. f d \<noteq> d \<Longrightarrow> int (if j \<in> set (State_TopicIDs (f d)) then 1 else 0) = int (if j \<in> set (State_TopicIDs d) then 1 else 0) + n"
  shows "int (state_count (update_first P f ds) j) = int (state_count ds j) + n"
  using assms(1)
proof (induction ds)
  case (Cons d ds)
  then show ?case using assms(2) [of d] by (cases "P d") auto
qed simp

lemma count_add_state:
  assumes "add_state u th a i ds \<noteq> ds"
  shows "state_count (add_state u th a i ds) j = state_count ds j + (if j = i then 1 else 0)"
proof (cases "list_ex (owns_state u a) ds")
  case True
  let ?f = "\<lambda>d. d\<lparr>State_TopicIDs := add_to_set i (State_TopicIDs d)\<rparr>"
  have "int (state_count (update_first (owns_state u a) ?f ds) j) = int (state_count ds j) + (if j = i then 1 else 0)"
    using assms True by (intro count_update_first) (auto simp: add_state_def add_to_set_def)
  then show ?thesis using True by (auto simp: add_state_def)
qed (auto simp: add_state_def)

lemma count_remove_state:
  assumes "remove_state u a i ds \<noteq> ds"
  shows "int (state_count (remove_state u a i ds) j) = int (state_count ds j) + (if j = i then - 1 else 0)"
proof -
  have changed: "i \<in> set (State_TopicIDs d)" if "pull_state i d \<noteq> d" for d
    using that by (rule contrapos_np) (simp add: pull_state_def)
  show ?thesis
    using assms unfolding remove_state_def
    by (intro count_update_first) (auto simp: pull_state_def dest: changed [unfolded pull_state_def])
qed

section \<open>Exact counters\<close>

definition topic_count :: "state_coll \<Rightarrow> topic_doc \<Rightarrow> int64" where
  "topic_count k d = (case k of CollLike \<Rightarrow> Topic_LikeNum d | CollCollection \<Rightarrow> Topic_CollectionNum d)"

definition count_field :: "state_coll \<Rightarrow> topic_field" where
  "count_field k = (case k of CollLike \<Rightarrow> LikeNum | CollCollection \<Rightarrow> CollectionNum)"

definition counted :: "social_db \<Rightarrow> bool" where
  "counted t \<longleftrightarrow> topic_ids_ok (topics t) \<and>
     (\<forall>k. (\<forall>d \<in> set (topics t). topic_count k d = int (state_count (state_docs k t) (Topic_ID d))) \<and>
          (\<forall>i. 0 < state_count (state_docs k t) i \<longrightarrow> i \<in> Topic_ID ` set (topics t)))"

lemma counted_update:
  assumes "counted t" and "\<And>d. Topic_ID (f d) = Topic_ID d" and "\<And>k d. topic_count k (f d) = topic_count k d"
  shows "counted (topics_update (update_rows P f) t)"
proof -
  have "topic_ids_ok (update_rows P f (topics t))" using assms(1,2) by (simp add: counted_def topic_ids_ok_def map_key_update_rows)
  moreover have "Topic_ID ` set (update_rows P f (topics t)) = Topic_ID ` set (topics t)"
    using map_key_update_rows [of Topic_ID f P "topics t"] assms(2) by (metis list.set_map)
  moreover have "topic_count k d = int (state_count (state_docs k t) (Topic_ID d))" if "d \<in> set (update_rows P f (topics t))" for k d
    using that assms by (auto simp: counted_def update_rows_def split: if_splits)
  moreover have "state_docs k (topics_update (update_rows P f) t) = state_docs k t" for k
    by (simp add: state_docs_def split: state_coll.split)
  ultimately show ?thesis using assms(1) by (simp add: counted_def)
qed

lemma counted_added:
  assumes "counted t" and "topic_ids_ok (topics t @ [d])" and "Topic_LikeNum d = 0" and "Topic_CollectionNum d = 0"
  shows "counted (topics_update (\<lambda>ts. ts @ [d]) t)"
proof -
  have docs: "state_docs k (topics_update (\<lambda>ts. ts @ [d]) t) = state_docs k t" for k by (simp add: state_docs_def split: state_coll.split)
  have "Topic_ID d \<notin> Topic_ID ` set (topics t)" using assms(2) by (auto simp: topic_ids_ok_def)
  then have "state_count (state_docs k t) (Topic_ID d) = 0" for k using assms(1) by (auto simp: counted_def)
  moreover have "topic_count k d = 0" for k using assms(3,4) by (simp add: topic_count_def split: state_coll.split)
  ultimately show ?thesis using assms(1,2) by (auto simp: counted_def docs)
qed

lemma state_docs_other [simp]:
  "state_docs k (t\<lparr>mq_uuid := n\<rparr>) = state_docs k t" "state_docs k (comments_update f t) = state_docs k t"
  "state_docs k (comment_likes_update g t) = state_docs k t" "state_docs k (campus_mq_update h t) = state_docs k t"
  "state_docs k (t\<lparr>mq_status := m\<rparr>) = state_docs k t" "state_docs k (topics_update p t) = state_docs k t"
  by (simp_all add: state_docs_def split: state_coll.splits)

lemma counted_other:
  "counted t \<Longrightarrow> counted (t\<lparr>mq_uuid := n\<rparr>)" "counted t \<Longrightarrow> counted (comments_update f t)" "counted t \<Longrightarrow> counted (comment_likes_update g t)"
  "counted t \<Longrightarrow> counted (campus_mq_update h t)" "counted t \<Longrightarrow> counted (t\<lparr>mq_status := m\<rparr>)"
  by (simp_all add: counted_def)

interpretation counters: everyday_publish counted
proof unfold_locales
  fix f t P assume "quiet f" "counted t"
  then show "counted (topics_update (update_rows P f) t)"
    by (intro counted_update) (simp_all add: quiet_def topic_count_def split: state_coll.split)
next
  fix t i ti x imgs assume "counted t"
  then show "counted (topics_update (update_rows (\<lambda>d. Topic_ID d = i) (checked_topic ti x imgs)) t)"
    by (rule counted_update) (simp_all add: checked_topic_def topic_count_def split: state_coll.split)
next
  fix t P u assume "counted t"
  then show "counted (topics_update (update_rows P (set_topic u)) t)"
    by (rule counted_update) (simp_all add: set_topic_def topic_count_def split: state_coll.split)
qed (auto simp: plain_topic_def intro: counted_other counted_added)

interpretation counters_queue: everyday_queue counted
  by unfold_locales (rule counted_other)

section \<open>Likes and collections in calm worlds\<close>

text \<open>One document more and one more in the counter, or one less in both.\<close>

definition bump :: "state_coll \<Rightarrow> string \<Rightarrow> int64 \<Rightarrow> social_db \<Rightarrow> social_db" where
  "bump k i n t = topics_update (update_rows (\<lambda>d. Topic_ID d = i) (inc_field (count_field k) n)) t"

lemma state_docs_updated [simp]:
  "state_docs k (state_docs_update k f t) = f (state_docs k t)" "k \<noteq> k' \<Longrightarrow> state_docs k' (state_docs_update k f t) = state_docs k' t"
  "topics (state_docs_update k f t) = topics t" "state_docs k' (bump k i n t) = state_docs k' t"
  by (cases k; cases k'; simp add: state_docs_def state_docs_update_def bump_def)+

lemma counted_bump:
  assumes "counted t" and "i \<in> Topic_ID ` set (topics t)"
    and "\<And>j. int (state_count (f (state_docs k t)) j) = int (state_count (state_docs k t) j) + (if j = i then n else 0)"
  shows "counted (bump k i n (state_docs_update k f t))"
proof -
  let ?t = "bump k i n (state_docs_update k f t)"
  have rows: "topics ?t = update_rows (\<lambda>d. Topic_ID d = i) (inc_field (count_field k) n) (topics t)" by (simp add: bump_def)
  have ident: "Topic_ID (inc_field F m d) = Topic_ID d" for F m d by (simp add: inc_field_def split: topic_field.split)
  have keys: "map Topic_ID (topics ?t) = map Topic_ID (topics t)" unfolding rows by (rule map_key_update_rows) (rule ident)
  then have ids: "Topic_ID ` set (topics ?t) = Topic_ID ` set (topics t)" by (metis list.set_map)
  have "topic_count k' d = int (state_count (state_docs k' ?t) (Topic_ID d))" if "d \<in> set (topics ?t)" for k' d
  proof -
    from that obtain e where e: "e \<in> set (topics t)" "d = (if Topic_ID e = i then inc_field (count_field k) n e else e)"
      unfolding rows by (auto simp: update_rows_def)
    then have "topic_count k' e = int (state_count (state_docs k' t) (Topic_ID e))" using assms(1) by (simp add: counted_def)
    moreover have "topic_count k' (inc_field (count_field k) n e) = topic_count k' e + (if k = k' then n else 0)"
      by (cases k; cases k'; simp add: topic_count_def inc_field_def count_field_def)
    ultimately show ?thesis using e(2) assms(3) [of "Topic_ID e"] ident [of "count_field k" n e] by (cases "k = k'") auto
  qed
  moreover have "j \<in> Topic_ID ` set (topics t)" if "0 < state_count (state_docs k' ?t) j" for k' j
  proof (cases "k = k' \<and> j \<noteq> i")
    case True
    with assms(3) [of j] that have "0 < state_count (state_docs k' t) j" by auto
    with assms(1) show ?thesis by (auto simp: counted_def)
  next
    case False
    with assms(1,2) that show ?thesis by (cases "k = k'") (auto simp: counted_def)
  qed
  ultimately show ?thesis using keys ids assms(1) by (simp add: counted_def topic_ids_ok_def)
qed

lemma state_unchanged: "f (state_docs k t) = state_docs k t \<Longrightarrow> state_docs_update k f t = t"
  by (cases k) (simp_all add: state_docs_def state_docs_update_def)

lemma keeps_notify: "keeps (renumbered t) (sendTopicNotify s u v i x ty now)"
  unfolding sendTopicNotify_def SendNotifyUser_def by (intro social_keeps)

lemma notify_tables: "sendTopicNotify s u v i x ty now w = (r, w') \<Longrightarrow> renumbered (tables w) (tables w')"
  by (rule keepsD [OF keeps_notify outcomeI renumbered_refl])

text \<open>A topic named by its identifier as it is printed.\<close>

definition canonical :: "social_env \<Rightarrow> string \<Rightarrow> bool" where
  "canonical s i \<longleftrightarrow> so_object_id s (TrimSpace i) = Some i"

lemma calm_getTopicByID:
  assumes "calm w" and "canonical s i"
  shows "getTopicByID s i b w = (Inr (map_option (\<lambda>d. prepareTopic s (decoded_topic d))
    (find (\<lambda>d. Topic_ID d = i \<and> (b \<longrightarrow> Topic_HasCheck d)) (topics (tables w)))), w)"
  using assms by (simp add: getTopicByID_def parseTopicObjectID_def canonical_def present_def internal_error_def topic_FindTopicByID_def calm_simps)

lemma calm_resolveThemeName: "calm w \<Longrightarrow> \<exists>th'. resolveThemeName th w = (Inr th', w)"
  by (simp add: resolveThemeName_def FindThemeName_def calm_simps)

lemma calm_AddTopicState:
  "calm w \<Longrightarrow> internal_error msg (AddTopicState k u th a i) w =
     (Inr (add_state u th a i (state_docs k (tables w)) \<noteq> state_docs k (tables w)), w\<lparr>tables := state_docs_update k (add_state u th a i) (tables w)\<rparr>)"
  by (simp add: AddTopicState_def internal_error_def calm_simps)

lemma calm_RemoveTopicState:
  "calm w \<Longrightarrow> internal_error msg (RemoveTopicState k u a i) w =
     (Inr (remove_state u a i (state_docs k (tables w)) \<noteq> state_docs k (tables w)), w\<lparr>tables := state_docs_update k (remove_state u a i) (tables w)\<rparr>)"
  by (simp add: RemoveTopicState_def internal_error_def calm_simps)

lemma calm_state_writes:
  assumes "calm w"
  shows "\<exists>b w1. internal_error msg (AddTopicState k u th a i) w = (Inr b, w1)"
    and "\<exists>b w1. internal_error msg (RemoveTopicState k u a i) w = (Inr b, w1)"
  by (simp_all add: calm_AddTopicState [OF assms] calm_RemoveTopicState [OF assms])

lemma calm_bump:
  "calm w \<Longrightarrow> n \<noteq> 0 \<Longrightarrow> ignored (IncrementTopicField i (count_field k) n) w = (Inr (), w\<lparr>tables := bump k i n (tables w)\<rparr>)"
  by (simp add: ignored_def IncrementTopicField_def update_topics_def bump_def calm_simps)

text \<open>Adding and removing, as the four calls do it.\<close>

lemma counted_add:
  assumes "counted (tables w)" and "calm w" and "i \<in> Topic_ID ` set (topics (tables w))"
    and "(if \<not> b then e else bind (ignored (IncrementTopicField i (count_field k) 1)) (\<lambda>_. sendTopicNotify s v u' i x ty now)) w1 = (r, w')"
    and "internal_error msg (AddTopicState k u th a i) w = (Inr b, w1)" and "\<not> b \<Longrightarrow> tables (snd (e w1)) = tables w1"
  shows "counted (tables w')"
proof -
  let ?ds = "state_docs k (tables w)"
  have w1: "b \<longleftrightarrow> add_state u th a i ?ds \<noteq> ?ds" "w1 = w\<lparr>tables := state_docs_update k (add_state u th a i) (tables w)\<rparr>"
    using assms(5) calm_AddTopicState [OF assms(2), of msg k u th a i] by auto
  show ?thesis
  proof (cases b)
    case True
    have "counted (bump k i 1 (tables w1))"
      unfolding w1(2) using w1(1) True by (simp, intro counted_bump assms(1,3)) (simp add: count_add_state)
    moreover have "calm w1" using assms(2) by (simp add: w1(2))
    then have "renumbered (bump k i 1 (tables w1)) (tables w')"
      using assms(4) True by (auto simp: bind_def calm_bump dest: notify_tables)
    ultimately show ?thesis by (auto simp: renumbered_def intro: counted_other)
  next
    case False
    then have "tables w1 = tables w" using w1 by (simp add: state_unchanged)
    with False assms(1,4,6) show ?thesis by (auto simp: prod_eq_iff)
  qed
qed

lemma counted_remove:
  assumes "counted (tables w)" and "calm w"
    and "(if b then ignored (IncrementTopicField i (count_field k) (-1)) else ret ()) w1 = (r, w')"
    and "internal_error msg (RemoveTopicState k u a i) w = (Inr b, w1)"
  shows "counted (tables w')"
proof -
  let ?ds = "state_docs k (tables w)"
  have w1: "b \<longleftrightarrow> remove_state u a i ?ds \<noteq> ?ds" "w1 = w\<lparr>tables := state_docs_update k (remove_state u a i) (tables w)\<rparr>"
    using assms(4) calm_RemoveTopicState [OF assms(2), of msg k u a i] by auto
  show ?thesis
  proof (cases b)
    case True
    note less = count_remove_state [of u a i ?ds]
    have "0 < state_count ?ds i" using less [of i] w1(1) True by simp
    then have "i \<in> Topic_ID ` set (topics (tables w))" using assms(1) by (auto simp: counted_def)
    then have "counted (bump k i (-1) (state_docs_update k (remove_state u a i) (tables w)))"
      using less w1(1) True by (intro counted_bump assms(1)) simp_all
    moreover have "calm w1" using assms(2) by (simp add: w1(2))
    ultimately show ?thesis using assms(3) True by (auto simp: calm_bump w1(2))
  next
    case False
    then have "tables w1 = tables w" using w1 by (simp add: state_unchanged)
    with False assms(1,3) show ?thesis by (auto simp: ret_def)
  qed
qed

definition calm_outcome :: "(social_db, social_event, 'e, 'a) prog \<Rightarrow> social_db \<Rightarrow> social_db \<Rightarrow> bool" where
  "calm_outcome m t t' \<longleftrightarrow> (\<exists>w r w'. calm w \<and> tables w = t \<and> m w = (r, w') \<and> tables w' = t')"

lemma found_topic:
  "find (\<lambda>d. Topic_ID d = i \<and> P d) ts = Some d \<Longrightarrow> Topic_ID d = i \<and> i \<in> Topic_ID ` set ts"
  by (auto dest: find_member)

lemma counted_Like:
  assumes "calm_outcome (LikeTopic s cl i now) t t'" and "canonical s i" and "counted t"
  shows "counted t'"
proof -
  from assms(1) obtain w r w' where w: "calm w" "tables w = t" "LikeTopic s cl i now w = (r, w')" "tables w' = t'"
    by (auto simp: calm_outcome_def)
  note run = calm_getTopicByID [OF w(1) assms(2), of True]
  show ?thesis
  proof (cases "cl = None \<or> find (\<lambda>d. Topic_ID d = i \<and> Topic_HasCheck d) (topics t) = None")
    case True
    then have "w' = w" using w(2,3) run by (auto simp: LikeTopic_def present_def bind_def ret_def throw_def Let_def split: option.splits)
    then show ?thesis using w assms(3) by simp
  next
    case False
    then obtain c d where cd: "cl = Some c" "find (\<lambda>d. Topic_ID d = i \<and> Topic_HasCheck d) (topics t) = Some d" by auto
    then have d: "Topic_ID d = i" "i \<in> Topic_ID ` set (topics t)" using found_topic by blast+
    obtain th where th: "resolveThemeName (Topic_ThemeID d) w = (Inr th, w)" using calm_resolveThemeName [OF w(1)] by blast
    obtain b w1 where add: "internal_error MLikeTopic (AddTopicState CollLike (FormatInt (Claims_UserID c)) th (Claims_AccountType c) i) w = (Inr b, w1)"
      using calm_state_writes(1) [OF w(1), of MLikeTopic] by blast
    have "(if \<not> b then throw ErrTopicAlreadyLiked else bind (ignored (IncrementTopicField i (count_field CollLike) 1))
        (\<lambda>_. sendTopicNotify s (Topic_UserID d) (FormatInt (Claims_UserID c)) i like_notice ''TOPIC_LIKE'' now)) w1 = (r, w')"
      using w(2,3) run cd d th add
      by (cases b; simp add: LikeTopic_def present_def bind_def [of "ret c" for c] bind_step ret_def Let_def prepareTopic_def decoded_topic_def count_field_def)
    from counted_add [OF _ w(1) _ this add] w assms(3) d(2) show ?thesis by (simp add: throw_def)
  qed
qed

lemma calm_CountTopicStateItems: "calm w \<Longrightarrow> \<exists>n. internal_error msg (CountTopicStateItems k u a) w = (Inr n, w)"
  by (simp add: CountTopicStateItems_def FindTopicStateDocs_def internal_error_def calm_simps)

lemma counted_Collect:
  assumes "calm_outcome (CollectTopic s cl i now) t t'" and "canonical s i" and "counted t"
  shows "counted t'"
proof -
  from assms(1) obtain w r w' where w: "calm w" "tables w = t" "CollectTopic s cl i now w = (r, w')" "tables w' = t'"
    by (auto simp: calm_outcome_def)
  note run = calm_getTopicByID [OF w(1) assms(2), of True]
  show ?thesis
  proof (cases "cl = None \<or> find (\<lambda>d. Topic_ID d = i \<and> Topic_HasCheck d) (topics t) = None")
    case True
    then have "w' = w" using w(2,3) run by (auto simp: CollectTopic_def present_def bind_def ret_def throw_def Let_def split: option.splits)
    then show ?thesis using w assms(3) by simp
  next
    case False
    then obtain c d where cd: "cl = Some c" "find (\<lambda>d. Topic_ID d = i \<and> Topic_HasCheck d) (topics t) = Some d" by auto
    then have d: "Topic_ID d = i" "i \<in> Topic_ID ` set (topics t)" using found_topic by blast+
    let ?u = "FormatInt (Claims_UserID c)" and ?a = "Claims_AccountType c"
    obtain th where th: "resolveThemeName (Topic_ThemeID d) w = (Inr th, w)" using calm_resolveThemeName [OF w(1)] by blast
    obtain n where n: "internal_error MCountCollection (CountTopicStateItems CollCollection ?u ?a) w = (Inr n, w)"
      using calm_CountTopicStateItems [OF w(1), of MCountCollection] by blast
    obtain b w1 where add: "internal_error MCollectTopic (AddTopicState CollCollection ?u th ?a i) w = (Inr b, w1)"
      using calm_state_writes(1) [OF w(1), of MCollectTopic] by blast
    have rest: "(if n \<ge> 500 then throw ErrTopicCollectionLimit w else (if \<not> b then ret () else
        bind (ignored (IncrementTopicField i (count_field CollCollection) 1))
        (\<lambda>_. sendTopicNotify s (Topic_UserID d) ?u i collection_notice ''TOPIC_COLLECTION'' now)) w1) = (r, w')"
      using w(2,3) run cd d th n add
      by (cases "n \<ge> 500"; cases b; simp add: CollectTopic_def present_def bind_def [of "ret c" for c] bind_step ret_def Let_def prepareTopic_def decoded_topic_def count_field_def)
    show ?thesis
    proof (cases "n \<ge> 500")
      case True
      then show ?thesis using rest w assms(3) by (simp add: throw_def)
    next
      case False
      with rest have "(if \<not> b then ret () else bind (ignored (IncrementTopicField i (count_field CollCollection) 1))
        (\<lambda>_. sendTopicNotify s (Topic_UserID d) ?u i collection_notice ''TOPIC_COLLECTION'' now)) w1 = (r, w')" by simp
      from counted_add [OF _ w(1) _ this add] w assms(3) d(2) show ?thesis by (simp add: ret_def)
    qed
  qed
qed

lemma calm_parse: "canonical s i \<Longrightarrow> parseTopicObjectID s i w = (Inr i, w)"
  by (simp add: parseTopicObjectID_def canonical_def present_def ret_def)

lemma counted_Unlike:
  assumes "calm_outcome (UnlikeTopic s n a i) t t'" and "canonical s i" and "counted t"
  shows "counted t'"
proof -
  from assms(1) obtain w r w' where w: "calm w" "tables w = t" "UnlikeTopic s n a i w = (r, w')" "tables w' = t'"
    by (auto simp: calm_outcome_def)
  obtain b w1 where rem: "internal_error MUnlikeTopic (RemoveTopicState CollLike (FormatInt n) a i) w = (Inr b, w1)"
    using calm_state_writes(2) [OF w(1), of MUnlikeTopic] by blast
  show ?thesis
  proof (cases "n \<le> 0")
    case False
    then have "(if b then ignored (IncrementTopicField i (count_field CollLike) (-1)) else ret ()) w1 = (r, w')"
      using w(3) calm_parse [OF assms(2)] rem by (cases b; simp add: UnlikeTopic_def bind_step count_field_def)
    from counted_remove [OF _ w(1) this rem] w assms(3) show ?thesis by simp
  qed (use w assms(3) in \<open>auto simp: UnlikeTopic_def throw_def\<close>)
qed

lemma counted_Uncollect:
  assumes "calm_outcome (UncollectTopic s n a i) t t'" and "canonical s i" and "counted t"
  shows "counted t'"
proof -
  from assms(1) obtain w r w' where w: "calm w" "tables w = t" "UncollectTopic s n a i w = (r, w')" "tables w' = t'"
    by (auto simp: calm_outcome_def)
  obtain b w1 where rem: "internal_error MUncollectTopic (RemoveTopicState CollCollection (FormatInt n) a i) w = (Inr b, w1)"
    using calm_state_writes(2) [OF w(1), of MUncollectTopic] by blast
  show ?thesis
  proof (cases "n \<le> 0")
    case False
    then have "(if b then ignored (IncrementTopicField i (count_field CollCollection) (-1)) else ret ()) w1 = (r, w')"
      using w(3) calm_parse [OF assms(2)] rem by (cases b; simp add: UncollectTopic_def bind_step count_field_def)
    from counted_remove [OF _ w(1) this rem] w assms(3) show ?thesis by simp
  qed (use w assms(3) in \<open>auto simp: UncollectTopic_def throw_def\<close>)
qed

section \<open>The system in which counters are exact\<close>

inductive counting_step :: "mq_env \<Rightarrow> social_db \<Rightarrow> social_db \<Rightarrow> bool" for c t t' where
  count_everyday: "everyday_call (mq_social c) t t' \<Longrightarrow> counting_step c t t'"
| count_publishing: "publishing_call (mq_social c) t t' \<Longrightarrow> counting_step c t t'"
| count_like: "calm_outcome (LikeTopic (mq_social c) cl i now) t t' \<Longrightarrow> canonical (mq_social c) i \<Longrightarrow> counting_step c t t'"
| count_unlike: "calm_outcome (UnlikeTopic (mq_social c) n a i) t t' \<Longrightarrow> canonical (mq_social c) i \<Longrightarrow> counting_step c t t'"
| count_collect: "calm_outcome (CollectTopic (mq_social c) cl i now) t t' \<Longrightarrow> canonical (mq_social c) i \<Longrightarrow> counting_step c t t'"
| count_uncollect: "calm_outcome (UncollectTopic (mq_social c) n a i) t t' \<Longrightarrow> canonical (mq_social c) i \<Longrightarrow> counting_step c t t'"
| count_consume: "outcome (consume c now done_at swap msg) t r t' \<Longrightarrow> \<forall>m. msg \<noteq> ForTopicDelete m \<Longrightarrow> counting_step c t t'"

definition no_topics :: "social_db \<Rightarrow> bool" where
  "no_topics t \<longleftrightarrow> topics t = [] \<and> topic_likes t = [] \<and> topic_collections t = []"

interpretation counting: invariant_system no_topics "counting_step c" counted for c
proof
  fix t assume "no_topics t"
  then show "counted t" by (simp add: no_topics_def counted_def topic_ids_ok_def state_docs_def split: state_coll.split)
next
  fix t t' assume "counting_step c t t'" "counted t"
  then show "counted t'"
  proof cases
    case (count_consume now done_at swap msg r)
    have "keeps counted (consume c now done_at swap msg)"
      by (rule counters_queue.keeps_consume) (use count_consume(2) counters.keeps_handleTopicCheck in auto)
    with count_consume(1) \<open>counted t\<close> show ?thesis by (blast dest: keepsD)
  qed (auto dest: counters.everyday_call_kept counters.publishing_call_kept counted_Like counted_Unlike counted_Collect counted_Uncollect)
qed

end
