(* ===== verification/Social_Example.thy ===== *)
theory Social_Example
  imports Social_System
begin

text \<open>A small community to evaluate the properties on: one theme, two users, one topic.\<close>

definition cx_object_id :: "string \<Rightarrow> string option" where
  "cx_object_id i = (if length i = 24 \<and> list_all hex_digit i then Some (map lower_char i) else None)"

definition cx_env :: social_env where
  "cx_env = \<lparr>so_has_db = True, so_has_redis = True, so_producer = True, so_checker = None, so_filter = None, so_page_size = None,
     so_object_id = cx_object_id, so_id_time = (\<lambda>_. []), so_topic_order = (\<lambda>_ ds. ds), so_comment_order = (\<lambda>_ cs. cs),
     so_regex = (\<lambda>_. None), so_lower = map lower_char, so_nano = 0, so_snowflake = 1\<rparr>"

definition cx_mq :: mq_env where
  "cx_mq = \<lparr>mq_social = cx_env, mq_wx = True, mq_sec_check = (\<lambda>x _. Some (''pass'', x)), mq_jw_base_url = None, mq_jw_api_key = [],
     mq_qr_service = (\<lambda>_ _ _. NoReply), mq_writer = None, mq_equal_fold = (=)\<rparr>"

definition cx_id :: string where "cx_id = ''5f0000000000000000000001''"
definition cx_cid :: string where "cx_cid = ''5f0000000000000000000002''"

definition cx_user :: "int64 \<Rightarrow> user_row" where
  "cx_user n = \<lparr>User_ID = n, User_Nickname = ''u'', User_Avatar = [], User_AccountType = ''base'', User_Power = 0, User_Gender = [],
     User_RootUserID = 0, User_Signature = [], User_StuIsCheck = True, User_ProvisionalExpiresAt = None, User_OpenID = ''o''\<rparr>"

definition cx_empty :: social_db where
  "cx_empty = \<lparr>topics = [], comments = [], comment_likes = [], topic_likes = [], topic_collections = [],
     themes = [\<lparr>Theme_Name = ''T'', Theme_ThemeID = ''t''\<rparr>], campus_users = [cx_user 1, cx_user 2], campus_mq = [], mq_uuid = 0,
     mq_status = Map.empty\<rparr>"

definition cx_req :: create_topic_req where
  "cx_req = \<lparr>NewTopic_ThemeID = ''t'', NewTopic_Title = ''hi'', NewTopic_Content = ''all'', NewTopic_Imgs = [], NewTopic_Ext = None,
     NewTopic_AccountType = ''base''\<rparr>"

definition cx_topic :: topic_doc where
  "cx_topic = buildAdminTopic (cx_user 1) cx_req cx_id"

definition cx_one :: social_db where
  "cx_one = cx_empty\<lparr>topics := [cx_topic]\<rparr>"

definition cx_claims :: claims where
  "cx_claims = \<lparr>Claims_UserID = 2, Claims_RootUserID = 2, Claims_AccountType = ''base''\<rparr>"

definition cx_state :: topic_state where
  "cx_state = \<lparr>State_UserID = ''2'', State_ThemeName = ''T'', State_AccountType = ''base'', State_TopicIDs = [cx_id]\<rparr>"

definition cx_liked :: social_db where
  "cx_liked = cx_one\<lparr>topics := [cx_topic\<lparr>Topic_LikeNum := 1\<rparr>], topic_likes := [cx_state], mq_uuid := 1\<rparr>"

definition cx_collected :: social_db where
  "cx_collected = cx_one\<lparr>topics := [cx_topic\<lparr>Topic_CollectionNum := 1\<rparr>], topic_collections := [cx_state], mq_uuid := 1\<rparr>"

definition cx_world :: "social_db \<Rightarrow> social_event list \<Rightarrow> (social_db, social_event) world" where
  "cx_world t evs = \<lparr>tables = t, connected = True, faults = [], outbox = evs\<rparr>"

lemma cx_calm [simp]:
  "calm (cx_world t evs)" "tables (cx_world t evs) = t" "(cx_world t evs)\<lparr>tables := u\<rparr> = cx_world u evs"
  "outbox (cx_world t evs) = evs" "(cx_world t evs)\<lparr>outbox := fs\<rparr> = cx_world t fs"
  by (simp_all add: calm_def cx_world_def)

lemma cx_outcome: "m (cx_world t evs) = (r, cx_world t' fs) \<Longrightarrow> outcome m t r t'"
  using outcomeI [of m "cx_world t evs" r "cx_world t' fs"] by simp

lemma cx_texts [simp]:
  "TrimSpace cx_id = cx_id" "TrimSpace cx_cid = cx_cid" "TrimSpace ''t'' = ''t''" "TrimSpace ''T'' = ''T''" "TrimSpace ''base'' = ''base''"
  "cx_object_id cx_id = Some cx_id" "cx_object_id cx_cid = Some cx_cid" "FormatInt 1 = ''1''" "FormatInt 2 = ''2''"
  by code_simp+

lemma cx_env_simps [simp]:
  "so_has_db cx_env" "so_has_redis cx_env" "so_producer cx_env" "so_checker cx_env = None" "so_filter cx_env = None"
  "so_object_id cx_env = cx_object_id" "so_snowflake cx_env = 1" "mq_social cx_mq = cx_env" "so_lower cx_env = map lower_char"
  by (simp_all add: cx_env_def cx_mq_def)

lemmas cx_eval = calm_simps Let_def internal_error_def present_def result_def check_def sql_db_def ignored_def
  ensureThemeExists_def ThemeExists_def resolveThemeName_def FindThemeName_def resolveAdminTopicAuthor_def
  normalizeTopicAccountType_def author_of_root_def topic_FindUserByID_def CreateTopic_def topic_ids_ok_def getTopicByID_def
  parseTopicObjectID_def topic_FindTopicByID_def AddTopicState_def add_state_def owns_state_def state_docs_def state_docs_update_def
  IncrementTopicField_def update_topics_def update_rows_def inc_field_def sendTopicNotify_def SendNotifyUser_def mq_Send_def next_uuid_def
  CountTopicStateItems_def FindTopicStateDocs_def prepareTopic_def decoded_topic_def

lemmas cx_data = cx_req_def cx_empty_def cx_user_def cx_one_def cx_topic_def cx_claims_def cx_state_def cx_liked_def cx_collected_def
  buildAdminTopic_def new_topic_def

lemma cx_admin_creates:
  "\<exists>v. CreateAdmin cx_env (Some 1) (Some cx_req) cx_id (cx_world cx_empty []) = (Inr v, cx_world cx_one [])"
  by (simp add: CreateAdmin_def cx_eval cx_data)

lemma cx_likes:
  "\<exists>ev. LikeTopic cx_env (Some cx_claims) cx_id 5 (cx_world cx_one []) = (Inr (), cx_world cx_liked [ev])"
  by (simp add: LikeTopic_def cx_eval cx_data) (rule exI, rule refl)

lemma cx_collects:
  "\<exists>ev. CollectTopic cx_env (Some cx_claims) cx_id 5 (cx_world cx_one []) = (Inr (), cx_world cx_collected [ev])"
  by (simp add: CollectTopic_def cx_eval cx_data) (rule exI, rule refl)

end
