(* ===== verification/Social_Props.thy ===== *)
theory Social_Props
  imports Social_Likes Social_Example
begin

text \<open>The properties of topics, comments and the queue, with concrete runs.\<close>

section \<open>Who publishes topics\<close>

definition visible :: "social_db \<Rightarrow> string \<Rightarrow> bool" where
  "visible t i \<longleftrightarrow> (\<exists>d \<in> set (topics t). Topic_ID d = i \<and> Topic_HasCheck d)"

definition nothing_new :: "social_db \<Rightarrow> social_db \<Rightarrow> bool" where
  "nothing_new t u \<longleftrightarrow> (\<forall>i. visible u i \<longrightarrow> visible t i)"

lemma visible_other [simp]:
  "visible (t\<lparr>mq_uuid := n\<rparr>) i = visible t i" "visible (comments_update f t) i = visible t i"
  "visible (comment_likes_update g t) i = visible t i" "visible (campus_mq_update h t) i = visible t i"
  "visible (t\<lparr>mq_status := m\<rparr>) i = visible t i" "visible (state_docs_update k x t) i = visible t i"
  by (auto simp: visible_def state_docs_update_def split: state_coll.splits)

lemma visible_added [simp]:
  "visible (topics_update (\<lambda>ts. ts @ [d]) t) i \<longleftrightarrow> visible t i \<or> Topic_ID d = i \<and> Topic_HasCheck d"
  by (auto simp: visible_def)

lemma visible_updated:
  assumes "visible (topics_update (update_rows P f) t) i"
    and "\<And>d. P d \<Longrightarrow> Topic_ID (f d) = Topic_ID d \<and> (Topic_HasCheck (f d) \<longrightarrow> Topic_HasCheck d)"
  shows "visible t i"
proof -
  obtain d where "d \<in> set (topics t)" "Topic_ID (if P d then f d else d) = i" "Topic_HasCheck (if P d then f d else d)"
    using assms(1) by (auto simp: visible_def update_rows_def)
  with assms(2) [of d] show ?thesis by (auto simp: visible_def split: if_splits)
qed

lemma visible_quiet: "quiet f \<Longrightarrow> visible (topics_update (update_rows P f) t) i \<Longrightarrow> visible t i"
  by (erule visible_updated) (simp add: quiet_def)

lemma visible_bump: "visible (topics_update (update_rows P (inc_field F n)) t) i \<Longrightarrow> visible t i"
  by (erule visible_updated) (simp add: inc_field_def split: topic_field.split)

interpretation unseen: everyday_cleanup "nothing_new t" for t
  by unfold_locales (auto simp: nothing_new_def plain_topic_def dest: visible_quiet)

interpretation unseen_queue: everyday_queue "nothing_new t" for t
  by unfold_locales (simp add: nothing_new_def)

interpretation unseen_social: everyday_social "nothing_new t" for t
  by unfold_locales (auto simp: nothing_new_def dest: visible_bump)

text \<open>The text of a topic as the sensitive word filter gives it, and what it means to pass the security check.\<close>

definition sensitive_text :: "mq_env \<Rightarrow> string \<Rightarrow> string option" where
  "sensitive_text c x =
     (case so_filter (mq_social c) of
        None \<Rightarrow> Some x
      | Some flt \<Rightarrow> if x = [] then Some x else (case flt x of Inl _ \<Rightarrow> None | Inr y \<Rightarrow> Some y))"

definition passed_check :: "mq_env \<Rightarrow> social_db \<Rightarrow> social_db \<Rightarrow> string \<Rightarrow> bool" where
  "passed_check c t t' i \<longleftrightarrow>
     (\<exists>d title content openID v title' w content' imgs.
        d \<in> set (topics t) \<and> Topic_ID d = i \<and>
        sensitive_text c (Topic_Title d) = Some title \<and> sensitive_text c (Topic_Content d) = Some content \<and>
        mq_sec_check c title openID = Some (v, title') \<and> mq_sec_check c content openID = Some (w, content') \<and>
        \<not> isRisky c v \<and> \<not> isRisky c w \<and> set imgs \<subseteq> set (Topic_Imgs d) \<and>
        topics t' = update_rows (\<lambda>d. Topic_ID d = i)
          (checked_topic (pickFiltered title title') (pickFiltered content content') imgs) (topics t))"

lemma filterSensitive_outcome:
  "outcome (filterSensitiveText c x) t r t' \<Longrightarrow> t' = t"
  "outcome (filterSensitiveText c x) t (Inr y) t' \<Longrightarrow> sensitive_text c x = Some y"
  by (auto simp: filterSensitiveText_def sensitive_text_def outcome_ret outcome_throw split: option.splits if_splits sum.splits)

lemma filterImages_outcome:
  "outcome (filterImagesWithQRCode c urls) t (Inr imgs) t' \<Longrightarrow> set imgs \<subseteq> set urls"
  by (auto simp: filterImagesWithQRCode_def outcome_ret Let_def split: if_splits option.splits dest!: outcome_bind_Inr)

lemma MsgSecCheck_outcome:
  "outcome (MsgSecCheck c x oid) t r t' \<Longrightarrow> t' = t"
  "outcome (MsgSecCheck c x oid) t (Inr p) t' \<Longrightarrow> mq_sec_check c x oid = Some p"
  by (auto simp: MsgSecCheck_def present_def outcome_ret outcome_throw split: option.splits)

lemma update_topics_outcome:
  "outcome (update_topics P f) t r t' \<Longrightarrow> (case r of Inl _ \<Rightarrow> t' = t | Inr _ \<Rightarrow> t' = topics_update (update_rows P f) t)"
  by (auto simp: update_topics_def outcome_stmt split: sum.splits)

lemma check_update:
  assumes "outcome (bind (attempt (filterImagesWithQRCode c (Topic_Imgs d))) (\<lambda>r.
      bind (update_topics (\<lambda>d. Topic_ID d = i) (checked_topic ti x (case r of Inl _ \<Rightarrow> Topic_Imgs d | Inr imgs \<Rightarrow> imgs))) (\<lambda>_. ret ()))) t r t'"
  shows "t' = t \<and> isl r \<or> (\<exists>imgs. set imgs \<subseteq> set (Topic_Imgs d) \<and>
    t' = topics_update (update_rows (\<lambda>d. Topic_ID d = i) (checked_topic ti x imgs)) t \<and> r = Inr ())"
proof -
  have read: "keeps (\<lambda>v. v = u) (attempt (filterImagesWithQRCode c (Topic_Imgs d)) :: (srepo_error + string list) handler)" for u
    by (intro social_keeps)
  from assms show ?thesis
  proof (rule bind_readE [OF _ read])
    fix q assume q: "outcome (attempt (filterImagesWithQRCode c (Topic_Imgs d)) :: (srepo_error + string list) handler) t (Inr q) t"
      and rest: "outcome (bind (update_topics (\<lambda>d. Topic_ID d = i)
        (checked_topic ti x (case q of Inl _ \<Rightarrow> Topic_Imgs d | Inr imgs \<Rightarrow> imgs))) (\<lambda>_. ret ())) t r t'"
    have "set (case q of Inl _ \<Rightarrow> Topic_Imgs d | Inr imgs \<Rightarrow> imgs) \<subseteq> set (Topic_Imgs d)"
      using q filterImages_outcome [of c "Topic_Imgs d" t _ t] by (auto simp: outcome_attempt split: sum.splits)
    then show ?thesis using rest
      by (auto elim!: outcome_bindE simp: outcome_ret dest!: update_topics_outcome)
  qed auto
qed

lemmas check_reads =
  bind_readE [OF _ keeps_consumer_lookups(1)] bind_readE [OF _ keeps_consumer_reads(1)] bind_readE [OF _ keeps_consumer_reads(4)]

lemma check_topic_outcome:
  assumes "outcome (check_topic c i d) t r t'" and "d \<in> set (topics t)" and "Topic_ID d = i"
  shows "t' = t \<or> r = Inr () \<and> passed_check c t t' i"
proof -
  have "t' = t \<or> r = Inr () \<and> (\<exists>openID title content v title' w content' imgs.
      sensitive_text c (Topic_Title d) = Some title \<and> sensitive_text c (Topic_Content d) = Some content \<and>
      mq_sec_check c title openID = Some (v, title') \<and> mq_sec_check c content openID = Some (w, content') \<and>
      \<not> isRisky c v \<and> \<not> isRisky c w \<and> set imgs \<subseteq> set (Topic_Imgs d) \<and>
      t' = topics_update (update_rows (\<lambda>d. Topic_ID d = i)
        (checked_topic (pickFiltered title title') (pickFiltered content content') imgs)) t)"
    using assms(1) unfolding check_topic_def Let_def
    by (auto simp: outcome_throw outcome_ret split: if_splits elim!: check_reads
        dest!: filterSensitive_outcome(2) MsgSecCheck_outcome(2) check_update) blast+
  moreover have "topics (topics_update f t) = f (topics t)" for f by simp
  ultimately show ?thesis using assms(2,3) unfolding passed_check_def by (elim disjE conjE exE) (simp, blast)
qed

lemma topic_check_outcome:
  assumes "outcome (handleTopicCheck c data) t r t'"
  shows "t' = t \<or> r = Inr () \<and> (\<exists>i. passed_check c t t' i)"
  using assms unfolding handleTopicCheck_def
  by (auto simp: outcome_ret present_outcome elim!: bind_readE [OF _ keeps_decodeData] bind_readE [OF _ keeps_present]
      bind_readE [OF _ keeps_find_row] split: option.splits
      dest!: outcome_find_row(1) find_member) (use check_topic_outcome in blast)+

text \<open>A delivery runs its handler between changes of the message states; failed attempts that change nothing do not show.\<close>

lemma retry_outcome:
  assumes "\<forall>t e t'. outcome h t (Inl e) t' \<longrightarrow> t' = t" and "outcome (handle_attempts n h) t r t'"
  shows "t' = t \<or> outcome h t (Inr ()) t'"
  using assms(2)
proof (induction n arbitrary: t)
  case (Suc n)
  from Suc.prems have "outcome (bind (attempt h) (\<lambda>r. case r of Inr _ \<Rightarrow> ret True | Inl _ \<Rightarrow> handle_attempts n h)) t r t'" by simp
  then show ?case
  proof (rule outcome_bindE)
    fix q t1 assume "outcome (attempt h :: (srepo_error + unit) handler) t (Inr q) t1"
      and rest: "outcome (case q of Inr _ \<Rightarrow> ret True | Inl _ \<Rightarrow> handle_attempts n h) t1 r t'"
    then have h: "outcome h t q t1" by (simp add: outcome_attempt)
    show ?thesis
    proof (cases q)
      case (Inl e)
      with assms(1) h have "t1 = t" by blast
      with Inl rest Suc.IH show ?thesis by simp
    qed (use h rest in \<open>simp add: outcome_ret\<close>)
  qed (simp add: outcome_attempt)
qed (simp add: outcome_ret)

definition same_but_status :: "social_db \<Rightarrow> social_db \<Rightarrow> bool" where
  "same_but_status t u \<longleftrightarrow> (\<exists>m. u = t\<lparr>mq_status := m\<rparr>)"

lemma keeps_status: "keeps (same_but_status t) (set_status k v now)" "keeps (same_but_status t) (setDedupDone c p n e)"
proof -
  show set: "keeps (same_but_status t) (set_status k v now)" for k v now
    unfolding set_status_def by (rule keeps_stmt) (auto simp: same_but_status_def intro: exI)
  show "keeps (same_but_status t) (setDedupDone c p n e)"
    unfolding setDedupDone_def by (intro social_keeps set)
qed

lemma dedup_outcome:
  assumes "outcome (HandleWithDedup c p d h now e) t r t'"
  shows "same_but_status t t' \<or> (\<exists>uid x u v q. d = Message uid x \<and> same_but_status t u \<and> outcome (handle_attempts 3 (h x)) u q v \<and> same_but_status v t')"
proof (cases d)
  case (Message uid x)
  let ?key = "dedup_key p uid"
  have refl: "same_but_status u u" for u by (auto simp: same_but_status_def intro: exI [of _ "mq_status u"])
  have seen: "keeps (\<lambda>v. v = u) (if so_has_redis (mq_social c) then already_seen c ?key now else ret False)" for u
    by (intro social_keeps)
  have mark: "keeps (same_but_status t) (if so_has_redis (mq_social c) then ignored (set_status ?key MsgIng now) else ret ())"
    by (intro social_keeps keeps_status)
  have finish: "keeps (same_but_status v) (if ok then bind (setDedupDone c p uid e) (\<lambda>_. ret Acked) else ret Nacked)" for ok v
    by (intro social_keeps keeps_status)
  from assms Message have "outcome (bind (if so_has_redis (mq_social c) then already_seen c ?key now else ret False) (\<lambda>seen.
      if seen then ret Acked else bind (if so_has_redis (mq_social c) then ignored (set_status ?key MsgIng now) else ret ()) (\<lambda>_.
      bind (handle_attempts 3 (h x)) (\<lambda>ok. if ok then bind (setDedupDone c p uid e) (\<lambda>_. ret Acked) else ret Nacked)))) t r t'"
    by (simp add: HandleWithDedup_def Let_def)
  then show ?thesis
  proof (rule bind_readE [OF _ seen])
    fix b assume "outcome (if b then ret Acked else bind (if so_has_redis (mq_social c) then ignored (set_status ?key MsgIng now) else ret ()) (\<lambda>_.
      bind (handle_attempts 3 (h x)) (\<lambda>ok. if ok then bind (setDedupDone c p uid e) (\<lambda>_. ret Acked) else ret Nacked))) t r t'"
    then show ?thesis
    proof (cases b)
      case False
      from \<open>outcome (if b then _ else _) t r t'\<close> False show ?thesis
        by (auto elim!: outcome_bindE dest!: keepsD [OF mark _ refl] keepsD [OF finish _ refl] simp: Message) (use refl in blast)
    qed (simp add: outcome_ret refl)
  qed (simp add: refl)
qed (use assms in \<open>auto simp: HandleWithDedup_def outcome_ret same_but_status_def intro: exI [of _ "mq_status t"]\<close>)

lemma check_delivered:
  assumes "outcome (HandleWithDedup c p d (handleTopicCheck c) now e) t r t'"
  shows "topics t' = topics t \<or> (\<exists>i. passed_check c t t' i)"
proof -
  from dedup_outcome [OF assms] consider "same_but_status t t'"
    | x u v q where "same_but_status t u" "outcome (handle_attempts 3 (handleTopicCheck c x)) u q v" "same_but_status v t'" by blast
  then show ?thesis
  proof cases
    case 2
    have failed: "\<forall>t1 e t2. outcome (handleTopicCheck c x) t1 (Inl e) t2 \<longrightarrow> t2 = t1" using topic_check_outcome by blast
    from retry_outcome [OF failed 2(2)] consider "v = u" | "outcome (handleTopicCheck c x) u (Inr ()) v" by blast
    then have "topics v = topics u \<or> (\<exists>i. passed_check c u v i)"
      using topic_check_outcome [of c x u "Inr ()" v] by cases auto
    moreover have "topics u = topics t" "topics t' = topics v" using 2(1,3) by (auto simp: same_but_status_def)
    ultimately show ?thesis by (auto simp: passed_check_def)
  qed (auto simp: same_but_status_def)
qed

lemma checked_visible:
  assumes "passed_check c t t' j" and "visible t' i" and "\<not> visible t i"
  shows "j = i"
proof (rule ccontr)
  assume "j \<noteq> i"
  from assms(1) obtain ti x imgs where rows: "topics t' = update_rows (\<lambda>d. Topic_ID d = j) (checked_topic ti x imgs) (topics t)"
    by (auto simp: passed_check_def)
  obtain d where "d \<in> set (topics t)" "Topic_ID (if Topic_ID d = j then checked_topic ti x imgs d else d) = i"
    "Topic_HasCheck (if Topic_ID d = j then checked_topic ti x imgs d else d)"
    using assms(2) rows by (auto simp: visible_def update_rows_def)
  with \<open>j \<noteq> i\<close> assms(3) show False by (auto simp: visible_def checked_topic_def split: if_splits)
qed

lemmas topic_reads = bind_readE [OF _ keeps_present] bind_readE [OF _ keeps_topic_helpers(2)] bind_readE [OF _ keeps_topic_helpers(3)]
  bind_readE [OF _ keeps_topic_helpers(4)] bind_readE [OF _ keeps_topic_lookups(2)] bind_readE [OF _ keeps_topic_lookups(5)]

lemma CreateTopic_outcome:
  assumes "outcome (CreateTopic d) t r t'"
  shows "t' = t \<and> isl r \<or> r = Inr () \<and> topic_ids_ok (topics t @ [d]) \<and> t' = topics_update (\<lambda>ts. ts @ [d]) t"
  using assms by (cases r) (auto simp: CreateTopic_def run_simps elim!: outcome_bindE)

lemma CreateAdmin_outcome:
  assumes "outcome (CreateAdmin s cl req j) t r t'"
  shows "t' = t \<or> (\<exists>admin rq u v. cl = Some admin \<and> req = Some rq \<and> r = Inr v \<and>
    t' = topics_update (\<lambda>ts. ts @ [buildAdminTopic u rq j]) t)"
proof -
  have fin: "t' = t \<or> r = Inr v \<and> t' = topics_update (\<lambda>ts. ts @ [d]) t"
    if "outcome (bind (internal_error MCreateTopic (CreateTopic d)) (\<lambda>_. ret v)) t r t'" for d v
    using that by (auto simp: outcome_ret elim!: outcome_bindE internal_outcomeE dest!: CreateTopic_outcome)
  show ?thesis using assms unfolding CreateAdmin_def Let_def
    by (auto simp: present_outcome elim!: topic_reads dest!: fin)
qed

lemma UpdateTopic_outcome:
  assumes "outcome (UpdateTopic i u v) t r t'"
  shows "t' = t \<or> t' = topics_update (update_rows (\<lambda>d. Topic_ID d = i \<and> Topic_UserID d = u) (set_topic v)) t"
  using assms by (auto simp: UpdateTopic_def outcome_gormDB elim!: outcome_bindE dest!: update_topics_outcome split: sum.splits)

lemma parse_outcome: "outcome (parseTopicObjectID s i) t (Inr j) t' \<longleftrightarrow> so_object_id s (TrimSpace i) = Some j \<and> t' = t"
  by (simp add: parseTopicObjectID_def present_outcome)

lemma topic_Update_outcome:
  assumes "outcome (topic_Update s i n req) t r t'"
  shows "t' = t \<or> (\<exists>rq j v. req = Some rq \<and> so_object_id s (TrimSpace i) = Some j \<and>
    (Set_HasCheck v = Some True \<longrightarrow> ChgTopic_HasCheck rq = Some True) \<and>
    t' = topics_update (update_rows (\<lambda>d. Topic_ID d = j \<and> Topic_UserID d = FormatInt n) (set_topic v)) t)"
proof -
  have fin: "t' = t \<or> t' = topics_update (update_rows (\<lambda>d. Topic_ID d = j \<and> Topic_UserID d = FormatInt n) (set_topic v)) t"
    if "outcome (bind (internal_error MUpdateTopic (UpdateTopic j (FormatInt n) v)) (\<lambda>ok. if \<not> ok then throw topic_ErrTopicNotFound else ret ())) t r t'" for j v
    using that by (auto simp: outcome_ret outcome_throw elim!: outcome_bindE internal_outcomeE split: if_splits dest!: UpdateTopic_outcome)
  show ?thesis
  proof (cases req)
    case (Some rq)
    show ?thesis using assms unfolding topic_Update_def Let_def Some
      by (auto simp: parse_outcome outcome_ret outcome_throw split: if_splits elim!: topic_reads dest!: fin; force split: option.splits)
  qed (use assms in \<open>simp add: topic_Update_def outcome_throw\<close>)
qed

text \<open>
  C34: A topic becomes visible only in three ways: an administrator creates it; its author sends an update that asks for it; or
  the consumer of the check queue found neither its filtered title nor its filtered content risky, and then it has exactly the
  checked text and only images it had before. No other call and no other message publishes a topic, whatever fails.
\<close>

theorem topics_published_only:
  assumes "social_step c T t t'" and "visible t' i" and "\<not> visible t i"
  shows "(\<exists>admin req v. outcome (CreateAdmin (mq_social c) (Some admin) (Some req) i) t (Inr v) t') \<or>
    (\<exists>userID topicID req r. outcome (topic_Update (mq_social c) topicID userID (Some req)) t r t' \<and>
       ChgTopic_HasCheck req = Some True \<and> so_object_id (mq_social c) (TrimSpace topicID) = Some i \<and>
       (\<exists>d \<in> set (topics t). Topic_ID d = i \<and> Topic_UserID d = FormatInt userID)) \<or>
    passed_check c t t' i"
proof -
  have new: "\<not> nothing_new t t'" using assms(2,3) by (auto simp: nothing_new_def)
  have start: "nothing_new t t" by (simp add: nothing_new_def)
  from assms(1) show ?thesis
  proof cases
    case step_publishing
    then show ?thesis
    proof cases
      case (call_CreateAdmin cl req j r)
      with CreateAdmin_outcome [OF call_CreateAdmin] assms(2,3) show ?thesis by (auto simp: buildAdminTopic_def new_topic_def)
    next
      case (call_Update j n upd r)
      from topic_Update_outcome [OF this] assms(2,3) obtain rq k v where rq: "upd = Some rq" "so_object_id (mq_social c) (TrimSpace j) = Some k"
        "Set_HasCheck v = Some True \<longrightarrow> ChgTopic_HasCheck rq = Some True"
        and t': "t' = topics_update (update_rows (\<lambda>d. Topic_ID d = k \<and> Topic_UserID d = FormatInt n) (set_topic v)) t" by blast
      obtain d where d: "d \<in> set (topics t)" "Topic_ID d = i" "\<not> Topic_HasCheck d" "Topic_ID d = k" "Topic_UserID d = FormatInt n"
        "Topic_HasCheck (set_topic v d)"
        using assms(2,3) unfolding t' by (auto simp: visible_def update_rows_def set_topic_def split: if_splits)
      then have "Set_HasCheck v = Some True" by (auto simp: set_topic_def split: option.splits)
      with rq d call_Update show ?thesis by blast
    qed
  next
    case (step_consume now done_at swap msg r)
    show ?thesis
    proof (cases "\<exists>m. msg = ForTopicCheck m")
      case True
      then obtain m where "outcome (HandleWithDedup c (dedupPrefix QueueTopicCheck) m (handleTopicCheck c) now done_at) t r t'"
        using step_consume(1) by (auto simp: consume_def)
      from check_delivered [OF this] assms(2,3) checked_visible [OF _ assms(2,3)] show ?thesis by (auto simp: visible_def)
    next
      case False
      then have "keeps (nothing_new t) (consume c now done_at swap msg)" 
        by (intro unseen_queue.keeps_consume) (use unseen.keeps_cleanup(2) in auto)
      from keepsD [OF this step_consume(1) start] new show ?thesis by simp
    qed
  qed (use new start unseen.everyday_call_kept unseen_social.social_call_kept
      cleanup_kept [OF unseen.everyday_cleanup_axioms] in blast)+
qed

theorem topics_published_only_witness:
  "(\<exists>admin req v. outcome (CreateAdmin (mq_social cx_mq) (Some admin) (Some req) cx_id) cx_empty (Inr v) cx_one) \<or>
    (\<exists>userID topicID req r. outcome (topic_Update (mq_social cx_mq) topicID userID (Some req)) cx_empty r cx_one \<and>
       ChgTopic_HasCheck req = Some True \<and> so_object_id (mq_social cx_mq) (TrimSpace topicID) = Some cx_id \<and>
       (\<exists>d \<in> set (topics cx_empty). Topic_ID d = cx_id \<and> Topic_UserID d = FormatInt userID)) \<or>
    passed_check cx_mq cx_empty cx_one cx_id"
proof (rule topics_published_only)
  obtain v where "outcome (CreateAdmin cx_env (Some 1) (Some cx_req) cx_id) cx_empty (Inr v) cx_one"
    using cx_admin_creates by (blast dest: cx_outcome)
  then have "publishing_call (mq_social cx_mq) cx_empty cx_one" by (simp only: cx_env_simps) (rule call_CreateAdmin)
  then show "social_step cx_mq 0 cx_empty cx_one" by (rule step_publishing)
qed (simp_all add: visible_def cx_data)

section \<open>Likes and collections\<close>

















section \<open>Observations\<close>

text \<open>
  Likes are kept under the identifier as the client writes it, while the topic is found by the value of the hexadecimal digits:
  with capital letters the same user likes the same topic again and the counter counts both.
\<close>

lemma liked_twice:
  "\<exists>t ev. LikeTopic cx_env (Some cx_claims) ''5F0000000000000000000001'' 6 (cx_world cx_liked []) = (Inr (), cx_world t [ev]) \<and>
     map Topic_LikeNum (topics t) = [2] \<and> map State_UserID (topic_likes t) = [''2'']"
proof -
  have parse: "TrimSpace ''5F0000000000000000000001'' = ''5F0000000000000000000001''" "cx_object_id ''5F0000000000000000000001'' = Some cx_id"
    "''5F0000000000000000000001'' \<noteq> cx_id" "cx_id \<noteq> ''5F0000000000000000000001''" by code_simp+
  show ?thesis
    by (simp add: LikeTopic_def cx_eval cx_data parse add_to_set_def)
      (intro exI conjI, rule refl, simp_all)
qed

text \<open>An author publishes a topic that no check has passed, or that a moderator has hidden, by asking for it.\<close>

lemma author_publishes_unchecked:
  "topic_Update cx_env cx_id 1 (Some \<lparr>ChgTopic_Title = [], ChgTopic_Content = [], ChgTopic_Imgs = [], ChgTopic_Ext = None, ChgTopic_HasCheck = Some True\<rparr>)
     (cx_world (cx_one\<lparr>topics := [cx_topic\<lparr>Topic_HasCheck := False\<rparr>]\<rparr>) []) = (Inr (), cx_world cx_one [])"
  by (simp add: topic_Update_def topic_capability_def filtered_field_def given_text_def no_update_def UpdateTopic_def set_topic_def cx_eval cx_data)

text \<open>
  A topic its author has deleted is a hidden one until the queue removes it. A check that is delivered meanwhile publishes it again.
\<close>

lemma deleted_topic_published:
  "handleTopicCheck cx_mq (Some cx_id) (cx_world (cx_one\<lparr>topics := [cx_topic\<lparr>Topic_HasCheck := False\<rparr>]\<rparr>) []) = (Inr (), cx_world cx_one [])"
proof -
  have user: "TrimSpace ''1'' = ''1''" "TrimSpace ''o'' = ''o''" "TrimSpace ''pass'' = ''pass''"
    "TrimSpace ''hi'' = ''hi''" "TrimSpace ''all'' = ''all''" "map lower_char ''pass'' = ''pass''" by code_simp+
  have parse: "ParseInt ''1'' = Some 1" using ParseInt_FormatInt [of 1] by (simp add: in_int64_def)
  show ?thesis
    by (simp add: parse handleTopicCheck_def check_topic_def decodeData_def resolveWXOpenID_def findWXUserRecord_def resolveWXOpenIDOwnerID_def
        validateWXOpenID_def filterSensitiveText_def MsgSecCheck_def isRisky_def pickFiltered_def filterImagesWithQRCode_def
        checked_topic_def cx_mq_def cx_eval cx_data user)
qed


end
