(* ===== verification/Queue_Props.thy ===== *)
theory Queue_Props
  imports Social_Example
begin

text \<open>
  Deduplication of messages: what a delivery leaves behind in Redis, and that a message is not handled a second time while it is there.
\<close>

section \<open>Marks\<close>

definition taken_up :: "string \<Rightarrow> instant \<Rightarrow> social_db \<Rightarrow> bool" where
  "taken_up key T t \<longleftrightarrow> (\<exists>v e. mq_status t key = Some (v, e) \<and> (v = MsgIng \<or> v = MsgPost) \<and> T + dedup_ttl \<le> e)"

lemma marked_other [simp]:
  "taken_up key T (t\<lparr>mq_uuid := n\<rparr>) = taken_up key T t" "taken_up key T (topics_update p t) = taken_up key T t"
  "taken_up key T (comments_update f t) = taken_up key T t" "taken_up key T (comment_likes_update g t) = taken_up key T t"
  "taken_up key T (campus_mq_update h t) = taken_up key T t" "taken_up key T (state_docs_update k x t) = taken_up key T t"
  by (simp_all add: taken_up_def state_docs_update_def split: state_coll.splits)

interpretation marks: everyday_publish "taken_up key T" for key T
  by unfold_locales simp_all

interpretation marks_social: everyday_social "taken_up key T" for key T
  by unfold_locales simp_all

interpretation marks_cleanup: everyday_cleanup "taken_up key T" for key T
  by unfold_locales simp

lemma keeps_mark:
  assumes "T \<le> now" and "v = MsgIng \<or> v = MsgPost"
  shows "keeps (taken_up key T) (set_status k v now)"
  unfolding set_status_def by (rule keeps_stmt) (use assms in \<open>auto simp: taken_up_def\<close>)

lemma keeps_after_mark:
  assumes "T \<le> e" and "\<And>x. keeps (taken_up key T) (h x)"
  shows "keeps (taken_up key T) (bind (handle_attempts 3 (h x)) (\<lambda>ok. if ok then bind (setDedupDone c p n e) (\<lambda>_. ret Acked) else ret Nacked))"
  unfolding setDedupDone_def
  by (intro social_keeps marks.keeps_retry assms keeps_mark [OF assms(1)] disjI2 refl)

lemma keeps_marked_dedup:
  assumes "T \<le> now" and "T \<le> e" and "\<And>x. keeps (taken_up key T) (h x)"
  shows "keeps (taken_up key T) (HandleWithDedup c p d h now e)"
proof (cases d)
  case (Message n x)
  then show ?thesis unfolding HandleWithDedup_def Let_def
    by (auto intro!: social_keeps keeps_after_mark assms(2,3) keeps_mark [OF assms(1)] simp del: handle_attempts.simps)
qed (auto simp: HandleWithDedup_def)

lemmas marks_handlers = marks.keeps_handleTopicCheck marks.keeps_handleCommentAdd marks.keeps_handlers marks.keeps_handleDie
  marks_cleanup.keeps_cleanup(2)

lemma keeps_marked_consume: "T \<le> now \<Longrightarrow> T \<le> e \<Longrightarrow> keeps (taken_up key T) (consume c now e swap msg)"
  unfolding consume_def by (cases msg) (auto intro!: keeps_marked_dedup marks_handlers)

lemma marked_step:
  assumes "social_step c T t t'" and "taken_up key T t"
  shows "taken_up key T t'"
  using assms(1)
proof cases
  case (step_consume now done_at swap msg r)
  with keepsD [OF keeps_marked_consume] assms(2) show ?thesis by blast
qed (use assms(2) marks.everyday_call_kept marks.publishing_call_kept marks_social.social_call_kept
    cleanup_kept [OF marks_cleanup.everyday_cleanup_axioms] in blast)+

lemma marked_steps: "(social_step c T)\<^sup>*\<^sup>* t t' \<Longrightarrow> taken_up key T t \<Longrightarrow> taken_up key T t'"
  by (induction rule: rtranclp_induct) (auto intro: marked_step)

section \<open>Deliveries\<close>

lemma first_delivery:
  assumes "so_has_redis (mq_social c)" and "faults w = False # False # fs"
    and "status_at (tables w) (dedup_key p n) now \<notin> {Some MsgIng, Some MsgPost}" and "now \<le> e"
    and "HandleWithDedup c p (Message n x) h now e w = (r, w')" and "\<And>x. keeps (taken_up (dedup_key p n) now) (h x)"
  shows "taken_up (dedup_key p n) now (tables w')"
proof -
  let ?key = "dedup_key p n"
  let ?w = "w\<lparr>faults := fs, tables := (tables w)\<lparr>mq_status := (mq_status (tables w))(?key \<mapsto> (MsgIng, now + dedup_ttl))\<rparr>\<rparr>"
  let ?rest = "bind (handle_attempts 3 (h x)) (\<lambda>ok. if ok then bind (setDedupDone c p n e) (\<lambda>_. ret Acked) else ret Nacked)"
  have seen: "already_seen c ?key now w = (Inr False, w\<lparr>faults := False # fs\<rparr>)"
    using assms(2,3) by (auto simp: already_seen_def attempt_def bind_def ret_def read_rows_def stmt_def faulty_def Let_def split: option.split)
  have mark: "ignored (set_status ?key MsgIng now) (w\<lparr>faults := False # fs\<rparr>) = (Inr (), ?w)"
    by (simp add: ignored_def set_status_def attempt_def bind_def ret_def stmt_def faulty_def Let_def)
  have "?rest ?w = (r, w')"
    using assms(1,5) by (simp add: HandleWithDedup_def Let_def bind_step(1) [where m = "already_seen c ?key now" and w = w, OF seen]
        bind_step(1) [where m = "ignored (set_status ?key MsgIng now)", OF mark])
  then have "outcome ?rest (tables ?w) r (tables w')" by (rule outcomeI)
  then show ?thesis by (rule keepsD [OF keeps_after_mark [OF assms(4,6)]]) (simp add: taken_up_def)
qed

lemma seen_delivery:
  assumes "so_has_redis (mq_social c)" and "faults w = False # fs"
    and "status_at (tables w) (dedup_key p n) now \<in> {Some MsgIng, Some MsgPost}"
  shows "HandleWithDedup c p (Message n x) h now e w = (Inr Acked, w\<lparr>faults := fs\<rparr>)"
proof -
  have "already_seen c (dedup_key p n) now w = (Inr True, w\<lparr>faults := fs\<rparr>)"
    using assms(2,3) by (auto simp: already_seen_def attempt_def bind_def ret_def read_rows_def stmt_def faulty_def Let_def)
  then show ?thesis using assms(1) by (simp add: HandleWithDedup_def Let_def bind_step ret_def)
qed

lemma consume_first:
  assumes "so_has_redis (mq_social c)" and "faults w = False # False # fs" and "message_key msg = Some key"
    and "status_at (tables w) key now \<notin> {Some MsgIng, Some MsgPost}" and "now \<le> e" and "consume c now e swap msg w = (r, w')"
  shows "taken_up key now (tables w')"
  using assms(3-6) unfolding consume_def message_key_def delivered_as_def
  by (cases msg) (auto split: delivery.splits intro!: marks_handlers intro: first_delivery [OF assms(1,2)])

lemma consume_seen:
  assumes "so_has_redis (mq_social c)" and "faults w = False # fs" and "message_key msg = Some key"
    and "status_at (tables w) key now \<in> {Some MsgIng, Some MsgPost}"
  shows "consume c now e swap msg w = (Inr Acked, w\<lparr>faults := fs\<rparr>)"
  using assms(3,4) unfolding consume_def message_key_def delivered_as_def
  by (cases msg) (auto split: delivery.splits intro!: seen_delivery [OF assms(1,2)])

text \<open>
  C35: A message is handled at most once. Once a delivery of a message has been taken up, with Redis answering, no later delivery
  of it within three days is handled again: whatever calls and deliveries happen in between and whatever fails in them, it is
  acknowledged and changes nothing, provided Redis answers.
\<close>

theorem message_handled_once:
  assumes "so_has_redis (mq_social c)" and "message_key msg = Some key"
    and "faults w = False # False # fs" and "status_at (tables w) key now \<notin> {Some MsgIng, Some MsgPost}" and "now \<le> done_at"
    and "consume c now done_at swap msg w = (r, w1)"
    and "(social_step c now)\<^sup>*\<^sup>* (tables w1) (tables w2)" and "faults w2 = False # gs" and "later < now + dedup_ttl"
  shows "consume c later done_later swap' msg w2 = (Inr Acked, w2\<lparr>faults := gs\<rparr>)"
proof -
  have "taken_up key now (tables w1)" by (rule consume_first [OF assms(1,3,2,4,5,6)])
  then have "taken_up key now (tables w2)" using marked_steps [OF assms(7)] by blast
  then have "status_at (tables w2) key later \<in> {Some MsgIng, Some MsgPost}"
    using assms(9) by (auto simp: taken_up_def status_at_def)
  from consume_seen [OF assms(1,8,2) this] show ?thesis .
qed

definition cx_retry_world :: "(social_db, social_event) world" where
  "cx_retry_world = \<lparr>tables = cx_one, connected = True, faults = [False, False], outbox = []\<rparr>"

theorem message_handled_once_witness:
  "consume cx_mq 200 201 True (ForTopicDelete (Message 7 (Some cx_id)))
     ((snd (consume cx_mq 100 101 True (ForTopicDelete (Message 7 (Some cx_id))) cx_retry_world))\<lparr>faults := [False]\<rparr>) =
   (Inr Acked, (snd (consume cx_mq 100 101 True (ForTopicDelete (Message 7 (Some cx_id))) cx_retry_world))\<lparr>faults := []\<rparr>)"
proof -
  obtain r w where run: "consume cx_mq 100 101 True (ForTopicDelete (Message 7 (Some cx_id))) cx_retry_world = (r, w)" by (rule prod.exhaust)
  obtain key where key: "message_key (ForTopicDelete (Message 7 (Some cx_id))) = Some key" by (simp add: message_key_def delivered_as_def)
  have "consume cx_mq 200 201 True (ForTopicDelete (Message 7 (Some cx_id))) (w\<lparr>faults := [False]\<rparr>) =
      (Inr Acked, w\<lparr>faults := [False], faults := []\<rparr>)"
    by (rule message_handled_once [OF _ key _ _ _ run])
      (simp_all add: cx_retry_world_def cx_one_def cx_empty_def status_at_def dedup_ttl_def)
  with run show ?thesis by simp
qed

section \<open>Two observations\<close>

lemma calm_seen:
  assumes "so_has_redis (mq_social c)" and "calm w" and "status_at (tables w) (dedup_key p n) now = Some MsgIng"
  shows "HandleWithDedup c p (Message n x) h now e w = (Inr Acked, w)"
  using assms by (simp add: HandleWithDedup_def already_seen_def calm_simps Let_def)

text \<open>
  A message whose handling was cut off by a crash is still marked as being handled: when the broker delivers it again it is
  acknowledged and lost.
\<close>

lemma interrupted_message_lost:
  assumes "so_has_redis (mq_social c)" and "message_key msg = Some key" and "status_at (tables w) key now = Some MsgIng" and "calm w"
  shows "consume c now e swap msg w = (Inr Acked, w)"
  using assms(2,3) unfolding consume_def message_key_def delivered_as_def
  by (cases msg) (auto split: delivery.splits intro!: calm_seen [OF assms(1,4)])

text \<open>
  The queue of dead letters has the prefix of the deletions: a deletion that failed three times is marked, and when it arrives
  as a dead letter with the same number it is acknowledged and never written down.
\<close>

lemma dead_deletion_dropped:
  "message_key (ForDie raw (Message n d)) = message_key (ForTopicDelete (Message n x))"
  "message_key (ForDie raw (Message n d)) = message_key (ForCommentDelete (Message n y))"
  by (simp_all add: message_key_def delivered_as_def dedupPrefix_def QueueDie_def QueueTopicDelete_def QueueCommentDelete_def
      QueueTopicCheck_def QueueCommentAdd_def QueueTopicUpdate_def QueueCommentUpdate_def QueueNotifyUser_def)

end
