(* ===== verification/Comment_Props.thy ===== *)
theory Comment_Props
  imports Social_Example
begin

text \<open>Which comments are accepted and what they look like, and what deleting and liking do.\<close>

section \<open>Accepted comments\<close>

text \<open>The rules of \<open>validateCommentPermission\<close>: who may comment on a topic.\<close>

definition may_comment :: "social_env \<Rightarrow> social_db \<Rightarrow> user_row \<Rightarrow> topic_doc \<Rightarrow> bool" where
  "may_comment s t u d \<longleftrightarrow>
     (let anonymous = (\<lambda>a. so_lower s (TrimSpace a) = ''anonymous'')
      in if anonymous (User_AccountType u) then anonymous (Topic_AccountType d)
         else anonymous (Topic_AccountType d) \<longrightarrow>
           (\<exists>v \<in> set (campus_users t). ParseInt (TrimSpace (Topic_UserID d)) = Some (User_ID v) \<and> root_of u \<noteq> root_of v))"

definition placed :: "social_env \<Rightarrow> social_db \<Rightarrow> string \<Rightarrow> comment_doc \<Rightarrow> bool" where
  "placed s t parentCmtID c \<longleftrightarrow>
     (if parentCmtID = ''0'' then Comment_RootCmtID c = ''0'' \<and> Comment_Parent c = None
      else \<exists>p \<in> set (comments t). so_object_id s (TrimSpace parentCmtID) = Some (Comment_ID p) \<and> Comment_Parent c = Some (Comment_User p) \<and>
        Comment_RootCmtID c = (if Comment_RootCmtID p \<in> {'''', ''0''} then Comment_ID p else Comment_RootCmtID p))"

lemma user_found:
  assumes "outcome (loadUser s n) t (Inr u) t'"
  shows "u \<in> set (campus_users t) \<and> User_ID u = n"
  using assms
  by (auto simp: loadUser_def comment_FindUserByID_def sql_db_def present_outcome internal_Inr outcome_ret outcome_throw
      split: if_splits dest!: outcome_bind_Inr outcome_find_row(1) find_member [OF sym])

lemma topic_found:
  assumes "outcome (getTopic s i b) t (Inr (Some ct)) t'"
  shows "CTopic_Topic ct \<in> set (topics t) \<and> so_object_id s (TrimSpace i) = Some (Topic_ID (CTopic_Topic ct))"
  using assms
  by (auto simp: getTopic_def comment_parseObjectID_def comment_FindTopicByID_def present_outcome internal_Inr outcome_ret outcome_gormDB
      dest!: outcome_bind_Inr outcome_find_row(1)) (auto dest: find_member simp: eq_commute [of "Some _"])

lemma comment_found:
  assumes "outcome (getCommentByID s i) t (Inr c) t'"
  shows "c \<in> set (comments t) \<and> so_object_id s (TrimSpace i) = Some (Comment_ID c)"
  using assms
  by (auto simp: getCommentByID_def comment_parseObjectID_def FindCommentByID_def present_outcome internal_Inr outcome_gormDB
      dest!: outcome_bind_Inr outcome_find_row(1) find_member [OF sym])

lemma permitted:
  assumes "outcome (validateCommentPermission s u d) t (Inr x) t'"
  shows "may_comment s t u d"
proof -
  have author: "v \<in> set (campus_users t) \<and> ParseInt (TrimSpace (Topic_UserID d)) = Some (User_ID v)"
    if "outcome (loadUserByStringID s (Topic_UserID d)) t (Inr v) t1" for v t1
    using that by (auto simp: loadUserByStringID_def present_outcome dest!: outcome_bind_Inr user_found)
  show ?thesis using assms unfolding validateCommentPermission_def may_comment_def normalizeCommentAccountType_def Let_def
    by (auto simp: outcome_ret outcome_throw split: if_splits dest!: outcome_bind_Inr author)
qed

lemma reply_placed:
  assumes "outcome (if p \<noteq> DefaultRootCommentID then bind (getCommentByID s p) (\<lambda>parent. ret (reply_to parent c)) else ret c) t (Inr c') t'"
    and "Comment_RootCmtID c = ''0''" and "Comment_Parent c = None"
  shows "placed s t p c' \<and> (\<exists>r q. c' = c\<lparr>Comment_Parent := q, Comment_RootCmtID := r\<rparr>)"
proof (cases "p = ''0''")
  case True
  then have "c' = c" using assms(1) by (simp add: DefaultRootCommentID_def outcome_ret)
  with True assms(2,3) show ?thesis by (simp add: placed_def) (intro exI [of _ "Comment_RootCmtID c"] exI [of _ "Comment_Parent c"], simp)
next
  case False
  then obtain pc where pc: "pc \<in> set (comments t)" "so_object_id s (TrimSpace p) = Some (Comment_ID pc)" "c' = reply_to pc c"
    using assms(1) by (auto simp: DefaultRootCommentID_def outcome_ret dest!: outcome_bind_Inr comment_found)
  with False show ?thesis by (auto simp: placed_def reply_to_def DefaultRootCommentID_def)
qed

lemmas comment_reads = bind_readE [OF _ keeps_present] bind_readE [OF _ keeps_comment_reads(10)] bind_readE [OF _ keeps_comment_lookups(2)]
  bind_readE [OF _ keeps_comment_lookups(1)] bind_readE [OF _ keeps_comment_lists(1)] bind_readE [OF _ keeps_comment_reads(8)]

lemma keeps_reply: "keeps I (if b then bind (getCommentByID s p) (\<lambda>parent. ret (g parent)) else ret c)"
  by (intro social_keeps)

lemma keeps_announce: "keeps (renumbered t) (if so_producer s then ignored (SendAddComment s c) else ret ())"
  unfolding SendAddComment_def by (intro social_keeps)

lemma stored_outcome:
  assumes "outcome (bind (internal_error MCreateCmt (CreateComment c)) (\<lambda>_.
      bind (if so_producer s then ignored (SendAddComment s c) else ret ()) (\<lambda>_. ret j))) t (Inr i) t'"
  shows "i = j \<and> comment_ids_ok (comments t @ [c]) \<and> (\<exists>n. t' = t\<lparr>comments := comments t @ [c], mq_uuid := n\<rparr>)"
proof -
  from assms obtain x t1 t2 y where made: "outcome (CreateComment c) t (Inr x) t1"
    and sent: "outcome (if so_producer s then ignored (SendAddComment s c) else ret () :: unit cservice) t1 (Inr y) t2" and fin: "i = j" "t' = t2"
    by (auto simp: internal_Inr outcome_ret dest!: outcome_bind_Inr)
  from made have "t1 = t\<lparr>comments := comments t @ [c]\<rparr>" "comment_ids_ok (comments t @ [c])"
    by (auto simp: CreateComment_def run_simps dest!: outcome_bind_Inr)
  moreover have "renumbered t1 t2"
    by (rule keepsD [OF keeps_announce sent renumbered_refl])
  ultimately show ?thesis using fin by (auto simp: renumbered_def)
qed

text \<open>
  C38: An accepted comment is one its author may make, and it is stored where it belongs. The topic and the user exist; an anonymous
  account comments on anonymous topics only, and nobody comments with a base account on an anonymous topic of the same person. The
  comment is added as a new document with the author's identity and no likes, in the thread of its parent: a reply to a reply has
  the same root. Nothing else changes but the number of messages.
\<close>

theorem comment_accepted:
  assumes "outcome (AddComment s topicID n content parentCmtID newID now) t (Inr i) t'"
  shows "i = newID \<and> (\<exists>d u c m. d \<in> set (topics t) \<and> so_object_id s (TrimSpace topicID) = Some (Topic_ID d) \<and>
    u \<in> set (campus_users t) \<and> User_ID u = n \<and> may_comment s t u d \<and>
    Comment_ID c = newID \<and> Comment_TopicID c = topicID \<and> CUser_UserID (Comment_User c) = FormatInt n \<and>
    Comment_LikeNum c = 0 \<and> Comment_CommentNum c = 0 \<and> (Comment_IsAuthor c \<longleftrightarrow> Topic_UserID d = FormatInt n) \<and>
    placed s t parentCmtID c \<and> newID \<notin> Comment_ID ` set (comments t) \<and>
    t' = t\<lparr>comments := comments t @ [c], mq_uuid := m\<rparr>)"
proof -
  let ?new = "\<lambda>ct u x. new_comment newID topicID (CTopic_Topic ct) u n x parentCmtID now"
  from assms obtain ct u x c where
    topic: "outcome (getTopic s topicID False) t (Inr (Some ct)) t" and user: "outcome (loadUser s n) t (Inr u) t"
    and ok: "outcome (validateCommentPermission s u (CTopic_Topic ct)) t (Inr ()) t"
    and reply: "outcome (if parentCmtID \<noteq> DefaultRootCommentID then bind (getCommentByID s parentCmtID) (\<lambda>parent. ret (reply_to parent (?new ct u x)))
        else ret (?new ct u x)) t (Inr c) t"
    and fin: "outcome (bind (internal_error MCreateCmt (CreateComment c)) (\<lambda>_.
      bind (if so_producer s then ignored (SendAddComment s c) else ret ()) (\<lambda>_. ret newID))) t (Inr i) t'"
    by (use assms in \<open>unfold AddComment_def Let_def, auto simp: present_outcome elim!: comment_reads bind_readE [OF _ keeps_reply]\<close>)
  note d = topic_found [OF topic] and u = user_found [OF user] and may = permitted [OF ok] and stored = stored_outcome [OF fin]
  have "placed s t parentCmtID c \<and> (\<exists>r q. c = (?new ct u x)\<lparr>Comment_Parent := q, Comment_RootCmtID := r\<rparr>)"
    by (rule reply_placed [OF reply]) (simp_all add: new_comment_def DefaultRootCommentID_def)
  moreover from this have "Comment_ID c = newID" "Comment_TopicID c = topicID" "CUser_UserID (Comment_User c) = FormatInt n"
    "Comment_LikeNum c = 0" "Comment_CommentNum c = 0" "Comment_IsAuthor c \<longleftrightarrow> Topic_UserID (CTopic_Topic ct) = FormatInt n"
    using u by (auto simp: new_comment_def buildCommentUser_def)
  moreover have "newID \<notin> Comment_ID ` set (comments t)" using stored calculation(2) by (auto simp: comment_ids_ok_def)
  ultimately show ?thesis using d u may stored by blast
qed

lemmas cx_comment_eval = comment_capability_def getTopic_def comment_parseObjectID_def comment_FindTopicByID_def loadUser_def comment_FindUserByID_def
  validateCommentPermission_def normalizeCommentAccountType_def comment_filterText_def DefaultRootCommentID_def CreateComment_def comment_ids_ok_def
  SendAddComment_def getCommentByID_def FindCommentByID_def HideCommentByUser_def hideComment_def finish_delete_def decrementCommentCounters_def
  IncrementTopicCommentNum_def update_comment_def inc_topic_comments_def comment_userIDString_def

definition cx_comment :: comment_doc where
  "cx_comment = new_comment cx_cid cx_id cx_topic (cx_user 2) 2 ''nice'' ''0'' 5"

definition cx_commented :: social_db where
  "cx_commented = cx_one\<lparr>comments := [cx_comment], mq_uuid := 1\<rparr>"

lemma cx_comments:
  "\<exists>ev. AddComment cx_env cx_id 2 ''nice'' ''0'' cx_cid 5 (cx_world cx_one []) = (Inr cx_cid, cx_world cx_commented [ev])"
proof -
  have kind: "map lower_char ''base'' = ''base''" by code_simp
  show ?thesis
    by (simp add: AddComment_def cx_eval cx_data cx_comment_eval kind cx_commented_def cx_comment_def) (rule exI, rule refl)?
qed

theorem comment_accepted_witness:
  "\<exists>d u c m. d \<in> set (topics cx_one) \<and> so_object_id cx_env (TrimSpace cx_id) = Some (Topic_ID d) \<and>
    u \<in> set (campus_users cx_one) \<and> User_ID u = 2 \<and> may_comment cx_env cx_one u d \<and> Comment_ID c = cx_cid \<and>
    cx_commented = cx_one\<lparr>comments := comments cx_one @ [c], mq_uuid := m\<rparr>"
proof -
  obtain ev where "AddComment cx_env cx_id 2 ''nice'' ''0'' cx_cid 5 (cx_world cx_one []) = (Inr cx_cid, cx_world cx_commented [ev])"
    using cx_comments by blast
  then have "outcome (AddComment cx_env cx_id 2 ''nice'' ''0'' cx_cid 5) cx_one (Inr cx_cid) cx_commented" by (rule cx_outcome)
  from comment_accepted [OF this] show ?thesis by blast
qed

text \<open>
  Hiding a comment writes the time, so a comment that is hidden already is modified again: deleting it a second time, a
  millisecond later, takes one more from the comments of the topic.
\<close>

definition cx_counted :: "int64 \<Rightarrow> bool option \<Rightarrow> instant option \<Rightarrow> social_db" where
  "cx_counted n shown deleted = cx_one\<lparr>topics := [cx_topic\<lparr>Topic_CommentNum := n\<rparr>],
     comments := [cx_comment\<lparr>Comment_HasCheck := shown, Comment_deletedTime := deleted\<rparr>]\<rparr>"

lemma cx_decrements:
  "attempt (decrementCommentCounters cx_env cx_id ''0'') (cx_world (cx_counted n shown deleted) []) =
    (Inr (Inr ()), cx_world (cx_counted (n - 1) shown deleted) [])"
  by (simp add: attempt_def cx_eval cx_data cx_comment_eval cx_counted_def)

lemma cx_deletes:
  assumes "deleted \<noteq> Some now"
  shows "DeleteComment cx_env cx_id cx_cid 2 now (cx_world (cx_counted n shown deleted) []) =
    (Inr (), cx_world (cx_counted (n - 1) (Some False) (Some now)) [])"
proof -
  have find: "getCommentByID cx_env cx_cid (cx_world (cx_counted n shown deleted) []) =
      (Inr (cx_comment\<lparr>Comment_HasCheck := shown, Comment_deletedTime := deleted\<rparr>), cx_world (cx_counted n shown deleted) [])"
    by (simp add: cx_eval cx_comment_eval cx_counted_def cx_comment_def new_comment_def)
  have hide: "attempt (HideCommentByUser cx_id cx_cid ''2'' now) (cx_world (cx_counted n shown deleted) []) =
      (Inr (Inr (True, True)), cx_world (cx_counted n (Some False) (Some now)) [])"
    using assms by (simp add: attempt_def cx_eval cx_comment_eval cx_counted_def cx_comment_def new_comment_def buildCommentUser_def rows_changed_def cx_data)
  have root: "Comment_RootCmtID cx_comment = ''0''" by (simp add: cx_comment_def new_comment_def DefaultRootCommentID_def)
  show ?thesis
    by (simp add: DeleteComment_def bind_def find comment_parseObjectID_def present_def ret_def comment_userIDString_def hide finish_delete_def root cx_decrements)
qed

lemma deleted_twice:
  "bind (DeleteComment cx_env cx_id cx_cid 2 6) (\<lambda>_. DeleteComment cx_env cx_id cx_cid 2 7) (cx_world (cx_counted 1 (Some True) None) []) =
    (Inr (), cx_world (cx_counted (-1) (Some False) (Some 7)) [])"
  by (simp add: bind_def cx_deletes)

end
