(* ===== verification/Spec2Isabelle.thy ===== *)
theory Spec2Isabelle
  imports Marketplace_Props Reservation_Props Moderation_Props Sensitive_Props Impact_Props Notification_Props File_Props Academic_Props
    Social_Props Queue_Props Comment_Props
begin

text \<open>
  Verification of the campus backend (the Go module \<open>Ecampus-go\<close>).

  \<^bold>\<open>The program.\<close> The backend is a set of services over MySQL, MongoDB and Redis. The development
  covers the modules that keep the business state, bottom up:

  \<^item> the second-hand marketplace (\<open>internal/marketplace\<close>): items, orders, payments, refunds, disputes and
    settlements, with a payment gateway and background jobs;
  \<^item> venue reservations (\<open>internal/reservation\<close>): weekly rules, generated slots, bookings, check-in, closures;
  \<^item> moderation (\<open>internal/moderation\<close>, \<open>internal/app/moderationadapter\<close>): reports, punishments, appeals, the
    audit log and the capability check that the other modules call before they act;
  \<^item> sensitive words (\<open>internal/sensitive\<close>): the filter that user texts pass through;
  \<^item> notifications (\<open>internal/notification\<close>, \<open>internal/app/notificationadapter\<close>): what the other modules and the
    message queue send to users;
  \<^item> files (\<open>internal/file\<close>, \<open>internal/integration/cosutil\<close>): images and documents in object storage with
    their reference counts;
  \<^item> courses, reviews and study materials (\<open>internal/academic\<close>), whose documents are kept by the file service;
  \<^item> topics and comments (\<open>internal/topic\<close>, \<open>internal/comment\<close>) and the message queue that checks them and cleans up after
    them (\<open>internal/mq\<close>, \<open>internal/app/commentproducer\<close>);
  \<^item> the change analysis of the delivery pipeline (\<open>internal/ciimpact\<close>, \<open>cmd/ecampus-impact\<close>).

  The marketplace, the reservations, the courses, topics and comments ask the moderation for the capabilities of a user
  (\<open>CheckCapability\<close>); marketplace, reservations and moderation tell users what happened through the notification
  adapter, topics and comments through the queue, whose consumer calls the same adapter; all modules that keep
  texts ask the text filter. In the
  models of the callers these collaborators are fields of the environment, so every theorem holds for any answer.

  \<^bold>\<open>Shared theories.\<close> \<open>GoPrelude\<close> has the parts of Go's library that the sources use: 64-bit wrap-around,
  truncating division, \<open>strings.TrimSpace\<close> byte by byte, \<open>strconv\<close>, splitting and joining, and the development's
  collections of lemmas. \<open>Rel_Store\<close> has the store: programs over a world that holds the tables, the choice of
  failing statements and the calls that leave the process; one combinator per kind of statement; transactions
  that undo their writes on an error; the relation \<open>outcome\<close>, the predicate \<open>keeps\<close> for invariants, the equations
  for calm worlds (nothing fails), and the locale \<open>invariant_system\<close> of transition systems. \<open>Bizerr\<close> has
  the business errors of \<open>internal/platform/bizerr\<close>, \<open>Pagination\<close> the pages of \<open>internal/platform/pagination\<close>
  and the locale \<open>page_normaliser\<close>, interpreted on the page functions of six modules.

  \<^bold>\<open>Marketplace.\<close> \<open>Marketplace_Model\<close> has tables, statuses, the commission and identifiers (\<open>model.go\<close>,
  \<open>errors.go\<close>); \<open>Marketplace_Repo\<close> one program per method of the four \<open>repository*.go\<close> files; \<open>Marketplace_Resp\<close>
  requests, responses, image references and the gateways (\<open>gateway.go\<close>, locale \<open>payment_gateway\<close>, interpreted on
  the test and the disabled gateway); \<open>Marketplace_Service\<close> the methods of the four \<open>service*.go\<close> files.
  \<open>Marketplace_Spec\<close> states what the module promises as an abstract machine (\<open>spec_step\<close>) with its invariant;
  \<open>Marketplace_Refine\<close> shows that every run of a repository method is one step of it; \<open>Marketplace_System\<close> builds the
  transition system and what follows along runs; \<open>Marketplace_Calls\<close> shows that every service call, the background
  jobs included, is a sequence of its steps. The properties: refinement by the repository and by the service, where
  the money of a completed, refunded or cancelled order is, the exact commission for all 64-bit prices, one active order per
  item, the life cycle of orders, and which payment callbacks are believed.

  \<^bold>\<open>Reservations.\<close> \<open>Reservation_Model\<close>, \<open>Reservation_Repo\<close> and \<open>Reservation_Service\<close> follow \<open>model*.go\<close>,
  \<open>repository.go\<close> and \<open>service.go\<close>. \<open>Reservation_Inv\<close> has the abstract board of places and holders and the
  invariant of the tables, \<open>Reservation_Refine\<close> and \<open>Reservation_System\<close> that every write moves the board by its steps,
  \<open>Reservation_Calls\<close> the service calls and the slot loop, \<open>Reservation_Live\<close> what succeeds when nothing fails.
  The slot loop of \<open>AvailableSlots\<close> would not end for a slot length that is not positive, so it is a partial function
  whose non-termination is the value \<open>None\<close>; that it returns on every reachable table is a property. No other
  definition needs fuel. The properties: no overbooking, no double booking, check-in codes, closures,
  identifiers, and that the slots are found; lemmas show that every call keeps the invariant, that an accepted booking is
  within the limits, that a possible one is accepted, that a cancellation gives back one place and the closed form of the
  slot loop.

  \<^bold>\<open>Moderation.\<close> \<open>Moderation_Model\<close>, \<open>Moderation_Repo\<close> and \<open>Moderation_Service\<close> follow the sources, with the
  cache of capabilities kept in Redis as a map with expiry times and \<open>AccountGuard\<close> of \<open>handler.go\<close>.
  \<open>Moderation_Inv\<close>, \<open>Moderation_System\<close> and \<open>Moderation_Calls\<close> show the invariant and the life cycle for every
  call, \<open>Moderation_Live\<close> what the capability checks answer. The properties: traceable punishments, the
  life cycle, who decides, exact and wrapping durations, how long a cached denial lasts, that a punishment
  takes effect and that a revocation lifts it; lemmas show that every call keeps the invariant, what a check denies and that
  appeals are sound.

  \<^bold>\<open>Sensitive words.\<close> \<open>Sensitive_Model\<close> has texts as lists of runes, normalisation, the word list and the masking
  patterns (a greedy match with noise between the runes); \<open>Sensitive_Mask\<close> what masking does to a text;
  \<open>Sensitive_Service\<close> repository and service. The properties: no reported word can be read in the result, and an
  added word is masked from then on.

  \<^bold>\<open>Change analysis.\<close> \<open>Impact_Model\<close> has cleaned paths, the manifest and the parser of \<open>git diff --name-status\<close>
  with the line limit of the scanner; \<open>Impact_Eval\<close> the dependency graph, \<open>Evaluate\<close> and the program;
  \<open>Impact_Spec\<close> which services a change concerns, and that the loops select exactly those. The properties: no build is
  missed from \<open>go list\<close> to the answer, the selection is exact, errors select everything, the answer is well formed.

  \<^bold>\<open>Notifications.\<close> \<open>Notification_Model\<close> has documents, responses and filters, \<open>Notification_Service\<close> the
  repository, the service and the adapter, \<open>Notification_Inv\<close> that documents only advance and only their receivers can
  mark them. The properties: an event is delivered once, documents are append-only and private, unread counts are exact.

  \<^bold>\<open>Files.\<close> \<open>File_Model\<close> has the records, headers and errors and the object storage, two buckets kept as maps from keys
  to objects, with the client's \<open>Put\<close>, \<open>PutWithImageProcess\<close> and \<open>Delete\<close> (every request may fail); \<open>File_Service\<close> the
  repository and the service, \<open>File_Inv\<close> what a call does to the references of a content. The hash, the detection of
  formats and the archive reader are parameters. The properties: references are counted exactly, and a document whose
  address is given can be downloaded; a lemma shows how images shared by two users are lost.

  \<^bold>\<open>Courses.\<close> \<open>Academic_Model\<close> has courses, reviews, materials and ratings, \<open>Academic_Service\<close> the repository and
  the service; \<open>Academic_Merge\<close> shows that the loop of \<open>MergeCourses\<close>, one statement after the other, computes a
  function of the rows; \<open>Academic_Inv\<close> has the invariant (keys, foreign keys, ratings, merge targets) and that every
  call keeps it. The properties: ratings and averages stay in bounds, and merging courses loses nobody's review.

  \<^bold>\<open>Topics, comments and the queue.\<close> \<open>Social_Model\<close> has the collections both packages and the queue share, the messages
  and the producers; \<open>Topic_Service\<close> and \<open>Topic_Social\<close> the repository and the service of topics, \<open>Comment_Service\<close> those
  of comments, \<open>Queue_Consumer\<close> deduplication, retries and one handler per queue. \<open>Social_Inv\<close> states what the
  operations rely on as locales: \<open>everyday\<close> fixes a predicate that the ordinary writes keep and proves once that every call then
  keeps it, \<open>everyday_cleanup\<close> adds the cleaning of a deleted topic; \<open>Social_System\<close> extends them to publishing,
  to likes and to deliveries, and has the system of calls and deliveries (\<open>social_step\<close>). They are interpreted on the
  predicates of the properties. \<open>Social_Likes\<close> has the system in which counting is exact, \<open>Social_Example\<close> a small community on
  which the properties are evaluated. The properties: who can make a topic visible, a message is handled once, the counters
  are exact, collections are bounded, and which comments are accepted; lemmas show what goes wrong beyond their
  hypotheses (identifiers in other spellings, late checks, crashes, dead letters of deletions).

  \<^bold>\<open>Conventions.\<close> Instants are milliseconds, the precision of the date columns. Identifiers from the snowflake generator
  or from AUTO_INCREMENT, the clock, locked rows that a query skips, and the order of equal elements in a sort are arguments.
  Parameters also stand for code outside the sources: the payment gateway, resolvers of other modules, Unicode tables,
  the normal form NFKC, the matching library \<open>importcjj/sensitive\<close>, collations, \<open>LIKE\<close> and \<open>AVG\<close>, printing of times, \<open>go list\<close>,
  \<open>git\<close>, JSON decoding, the sort and the pattern matching of MongoDB, \<open>ObjectIDFromHex\<close>, the checks of WeChat and the QR
  code service. What a theorem needs of them is a hypothesis of that theorem. A statement or commit may fail at
  any point (\<open>faults\<close>), and unless a theorem says that the world is calm it holds for every choice of failures.
  Transactions run one after the other; calls of a service interleave between their transactions.

  \<^bold>\<open>Not modelled.\<close> HTTP handlers and routes (they bind JSON, call one method and write the answer), except
  \<open>AccountGuard\<close>; the goroutines around the modelled rounds (tickers, subscribers, the reading of deliveries) and the
  broker's connections, confirmations and topology; WebSocket chat and the agent's gRPC stream, whose state is in
  connections; the clients of WeChat and of the teaching administration (network I/O), configuration, tokens and wiring of the
  servers; accounts and sessions (\<open>internal/user\<close>), which mostly combine those clients and tokens, and the directories of
  schools and themes, which the modelled modules only read; the release catalogue under \<open>platform/server\<close>, a separate program.
\<close>

end
